(* ===== verification/Iccp_Prelude.thy ===== *)
theory Iccp_Prelude
  imports Main "HOL-Library.Word" "HOL-Library.Monad_Syntax"
begin

text \<open>
  Shared vocabulary of the development: machine integers at their C widths, the
  host/network byte order conversions of a little-endian host, byte buffers
  (the global scratch buffer messages are built in) and received messages,
  C strings in fixed-size fields, and loops in the option monad.

  Conventions used by every theory that follows:

  \<^item> an operation that may touch memory it must not touch (a NULL pointer, a
    freed object, a byte beyond the end of a message) has an \<^typ>\<open>'a option\<close>
    result and \<^const>\<open>None\<close> stands for that undefined behaviour;
  \<^item> a C error return is a value, never \<^const>\<open>None\<close>.
\<close>

unbundle bit_operations_syntax

named_theorems buf_simps \<open>reading back what was written into a buffer\<close>
named_theorems wire_defs \<open>sizes and codes of the wire format\<close>
named_theorems frame_simps \<open>parts of the state an operation leaves alone\<close>

type_synonym u8 = "8 word"
type_synonym u16 = "16 word"
type_synonym u32 = "32 word"
type_synonym u64 = "64 word"
type_synonym buf = "nat \<Rightarrow> u8"
type_synonym bytes = "u8 list"

subsection \<open>Byte order\<close>

text \<open>\<open>htons\<close> and \<open>htonl\<close> (and their inverses) on a little-endian host swap bytes.\<close>

definition byte_of :: "nat \<Rightarrow> 'a::len word \<Rightarrow> u8" where
  "byte_of k w = ucast (drop_bit (8 * k) w)"

definition mk16 :: "u8 \<Rightarrow> u8 \<Rightarrow> u16" where
  "mk16 a b = ucast a OR push_bit 8 (ucast b)"

definition mk32 :: "u8 \<Rightarrow> u8 \<Rightarrow> u8 \<Rightarrow> u8 \<Rightarrow> u32" where
  "mk32 a b c d = ucast a OR push_bit 8 (ucast b) OR push_bit 16 (ucast c) OR push_bit 24 (ucast d)"

definition htons :: "u16 \<Rightarrow> u16" where
  "htons w = mk16 (byte_of 1 w) (byte_of 0 w)"

definition htonl :: "u32 \<Rightarrow> u32" where
  "htonl w = mk32 (byte_of 3 w) (byte_of 2 w) (byte_of 1 w) (byte_of 0 w)"

abbreviation ntohs :: "u16 \<Rightarrow> u16" where "ntohs \<equiv> htons"
abbreviation ntohl :: "u32 \<Rightarrow> u32" where "ntohl \<equiv> htonl"

text \<open>Words as they lie in memory, least significant byte first.\<close>

definition le16 :: "u16 \<Rightarrow> bytes" where
  "le16 w = [byte_of 0 w, byte_of 1 w]"

definition le32 :: "u32 \<Rightarrow> bytes" where
  "le32 w = [byte_of 0 w, byte_of 1 w, byte_of 2 w, byte_of 3 w]"

lemma bit_u8D: "bit (a :: u8) n \<Longrightarrow> n < 8"
  using bit_imp_le_length [of a n] by simp

lemma mk16_bytes [simp]:
  "mk16 (byte_of 0 w) (byte_of 1 w) = w" "mk16 (byte_of 0 w) (byte_of (Suc 0) w) = w"
  by (rule bit_word_eqI; auto simp: mk16_def byte_of_def bit_simps)+

lemma byte_of_mk16 [simp]:
  "byte_of 0 (mk16 a b) = a" "byte_of 1 (mk16 a b) = b" "byte_of (Suc 0) (mk16 a b) = b"
  by (rule bit_word_eqI; auto simp: mk16_def byte_of_def bit_simps dest: bit_u8D)+

lemma mk32_bytes [simp]:
  "mk32 (byte_of 0 w) (byte_of 1 w) (byte_of 2 w) (byte_of 3 w) = w"
  "mk32 (byte_of 0 w) (byte_of (Suc 0) w) (byte_of 2 w) (byte_of 3 w) = w"
proof -
  show "mk32 (byte_of 0 w) (byte_of 1 w) (byte_of 2 w) (byte_of 3 w) = w"
  proof (rule bit_word_eqI)
    fix n assume "n < LENGTH(32)"
    then consider "n < 8" | "8 \<le> n" "n < 16" | "16 \<le> n" "n < 24" | "24 \<le> n" "n < 32"
      by fastforce
    then show "bit (mk32 (byte_of 0 w) (byte_of 1 w) (byte_of 2 w) (byte_of 3 w)) n = bit w n"
      by cases (auto simp: mk32_def byte_of_def bit_simps)
  qed
  then show "mk32 (byte_of 0 w) (byte_of (Suc 0) w) (byte_of 2 w) (byte_of 3 w) = w" by simp
qed

lemma byte_of_mk32 [simp]:
  "byte_of 0 (mk32 a b c d) = a" "byte_of 1 (mk32 a b c d) = b" "byte_of (Suc 0) (mk32 a b c d) = b"
  "byte_of 2 (mk32 a b c d) = c" "byte_of 3 (mk32 a b c d) = d"
  by (rule bit_word_eqI; auto simp: mk32_def byte_of_def bit_simps dest: bit_u8D)+

lemma htons_mk16 [simp]: "htons (mk16 a b) = mk16 b a"
  by (simp add: htons_def)

lemma htons_htons [simp]: "htons (htons w) = w"
  by (simp add: htons_def)

lemma htonl_htonl [simp]: "htonl (htonl w) = w"
  by (simp add: htonl_def)

lemma htons_eq_iff [simp]: "htons a = htons b \<longleftrightarrow> a = b"
  by (metis htons_htons)

lemma htonl_eq_iff [simp]: "htonl a = htonl b \<longleftrightarrow> a = b"
  by (metis htonl_htonl)

lemma htonl_0 [simp]: "htonl 0 = 0"
  by (simp add: htonl_def byte_of_def mk32_def)

lemma htons_0 [simp]: "htons 0 = 0"
  by (simp add: htons_def byte_of_def mk16_def)

subsection \<open>Buffers\<close>

text \<open>
  A buffer under construction is a total function from offsets to bytes; the
  operations that fill it check their bounds against the buffer size before
  they write.
\<close>

definition stn :: "nat \<Rightarrow> bytes \<Rightarrow> buf \<Rightarrow> buf" where
  "stn i bs b = (\<lambda>j. if i \<le> j \<and> j < i + length bs then bs ! (j - i) else b j)"

definition st8 :: "nat \<Rightarrow> u8 \<Rightarrow> buf \<Rightarrow> buf" where "st8 i v = stn i [v]"
definition st16 :: "nat \<Rightarrow> u16 \<Rightarrow> buf \<Rightarrow> buf" where "st16 i v = stn i (le16 v)"
definition st32 :: "nat \<Rightarrow> u32 \<Rightarrow> buf \<Rightarrow> buf" where "st32 i v = stn i (le32 v)"

definition rdn :: "nat \<Rightarrow> nat \<Rightarrow> buf \<Rightarrow> bytes" where
  "rdn i n b = map b [i..<i + n]"

definition rd8 :: "nat \<Rightarrow> buf \<Rightarrow> u8" where "rd8 i b = b i"
definition rd16 :: "nat \<Rightarrow> buf \<Rightarrow> u16" where "rd16 i b = mk16 (b i) (b (i + 1))"
definition rd32 :: "nat \<Rightarrow> buf \<Rightarrow> u32" where
  "rd32 i b = mk32 (b i) (b (i + 1)) (b (i + 2)) (b (i + 3))"

text \<open>\<open>memset (buf, 0, size)\<close>\<close>

definition zero_buf :: buf where "zero_buf = (\<lambda>_. 0)"

lemma length_le [simp]: "length (le16 v) = 2" "length (le32 w) = 4"
  by (simp_all add: le16_def le32_def)

lemma length_rdn [simp]: "length (rdn i n b) = n"
  by (simp add: rdn_def)

lemma stn_apply: "stn i bs b j = (if i \<le> j \<and> j < i + length bs then bs ! (j - i) else b j)"
  by (simp add: stn_def)

lemma stn_out [buf_simps]: "j < i \<or> i + length bs \<le> j \<Longrightarrow> stn i bs b j = b j"
  by (auto simp: stn_def)

lemma rdn_stn_same [buf_simps]: "length bs = n \<Longrightarrow> rdn i n (stn i bs b) = bs"
  by (auto simp: rdn_def stn_def intro: nth_equalityI)

lemma rdn_stn_other [buf_simps]:
  "i + n \<le> j \<or> j + length bs \<le> i \<Longrightarrow> rdn i n (stn j bs b) = rdn i n b"
  by (auto simp: rdn_def stn_def)

lemma rd8_stn_other [buf_simps]:
  "i < j \<or> j + length bs \<le> i \<Longrightarrow> rd8 i (stn j bs b) = rd8 i b"
  by (auto simp: rd8_def stn_def)

lemma rd16_stn_other [buf_simps]:
  "i + 2 \<le> j \<or> j + length bs \<le> i \<Longrightarrow> rd16 i (stn j bs b) = rd16 i b"
  by (auto simp: rd16_def stn_def)

lemma rd32_stn_other [buf_simps]:
  "i + 4 \<le> j \<or> j + length bs \<le> i \<Longrightarrow> rd32 i (stn j bs b) = rd32 i b"
  by (auto simp: rd32_def stn_def)

lemma rd_st_same [buf_simps]:
  "rd8 i (st8 i v b) = v" "rd16 i (st16 i w b) = w" "rd32 i (st32 i x b) = x"
  by (simp_all add: rd8_def rd16_def rd32_def st8_def st16_def st32_def stn_def le16_def le32_def)

lemma rd8_st_other [buf_simps]:
  "i \<noteq> j \<Longrightarrow> rd8 i (st8 j v b) = rd8 i b"
  "i < j \<or> j + 2 \<le> i \<Longrightarrow> rd8 i (st16 j w b) = rd8 i b"
  "i < j \<or> j + 4 \<le> i \<Longrightarrow> rd8 i (st32 j x b) = rd8 i b"
  by (auto simp: st8_def st16_def st32_def stn_def rd8_def)

lemma rd16_st_other [buf_simps]:
  "i + 2 \<le> j \<or> j + 1 \<le> i \<Longrightarrow> rd16 i (st8 j v b) = rd16 i b"
  "i + 2 \<le> j \<or> j + 2 \<le> i \<Longrightarrow> rd16 i (st16 j w b) = rd16 i b"
  "i + 2 \<le> j \<or> j + 4 \<le> i \<Longrightarrow> rd16 i (st32 j x b) = rd16 i b"
  by (auto simp: st8_def st16_def st32_def rd16_stn_other)

lemma rd32_st_other [buf_simps]:
  "i + 4 \<le> j \<or> j + 1 \<le> i \<Longrightarrow> rd32 i (st8 j v b) = rd32 i b"
  "i + 4 \<le> j \<or> j + 2 \<le> i \<Longrightarrow> rd32 i (st16 j w b) = rd32 i b"
  "i + 4 \<le> j \<or> j + 4 \<le> i \<Longrightarrow> rd32 i (st32 j x b) = rd32 i b"
  by (auto simp: st8_def st16_def st32_def rd32_stn_other)

lemma rdn_st_other [buf_simps]:
  "i + n \<le> j \<or> j + 1 \<le> i \<Longrightarrow> rdn i n (st8 j v b) = rdn i n b"
  "i + n \<le> j \<or> j + 2 \<le> i \<Longrightarrow> rdn i n (st16 j w b) = rdn i n b"
  "i + n \<le> j \<or> j + 4 \<le> i \<Longrightarrow> rdn i n (st32 j x b) = rdn i n b"
  by (auto simp: st8_def st16_def st32_def rdn_stn_other)

lemma rd_zero_buf [buf_simps]:
  "rd8 i zero_buf = 0" "rd16 i zero_buf = 0" "rd32 i zero_buf = 0" "rdn i n zero_buf = replicate n 0"
  by (simp_all add: rd8_def rd16_def rd32_def rdn_def zero_buf_def mk16_def mk32_def map_replicate_const)

text \<open>Bit-fields of a 16-bit storage unit, allocated from the least significant bit.\<close>

definition get_bits :: "nat \<Rightarrow> nat \<Rightarrow> u16 \<Rightarrow> u16" where
  "get_bits pos w v = drop_bit pos v AND mask w"

definition set_bits16 :: "nat \<Rightarrow> nat \<Rightarrow> u16 \<Rightarrow> u16 \<Rightarrow> u16" where
  "set_bits16 pos w x v = (v AND NOT (push_bit pos (mask w))) OR push_bit pos (x AND mask w)"

lemma get_set_bits_same: "pos + w \<le> 16 \<Longrightarrow> get_bits pos w (set_bits16 pos w x v) = x AND mask w"
  by (rule bit_word_eqI) (auto simp: get_bits_def set_bits16_def bit_simps)

lemma get_set_bits_other:
  "pos + w \<le> pos' \<or> pos' + w' \<le> pos \<Longrightarrow> get_bits pos w (set_bits16 pos' w' x v) = get_bits pos w v"
  by (rule bit_word_eqI)
    (auto simp: get_bits_def set_bits16_def bit_simps dest: bit_imp_le_length)

subsection \<open>Received messages\<close>

text \<open>
  A received message is the list of the bytes that were read; a field access
  beyond its end is undefined behaviour.
\<close>

definition ldn :: "nat \<Rightarrow> nat \<Rightarrow> bytes \<Rightarrow> bytes option" where
  "ldn i n m = (if i + n \<le> length m then Some (take n (drop i m)) else None)"

definition ld8 :: "nat \<Rightarrow> bytes \<Rightarrow> u8 option" where
  "ld8 i m = (if i < length m then Some (m ! i) else None)"

definition ld16 :: "nat \<Rightarrow> bytes \<Rightarrow> u16 option" where
  "ld16 i m = (if i + 2 \<le> length m then Some (mk16 (m ! i) (m ! (i + 1))) else None)"

definition ld32 :: "nat \<Rightarrow> bytes \<Rightarrow> u32 option" where
  "ld32 i m = (if i + 4 \<le> length m
     then Some (mk32 (m ! i) (m ! (i + 1)) (m ! (i + 2)) (m ! (i + 3))) else None)"

text \<open>\<open>*(uint16_t *)(m + i) = ntohs (*(uint16_t *)(m + i))\<close>\<close>

definition swap16 :: "nat \<Rightarrow> bytes \<Rightarrow> bytes option" where
  "swap16 i m = (if i + 2 \<le> length m then Some (m[i := m ! (i + 1), i + 1 := m ! i]) else None)"

lemma ld_rdn [buf_simps]:
  "i + 1 \<le> n \<Longrightarrow> ld8 i (rdn 0 n b) = Some (rd8 i b)"
  "i + 2 \<le> n \<Longrightarrow> ld16 i (rdn 0 n b) = Some (rd16 i b)"
  "i + 4 \<le> n \<Longrightarrow> ld32 i (rdn 0 n b) = Some (rd32 i b)"
  "i + k \<le> n \<Longrightarrow> ldn i k (rdn 0 n b) = Some (rdn i k b)"
  by (auto simp: ld8_def ld16_def ld32_def ldn_def rdn_def rd8_def rd16_def rd32_def
      simp flip: map_Suc_upt intro!: nth_equalityI)

lemma swap16_rdn [buf_simps]:
  "i + 2 \<le> n \<Longrightarrow> swap16 i (rdn 0 n b) = Some (rdn 0 n (st16 i (htons (rd16 i b)) b))"
  by (auto simp: swap16_def rdn_def rd16_def st16_def stn_def le16_def htons_mk16 nth_list_update
      less_Suc_eq intro!: nth_equalityI)

lemma length_swap16: "swap16 i m = Some m' \<Longrightarrow> length m' = length m"
  by (auto simp: swap16_def split: if_splits)

lemma ld16_swap16:
  "swap16 i m = Some m' \<Longrightarrow> ld16 i m' = map_option htons (ld16 i m)"
  by (auto simp: swap16_def ld16_def split: if_splits)

lemma ld_swap16_other:
  assumes "swap16 i m = Some m'"
  shows "k < i \<or> i + 2 \<le> k \<Longrightarrow> ld8 k m' = ld8 k m"
    and "k + 2 \<le> i \<or> i + 2 \<le> k \<Longrightarrow> ld16 k m' = ld16 k m"
    and "k + 4 \<le> i \<or> i + 2 \<le> k \<Longrightarrow> ld32 k m' = ld32 k m"
  using assms by (auto simp: swap16_def ld8_def ld16_def ld32_def nth_list_update split: if_splits)

lemma swap16_defined [simp]: "i + 2 \<le> length m \<Longrightarrow> \<exists>m'. swap16 i m = Some m'"
  by (simp add: swap16_def)

subsection \<open>C strings in fixed-size fields\<close>

definition byte_of_char :: "char \<Rightarrow> u8" where "byte_of_char c = of_nat (of_char c)"
definition char_of_byte :: "u8 \<Rightarrow> char" where "char_of_byte b = char_of (unat b)"

text \<open>
  A \<open>char[n]\<close> member holding the string \<open>s\<close>, padded with zeros, and the string a
  \<open>char[n]\<close> member holds; a member without a terminator has no string value.
\<close>

definition cfield :: "nat \<Rightarrow> string \<Rightarrow> bytes" where
  "cfield n s = take n (map byte_of_char s @ replicate n 0)"

definition cstr :: "bytes \<Rightarrow> string option" where
  "cstr bs = (if 0 \<in> set bs then Some (map char_of_byte (takeWhile (\<lambda>b. b \<noteq> 0) bs)) else None)"

definition cstring :: "nat \<Rightarrow> string \<Rightarrow> bool" where
  "cstring n s \<longleftrightarrow> length s < n \<and> CHR 0x00 \<notin> set s"

lemma char_of_byte_of_char [simp]: "char_of_byte (byte_of_char c) = c"
proof -
  have "of_char c < (2 ^ 8 :: nat)" by (simp add: of_char_def)
  then show ?thesis by (simp add: char_of_byte_def byte_of_char_def unat_of_nat take_bit_nat_eq_self)
qed

lemma byte_of_char_0 [simp]: "byte_of_char c = 0 \<longleftrightarrow> c = CHR 0x00"
proof
  assume "byte_of_char c = 0"
  then have "char_of_byte (byte_of_char c) = char_of_byte 0" by simp
  then have "c = char_of_byte 0" unfolding char_of_byte_of_char .
  then show "c = CHR 0x00" by (simp add: char_of_byte_def char_of_def)
qed (simp add: byte_of_char_def)

lemma length_cfield [simp]: "length (cfield n s) = n"
  by (simp add: cfield_def)

lemma takeWhile_bytes_of_string:
  "CHR 0x00 \<notin> set s \<Longrightarrow> takeWhile (\<lambda>b. b \<noteq> 0) (map byte_of_char s @ replicate k 0) = map byte_of_char s"
  by (induction s) (auto simp: takeWhile_replicate)

lemma cstr_cfield [simp]: "cstring n s \<Longrightarrow> cstr (cfield n s) = Some s"
  by (auto simp: cstr_def cfield_def cstring_def takeWhile_bytes_of_string comp_def)

subsection \<open>Loops\<close>

text \<open>A \<open>FOREACH\<close> loop whose body updates the state.\<close>

primrec foreach :: "('a \<Rightarrow> 's \<Rightarrow> 's option) \<Rightarrow> 'a list \<Rightarrow> 's \<Rightarrow> 's option" where
  "foreach f [] s = Some s"
| "foreach f (x # xs) s = do { s \<leftarrow> f x s; foreach f xs s }"

lemma foreach_append: "foreach f (xs @ ys) s = do { s \<leftarrow> foreach f xs s; foreach f ys s }"
  by (induction xs arbitrary: s) (auto split: Option.bind_splits)

lemma foreach_invariant:
  assumes "foreach f xs s = Some s'" "P s"
    and "\<And>x s s'. x \<in> set xs \<Longrightarrow> P s \<Longrightarrow> f x s = Some s' \<Longrightarrow> P s'"
  shows "P s'"
  using assms by (induction xs arbitrary: s) (auto simp: Option.bind_eq_Some_conv)

lemma foreach_total:
  assumes "P s" and "\<And>x s. x \<in> set xs \<Longrightarrow> P s \<Longrightarrow> \<exists>s'. f x s = Some s' \<and> P s'"
  shows "\<exists>s'. foreach f xs s = Some s' \<and> P s'"
  using assms
proof (induction xs arbitrary: s)
  case (Cons x xs)
  then obtain s1 where s1: "f x s = Some s1" "P s1" by force
  with Cons.IH [OF s1(2)] Cons.prems(2) show ?case by force
qed simp

lemma foreach_some_simp:
  "foreach (\<lambda>x s. Some (g x s)) xs s = Some (fold g xs s)"
  by (induction xs arbitrary: s) auto

subsection \<open>Running without undefined behaviour\<close>

text \<open>\<open>safe Q x\<close>: the computation \<open>x\<close> is defined and its result satisfies \<open>Q\<close>.\<close>

definition safe :: "('a \<Rightarrow> bool) \<Rightarrow> 'a option \<Rightarrow> bool" where
  "safe Q x \<longleftrightarrow> (\<exists>y. x = Some y \<and> Q y)"

lemma safe_Some [simp]: "safe Q (Some y) = Q y"
  by (simp add: safe_def)

lemma safe_None [simp]: "\<not> safe Q None"
  by (simp add: safe_def)

lemma safe_bind [simp]: "safe Q (Option.bind m f) = safe (\<lambda>y. safe Q (f y)) m"
  by (cases m) simp_all

lemma safe_mono: "safe P x \<Longrightarrow> (\<And>y. P y \<Longrightarrow> Q y) \<Longrightarrow> safe Q x"
  by (auto simp: safe_def)

lemma safe_defined: "safe Q x \<Longrightarrow> x \<noteq> None"
  by (auto simp: safe_def)

text \<open>The rule for loops; \<open>I xs s\<close> holds in state \<open>s\<close> with \<open>xs\<close> still to visit.\<close>

lemma safe_foreach:
  assumes "\<And>x ys s. I (x # ys) s \<Longrightarrow> safe (I ys) (f x s)" "I xs s"
  shows "safe (I []) (foreach f xs s)"
  using assms(2)
proof (induction xs arbitrary: s)
  case (Cons x xs)
  have "safe (I xs) (f x s)" by (rule assms(1)) (rule Cons.prems)
  then have "safe (\<lambda>s. safe (I []) (foreach f xs s)) (f x s)" by (rule safe_mono) (rule Cons.IH)
  then show ?case by simp
qed simp

end
