(* ===== verification/Iccp_Msg_Format.thy ===== *)
theory Iccp_Msg_Format
  imports Iccp_Prelude
begin

text \<open>
  The wire format (\<open>include/msg_format.h\<close>, \<open>include/mlacp_tlv.h\<close>): message and
  TLV type codes, sizes of the packed structures, the writers for the headers
  every message starts with, and the neighbour and MAC entries that travel in
  the information TLVs. Structure layouts are those of a little-endian host.
\<close>

subsection \<open>Type codes\<close>

abbreviation (input) MCLAG_ERROR :: int where "MCLAG_ERROR \<equiv> - 1"
abbreviation (input) MAX_MSG_LOG_SIZE :: nat where "MAX_MSG_LOG_SIZE \<equiv> 128"
abbreviation (input) CSM_BUFFER_SIZE :: nat where "CSM_BUFFER_SIZE \<equiv> 65536"
abbreviation (input) ETHER_ADDR_LEN :: nat where "ETHER_ADDR_LEN \<equiv> 6"
abbreviation (input) MAX_L_PORT_NAME :: nat where "MAX_L_PORT_NAME \<equiv> 20"
abbreviation (input) MAX_L_ICC_SENDER_NAME :: nat where "MAX_L_ICC_SENDER_NAME \<equiv> 80"

abbreviation (input) MSG_T_CAPABILITY :: u16 where "MSG_T_CAPABILITY \<equiv> 0x0202"
abbreviation (input) MSG_T_RG_CONNECT :: u16 where "MSG_T_RG_CONNECT \<equiv> 0x0700"
abbreviation (input) MSG_T_RG_DISCONNECT :: u16 where "MSG_T_RG_DISCONNECT \<equiv> 0x0701"
abbreviation (input) MSG_T_NOTIFICATION :: u16 where "MSG_T_NOTIFICATION \<equiv> 0x0702"
abbreviation (input) MSG_T_RG_APP_DATA :: u16 where "MSG_T_RG_APP_DATA \<equiv> 0x0703"
abbreviation (input) MSG_L_INCLUD_U_BIT_MSG_T_L_FIELDS :: nat where
  "MSG_L_INCLUD_U_BIT_MSG_T_L_FIELDS \<equiv> 4"

abbreviation (input) TLV_T_ICCP_CAPABILITY :: u16 where "TLV_T_ICCP_CAPABILITY \<equiv> 0x0700"
abbreviation (input) TLV_L_ICCP_CAPABILITY :: u16 where "TLV_L_ICCP_CAPABILITY \<equiv> 4"
abbreviation (input) TLV_T_ICC_SENDER_NAME :: u16 where "TLV_T_ICC_SENDER_NAME \<equiv> 1"
abbreviation (input) TLV_T_NAK :: u16 where "TLV_T_NAK \<equiv> 2"
abbreviation (input) TLV_T_REQUESTED_PROTOCOL_VER :: u16 where "TLV_T_REQUESTED_PROTOCOL_VER \<equiv> 3"
abbreviation (input) TLV_T_DISCONNECT_CODE :: u16 where "TLV_T_DISCONNECT_CODE \<equiv> 4"
abbreviation (input) TLV_L_DISCONNECT_CODE :: u16 where "TLV_L_DISCONNECT_CODE \<equiv> 4"
abbreviation (input) TLV_T_ICC_RG_ID :: u16 where "TLV_T_ICC_RG_ID \<equiv> 5"
abbreviation (input) TLV_L_ICC_RG_ID :: u16 where "TLV_L_ICC_RG_ID \<equiv> 4"
abbreviation (input) TLV_T_MLACP_CONNECT :: u16 where "TLV_T_MLACP_CONNECT \<equiv> 0x30"
abbreviation (input) TLV_T_MLACP_DISCONNECT :: u16 where "TLV_T_MLACP_DISCONNECT \<equiv> 0x31"
abbreviation (input) TLV_T_MLACP_SYSTEM_CONFIG :: u16 where "TLV_T_MLACP_SYSTEM_CONFIG \<equiv> 0x32"
abbreviation (input) TLV_T_MLACP_PORT_CONFIG :: u16 where "TLV_T_MLACP_PORT_CONFIG \<equiv> 0x33"
abbreviation (input) TLV_T_MLACP_PORT_PRIORITY :: u16 where "TLV_T_MLACP_PORT_PRIORITY \<equiv> 0x34"
abbreviation (input) TLV_T_MLACP_PORT_STATE :: u16 where "TLV_T_MLACP_PORT_STATE \<equiv> 0x35"
abbreviation (input) TLV_T_MLACP_AGGREGATOR_CONFIG :: u16 where "TLV_T_MLACP_AGGREGATOR_CONFIG \<equiv> 0x36"
abbreviation (input) TLV_T_MLACP_AGGREGATOR_STATE :: u16 where "TLV_T_MLACP_AGGREGATOR_STATE \<equiv> 0x37"
abbreviation (input) TLV_T_MLACP_SYNC_REQUEST :: u16 where "TLV_T_MLACP_SYNC_REQUEST \<equiv> 0x38"
abbreviation (input) TLV_T_MLACP_SYNC_DATA :: u16 where "TLV_T_MLACP_SYNC_DATA \<equiv> 0x39"
abbreviation (input) TLV_T_MLACP_HEARTBEAT :: u16 where "TLV_T_MLACP_HEARTBEAT \<equiv> 0x3A"
abbreviation (input) TLV_T_MLACP_DISCONNECT_CAUSE :: u16 where "TLV_T_MLACP_DISCONNECT_CAUSE \<equiv> 0x3B"
abbreviation (input) TLV_T_MLACP_ORPHAN_PORT :: u16 where "TLV_T_MLACP_ORPHAN_PORT \<equiv> 0x1033"
abbreviation (input) TLV_T_MLACP_PORT_CHANNEL_INFO :: u16 where "TLV_T_MLACP_PORT_CHANNEL_INFO \<equiv> 0x1034"
abbreviation (input) TLV_T_MLACP_PEERLINK_INFO :: u16 where "TLV_T_MLACP_PEERLINK_INFO \<equiv> 0x1035"
abbreviation (input) TLV_T_MLACP_ARP_INFO :: u16 where "TLV_T_MLACP_ARP_INFO \<equiv> 0x1036"
abbreviation (input) TLV_T_MLACP_STP_INFO :: u16 where "TLV_T_MLACP_STP_INFO \<equiv> 0x1037"
abbreviation (input) TLV_T_MLACP_MAC_INFO :: u16 where "TLV_T_MLACP_MAC_INFO \<equiv> 0x1038"
abbreviation (input) TLV_T_MLACP_WARMBOOT_FLAG :: u16 where "TLV_T_MLACP_WARMBOOT_FLAG \<equiv> 0x1039"
abbreviation (input) TLV_T_MLACP_NDISC_INFO :: u16 where "TLV_T_MLACP_NDISC_INFO \<equiv> 0x103A"
abbreviation (input) TLV_T_MLACP_IF_UP_ACK :: u16 where "TLV_T_MLACP_IF_UP_ACK \<equiv> 0x103B"
abbreviation (input) TLV_T_MLACP_LIST_END :: u16 where "TLV_T_MLACP_LIST_END \<equiv> 0x104a"

abbreviation (input) STATUS_CODE_U_ICCP_RG :: u32 where "STATUS_CODE_U_ICCP_RG \<equiv> 0x10001"
abbreviation (input) STATUS_CODE_ICCP_RG_REMOVED :: u32 where "STATUS_CODE_ICCP_RG_REMOVED \<equiv> 0x10010"

subsection \<open>Structure sizes\<close>

abbreviation (input) sizeof_LDPHdr :: nat where "sizeof_LDPHdr \<equiv> 8"
abbreviation (input) sizeof_ICCRGIDTLV :: nat where "sizeof_ICCRGIDTLV \<equiv> 8"
abbreviation (input) sizeof_ICCHdr :: nat where "sizeof_ICCHdr \<equiv> 16"
abbreviation (input) sizeof_ICCParameter :: nat where "sizeof_ICCParameter \<equiv> 4"
abbreviation (input) sizeof_NAKTLV :: nat where "sizeof_NAKTLV \<equiv> 12"
abbreviation (input) sizeof_DisconnectCodeTLV :: nat where "sizeof_DisconnectCodeTLV \<equiv> 8"
abbreviation (input) sizeof_LDPICCPCapabilityTLV :: nat where "sizeof_LDPICCPCapabilityTLV \<equiv> 8"
abbreviation (input) sizeof_mLACPSysConfigTLV :: nat where "sizeof_mLACPSysConfigTLV \<equiv> 13"
abbreviation (input) sizeof_mLACPAggConfigTLV :: nat where "sizeof_mLACPAggConfigTLV \<equiv> 46"
abbreviation (input) sizeof_mLACPAggPortStateTLV :: nat where "sizeof_mLACPAggPortStateTLV \<equiv> 19"
abbreviation (input) sizeof_mLACPSyncReqTLV :: nat where "sizeof_mLACPSyncReqTLV \<equiv> 12"
abbreviation (input) sizeof_mLACPSyncDataTLV :: nat where "sizeof_mLACPSyncDataTLV \<equiv> 8"
abbreviation (input) sizeof_mLACPVLANData :: nat where "sizeof_mLACPVLANData \<equiv> 2"
abbreviation (input) sizeof_mLACPPortChannelInfoTLV :: nat where "sizeof_mLACPPortChannelInfoTLV \<equiv> 36"
abbreviation (input) sizeof_mLACPPeerLinkInfoTLV :: nat where "sizeof_mLACPPeerLinkInfoTLV \<equiv> 25"
abbreviation (input) sizeof_mLACPMACData :: nat where "sizeof_mLACPMACData \<equiv> 30"
abbreviation (input) sizeof_mLACPMACInfoTLV :: nat where "sizeof_mLACPMACInfoTLV \<equiv> 6"
abbreviation (input) sizeof_ARPMsg :: nat where "sizeof_ARPMsg \<equiv> 36"
abbreviation (input) sizeof_NDISCMsg :: nat where "sizeof_NDISCMsg \<equiv> 48"
abbreviation (input) sizeof_mLACPARPInfoTLV :: nat where "sizeof_mLACPARPInfoTLV \<equiv> 6"
abbreviation (input) sizeof_mLACPNDISCInfoTLV :: nat where "sizeof_mLACPNDISCInfoTLV \<equiv> 6"
abbreviation (input) sizeof_mLACPHeartbeatTLV :: nat where "sizeof_mLACPHeartbeatTLV \<equiv> 5"
abbreviation (input) sizeof_mLACPWarmbootTLV :: nat where "sizeof_mLACPWarmbootTLV \<equiv> 5"
abbreviation (input) sizeof_mLACPIfUpAckTLV :: nat where "sizeof_mLACPIfUpAckTLV \<equiv> 8"

subsection \<open>Headers\<close>

text \<open>
  The first 16 bits of an \<open>LDPHdr\<close> are the bit-fields \<open>msg_type:15, u_bit:1\<close>, those of
  an \<open>ICCParameter\<close> are \<open>type:14, f_bit:1, u_bit:1\<close>. The code stores the type already
  in network order, so a type whose low byte reaches into the flag bits would be cut.
\<close>

definition put_LDPHdr :: "u16 \<Rightarrow> u16 \<Rightarrow> u32 \<Rightarrow> nat \<Rightarrow> buf \<Rightarrow> buf" where
  "put_LDPHdr ty len i p b = (let
     b = st16 p (set_bits16 15 1 0 (rd16 p b)) b;
     b = st16 p (set_bits16 0 15 (htons ty) (rd16 p b)) b;
     b = st16 (p + 2) (htons len) b
   in st32 (p + 4) (htonl i) b)"

definition put_ICCParameter_type :: "u16 \<Rightarrow> nat \<Rightarrow> buf \<Rightarrow> buf" where
  "put_ICCParameter_type ty p b = (let
     b = st16 p (set_bits16 15 1 0 (rd16 p b)) b;
     b = st16 p (set_bits16 14 1 0 (rd16 p b)) b
   in st16 p (set_bits16 0 14 (htons ty) (rd16 p b)) b)"

definition put_ICCParameter :: "u16 \<Rightarrow> u16 \<Rightarrow> nat \<Rightarrow> buf \<Rightarrow> buf" where
  "put_ICCParameter ty len p b = st16 (p + 2) (htons len) (put_ICCParameter_type ty p b)"

definition LDPHdr_msg_type :: "u16 \<Rightarrow> u16" where "LDPHdr_msg_type = get_bits 0 15"
definition ICCParameter_type :: "u16 \<Rightarrow> u16" where "ICCParameter_type = get_bits 0 14"
definition ICCParameter_f_bit :: "u16 \<Rightarrow> u16" where "ICCParameter_f_bit = get_bits 14 1"
definition ICCParameter_u_bit :: "u16 \<Rightarrow> u16" where "ICCParameter_u_bit = get_bits 15 1"

lemma bit_htons: "bit (htons w) n \<longleftrightarrow> (if n < 8 then bit w (n + 8) else n < 16 \<and> bit w (n - 8))"
  by (auto simp: htons_def mk16_def byte_of_def bit_simps add.commute dest: bit_imp_le_length)

lemma word16_bits_eqI: "(\<And>n. n < 16 \<Longrightarrow> bit a n = bit b n) \<Longrightarrow> a = (b :: u16)"
  by (rule bit_word_eqI) simp

lemma set_bits_header:
  assumes "\<not> bit ty 7"
  shows "set_bits16 0 15 (htons ty) (set_bits16 15 1 0 v) = htons ty"
proof (rule word16_bits_eqI)
  fix n :: nat assume "n < 16"
  then consider "n < 15" | "n = 15" by linarith
  then show "bit (set_bits16 0 15 (htons ty) (set_bits16 15 1 0 v)) n = bit (htons ty) n"
    using assms by cases (auto simp: set_bits16_def bit_simps bit_htons)
qed

lemma set_bits_param:
  assumes "\<not> bit ty 7" "\<not> bit ty 6"
  shows "set_bits16 0 14 (htons ty) (set_bits16 14 1 0 (set_bits16 15 1 0 v)) = htons ty"
proof (rule word16_bits_eqI)
  fix n :: nat assume "n < 16"
  then consider "n < 14" | "n = 14" | "n = 15" by linarith
  then show "bit (set_bits16 0 14 (htons ty) (set_bits16 14 1 0 (set_bits16 15 1 0 v))) n = bit (htons ty) n"
    using assms by cases (auto simp: set_bits16_def bit_simps bit_htons)
qed

lemma rd_put_LDPHdr [buf_simps]:
  "\<not> bit ty 7 \<Longrightarrow> rd16 p (put_LDPHdr ty len i p b) = htons ty"
  "q = p + 2 \<Longrightarrow> rd16 q (put_LDPHdr ty len i p b) = htons len"
  "q = p + 4 \<Longrightarrow> rd32 q (put_LDPHdr ty len i p b) = htonl i"
  by (simp_all add: put_LDPHdr_def Let_def buf_simps set_bits_header [simplified])

lemma rd_put_LDPHdr_other [buf_simps]:
  "k + 1 \<le> p \<or> p + 8 \<le> k \<Longrightarrow> rd8 k (put_LDPHdr ty len i p b) = rd8 k b"
  "k + 2 \<le> p \<or> p + 8 \<le> k \<Longrightarrow> rd16 k (put_LDPHdr ty len i p b) = rd16 k b"
  "k + 4 \<le> p \<or> p + 8 \<le> k \<Longrightarrow> rd32 k (put_LDPHdr ty len i p b) = rd32 k b"
  "k + n \<le> p \<or> p + 8 \<le> k \<Longrightarrow> rdn k n (put_LDPHdr ty len i p b) = rdn k n b"
  by (auto simp: put_LDPHdr_def Let_def buf_simps)

lemma rd_put_ICCParameter_type [buf_simps]:
  "\<not> bit ty 7 \<Longrightarrow> \<not> bit ty 6 \<Longrightarrow> rd16 p (put_ICCParameter_type ty p b) = htons ty"
  by (simp add: put_ICCParameter_type_def Let_def buf_simps set_bits_param [simplified])

lemma rd_put_ICCParameter_type_other [buf_simps]:
  "k + 1 \<le> p \<or> p + 2 \<le> k \<Longrightarrow> rd8 k (put_ICCParameter_type ty p b) = rd8 k b"
  "k + 2 \<le> p \<or> p + 2 \<le> k \<Longrightarrow> rd16 k (put_ICCParameter_type ty p b) = rd16 k b"
  "k + 4 \<le> p \<or> p + 2 \<le> k \<Longrightarrow> rd32 k (put_ICCParameter_type ty p b) = rd32 k b"
  "k + n \<le> p \<or> p + 2 \<le> k \<Longrightarrow> rdn k n (put_ICCParameter_type ty p b) = rdn k n b"
  by (auto simp: put_ICCParameter_type_def Let_def buf_simps)

lemma rd_put_ICCParameter [buf_simps]:
  "\<not> bit ty 7 \<Longrightarrow> \<not> bit ty 6 \<Longrightarrow> rd16 p (put_ICCParameter ty len p b) = htons ty"
  "q = p + 2 \<Longrightarrow> rd16 q (put_ICCParameter ty len p b) = htons len"
  by (simp_all add: put_ICCParameter_def buf_simps)

lemma rd_put_ICCParameter_other [buf_simps]:
  "k + 1 \<le> p \<or> p + 4 \<le> k \<Longrightarrow> rd8 k (put_ICCParameter ty len p b) = rd8 k b"
  "k + 2 \<le> p \<or> p + 4 \<le> k \<Longrightarrow> rd16 k (put_ICCParameter ty len p b) = rd16 k b"
  "k + 4 \<le> p \<or> p + 4 \<le> k \<Longrightarrow> rd32 k (put_ICCParameter ty len p b) = rd32 k b"
  "k + n \<le> p \<or> p + 4 \<le> k \<Longrightarrow> rdn k n (put_ICCParameter ty len p b) = rdn k n b"
  by (auto simp: put_ICCParameter_def buf_simps)

lemma LDPHdr_msg_type_id [simp]: "\<not> bit ty 15 \<Longrightarrow> LDPHdr_msg_type ty = ty"
proof (rule word16_bits_eqI)
  fix n :: nat assume "\<not> bit ty 15" "n < 16"
  then show "bit (LDPHdr_msg_type ty) n = bit ty n"
    by (cases "n = 15") (auto simp: LDPHdr_msg_type_def get_bits_def bit_simps)
qed

lemma ICCParameter_fields_id [simp]:
  "\<not> bit ty 15 \<Longrightarrow> \<not> bit ty 14 \<Longrightarrow> ICCParameter_type ty = ty"
proof (rule word16_bits_eqI)
  fix n :: nat assume "\<not> bit ty 15" "\<not> bit ty 14" "n < 16"
  then show "bit (ICCParameter_type ty) n = bit ty n"
    by (cases "n = 15"; cases "n = 14") (auto simp: ICCParameter_type_def get_bits_def bit_simps)
qed

lemma get_one_bit: "get_bits k 1 v = of_bool (bit v k)"
  by (rule bit_word_eqI) (auto simp: get_bits_def bit_simps)

lemma ICCParameter_bits [simp]:
  "\<not> bit ty 14 \<Longrightarrow> ICCParameter_f_bit ty = 0" "\<not> bit ty 15 \<Longrightarrow> ICCParameter_u_bit ty = 0"
  by (simp_all add: ICCParameter_f_bit_def ICCParameter_u_bit_def get_one_bit [simplified])

subsection \<open>Neighbour and MAC entries\<close>

record ARPMsg =
  arp_op_type :: u8
  arp_flag :: u8
  arp_learn_flag :: u8
  arp_ifname :: string
  arp_ipv4_addr :: u32
  arp_mac_addr :: bytes

record NDISCMsg =
  nd_op_type :: u8
  nd_flag :: u8
  nd_learn_flag :: u8
  nd_ifname :: string
  nd_ipv6_addr :: bytes
  nd_mac_addr :: bytes

text \<open>
  \<open>mac_in_msg_list\<close> is what \<open>MAC_IN_MSG_LIST\<close> tests: whether the list pointers of the
  entry are set.
\<close>

record MACMsg =
  mac_vid :: u16
  mac_addr :: bytes
  mac_op_type :: u8
  mac_fdb_type :: u8
  mac_ifname :: string
  mac_origin_ifname :: string
  mac_age_flag :: u8
  mac_pending_local_del :: u8
  mac_add_to_syncd :: u8
  mac_in_msg_list :: bool

abbreviation (input) NEIGH_SYNC_LIF :: u8 where "NEIGH_SYNC_LIF \<equiv> 0"
abbreviation (input) NEIGH_SYNC_ADD :: u8 where "NEIGH_SYNC_ADD \<equiv> 1"
abbreviation (input) NEIGH_SYNC_DEL :: u8 where "NEIGH_SYNC_DEL \<equiv> 2"
abbreviation (input) NEIGH_SYNC_FLAG_ACK :: u8 where "NEIGH_SYNC_FLAG_ACK \<equiv> 1"
abbreviation (input) NEIGH_SYNC_FLAG_SELF_LL :: u8 where "NEIGH_SYNC_FLAG_SELF_LL \<equiv> 2"
abbreviation (input) NEIGH_SYNC_FLAG_SELF_IP :: u8 where "NEIGH_SYNC_FLAG_SELF_IP \<equiv> 4"
abbreviation (input) NEIGH_LOCAL :: u8 where "NEIGH_LOCAL \<equiv> 1"
abbreviation (input) NEIGH_REMOTE :: u8 where "NEIGH_REMOTE \<equiv> 2"
abbreviation (input) MAC_AGE_LOCAL :: u8 where "MAC_AGE_LOCAL \<equiv> 1"
abbreviation (input) MAC_AGE_PEER :: u8 where "MAC_AGE_PEER \<equiv> 2"
abbreviation (input) MAC_SYNC_ADD :: u8 where "MAC_SYNC_ADD \<equiv> 1"
abbreviation (input) MAC_SYNC_DEL :: u8 where "MAC_SYNC_DEL \<equiv> 2"
abbreviation (input) MAC_SYNC_ACK :: u8 where "MAC_SYNC_ACK \<equiv> 4"
abbreviation (input) MAC_TYPE_STATIC :: u8 where "MAC_TYPE_STATIC \<equiv> 1"
abbreviation (input) MAC_TYPE_DYNAMIC :: u8 where "MAC_TYPE_DYNAMIC \<equiv> 2"
abbreviation (input) MAC_TYPE_DYNAMIC_LOCAL :: u8 where "MAC_TYPE_DYNAMIC_LOCAL \<equiv> 3"

text \<open>\<open>MACMsg_compare\<close>: by VLAN, then by address bytes as \<open>memcmp\<close> orders them.\<close>

fun memcmp :: "bytes \<Rightarrow> bytes \<Rightarrow> int" where
  "memcmp (x # xs) (y # ys) = (if x < y then - 1 else if y < x then 1 else memcmp xs ys)"
| "memcmp _ _ = 0"

definition MACMsg_compare :: "MACMsg \<Rightarrow> MACMsg \<Rightarrow> int" where
  "MACMsg_compare m1 m2 =
     (if mac_vid m1 < mac_vid m2 then - 1
      else if mac_vid m2 < mac_vid m1 then 1
      else memcmp (mac_addr m1) (mac_addr m2))"

lemma memcmp_refl [simp]: "memcmp xs xs = 0"
  by (induction xs) auto

lemma memcmp_eq_0: "length xs = length ys \<Longrightarrow> memcmp xs ys = 0 \<longleftrightarrow> xs = ys"
  by (induction xs ys rule: memcmp.induct) auto

lemma memcmp_antisym: "memcmp ys xs = - memcmp xs ys"
  by (induction xs ys rule: memcmp.induct) auto

lemma memcmp_Cons_less:
  "memcmp (x # xs) (y # ys) < 0 \<longleftrightarrow> x < y \<or> x = y \<and> memcmp xs ys < 0"
  using linorder_less_linear [of x y] by (auto dest: less_asym)

lemma memcmp_trans:
  "length xs = length ys \<Longrightarrow> length ys = length zs \<Longrightarrow> memcmp xs ys < 0 \<Longrightarrow> memcmp ys zs < 0 \<Longrightarrow> memcmp xs zs < 0"
proof (induction xs ys arbitrary: zs rule: list_induct2')
  case (4 x xs y ys)
  then obtain z zs' where zs: "zs = z # zs'" by (cases zs) auto
  have "memcmp xs ys < 0 \<Longrightarrow> memcmp ys zs' < 0 \<Longrightarrow> memcmp xs zs' < 0"
    using 4(1) [of zs'] 4(2,3) zs by simp
  with 4(4,5) show ?case unfolding zs memcmp_Cons_less by (blast intro: less_trans)
qed auto

end
