(* ===== verification/Iccp_State.thy ===== *)
theory Iccp_State
  imports Iccp_Msg_Format
begin

text \<open>
  The state of the daemon: the structures of \<open>include/port.h\<close>, \<open>include/mlacp_fsm.h\<close>,
  \<open>include/app_csm.h\<close>, \<open>include/iccp_csm.h\<close> and \<open>include/system.h\<close>, the heap they live in,
  the global buffer and counters, and the daemon's environment.

  Connection state machines, interfaces and MAC entries are objects at addresses;
  a freed object is absent from its heap. Intrusive lists are lists of addresses in
  list order; a red-black tree is the list of its nodes in ascending order. Receive
  queues hold the bytes of their messages.
\<close>

type_synonym csm_ptr = nat
type_synonym lif_ptr = nat
type_synonym pif_ptr = nat
type_synonym mac_ptr = nat

subsection \<open>Interfaces\<close>

abbreviation (input) PORT_STATE_UP :: u8 where "PORT_STATE_UP \<equiv> 0"
abbreviation (input) PORT_STATE_DOWN :: u8 where "PORT_STATE_DOWN \<equiv> 1"

abbreviation (input) IF_T_UNKNOW :: int where "IF_T_UNKNOW \<equiv> - 1"
abbreviation (input) IF_T_PORT :: int where "IF_T_PORT \<equiv> 0"
abbreviation (input) IF_T_PORT_CHANNEL :: int where "IF_T_PORT_CHANNEL \<equiv> 1"
abbreviation (input) IF_T_VLAN :: int where "IF_T_VLAN \<equiv> 2"
abbreviation (input) IF_T_VXLAN :: int where "IF_T_VXLAN \<equiv> 3"
abbreviation (input) IF_T_BRIDGE :: int where "IF_T_BRIDGE \<equiv> 4"

record VLAN_ID =
  vlan_vid :: u16
  vlan_removed :: u16
  vlan_itf :: "lif_ptr option"

type_synonym vlan_rb_tree = "VLAN_ID list"

record PeerInterface =
  pif_ifindex :: int
  pif_type :: int
  pif_name :: string
  pif_mac_addr :: bytes
  pif_state :: u8
  pif_ipv4_addr :: u32
  pif_l3_mode :: u8
  pif_is_peer_link :: u8
  pif_po_id :: int
  pif_po_active :: u8
  pif_csm :: "csm_ptr option"
  pif_vlan_tree :: vlan_rb_tree

record LocalInterface =
  lif_ifindex :: int
  lif_type :: int
  lif_name :: string
  lif_mac_addr :: bytes
  lif_mac_addr_ori :: bytes
  lif_state :: u8
  lif_ipv4_addr :: u32
  lif_prefixlen :: u8
  lif_ipv6_addr :: bytes
  lif_prefixlen_v6 :: u8
  lif_ipv6_ll_addr :: bytes
  lif_ll_prefixlen_v6 :: u8
  lif_l3_mode :: u8
  lif_l3_mac_addr :: bytes
  lif_is_peer_link :: u8
  lif_portchannel_member_buf :: string
  lif_is_arp_accept :: u8
  lif_po_id :: int
  lif_po_active :: u8
  lif_mlacp_state :: int
  lif_isolate_to_peer_link :: u8
  lif_po_down_time :: int
  lif_csm :: "csm_ptr option"
  lif_changed :: u8
  lif_port_config_sync :: u8
  lif_is_traffic_disable :: bool
  lif_is_l3_proto_enabled :: bool
  lif_vlan_count :: u32
  lif_master_ifindex :: u32
  lif_vlan_tree :: vlan_rb_tree

subsection \<open>mLACP\<close>

datatype MLACP_APP_STATE =
  MLACP_STATE_INIT | MLACP_STATE_STAGE1 | MLACP_STATE_STAGE2 | MLACP_STATE_EXCHANGE | MLACP_STATE_ERROR

datatype MLACP_SYNC_STATE =
  MLACP_SYNC_SYSCONF | MLACP_SYNC_AGGCONF | MLACP_SYNC_AGGSTATE | MLACP_SYNC_AGGINFO
  | MLACP_SYNC_PEERLINKINFO | MLACP_SYNC_ARP_INFO | MLACP_SYNC_NDISC_INFO | MLACP_SYNC_DONE

record Remote_System =
  rs_system_id :: bytes
  rs_system_priority :: u16
  rs_node_id :: u32

text \<open>
  Counters \<open>iccp_counters[type][dir][status]\<close>, with direction 0 for sent and 1 for
  received, status 0 for success and 1 for an error.
\<close>

type_synonym mlacp_dbg_counter_info = "nat \<Rightarrow> nat \<Rightarrow> nat \<Rightarrow> u64"

record mLACP =
  ml_id :: int
  ml_sync_req_num :: int
  ml_current_state :: MLACP_APP_STATE
  ml_sync_state :: MLACP_SYNC_STATE
  ml_wait_for_sync_data :: u8
  ml_need_to_sync :: u8
  ml_node_id :: u8
  ml_system_id :: bytes
  ml_system_priority :: u16
  ml_system_config_changed :: u8
  ml_remote_system :: Remote_System
  ml_error_msg :: "string option"
  ml_mlacp_msg_list :: "bytes list"
  ml_arp_msg_list :: "ARPMsg list"
  ml_arp_list :: "ARPMsg list"
  ml_ndisc_msg_list :: "NDISCMsg list"
  ml_ndisc_list :: "NDISCMsg list"
  ml_mac_msg_list :: "mac_ptr list"
  ml_mac_rb :: "mac_ptr list"
  ml_lif_list :: "lif_ptr list"
  ml_lif_purge_list :: "lif_ptr list"
  ml_pif_list :: "pif_ptr list"
  ml_dbg_counters :: mlacp_dbg_counter_info

subsection \<open>Application and ICCP connection state machines\<close>

datatype APP_CONNECTION_STATE =
  APP_NONEXISTENT | APP_RESET | APP_CONNSENT | APP_CONNREC | APP_CONNECTING | APP_OPERATIONAL

record AppCSM =
  app_mlacp :: mLACP
  app_current_state :: APP_CONNECTION_STATE
  app_rx_connect_msg_id :: u32
  app_tx_connect_msg_id :: u32
  app_invalid_msg_id :: u32
  app_msg_list :: "bytes list"
  app_invalid_msg :: bool
  app_nak_msg :: bool

record IccpInfo =
  icc_rg_id :: u32
  sender_name :: string
  status_code :: u32
  peer_capability_flag :: bool
  peer_rg_connect_flag :: bool
  sender_capability_flag :: bool
  sender_rg_connect_flag :: bool
  rejected_msg_id :: u32

datatype ICCP_CONNECTION_STATE =
  ICCP_NONEXISTENT | ICCP_INITIALIZED | ICCP_CAPSENT | ICCP_CAPREC | ICCP_CONNECTING | ICCP_OPERATIONAL

datatype stp_role_type = STP_ROLE_NONE | STP_ROLE_ACTIVE | STP_ROLE_STANDBY

record MsgTypeSet =
  mts_msg_id :: u32
  mts_type :: u16
  mts_tlv :: u16

record MsgLog =
  log_msg :: "MsgTypeSet list"
  log_end_index :: u32

record CSM =
  csm_mlag_id :: int
  csm_sock_fd :: int
  csm_connTimePrev :: int
  csm_heartbeat_send_time :: int
  csm_heartbeat_update_time :: int
  csm_peer_warm_reboot_time :: int
  csm_warm_reboot_disconn_time :: int
  csm_peer_itf_name :: string
  csm_peer_link_learning_retry_time :: int
  csm_peer_ip :: string
  csm_sender_ip :: string
  csm_sock_read_event_ptr :: bool
  csm_keepalive_time :: int
  csm_session_timeout :: int
  csm_peer_link_learning_enable :: int
  csm_msg_list :: "bytes list"
  csm_role_type :: stp_role_type
  csm_peer_link_if :: "lif_ptr option"
  csm_iccp_info :: IccpInfo
  csm_app_csm :: AppCSM
  csm_current_state :: ICCP_CONNECTION_STATE
  csm_icc_msg_in_count :: u64
  csm_icc_msg_out_count :: u64
  csm_u_msg_in_count :: u64
  csm_i_msg_in_count :: u64
  csm_msg_log :: MsgLog
  csm_if_bind_list :: "string list"

abbreviation MLACP :: "CSM \<Rightarrow> mLACP" where "MLACP csm \<equiv> app_mlacp (csm_app_csm csm)"
abbreviation APP_CSM :: "CSM \<Rightarrow> AppCSM" where "APP_CSM \<equiv> csm_app_csm"

abbreviation upd_MLACP :: "(mLACP \<Rightarrow> mLACP) \<Rightarrow> CSM \<Rightarrow> CSM" where
  "upd_MLACP f \<equiv> csm_app_csm_update (app_mlacp_update f)"

text \<open>The all-zero structures \<open>bzero\<close> and \<open>memset\<close> leave.\<close>

definition zero_MACMsg :: MACMsg where
  "zero_MACMsg = \<lparr>mac_vid = 0, mac_addr = replicate 6 0, mac_op_type = 0, mac_fdb_type = 0, mac_ifname = [],
     mac_origin_ifname = [], mac_age_flag = 0, mac_pending_local_del = 0, mac_add_to_syncd = 0, mac_in_msg_list = False\<rparr>"

definition zero_mLACP :: mLACP where
  "zero_mLACP = \<lparr>ml_id = 0, ml_sync_req_num = 0, ml_current_state = MLACP_STATE_INIT, ml_sync_state = MLACP_SYNC_SYSCONF,
     ml_wait_for_sync_data = 0, ml_need_to_sync = 0, ml_node_id = 0, ml_system_id = replicate 6 0,
     ml_system_priority = 0, ml_system_config_changed = 0,
     ml_remote_system = \<lparr>rs_system_id = replicate 6 0, rs_system_priority = 0, rs_node_id = 0\<rparr>,
     ml_error_msg = None, ml_mlacp_msg_list = [], ml_arp_msg_list = [], ml_arp_list = [], ml_ndisc_msg_list = [],
     ml_ndisc_list = [], ml_mac_msg_list = [], ml_mac_rb = [], ml_lif_list = [], ml_lif_purge_list = [],
     ml_pif_list = [], ml_dbg_counters = (\<lambda>_ _ _. 0)\<rparr>"

definition zero_AppCSM :: AppCSM where
  "zero_AppCSM = \<lparr>app_mlacp = zero_mLACP, app_current_state = APP_NONEXISTENT, app_rx_connect_msg_id = 0,
     app_tx_connect_msg_id = 0, app_invalid_msg_id = 0, app_msg_list = [], app_invalid_msg = False, app_nak_msg = False\<rparr>"

definition zero_MsgLog :: MsgLog where
  "zero_MsgLog = \<lparr>log_msg = replicate MAX_MSG_LOG_SIZE \<lparr>mts_msg_id = 0, mts_type = 0, mts_tlv = 0\<rparr>, log_end_index = 0\<rparr>"

definition zero_CSM :: CSM where
  "zero_CSM = \<lparr>csm_mlag_id = 0, csm_sock_fd = 0, csm_connTimePrev = 0, csm_heartbeat_send_time = 0,
     csm_heartbeat_update_time = 0, csm_peer_warm_reboot_time = 0, csm_warm_reboot_disconn_time = 0,
     csm_peer_itf_name = [], csm_peer_link_learning_retry_time = 0, csm_peer_ip = [], csm_sender_ip = [],
     csm_sock_read_event_ptr = False, csm_keepalive_time = 0, csm_session_timeout = 0,
     csm_peer_link_learning_enable = 0, csm_msg_list = [], csm_role_type = STP_ROLE_NONE, csm_peer_link_if = None,
     csm_iccp_info = \<lparr>icc_rg_id = 0, sender_name = [], status_code = 0, peer_capability_flag = False,
       peer_rg_connect_flag = False, sender_capability_flag = False, sender_rg_connect_flag = False,
       rejected_msg_id = 0\<rparr>,
     csm_app_csm = zero_AppCSM, csm_current_state = ICCP_NONEXISTENT, csm_icc_msg_in_count = 0,
     csm_icc_msg_out_count = 0, csm_u_msg_in_count = 0, csm_i_msg_in_count = 0, csm_msg_log = zero_MsgLog,
     csm_if_bind_list = []\<rparr>"

lemmas zero_simps = zero_CSM_def zero_MsgLog_def zero_AppCSM_def zero_mLACP_def zero_MACMsg_def

subsection \<open>System\<close>

record system_dbg_counter_info =
  cnt_newlink_count :: u32
  cnt_dellink_count :: u32
  cnt_newnbr_count :: u32
  cnt_delnbr_count :: u32
  cnt_newaddr_count :: u32
  cnt_deladdr_count :: u32
  cnt_unknown_type_count :: u32
  cnt_rx_error_count :: u32
  cnt_unknown_if_name_count :: u32
  cnt_newmac_count :: u32
  cnt_delmac_count :: u32
  cnt_session_down_counter :: u32
  cnt_peer_link_down_counter :: u32
  cnt_warmboot_counter :: u32
  cnt_rx_peer_invalid_msg_counter :: u32
  cnt_rx_peer_hdr_read_sock_err_counter :: u32
  cnt_rx_peer_hdr_read_sock_zero_len_counter :: u32
  cnt_rx_peer_tlv_read_sock_err_counter :: u32
  cnt_rx_peer_tlv_read_sock_zero_len_counter :: u32
  cnt_socket_close_err_counter :: u32
  cnt_socket_cleanup_counter :: u32
  cnt_rx_retry_max_counter :: u32
  cnt_rx_retry_total_counter :: u32
  cnt_rx_retry_fail_counter :: u32
  cnt_rx_read_sock_zero_len_counter :: u32
  cnt_rx_read_sock_err_counter :: u32
  cnt_rx_read_stp_sock_zero_len_counter :: u32
  cnt_rx_read_stp_sock_err_counter :: u32
  cnt_mac_entry_alloc_counter :: u32
  cnt_mac_entry_free_counter :: u32
  cnt_syncd_tx_counters :: "nat \<Rightarrow> nat \<Rightarrow> u64"
  cnt_syncd_rx_counters :: "nat \<Rightarrow> nat \<Rightarrow> u64"

definition zero_dbg_counters :: system_dbg_counter_info where
  "zero_dbg_counters = \<lparr>cnt_newlink_count = 0, cnt_dellink_count = 0, cnt_newnbr_count = 0, cnt_delnbr_count = 0,
     cnt_newaddr_count = 0, cnt_deladdr_count = 0, cnt_unknown_type_count = 0, cnt_rx_error_count = 0,
     cnt_unknown_if_name_count = 0, cnt_newmac_count = 0, cnt_delmac_count = 0,
     cnt_session_down_counter = 0, cnt_peer_link_down_counter = 0, cnt_warmboot_counter = 0,
     cnt_rx_peer_invalid_msg_counter = 0, cnt_rx_peer_hdr_read_sock_err_counter = 0,
     cnt_rx_peer_hdr_read_sock_zero_len_counter = 0, cnt_rx_peer_tlv_read_sock_err_counter = 0,
     cnt_rx_peer_tlv_read_sock_zero_len_counter = 0, cnt_socket_close_err_counter = 0,
     cnt_socket_cleanup_counter = 0, cnt_rx_retry_max_counter = 0, cnt_rx_retry_total_counter = 0,
     cnt_rx_retry_fail_counter = 0, cnt_rx_read_sock_zero_len_counter = 0,
     cnt_rx_read_sock_err_counter = 0, cnt_rx_read_stp_sock_zero_len_counter = 0,
     cnt_rx_read_stp_sock_err_counter = 0, cnt_mac_entry_alloc_counter = 0,
     cnt_mac_entry_free_counter = 0, cnt_syncd_tx_counters = (\<lambda>_ _. 0),
     cnt_syncd_rx_counters = (\<lambda>_ _. 0)\<rparr>"

record PendingVlanMbrIf =
  pend_name :: string
  pend_vlan_tree :: vlan_rb_tree

record System =
  sys_server_fd :: int
  sys_sync_fd :: int
  sys_sync_ctrl_fd :: int
  sys_epoll_fd :: int
  sys_warmboot_start :: int
  sys_warmboot_exit :: int
  sys_csm_list :: "csm_ptr list"
  sys_lif_list :: "lif_ptr list"
  sys_lif_purge_list :: "lif_ptr list"
  sys_unq_ip_if_list :: "string list"
  sys_pending_vlan_mbr_if_list :: "PendingVlanMbrIf list"
  sys_readfd :: "int list"
  sys_readfd_count :: int
  sys_csm_trans_time :: int
  sys_need_sync_team_again :: int
  sys_need_sync_netlink_again :: int
  sys_dbg_counters :: system_dbg_counter_info

abbreviation (input) WARM_REBOOT :: int where "WARM_REBOOT \<equiv> 1"

subsection \<open>The daemon and its environment\<close>

text \<open>
  What the daemon does to the outside world, in order: writes to a socket with their
  result, shell commands, neighbour and link requests to the kernel.
\<close>

datatype event =
    Ev_write int bytes int
  | Ev_system string
  | Ev_neighbor nat bytes bool bytes int bool
  | Ev_hwaddr int bytes
  | Ev_link_flags int bool
  | Ev_close int
  | Ev_sleep nat

text \<open>
  \<open>w_answers\<close> scripts the results of the system calls to come, \<open>w_mallocs\<close> those of the
  allocations to come; past the end of a script every call succeeds. \<open>w_now\<close> is the
  clock, constant while one event is handled; \<open>w_team\<close> is what the kernel answers when asked
  for the ports of a port channel (interface index and whether the port was removed), or
  nothing when the request fails. \<open>g_prev_state\<close> and \<open>g_once_connected\<close> are the
  static variables \<open>prev_state\<close> of \<open>mlacp_fsm_transit\<close> and \<open>once_connected\<close> of
  \<open>mlacp_peer_conn_handler\<close>.
\<close>

record world =
  w_sys :: System
  w_csm :: "csm_ptr \<rightharpoonup> CSM"
  w_lif :: "lif_ptr \<rightharpoonup> LocalInterface"
  w_pif :: "pif_ptr \<rightharpoonup> PeerInterface"
  w_mac :: "mac_ptr \<rightharpoonup> MACMsg"
  w_fresh :: nat
  g_csm_buf :: buf
  ICCP_MSG_ID :: u32
  g_prev_state :: MLACP_APP_STATE
  g_once_connected :: bool
  w_now :: int
  w_team :: "int \<rightharpoonup> (int \<times> bool) list"
  w_answers :: "int list"
  w_mallocs :: "bool list"
  w_out :: "event list"

definition upd_csm :: "csm_ptr \<Rightarrow> (CSM \<Rightarrow> CSM) \<Rightarrow> world \<Rightarrow> world" where
  "upd_csm c f w = w\<lparr>w_csm := (w_csm w)(c := map_option f (w_csm w c))\<rparr>"

definition upd_lif :: "lif_ptr \<Rightarrow> (LocalInterface \<Rightarrow> LocalInterface) \<Rightarrow> world \<Rightarrow> world" where
  "upd_lif p f w = w\<lparr>w_lif := (w_lif w)(p := map_option f (w_lif w p))\<rparr>"

definition upd_pif :: "pif_ptr \<Rightarrow> (PeerInterface \<Rightarrow> PeerInterface) \<Rightarrow> world \<Rightarrow> world" where
  "upd_pif p f w = w\<lparr>w_pif := (w_pif w)(p := map_option f (w_pif w p))\<rparr>"

definition upd_mac :: "mac_ptr \<Rightarrow> (MACMsg \<Rightarrow> MACMsg) \<Rightarrow> world \<Rightarrow> world" where
  "upd_mac p f w = w\<lparr>w_mac := (w_mac w)(p := map_option f (w_mac w p))\<rparr>"

abbreviation upd_mlacp :: "csm_ptr \<Rightarrow> (mLACP \<Rightarrow> mLACP) \<Rightarrow> world \<Rightarrow> world" where
  "upd_mlacp c f \<equiv> upd_csm c (upd_MLACP f)"

abbreviation upd_sys :: "(System \<Rightarrow> System) \<Rightarrow> world \<Rightarrow> world" where
  "upd_sys \<equiv> w_sys_update"

abbreviation upd_cnt :: "(system_dbg_counter_info \<Rightarrow> system_dbg_counter_info) \<Rightarrow> world \<Rightarrow> world" where
  "upd_cnt f \<equiv> w_sys_update (sys_dbg_counters_update f)"

definition emit :: "event \<Rightarrow> world \<Rightarrow> world" where
  "emit e w = w\<lparr>w_out := w_out w @ [e]\<rparr>"

text \<open>The result of the next system call: the next scripted answer, or the given success value.\<close>

definition answer :: "int \<Rightarrow> world \<Rightarrow> int \<times> world" where
  "answer d w = (case w_answers w of [] \<Rightarrow> (d, w) | a # as \<Rightarrow> (a, w\<lparr>w_answers := as\<rparr>))"

definition malloc_ok :: "world \<Rightarrow> bool \<times> world" where
  "malloc_ok w = (case w_mallocs w of [] \<Rightarrow> (True, w) | a # as \<Rightarrow> (a, w\<lparr>w_mallocs := as\<rparr>))"

text \<open>\<open>write (fd, data, len)\<close> and \<open>system (cmd)\<close>.\<close>

definition sys_write :: "int \<Rightarrow> bytes \<Rightarrow> world \<Rightarrow> int \<times> world" where
  "sys_write fd bs w = (let (rc, w) = answer (int (length bs)) w in (rc, emit (Ev_write fd bs rc) w))"

definition sys_system :: "string \<Rightarrow> world \<Rightarrow> int \<times> world" where
  "sys_system cmd w = (let (rc, w) = answer 0 w in (rc, emit (Ev_system cmd) w))"

lemma w_csm_upd_csm [simp]:
  "w_csm (upd_csm c f w) = (w_csm w)(c := map_option f (w_csm w c))"
  by (simp add: upd_csm_def)

lemma w_lif_upd_lif [simp]:
  "w_lif (upd_lif p f w) = (w_lif w)(p := map_option f (w_lif w p))"
  by (simp add: upd_lif_def)

lemma w_pif_upd_pif [simp]:
  "w_pif (upd_pif p f w) = (w_pif w)(p := map_option f (w_pif w p))"
  by (simp add: upd_pif_def)

lemma w_mac_upd_mac [simp]:
  "w_mac (upd_mac p f w) = (w_mac w)(p := map_option f (w_mac w p))"
  by (simp add: upd_mac_def)

lemma upd_csm_frame [simp, frame_simps]:
  "w_sys (upd_csm c f w) = w_sys w" "w_lif (upd_csm c f w) = w_lif w" "w_pif (upd_csm c f w) = w_pif w"
  "w_mac (upd_csm c f w) = w_mac w" "w_fresh (upd_csm c f w) = w_fresh w" "g_csm_buf (upd_csm c f w) = g_csm_buf w"
  "ICCP_MSG_ID (upd_csm c f w) = ICCP_MSG_ID w" "g_prev_state (upd_csm c f w) = g_prev_state w" "g_once_connected (upd_csm c f w) = g_once_connected w" "w_now (upd_csm c f w) = w_now w" "w_team (upd_csm c f w) = w_team w"
  "w_answers (upd_csm c f w) = w_answers w" "w_mallocs (upd_csm c f w) = w_mallocs w" "w_out (upd_csm c f w) = w_out w"
  by (simp_all add: upd_csm_def)

lemma upd_lif_frame [simp, frame_simps]:
  "w_sys (upd_lif c f w) = w_sys w" "w_csm (upd_lif c f w) = w_csm w" "w_pif (upd_lif c f w) = w_pif w"
  "w_mac (upd_lif c f w) = w_mac w" "w_fresh (upd_lif c f w) = w_fresh w" "g_csm_buf (upd_lif c f w) = g_csm_buf w"
  "ICCP_MSG_ID (upd_lif c f w) = ICCP_MSG_ID w" "g_prev_state (upd_lif c f w) = g_prev_state w" "g_once_connected (upd_lif c f w) = g_once_connected w" "w_now (upd_lif c f w) = w_now w" "w_team (upd_lif c f w) = w_team w"
  "w_answers (upd_lif c f w) = w_answers w" "w_mallocs (upd_lif c f w) = w_mallocs w" "w_out (upd_lif c f w) = w_out w"
  by (simp_all add: upd_lif_def)

lemma upd_pif_frame [simp, frame_simps]:
  "w_sys (upd_pif c f w) = w_sys w" "w_csm (upd_pif c f w) = w_csm w" "w_lif (upd_pif c f w) = w_lif w"
  "w_mac (upd_pif c f w) = w_mac w" "w_fresh (upd_pif c f w) = w_fresh w" "g_csm_buf (upd_pif c f w) = g_csm_buf w"
  "ICCP_MSG_ID (upd_pif c f w) = ICCP_MSG_ID w" "g_prev_state (upd_pif c f w) = g_prev_state w" "g_once_connected (upd_pif c f w) = g_once_connected w" "w_now (upd_pif c f w) = w_now w" "w_team (upd_pif c f w) = w_team w"
  "w_answers (upd_pif c f w) = w_answers w" "w_mallocs (upd_pif c f w) = w_mallocs w" "w_out (upd_pif c f w) = w_out w"
  by (simp_all add: upd_pif_def)

lemma upd_mac_frame [simp, frame_simps]:
  "w_sys (upd_mac c f w) = w_sys w" "w_csm (upd_mac c f w) = w_csm w" "w_lif (upd_mac c f w) = w_lif w"
  "w_pif (upd_mac c f w) = w_pif w" "w_fresh (upd_mac c f w) = w_fresh w" "g_csm_buf (upd_mac c f w) = g_csm_buf w"
  "ICCP_MSG_ID (upd_mac c f w) = ICCP_MSG_ID w" "g_prev_state (upd_mac c f w) = g_prev_state w" "g_once_connected (upd_mac c f w) = g_once_connected w" "w_now (upd_mac c f w) = w_now w" "w_team (upd_mac c f w) = w_team w"
  "w_answers (upd_mac c f w) = w_answers w" "w_mallocs (upd_mac c f w) = w_mallocs w" "w_out (upd_mac c f w) = w_out w"
  by (simp_all add: upd_mac_def)

lemma emit_frame [simp, frame_simps]:
  "w_sys (emit e w) = w_sys w" "w_csm (emit e w) = w_csm w" "w_lif (emit e w) = w_lif w"
  "w_pif (emit e w) = w_pif w" "w_mac (emit e w) = w_mac w" "w_fresh (emit e w) = w_fresh w"
  "g_csm_buf (emit e w) = g_csm_buf w" "ICCP_MSG_ID (emit e w) = ICCP_MSG_ID w" "g_prev_state (emit e w) = g_prev_state w" "g_once_connected (emit e w) = g_once_connected w" "w_now (emit e w) = w_now w" "w_team (emit e w) = w_team w"
  "w_answers (emit e w) = w_answers w" "w_mallocs (emit e w) = w_mallocs w" "w_out (emit e w) = w_out w @ [e]"
  by (simp_all add: emit_def)

lemma answer_frame [simp, frame_simps]:
  "w_sys (snd (answer d w)) = w_sys w" "w_csm (snd (answer d w)) = w_csm w" "w_lif (snd (answer d w)) = w_lif w"
  "w_pif (snd (answer d w)) = w_pif w" "w_mac (snd (answer d w)) = w_mac w" "w_fresh (snd (answer d w)) = w_fresh w"
  "g_csm_buf (snd (answer d w)) = g_csm_buf w" "ICCP_MSG_ID (snd (answer d w)) = ICCP_MSG_ID w" "g_prev_state (snd (answer d w)) = g_prev_state w" "g_once_connected (snd (answer d w)) = g_once_connected w"
  "w_now (snd (answer d w)) = w_now w" "w_team (snd (answer d w)) = w_team w" "w_mallocs (snd (answer d w)) = w_mallocs w" "w_out (snd (answer d w)) = w_out w"
  by (simp_all add: answer_def split: list.splits)

lemma malloc_frame [simp, frame_simps]:
  "w_sys (snd (malloc_ok w)) = w_sys w" "w_csm (snd (malloc_ok w)) = w_csm w" "w_lif (snd (malloc_ok w)) = w_lif w"
  "w_pif (snd (malloc_ok w)) = w_pif w" "w_mac (snd (malloc_ok w)) = w_mac w" "w_fresh (snd (malloc_ok w)) = w_fresh w"
  "g_csm_buf (snd (malloc_ok w)) = g_csm_buf w" "ICCP_MSG_ID (snd (malloc_ok w)) = ICCP_MSG_ID w" "g_prev_state (snd (malloc_ok w)) = g_prev_state w" "g_once_connected (snd (malloc_ok w)) = g_once_connected w"
  "w_now (snd (malloc_ok w)) = w_now w" "w_team (snd (malloc_ok w)) = w_team w" "w_answers (snd (malloc_ok w)) = w_answers w" "w_out (snd (malloc_ok w)) = w_out w"
  by (simp_all add: malloc_ok_def split: list.splits)

lemma sys_write_alt: "sys_write fd bs w =
  (fst (answer (int (length bs)) w), emit (Ev_write fd bs (fst (answer (int (length bs)) w))) (snd (answer (int (length bs)) w)))"
  by (simp add: sys_write_def case_prod_beta)

lemma sys_system_alt: "sys_system cmd w = (fst (answer 0 w), emit (Ev_system cmd) (snd (answer 0 w)))"
  by (simp add: sys_system_def case_prod_beta)

subsection \<open>Steps that only talk to the outside\<close>

text \<open>
  \<open>io_step w w'\<close>: from \<open>w\<close> to \<open>w'\<close> only output was appended, answers were consumed and
  debug counters moved; everything the protocol depends on is unchanged.
\<close>

definition io_step :: "world \<Rightarrow> world \<Rightarrow> bool" where
  "io_step w w' \<longleftrightarrow> (\<exists>evs as cnt. w' = w\<lparr>w_out := w_out w @ evs, w_answers := as,
     w_sys := (w_sys w)\<lparr>sys_dbg_counters := cnt\<rparr>\<rparr>)"

lemma io_stepI:
  "w' = w\<lparr>w_out := w_out w @ evs, w_answers := as, w_sys := (w_sys w)\<lparr>sys_dbg_counters := cnt\<rparr>\<rparr> \<Longrightarrow> io_step w w'"
  by (auto simp: io_step_def)

lemma io_refl [simp, intro]: "io_step w w"
  by (rule io_stepI [where evs = "[]" and as = "w_answers w" and cnt = "sys_dbg_counters (w_sys w)"]) simp

lemma io_trans [trans]: "io_step w w' \<Longrightarrow> io_step w' w'' \<Longrightarrow> io_step w w''"
proof -
  assume "io_step w w'" "io_step w' w''"
  then obtain e1 a1 c1 e2 a2 c2 where
    "w' = w\<lparr>w_out := w_out w @ e1, w_answers := a1, w_sys := (w_sys w)\<lparr>sys_dbg_counters := c1\<rparr>\<rparr>"
    "w'' = w'\<lparr>w_out := w_out w' @ e2, w_answers := a2, w_sys := (w_sys w')\<lparr>sys_dbg_counters := c2\<rparr>\<rparr>"
    unfolding io_step_def by blast
  then show ?thesis by (intro io_stepI [where evs = "e1 @ e2" and as = a2 and cnt = c2]) simp
qed

lemma io_emit [intro]: "io_step w (emit e w)"
  by (rule io_stepI [where evs = "[e]" and as = "w_answers w" and cnt = "sys_dbg_counters (w_sys w)"])
    (simp add: emit_def)

lemma io_answer [intro]: "io_step w (snd (answer d w))"
  by (rule io_stepI [where evs = "[]" and as = "tl (w_answers w)" and cnt = "sys_dbg_counters (w_sys w)"])
    (simp add: answer_def split: list.splits)

lemma io_cnt [intro]: "io_step w (upd_cnt f w)"
  by (rule io_stepI [where evs = "[]" and as = "w_answers w" and cnt = "f (sys_dbg_counters (w_sys w))"]) simp

lemma io_frame:
  assumes "io_step w w'"
  shows "w_csm w' = w_csm w" "w_lif w' = w_lif w" "w_pif w' = w_pif w" "w_mac w' = w_mac w"
    "w_fresh w' = w_fresh w" "g_csm_buf w' = g_csm_buf w" "ICCP_MSG_ID w' = ICCP_MSG_ID w" "g_prev_state w' = g_prev_state w" "g_once_connected w' = g_once_connected w" "w_now w' = w_now w" "w_team w' = w_team w"
    "w_mallocs w' = w_mallocs w" "sys_sync_fd (w_sys w') = sys_sync_fd (w_sys w)"
    "sys_csm_list (w_sys w') = sys_csm_list (w_sys w)" "sys_lif_list (w_sys w') = sys_lif_list (w_sys w)"
    "sys_warmboot_exit (w_sys w') = sys_warmboot_exit (w_sys w)"
    "sys_lif_purge_list (w_sys w') = sys_lif_purge_list (w_sys w)"
    "sys_unq_ip_if_list (w_sys w') = sys_unq_ip_if_list (w_sys w)"
  using assms by (auto simp: io_step_def)

lemma io_sys_write [intro]: "io_step w (snd (sys_write fd bs w))"
  unfolding sys_write_alt by (auto intro: io_trans)

lemma io_sys_system [intro]: "io_step w (snd (sys_system cmd w))"
  unfolding sys_system_alt by (auto intro: io_trans)

end
