(* ===== verification/Iccp_Rb_Tree.thy ===== *)
theory Iccp_Rb_Tree
  imports Iccp_State
begin

text \<open>
  The ordered trees of the daemon (\<open>include/openbsd_tree.h\<close>, instantiated by \<open>RB_GENERATE\<close>
  in \<open>src/port.c\<close> and \<open>src/mlacp_fsm.c\<close>): VLAN nodes of an interface and MAC entries of a
  domain. The development sees a tree as the sequence of its nodes in \<open>RB_FOREACH\<close> order;
  the operations below are what \<open>RB_FIND\<close>, \<open>RB_INSERT\<close> and \<open>RB_REMOVE\<close> do to that sequence for
  the comparison function of the tree. That the trees on the heap behave like this is shown in
  \<open>Rb_Spec\<close>.
\<close>

definition RB_FIND :: "('a \<Rightarrow> 'a \<Rightarrow> int) \<Rightarrow> 'a \<Rightarrow> 'a list \<Rightarrow> 'a option" where
  "RB_FIND cmp k t = find (\<lambda>y. cmp k y = 0) t"

primrec RB_INSERT :: "('a \<Rightarrow> 'a \<Rightarrow> int) \<Rightarrow> 'a \<Rightarrow> 'a list \<Rightarrow> 'a list" where
  "RB_INSERT cmp x [] = [x]"
| "RB_INSERT cmp x (y # ys) =
     (if cmp x y < 0 then x # y # ys else if cmp x y = 0 then y # ys else y # RB_INSERT cmp x ys)"

definition RB_REMOVE :: "('a \<Rightarrow> 'a \<Rightarrow> int) \<Rightarrow> 'a \<Rightarrow> 'a list \<Rightarrow> 'a list" where
  "RB_REMOVE cmp x t = filter (\<lambda>y. cmp x y \<noteq> 0) t"

definition vlan_node_compare :: "VLAN_ID \<Rightarrow> VLAN_ID \<Rightarrow> int" where
  "vlan_node_compare n1 n2 =
     (if vlan_vid n1 < vlan_vid n2 then - 1 else if vlan_vid n1 > vlan_vid n2 then 1 else 0)"

text \<open>
  What a comparison function owes its tree, on the nodes \<open>ok\<close> admits: it is antisymmetric
  and \<open>< 0\<close> is transitive, also through equal nodes.
\<close>

locale node_order =
  fixes cmp :: "'a \<Rightarrow> 'a \<Rightarrow> int" and ok :: "'a \<Rightarrow> bool"
  assumes antisym: "ok x \<Longrightarrow> ok y \<Longrightarrow> cmp y x = - cmp x y"
    and trans: "ok x \<Longrightarrow> ok y \<Longrightarrow> ok z \<Longrightarrow> cmp x y < 0 \<Longrightarrow> cmp y z < 0 \<Longrightarrow> cmp x z < 0"
    and eq_cong: "ok x \<Longrightarrow> ok y \<Longrightarrow> ok z \<Longrightarrow> cmp x y = 0 \<Longrightarrow> cmp x z = cmp y z"
begin

definition tree :: "'a list \<Rightarrow> bool" where
  "tree t \<longleftrightarrow> (\<forall>x \<in> set t. ok x) \<and> sorted_wrt (\<lambda>x y. cmp x y < 0) t"

lemma cmp_refl: "ok x \<Longrightarrow> cmp x x = 0"
  using antisym [of x x] by simp

lemma tree_Nil [simp]: "tree []"
  by (simp add: tree_def)

lemma tree_Cons: "tree (x # t) \<longleftrightarrow> ok x \<and> (\<forall>y \<in> set t. cmp x y < 0) \<and> tree t"
  by (auto simp: tree_def)

lemma find_unique:
  assumes "tree t" "ok k" "y \<in> set t" "cmp k y = 0"
  shows "RB_FIND cmp k t = Some y"
  using assms
proof (induction t)
  case (Cons x t)
  show ?case
  proof (cases "y = x")
    case False
    with Cons have "cmp x y < 0" "ok x" "ok y" by (auto simp: tree_Cons tree_def)
    moreover have "cmp k x \<noteq> 0"
      using \<open>cmp x y < 0\<close> \<open>ok x\<close> \<open>ok y\<close> Cons.prems eq_cong [of k x y] by auto
    ultimately show ?thesis using Cons False by (simp add: RB_FIND_def tree_Cons)
  qed (use Cons in \<open>simp add: RB_FIND_def\<close>)
qed simp

lemma find_Some: "RB_FIND cmp k t = Some y \<Longrightarrow> y \<in> set t \<and> cmp k y = 0"
  by (auto simp: RB_FIND_def find_Some_iff)

lemma find_None: "RB_FIND cmp k t = None \<longleftrightarrow> (\<forall>y \<in> set t. cmp k y \<noteq> 0)"
  by (auto simp: RB_FIND_def find_None_iff)

lemma set_insert:
  assumes "tree t" "ok x"
  shows "set (RB_INSERT cmp x t) = (if RB_FIND cmp x t = None then insert x (set t) else set t)"
  using assms
proof (induction t)
  case (Cons y t)
  have "RB_FIND cmp x (y # t) = None" if "cmp x y < 0"
  proof -
    have "cmp x z < 0" if "z \<in> set t" for z
      using that \<open>cmp x y < 0\<close> Cons.prems trans [of x y z] by (auto simp: tree_Cons tree_def)
    with that show ?thesis by (fastforce simp: find_None)
  qed
  with Cons show ?case by (auto simp: tree_Cons RB_FIND_def)
qed (simp add: RB_FIND_def)

lemma tree_insert:
  assumes "tree t" "ok x"
  shows "tree (RB_INSERT cmp x t)"
  using assms
proof (induction t)
  case (Cons y t)
  consider "cmp x y < 0" | "cmp x y = 0" | "cmp x y > 0" by linarith
  then show ?case
  proof cases
    case 1
    with Cons show ?thesis using trans [of x y] by (auto simp: tree_Cons tree_def)
  next
    case 3
    then have "cmp y x < 0" using Cons.prems antisym [of x y] by (simp add: tree_Cons)
    with 3 Cons show ?thesis
      using set_insert [of t x] by (auto simp: tree_Cons split: if_splits)
  qed (use Cons in simp)
qed (simp add: tree_def)

lemma tree_remove: "tree t \<Longrightarrow> tree (RB_REMOVE cmp x t)"
  by (auto simp: tree_def RB_REMOVE_def sorted_wrt_filter)

lemma tree_filter: "tree t \<Longrightarrow> tree (filter P t)"
  by (auto simp: tree_def sorted_wrt_filter)

lemma find_insert:
  assumes "tree t" "ok x" "ok k"
  shows "RB_FIND cmp k (RB_INSERT cmp x t) =
    (if cmp k x = 0 \<and> RB_FIND cmp k t = None then Some x else RB_FIND cmp k t)"
proof -
  have t': "tree (RB_INSERT cmp x t)" using assms tree_insert by blast
  have cong: "RB_FIND cmp x t = None \<longleftrightarrow> RB_FIND cmp k t = None" if "cmp k x = 0"
    using that assms eq_cong [of k x] by (auto simp: find_None tree_def)
  show ?thesis
  proof (cases "RB_FIND cmp k t")
    case None
    show ?thesis
    proof (cases "cmp k x = 0")
      case True
      then show ?thesis
        using None cong set_insert assms t' find_unique [of "RB_INSERT cmp x t" k x] by simp
    next
      case False
      then have "RB_FIND cmp k (RB_INSERT cmp x t) = None"
        using None assms by (auto simp: find_None set_insert)
      with None False show ?thesis by simp
    qed
  next
    case (Some y)
    then have "y \<in> set (RB_INSERT cmp x t)" "cmp k y = 0"
      using find_Some [OF Some] set_insert assms by auto
    then have "RB_FIND cmp k (RB_INSERT cmp x t) = Some y"
      by (rule find_unique [OF t' assms(3)])
    with Some show ?thesis by simp
  qed
qed

lemma find_remove:
  assumes "tree t" "ok x" "ok k"
  shows "RB_FIND cmp k (RB_REMOVE cmp x t) = (if cmp k x = 0 then None else RB_FIND cmp k t)"
proof (cases "cmp k x = 0")
  case True
  then have "RB_FIND cmp k (RB_REMOVE cmp x t) = None"
    using assms eq_cong [of k x] by (auto simp: find_None RB_REMOVE_def tree_def)
  with True show ?thesis by simp
next
  case False
  show ?thesis
  proof (cases "RB_FIND cmp k t")
    case None
    then have "RB_FIND cmp k (RB_REMOVE cmp x t) = None" by (auto simp: find_None RB_REMOVE_def)
    with None show ?thesis by simp
  next
    case (Some y)
    then have y: "y \<in> set t" "cmp k y = 0" using find_Some by auto
    moreover have "cmp x y \<noteq> 0"
      using False y assms eq_cong [of y k x] eq_cong [of x y k] antisym cmp_refl
      by (metis neg_equal_0_iff_equal tree_def)
    ultimately have "RB_FIND cmp k (RB_REMOVE cmp x t) = Some y"
      using assms by (intro find_unique tree_remove) (auto simp: RB_REMOVE_def)
    with False Some show ?thesis by simp
  qed
qed

end

interpretation vlan_tree: node_order vlan_node_compare "\<lambda>_. True"
  by unfold_locales (auto simp: vlan_node_compare_def split: if_splits)

lemma vlan_compare_0 [simp]: "vlan_node_compare a b = 0 \<longleftrightarrow> vlan_vid a = vlan_vid b"
  by (auto simp: vlan_node_compare_def)

definition mac_key_ok :: "MACMsg \<Rightarrow> bool" where
  "mac_key_ok m \<longleftrightarrow> length (mac_addr m) = ETHER_ADDR_LEN"

lemma MACMsg_compare_0:
  "mac_key_ok a \<Longrightarrow> mac_key_ok b \<Longrightarrow> MACMsg_compare a b = 0 \<longleftrightarrow> mac_vid a = mac_vid b \<and> mac_addr a = mac_addr b"
  by (auto simp: MACMsg_compare_def mac_key_ok_def memcmp_eq_0)

interpretation mac_tree: node_order MACMsg_compare mac_key_ok
proof unfold_locales
  fix x y assume "mac_key_ok x" "mac_key_ok y"
  then show "MACMsg_compare y x = - MACMsg_compare x y"
    by (auto simp: MACMsg_compare_def memcmp_antisym [of "mac_addr y"])
next
  fix x y z assume ok: "mac_key_ok x" "mac_key_ok y" "mac_key_ok z"
  show "MACMsg_compare x y < 0 \<Longrightarrow> MACMsg_compare y z < 0 \<Longrightarrow> MACMsg_compare x z < 0"
    using ok memcmp_trans [of "mac_addr x" "mac_addr y" "mac_addr z"]
    by (auto simp: MACMsg_compare_def mac_key_ok_def split: if_splits)
  show "MACMsg_compare x y = 0 \<Longrightarrow> MACMsg_compare x z = MACMsg_compare y z"
    using ok by (simp add: MACMsg_compare_0) (simp add: MACMsg_compare_def)
qed

end
