(* ===== verification/Mclag_Syncd.thy ===== *)
theory Mclag_Syncd
  imports Iccp_Rb_Tree
begin

text \<open>
  Requests to \<open>mclagsyncd\<close> (\<open>src/mlacp_link_handler.c\<close>, \<open>src/system.c\<close>): a message is a header
  with its total length followed by typed sub-options; it is sent over a
  non-blocking socket with a bounded number of retries.
\<close>

subsection \<open>Counters\<close>

abbreviation (input) SYNCD_TX_DBG_CNTR_MSG_MAX :: nat where "SYNCD_TX_DBG_CNTR_MSG_MAX \<equiv> 15"
abbreviation (input) SYNCD_RX_DBG_CNTR_MSG_MAX :: nat where "SYNCD_RX_DBG_CNTR_MSG_MAX \<equiv> 5"

abbreviation (input) MCLAG_MSG_TYPE_PORT_ISOLATE :: u8 where "MCLAG_MSG_TYPE_PORT_ISOLATE \<equiv> 1"
abbreviation (input) MCLAG_MSG_TYPE_PORT_MAC_LEARN_MODE :: u8 where "MCLAG_MSG_TYPE_PORT_MAC_LEARN_MODE \<equiv> 2"
abbreviation (input) MCLAG_MSG_TYPE_SET_MAC :: u8 where "MCLAG_MSG_TYPE_SET_MAC \<equiv> 4"
abbreviation (input) MCLAG_MSG_TYPE_SET_FDB :: u8 where "MCLAG_MSG_TYPE_SET_FDB \<equiv> 5"
abbreviation (input) MCLAG_MSG_TYPE_SET_TRAFFIC_DIST_ENABLE :: u8 where "MCLAG_MSG_TYPE_SET_TRAFFIC_DIST_ENABLE \<equiv> 6"
abbreviation (input) MCLAG_MSG_TYPE_SET_TRAFFIC_DIST_DISABLE :: u8 where "MCLAG_MSG_TYPE_SET_TRAFFIC_DIST_DISABLE \<equiv> 7"
abbreviation (input) MCLAG_MSG_TYPE_SET_ICCP_STATE :: u8 where "MCLAG_MSG_TYPE_SET_ICCP_STATE \<equiv> 8"
abbreviation (input) MCLAG_MSG_TYPE_SET_ICCP_ROLE :: u8 where "MCLAG_MSG_TYPE_SET_ICCP_ROLE \<equiv> 9"
abbreviation (input) MCLAG_MSG_TYPE_SET_ICCP_SYSTEM_ID :: u8 where "MCLAG_MSG_TYPE_SET_ICCP_SYSTEM_ID \<equiv> 10"
abbreviation (input) MCLAG_MSG_TYPE_DEL_ICCP_INFO :: u8 where "MCLAG_MSG_TYPE_DEL_ICCP_INFO \<equiv> 11"
abbreviation (input) MCLAG_MSG_TYPE_SET_REMOTE_IF_STATE :: u8 where "MCLAG_MSG_TYPE_SET_REMOTE_IF_STATE \<equiv> 12"
abbreviation (input) MCLAG_MSG_TYPE_DEL_REMOTE_IF_INFO :: u8 where "MCLAG_MSG_TYPE_DEL_REMOTE_IF_INFO \<equiv> 13"
abbreviation (input) MCLAG_MSG_TYPE_SET_PEER_LINK_ISOLATION :: u8 where "MCLAG_MSG_TYPE_SET_PEER_LINK_ISOLATION \<equiv> 14"

definition system_syncdtx_to_dbg_msg_type :: "u8 \<Rightarrow> nat" where
  "system_syncdtx_to_dbg_msg_type msg_type =
     (if msg_type = 1 then 0
      else if msg_type = 2 then 1
      else if msg_type = 3 then 2
      else if msg_type = 4 then 3
      else if msg_type = 5 then 4
      else if msg_type = 6 then 5
      else if msg_type = 7 then 6
      else if msg_type = 8 then 7
      else if msg_type = 9 then 8
      else if msg_type = 10 then 9
      else if msg_type = 12 then 11
      else if msg_type = 11 then 10
      else if msg_type = 13 then 12
      else if msg_type = 14 then 13
      else if msg_type = 15 then 14
      else SYNCD_TX_DBG_CNTR_MSG_MAX)"

definition system_syncdrx_to_dbg_msg_type :: "u8 \<Rightarrow> nat" where
  "system_syncdrx_to_dbg_msg_type msg_type =
     (if msg_type = 1 then 0
      else if msg_type = 2 then 1
      else if msg_type = 3 then 2
      else if msg_type = 5 then 3
      else if msg_type = 4 then 4
      else SYNCD_RX_DBG_CNTR_MSG_MAX)"

definition SYSTEM_SET_SYNCD_TX_DBG_COUNTER :: "u8 \<Rightarrow> nat \<Rightarrow> world \<Rightarrow> world" where
  "SYSTEM_SET_SYNCD_TX_DBG_COUNTER msg_type status w = (let
     dbg_type = system_syncdtx_to_dbg_msg_type msg_type in
     if dbg_type < SYNCD_TX_DBG_CNTR_MSG_MAX \<and> status < 2
     then upd_cnt (cnt_syncd_tx_counters_update (\<lambda>cs. cs(dbg_type := (cs dbg_type)(status := cs dbg_type status + 1)))) w
     else w)"

subsection \<open>Message layout\<close>

text \<open>\<open>mclag_sub_option_hdr_t\<close>: type, a byte of padding, length, data.\<close>

definition sub_option :: "u8 \<Rightarrow> bytes \<Rightarrow> bytes" where
  "sub_option t d = [t, 0] @ le16 (of_nat (length d)) @ d"

definition IccpSyncdMsg :: "u8 \<Rightarrow> bytes \<Rightarrow> bytes" where
  "IccpSyncdMsg t body = [1, t] @ le16 (of_nat (4 + length body)) @ body"

definition name_bytes :: "string \<Rightarrow> bytes" where "name_bytes s = map byte_of_char s"
definition bool_bytes :: "bool \<Rightarrow> bytes" where "bool_bytes b = [of_bool b]"
definition int_bytes :: "int \<Rightarrow> bytes" where "int_bytes i = le32 (of_int i)"

subsection \<open>Sending\<close>

abbreviation (input) SYNCD_SEND_RETRY_MAX :: nat where "SYNCD_SEND_RETRY_MAX \<equiv> 5"
abbreviation (input) EAGAIN :: int where "EAGAIN \<equiv> 11"

text \<open>
  \<open>send (fd, data, len, MSG_DONTWAIT)\<close> accepts at most \<open>len\<close> bytes; an answer \<open>- e\<close>
  stands for the result -1 with \<open>errno = e\<close>.
\<close>

definition sys_send :: "int \<Rightarrow> bytes \<Rightarrow> world \<Rightarrow> int \<times> world" where
  "sys_send fd bs w = (let
     (a, w) = answer (int (length bs)) w;
     rc = min a (int (length bs))
   in (rc, emit (Ev_write fd bs rc) w))"

function syncd_send_loop :: "u8 \<Rightarrow> bytes \<Rightarrow> nat \<Rightarrow> nat \<Rightarrow> world \<Rightarrow> int \<times> world" where
  "syncd_send_loop msg_type rest pos num_retry w =
     (if rest = [] then (int pos, SYSTEM_SET_SYNCD_TX_DBG_COUNTER msg_type 0 w)
      else let
        (send_len, w) = sys_send (sys_sync_fd (w_sys w)) rest w in
        if send_len < 0 then
          if - send_len = EAGAIN then
            if num_retry + 1 > SYNCD_SEND_RETRY_MAX
            then (MCLAG_ERROR, SYSTEM_SET_SYNCD_TX_DBG_COUNTER msg_type 1 w)
            else syncd_send_loop msg_type rest pos (num_retry + 1) w
          else (MCLAG_ERROR, SYSTEM_SET_SYNCD_TX_DBG_COUNTER msg_type 1 w)
        else if send_len = 0 then (MCLAG_ERROR, SYSTEM_SET_SYNCD_TX_DBG_COUNTER msg_type 1 w)
        else syncd_send_loop msg_type (drop (nat send_len) rest) (pos + nat send_len) num_retry w)"
  by pat_completeness auto

termination
  by (relation "measure (\<lambda>(t, rest, pos, num_retry, w). length rest + (SYNCD_SEND_RETRY_MAX + 1 - num_retry))")
    (auto simp: less_Suc_eq_le)

declare syncd_send_loop.simps [simp del]

definition iccp_send_to_mclagsyncd :: "u8 \<Rightarrow> bytes \<Rightarrow> world \<Rightarrow> int \<times> world" where
  "iccp_send_to_mclagsyncd msg_type msg w =
     (if sys_sync_fd (w_sys w) \<noteq> 0 then syncd_send_loop msg_type msg 0 0 w else (0, w))"

text \<open>The tail the request functions share: send, and -1 unless everything was sent.\<close>

definition syncd_request :: "u8 \<Rightarrow> bytes \<Rightarrow> world \<Rightarrow> int \<times> world" where
  "syncd_request msg_type body w = (let
     msg = IccpSyncdMsg msg_type body;
     (rc, w) = (if sys_sync_fd (w_sys w) \<noteq> 0 then iccp_send_to_mclagsyncd msg_type msg w else (0, w))
   in if rc \<le> 0 \<or> rc \<noteq> int (length msg) then (MCLAG_ERROR, w) else (0, w))"

subsection \<open>Requests\<close>

definition set_peerlink_mlag_port_learn :: "lif_ptr option \<Rightarrow> int \<Rightarrow> world \<Rightarrow> world option" where
  "set_peerlink_mlag_port_learn lif enable w = (case lif of None \<Rightarrow> Some w | Some p \<Rightarrow> do {
     l \<leftarrow> w_lif w p;
     let msg = IccpSyncdMsg MCLAG_MSG_TYPE_PORT_MAC_LEARN_MODE
                 (sub_option (if enable \<noteq> 0 then 3 else 4) (name_bytes (lif_name l)));
     if sys_sync_fd (w_sys w) \<noteq> 0 then do {
       let (rc, w) = sys_write (sys_sync_fd (w_sys w)) msg w;
       Some (SYSTEM_SET_SYNCD_TX_DBG_COUNTER MCLAG_MSG_TYPE_PORT_MAC_LEARN_MODE
               (if rc \<le> 0 \<or> rc \<noteq> int (length msg) then 1 else 0) w) }
     else Some w })"

definition mlacp_link_set_traffic_dist_mode :: "string \<Rightarrow> bool \<Rightarrow> world \<Rightarrow> int \<times> world" where
  "mlacp_link_set_traffic_dist_mode po_name is_enable w =
     syncd_request (if is_enable then MCLAG_MSG_TYPE_SET_TRAFFIC_DIST_ENABLE else MCLAG_MSG_TYPE_SET_TRAFFIC_DIST_DISABLE)
       (sub_option 7 (name_bytes po_name)) w"

definition mlacp_link_set_iccp_state :: "int \<Rightarrow> bool \<Rightarrow> world \<Rightarrow> int \<times> world" where
  "mlacp_link_set_iccp_state mlag_id is_oper_up w =
     (if sys_sync_fd (w_sys w) \<le> 0 \<and> \<not> is_oper_up then (MCLAG_ERROR, w)
      else syncd_request MCLAG_MSG_TYPE_SET_ICCP_STATE
        (sub_option 8 (int_bytes mlag_id) @ sub_option 11 (bool_bytes is_oper_up)) w)"

definition mlacp_link_set_iccp_role :: "int \<Rightarrow> bool \<Rightarrow> bytes \<Rightarrow> world \<Rightarrow> int \<times> world" where
  "mlacp_link_set_iccp_role mlag_id is_active_role system_id w =
     syncd_request MCLAG_MSG_TYPE_SET_ICCP_ROLE
       (sub_option 8 (int_bytes mlag_id) @ sub_option 9 (bool_bytes is_active_role)
        @ (if is_active_role then sub_option 10 (take ETHER_ADDR_LEN system_id) else [])) w"

definition mlacp_link_set_iccp_system_id :: "int \<Rightarrow> bytes \<Rightarrow> world \<Rightarrow> int \<times> world" where
  "mlacp_link_set_iccp_system_id mlag_id system_id w =
     syncd_request MCLAG_MSG_TYPE_SET_ICCP_SYSTEM_ID
       (sub_option 8 (int_bytes mlag_id) @ sub_option 10 (take ETHER_ADDR_LEN system_id)) w"

definition mlacp_link_del_iccp_info :: "int \<Rightarrow> world \<Rightarrow> int \<times> world" where
  "mlacp_link_del_iccp_info mlag_id w = (let
     msg = IccpSyncdMsg MCLAG_MSG_TYPE_DEL_ICCP_INFO (sub_option 8 (int_bytes mlag_id));
     (rc, w) = (if sys_sync_fd (w_sys w) \<noteq> 0 then sys_send (sys_sync_fd (w_sys w)) msg w else (0, w))
   in if rc \<le> 0 \<or> rc \<noteq> int (length msg) then (MCLAG_ERROR, w)
      else (0, SYSTEM_SET_SYNCD_TX_DBG_COUNTER MCLAG_MSG_TYPE_DEL_ICCP_INFO 0 w))"

text \<open>The next three count a successful request themselves although the send already did.\<close>

definition mlacp_link_set_remote_if_state :: "int \<Rightarrow> string \<Rightarrow> bool \<Rightarrow> world \<Rightarrow> int \<times> world" where
  "mlacp_link_set_remote_if_state mlag_id po_name is_oper_up w = (let
     (rc, w) = syncd_request MCLAG_MSG_TYPE_SET_REMOTE_IF_STATE
       (sub_option 8 (int_bytes mlag_id) @ sub_option 7 (name_bytes po_name)
        @ sub_option 11 (bool_bytes is_oper_up)) w
   in if rc = 0 then (0, SYSTEM_SET_SYNCD_TX_DBG_COUNTER MCLAG_MSG_TYPE_SET_REMOTE_IF_STATE 0 w) else (rc, w))"

definition mlacp_link_del_remote_if_info :: "int \<Rightarrow> string \<Rightarrow> world \<Rightarrow> int \<times> world" where
  "mlacp_link_del_remote_if_info mlag_id po_name w = (let
     (rc, w) = syncd_request MCLAG_MSG_TYPE_DEL_REMOTE_IF_INFO
       (sub_option 8 (int_bytes mlag_id) @ sub_option 7 (name_bytes po_name)) w
   in if rc = 0 then (0, SYSTEM_SET_SYNCD_TX_DBG_COUNTER MCLAG_MSG_TYPE_DEL_REMOTE_IF_INFO 0 w) else (rc, w))"

definition mlacp_link_set_peerlink_port_isolation :: "int \<Rightarrow> string \<Rightarrow> bool \<Rightarrow> world \<Rightarrow> int \<times> world" where
  "mlacp_link_set_peerlink_port_isolation mlag_id po_name is_isolation_enable w = (let
     (rc, w) = syncd_request MCLAG_MSG_TYPE_SET_PEER_LINK_ISOLATION
       (sub_option 8 (int_bytes mlag_id) @ sub_option 7 (name_bytes po_name)
        @ sub_option 12 (bool_bytes is_isolation_enable)) w
   in if rc = 0 then (0, SYSTEM_SET_SYNCD_TX_DBG_COUNTER MCLAG_MSG_TYPE_SET_PEER_LINK_ISOLATION 0 w) else (rc, w))"

subsection \<open>Properties of sending\<close>

text \<open>The bytes the receiver of the socket got from a trace of writes.\<close>

primrec delivered :: "event list \<Rightarrow> bytes" where
  "delivered [] = []"
| "delivered (e # es) = (case e of Ev_write fd bs rc \<Rightarrow> take (nat rc) bs | _ \<Rightarrow> []) @ delivered es"

lemma delivered_append [simp]: "delivered (xs @ ys) = delivered xs @ delivered ys"
  by (induction xs) auto

lemma io_tx_counter [intro]: "io_step w (SYSTEM_SET_SYNCD_TX_DBG_COUNTER t st w)"
  by (auto simp: SYSTEM_SET_SYNCD_TX_DBG_COUNTER_def Let_def)

lemma out_tx_counter [simp]: "w_out (SYSTEM_SET_SYNCD_TX_DBG_COUNTER t st w) = w_out w"
  by (simp add: SYSTEM_SET_SYNCD_TX_DBG_COUNTER_def Let_def)

lemma sys_send_alt: "sys_send fd bs w = (let rc = min (fst (answer (int (length bs)) w)) (int (length bs)) in
    (rc, emit (Ev_write fd bs rc) (snd (answer (int (length bs)) w))))"
  by (simp add: sys_send_def case_prod_beta Let_def)

lemma sys_send_result:
  assumes "sys_send fd bs w = (rc, w')"
  shows "io_step w w' \<and> w_out w' = w_out w @ [Ev_write fd bs rc] \<and> rc \<le> int (length bs)"
  using assms by (auto simp: sys_send_alt Let_def intro: io_trans)

lemma io_sys_send [intro]: "io_step w (snd (sys_send fd bs w))"
  using sys_send_result [OF surjective_pairing] by blast

lemma syncd_send_loop_spec:
  assumes "syncd_send_loop t rest pos n w = (r, w')" "n \<le> SYNCD_SEND_RETRY_MAX"
  shows "io_step w w' \<and> (\<exists>evs. w_out w' = w_out w @ evs \<and> length evs \<le> length rest + (SYNCD_SEND_RETRY_MAX + 1 - n) \<and>
    (r = int (pos + length rest) \<and> delivered evs = rest
     \<or> r = - 1 \<and> (\<exists>suffix. suffix \<noteq> [] \<and> rest = delivered evs @ suffix)))"
  using assms
proof (induction t rest pos n w rule: syncd_send_loop.induct)
  case (1 t rest pos n w)
  show ?case
  proof (cases "rest = []")
    case True
    with 1(3) show ?thesis by (auto simp: syncd_send_loop.simps)
  next
    case False
    obtain rc w1 where s: "sys_send (sys_sync_fd (w_sys w)) rest w = (rc, w1)" by fastforce
    note snt = sys_send_result [OF s]
    have fail: ?thesis if "(r, w') = (- 1, SYSTEM_SET_SYNCD_TX_DBG_COUNTER t 1 w1)" "rc \<le> 0"
      using that snt False 1(4)
      by (auto intro: io_trans intro!: exI [of _ "[Ev_write (sys_sync_fd (w_sys w)) rest rc]"])
    consider "rc < 0" "rc = - EAGAIN" "n + 1 \<le> SYNCD_SEND_RETRY_MAX" | "rc < 0" "\<not> (rc = - EAGAIN \<and> n + 1 \<le> SYNCD_SEND_RETRY_MAX)"
      | "rc = 0" | "rc > 0" by linarith
    then show ?thesis
    proof cases
      case 1
      then have "syncd_send_loop t rest pos (n + 1) w1 = (r, w')"
        using "1.prems" s False by (simp add: syncd_send_loop.simps [of t rest pos n w])
      with "1.IH"(1) [OF False s [symmetric] refl] 1 obtain evs where
        "io_step w1 w'" "w_out w' = w_out w1 @ evs" "length evs \<le> length rest + (SYNCD_SEND_RETRY_MAX + 1 - (n + 1))"
        "r = int (pos + length rest) \<and> delivered evs = rest
         \<or> r = - 1 \<and> (\<exists>suffix. suffix \<noteq> [] \<and> rest = delivered evs @ suffix)" by fastforce
      with snt 1 show ?thesis
        by (intro conjI exI [of _ "Ev_write (sys_sync_fd (w_sys w)) rest rc # evs"])
          (auto intro: io_trans)
    next
      case 2
      with "1.prems" s False show ?thesis
        by (intro fail) (auto simp: syncd_send_loop.simps [of t rest pos n w] split: if_splits)
    next
      case 3
      with "1.prems" s False show ?thesis
        by (intro fail) (auto simp: syncd_send_loop.simps [of t rest pos n w])
    next
      case 4
      then have "syncd_send_loop t (drop (nat rc) rest) (pos + nat rc) n w1 = (r, w')"
        using "1.prems" s False by (simp add: syncd_send_loop.simps [of t rest pos n w])
      with "1.IH"(2) [OF False s [symmetric] refl] 4 "1.prems"(2) obtain evs where ih:
        "io_step w1 w'" "w_out w' = w_out w1 @ evs"
        "length evs \<le> length (drop (nat rc) rest) + (SYNCD_SEND_RETRY_MAX + 1 - n)"
        "r = int (pos + nat rc + length (drop (nat rc) rest)) \<and> delivered evs = drop (nat rc) rest
         \<or> r = - 1 \<and> (\<exists>suffix. suffix \<noteq> [] \<and> drop (nat rc) rest = delivered evs @ suffix)" by fastforce
      have "nat rc + length (drop (nat rc) rest) = length rest" using snt 4 by auto
      then have l: "length (drop (nat rc) rest) < length rest" "pos + nat rc + length (drop (nat rc) rest) = pos + length rest"
        using 4 by linarith+
      have r: "r = int (pos + length rest) \<and> take (nat rc) rest @ delivered evs = rest
         \<or> r = - 1 \<and> (\<exists>suffix. suffix \<noteq> [] \<and> rest = (take (nat rc) rest @ delivered evs) @ suffix)"
        using ih(4) l(2) by (metis append_assoc append_take_drop_id)
      show ?thesis
        using snt ih(1,2,3) l(1) r
        by (intro conjI exI [of _ "Ev_write (sys_sync_fd (w_sys w)) rest rc # evs"]) (auto intro: io_trans)
    qed
  qed
qed

lemma io_iccp_send_to_mclagsyncd [intro]: "io_step w (snd (iccp_send_to_mclagsyncd t m w))"
  using syncd_send_loop_spec [of t m 0 0 w, OF surjective_pairing] by (simp add: iccp_send_to_mclagsyncd_def)

lemma io_syncd_request [intro]: "io_step w (snd (syncd_request t body w))"
  using io_iccp_send_to_mclagsyncd by (auto simp: syncd_request_def Let_def split: prod.splits) (metis snd_conv)+

lemma io_requests [intro]:
  "io_step w (snd (mlacp_link_set_traffic_dist_mode n e w))"
  "io_step w (snd (mlacp_link_set_iccp_state i up w))"
  "io_step w (snd (mlacp_link_set_iccp_role i act sid w))"
  "io_step w (snd (mlacp_link_set_iccp_system_id i sid w))"
  by (auto simp: mlacp_link_set_traffic_dist_mode_def mlacp_link_set_iccp_state_def
      mlacp_link_set_iccp_role_def mlacp_link_set_iccp_system_id_def)

lemma io_counted_requests [intro]:
  "io_step w (snd (mlacp_link_set_remote_if_state i n up w))"
  "io_step w (snd (mlacp_link_del_remote_if_info i n w))"
  "io_step w (snd (mlacp_link_set_peerlink_port_isolation i n e w))"
  unfolding mlacp_link_set_remote_if_state_def mlacp_link_del_remote_if_info_def
    mlacp_link_set_peerlink_port_isolation_def Let_def case_prod_beta
  by (auto intro: io_trans)

lemma io_del_iccp_info [intro]: "io_step w (snd (mlacp_link_del_iccp_info i w))"
  unfolding mlacp_link_del_iccp_info_def Let_def case_prod_beta by (auto intro: io_trans)

end
