(* ===== verification/Iccp_Port.thy ===== *)
theory Iccp_Port
  imports Iccp_Rb_Tree
begin

text \<open>
  Interfaces and lookups (\<open>src/port.c\<close>, \<open>src/system.c\<close>, \<open>src/iccp_consistency_check.c\<close>):
  searching the interface and domain lists, VLAN membership of local and
  peer interfaces, and the consistency check of an MLAG interface.
\<close>

subsection \<open>Searching lists of objects\<close>

text \<open>A \<open>LIST_FOREACH\<close> that stops at the first object with the property.\<close>

primrec find_ptr :: "(nat \<rightharpoonup> 'o) \<Rightarrow> ('o \<Rightarrow> bool) \<Rightarrow> nat list \<Rightarrow> nat option option" where
  "find_ptr h P [] = Some None"
| "find_ptr h P (p # ps) = do { x \<leftarrow> h p; if P x then Some (Some p) else find_ptr h P ps }"

lemma find_ptr_Some:
  "find_ptr h P ps = Some (Some p) \<Longrightarrow> p \<in> set ps \<and> (\<exists>x. h p = Some x \<and> P x)"
  by (induction ps) (auto simp: Option.bind_eq_Some_conv split: if_splits)

lemma find_ptr_None:
  "find_ptr h P ps = Some None \<Longrightarrow> p \<in> set ps \<Longrightarrow> \<exists>x. h p = Some x \<and> \<not> P x"
  by (induction ps) (auto simp: Option.bind_eq_Some_conv split: if_splits)

lemma find_ptr_total: "set ps \<subseteq> dom h \<Longrightarrow> \<exists>r. find_ptr h P ps = Some r"
  by (induction ps) auto

lemma find_ptr_eq_find:
  "set ps \<subseteq> dom h \<Longrightarrow> find_ptr h P ps = Some (find (\<lambda>p. P (the (h p))) ps)"
  by (induction ps) auto

definition local_if_find_by_name :: "string \<Rightarrow> world \<Rightarrow> lif_ptr option option" where
  "local_if_find_by_name ifname w = find_ptr (w_lif w) (\<lambda>l. lif_name l = ifname) (sys_lif_list (w_sys w))"

definition local_if_find_by_ifindex :: "int \<Rightarrow> world \<Rightarrow> lif_ptr option option" where
  "local_if_find_by_ifindex ifindex w = find_ptr (w_lif w) (\<lambda>l. lif_ifindex l = ifindex) (sys_lif_list (w_sys w))"

definition local_if_find_by_po_id :: "int \<Rightarrow> world \<Rightarrow> lif_ptr option option" where
  "local_if_find_by_po_id po_id w =
     find_ptr (w_lif w) (\<lambda>l. lif_type l = IF_T_PORT_CHANNEL \<and> lif_po_id l = po_id) (sys_lif_list (w_sys w))"

definition peer_if_find_by_name :: "csm_ptr option \<Rightarrow> string \<Rightarrow> world \<Rightarrow> pif_ptr option option" where
  "peer_if_find_by_name c name w = (case c of None \<Rightarrow> Some None | Some c \<Rightarrow> do {
     csm \<leftarrow> w_csm w c;
     find_ptr (w_pif w) (\<lambda>p. pif_name p = name) (ml_pif_list (MLACP csm)) })"

definition system_get_csm_by_peer_ip :: "string \<Rightarrow> world \<Rightarrow> csm_ptr option option" where
  "system_get_csm_by_peer_ip peer_ip w = find_ptr (w_csm w) (\<lambda>c. csm_peer_ip c = peer_ip) (sys_csm_list (w_sys w))"

definition system_get_csm_by_peer_ifname :: "string \<Rightarrow> world \<Rightarrow> csm_ptr option option" where
  "system_get_csm_by_peer_ifname ifname w =
     find_ptr (w_csm w) (\<lambda>c. csm_peer_itf_name c = ifname) (sys_csm_list (w_sys w))"

definition system_get_csm_by_mlacp_id :: "int \<Rightarrow> world \<Rightarrow> csm_ptr option option" where
  "system_get_csm_by_mlacp_id i w = find_ptr (w_csm w) (\<lambda>c. ml_id (MLACP c) = i) (sys_csm_list (w_sys w))"

definition system_get_first_csm :: "world \<Rightarrow> csm_ptr option" where
  "system_get_first_csm w = (case sys_csm_list (w_sys w) of [] \<Rightarrow> None | c # _ \<Rightarrow> Some c)"

definition is_unique_ip_configured :: "string \<Rightarrow> world \<Rightarrow> bool" where
  "is_unique_ip_configured ifname w = (ifname \<in> set (sys_unq_ip_if_list (w_sys w)))"

definition local_if_is_l3_mode :: "LocalInterface \<Rightarrow> bool" where
  "local_if_is_l3_mode l \<longleftrightarrow>
     lif_ipv4_addr l \<noteq> 0 \<or> memcmp (lif_ipv6_addr l) (replicate 16 0) \<noteq> 0 \<or> lif_master_ifindex l \<noteq> 0"

text \<open>The loop goes on after a match that has no L3 protocol support.\<close>

definition local_if_l3_proto_enabled :: "string \<Rightarrow> world \<Rightarrow> bool option" where
  "local_if_l3_proto_enabled ifname w = do {
     r \<leftarrow> find_ptr (w_lif w) (\<lambda>l. lif_name l = ifname \<and> lif_is_l3_proto_enabled l) (sys_lif_list (w_sys w));
     Some (r \<noteq> None) }"

definition local_if_change_flag_clear :: "world \<Rightarrow> world option" where
  "local_if_change_flag_clear w =
     foreach (\<lambda>p w. do {
       l \<leftarrow> w_lif w p;
       Some (if lif_changed l = 1 then upd_lif p (lif_changed_update (\<lambda>_. 0)) w else w) })
     (sys_lif_list (w_sys w)) w"

subsection \<open>Construction\<close>

definition zero_LocalInterface :: LocalInterface where
  "zero_LocalInterface = \<lparr>lif_ifindex = 0, lif_type = 0, lif_name = [], lif_mac_addr = replicate 6 0,
     lif_mac_addr_ori = replicate 6 0, lif_state = 0, lif_ipv4_addr = 0, lif_prefixlen = 0,
     lif_ipv6_addr = replicate 16 0, lif_prefixlen_v6 = 0, lif_ipv6_ll_addr = replicate 16 0,
     lif_ll_prefixlen_v6 = 0, lif_l3_mode = 0, lif_l3_mac_addr = replicate 6 0, lif_is_peer_link = 0,
     lif_portchannel_member_buf = [], lif_is_arp_accept = 0, lif_po_id = 0, lif_po_active = 0,
     lif_mlacp_state = 0, lif_isolate_to_peer_link = 0, lif_po_down_time = 0, lif_csm = None,
     lif_changed = 0, lif_port_config_sync = 0, lif_is_traffic_disable = False,
     lif_is_l3_proto_enabled = False, lif_vlan_count = 0, lif_master_ifindex = 0, lif_vlan_tree = []\<rparr>"

definition local_if_init :: LocalInterface where
  "local_if_init = zero_LocalInterface\<lparr>lif_po_id := - 1, lif_po_active := 1, lif_mlacp_state := 0,
     lif_type := IF_T_UNKNOW, lif_changed := 1, lif_port_config_sync := 0, lif_is_peer_link := 0,
     lif_is_arp_accept := 0, lif_l3_mode := 0, lif_master_ifindex := 0, lif_state := PORT_STATE_DOWN,
     lif_prefixlen := 32, lif_csm := None, lif_isolate_to_peer_link := 0, lif_is_l3_proto_enabled := False,
     lif_vlan_count := 0, lif_vlan_tree := []\<rparr>"

definition vlan_info_init :: VLAN_ID where
  "vlan_info_init = \<lparr>vlan_vid = - 1, vlan_removed = 0, vlan_itf = None\<rparr>"

definition zero_PeerInterface :: PeerInterface where
  "zero_PeerInterface = \<lparr>pif_ifindex = 0, pif_type = 0, pif_name = [], pif_mac_addr = replicate 6 0,
     pif_state = 0, pif_ipv4_addr = 0, pif_l3_mode = 0, pif_is_peer_link = 0, pif_po_id = 0,
     pif_po_active = 0, pif_csm = None, pif_vlan_tree = []\<rparr>"

definition peer_if_create :: "csm_ptr \<Rightarrow> int \<Rightarrow> int \<Rightarrow> world \<Rightarrow> (pif_ptr option \<times> world) option" where
  "peer_if_create c peer_if_number type w =
     (if peer_if_number < 0 then Some (None, w)
      else if type \<noteq> IF_T_PORT \<and> type \<noteq> IF_T_PORT_CHANNEL then Some (None, w)
      else let (ok, w) = malloc_ok w in
      if \<not> ok then Some (None, w)
      else do {
        _ \<leftarrow> w_csm w c;
        let p = w_fresh w;
        let pif = (if type = IF_T_PORT
                   then zero_PeerInterface\<lparr>pif_ifindex := peer_if_number, pif_type := IF_T_PORT, pif_csm := Some c\<rparr>
                   else zero_PeerInterface\<lparr>pif_ifindex := peer_if_number, pif_type := IF_T_PORT_CHANNEL\<rparr>);
        let w = w\<lparr>w_pif := (w_pif w)(p \<mapsto> pif), w_fresh := p + 1\<rparr>;
        Some (Some p, upd_mlacp c (ml_pif_list_update (\<lambda>ps. p # ps)) w) })"

subsection \<open>VLAN membership of peer interfaces\<close>

definition vlan_key :: "u16 \<Rightarrow> VLAN_ID" where
  "vlan_key vid = \<lparr>vlan_vid = vid, vlan_removed = 0, vlan_itf = None\<rparr>"

definition set_vlan :: "u16 \<Rightarrow> (VLAN_ID \<Rightarrow> VLAN_ID) \<Rightarrow> vlan_rb_tree \<Rightarrow> vlan_rb_tree" where
  "set_vlan vid f t = map (\<lambda>v. if vlan_vid v = vid then f v else v) t"

definition peer_if_del_all_vlan :: "PeerInterface \<Rightarrow> PeerInterface" where
  "peer_if_del_all_vlan pif =
     pif\<lparr>pif_vlan_tree := fold (RB_REMOVE vlan_node_compare) (pif_vlan_tree pif) (pif_vlan_tree pif)\<rparr>"

definition peer_if_destroy :: "csm_ptr \<Rightarrow> pif_ptr \<Rightarrow> world \<Rightarrow> world option" where
  "peer_if_destroy c p w = do {
     _ \<leftarrow> w_pif w p;
     let w = upd_mlacp c (ml_pif_list_update (remove1 p)) w;
     let w = upd_pif p peer_if_del_all_vlan w;
     Some (w\<lparr>w_pif := (w_pif w)(p := None)\<rparr>) }"

definition peer_if_add_vlan :: "pif_ptr \<Rightarrow> u16 \<Rightarrow> world \<Rightarrow> (int \<times> world) option" where
  "peer_if_add_vlan p vlan_id w = do {
     pif \<leftarrow> w_pif w p;
     case RB_FIND vlan_node_compare (vlan_key vlan_id) (pif_vlan_tree pif) of
       None \<Rightarrow> (let (ok, w) = malloc_ok w in
         if \<not> ok then Some (MCLAG_ERROR, w)
         else Some (0, upd_pif p (pif_vlan_tree_update (\<lambda>t. set_vlan vlan_id (vlan_removed_update (\<lambda>_. 0))
                (RB_INSERT vlan_node_compare (vlan_info_init\<lparr>vlan_vid := vlan_id\<rparr>) t))) w))
     | Some _ \<Rightarrow> Some (0, upd_pif p (pif_vlan_tree_update (set_vlan vlan_id (vlan_removed_update (\<lambda>_. 0)))) w) }"

text \<open>
  \<open>peer_if_clean_unused_vlan\<close> walks the tree once and removes a marked node when it has
  reached the next one; \<open>pending\<close> is the variable \<open>peer_vlan\<close>.
\<close>

primrec clean_unused :: "VLAN_ID list \<Rightarrow> VLAN_ID option \<Rightarrow> vlan_rb_tree \<Rightarrow> VLAN_ID option \<times> vlan_rb_tree" where
  "clean_unused [] pending t = (pending, t)"
| "clean_unused (v # vs) pending t = (let
     t = (case pending of None \<Rightarrow> t | Some u \<Rightarrow> RB_REMOVE vlan_node_compare u t)
   in clean_unused vs (if vlan_removed v = 1 then Some v else None) t)"

definition peer_if_clean_unused_vlan :: "PeerInterface \<Rightarrow> PeerInterface" where
  "peer_if_clean_unused_vlan pif = pif\<lparr>pif_vlan_tree :=
     (case clean_unused (pif_vlan_tree pif) None (pif_vlan_tree pif) of
        (None, t) \<Rightarrow> t
      | (Some u, t) \<Rightarrow> RB_REMOVE vlan_node_compare u t)\<rparr>"

subsection \<open>VLAN membership of local interfaces\<close>

definition local_if_del_vlan :: "u16 \<Rightarrow> LocalInterface \<Rightarrow> LocalInterface" where
  "local_if_del_vlan vid l = (case RB_FIND vlan_node_compare (vlan_key vid) (lif_vlan_tree l) of
       None \<Rightarrow> l
     | Some v \<Rightarrow> l\<lparr>lif_vlan_tree := RB_REMOVE vlan_node_compare v (lif_vlan_tree l),
                   lif_port_config_sync := 1, lif_vlan_count := lif_vlan_count l - 1\<rparr>)"

definition local_if_del_all_vlan :: "LocalInterface \<Rightarrow> LocalInterface" where
  "local_if_del_all_vlan l = fold (\<lambda>v l. l\<lparr>lif_vlan_tree := RB_REMOVE vlan_node_compare v (lif_vlan_tree l),
     lif_vlan_count := lif_vlan_count l - 1\<rparr>) (lif_vlan_tree l) l"

definition local_if_finalize :: "lif_ptr \<Rightarrow> world \<Rightarrow> world option" where
  "local_if_finalize p w = do {
     _ \<leftarrow> w_lif w p;
     let w = upd_lif p local_if_del_all_vlan w;
     Some (w\<lparr>w_lif := (w_lif w)(p := None)\<rparr>) }"

subsection \<open>Consistency check\<close>

definition iccp_check_interface_mode :: "string \<Rightarrow> world \<Rightarrow> int option" where
  "iccp_check_interface_mode ifname w = do {
     r \<leftarrow> local_if_find_by_name ifname w;
     case r of None \<Rightarrow> Some (- 2) | Some p \<Rightarrow> do {
       l \<leftarrow> w_lif w p;
       case lif_csm l of None \<Rightarrow> Some (- 3) | Some c \<Rightarrow> do {
         q \<leftarrow> peer_if_find_by_name (Some c) ifname w;
         case q of None \<Rightarrow> Some (- 4) | Some q \<Rightarrow> do {
           pif \<leftarrow> w_pif w q;
           Some (if pif_l3_mode pif \<noteq> lif_l3_mode l then - 5 else 1) } } } }"

definition iccp_check_interface_layer3_addr :: "string \<Rightarrow> world \<Rightarrow> int option" where
  "iccp_check_interface_layer3_addr ifname w = do {
     r \<leftarrow> local_if_find_by_name ifname w;
     case r of None \<Rightarrow> Some (- 2) | Some p \<Rightarrow> do {
       l \<leftarrow> w_lif w p;
       case lif_csm l of None \<Rightarrow> Some (- 3) | Some c \<Rightarrow> do {
         q \<leftarrow> peer_if_find_by_name (Some c) ifname w;
         case q of None \<Rightarrow> Some (- 4) | Some q \<Rightarrow> do {
           pif \<leftarrow> w_pif w q;
           Some (if pif_ipv4_addr pif \<noteq> lif_ipv4_addr l then - 5 else 1) } } } }"

definition iccp_check_interface_vlan :: "string \<Rightarrow> world \<Rightarrow> int option" where
  "iccp_check_interface_vlan ifname w = do {
     r \<leftarrow> local_if_find_by_name ifname w;
     case r of None \<Rightarrow> Some (- 2) | Some p \<Rightarrow> do {
       l \<leftarrow> w_lif w p;
       case lif_csm l of None \<Rightarrow> Some (- 3) | Some c \<Rightarrow> do {
         q \<leftarrow> peer_if_find_by_name (Some c) ifname w;
         case q of None \<Rightarrow> Some (- 4) | Some q \<Rightarrow> do {
           pif \<leftarrow> w_pif w q;
           Some (if \<exists>v \<in> set (lif_vlan_tree l). RB_FIND vlan_node_compare v (pif_vlan_tree pif) = None then - 5
                 else if \<exists>v \<in> set (pif_vlan_tree pif). RB_FIND vlan_node_compare v (lif_vlan_tree l) = None then - 6
                 else 1) } } } }"

text \<open>
  The checks run in the order of the table \<open>check_func\<close>; the result is the number of the
  first one that fails (1: interface mode, 2: IP address, 3: VLANs), 0 if none does.
\<close>

definition check_func :: "(nat \<times> (string \<Rightarrow> world \<Rightarrow> int option)) list" where
  "check_func = [(1, iccp_check_interface_mode), (2, iccp_check_interface_layer3_addr), (3, iccp_check_interface_vlan)]"

primrec run_checks :: "(nat \<times> (string \<Rightarrow> world \<Rightarrow> int option)) list \<Rightarrow> string \<Rightarrow> world \<Rightarrow> nat option" where
  "run_checks [] ifname w = Some 0"
| "run_checks (f # fs) ifname w = do {
     ret \<leftarrow> snd f ifname w;
     if ret \<noteq> 1 then Some (fst f) else run_checks fs ifname w }"

definition iccp_consistency_check :: "string \<Rightarrow> world \<Rightarrow> nat option" where
  "iccp_consistency_check = run_checks check_func"

subsection \<open>Properties\<close>

abbreviation vids :: "vlan_rb_tree \<Rightarrow> u16 set" where "vids t \<equiv> vlan_vid ` set t"

lemma RB_REMOVE_vlan: "RB_REMOVE vlan_node_compare u t = filter (\<lambda>y. vlan_vid y \<noteq> vlan_vid u) t"
  by (auto simp: RB_REMOVE_def intro: filter_cong)

lemma vlan_tree_inj: "vlan_tree.tree t \<Longrightarrow> x \<in> set t \<Longrightarrow> y \<in> set t \<Longrightarrow> vlan_vid x = vlan_vid y \<Longrightarrow> x = y"
  by (metis vlan_tree.find_unique vlan_compare_0 option.inject)

lemma vlan_find_iff: "RB_FIND vlan_node_compare k t = None \<longleftrightarrow> vlan_vid k \<notin> vids t"
  by (auto simp: vlan_tree.find_None)

lemma fold_remove_vlan:
  "fold (RB_REMOVE vlan_node_compare) us t = filter (\<lambda>y. vlan_vid y \<notin> vids us) t"
  by (induction us arbitrary: t) (auto simp: RB_REMOVE_vlan intro!: filter_cong)

lemma peer_if_del_all_vlan_empty [simp]: "pif_vlan_tree (peer_if_del_all_vlan pif) = []"
  by (simp add: peer_if_del_all_vlan_def fold_remove_vlan)

lemma clean_unused_filter:
  "(case clean_unused vs pending t of (None, t') \<Rightarrow> t' | (Some u, t') \<Rightarrow> RB_REMOVE vlan_node_compare u t') =
   filter (\<lambda>y. vlan_vid y \<notin> vids (filter (\<lambda>v. vlan_removed v = 1) vs) \<and> (\<forall>u. pending = Some u \<longrightarrow> vlan_vid y \<noteq> vlan_vid u)) t"
  by (induction vs arbitrary: pending t)
    (auto simp: RB_REMOVE_vlan Let_def split: option.splits intro!: filter_cong)

lemma peer_if_clean_unused_vlan_filter:
  assumes "vlan_tree.tree (pif_vlan_tree pif)"
  shows "peer_if_clean_unused_vlan pif = pif\<lparr>pif_vlan_tree := filter (\<lambda>v. vlan_removed v \<noteq> 1) (pif_vlan_tree pif)\<rparr>"
proof -
  have "filter (\<lambda>y. vlan_vid y \<notin> vids (filter (\<lambda>v. vlan_removed v = 1) (pif_vlan_tree pif))) (pif_vlan_tree pif)
      = filter (\<lambda>v. vlan_removed v \<noteq> 1) (pif_vlan_tree pif)"
    using vlan_tree_inj [OF assms] by (intro filter_cong) force+
  then show ?thesis
    using clean_unused_filter [of "pif_vlan_tree pif" None "pif_vlan_tree pif"]
    by (simp add: peer_if_clean_unused_vlan_def)
qed

lemma vlan_tree_map: "(\<And>v. vlan_vid (f v) = vlan_vid v) \<Longrightarrow> vlan_tree.tree (map f t) = vlan_tree.tree t"
  by (simp add: vlan_tree.tree_def sorted_wrt_map vlan_node_compare_def)

lemma set_vlan_tree [simp]:
  "vlan_tree.tree (set_vlan vid (vlan_removed_update f) t) = vlan_tree.tree t"
  by (simp add: set_vlan_def vlan_tree_map)

lemma set_vlan_vids [simp]: "vids (set_vlan vid (vlan_removed_update f) t) = vids t"
  unfolding set_vlan_def set_map image_image by (intro image_cong) auto

lemma vids_insert: "vlan_tree.tree t \<Longrightarrow> vids (RB_INSERT vlan_node_compare v t) = insert (vlan_vid v) (vids t)"
  by (auto simp: vlan_tree.set_insert vlan_find_iff)

text \<open>What one successful \<open>peer_if_add_vlan\<close> does to the tree of the interface.\<close>

definition add_vlan :: "u16 \<Rightarrow> vlan_rb_tree \<Rightarrow> vlan_rb_tree" where
  "add_vlan vid t = set_vlan vid (vlan_removed_update (\<lambda>_. 0))
     (if RB_FIND vlan_node_compare (vlan_key vid) t = None
      then RB_INSERT vlan_node_compare (vlan_info_init\<lparr>vlan_vid := vid\<rparr>) t else t)"

lemma peer_if_add_vlan_ok:
  assumes "w_pif w p = Some pif" "fst (malloc_ok w)"
  shows "\<exists>w0. (w0 = w \<or> w0 = snd (malloc_ok w)) \<and>
    peer_if_add_vlan p vid w = Some (0, upd_pif p (pif_vlan_tree_update (add_vlan vid)) w0)"
proof (cases "RB_FIND vlan_node_compare (vlan_key vid) (pif_vlan_tree pif)")
  case None
  then have "pif_vlan_tree_update (\<lambda>t. set_vlan vid (vlan_removed_update (\<lambda>_. 0))
      (RB_INSERT vlan_node_compare (vlan_info_init\<lparr>vlan_vid := vid\<rparr>) t)) pif = pif_vlan_tree_update (add_vlan vid) pif"
    by (intro PeerInterface.equality) (simp_all add: add_vlan_def)
  with assms None show ?thesis
    by (intro exI [of _ "snd (malloc_ok w)"]) (simp add: peer_if_add_vlan_def case_prod_beta Let_def upd_pif_def)
next
  case (Some v)
  then have "pif_vlan_tree_update (set_vlan vid (vlan_removed_update (\<lambda>_. 0))) pif = pif_vlan_tree_update (add_vlan vid) pif"
    by (intro PeerInterface.equality) (simp_all add: add_vlan_def)
  with assms Some show ?thesis
    by (intro exI [of _ w]) (simp add: peer_if_add_vlan_def upd_pif_def)
qed

lemma add_vlan_tree [simp]: "vlan_tree.tree t \<Longrightarrow> vlan_tree.tree (add_vlan vid t)"
  by (auto simp: add_vlan_def vlan_tree.tree_insert)

lemma add_vlan_vids: "vlan_tree.tree t \<Longrightarrow> vids (add_vlan vid t) = insert vid (vids t)"
  by (auto simp: add_vlan_def vids_insert vlan_find_iff vlan_key_def)

abbreviation live_vids :: "vlan_rb_tree \<Rightarrow> u16 set" where
  "live_vids t \<equiv> vids (filter (\<lambda>v. vlan_removed v \<noteq> 1) t)"

lemma live_set_vlan:
  "x \<in> live_vids (set_vlan vid (vlan_removed_update (\<lambda>_. 0)) t) \<longleftrightarrow> (if x = vid then x \<in> vids t else x \<in> live_vids t)"
proof (induction t)
  case (Cons v t)
  then show ?case
    unfolding set_vlan_def list.map
    by (cases "vlan_vid v = vid"; cases "vlan_removed v = 1"; cases "x = vid") simp_all
qed (simp add: set_vlan_def)

lemma add_vlan_live:
  assumes "vlan_tree.tree t"
  shows "live_vids (add_vlan vid t) = insert vid (live_vids t)"
proof -
  have "x \<in> live_vids (RB_INSERT vlan_node_compare (vlan_info_init\<lparr>vlan_vid := vid\<rparr>) t) \<longleftrightarrow> x \<in> live_vids t"
    if "x \<noteq> vid" for x
    using that assms by (auto simp: vlan_tree.set_insert split: if_splits)
  then have "x \<in> live_vids (add_vlan vid t) \<longleftrightarrow> x \<in> insert vid (live_vids t)" for x
    unfolding add_vlan_def live_set_vlan
    using assms by (cases "x = vid") (simp_all add: vids_insert vlan_find_iff vlan_key_def)
  then show ?thesis by blast
qed

lemma vlan_check_iff:
  assumes "local_if_find_by_name n w = Some (Some p)" "w_lif w p = Some l" "lif_csm l = Some c"
    "peer_if_find_by_name (Some c) n w = Some (Some q)" "w_pif w q = Some pif"
  shows "iccp_check_interface_vlan n w = Some 1 \<longleftrightarrow> vids (lif_vlan_tree l) = vids (pif_vlan_tree pif)"
  using assms by (auto simp: iccp_check_interface_vlan_def vlan_find_iff)

end
