(* ===== verification/Mlacp_Sync_Prepare.thy ===== *)
theory Mlacp_Sync_Prepare
  imports Iccp_State
begin

text \<open>
  \<open>src/mlacp_sync_prepare.c\<close>: building the mLACP messages sent to the peer. A builder
  maps the buffer and the next message identifier (\<open>ICCP_MSG_ID\<close>) to the length of the
  message, or -1, and the updated buffer and identifier. The lemmas say what
  can be read back from the bytes that go on the wire.
\<close>

type_synonym out = "buf \<times> u32"

subsection \<open>ICC header\<close>

definition iccp_csm_fill_icc_rg_id_tlv :: "CSM \<Rightarrow> nat \<Rightarrow> buf \<Rightarrow> buf" where
  "iccp_csm_fill_icc_rg_id_tlv csm p b = (let
     b = st16 (p + 8) (htons TLV_T_ICC_RG_ID) b;
     b = st16 (p + 10) (htons TLV_L_ICC_RG_ID) b
   in st32 (p + 12) (htonl (icc_rg_id (csm_iccp_info csm))) b)"

definition mlacp_fill_icc_header :: "CSM \<Rightarrow> nat \<Rightarrow> out \<Rightarrow> out" where
  "mlacp_fill_icc_header csm msg_len = (\<lambda>(b, i). let
     b = put_LDPHdr MSG_T_RG_APP_DATA (of_nat (msg_len - MSG_L_INCLUD_U_BIT_MSG_T_L_FIELDS)) i 0 b
   in (iccp_csm_fill_icc_rg_id_tlv csm 0 b, i + 1))"

subsection \<open>Synchronisation requests and data\<close>

definition mlacp_prepare_for_sync_request_tlv :: "CSM \<Rightarrow> nat \<Rightarrow> out \<Rightarrow> int \<times> CSM \<times> out" where
  "mlacp_prepare_for_sync_request_tlv csm max_buf_size out = (let
     msg_len = sizeof_ICCHdr + sizeof_mLACPSyncReqTLV in
     if msg_len > max_buf_size then (MCLAG_ERROR, csm, out)
     else let
       (b, i) = mlacp_fill_icc_header csm msg_len (zero_buf, snd out);
       b = put_ICCParameter TLV_T_MLACP_SYNC_REQUEST
             (of_nat (sizeof_mLACPSyncReqTLV - sizeof_ICCParameter)) 16 b;
       b = st16 20 0 b;
       csm = upd_MLACP (ml_sync_req_num_update (\<lambda>_. 0)) csm;
       b = st16 22 (set_bits16 15 1 1 (rd16 22 b)) b;
       b = st16 22 (set_bits16 14 1 1 (rd16 22 b)) b;
       b = st16 22 (set_bits16 0 14 0x3FFF (rd16 22 b)) b;
       b = st16 22 (htons (rd16 22 b)) b;
       b = st16 24 0 b;
       b = st16 26 0 b
     in (int msg_len, csm, b, i))"

definition mlacp_prepare_for_sync_data_tlv :: "CSM \<Rightarrow> nat \<Rightarrow> int \<Rightarrow> out \<Rightarrow> int \<times> out" where
  "mlacp_prepare_for_sync_data_tlv csm max_buf_size end out = (let
     msg_len = sizeof_ICCHdr + sizeof_mLACPSyncDataTLV in
     if msg_len > max_buf_size then (MCLAG_ERROR, out)
     else let
       (b, i) = mlacp_fill_icc_header csm msg_len (zero_buf, snd out);
       b = put_ICCParameter TLV_T_MLACP_SYNC_DATA
             (of_nat (sizeof_mLACPSyncDataTLV - sizeof_ICCParameter)) 16 b;
       b = st16 20 (htons (of_int (ml_sync_req_num (MLACP csm)))) b;
       b = st16 22 (if end = 0 then 0 else htons 1) b
     in (int msg_len, b, i))"

definition mlacp_prepare_for_sys_config :: "CSM \<Rightarrow> nat \<Rightarrow> out \<Rightarrow> int \<times> out" where
  "mlacp_prepare_for_sys_config csm max_buf_size out = (let
     msg_len = sizeof_ICCHdr + sizeof_mLACPSysConfigTLV in
     if msg_len > max_buf_size then (MCLAG_ERROR, out)
     else let
       (b, i) = mlacp_fill_icc_header csm msg_len (zero_buf, snd out);
       b = put_ICCParameter TLV_T_MLACP_SYSTEM_CONFIG
             (of_nat (sizeof_mLACPSysConfigTLV - sizeof_ICCParameter)) 16 b;
       b = stn 20 (take ETHER_ADDR_LEN (ml_system_id (MLACP csm))) b;
       b = st16 26 (htons (ml_system_priority (MLACP csm))) b;
       b = st8 28 (ml_node_id (MLACP csm)) b
     in (int msg_len, b, i))"

subsection \<open>Aggregators\<close>

definition mlacp_prepare_for_Aggport_state :: "CSM \<Rightarrow> nat \<Rightarrow> LocalInterface \<Rightarrow> out \<Rightarrow> int \<times> out" where
  "mlacp_prepare_for_Aggport_state csm max_buf_size local_if out = (let
     msg_len = sizeof_ICCHdr + sizeof_mLACPAggPortStateTLV in
     if lif_type local_if \<noteq> IF_T_PORT_CHANNEL then (MCLAG_ERROR, out)
     else if msg_len > max_buf_size then (MCLAG_ERROR, out)
     else let
       (b, i) = mlacp_fill_icc_header csm msg_len (zero_buf, snd out);
       b = put_ICCParameter TLV_T_MLACP_AGGREGATOR_STATE
             (of_nat (sizeof_mLACPAggPortStateTLV - sizeof_ICCParameter)) 16 b;
       b = st16 26 0 b;
       b = st16 28 0 b;
       b = st16 30 (htons (of_int (lif_po_id local_if))) b;
       b = st16 32 0 b;
       b = st8 34 (lif_state local_if) b
     in (int msg_len, b, i))"

definition mlacp_prepare_for_Aggport_config ::
    "CSM \<Rightarrow> nat \<Rightarrow> LocalInterface \<Rightarrow> int \<Rightarrow> out \<Rightarrow> int \<times> out" where
  "mlacp_prepare_for_Aggport_config csm max_buf_size lif purge_flag out = (let
     msg_len = sizeof_ICCHdr + sizeof_mLACPAggConfigTLV in
     if msg_len > max_buf_size then (MCLAG_ERROR, out)
     else let
       (b, i) = mlacp_fill_icc_header csm msg_len (zero_buf, snd out);
       b = put_ICCParameter TLV_T_MLACP_AGGREGATOR_CONFIG
             (of_nat (sizeof_mLACPAggConfigTLV - sizeof_ICCParameter)) 16 b;
       b = st16 28 (htons (of_int (lif_po_id lif))) b;
       b = st8 40 (if purge_flag = 1 then 2 else 1) b;
       b = st8 41 (of_nat (length (lif_name lif))) b;
       b = stn 42 (cfield MAX_L_PORT_NAME (lif_name lif)) b;
       b = stn 30 (take ETHER_ADDR_LEN (lif_mac_addr lif)) b
     in (int msg_len, b, i))"

subsection \<open>MAC, ARP and ND entries\<close>

text \<open>
  These three builders append entry \<open>count\<close> to the message under construction, so the
  buffer is not cleared. \<open>sprintf (dst, "%s", s)\<close> writes the string and its terminator.
\<close>

definition sprintf_s :: "nat \<Rightarrow> string \<Rightarrow> buf \<Rightarrow> buf" where
  "sprintf_s p s b = stn p (map byte_of_char s @ [0]) b"

definition put_mLACPMACData :: "MACMsg \<Rightarrow> nat \<Rightarrow> buf \<Rightarrow> buf" where
  "put_mLACPMACData m p b = (let
     b = st8 p (mac_op_type m) b;
     b = st8 (p + 1) (mac_fdb_type m) b;
     b = stn (p + 2) (take ETHER_ADDR_LEN (mac_addr m)) b;
     b = sprintf_s (p + 10) (mac_origin_ifname m) b
   in st16 (p + 8) (htons (mac_vid m)) b)"

definition mlacp_prepare_for_mac_info_to_peer :: "CSM \<Rightarrow> nat \<Rightarrow> MACMsg \<Rightarrow> nat \<Rightarrow> out \<Rightarrow> int \<times> out" where
  "mlacp_prepare_for_mac_info_to_peer csm max_buf_size mac_msg count out = (let
     tlv_len = sizeof_mLACPMACInfoTLV + sizeof_mLACPMACData * (count + 1);
     msg_len = sizeof_ICCHdr + tlv_len in
     if msg_len > max_buf_size then (MCLAG_ERROR, out)
     else let
       (b, i) = mlacp_fill_icc_header csm msg_len out;
       b = st16 18 (htons (of_nat (tlv_len - sizeof_ICCParameter))) b;
       b = st16 20 (htons (of_nat (count + 1))) b;
       b = (if count = 0 then put_ICCParameter_type TLV_T_MLACP_MAC_INFO 16 b else b);
       b = put_mLACPMACData mac_msg (22 + 30 * count) b
     in (int msg_len, b, i))"

definition put_ARPMsg :: "ARPMsg \<Rightarrow> nat \<Rightarrow> buf \<Rightarrow> buf" where
  "put_ARPMsg m p b = (let
     b = st8 p (arp_op_type m) b;
     b = st8 (p + 1) (arp_flag m) b;
     b = sprintf_s (p + 3) (arp_ifname m) b;
     b = st32 (p + 24) (arp_ipv4_addr m) b
   in stn (p + 28) (take ETHER_ADDR_LEN (arp_mac_addr m)) b)"

definition mlacp_prepare_for_arp_info :: "CSM \<Rightarrow> nat \<Rightarrow> ARPMsg \<Rightarrow> nat \<Rightarrow> out \<Rightarrow> int \<times> out" where
  "mlacp_prepare_for_arp_info csm max_buf_size arp_msg count out = (let
     tlv_len = sizeof_mLACPARPInfoTLV + sizeof_ARPMsg * (count + 1);
     msg_len = sizeof_ICCHdr + tlv_len in
     if msg_len > max_buf_size then (MCLAG_ERROR, out)
     else let
       (b, i) = mlacp_fill_icc_header csm msg_len out;
       b = st16 18 (htons (of_nat (tlv_len - sizeof_ICCParameter))) b;
       b = st16 20 (htons (of_nat (count + 1))) b;
       b = (if count = 0 then put_ICCParameter_type TLV_T_MLACP_ARP_INFO 16 b else b);
       b = put_ARPMsg arp_msg (22 + 36 * count) b
     in (int msg_len, b, i))"

definition put_NDISCMsg :: "NDISCMsg \<Rightarrow> nat \<Rightarrow> buf \<Rightarrow> buf" where
  "put_NDISCMsg m p b = (let
     b = st8 p (nd_op_type m) b;
     b = st8 (p + 1) (nd_flag m) b;
     b = sprintf_s (p + 3) (nd_ifname m) b;
     b = stn (p + 24) (take 16 (nd_ipv6_addr m)) b
   in stn (p + 40) (take ETHER_ADDR_LEN (nd_mac_addr m)) b)"

definition mlacp_prepare_for_ndisc_info :: "CSM \<Rightarrow> nat \<Rightarrow> NDISCMsg \<Rightarrow> nat \<Rightarrow> out \<Rightarrow> int \<times> out" where
  "mlacp_prepare_for_ndisc_info csm max_buf_size ndisc_msg count out = (let
     tlv_len = sizeof_mLACPNDISCInfoTLV + sizeof_NDISCMsg * (count + 1);
     msg_len = sizeof_ICCHdr + tlv_len in
     if msg_len > max_buf_size then (MCLAG_ERROR, out)
     else let
       (b, i) = mlacp_fill_icc_header csm msg_len out;
       b = st16 18 (htons (of_nat (tlv_len - sizeof_ICCParameter))) b;
       b = st16 20 (htons (of_nat (count + 1))) b;
       b = (if count = 0 then put_ICCParameter_type TLV_T_MLACP_NDISC_INFO 16 b else b);
       b = put_NDISCMsg ndisc_msg (22 + 48 * count) b
     in (int msg_len, b, i))"

subsection \<open>Port channels and peer link\<close>

primrec put_vlans :: "u16 list \<Rightarrow> nat \<Rightarrow> buf \<Rightarrow> buf" where
  "put_vlans [] p b = b"
| "put_vlans (v # vs) p b = put_vlans vs (p + 2) (st16 p (htons v) b)"

definition mlacp_prepare_for_port_channel_info :: "CSM \<Rightarrow> nat \<Rightarrow> LocalInterface \<Rightarrow> out \<Rightarrow> int \<times> out" where
  "mlacp_prepare_for_port_channel_info csm max_buf_size port_channel out =
     (if lif_type port_channel = IF_T_PORT then (MCLAG_ERROR, out)
      else let
        num_of_vlan_id = length (lif_vlan_tree port_channel);
        tlv_len = sizeof_mLACPPortChannelInfoTLV + sizeof_mLACPVLANData * num_of_vlan_id;
        msg_len = sizeof_ICCHdr + tlv_len in
      if msg_len > max_buf_size then (MCLAG_ERROR, out)
      else let
        (b, i) = mlacp_fill_icc_header csm msg_len (zero_buf, snd out);
        b = put_ICCParameter TLV_T_MLACP_PORT_CHANNEL_INFO (of_nat (sizeof_mLACPPortChannelInfoTLV
              - sizeof_ICCParameter + sizeof_mLACPVLANData * num_of_vlan_id)) 16 b;
        b = st16 20 (htons (of_int (lif_po_id port_channel))) b;
        b = st32 44 (htonl (lif_ipv4_addr port_channel)) b;
        b = st8 43 (lif_l3_mode port_channel) b;
        b = st16 48 (htons (of_int (lif_po_id port_channel))) b;
        name_len = min (length (lif_name port_channel)) MAX_L_PORT_NAME;
        b = stn 22 (map byte_of_char (take name_len (lif_name port_channel))) b;
        b = st8 42 (of_nat name_len) b;
        b = st16 50 (htons (of_nat num_of_vlan_id)) b;
        b = put_vlans (map vlan_vid (lif_vlan_tree port_channel)) 52 b
      in (int msg_len, b, i))"

definition mlacp_prepare_for_port_peerlink_info :: "CSM \<Rightarrow> nat \<Rightarrow> LocalInterface \<Rightarrow> out \<Rightarrow> int \<times> out" where
  "mlacp_prepare_for_port_peerlink_info csm max_buf_size peerlink_port out = (let
     tlv_len = sizeof_mLACPPeerLinkInfoTLV;
     msg_len = sizeof_ICCHdr + tlv_len in
     if msg_len > max_buf_size then (MCLAG_ERROR, zero_buf, snd out)
     else let
       (b, i) = mlacp_fill_icc_header csm msg_len (zero_buf, snd out);
       b = put_ICCParameter TLV_T_MLACP_PEERLINK_INFO (of_nat (tlv_len - sizeof_ICCParameter)) 16 b;
       b = stn 20 (cfield MAX_L_PORT_NAME (lif_name peerlink_port)) b;
       b = st8 40 (of_int (lif_type peerlink_port)) b
     in (int msg_len, b, i))"

subsection \<open>Heartbeat, warm reboot and interface acknowledgements\<close>

definition mlacp_prepare_for_heartbeat :: "CSM \<Rightarrow> nat \<Rightarrow> out \<Rightarrow> int \<times> out" where
  "mlacp_prepare_for_heartbeat csm max_buf_size out = (let
     msg_len = sizeof_ICCHdr + sizeof_mLACPHeartbeatTLV in
     if msg_len > max_buf_size then (MCLAG_ERROR, out)
     else let
       (b, i) = mlacp_fill_icc_header csm msg_len (zero_buf, snd out);
       b = put_ICCParameter TLV_T_MLACP_HEARTBEAT
             (of_nat (sizeof_mLACPHeartbeatTLV - sizeof_ICCParameter)) 16 b;
       b = st8 20 0xFF b
     in (int msg_len, b, i))"

definition mlacp_prepare_for_warm_reboot :: "CSM \<Rightarrow> nat \<Rightarrow> out \<Rightarrow> int \<times> out" where
  "mlacp_prepare_for_warm_reboot csm max_buf_size out = (let
     msg_len = sizeof_ICCHdr + sizeof_mLACPWarmbootTLV in
     if msg_len > max_buf_size then (MCLAG_ERROR, out)
     else let
       (b, i) = mlacp_fill_icc_header csm msg_len (zero_buf, snd out);
       b = put_ICCParameter TLV_T_MLACP_WARMBOOT_FLAG
             (of_nat (sizeof_mLACPWarmbootTLV - sizeof_ICCParameter)) 16 b;
       b = st8 20 1 b
     in (int msg_len, b, i))"

definition mlacp_prepare_for_if_up_ack :: "CSM \<Rightarrow> nat \<Rightarrow> u8 \<Rightarrow> u16 \<Rightarrow> u8 \<Rightarrow> out \<Rightarrow> int \<times> out" where
  "mlacp_prepare_for_if_up_ack csm max_buf_size if_type if_id port_isolation_state out = (let
     msg_len = sizeof_ICCHdr + sizeof_mLACPIfUpAckTLV in
     if msg_len > max_buf_size then (MCLAG_ERROR, out)
     else let
       (b, i) = mlacp_fill_icc_header csm msg_len (zero_buf, snd out);
       b = put_ICCParameter TLV_T_MLACP_IF_UP_ACK
             (of_nat (sizeof_mLACPIfUpAckTLV - sizeof_ICCParameter)) 16 b;
       b = st8 20 if_type b;
       b = st16 22 (htons if_id) b;
       b = st8 21 port_isolation_state b
     in (int msg_len, b, i))"

subsection \<open>What is on the wire\<close>

text \<open>
  The header of an application message: total length \<open>n\<close>, identifier \<open>i\<close>, the sender's RG
  identifier, and one TLV of type \<open>tlv\<close> that fills the rest of the message.
\<close>

definition app_header :: "u32 \<Rightarrow> u16 \<Rightarrow> nat \<Rightarrow> u32 \<Rightarrow> buf \<Rightarrow> bool" where
  "app_header rg tlv n i b \<longleftrightarrow>
     rd16 0 b = htons MSG_T_RG_APP_DATA \<and> rd16 2 b = htons (of_nat (n - 4)) \<and> rd32 4 b = htonl i
     \<and> rd16 8 b = htons TLV_T_ICC_RG_ID \<and> rd16 10 b = htons TLV_L_ICC_RG_ID \<and> rd32 12 b = htonl rg
     \<and> rd16 16 b = htons tlv \<and> rd16 18 b = htons (of_nat (n - 20))"

definition icc_hdr :: "CSM \<Rightarrow> nat \<Rightarrow> u32 \<Rightarrow> buf \<Rightarrow> buf" where
  "icc_hdr csm n i b = fst (mlacp_fill_icc_header csm n (b, i))"

lemma mlacp_fill_icc_header_eq: "mlacp_fill_icc_header csm n (b, i) = (icc_hdr csm n i b, i + 1)"
  by (simp add: icc_hdr_def mlacp_fill_icc_header_def Let_def)

lemma rd_icc_hdr [buf_simps]:
  "rd16 0 (icc_hdr csm n i b) = htons MSG_T_RG_APP_DATA"
  "rd16 2 (icc_hdr csm n i b) = htons (of_nat (n - 4))"
  "rd32 4 (icc_hdr csm n i b) = htonl i"
  "rd16 8 (icc_hdr csm n i b) = htons TLV_T_ICC_RG_ID"
  "rd16 10 (icc_hdr csm n i b) = htons TLV_L_ICC_RG_ID"
  "rd32 12 (icc_hdr csm n i b) = htonl (icc_rg_id (csm_iccp_info csm))"
  by (simp_all add: icc_hdr_def mlacp_fill_icc_header_def iccp_csm_fill_icc_rg_id_tlv_def Let_def buf_simps)

lemma rd_icc_hdr_other [buf_simps]:
  "16 \<le> k \<Longrightarrow> rd8 k (icc_hdr csm n i b) = rd8 k b"
  "16 \<le> k \<Longrightarrow> rd16 k (icc_hdr csm n i b) = rd16 k b"
  "16 \<le> k \<Longrightarrow> rd32 k (icc_hdr csm n i b) = rd32 k b"
  "16 \<le> k \<Longrightarrow> rdn k m (icc_hdr csm n i b) = rdn k m b"
  by (simp_all add: icc_hdr_def mlacp_fill_icc_header_def iccp_csm_fill_icc_rg_id_tlv_def Let_def buf_simps)

lemmas prepare_simps = Let_def mlacp_fill_icc_header_eq app_header_def buf_simps

lemma sys_config_wire:
  assumes "29 \<le> max_buf_size" "length (ml_system_id (MLACP csm)) = 6"
  shows "\<exists>b'. mlacp_prepare_for_sys_config csm max_buf_size (b, i) = (29, b', i + 1)
    \<and> app_header (icc_rg_id (csm_iccp_info csm)) TLV_T_MLACP_SYSTEM_CONFIG 29 i b'
    \<and> rdn 20 6 b' = ml_system_id (MLACP csm) \<and> rd16 26 b' = htons (ml_system_priority (MLACP csm))
    \<and> rd8 28 b' = ml_node_id (MLACP csm)"
  using assms by (simp add: mlacp_prepare_for_sys_config_def prepare_simps)

lemma sync_request_mask:
  "set_bits16 0 14 (mask 14) (set_bits16 14 1 1 (set_bits16 15 1 1 v)) = (mask 16 :: u16)"
proof (rule word16_bits_eqI)
  fix n :: nat assume "n < 16"
  then consider "n < 14" | "n = 14" | "n = 15" by linarith
  then show "bit (set_bits16 0 14 (mask 14) (set_bits16 14 1 1 (set_bits16 15 1 1 v))) n = bit (mask 16 :: u16) n"
    by cases (auto simp: set_bits16_def bit_simps)
qed

lemma sync_request_word:
  "set_bits16 0 14 0x3FFF (set_bits16 14 1 1 (set_bits16 15 1 1 v)) = 0xFFFF"
  using sync_request_mask by (simp add: mask_eq_exp_minus_1)

lemma sync_request_wire:
  assumes "28 \<le> max_buf_size"
  shows "\<exists>b'. mlacp_prepare_for_sync_request_tlv csm max_buf_size (b, i)
      = (28, upd_MLACP (ml_sync_req_num_update (\<lambda>_. 0)) csm, b', i + 1)
    \<and> app_header (icc_rg_id (csm_iccp_info csm)) TLV_T_MLACP_SYNC_REQUEST 28 i b'
    \<and> rd16 20 b' = 0 \<and> rd16 22 b' = htons 0xFFFF"
  using assms
  by (simp add: mlacp_prepare_for_sync_request_tlv_def prepare_simps sync_request_word [simplified])

lemma sync_data_wire:
  assumes "24 \<le> max_buf_size"
  shows "\<exists>b'. mlacp_prepare_for_sync_data_tlv csm max_buf_size end (b, i) = (24, b', i + 1)
    \<and> app_header (icc_rg_id (csm_iccp_info csm)) TLV_T_MLACP_SYNC_DATA 24 i b'
    \<and> rd16 20 b' = htons (of_int (ml_sync_req_num (MLACP csm)))
    \<and> rd16 22 b' = (if end = 0 then 0 else htons 1)"
  using assms by (simp add: mlacp_prepare_for_sync_data_tlv_def prepare_simps)

lemma aggport_state_wire:
  assumes "35 \<le> max_buf_size" "lif_type lif = IF_T_PORT_CHANNEL"
  shows "\<exists>b'. mlacp_prepare_for_Aggport_state csm max_buf_size lif (b, i) = (35, b', i + 1)
    \<and> app_header (icc_rg_id (csm_iccp_info csm)) TLV_T_MLACP_AGGREGATOR_STATE 35 i b'
    \<and> rd16 30 b' = htons (of_int (lif_po_id lif)) \<and> rd8 34 b' = lif_state lif"
  using assms by (simp add: mlacp_prepare_for_Aggport_state_def prepare_simps)

lemma aggport_config_wire:
  assumes "62 \<le> max_buf_size" "length (lif_mac_addr lif) = 6"
  shows "\<exists>b'. mlacp_prepare_for_Aggport_config csm max_buf_size lif purge (b, i) = (62, b', i + 1)
    \<and> app_header (icc_rg_id (csm_iccp_info csm)) TLV_T_MLACP_AGGREGATOR_CONFIG 62 i b'
    \<and> rd16 28 b' = htons (of_int (lif_po_id lif)) \<and> rdn 30 6 b' = lif_mac_addr lif
    \<and> rd8 40 b' = (if purge = 1 then 2 else 1) \<and> rd8 41 b' = of_nat (length (lif_name lif))
    \<and> rdn 42 20 b' = cfield 20 (lif_name lif)"
  using assms by (simp add: mlacp_prepare_for_Aggport_config_def prepare_simps)

lemma peerlink_info_wire:
  assumes "41 \<le> max_buf_size"
  shows "\<exists>b'. mlacp_prepare_for_port_peerlink_info csm max_buf_size lif (b, i) = (41, b', i + 1)
    \<and> app_header (icc_rg_id (csm_iccp_info csm)) TLV_T_MLACP_PEERLINK_INFO 41 i b'
    \<and> rdn 20 20 b' = cfield 20 (lif_name lif) \<and> rd8 40 b' = of_int (lif_type lif)"
  using assms by (simp add: mlacp_prepare_for_port_peerlink_info_def prepare_simps)

lemma heartbeat_wire:
  assumes "21 \<le> max_buf_size"
  shows "\<exists>b'. mlacp_prepare_for_heartbeat csm max_buf_size (b, i) = (21, b', i + 1)
    \<and> app_header (icc_rg_id (csm_iccp_info csm)) TLV_T_MLACP_HEARTBEAT 21 i b' \<and> rd8 20 b' = 0xFF"
  using assms by (simp add: mlacp_prepare_for_heartbeat_def prepare_simps)

lemma warm_reboot_wire:
  assumes "21 \<le> max_buf_size"
  shows "\<exists>b'. mlacp_prepare_for_warm_reboot csm max_buf_size (b, i) = (21, b', i + 1)
    \<and> app_header (icc_rg_id (csm_iccp_info csm)) TLV_T_MLACP_WARMBOOT_FLAG 21 i b' \<and> rd8 20 b' = 1"
  using assms by (simp add: mlacp_prepare_for_warm_reboot_def prepare_simps)

lemma if_up_ack_wire:
  assumes "24 \<le> max_buf_size"
  shows "\<exists>b'. mlacp_prepare_for_if_up_ack csm max_buf_size ty ifid st (b, i) = (24, b', i + 1)
    \<and> app_header (icc_rg_id (csm_iccp_info csm)) TLV_T_MLACP_IF_UP_ACK 24 i b'
    \<and> rd8 20 b' = ty \<and> rd8 21 b' = st \<and> rd16 22 b' = htons ifid"
  using assms by (simp add: mlacp_prepare_for_if_up_ack_def prepare_simps)

text \<open>The VLAN list of a port channel.\<close>

lemma rd_put_vlans_below [buf_simps]:
  "k + 1 \<le> p \<Longrightarrow> rd8 k (put_vlans vs p b) = rd8 k b"
  "k + 2 \<le> p \<Longrightarrow> rd16 k (put_vlans vs p b) = rd16 k b"
  "k + 4 \<le> p \<Longrightarrow> rd32 k (put_vlans vs p b) = rd32 k b"
  "k + n \<le> p \<Longrightarrow> rdn k n (put_vlans vs p b) = rdn k n b"
  by (induction vs arbitrary: p b) (simp_all add: buf_simps)

lemma rd16_put_vlans: "j < length vs \<Longrightarrow> rd16 (p + 2 * j) (put_vlans vs p b) = htons (vs ! j)"
proof (induction vs arbitrary: p b j)
  case (Cons v vs)
  show ?case
  proof (cases j)
    case 0
    then show ?thesis by (simp add: buf_simps)
  next
    case (Suc j')
    then have "p + 2 * j = (p + 2) + 2 * j'" by simp
    with Cons Suc show ?thesis by (metis length_Cons less_Suc_eq_0_disj nat.inject nth_Cons_Suc put_vlans.simps(2) old.nat.distinct(2))
  qed
qed simp

lemma stn_name_field:
  "length s \<le> 20 \<Longrightarrow> rdn p 20 (stn p (map byte_of_char s) b) = map byte_of_char s @ rdn (p + length s) (20 - length s) b"
  by (rule nth_equalityI) (auto simp: rdn_def stn_def nth_append)

lemma port_channel_info_wire:
  assumes "52 + 2 * length (lif_vlan_tree lif) \<le> max_buf_size" "lif_type lif \<noteq> IF_T_PORT" "cstring 20 (lif_name lif)"
  shows "\<exists>b'. mlacp_prepare_for_port_channel_info csm max_buf_size lif (b, i)
      = (52 + 2 * int (length (lif_vlan_tree lif)), b', i + 1)
    \<and> app_header (icc_rg_id (csm_iccp_info csm)) TLV_T_MLACP_PORT_CHANNEL_INFO
        (52 + 2 * length (lif_vlan_tree lif)) i b'
    \<and> rd16 20 b' = htons (of_int (lif_po_id lif)) \<and> rdn 22 20 b' = cfield 20 (lif_name lif)
    \<and> rd8 42 b' = of_nat (length (lif_name lif)) \<and> rd8 43 b' = lif_l3_mode lif
    \<and> rd32 44 b' = htonl (lif_ipv4_addr lif) \<and> rd16 48 b' = htons (of_int (lif_po_id lif))
    \<and> rd16 50 b' = htons (of_nat (length (lif_vlan_tree lif)))
    \<and> (\<forall>j < length (lif_vlan_tree lif). rd16 (52 + 2 * j) b' = htons (vlan_vid (lif_vlan_tree lif ! j)))"
  using assms
  by (simp add: mlacp_prepare_for_port_channel_info_def prepare_simps buf_simps cstring_def rd16_put_vlans
      stn_name_field cfield_def)

subsection \<open>Entries of the information TLVs\<close>

text \<open>The receiver's view of one entry at offset \<open>p\<close> of a message.\<close>

record mLACPMACData =
  md_type :: u8
  md_mac_type :: u8
  md_mac_addr :: bytes
  md_vid :: u16
  md_ifname :: string

definition ld_mLACPMACData :: "nat \<Rightarrow> bytes \<Rightarrow> mLACPMACData option" where
  "ld_mLACPMACData p m = do {
     t \<leftarrow> ld8 p m; mt \<leftarrow> ld8 (p + 1) m; a \<leftarrow> ldn (p + 2) ETHER_ADDR_LEN m; v \<leftarrow> ld16 (p + 8) m;
     nm \<leftarrow> ldn (p + 10) MAX_L_PORT_NAME m; s \<leftarrow> cstr nm;
     Some \<lparr>md_type = t, md_mac_type = mt, md_mac_addr = a, md_vid = v, md_ifname = s\<rparr> }"

definition ld_ARPMsg :: "nat \<Rightarrow> bytes \<Rightarrow> ARPMsg option" where
  "ld_ARPMsg p m = do {
     t \<leftarrow> ld8 p m; f \<leftarrow> ld8 (p + 1) m; l \<leftarrow> ld8 (p + 2) m; nm \<leftarrow> ldn (p + 3) MAX_L_PORT_NAME m; s \<leftarrow> cstr nm;
     ip \<leftarrow> ld32 (p + 24) m; a \<leftarrow> ldn (p + 28) ETHER_ADDR_LEN m;
     Some \<lparr>arp_op_type = t, arp_flag = f, arp_learn_flag = l, arp_ifname = s, arp_ipv4_addr = ip, arp_mac_addr = a\<rparr> }"

definition ld_NDISCMsg :: "nat \<Rightarrow> bytes \<Rightarrow> NDISCMsg option" where
  "ld_NDISCMsg p m = do {
     t \<leftarrow> ld8 p m; f \<leftarrow> ld8 (p + 1) m; l \<leftarrow> ld8 (p + 2) m; nm \<leftarrow> ldn (p + 3) MAX_L_PORT_NAME m; s \<leftarrow> cstr nm;
     ip \<leftarrow> ldn (p + 24) 16 m; a \<leftarrow> ldn (p + 40) ETHER_ADDR_LEN m;
     Some \<lparr>nd_op_type = t, nd_flag = f, nd_learn_flag = l, nd_ifname = s, nd_ipv6_addr = ip, nd_mac_addr = a\<rparr> }"

definition wf_MACMsg :: "MACMsg \<Rightarrow> bool" where
  "wf_MACMsg m \<longleftrightarrow> length (mac_addr m) = 6 \<and> cstring 20 (mac_origin_ifname m)"

definition wf_ARPMsg :: "ARPMsg \<Rightarrow> bool" where
  "wf_ARPMsg m \<longleftrightarrow> length (arp_mac_addr m) = 6 \<and> cstring 20 (arp_ifname m)"

definition wf_NDISCMsg :: "NDISCMsg \<Rightarrow> bool" where
  "wf_NDISCMsg m \<longleftrightarrow> length (nd_mac_addr m) = 6 \<and> length (nd_ipv6_addr m) = 16 \<and> cstring 20 (nd_ifname m)"

definition MACData_of :: "MACMsg \<Rightarrow> mLACPMACData" where
  "MACData_of m = \<lparr>md_type = mac_op_type m, md_mac_type = mac_fdb_type m, md_mac_addr = mac_addr m,
     md_vid = htons (mac_vid m), md_ifname = mac_origin_ifname m\<rparr>"

text \<open>Bytes of a message that agree give the same reads.\<close>

definition agree :: "nat \<Rightarrow> nat \<Rightarrow> buf \<Rightarrow> buf \<Rightarrow> bool" where
  "agree i j b b' \<longleftrightarrow> (\<forall>k. i \<le> k \<and> k < j \<longrightarrow> b k = b' k)"

lemma agree_rd:
  "agree i j b b' \<Longrightarrow> i \<le> k \<Longrightarrow> k + 1 \<le> j \<Longrightarrow> rd8 k b = rd8 k b'"
  "agree i j b b' \<Longrightarrow> i \<le> k \<Longrightarrow> k + 2 \<le> j \<Longrightarrow> rd16 k b = rd16 k b'"
  "agree i j b b' \<Longrightarrow> i \<le> k \<Longrightarrow> k + 4 \<le> j \<Longrightarrow> rd32 k b = rd32 k b'"
  "agree i j b b' \<Longrightarrow> i \<le> k \<Longrightarrow> k + n \<le> j \<Longrightarrow> rdn k n b = rdn k n b'"
  by (auto simp: agree_def rd8_def rd16_def rd32_def rdn_def)

lemma cstr_sprintf:
  assumes "cstring 20 s"
  shows "cstr (rdn p 20 (sprintf_s p s b)) = Some s"
proof -
  have "rdn p 20 (sprintf_s p s b) = map byte_of_char s @ 0 # rdn (p + length s + 1) (19 - length s) b"
    using assms by (intro nth_equalityI) (auto simp: cstring_def sprintf_s_def rdn_def stn_def nth_append nth_Cons')
  moreover have "takeWhile (\<lambda>b. b \<noteq> 0) (map byte_of_char s @ 0 # r) = map byte_of_char s" for r
    using assms by (induction s) (auto simp: cstring_def)
  ultimately show ?thesis by (simp add: cstr_def comp_def)
qed

lemma rd_sprintf_other [buf_simps]:
  "cstring 20 s \<Longrightarrow> k + 1 \<le> p \<or> p + 20 \<le> k \<Longrightarrow> rd8 k (sprintf_s p s b) = rd8 k b"
  "cstring 20 s \<Longrightarrow> k + 2 \<le> p \<or> p + 20 \<le> k \<Longrightarrow> rd16 k (sprintf_s p s b) = rd16 k b"
  "cstring 20 s \<Longrightarrow> k + 4 \<le> p \<or> p + 20 \<le> k \<Longrightarrow> rd32 k (sprintf_s p s b) = rd32 k b"
  "cstring 20 s \<Longrightarrow> k + n \<le> p \<or> p + 20 \<le> k \<Longrightarrow> rdn k n (sprintf_s p s b) = rdn k n b"
  by (auto simp: sprintf_s_def cstring_def buf_simps)

text \<open>
  Interface of an information TLV: a builder that appends one entry of \<open>sz\<close> bytes to the
  message in the buffer, and the receiver's reader for such an entry.
\<close>

locale info_tlv =
  fixes prepare :: "CSM \<Rightarrow> nat \<Rightarrow> 'm \<Rightarrow> nat \<Rightarrow> out \<Rightarrow> int \<times> out"
    and put_entry :: "'m \<Rightarrow> nat \<Rightarrow> buf \<Rightarrow> buf"
    and ld_entry :: "nat \<Rightarrow> bytes \<Rightarrow> 'e option"
    and wf :: "'m \<Rightarrow> bool"
    and view :: "'m \<Rightarrow> 'e"
    and sz :: nat
    and tlv :: u16
  assumes prepare_eq: "prepare csm mx m count (b, i) =
      (if 22 + sz * (count + 1) > mx then (- 1, b, i)
       else (int (22 + sz * (count + 1)),
         put_entry m (22 + sz * count)
           ((if count = 0 then put_ICCParameter_type tlv 16 else id)
             (st16 20 (htons (of_nat (count + 1)))
               (st16 18 (htons (of_nat (2 + sz * (count + 1))))
                 (icc_hdr csm (22 + sz * (count + 1)) i b)))), i + 1))"
    and put_frame: "wf m \<Longrightarrow> k < p \<or> p + sz \<le> k \<Longrightarrow> put_entry m p b k = b k"
    and ld_put: "wf m \<Longrightarrow> agree p (p + sz) b zero_buf \<Longrightarrow> p + sz \<le> n \<Longrightarrow>
      ld_entry p (rdn 0 n (put_entry m p b)) = Some (view m)"
    and ld_cong: "agree p (p + sz) b b' \<Longrightarrow> p + sz \<le> n \<Longrightarrow> p + sz \<le> n' \<Longrightarrow>
      ld_entry p (rdn 0 n b) = ld_entry p (rdn 0 n' b')"
    and tlv_ok: "\<not> bit tlv 7" "\<not> bit tlv 6"
begin

definition built :: "CSM \<Rightarrow> 'm list \<Rightarrow> u32 \<Rightarrow> buf \<Rightarrow> bool" where
  "built csm ms i b \<longleftrightarrow>
     app_header (icc_rg_id (csm_iccp_info csm)) tlv (22 + sz * length ms) i b
     \<and> rd16 20 b = htons (of_nat (length ms))
     \<and> (\<forall>k < length ms. ld_entry (22 + sz * k) (rdn 0 (22 + sz * length ms) b) = Some (view (ms ! k)))
     \<and> (\<forall>k \<ge> 22 + sz * length ms. b k = 0)"

lemma put_rd:
  "wf m \<Longrightarrow> k + 1 \<le> p \<Longrightarrow> rd8 k (put_entry m p b) = rd8 k b"
  "wf m \<Longrightarrow> k + 2 \<le> p \<Longrightarrow> rd16 k (put_entry m p b) = rd16 k b"
  "wf m \<Longrightarrow> k + 4 \<le> p \<Longrightarrow> rd32 k (put_entry m p b) = rd32 k b"
  by (auto simp: rd8_def rd16_def rd32_def put_frame)

lemma append_entry:
  assumes "wf m" "22 + sz * (length ms + 1) \<le> mx"
    and pre: "if ms = [] then b = zero_buf else built csm ms i0 b"
  shows "\<exists>b'. prepare csm mx m (length ms) (b, i) = (int (22 + sz * (length ms + 1)), b', i + 1)
    \<and> built csm (ms @ [m]) i b'"
proof -
  let ?n = "length ms"
  let ?b1 = "(if ?n = 0 then put_ICCParameter_type tlv 16 else id)
             (st16 20 (htons (of_nat (?n + 1)))
               (st16 18 (htons (of_nat (2 + sz * (?n + 1))))
                 (icc_hdr csm (22 + sz * (?n + 1)) i b)))"
  let ?b' = "put_entry m (22 + sz * ?n) ?b1"
  have keep: "?b1 k = b k" if "22 \<le> k" for k
    using that rd_put_ICCParameter_type_other(1) [of k 16]
    by (auto simp: buf_simps simp flip: rd8_def)
  have zero: "b k = 0" if "22 + sz * ?n \<le> k" for k
    using pre that by (auto simp: built_def zero_buf_def split: if_splits)
  have hdr: "app_header (icc_rg_id (csm_iccp_info csm)) tlv (22 + sz * (?n + 1)) i ?b'"
    using \<open>wf m\<close> tlv_ok pre by (auto simp: app_header_def put_rd buf_simps built_def)
  have cnt: "rd16 20 ?b' = htons (of_nat (?n + 1))"
    using \<open>wf m\<close> by (auto simp: put_rd buf_simps)
  have new: "ld_entry (22 + sz * ?n) (rdn 0 (22 + sz * (?n + 1)) ?b') = Some (view m)"
    using \<open>wf m\<close> keep zero by (intro ld_put) (auto simp: agree_def zero_buf_def)
  have old: "ld_entry (22 + sz * k) (rdn 0 (22 + sz * (?n + 1)) ?b') = Some (view (ms ! k))" if "k < ?n" for k
  proof -
    have le: "sz * k + sz \<le> sz * ?n" using that by (metis Suc_leI mult_Suc_right mult_le_mono2 add.commute)
    then have "ld_entry (22 + sz * k) (rdn 0 (22 + sz * (?n + 1)) ?b') = ld_entry (22 + sz * k) (rdn 0 (22 + sz * ?n) b)"
      using \<open>wf m\<close> keep that by (intro ld_cong) (auto simp: agree_def put_frame)
    with pre that show ?thesis by (auto simp: built_def split: if_splits)
  qed
  have "?b' k = 0" if "22 + sz * (?n + 1) \<le> k" for k
    using that \<open>wf m\<close> keep zero by (auto simp: put_frame)
  with hdr cnt new old have "built csm (ms @ [m]) i ?b'"
    by (auto simp: built_def nth_append less_Suc_eq)
  with assms(2) show ?thesis by (simp add: prepare_eq)
qed

end

lemma rd8_apply: "rd8 k b = b k"
  by (simp add: rd8_def)

lemma agree_zero:
  assumes "agree i j b zero_buf"
  shows "i \<le> k \<Longrightarrow> k + 1 \<le> j \<Longrightarrow> rd8 k b = 0"
  using agree_rd(1) [OF assms] by (simp add: buf_simps)

lemma put_MACData_frame:
  "wf_MACMsg m \<Longrightarrow> k < p \<or> p + 30 \<le> k \<Longrightarrow> put_mLACPMACData m p b k = b k"
  unfolding rd8_apply [symmetric] by (auto simp: put_mLACPMACData_def Let_def wf_MACMsg_def buf_simps)

lemma ld_put_MACData:
  "wf_MACMsg m \<Longrightarrow> p + 30 \<le> n \<Longrightarrow> ld_mLACPMACData p (rdn 0 n (put_mLACPMACData m p b)) = Some (MACData_of m)"
  by (simp add: ld_mLACPMACData_def put_mLACPMACData_def Let_def wf_MACMsg_def buf_simps cstr_sprintf MACData_of_def)

lemma put_ARPMsg_frame:
  "wf_ARPMsg m \<Longrightarrow> k < p \<or> p + 36 \<le> k \<Longrightarrow> put_ARPMsg m p b k = b k"
  unfolding rd8_apply [symmetric] by (auto simp: put_ARPMsg_def Let_def wf_ARPMsg_def buf_simps)

lemma ld_put_ARPMsg:
  "wf_ARPMsg m \<Longrightarrow> agree p (p + 36) b zero_buf \<Longrightarrow> p + 36 \<le> n \<Longrightarrow>
    ld_ARPMsg p (rdn 0 n (put_ARPMsg m p b)) = Some (m\<lparr>arp_learn_flag := 0\<rparr>)"
  by (simp add: ld_ARPMsg_def put_ARPMsg_def Let_def wf_ARPMsg_def buf_simps cstr_sprintf agree_zero)

lemma put_NDISCMsg_frame:
  "wf_NDISCMsg m \<Longrightarrow> k < p \<or> p + 48 \<le> k \<Longrightarrow> put_NDISCMsg m p b k = b k"
  unfolding rd8_apply [symmetric] by (auto simp: put_NDISCMsg_def Let_def wf_NDISCMsg_def buf_simps)

lemma ld_put_NDISCMsg:
  "wf_NDISCMsg m \<Longrightarrow> agree p (p + 48) b zero_buf \<Longrightarrow> p + 48 \<le> n \<Longrightarrow>
    ld_NDISCMsg p (rdn 0 n (put_NDISCMsg m p b)) = Some (m\<lparr>nd_learn_flag := 0\<rparr>)"
  by (simp add: ld_NDISCMsg_def put_NDISCMsg_def Let_def wf_NDISCMsg_def buf_simps cstr_sprintf agree_zero)

interpretation mac_tlv: info_tlv mlacp_prepare_for_mac_info_to_peer put_mLACPMACData ld_mLACPMACData
  wf_MACMsg MACData_of 30 TLV_T_MLACP_MAC_INFO
proof unfold_locales
  fix p n n' b b' assume "agree p (p + 30) b b'" "p + 30 \<le> n" "p + 30 \<le> n'"
  then show "ld_mLACPMACData p (rdn 0 n b) = ld_mLACPMACData p (rdn 0 n' b')"
    by (simp add: ld_mLACPMACData_def buf_simps agree_rd [of p "p + 30" b b'])
qed (simp_all add: mlacp_prepare_for_mac_info_to_peer_def Let_def mlacp_fill_icc_header_eq put_MACData_frame ld_put_MACData)

interpretation arp_tlv: info_tlv mlacp_prepare_for_arp_info put_ARPMsg ld_ARPMsg
  wf_ARPMsg "\<lambda>m. m\<lparr>arp_learn_flag := 0\<rparr>" 36 TLV_T_MLACP_ARP_INFO
proof unfold_locales
  fix p n n' b b' assume "agree p (p + 36) b b'" "p + 36 \<le> n" "p + 36 \<le> n'"
  then show "ld_ARPMsg p (rdn 0 n b) = ld_ARPMsg p (rdn 0 n' b')"
    by (simp add: ld_ARPMsg_def buf_simps agree_rd [of p "p + 36" b b'])
qed (simp_all add: mlacp_prepare_for_arp_info_def Let_def mlacp_fill_icc_header_eq put_ARPMsg_frame ld_put_ARPMsg)

interpretation nd_tlv: info_tlv mlacp_prepare_for_ndisc_info put_NDISCMsg ld_NDISCMsg
  wf_NDISCMsg "\<lambda>m. m\<lparr>nd_learn_flag := 0\<rparr>" 48 TLV_T_MLACP_NDISC_INFO
proof unfold_locales
  fix p n n' b b' assume "agree p (p + 48) b b'" "p + 48 \<le> n" "p + 48 \<le> n'"
  then show "ld_NDISCMsg p (rdn 0 n b) = ld_NDISCMsg p (rdn 0 n' b')"
    by (simp add: ld_NDISCMsg_def buf_simps agree_rd [of p "p + 48" b b'])
qed (simp_all add: mlacp_prepare_for_ndisc_info_def Let_def mlacp_fill_icc_header_eq put_NDISCMsg_frame ld_put_NDISCMsg)

end
