(* ===== verification/Iccp_Csm_Msg.thy ===== *)
theory Iccp_Csm_Msg
  imports Mlacp_Sync_Prepare
begin

text \<open>
  The messages of the ICCP connection state machine (\<open>src/iccp_csm.c\<close>) and the queues
  received messages go to (\<open>src/iccp_csm.c\<close>, \<open>src/app_csm.c\<close>, \<open>src/mlacp_fsm.c\<close>): building
  capability, RG connect, RG disconnect and NAK messages, sending with the log of
  sent messages, dispatching a received message to its queue, and what a received
  message does to the connection.
\<close>

subsection \<open>Counters\<close>

abbreviation (input) ICCP_DBG_CNTR_MSG_MAX :: nat where "ICCP_DBG_CNTR_MSG_MAX \<equiv> 29"

definition mlacp_fsm_iccp_to_dbg_msg_type :: "u32 \<Rightarrow> nat" where
  "mlacp_fsm_iccp_to_dbg_msg_type tlv_type =
     (if tlv_type = ucast TLV_T_MLACP_SYSTEM_CONFIG then 0
      else if tlv_type = ucast TLV_T_MLACP_AGGREGATOR_CONFIG then 1
      else if tlv_type = ucast TLV_T_MLACP_AGGREGATOR_STATE then 2
      else if tlv_type = ucast TLV_T_MLACP_SYNC_REQUEST then 11
      else if tlv_type = ucast TLV_T_MLACP_SYNC_DATA then 10
      else if tlv_type = ucast TLV_T_MLACP_HEARTBEAT then 8
      else if tlv_type = ucast TLV_T_MLACP_PORT_CHANNEL_INFO then 6
      else if tlv_type = ucast TLV_T_MLACP_PEERLINK_INFO then 7
      else if tlv_type = ucast TLV_T_MLACP_ARP_INFO then 4
      else if tlv_type = ucast TLV_T_MLACP_MAC_INFO then 3
      else if tlv_type = ucast TLV_T_MLACP_WARMBOOT_FLAG then 12
      else if tlv_type = ucast TLV_T_MLACP_IF_UP_ACK then 13
      else ICCP_DBG_CNTR_MSG_MAX)"

definition incr_dbg_counter :: "nat \<Rightarrow> u16 \<Rightarrow> nat \<Rightarrow> CSM \<Rightarrow> CSM" where
  "incr_dbg_counter dir tlv_type status csm = (let
     dbg_type = mlacp_fsm_iccp_to_dbg_msg_type (ucast tlv_type) in
     if dbg_type < ICCP_DBG_CNTR_MSG_MAX \<and> status < 2
     then upd_MLACP (ml_dbg_counters_update (\<lambda>cs. cs(dbg_type :=
            (cs dbg_type)(dir := (cs dbg_type dir)(status := cs dbg_type dir status + 1))))) csm
     else csm)"

definition MLACP_SET_ICCP_TX_DBG_COUNTER :: "u16 \<Rightarrow> nat \<Rightarrow> CSM \<Rightarrow> CSM" where
  "MLACP_SET_ICCP_TX_DBG_COUNTER = incr_dbg_counter 0"

definition MLACP_SET_ICCP_RX_DBG_COUNTER :: "u16 \<Rightarrow> nat \<Rightarrow> CSM \<Rightarrow> CSM" where
  "MLACP_SET_ICCP_RX_DBG_COUNTER = incr_dbg_counter 1"

subsection \<open>Sending\<close>

definition log_sent :: "u32 \<Rightarrow> u16 \<Rightarrow> u16 \<Rightarrow> MsgLog \<Rightarrow> MsgLog option" where
  "log_sent i ty tlv l = (let e = unat (log_end_index l) in
     if e < length (log_msg l) then Some (let
       l = l\<lparr>log_msg := (log_msg l)[e := \<lparr>mts_msg_id = i, mts_type = ty, mts_tlv = tlv\<rparr>],
             log_end_index := log_end_index l + 1\<rparr>
       in if log_end_index l \<ge> 128 then l\<lparr>log_end_index := 0\<rparr> else l)
     else None)"

text \<open>\<open>iccp_csm_send (csm, g_csm_buf, msg_len)\<close>\<close>

definition iccp_csm_send :: "csm_ptr \<Rightarrow> int \<Rightarrow> world \<Rightarrow> (int \<times> world) option" where
  "iccp_csm_send c msg_len w = do {
     csm \<leftarrow> w_csm w c;
     if csm_sock_fd csm \<le> 0 \<or> msg_len \<le> 0 then Some (MCLAG_ERROR, w)
     else if msg_len > int CSM_BUFFER_SIZE then None
     else do {
       let buf = g_csm_buf w;
       let ty = ntohs (LDPHdr_msg_type (rd16 0 buf));
       let param = (if ty = MSG_T_CAPABILITY then sizeof_LDPHdr else sizeof_ICCHdr);
       let tlv_type = ntohs (ICCParameter_type (rd16 param buf));
       l \<leftarrow> log_sent (ntohl (rd32 4 buf)) ty tlv_type (csm_msg_log csm);
       let w = upd_csm c (csm_msg_log_update (\<lambda>_. l)) w;
       let (rc, w) = sys_write (csm_sock_fd csm) (rdn 0 (nat msg_len) buf) w;
       let w = upd_csm c (MLACP_SET_ICCP_TX_DBG_COUNTER tlv_type
                 (if rc \<le> 0 \<or> rc \<noteq> msg_len then 1 else 0)) w;
       Some (rc, w) } }"

subsection \<open>Building connection messages\<close>

definition iccp_csm_prepare_capability_msg :: "CSM \<Rightarrow> out \<Rightarrow> int \<times> out" where
  "iccp_csm_prepare_capability_msg csm out = (let
     msg_len = sizeof_LDPHdr + sizeof_LDPICCPCapabilityTLV;
     b = put_LDPHdr MSG_T_CAPABILITY (of_nat (msg_len - MSG_L_INCLUD_U_BIT_MSG_T_L_FIELDS)) (snd out) 0 zero_buf;
     b = st16 8 (set_bits16 15 1 1 (rd16 8 b)) b;
     b = st16 8 (set_bits16 14 1 0 (rd16 8 b)) b;
     b = st16 8 (set_bits16 0 14 TLV_T_ICCP_CAPABILITY (rd16 8 b)) b;
     b = st16 8 (htons (rd16 8 b)) b;
     b = st16 10 (htons TLV_L_ICCP_CAPABILITY) b;
     b = st16 12 (set_bits16 15 1 (of_bool (sender_capability_flag (csm_iccp_info csm))) (rd16 12 b)) b;
     b = st16 12 (htons (rd16 12 b)) b;
     b = st8 14 1 b;
     b = st8 15 0 b
   in (int msg_len, b, snd out + 1))"

definition iccp_csm_prepare_nak_msg :: "CSM \<Rightarrow> out \<Rightarrow> int \<times> out" where
  "iccp_csm_prepare_nak_msg csm out = (let
     msg_len = sizeof_ICCHdr + sizeof_NAKTLV;
     b = put_LDPHdr MSG_T_NOTIFICATION (of_nat (msg_len - MSG_L_INCLUD_U_BIT_MSG_T_L_FIELDS)) (snd out) 0 zero_buf;
     b = iccp_csm_fill_icc_rg_id_tlv csm 0 b;
     b = put_ICCParameter TLV_T_NAK 8 16 b;
     b = (if status_code (csm_iccp_info csm) = STATUS_CODE_U_ICCP_RG
          then st32 24 (htonl (rejected_msg_id (csm_iccp_info csm)))
                 (st32 20 (htonl (status_code (csm_iccp_info csm))) b)
          else b)
   in (int msg_len, b, snd out + 1))"

definition iccp_csm_prepare_rg_connect_msg :: "CSM \<Rightarrow> out \<Rightarrow> int \<times> out" where
  "iccp_csm_prepare_rg_connect_msg csm out = (let
     name_len = length (sender_name (csm_iccp_info csm));
     msg_len = sizeof_ICCHdr + sizeof_ICCParameter + name_len;
     b = put_LDPHdr MSG_T_RG_CONNECT (of_nat (msg_len - MSG_L_INCLUD_U_BIT_MSG_T_L_FIELDS)) (snd out) 0 zero_buf;
     b = iccp_csm_fill_icc_rg_id_tlv csm 0 b;
     b = put_ICCParameter TLV_T_ICC_SENDER_NAME (of_nat name_len) 16 b;
     b = stn 20 (map byte_of_char (sender_name (csm_iccp_info csm))) b
   in (int msg_len, b, snd out + 1))"

definition iccp_csm_prepare_rg_disconnect_msg :: "CSM \<Rightarrow> out \<Rightarrow> int \<times> out" where
  "iccp_csm_prepare_rg_disconnect_msg csm out = (let
     msg_len = sizeof_ICCHdr + sizeof_DisconnectCodeTLV;
     b = put_LDPHdr MSG_T_RG_DISCONNECT (of_nat (msg_len - MSG_L_INCLUD_U_BIT_MSG_T_L_FIELDS)) (snd out) 0 zero_buf;
     b = iccp_csm_fill_icc_rg_id_tlv csm 0 b;
     b = put_ICCParameter TLV_T_DISCONNECT_CODE 4 16 b;
     b = st32 20 (htonl (status_code (csm_iccp_info csm))) b
   in (int msg_len, b, snd out + 1))"

definition iccp_csm_prepare_iccp_msg :: "CSM \<Rightarrow> out \<Rightarrow> int \<times> out" where
  "iccp_csm_prepare_iccp_msg csm out = (case csm_current_state csm of
       ICCP_NONEXISTENT \<Rightarrow> (- 1, out)
     | ICCP_INITIALIZED \<Rightarrow> iccp_csm_prepare_capability_msg csm out
     | ICCP_CAPSENT \<Rightarrow> (- 1, out)
     | ICCP_CAPREC \<Rightarrow>
         if status_code (csm_iccp_info csm) > 0 then iccp_csm_prepare_nak_msg csm out
         else iccp_csm_prepare_rg_connect_msg csm out
     | ICCP_CONNECTING \<Rightarrow>
         if status_code (csm_iccp_info csm) > 0 then iccp_csm_prepare_nak_msg csm out else (- 1, out)
     | ICCP_OPERATIONAL \<Rightarrow>
         if \<not> peer_rg_connect_flag (csm_iccp_info csm) then iccp_csm_prepare_rg_disconnect_msg csm out
         else (- 1, out))"

definition app_csm_prepare_nak_msg :: "CSM \<Rightarrow> out \<Rightarrow> int \<times> out" where
  "app_csm_prepare_nak_msg csm out = (let
     msg_len = sizeof_ICCHdr + sizeof_NAKTLV;
     b = put_LDPHdr MSG_T_NOTIFICATION (of_nat (msg_len - MSG_L_INCLUD_U_BIT_MSG_T_L_FIELDS)) (snd out) 0 zero_buf;
     b = iccp_csm_fill_icc_rg_id_tlv csm 0 b;
     b = put_ICCParameter TLV_T_NAK (of_nat (sizeof_NAKTLV - 4)) 16 b;
     b = st32 20 (htonl 0x10006) b;
     b = st32 24 (htonl (app_invalid_msg_id (APP_CSM csm))) b
   in (int msg_len, b, snd out + 1))"

subsection \<open>Receiving\<close>

definition mlacp_enqueue_msg :: "CSM \<Rightarrow> bytes \<Rightarrow> CSM" where
  "mlacp_enqueue_msg csm msg = upd_MLACP (ml_mlacp_msg_list_update (\<lambda>q. q @ [msg])) csm"

definition mlacp_dequeue_msg :: "CSM \<Rightarrow> bytes option \<times> CSM" where
  "mlacp_dequeue_msg csm = (case ml_mlacp_msg_list (MLACP csm) of
       [] \<Rightarrow> (None, csm)
     | m # q \<Rightarrow> (Some m, upd_MLACP (ml_mlacp_msg_list_update (\<lambda>_. q)) csm))"

definition find_log :: "u32 \<Rightarrow> CSM \<Rightarrow> MsgTypeSet option" where
  "find_log i csm = find (\<lambda>e. mts_msg_id e = i) (log_msg (csm_msg_log csm))"

definition app_csm_enqueue_msg :: "CSM \<Rightarrow> bytes \<Rightarrow> CSM option" where
  "app_csm_enqueue_msg csm msg = do {
     msg \<leftarrow> swap16 16 msg;
     hdr \<leftarrow> ld16 0 msg;
     param \<leftarrow> ld16 16 msg;
     if LDPHdr_msg_type hdr = MSG_T_RG_APP_DATA then
       Some (if ICCParameter_type param > TLV_T_MLACP_CONNECT \<and> ICCParameter_type param < TLV_T_MLACP_LIST_END
             then mlacp_enqueue_msg csm msg
             else csm_app_csm_update (app_msg_list_update (\<lambda>q. q @ [msg])) csm)
     else if LDPHdr_msg_type hdr = MSG_T_NOTIFICATION then do {
       rej \<leftarrow> ld32 24 msg;
       let tlv = (case find_log (ntohl rej) csm of None \<Rightarrow> - 1 | Some e \<Rightarrow> uint (mts_tlv e));
       Some (if tlv > uint TLV_T_MLACP_CONNECT \<and> tlv \<le> uint TLV_T_MLACP_MAC_INFO
             then mlacp_enqueue_msg csm msg
             else csm_app_csm_update (app_msg_list_update (\<lambda>q. q @ [msg])) csm) }
     else Some csm }"

definition app_csm_dequeue_msg :: "CSM \<Rightarrow> bytes option \<times> CSM" where
  "app_csm_dequeue_msg csm = (case app_msg_list (APP_CSM csm) of
       [] \<Rightarrow> (None, csm)
     | m # q \<Rightarrow> (Some m, csm_app_csm_update (app_msg_list_update (\<lambda>_. q)) csm))"

definition iccp_csm_enqueue_msg :: "CSM \<Rightarrow> bytes \<Rightarrow> CSM option" where
  "iccp_csm_enqueue_msg csm msg = do {
     msg \<leftarrow> swap16 0 msg;
     hdr \<leftarrow> ld16 0 msg;
     if LDPHdr_msg_type hdr = MSG_T_RG_APP_DATA then app_csm_enqueue_msg csm msg
     else if LDPHdr_msg_type hdr = MSG_T_NOTIFICATION then do {
       rej \<leftarrow> ld32 24 msg;
       let type = (case find_log (ntohl rej) csm of None \<Rightarrow> - 1 | Some e \<Rightarrow> uint (mts_type e));
       if type = uint MSG_T_RG_APP_DATA then app_csm_enqueue_msg csm msg
       else Some (csm_msg_list_update (\<lambda>q. q @ [msg]) csm) }
     else Some (csm_msg_list_update (\<lambda>q. q @ [msg]) csm) }"

definition iccp_csm_dequeue_msg :: "CSM \<Rightarrow> bytes option \<times> CSM" where
  "iccp_csm_dequeue_msg csm = (case csm_msg_list csm of
       [] \<Rightarrow> (None, csm)
     | m # q \<Rightarrow> (Some m, csm_msg_list_update (\<lambda>_. q) csm))"

definition iccp_csm_check_id_from_msg :: "CSM \<Rightarrow> bytes \<Rightarrow> CSM option" where
  "iccp_csm_check_id_from_msg csm msg = do {
     hdr \<leftarrow> ld16 0 msg;
     if LDPHdr_msg_type hdr = MSG_T_CAPABILITY then Some csm
     else do {
       rg \<leftarrow> ld32 12 msg;
       if ntohl rg = icc_rg_id (csm_iccp_info csm) then
         Some (if status_code (csm_iccp_info csm) = STATUS_CODE_U_ICCP_RG
               then csm_iccp_info_update (\<lambda>x. x\<lparr>status_code := 0, rejected_msg_id := 0\<rparr>) csm
               else csm)
       else Some (csm_iccp_info_update
              (\<lambda>x. x\<lparr>status_code := STATUS_CODE_U_ICCP_RG, rejected_msg_id := ntohl rg\<rparr>) csm) } }"

text \<open>
  Fields are read left to right and only as long as the tests hold, as the \<open>&&\<close> chains
  of the code do.
\<close>

definition iccp_csm_correspond_from_capability_msg :: "CSM \<Rightarrow> bytes \<Rightarrow> CSM option" where
  "iccp_csm_correspond_from_capability_msg csm msg = do {
     msg \<leftarrow> swap16 8 msg;
     msg \<leftarrow> swap16 12 msg;
     param \<leftarrow> ld16 8 msg; len \<leftarrow> ld16 10 msg; sb \<leftarrow> ld16 12 msg;
     if ICCParameter_u_bit param = 1 \<and> ICCParameter_f_bit param = 0
        \<and> ICCParameter_type param = TLV_T_ICCP_CAPABILITY \<and> ntohs len = TLV_L_ICCP_CAPABILITY
        \<and> get_bits 15 1 sb = 1 then do {
       major \<leftarrow> ld8 14 msg;
       if major = 1 then do {
         minor \<leftarrow> ld8 15 msg;
         Some (if minor = 0 then csm_iccp_info_update (peer_capability_flag_update (\<lambda>_. True)) csm else csm) }
       else Some csm }
     else Some csm }"

definition iccp_csm_correspond_from_rg_connect_msg :: "CSM \<Rightarrow> bytes \<Rightarrow> CSM option" where
  "iccp_csm_correspond_from_rg_connect_msg csm msg = do {
     msg \<leftarrow> swap16 16 msg;
     param \<leftarrow> ld16 16 msg;
     Some (if ICCParameter_u_bit param = 0 \<and> ICCParameter_f_bit param = 0
              \<and> ICCParameter_type param = TLV_T_ICC_SENDER_NAME
           then csm_iccp_info_update (peer_rg_connect_flag_update (\<lambda>_. True)) csm else csm) }"

definition iccp_csm_correspond_from_rg_disconnect_msg :: "CSM \<Rightarrow> bytes \<Rightarrow> CSM option" where
  "iccp_csm_correspond_from_rg_disconnect_msg csm msg = do {
     msg \<leftarrow> swap16 16 msg;
     param \<leftarrow> ld16 16 msg;
     if ICCParameter_u_bit param = 0 \<and> ICCParameter_f_bit param = 0
        \<and> ICCParameter_type param = TLV_T_DISCONNECT_CODE then do {
       len \<leftarrow> ld16 18 msg;
       if ntohs len = TLV_L_DISCONNECT_CODE then do {
         st \<leftarrow> ld32 20 msg;
         Some (if ntohl st = STATUS_CODE_ICCP_RG_REMOVED
               then csm_iccp_info_update (\<lambda>x. x\<lparr>sender_rg_connect_flag := False, peer_rg_connect_flag := False\<rparr>) csm
               else csm) }
       else Some csm }
     else Some csm }"

text \<open>
  For a notification the code logs a status code read at
  \<open>icc_hdr + sizeof (ICCHdr)\<close>, which is 16 headers (256 bytes) past the start of the message.
\<close>

definition iccp_csm_correspond_from_msg :: "CSM \<Rightarrow> bytes \<Rightarrow> CSM option" where
  "iccp_csm_correspond_from_msg csm msg = do {
     csm \<leftarrow> iccp_csm_check_id_from_msg csm msg;
     hdr \<leftarrow> ld16 0 msg;
     let ty = LDPHdr_msg_type hdr;
     if ty = MSG_T_CAPABILITY then iccp_csm_correspond_from_capability_msg csm msg
     else if ty = MSG_T_RG_CONNECT then iccp_csm_correspond_from_rg_connect_msg csm msg
     else if ty = MSG_T_RG_DISCONNECT then iccp_csm_correspond_from_rg_disconnect_msg csm msg
     else if ty = MSG_T_NOTIFICATION then do {
       _ \<leftarrow> ld32 (sizeof_ICCHdr * sizeof_ICCHdr + 4) msg;
       Some csm }
     else if ty = MSG_T_RG_APP_DATA then Some csm
     else Some (csm_u_msg_in_count_update (\<lambda>n. n + 1) csm) }"

subsection \<open>The log of sent messages\<close>

definition wf_log :: "MsgLog \<Rightarrow> bool" where
  "wf_log l \<longleftrightarrow> length (log_msg l) = MAX_MSG_LOG_SIZE \<and> log_end_index l < 128"

lemma wf_log_sent:
  assumes "wf_log l"
  shows "\<exists>l'. log_sent i ty tlv l = Some l' \<and> wf_log l' \<and>
     log_msg l' = (log_msg l)[unat (log_end_index l) := \<lparr>mts_msg_id = i, mts_type = ty, mts_tlv = tlv\<rparr>]"
  using assms by (auto simp: wf_log_def log_sent_def Let_def unat_arith_simps not_le)

subsection \<open>Messages arrive as they were built\<close>

lemma rd_fill_icc_rg_id [buf_simps]:
  "k + 2 \<le> 8 \<or> 16 \<le> k \<Longrightarrow> rd16 k (iccp_csm_fill_icc_rg_id_tlv csm 0 b) = rd16 k b"
  "16 \<le> k \<Longrightarrow> rd32 k (iccp_csm_fill_icc_rg_id_tlv csm 0 b) = rd32 k b"
  "rd32 12 (iccp_csm_fill_icc_rg_id_tlv csm 0 b) = htonl (icc_rg_id (csm_iccp_info csm))"
  by (auto simp: iccp_csm_fill_icc_rg_id_tlv_def Let_def buf_simps)

text \<open>A message of \<open>n\<close> bytes as it lies in a queue: its type is in host order.\<close>

definition arrived :: "nat \<Rightarrow> buf \<Rightarrow> bytes" where
  "arrived n b = rdn 0 n (st16 0 (htons (rd16 0 b)) b)"

lemma enqueue_conn_msg:
  assumes "2 \<le> n" "rd16 0 b = htons ty" "\<not> bit ty 15" "ty \<noteq> MSG_T_RG_APP_DATA" "ty \<noteq> MSG_T_NOTIFICATION"
  shows "iccp_csm_enqueue_msg csm (rdn 0 n b) = Some (csm_msg_list_update (\<lambda>q. q @ [arrived n b]) csm)"
  using assms by (simp add: iccp_csm_enqueue_msg_def buf_simps arrived_def)

lemma capability_word:
  "set_bits16 0 14 TLV_T_ICCP_CAPABILITY (set_bits16 14 1 0 (set_bits16 15 1 1 0)) = 0x8700"
  by (simp add: set_bits16_def mask_eq_exp_minus_1 push_bit_eq_mult)

lemma s_bit_word: "set_bits16 15 1 (of_bool f) 0 = (if f then 0x8000 else 0)"
  by (simp add: set_bits16_def mask_eq_exp_minus_1 push_bit_eq_mult)

lemma capability_param:
  "ICCParameter_u_bit 0x8700 = 1" "ICCParameter_f_bit 0x8700 = 0" "ICCParameter_type 0x8700 = 0x700"
  "get_bits 15 1 0x8000 = 1" "get_bits 15 1 0 = 0"
  by (simp_all add: ICCParameter_u_bit_def ICCParameter_f_bit_def ICCParameter_type_def get_bits_def
      mask_eq_exp_minus_1 drop_bit_eq_div)

lemma capability_received:
  assumes "iccp_csm_prepare_capability_msg csm out = (n, b, i)"
  shows "n = 16 \<and> iccp_csm_enqueue_msg rcv (rdn 0 16 b) = Some (csm_msg_list_update (\<lambda>q. q @ [arrived 16 b]) rcv)
    \<and> iccp_csm_correspond_from_msg rcv' (arrived 16 b) = Some (if sender_capability_flag (csm_iccp_info csm)
         then csm_iccp_info_update (peer_capability_flag_update (\<lambda>_. True)) rcv' else rcv')"
proof -
  have b: "rd16 0 b = htons MSG_T_CAPABILITY" "rd16 8 b = htons 0x8700" "rd16 10 b = htons 4"
    "rd16 12 b = htons (if sender_capability_flag (csm_iccp_info csm) then 0x8000 else 0)"
    "rd8 14 b = 1" "rd8 15 b = 0" "n = 16"
    using assms
    by (auto simp: iccp_csm_prepare_capability_msg_def Let_def buf_simps capability_word [simplified]
        s_bit_word [simplified])
  then have "iccp_csm_enqueue_msg rcv (rdn 0 16 b) = Some (csm_msg_list_update (\<lambda>q. q @ [arrived 16 b]) rcv)"
    by (intro enqueue_conn_msg) auto
  moreover have "iccp_csm_correspond_from_msg rcv' (arrived 16 b) = Some (if sender_capability_flag (csm_iccp_info csm)
         then csm_iccp_info_update (peer_capability_flag_update (\<lambda>_. True)) rcv' else rcv')"
    using b by (simp add: arrived_def iccp_csm_correspond_from_msg_def iccp_csm_check_id_from_msg_def
        iccp_csm_correspond_from_capability_msg_def buf_simps capability_param [simplified])
  ultimately show ?thesis using b by blast
qed

text \<open>What \<open>iccp_csm_check_id_from_msg\<close> makes of a message that carries the RG identifier \<open>rg\<close>.\<close>

definition rg_checked :: "u32 \<Rightarrow> IccpInfo \<Rightarrow> IccpInfo" where
  "rg_checked rg x =
     (if rg = icc_rg_id x
      then (if status_code x = STATUS_CODE_U_ICCP_RG then x\<lparr>status_code := 0, rejected_msg_id := 0\<rparr> else x)
      else x\<lparr>status_code := STATUS_CODE_U_ICCP_RG, rejected_msg_id := rg\<rparr>)"

lemma csm_iccp_info_update_id: "(\<And>x. f x = x) \<Longrightarrow> csm_iccp_info_update f csm = csm"
  by (cases csm) simp

lemma check_id_arrived:
  assumes "16 \<le> n" "rd16 0 b = htons ty" "\<not> bit ty 15" "ty \<noteq> MSG_T_CAPABILITY"
  shows "iccp_csm_check_id_from_msg csm (arrived n b) =
    Some (csm\<lparr>csm_iccp_info := rg_checked (ntohl (rd32 12 b)) (csm_iccp_info csm)\<rparr>)"
  using assms
  by (auto simp: arrived_def iccp_csm_check_id_from_msg_def buf_simps rg_checked_def)

lemma rg_connect_received:
  assumes "iccp_csm_prepare_rg_connect_msg csm out = (n, b, i)" "N = 20 + length (sender_name (csm_iccp_info csm))"
  shows "n = int N
    \<and> iccp_csm_enqueue_msg rcv (rdn 0 N b) = Some (csm_msg_list_update (\<lambda>q. q @ [arrived N b]) rcv)
    \<and> iccp_csm_correspond_from_msg rcv' (arrived N b) = Some (rcv'\<lparr>csm_iccp_info :=
         (rg_checked (icc_rg_id (csm_iccp_info csm)) (csm_iccp_info rcv'))\<lparr>peer_rg_connect_flag := True\<rparr>\<rparr>)"
proof -
  have b: "rd16 0 b = htons MSG_T_RG_CONNECT" "rd16 16 b = htons TLV_T_ICC_SENDER_NAME"
    "rd32 12 b = htonl (icc_rg_id (csm_iccp_info csm))" "n = int N" "20 \<le> N"
    using assms by (auto simp: iccp_csm_prepare_rg_connect_msg_def Let_def buf_simps)
  then have "iccp_csm_enqueue_msg rcv (rdn 0 N b) = Some (csm_msg_list_update (\<lambda>q. q @ [arrived N b]) rcv)"
    by (intro enqueue_conn_msg) auto
  moreover have "iccp_csm_check_id_from_msg rcv' (arrived N b) =
      Some (rcv'\<lparr>csm_iccp_info := rg_checked (icc_rg_id (csm_iccp_info csm)) (csm_iccp_info rcv')\<rparr>)"
    using b check_id_arrived [of N b MSG_T_RG_CONNECT rcv'] by simp
  then have "iccp_csm_correspond_from_msg rcv' (arrived N b) = Some (rcv'\<lparr>csm_iccp_info :=
         (rg_checked (icc_rg_id (csm_iccp_info csm)) (csm_iccp_info rcv'))\<lparr>peer_rg_connect_flag := True\<rparr>\<rparr>)"
    using b by (simp add: iccp_csm_correspond_from_msg_def)
      (simp add: arrived_def buf_simps iccp_csm_correspond_from_rg_connect_msg_def)
  ultimately show ?thesis using b by blast
qed

lemma rg_disconnect_received:
  assumes "iccp_csm_prepare_rg_disconnect_msg csm out = (n, b, i)"
  shows "n = 24
    \<and> iccp_csm_enqueue_msg rcv (rdn 0 24 b) = Some (csm_msg_list_update (\<lambda>q. q @ [arrived 24 b]) rcv)
    \<and> iccp_csm_correspond_from_msg rcv' (arrived 24 b) = Some (rcv'\<lparr>csm_iccp_info :=
         (let x = rg_checked (icc_rg_id (csm_iccp_info csm)) (csm_iccp_info rcv') in
          if status_code (csm_iccp_info csm) = STATUS_CODE_ICCP_RG_REMOVED
          then x\<lparr>sender_rg_connect_flag := False, peer_rg_connect_flag := False\<rparr> else x)\<rparr>)"
proof -
  have b: "rd16 0 b = htons MSG_T_RG_DISCONNECT" "rd16 16 b = htons TLV_T_DISCONNECT_CODE" "rd16 18 b = htons 4"
    "rd32 20 b = htonl (status_code (csm_iccp_info csm))"
    "rd32 12 b = htonl (icc_rg_id (csm_iccp_info csm))" "n = 24"
    using assms by (auto simp: iccp_csm_prepare_rg_disconnect_msg_def Let_def buf_simps)
  then have "iccp_csm_enqueue_msg rcv (rdn 0 24 b) = Some (csm_msg_list_update (\<lambda>q. q @ [arrived 24 b]) rcv)"
    by (intro enqueue_conn_msg) auto
  moreover have "iccp_csm_check_id_from_msg rcv' (arrived 24 b) =
      Some (rcv'\<lparr>csm_iccp_info := rg_checked (icc_rg_id (csm_iccp_info csm)) (csm_iccp_info rcv')\<rparr>)"
    using b check_id_arrived [of 24 b MSG_T_RG_DISCONNECT rcv'] by simp
  then have "iccp_csm_correspond_from_msg rcv' (arrived 24 b) = Some (rcv'\<lparr>csm_iccp_info :=
         (let x = rg_checked (icc_rg_id (csm_iccp_info csm)) (csm_iccp_info rcv') in
          if status_code (csm_iccp_info csm) = STATUS_CODE_ICCP_RG_REMOVED
          then x\<lparr>sender_rg_connect_flag := False, peer_rg_connect_flag := False\<rparr> else x)\<rparr>)"
    using b by (simp add: iccp_csm_correspond_from_msg_def)
      (simp add: arrived_def buf_simps iccp_csm_correspond_from_rg_disconnect_msg_def Let_def)
  ultimately show ?thesis using b by blast
qed

text \<open>The log statement for notifications reads past the end of every message the peer builds.\<close>

lemma notification_reads_past_end:
  assumes "ld16 0 msg = Some hdr" "LDPHdr_msg_type hdr = MSG_T_NOTIFICATION" "length msg < 264"
  shows "iccp_csm_correspond_from_msg csm msg = None"
  using assms by (auto simp: iccp_csm_correspond_from_msg_def ld32_def split: Option.bind_splits)

end
