(* ===== verification/Mlacp_Mac_Table.thy ===== *)
theory Mlacp_Mac_Table
  imports Mclag_Syncd Iccp_Port Iccp_Csm_Msg
begin

text \<open>
  The MAC table of a domain (\<open>src/mlacp_link_handler.c\<close>, \<open>src/mlacp_sync_update.c\<close>,
  \<open>src/mlacp_fsm.c\<close>, \<open>src/iccp_csm.c\<close>). An entry lives in the tree \<open>mac_rb\<close> and, while an update
  for the peer is pending, also in the queue \<open>mac_msg_list\<close>; it is learned locally unless
  \<open>MAC_AGE_LOCAL\<close> is set, by the peer unless \<open>MAC_AGE_PEER\<close> is set, and goes away once both are.

  A \<open>char[20]\<close> name copied with \<open>memcpy\<close> or \<open>sprintf\<close> is the string it holds; the bytes after its
  terminator are not modelled.
\<close>

subsection \<open>Entries in the tree and in the queue\<close>

definition load_macs :: "mac_ptr list \<Rightarrow> world \<Rightarrow> (mac_ptr \<times> MACMsg) list option" where
  "load_macs ps w = map_option (zip ps) (those (map (w_mac w) ps))"

abbreviation (input) mac_node_compare :: "mac_ptr \<times> MACMsg \<Rightarrow> mac_ptr \<times> MACMsg \<Rightarrow> int" where
  "mac_node_compare x y \<equiv> MACMsg_compare (snd x) (snd y)"

definition mac_key :: "u16 \<Rightarrow> bytes \<Rightarrow> MACMsg" where
  "mac_key vid addr = zero_MACMsg\<lparr>mac_vid := vid, mac_addr := take ETHER_ADDR_LEN addr\<rparr>"

definition mac_rb_find :: "csm_ptr \<Rightarrow> u16 \<Rightarrow> bytes \<Rightarrow> world \<Rightarrow> mac_ptr option option" where
  "mac_rb_find c vid addr w = do {
     csm \<leftarrow> w_csm w c;
     t \<leftarrow> load_macs (ml_mac_rb (MLACP csm)) w;
     Some (map_option fst (RB_FIND (\<lambda>x y. mac_node_compare x y) (0, mac_key vid addr) t)) }"

definition mac_rb_insert :: "csm_ptr \<Rightarrow> mac_ptr \<Rightarrow> world \<Rightarrow> world option" where
  "mac_rb_insert c p w = do {
     csm \<leftarrow> w_csm w c;
     m \<leftarrow> w_mac w p;
     t \<leftarrow> load_macs (ml_mac_rb (MLACP csm)) w;
     Some (upd_mlacp c (ml_mac_rb_update (\<lambda>_. map fst (RB_INSERT (\<lambda>x y. mac_node_compare x y) (p, m) t))) w) }"

definition MAC_RB_REMOVE :: "csm_ptr \<Rightarrow> mac_ptr \<Rightarrow> world \<Rightarrow> world option" where
  "MAC_RB_REMOVE c p w = do {
     csm \<leftarrow> w_csm w c;
     _ \<leftarrow> w_mac w p;
     if p \<in> set (ml_mac_rb (MLACP csm))
     then Some (upd_mlacp c (ml_mac_rb_update (filter (\<lambda>q. q \<noteq> p))) w) else None }"

definition free_mac :: "mac_ptr \<Rightarrow> world \<Rightarrow> world option" where
  "free_mac p w = do { _ \<leftarrow> w_mac w p; Some (w\<lparr>w_mac := (w_mac w)(p := None)\<rparr>) }"

text \<open>\<open>if (!MAC_IN_MSG_LIST (...)) TAILQ_INSERT_TAIL (...)\<close>\<close>

definition mac_enqueue :: "csm_ptr \<Rightarrow> mac_ptr \<Rightarrow> world \<Rightarrow> world option" where
  "mac_enqueue c p w = do {
     m \<leftarrow> w_mac w p;
     if mac_in_msg_list m then Some w
     else Some (upd_mac p (mac_in_msg_list_update (\<lambda>_. True))
                 (upd_mlacp c (ml_mac_msg_list_update (\<lambda>q. q @ [p])) w)) }"

text \<open>\<open>if (!MAC_IN_MSG_LIST (...)) free (mac_msg)\<close>\<close>

definition free_unless_queued :: "mac_ptr \<Rightarrow> world \<Rightarrow> world option" where
  "free_unless_queued p w = do { m \<leftarrow> w_mac w p; if mac_in_msg_list m then Some w else free_mac p w }"

text \<open>The copy of an entry on the heap, or no entry if the allocation fails.\<close>

definition iccp_csm_init_mac_msg :: "MACMsg \<Rightarrow> world \<Rightarrow> mac_ptr option \<times> world" where
  "iccp_csm_init_mac_msg m w = (let (ok, w) = malloc_ok w in
     if \<not> ok then (None, w)
     else (Some (w_fresh w), w\<lparr>w_mac := (w_mac w)(w_fresh w \<mapsto> m), w_fresh := w_fresh w + 1\<rparr>))"

definition on_mac :: "mac_ptr \<Rightarrow> (MACMsg \<Rightarrow> world \<Rightarrow> MACMsg \<times> world) \<Rightarrow> world \<Rightarrow> world option" where
  "on_mac p f w = do { m \<leftarrow> w_mac w p; let (m', w) = f m w; Some (upd_mac p (\<lambda>_. m') w) }"

definition mod_mac :: "mac_ptr \<Rightarrow> (MACMsg \<Rightarrow> MACMsg) \<Rightarrow> world \<Rightarrow> world option" where
  "mod_mac p f w = do { _ \<leftarrow> w_mac w p; Some (upd_mac p f w) }"

subsection \<open>Programming the forwarding table\<close>

text \<open>\<open>struct mclag_fdb_info\<close>: MAC, two bytes of padding, VLAN, port name, type, operation.\<close>

definition mclag_fdb_info :: "MACMsg \<Rightarrow> u8 \<Rightarrow> u8 \<Rightarrow> bytes" where
  "mclag_fdb_info m mac_type oper = take ETHER_ADDR_LEN (mac_addr m) @ [0, 0] @ le32 (ucast (mac_vid m))
     @ cfield MAX_L_PORT_NAME (mac_ifname m) @ le16 (ucast mac_type) @ le16 (ucast oper)"

definition iccp_send_fdb_entry_to_syncd :: "MACMsg \<Rightarrow> u8 \<Rightarrow> u8 \<Rightarrow> world \<Rightarrow> MACMsg \<times> world" where
  "iccp_send_fdb_entry_to_syncd m mac_type oper w =
     (if memcmp (mac_addr m) (replicate ETHER_ADDR_LEN 0) = 0 then (m, w)
      else let
        msg = IccpSyncdMsg MCLAG_MSG_TYPE_SET_FDB (mclag_fdb_info m mac_type oper);
        w = (if sys_sync_fd (w_sys w) > 0 then snd (iccp_send_to_mclagsyncd MCLAG_MSG_TYPE_SET_FDB msg w)
             else SYSTEM_SET_SYNCD_TX_DBG_COUNTER MCLAG_MSG_TYPE_SET_FDB 1 w)
      in (m\<lparr>mac_add_to_syncd := (if oper = MAC_SYNC_DEL then 0 else 1)\<rparr>, w))"

definition add_mac_to_chip :: "u8 \<Rightarrow> MACMsg \<Rightarrow> world \<Rightarrow> MACMsg \<times> world" where
  "add_mac_to_chip mac_type m w = iccp_send_fdb_entry_to_syncd m mac_type MAC_SYNC_ADD w"

definition del_mac_from_chip :: "MACMsg \<Rightarrow> world \<Rightarrow> MACMsg \<times> world" where
  "del_mac_from_chip m w = iccp_send_fdb_entry_to_syncd m (mac_fdb_type m) MAC_SYNC_DEL w"

text \<open>\<open>add_mac_to_chip (mac_msg, mac_msg->fdb_type)\<close>\<close>

definition readd_mac_to_chip :: "MACMsg \<Rightarrow> world \<Rightarrow> MACMsg \<times> world" where
  "readd_mac_to_chip m w = add_mac_to_chip (mac_fdb_type m) m w"

subsection \<open>Ageing\<close>

definition local_age_flag :: "bool \<Rightarrow> u8 \<Rightarrow> u8" where
  "local_age_flag aged age_flag = (if aged then age_flag OR MAC_AGE_LOCAL else age_flag AND NOT MAC_AGE_LOCAL)"

text \<open>\<open>mac_msg->age_flag = set_mac_local_age_flag (csm, mac_msg, set, update_peer)\<close>\<close>

definition set_mac_local_age_flag :: "csm_ptr \<Rightarrow> mac_ptr \<Rightarrow> bool \<Rightarrow> bool \<Rightarrow> world \<Rightarrow> world option" where
  "set_mac_local_age_flag c p aged update_peer w = do {
     m \<leftarrow> w_mac w p;
     csm \<leftarrow> w_csm w c;
     let old = mac_age_flag m;
     if (old AND MAC_AGE_LOCAL \<noteq> 0) = aged then Some w
     else do {
       w \<leftarrow> (if ml_current_state (MLACP csm) = MLACP_STATE_EXCHANGE \<and> update_peer
             then do {
               w \<leftarrow> mod_mac p (mac_op_type_update (\<lambda>_. if aged then MAC_SYNC_DEL else MAC_SYNC_ADD)) w;
               mac_enqueue c p w }
             else Some w);
       mod_mac p (mac_age_flag_update (\<lambda>_. local_age_flag aged old)) w } }"

text \<open>\<open>csm->peer_link_if && csm->peer_link_if->state == PORT_STATE_UP\<close>\<close>

definition peer_link_up :: "CSM \<Rightarrow> world \<Rightarrow> bool option" where
  "peer_link_up csm w = (case csm_peer_link_if csm of
       None \<Rightarrow> Some False
     | Some l \<Rightarrow> do { lif \<leftarrow> w_lif w l; Some (lif_state lif = PORT_STATE_UP) })"

definition age_flags_both :: "MACMsg \<Rightarrow> bool" where
  "age_flags_both m \<longleftrightarrow> mac_age_flag m = (MAC_AGE_LOCAL OR MAC_AGE_PEER)"

definition remove_mac :: "csm_ptr \<Rightarrow> mac_ptr \<Rightarrow> world \<Rightarrow> world option" where
  "remove_mac c p w = do { w \<leftarrow> MAC_RB_REMOVE c p w; free_unless_queued p w }"

subsection \<open>Port state changes\<close>

definition redirect :: "CSM \<Rightarrow> MACMsg \<Rightarrow> MACMsg" where
  "redirect csm = mac_ifname_update (\<lambda>_. csm_peer_itf_name csm)"

text \<open>Redirect to the peer link if it is up, else take the entry out of the chip.\<close>

definition redirect_or_del :: "csm_ptr \<Rightarrow> mac_ptr \<Rightarrow> world \<Rightarrow> world option" where
  "redirect_or_del c p w = do {
     csm \<leftarrow> w_csm w c;
     up \<leftarrow> peer_link_up csm w;
     if up then do { w \<leftarrow> mod_mac p (redirect csm) w; on_mac p readd_mac_to_chip w }
     else do { w \<leftarrow> on_mac p del_mac_from_chip w; mod_mac p (redirect csm) w } }"

definition l2_mac_intf_down :: "csm_ptr \<Rightarrow> bool \<Rightarrow> mac_ptr \<Rightarrow> world \<Rightarrow> world option" where
  "l2_mac_intf_down c pif_up p w = do {
     csm \<leftarrow> w_csm w c;
     m \<leftarrow> w_mac w p;
     if mac_age_flag m = MAC_AGE_PEER \<and> pif_up then do {
       w \<leftarrow> (if csm_peer_itf_name csm \<noteq> [] then redirect_or_del c p w
             else do { w \<leftarrow> on_mac p del_mac_from_chip w; mod_mac p (redirect csm) w });
       mod_mac p (mac_pending_local_del_update (\<lambda>_. 1)) w }
     else do {
       w \<leftarrow> set_mac_local_age_flag c p True True w;
       m \<leftarrow> w_mac w p;
       if age_flags_both m then do {
         w \<leftarrow> (if mac_fdb_type m \<noteq> MAC_TYPE_STATIC then on_mac p del_mac_from_chip w else Some w);
         remove_mac c p w }
       else if csm_peer_itf_name csm \<noteq> [] then redirect_or_del c p w
       else on_mac p del_mac_from_chip w } }"

definition clear_pending_mac :: "csm_ptr \<Rightarrow> mac_ptr \<Rightarrow> world \<Rightarrow> world option" where
  "clear_pending_mac c p w = do {
     w \<leftarrow> on_mac p del_mac_from_chip w;
     m \<leftarrow> w_mac w p;
     if mac_fdb_type m \<noteq> MAC_TYPE_STATIC then do {
       w \<leftarrow> MAC_RB_REMOVE c p w;
       w \<leftarrow> mod_mac p (mac_op_type_update (\<lambda>_. MAC_SYNC_DEL)) w;
       free_unless_queued p w }
     else mod_mac p (mac_pending_local_del_update (\<lambda>_. 0)) w }"

definition l2_mac_intf_up :: "csm_ptr \<Rightarrow> mac_ptr \<Rightarrow> world \<Rightarrow> world option" where
  "l2_mac_intf_up c p w = do {
     csm \<leftarrow> w_csm w c;
     m \<leftarrow> w_mac w p;
     if mac_ifname m = csm_peer_itf_name csm then do {
       w \<leftarrow> mod_mac p (mac_pending_local_del_update (\<lambda>_. 0)) w;
       w \<leftarrow> mod_mac p (\<lambda>m. m\<lparr>mac_ifname := mac_origin_ifname m\<rparr>) w;
       if mac_age_flag m = MAC_AGE_LOCAL then on_mac p readd_mac_to_chip w
       else on_mac p (add_mac_to_chip MAC_TYPE_DYNAMIC_LOCAL) w }
     else if mac_pending_local_del m \<noteq> 0 then clear_pending_mac c p w
     else Some w }"

definition update_l2_mac_state :: "csm_ptr \<Rightarrow> lif_ptr \<Rightarrow> int \<Rightarrow> world \<Rightarrow> world option" where
  "update_l2_mac_state c l po_state w = do {
     lif \<leftarrow> w_lif w l;
     pif \<leftarrow> peer_if_find_by_name (Some c) (lif_name lif) w;
     pif_up \<leftarrow> (case pif of None \<Rightarrow> Some False | Some q \<Rightarrow> do {
                  pi \<leftarrow> w_pif w q; Some (pif_state pi = PORT_STATE_UP) });
     let w = upd_lif l (lif_po_down_time_update (\<lambda>_. if po_state = 0 then w_now w else 0)) w;
     csm \<leftarrow> w_csm w c;
     foreach (\<lambda>p w. do {
       m \<leftarrow> w_mac w p;
       if lif_name lif \<noteq> mac_origin_ifname m then Some w
       else if po_state = 0 then l2_mac_intf_down c pif_up p w
       else l2_mac_intf_up c p w })
     (ml_mac_rb (MLACP csm)) w }"

definition update_orphan_port_mac :: "csm_ptr \<Rightarrow> lif_ptr \<Rightarrow> int \<Rightarrow> world \<Rightarrow> world option" where
  "update_orphan_port_mac c l state w = (if state = 0 then Some w else do {
     lif \<leftarrow> w_lif w l;
     csm \<leftarrow> w_csm w c;
     foreach (\<lambda>p w. do {
       m \<leftarrow> w_mac w p;
       if mac_origin_ifname m \<noteq> lif_name lif then Some w
       else if mac_age_flag m = MAC_AGE_PEER \<and> ml_current_state (MLACP csm) = MLACP_STATE_EXCHANGE then do {
         w \<leftarrow> mod_mac p (mac_op_type_update (\<lambda>_. MAC_SYNC_ADD)) w;
         mac_enqueue c p w }
       else Some w })
     (ml_mac_rb (MLACP csm)) w })"

definition mlacp_convert_remote_mac_to_local :: "csm_ptr \<Rightarrow> string \<Rightarrow> world \<Rightarrow> world option" where
  "mlacp_convert_remote_mac_to_local c po_name w = do {
     l \<leftarrow> local_if_find_by_name po_name w;
     case l of None \<Rightarrow> Some w | Some l \<Rightarrow> do {
       lif \<leftarrow> w_lif w l;
       if lif_state lif = PORT_STATE_DOWN then Some w
       else do {
         csm \<leftarrow> w_csm w c;
         foreach (\<lambda>p w. do {
           m \<leftarrow> w_mac w p;
           if mac_origin_ifname m \<noteq> po_name then Some w
           else if mac_age_flag m = MAC_AGE_LOCAL then do {
             w \<leftarrow> mod_mac p (mac_age_flag_update (\<lambda>_. MAC_AGE_PEER)) w;
             w \<leftarrow> on_mac p (add_mac_to_chip MAC_TYPE_DYNAMIC_LOCAL) w;
             w \<leftarrow> mod_mac p (mac_op_type_update (\<lambda>_. MAC_SYNC_ADD)) w;
             mac_enqueue c p w }
           else Some w })
         (ml_mac_rb (MLACP csm)) w } } }"

definition update_remote_macs_to_peerlink :: "csm_ptr \<Rightarrow> lif_ptr \<Rightarrow> world \<Rightarrow> world option" where
  "update_remote_macs_to_peerlink c l w = do {
     lif \<leftarrow> w_lif w l;
     csm \<leftarrow> w_csm w c;
     foreach (\<lambda>p w. do {
       m \<leftarrow> w_mac w p;
       if lif_name lif \<noteq> mac_origin_ifname m \<or> mac_age_flag m AND MAC_AGE_PEER \<noteq> 0 then Some w
       else if csm_peer_itf_name csm \<noteq> [] then do {
         up \<leftarrow> peer_link_up csm w;
         if up \<and> mac_ifname m \<noteq> csm_peer_itf_name csm
         then do { w \<leftarrow> mod_mac p (redirect csm) w; on_mac p readd_mac_to_chip w }
         else Some w }
       else Some w })
     (ml_mac_rb (MLACP csm)) w }"

definition mlacp_peerlink_up_handler :: "csm_ptr \<Rightarrow> world \<Rightarrow> world option" where
  "mlacp_peerlink_up_handler c w = do {
     csm \<leftarrow> w_csm w c;
     foreach (\<lambda>p w. do {
       m \<leftarrow> w_mac w p;
       if mac_ifname m \<noteq> csm_peer_itf_name csm then Some w else on_mac p readd_mac_to_chip w })
     (ml_mac_rb (MLACP csm)) w }"

definition peerlink_down_entry :: "csm_ptr \<Rightarrow> mac_ptr \<Rightarrow> world \<Rightarrow> world option" where
  "peerlink_down_entry c p w = do {
     csm \<leftarrow> w_csm w c;
     m \<leftarrow> w_mac w p;
     if mac_ifname m \<noteq> csm_peer_itf_name csm then Some w
     else do {
       w \<leftarrow> (if mac_pending_local_del m = 0 then set_mac_local_age_flag c p True True w else Some w);
       w \<leftarrow> on_mac p del_mac_from_chip w;
       m \<leftarrow> w_mac w p;
       if age_flags_both m then remove_mac c p w else Some w } }"

definition mlacp_peerlink_down_handler :: "csm_ptr \<Rightarrow> world \<Rightarrow> world option" where
  "mlacp_peerlink_down_handler c w = do {
     csm \<leftarrow> w_csm w c;
     w \<leftarrow> foreach (peerlink_down_entry c) (ml_mac_rb (MLACP csm)) w;
     Some (upd_cnt (cnt_peer_link_down_counter_update (\<lambda>n. n + 1)) w) }"

subsection \<open>Losing the session\<close>

definition disconn_fdb_entry :: "csm_ptr \<Rightarrow> mac_ptr \<Rightarrow> world \<Rightarrow> world option" where
  "disconn_fdb_entry c p w = do {
     csm \<leftarrow> w_csm w c;
     m \<leftarrow> w_mac w p;
     if mac_ifname m = csm_peer_itf_name csm then do {
       w \<leftarrow> mod_mac p (mac_age_flag_update (\<lambda>a. a OR MAC_AGE_PEER)) w;
       m \<leftarrow> w_mac w p;
       if age_flags_both m \<or> mac_pending_local_del m \<noteq> 0 then do {
         w \<leftarrow> on_mac p del_mac_from_chip w;
         remove_mac c p w }
       else Some w }
     else if mac_age_flag m = 0 then mod_mac p (mac_age_flag_update (\<lambda>_. MAC_AGE_PEER)) w
     else if mac_age_flag m = MAC_AGE_LOCAL then do {
       w \<leftarrow> on_mac p (add_mac_to_chip MAC_TYPE_DYNAMIC_LOCAL) w;
       mod_mac p (mac_age_flag_update (\<lambda>_. MAC_AGE_PEER)) w }
     else Some w }"

definition mlacp_peer_disconn_fdb_handler :: "csm_ptr \<Rightarrow> world \<Rightarrow> world option" where
  "mlacp_peer_disconn_fdb_handler c w = do {
     csm \<leftarrow> w_csm w c;
     foreach (disconn_fdb_entry c) (ml_mac_rb (MLACP csm)) w }"

text \<open>\<open>MLACP_MAC_MSG_QUEUE_REINIT\<close> frees the entries queued as deletions and keeps their list pointers set.\<close>

definition MLACP_MAC_MSG_QUEUE_REINIT :: "csm_ptr \<Rightarrow> world \<Rightarrow> world option" where
  "MLACP_MAC_MSG_QUEUE_REINIT c w = do {
     csm \<leftarrow> w_csm w c;
     w \<leftarrow> foreach (\<lambda>p w. do {
            m \<leftarrow> w_mac w p;
            if mac_op_type m = MAC_SYNC_DEL then free_mac p w else Some w })
          (ml_mac_msg_list (MLACP csm)) w;
     Some (upd_mlacp c (ml_mac_msg_list_update (\<lambda>_. [])) w) }"

definition mlacp_mac_msg_queue_reinit :: "csm_ptr \<Rightarrow> world \<Rightarrow> world option" where
  "mlacp_mac_msg_queue_reinit c w = do {
     w \<leftarrow> MLACP_MAC_MSG_QUEUE_REINIT c w;
     csm \<leftarrow> w_csm w c;
     foreach (\<lambda>p. mod_mac p (mac_in_msg_list_update (\<lambda>_. False))) (ml_mac_rb (MLACP csm)) w }"

subsection \<open>Synchronisation with the peer\<close>

definition mlacp_sync_mac :: "csm_ptr \<Rightarrow> world \<Rightarrow> world option" where
  "mlacp_sync_mac c w = do {
     csm \<leftarrow> w_csm w c;
     foreach (\<lambda>p w. do {
       m \<leftarrow> w_mac w p;
       if mac_age_flag m AND MAC_AGE_LOCAL = 0 then do {
         w \<leftarrow> mod_mac p (mac_op_type_update (\<lambda>_. MAC_SYNC_ADD)) w;
         mac_enqueue c p w }
       else Some w })
     (ml_mac_rb (MLACP csm)) w }"

definition mlacp_local_lif_clear_pending_mac :: "csm_ptr \<Rightarrow> lif_ptr \<Rightarrow> world \<Rightarrow> world option" where
  "mlacp_local_lif_clear_pending_mac c l w = do {
     lif \<leftarrow> w_lif w l;
     csm \<leftarrow> w_csm w c;
     foreach (\<lambda>p w. do {
       m \<leftarrow> w_mac w p;
       if mac_pending_local_del m \<noteq> 0 \<and> mac_origin_ifname m = lif_name lif then clear_pending_mac c p w
       else Some w })
     (ml_mac_rb (MLACP csm)) w }"

abbreviation (input) MLACP_LOCAL_IF_DOWN_TIMER :: int where "MLACP_LOCAL_IF_DOWN_TIMER \<equiv> 600"

definition mlacp_local_lif_state_mac_handler :: "csm_ptr \<Rightarrow> world \<Rightarrow> world option" where
  "mlacp_local_lif_state_mac_handler c w = do {
     csm \<leftarrow> w_csm w c;
     foreach (\<lambda>l w. do {
       lif \<leftarrow> w_lif w l;
       if lif_state lif = PORT_STATE_DOWN \<and> lif_type lif = IF_T_PORT_CHANNEL \<and> lif_po_down_time lif \<noteq> 0
          \<and> w_now w - lif_po_down_time lif > MLACP_LOCAL_IF_DOWN_TIMER then do {
         w \<leftarrow> mlacp_local_lif_clear_pending_mac c l w;
         Some (upd_lif l (lif_po_down_time_update (\<lambda>_. 0)) w) }
       else Some w })
     (ml_lif_list (MLACP csm)) w }"

end
