(* ===== verification/Mlacp_Mac_Learn.thy ===== *)
theory Mlacp_Mac_Learn
  imports Mlacp_Mac_Table
begin

text \<open>
  Learning: what a MAC update from the local forwarding table
  (\<open>do_mac_update_from_syncd\<close>, \<open>src/mlacp_link_handler.c\<close>) and one from the peer
  (\<open>mlacp_fsm_update_mac_entry_from_peer\<close>, \<open>src/mlacp_sync_update.c\<close>) do to the MAC table.
\<close>

subsection \<open>Updates from the local forwarding table\<close>

text \<open>
  The search for the port channel the address was learned on: domains in turn, ending
  at one whose peer link it is; the result is the interface if it is an MLAG port.
\<close>

primrec find_mclag_intf :: "string \<Rightarrow> csm_ptr list \<Rightarrow> world \<Rightarrow> lif_ptr option option" where
  "find_mclag_intf ifname [] w = Some None"
| "find_mclag_intf ifname (c # cs) w = do {
     csm \<leftarrow> w_csm w c;
     if ifname = csm_peer_itf_name csm then Some None
     else do {
       l \<leftarrow> find_ptr (w_lif w) (\<lambda>l. lif_type l = IF_T_PORT_CHANNEL \<and> lif_name l = ifname) (ml_lif_list (MLACP csm));
       case l of Some l \<Rightarrow> Some (Some l) | None \<Rightarrow> find_mclag_intf ifname cs w } }"

definition pif_state_is :: "pif_ptr option \<Rightarrow> u8 \<Rightarrow> world \<Rightarrow> bool option" where
  "pif_state_is q st w = (case q of None \<Rightarrow> Some False | Some q \<Rightarrow> do { pi \<leftarrow> w_pif w q; Some (pif_state pi = st) })"

text \<open>The entry is in the table: \<open>msg\<close> is the stack copy of the update, whose \<open>age_flag\<close> is still 0.\<close>

definition syncd_add_existing :: "csm_ptr \<Rightarrow> mac_ptr \<Rightarrow> MACMsg \<Rightarrow> bool \<Rightarrow> bool \<Rightarrow> bool \<Rightarrow> world \<Rightarrow> world option" where
  "syncd_add_existing c p msg lif_down from_mclag_intf pif_up w = do {
     csm \<leftarrow> w_csm w c;
     info \<leftarrow> w_mac w p;
     if lif_down \<and> from_mclag_intf \<and> pif_up then do {
       w \<leftarrow> mod_mac p (\<lambda>m. m\<lparr>mac_pending_local_del := 1, mac_fdb_type := mac_fdb_type msg,
              mac_origin_ifname := mac_ifname msg\<rparr>) w;
       w \<leftarrow> (if mac_ifname info = csm_peer_itf_name csm then Some w else mod_mac p (redirect csm) w);
       on_mac p (add_mac_to_chip (mac_fdb_type msg)) w }
     else if mac_fdb_type info \<noteq> mac_fdb_type msg \<or> mac_ifname info \<noteq> mac_ifname msg
             \<or> mac_origin_ifname info \<noteq> mac_ifname msg then do {
       w \<leftarrow> mod_mac p (\<lambda>m. m\<lparr>mac_fdb_type := mac_fdb_type msg, mac_ifname := mac_ifname msg,
              mac_origin_ifname := mac_ifname msg\<rparr>) w;
       w \<leftarrow> set_mac_local_age_flag c p False True w;
       if mac_age_flag msg AND MAC_AGE_PEER = 0 then do {
         w \<leftarrow> mod_mac p (mac_age_flag_update (\<lambda>_. MAC_AGE_PEER)) w;
         Some (snd (del_mac_from_chip msg w)) }
       else Some w }
     else do {
       w \<leftarrow> set_mac_local_age_flag c p False True w;
       if mac_age_flag msg AND MAC_AGE_PEER = 0 then Some (snd (del_mac_from_chip msg w)) else Some w } }"

text \<open>
  The entry is new. Once the copy is in the tree, what the code does for a port that is
  down changes the stack copy only.
\<close>

definition syncd_add_new :: "csm_ptr \<Rightarrow> MACMsg \<Rightarrow> bool \<Rightarrow> bool \<Rightarrow> bool \<Rightarrow> bool \<Rightarrow> world \<Rightarrow> world option" where
  "syncd_add_new c msg lif_down from_mclag_intf pif_up pif_down w = do {
     csm \<leftarrow> w_csm w c;
     if from_mclag_intf \<and> lif_down \<and> pif_down then Some (snd (del_mac_from_chip msg w))
     else do {
       let msg = msg\<lparr>mac_age_flag := mac_age_flag msg OR MAC_AGE_PEER, mac_op_type := MAC_SYNC_ADD\<rparr>;
       let (new, w) = iccp_csm_init_mac_msg msg w;
       case new of None \<Rightarrow> Some w | Some p \<Rightarrow> do {
         w \<leftarrow> mac_rb_insert c p w;
         if lif_down then
           Some (if from_mclag_intf \<and> pif_up
                 then snd (readd_mac_to_chip (redirect csm (msg\<lparr>mac_pending_local_del := 1\<rparr>)) w) else w)
         else if ml_current_state (MLACP csm) = MLACP_STATE_EXCHANGE then mac_enqueue c p w
         else Some w } } }"

definition syncd_del :: "csm_ptr \<Rightarrow> mac_ptr \<Rightarrow> lif_ptr option \<Rightarrow> world \<Rightarrow> world option" where
  "syncd_del c p lif_po w = do {
     csm \<leftarrow> w_csm w c;
     info \<leftarrow> w_mac w p;
     if mac_ifname info = csm_peer_itf_name csm \<and> mac_pending_local_del info \<noteq> 0 then Some w
     else do {
       w \<leftarrow> set_mac_local_age_flag c p True True w;
       aged \<leftarrow> w_mac w p;
       if age_flags_both aged then do {
         w \<leftarrow> (if mac_add_to_syncd aged \<noteq> 0 then on_mac p del_mac_from_chip w else Some w);
         remove_mac c p w }
       else if mac_ifname info = csm_peer_itf_name csm then
         (case csm_peer_link_if csm of None \<Rightarrow> Some w | Some l \<Rightarrow> do {
            lif \<leftarrow> w_lif w l;
            if lif_state lif \<noteq> PORT_STATE_DOWN then on_mac p readd_mac_to_chip w else Some w })
       else do {
         po_down \<leftarrow> (case lif_po of None \<Rightarrow> Some False | Some l \<Rightarrow> do {
                       lif \<leftarrow> w_lif w l; Some (lif_state lif = PORT_STATE_DOWN) });
         if po_down then
           if csm_peer_itf_name csm \<noteq> [] then do {
             w \<leftarrow> mod_mac p (redirect csm) w;
             up \<leftarrow> peer_link_up csm w;
             if up then on_mac p readd_mac_to_chip w else Some w }
           else Some w
         else do {
           l \<leftarrow> local_if_find_by_name (mac_ifname aged) w;
           case l of None \<Rightarrow> Some w | Some l \<Rightarrow> do {
             lif \<leftarrow> w_lif w l;
             if lif_state lif = PORT_STATE_UP then on_mac p readd_mac_to_chip w else Some w } } } } }"

definition do_mac_update_from_syncd :: "bytes \<Rightarrow> u16 \<Rightarrow> string \<Rightarrow> u8 \<Rightarrow> u8 \<Rightarrow> world \<Rightarrow> world option" where
  "do_mac_update_from_syncd addr vid ifname fdb_type op_type w =
     (if memcmp addr (replicate ETHER_ADDR_LEN 0) = 0 then Some w
      else do {
        lif_po \<leftarrow> find_mclag_intf ifname (sys_csm_list (w_sys w)) w;
        case system_get_first_csm w of None \<Rightarrow> Some w | Some c \<Rightarrow> do {
          csm \<leftarrow> w_csm w c;
          pif \<leftarrow> peer_if_find_by_name (Some c) ifname w;
          info \<leftarrow> mac_rb_find c vid addr w;
          if op_type = MAC_SYNC_ADD then do {
            l \<leftarrow> local_if_find_by_name ifname w;
            case l of None \<Rightarrow> Some w | Some l \<Rightarrow>
            if length ifname \<ge> MAX_L_PORT_NAME then None
            else if csm_peer_itf_name csm = ifname then Some w
            else do {
              lif \<leftarrow> w_lif w l;
              let msg = zero_MACMsg\<lparr>mac_op_type := op_type, mac_fdb_type := fdb_type, mac_addr := addr,
                    mac_vid := vid, mac_ifname := ifname, mac_origin_ifname := ifname\<rparr>;
              let lif_down = (lif_state lif = PORT_STATE_DOWN);
              pif_up \<leftarrow> pif_state_is pif PORT_STATE_UP w;
              pif_down \<leftarrow> pif_state_is pif PORT_STATE_DOWN w;
              case info of
                Some p \<Rightarrow> syncd_add_existing c p msg lif_down (lif_po \<noteq> None) pif_up w
              | None \<Rightarrow> syncd_add_new c msg lif_down (lif_po \<noteq> None) pif_up pif_down w } }
          else (case info of None \<Rightarrow> Some w | Some p \<Rightarrow> syncd_del c p lif_po w) } })"

subsection \<open>Updates from the peer\<close>

text \<open>
  The code redirects to the peer link and programs the chip whether the link is up or not.
\<close>

definition redirect_add :: "CSM \<Rightarrow> mac_ptr \<Rightarrow> world \<Rightarrow> world option" where
  "redirect_add csm p w = do { w \<leftarrow> mod_mac p (redirect csm) w; on_mac p readd_mac_to_chip w }"

text \<open>
  An entry that moves to an orphan port of the peer and cannot be redirected is removed;
  the log message after that reads it again.
\<close>

definition peer_add_moved :: "csm_ptr \<Rightarrow> mac_ptr \<Rightarrow> string \<Rightarrow> bool \<Rightarrow> bool \<Rightarrow> world \<Rightarrow> world option" where
  "peer_add_moved c p ifname from_mclag_intf lif_down w = do {
     csm \<leftarrow> w_csm w c;
     w \<leftarrow> mod_mac p (mac_origin_ifname_update (\<lambda>_. ifname)) w;
     if \<not> from_mclag_intf \<or> lif_down then do {
       w \<leftarrow> set_mac_local_age_flag c p True True w;
       m \<leftarrow> w_mac w p;
       if csm_peer_itf_name csm \<noteq> [] then
         if mac_ifname m = csm_peer_itf_name csm then Some w
         else do { _ \<leftarrow> peer_link_up csm w; redirect_add csm p w }
       else do {
         w \<leftarrow> on_mac p del_mac_from_chip w;
         w \<leftarrow> mod_mac p (mac_ifname_update (\<lambda>_. ifname)) w;
         if \<not> from_mclag_intf then do {
           w \<leftarrow> remove_mac c p w;
           _ \<leftarrow> w_mac w p;
           Some w }
         else Some w } }
     else do {
       w \<leftarrow> mod_mac p (mac_ifname_update (\<lambda>_. ifname)) w;
       on_mac p readd_mac_to_chip w } }"

definition peer_add_existing :: "csm_ptr \<Rightarrow> mac_ptr \<Rightarrow> string \<Rightarrow> bool \<Rightarrow> bool \<Rightarrow> world \<Rightarrow> world option" where
  "peer_add_existing c p ifname from_mclag_intf lif_down w = do {
     csm \<leftarrow> w_csm w c;
     w \<leftarrow> mod_mac p (mac_age_flag_update (\<lambda>a. a AND NOT MAC_AGE_PEER)) w;
     m \<leftarrow> w_mac w p;
     w \<leftarrow> (if from_mclag_intf \<and> mac_pending_local_del m \<noteq> 0 then do {
             w \<leftarrow> mod_mac p (\<lambda>m. m\<lparr>mac_pending_local_del := 0, mac_age_flag := MAC_AGE_LOCAL,
                    mac_op_type := MAC_SYNC_DEL\<rparr>) w;
             mac_enqueue c p w }
           else Some w);
     if mac_ifname m \<noteq> ifname \<or> mac_origin_ifname m \<noteq> ifname then
       if mac_fdb_type m \<noteq> MAC_TYPE_STATIC then peer_add_moved c p ifname from_mclag_intf lif_down w
       else mod_mac p (mac_age_flag_update (\<lambda>a. a OR MAC_AGE_PEER)) w
     else if \<not> from_mclag_intf \<and> csm_peer_itf_name csm \<noteq> [] \<and> mac_ifname m \<noteq> csm_peer_itf_name csm
     then do { _ \<leftarrow> peer_link_up csm w; redirect_add csm p w }
     else Some w }"

definition peer_del_existing :: "csm_ptr \<Rightarrow> mac_ptr \<Rightarrow> world \<Rightarrow> world option" where
  "peer_del_existing c p w = do {
     w \<leftarrow> mod_mac p (mac_age_flag_update (\<lambda>a. a OR MAC_AGE_PEER)) w;
     m \<leftarrow> w_mac w p;
     if age_flags_both m then do { w \<leftarrow> on_mac p del_mac_from_chip w; remove_mac c p w }
     else Some w }"

text \<open>A new entry is programmed through the stack copy, not through the entry in the tree.\<close>

definition peer_add_new :: "csm_ptr \<Rightarrow> mLACPMACData \<Rightarrow> lif_ptr option \<Rightarrow> world \<Rightarrow> world option" where
  "peer_add_new c d local_if w = do {
     csm \<leftarrow> w_csm w c;
     lif_down \<leftarrow> (case local_if of None \<Rightarrow> Some True | Some l \<Rightarrow> do {
                    lif \<leftarrow> w_lif w l; Some (lif_state lif = PORT_STATE_DOWN) });
     let m = zero_MACMsg\<lparr>mac_fdb_type := md_mac_type d, mac_vid := ntohs (md_vid d), mac_addr := md_mac_addr d,
           mac_ifname := md_ifname d, mac_origin_ifname := md_ifname d, mac_age_flag := local_age_flag True 0\<rparr>;
     if lif_down \<and> csm_peer_itf_name csm = [] \<and> local_if = None then Some w
     else do {
       let m = (if lif_down \<and> csm_peer_itf_name csm \<noteq> [] then redirect csm m else m);
       let (new, w) = iccp_csm_init_mac_msg m w;
       case new of None \<Rightarrow> Some w | Some p \<Rightarrow> do {
         w \<leftarrow> mac_rb_insert c p w;
         if mac_ifname m = csm_peer_itf_name csm then do {
           up \<leftarrow> peer_link_up csm w;
           Some (if up then snd (readd_mac_to_chip m w) else w) }
         else (case local_if of None \<Rightarrow> None | Some _ \<Rightarrow>
           Some (if \<not> lif_down then snd (readd_mac_to_chip m w) else w)) } } }"

definition mlacp_fsm_update_mac_entry_from_peer :: "csm_ptr \<Rightarrow> mLACPMACData \<Rightarrow> world \<Rightarrow> world option" where
  "mlacp_fsm_update_mac_entry_from_peer c d w =
     (if memcmp (md_mac_addr d) (replicate ETHER_ADDR_LEN 0) = 0 then Some w
      else do {
        csm \<leftarrow> w_csm w c;
        local_if \<leftarrow> find_ptr (w_lif w) (\<lambda>l. lif_type l = IF_T_PORT_CHANNEL \<and> lif_name l = md_ifname d)
                      (ml_lif_list (MLACP csm));
        mac \<leftarrow> mac_rb_find c (ntohs (md_vid d)) (md_mac_addr d) w;
        case mac of
          Some p \<Rightarrow>
            if md_type d = MAC_SYNC_ADD then do {
              lif_down \<leftarrow> (case local_if of None \<Rightarrow> Some False | Some l \<Rightarrow> do {
                             lif \<leftarrow> w_lif w l; Some (lif_state lif = PORT_STATE_DOWN) });
              peer_add_existing c p (md_ifname d) (local_if \<noteq> None) lif_down w }
            else if md_type d = MAC_SYNC_DEL then peer_del_existing c p w
            else Some w
        | None \<Rightarrow> if md_type d = MAC_SYNC_ADD then peer_add_new c d local_if w else Some w })"

primrec update_mac_entries :: "csm_ptr \<Rightarrow> bytes \<Rightarrow> nat \<Rightarrow> nat \<Rightarrow> world \<Rightarrow> world option" where
  "update_mac_entries c msg p 0 w = Some w"
| "update_mac_entries c msg p (Suc n) w = do {
     d \<leftarrow> ld_mLACPMACData p msg;
     w \<leftarrow> mlacp_fsm_update_mac_entry_from_peer c d w;
     update_mac_entries c msg (p + sizeof_mLACPMACData) n w }"

text \<open>\<open>msg\<close> is the whole message; the TLV starts after its ICC header.\<close>

definition mlacp_fsm_update_mac_info_from_peer :: "csm_ptr \<Rightarrow> bytes \<Rightarrow> world \<Rightarrow> world option" where
  "mlacp_fsm_update_mac_info_from_peer c msg w = do {
     n \<leftarrow> ld16 20 msg;
     update_mac_entries c msg 22 (unat (ntohs n)) w }"

end
