(* ===== verification/Mlacp_Sync_Send.thy ===== *)
theory Mlacp_Sync_Send
  imports Mlacp_Mac_Learn
begin

text \<open>
  The sending half of \<open>src/mlacp_fsm.c\<close>: one function per kind of information, and the
  handlers that run all of them in reply to a synchronisation request. Messages are
  built in the global buffer \<open>g_csm_buf\<close> and numbered by \<open>ICCP_MSG_ID\<close>.
\<close>

subsection \<open>The global buffer\<close>

text \<open>\<open>memset (g_csm_buf, 0, CSM_BUFFER_SIZE)\<close>\<close>

definition clear_buf :: "world \<Rightarrow> world" where
  "clear_buf w = w\<lparr>g_csm_buf := zero_buf\<rparr>"

definition in_buf :: "(out \<Rightarrow> int \<times> out) \<Rightarrow> world \<Rightarrow> int \<times> world" where
  "in_buf f w = (let (n, b, i) = f (g_csm_buf w, ICCP_MSG_ID w) in (n, w\<lparr>g_csm_buf := b, ICCP_MSG_ID := i\<rparr>))"

text \<open>Clear the buffer, build a message, send it whatever the builder returned.\<close>

definition send_built :: "csm_ptr \<Rightarrow> (out \<Rightarrow> int \<times> out) \<Rightarrow> world \<Rightarrow> (int \<times> world) option" where
  "send_built c f w = (let (n, w) = in_buf f (clear_buf w) in iccp_csm_send c n w)"

subsection \<open>Configuration and state\<close>

definition mlacp_sync_send_sysConf :: "csm_ptr \<Rightarrow> world \<Rightarrow> world option" where
  "mlacp_sync_send_sysConf c w = do {
     csm \<leftarrow> w_csm w c;
     let (n, w) = in_buf (mlacp_prepare_for_sys_config csm CSM_BUFFER_SIZE) (clear_buf w);
     if n > 0 then map_option snd (iccp_csm_send c n w) else Some w }"

text \<open>The loops over the port channels of the domain.\<close>

definition send_port_channels ::
    "csm_ptr \<Rightarrow> (CSM \<Rightarrow> nat \<Rightarrow> LocalInterface \<Rightarrow> out \<Rightarrow> int \<times> out) \<Rightarrow> (LocalInterface \<Rightarrow> LocalInterface) \<Rightarrow> world \<Rightarrow> world option" where
  "send_port_channels c prepare sent w = do {
     csm \<leftarrow> w_csm w c;
     foreach (\<lambda>l w. do {
         csm \<leftarrow> w_csm w c;
         lif \<leftarrow> w_lif w l;
         if lif_type lif = IF_T_PORT_CHANNEL then do {
           (_, w) \<leftarrow> send_built c (prepare csm CSM_BUFFER_SIZE lif) w;
           Some (upd_lif l sent w) }
         else Some w })
       (ml_lif_list (MLACP csm)) w }"

definition mlacp_sync_send_aggConf :: "csm_ptr \<Rightarrow> world \<Rightarrow> world option" where
  "mlacp_sync_send_aggConf c = send_port_channels c
     (\<lambda>csm mx lif. mlacp_prepare_for_Aggport_config csm mx lif 0) (lif_port_config_sync_update (\<lambda>_. 0))"

definition mlacp_sync_send_aggState :: "csm_ptr \<Rightarrow> world \<Rightarrow> world option" where
  "mlacp_sync_send_aggState c = send_port_channels c mlacp_prepare_for_Aggport_state (lif_changed_update (\<lambda>_. 0))"

definition mlacp_sync_send_syncPortChannelInfo :: "csm_ptr \<Rightarrow> world \<Rightarrow> world option" where
  "mlacp_sync_send_syncPortChannelInfo c = send_port_channels c mlacp_prepare_for_port_channel_info (lif_changed_update (\<lambda>_. 0))"

definition mlacp_sync_send_syncPeerLinkInfo :: "csm_ptr \<Rightarrow> world \<Rightarrow> world option" where
  "mlacp_sync_send_syncPeerLinkInfo c w = do {
     csm \<leftarrow> w_csm w c;
     case csm_peer_link_if csm of None \<Rightarrow> Some w | Some l \<Rightarrow> do {
       lif \<leftarrow> w_lif w l;
       map_option snd (send_built c (mlacp_prepare_for_port_peerlink_info csm CSM_BUFFER_SIZE lif) w) } }"

definition mlacp_sync_send_heartbeat :: "csm_ptr \<Rightarrow> world \<Rightarrow> world option" where
  "mlacp_sync_send_heartbeat c w = do {
     csm \<leftarrow> w_csm w c;
     if csm_heartbeat_send_time csm = 0 \<or> w_now w - csm_heartbeat_send_time csm > csm_keepalive_time csm then do {
       (_, w) \<leftarrow> send_built c (mlacp_prepare_for_heartbeat csm CSM_BUFFER_SIZE) w;
       Some (upd_csm c (csm_heartbeat_send_time_update (\<lambda>_. w_now w)) w) }
     else Some w }"

definition mlacp_sync_send_syncDoneData :: "csm_ptr \<Rightarrow> world \<Rightarrow> world option" where
  "mlacp_sync_send_syncDoneData c w = do {
     let w = upd_mlacp c (ml_wait_for_sync_data_update (\<lambda>_. 0)) w;
     csm \<leftarrow> w_csm w c;
     map_option snd (send_built c (mlacp_prepare_for_sync_data_tlv csm CSM_BUFFER_SIZE 1) w) }"

text \<open>\<open>mlacp_prepare_for_sync_request_tlv\<close> also resets the request number of the domain.\<close>

definition send_sync_request :: "csm_ptr \<Rightarrow> world \<Rightarrow> world option" where
  "send_sync_request c w = do {
     let w = clear_buf w;
     csm \<leftarrow> w_csm w c;
     let (n, csm', b, i) = mlacp_prepare_for_sync_request_tlv csm CSM_BUFFER_SIZE (g_csm_buf w, ICCP_MSG_ID w);
     map_option snd (iccp_csm_send c n ((upd_csm c (\<lambda>_. csm') w)\<lparr>g_csm_buf := b, ICCP_MSG_ID := i\<rparr>)) }"

definition mlacp_fsm_send_if_up_ack :: "csm_ptr \<Rightarrow> u8 \<Rightarrow> u16 \<Rightarrow> u8 \<Rightarrow> world \<Rightarrow> world option" where
  "mlacp_fsm_send_if_up_ack c if_type if_id port_isolation_enable w = do {
     csm \<leftarrow> w_csm w c;
     if ml_current_state (MLACP csm) \<noteq> MLACP_STATE_EXCHANGE then Some w
     else do {
       let (n, w) = in_buf (mlacp_prepare_for_if_up_ack csm CSM_BUFFER_SIZE if_type if_id port_isolation_enable) (clear_buf w);
       if n > 0 then map_option snd (iccp_csm_send c n w) else Some w } }"

subsection \<open>Batches of MAC, ARP and ND entries\<close>

abbreviation (input) MAX_MAC_ENTRY_NUM :: nat where "MAX_MAC_ENTRY_NUM \<equiv> 30"
abbreviation (input) MAX_NEIGH_ENTRY_NUM :: nat where "MAX_NEIGH_ENTRY_NUM \<equiv> 40"

text \<open>Append an entry to the message under construction, of \<open>count\<close> entries so far.\<close>

definition append_info :: "csm_ptr \<Rightarrow> (CSM \<Rightarrow> nat \<Rightarrow> 'm \<Rightarrow> nat \<Rightarrow> out \<Rightarrow> int \<times> out) \<Rightarrow> 'm \<Rightarrow> nat \<Rightarrow> world \<Rightarrow> (int \<times> world) option" where
  "append_info c prepare m count w = do {
     csm \<leftarrow> w_csm w c;
     Some (in_buf (prepare csm CSM_BUFFER_SIZE m count) w) }"

text \<open>Send the message and start a new one once it holds \<open>mx\<close> entries.\<close>

definition flush_full :: "csm_ptr \<Rightarrow> nat \<Rightarrow> nat \<Rightarrow> int \<Rightarrow> world \<Rightarrow> (nat \<times> world) option" where
  "flush_full c mx count msg_len w =
     (if count \<ge> mx then do { (_, w) \<leftarrow> iccp_csm_send c msg_len w; Some (0, clear_buf w) } else Some (count, w))"

definition flush_rest :: "csm_ptr \<Rightarrow> nat \<Rightarrow> int \<Rightarrow> world \<Rightarrow> world option" where
  "flush_rest c count msg_len w = (if count > 0 then map_option snd (iccp_csm_send c msg_len w) else Some w)"

text \<open>
  An entry marked for deletion is freed once it is in a message, unless it is (again) in
  the tree. The code looks it up only when its parent pointer is NULL; an entry with a
  parent is in the tree and would be found.
\<close>

definition free_sent_mac :: "csm_ptr \<Rightarrow> mac_ptr \<Rightarrow> world \<Rightarrow> world option" where
  "free_sent_mac c p w = do {
     m \<leftarrow> w_mac w p;
     if mac_op_type m = MAC_SYNC_DEL then do {
       r \<leftarrow> mac_rb_find c (mac_vid m) (mac_addr m) w;
       if r = None then free_mac p w else Some w }
     else Some w }"

text \<open>\<open>MAC_TAILQ_REMOVE\<close> of the first entry\<close>

definition mac_dequeue :: "csm_ptr \<Rightarrow> mac_ptr \<Rightarrow> world \<Rightarrow> world option" where
  "mac_dequeue c p w = do {
     _ \<leftarrow> w_mac w p;
     Some (upd_mac p (mac_in_msg_list_update (\<lambda>_. False)) (upd_mlacp c (ml_mac_msg_list_update tl) w)) }"

primrec send_mac_loop :: "csm_ptr \<Rightarrow> mac_ptr list \<Rightarrow> nat \<Rightarrow> int \<Rightarrow> world \<Rightarrow> world option" where
  "send_mac_loop c [] count msg_len w = flush_rest c count msg_len w"
| "send_mac_loop c (p # ps) count msg_len w = do {
     w \<leftarrow> mac_dequeue c p w;
     m \<leftarrow> w_mac w p;
     (msg_len, w) \<leftarrow> append_info c mlacp_prepare_for_mac_info_to_peer m count w;
     w \<leftarrow> free_sent_mac c p w;
     (count, w) \<leftarrow> flush_full c MAX_MAC_ENTRY_NUM (count + 1) msg_len w;
     send_mac_loop c ps count msg_len w }"

definition mlacp_sync_send_syncMacInfo :: "csm_ptr \<Rightarrow> world \<Rightarrow> world option" where
  "mlacp_sync_send_syncMacInfo c w = do {
     csm \<leftarrow> w_csm w c;
     send_mac_loop c (ml_mac_msg_list (MLACP csm)) 0 0 (clear_buf w) }"

text \<open>The two neighbour queues hold copies, freed once sent.\<close>

primrec send_neigh_loop :: "csm_ptr \<Rightarrow> (CSM \<Rightarrow> nat \<Rightarrow> 'm \<Rightarrow> nat \<Rightarrow> out \<Rightarrow> int \<times> out) \<Rightarrow> (mLACP \<Rightarrow> mLACP) \<Rightarrow>
    'm list \<Rightarrow> nat \<Rightarrow> int \<Rightarrow> world \<Rightarrow> world option" where
  "send_neigh_loop c prepare pop [] count msg_len w = flush_rest c count msg_len w"
| "send_neigh_loop c prepare pop (m # ms) count msg_len w = do {
     let w = upd_mlacp c pop w;
     (msg_len, w) \<leftarrow> append_info c prepare m count w;
     (count, w) \<leftarrow> flush_full c MAX_NEIGH_ENTRY_NUM (count + 1) msg_len w;
     send_neigh_loop c prepare pop ms count msg_len w }"

definition mlacp_sync_send_syncArpInfo :: "csm_ptr \<Rightarrow> world \<Rightarrow> world option" where
  "mlacp_sync_send_syncArpInfo c w = do {
     csm \<leftarrow> w_csm w c;
     send_neigh_loop c mlacp_prepare_for_arp_info (ml_arp_msg_list_update tl) (ml_arp_msg_list (MLACP csm)) 0 0 (clear_buf w) }"

definition mlacp_sync_send_syncNdiscInfo :: "csm_ptr \<Rightarrow> world \<Rightarrow> world option" where
  "mlacp_sync_send_syncNdiscInfo c w = do {
     csm \<leftarrow> w_csm w c;
     send_neigh_loop c mlacp_prepare_for_ndisc_info (ml_ndisc_msg_list_update tl) (ml_ndisc_msg_list (MLACP csm)) 0 0 (clear_buf w) }"

subsection \<open>Everything, in reply to a request\<close>

definition mlacp_sync_sender_handler :: "csm_ptr \<Rightarrow> world \<Rightarrow> world option" where
  "mlacp_sync_sender_handler c w = do {
     csm \<leftarrow> w_csm w c;
     case ml_sync_state (MLACP csm) of
       MLACP_SYNC_SYSCONF \<Rightarrow> mlacp_sync_send_sysConf c w
     | MLACP_SYNC_AGGCONF \<Rightarrow> mlacp_sync_send_aggConf c w
     | MLACP_SYNC_AGGSTATE \<Rightarrow> mlacp_sync_send_aggState c w
     | MLACP_SYNC_AGGINFO \<Rightarrow> mlacp_sync_send_syncPortChannelInfo c w
     | MLACP_SYNC_PEERLINKINFO \<Rightarrow> mlacp_sync_send_syncPeerLinkInfo c w
     | MLACP_SYNC_ARP_INFO \<Rightarrow> mlacp_sync_send_syncArpInfo c w
     | MLACP_SYNC_NDISC_INFO \<Rightarrow> mlacp_sync_send_syncNdiscInfo c w
     | MLACP_SYNC_DONE \<Rightarrow> mlacp_sync_send_syncDoneData c w }"

text \<open>\<open>sync_state++\<close> and \<open>current_state++\<close>; the last state is never incremented in the code.\<close>

fun next_sync :: "MLACP_SYNC_STATE \<Rightarrow> MLACP_SYNC_STATE" where
  "next_sync MLACP_SYNC_SYSCONF = MLACP_SYNC_AGGCONF"
| "next_sync MLACP_SYNC_AGGCONF = MLACP_SYNC_AGGSTATE"
| "next_sync MLACP_SYNC_AGGSTATE = MLACP_SYNC_AGGINFO"
| "next_sync MLACP_SYNC_AGGINFO = MLACP_SYNC_PEERLINKINFO"
| "next_sync MLACP_SYNC_PEERLINKINFO = MLACP_SYNC_ARP_INFO"
| "next_sync MLACP_SYNC_ARP_INFO = MLACP_SYNC_NDISC_INFO"
| "next_sync MLACP_SYNC_NDISC_INFO = MLACP_SYNC_DONE"
| "next_sync MLACP_SYNC_DONE = MLACP_SYNC_DONE"

fun next_stage :: "MLACP_APP_STATE \<Rightarrow> MLACP_APP_STATE" where
  "next_stage MLACP_STATE_INIT = MLACP_STATE_STAGE1"
| "next_stage MLACP_STATE_STAGE1 = MLACP_STATE_STAGE2"
| "next_stage MLACP_STATE_STAGE2 = MLACP_STATE_EXCHANGE"
| "next_stage MLACP_STATE_EXCHANGE = MLACP_STATE_ERROR"
| "next_stage MLACP_STATE_ERROR = MLACP_STATE_ERROR"

text \<open>The \<open>while (1)\<close> loop; \<^const>\<open>None\<close> also stands for running out of \<open>fuel\<close>, and 8 is enough.\<close>

primrec send_all_loop :: "nat \<Rightarrow> csm_ptr \<Rightarrow> world \<Rightarrow> world option" where
  "send_all_loop 0 c w = None"
| "send_all_loop (Suc fuel) c w = do {
     w \<leftarrow> mlacp_sync_sender_handler c w;
     csm \<leftarrow> w_csm w c;
     if ml_sync_state (MLACP csm) \<noteq> MLACP_SYNC_DONE
     then send_all_loop fuel c (upd_mlacp c (ml_sync_state_update next_sync) w)
     else Some (upd_mlacp c (\<lambda>m. m\<lparr>ml_wait_for_sync_data := 0, ml_current_state := next_stage (ml_current_state m)\<rparr>) w) }"

definition mlacp_sync_send_all_info_handler :: "csm_ptr \<Rightarrow> world \<Rightarrow> world option" where
  "mlacp_sync_send_all_info_handler c w = do {
     csm \<leftarrow> w_csm w c;
     (_, w) \<leftarrow> send_built c (mlacp_prepare_for_sync_data_tlv csm CSM_BUFFER_SIZE 0) w;
     send_all_loop 8 c (upd_mlacp c (ml_sync_state_update (\<lambda>_. MLACP_SYNC_SYSCONF)) w) }"

end
