(* ===== verification/Mac_Invariant.thy ===== *)
theory Mac_Invariant
  imports Mlacp_Mac_Learn
begin

text \<open>
  The invariant of the MAC table and its preservation. \<open>mac_inv\<close> says that the nodes of the
  tree are allocated and in the order of the comparison function, that the queue holds
  allocated entries once each, and that the list pointers of an entry tell whether it
  is queued. The handlers are run from a state that satisfies it; each is shown to be
  free of undefined behaviour, to keep it, and to change nothing outside the table.
\<close>

abbreviation mac_rb :: "csm_ptr \<Rightarrow> world \<Rightarrow> mac_ptr list" where
  "mac_rb c w \<equiv> ml_mac_rb (MLACP (the (w_csm w c)))"

abbreviation mac_q :: "csm_ptr \<Rightarrow> world \<Rightarrow> mac_ptr list" where
  "mac_q c w \<equiv> ml_mac_msg_list (MLACP (the (w_csm w c)))"

definition mac_inv :: "csm_ptr \<Rightarrow> world \<Rightarrow> bool" where
  "mac_inv c w \<longleftrightarrow> w_csm w c \<noteq> None
     \<and> set (mac_rb c w) \<subseteq> dom (w_mac w) \<and> mac_tree.tree (map (\<lambda>p. the (w_mac w p)) (mac_rb c w))
     \<and> set (mac_q c w) \<subseteq> dom (w_mac w) \<and> distinct (mac_q c w)
     \<and> (\<forall>p \<in> set (mac_rb c w) \<union> set (mac_q c w). mac_in_msg_list (the (w_mac w p)) \<longleftrightarrow> p \<in> set (mac_q c w))
     \<and> (\<forall>p \<in> dom (w_mac w). p < w_fresh w)"

text \<open>The interfaces the handlers follow pointers to are allocated.\<close>

definition env_ok :: "csm_ptr \<Rightarrow> world \<Rightarrow> bool" where
  "env_ok c w \<longleftrightarrow> w_csm w c \<noteq> None
     \<and> (\<forall>l. csm_peer_link_if (the (w_csm w c)) = Some l \<longrightarrow> w_lif w l \<noteq> None)
     \<and> set (ml_lif_list (MLACP (the (w_csm w c)))) \<subseteq> dom (w_lif w)
     \<and> set (ml_pif_list (MLACP (the (w_csm w c)))) \<subseteq> dom (w_pif w)
     \<and> set (sys_lif_list (w_sys w)) \<subseteq> dom (w_lif w)"

text \<open>Only the table of \<open>c\<close>, debug counters, allocation and output may differ.\<close>

definition mac_only :: "csm_ptr \<Rightarrow> world \<Rightarrow> world \<Rightarrow> bool" where
  "mac_only c w w' \<longleftrightarrow> w_lif w' = w_lif w \<and> w_pif w' = w_pif w \<and> w_now w' = w_now w
     \<and> (\<exists>cnt. w_sys w' = (w_sys w)\<lparr>sys_dbg_counters := cnt\<rparr>)
     \<and> (\<exists>rb q. w_csm w' = (w_csm w)(c := map_option (upd_MLACP (\<lambda>m. m\<lparr>ml_mac_rb := rb, ml_mac_msg_list := q\<rparr>)) (w_csm w c)))"

lemma upd_MLACP_same [simp]: "upd_MLACP (\<lambda>m. m\<lparr>ml_mac_rb := ml_mac_rb (MLACP x), ml_mac_msg_list := ml_mac_msg_list (MLACP x)\<rparr>) x = x"
  by (cases x, cases "csm_app_csm x", cases "MLACP x") simp

lemma mac_onlyI:
  assumes "w_lif w' = w_lif w" "w_pif w' = w_pif w" "w_now w' = w_now w"
    "w_sys w' = (w_sys w)\<lparr>sys_dbg_counters := cnt\<rparr>"
    "w_csm w' = (w_csm w)(c := map_option (upd_MLACP (\<lambda>m. m\<lparr>ml_mac_rb := rb, ml_mac_msg_list := q\<rparr>)) (w_csm w c))"
  shows "mac_only c w w'"
  using assms unfolding mac_only_def by blast

lemma csm_same: "(w_csm w)(c := map_option (upd_MLACP (\<lambda>m. m\<lparr>ml_mac_rb := mac_rb c w, ml_mac_msg_list := mac_q c w\<rparr>)) (w_csm w c)) = w_csm w"
  by (rule ext) (auto simp: map_option_case split: option.splits)

lemma mac_only_trans: "mac_only c w w' \<Longrightarrow> mac_only c w' w'' \<Longrightarrow> mac_only c w w''"
proof -
  assume "mac_only c w w'" "mac_only c w' w''"
  then obtain c1 rb1 q1 c2 rb2 q2 where 1: "w_lif w' = w_lif w" "w_pif w' = w_pif w" "w_now w' = w_now w"
      "w_lif w'' = w_lif w'" "w_pif w'' = w_pif w'" "w_now w'' = w_now w'"
    and s: "w_sys w' = (w_sys w)\<lparr>sys_dbg_counters := c1\<rparr>" "w_sys w'' = (w_sys w')\<lparr>sys_dbg_counters := c2\<rparr>"
    and h: "w_csm w' = (w_csm w)(c := map_option (upd_MLACP (\<lambda>m. m\<lparr>ml_mac_rb := rb1, ml_mac_msg_list := q1\<rparr>)) (w_csm w c))"
      "w_csm w'' = (w_csm w')(c := map_option (upd_MLACP (\<lambda>m. m\<lparr>ml_mac_rb := rb2, ml_mac_msg_list := q2\<rparr>)) (w_csm w' c))"
    unfolding mac_only_def by metis
  show ?thesis
    by (rule mac_onlyI [where cnt = c2 and rb = rb2 and q = q2]) (simp_all add: 1 s h option.map_comp comp_def)
qed

lemma mac_only_io: "io_step w w' \<Longrightarrow> mac_only c w w'"
  unfolding io_step_def
  by (elim exE) (rule mac_onlyI [where rb = "mac_rb c w" and q = "mac_q c w"], simp_all add: csm_same)

lemma mac_only_refl [simp]: "mac_only c w w"
  by (simp add: mac_only_io)

lemma mac_only_csm:
  assumes "mac_only c w w'" "w_csm w c = Some csm"
  obtains csm' where "w_csm w' c = Some csm'" "csm_peer_itf_name csm' = csm_peer_itf_name csm"
    "csm_peer_link_if csm' = csm_peer_link_if csm" "ml_current_state (MLACP csm') = ml_current_state (MLACP csm)"
    "ml_lif_list (MLACP csm') = ml_lif_list (MLACP csm)" "ml_pif_list (MLACP csm') = ml_pif_list (MLACP csm)"
  using assms by (auto simp: mac_only_def)

lemma mac_only_env: "mac_only c w w' \<Longrightarrow> env_ok c w \<Longrightarrow> env_ok c w'"
  by (auto simp: mac_only_def env_ok_def)

subsection \<open>Primitive steps\<close>

text \<open>
  \<open>entry_step c p w w'\<close>: from \<open>w\<close> to \<open>w'\<close> the invariant was kept and at most the entry \<open>p\<close> was changed,
  queued, or taken out of the tree.
\<close>

definition entry_step :: "csm_ptr \<Rightarrow> mac_ptr \<Rightarrow> world \<Rightarrow> world \<Rightarrow> bool" where
  "entry_step c p w w' \<longleftrightarrow> mac_only c w w' \<and> mac_inv c w' \<and> (\<forall>q. q \<noteq> p \<longrightarrow> w_mac w' q = w_mac w q)
     \<and> (mac_rb c w' = mac_rb c w \<or> mac_rb c w' = filter (\<lambda>q. q \<noteq> p) (mac_rb c w))
     \<and> (mac_q c w' = mac_q c w \<or> mac_q c w' = mac_q c w @ [p]) \<and> w_fresh w' = w_fresh w"

text \<open>The same with \<open>p\<close> still allocated, and still in the tree.\<close>

definition entry_live :: "csm_ptr \<Rightarrow> mac_ptr \<Rightarrow> world \<Rightarrow> world \<Rightarrow> bool" where
  "entry_live c p w w' \<longleftrightarrow> entry_step c p w w' \<and> w_mac w' p \<noteq> None"

definition entry_kept :: "csm_ptr \<Rightarrow> mac_ptr \<Rightarrow> world \<Rightarrow> world \<Rightarrow> bool" where
  "entry_kept c p w w' \<longleftrightarrow> entry_live c p w w' \<and> mac_rb c w' = mac_rb c w"


lemma entry_stepD:
  assumes "entry_step c p w w'"
  shows "mac_only c w w'" "mac_inv c w'" "q \<noteq> p \<Longrightarrow> w_mac w' q = w_mac w q"
  using assms by (auto simp: entry_step_def)

lemma entry_kept_refl: "mac_inv c w \<Longrightarrow> p \<in> set (mac_rb c w) \<Longrightarrow> entry_kept c p w w"
  by (auto simp: entry_kept_def entry_live_def entry_step_def mac_inv_def)

lemma mac_tree_map_cong:
  assumes "\<And>p. p \<in> set ps \<Longrightarrow> mac_vid (f p) = mac_vid (g p) \<and> mac_addr (f p) = mac_addr (g p)"
  shows "mac_tree.tree (map f ps) = mac_tree.tree (map g ps)"
proof -
  have "MACMsg_compare (f x) (f y) = MACMsg_compare (g x) (g y)" if "x \<in> set ps" "y \<in> set ps" for x y
    using assms that by (simp add: MACMsg_compare_def)
  moreover have "mac_key_ok (f x) = mac_key_ok (g x)" if "x \<in> set ps" for x
    using assms that by (simp add: mac_key_ok_def)
  ultimately show ?thesis
    unfolding mac_tree.tree_def by (induction ps) auto
qed

text \<open>What an update of an entry must leave alone.\<close>

definition keeps_key :: "MACMsg \<Rightarrow> MACMsg \<Rightarrow> bool" where
  "keeps_key m m' \<longleftrightarrow> mac_vid m' = mac_vid m \<and> mac_addr m' = mac_addr m \<and> mac_in_msg_list m' = mac_in_msg_list m"

lemma inv_update:
  assumes "mac_inv c w" "\<And>q m. w_mac w q = Some m \<Longrightarrow> \<exists>m'. w_mac w' q = Some m' \<and> keeps_key m m'"
    "dom (w_mac w') = dom (w_mac w)" "w_csm w' c = w_csm w c" "w_fresh w' = w_fresh w"
  shows "mac_inv c w'"
proof -
  have k: "keeps_key (the (w_mac w q)) (the (w_mac w' q))" if "q \<in> set (mac_rb c w) \<union> set (mac_q c w)" for q
  proof -
    have "q \<in> dom (w_mac w)" using that assms(1) unfolding mac_inv_def by blast
    then show ?thesis using assms(2) by fastforce
  qed
  have "mac_tree.tree (map (\<lambda>q. the (w_mac w' q)) (mac_rb c w)) = mac_tree.tree (map (\<lambda>q. the (w_mac w q)) (mac_rb c w))"
    by (rule mac_tree_map_cong) (use k in \<open>simp add: keeps_key_def\<close>)
  moreover have "mac_in_msg_list (the (w_mac w' q)) = mac_in_msg_list (the (w_mac w q))"
    if "q \<in> set (mac_rb c w) \<union> set (mac_q c w)" for q
    using k [OF that] by (simp add: keeps_key_def)
  ultimately show ?thesis using assms(1,3-5) by (simp add: mac_inv_def)
qed


lemma inv_update1:
  assumes "mac_inv c w" "w_mac w p = Some m" "keeps_key m m'" "w_mac w' = (w_mac w)(p \<mapsto> m')"
    "w_csm w' c = w_csm w c" "w_fresh w' = w_fresh w"
  shows "mac_inv c w'"
proof (rule inv_update [OF assms(1)])
  show "\<exists>m'. w_mac w' q = Some m' \<and> keeps_key n m'" if "w_mac w q = Some n" for q n
    using that assms(2-4) by (auto simp: keeps_key_def)
qed (use assms in auto)

lemma live_update:
  assumes "entry_live c p w0 w" "w_mac w p = Some m" "keeps_key m m'" "w_mac w' = (w_mac w)(p \<mapsto> m')"
    "w_csm w' = w_csm w" "w_fresh w' = w_fresh w" "mac_only c w w'"
  shows "entry_live c p w0 w'"
proof -
  have st: "entry_step c p w0 w" using assms(1) by (simp add: entry_live_def)
  have "mac_inv c w'"
    by (rule inv_update1 [OF entry_stepD(2) [OF st] assms(2-4)]) (simp_all add: assms(5,6))
  moreover have "mac_only c w0 w'" using mac_only_trans entry_stepD(1) [OF st] assms(7) .
  moreover have "w_mac w' q = w_mac w0 q" if "q \<noteq> p" for q using that st by (simp add: assms(4) entry_step_def)
  ultimately show ?thesis
    using st unfolding entry_live_def entry_step_def assms(5,6) by (simp add: assms(4))
qed

lemma kept_update:
  assumes "entry_kept c p w0 w" "w_mac w p = Some m" "keeps_key m m'" "w_mac w' = (w_mac w)(p \<mapsto> m')"
    "w_csm w' = w_csm w" "w_fresh w' = w_fresh w" "mac_only c w w'"
  shows "entry_kept c p w0 w'"
  using assms(1) live_update [OF _ assms(2-7)] unfolding entry_kept_def assms(5) by blast

lemma kept_mod_mac:
  assumes "entry_kept c p w0 w" "\<And>m. keeps_key m (f m)"
  shows "safe (entry_kept c p w0) (mod_mac p f w)"
proof -
  obtain m where m: "w_mac w p = Some m" using assms(1) by (auto simp: entry_kept_def entry_live_def)
  have "entry_kept c p w0 (upd_mac p f w)"
    using m by (intro kept_update [OF assms(1) m assms(2)] mac_onlyI [where rb = "mac_rb c w" and q = "mac_q c w" and cnt = "sys_dbg_counters (w_sys w)"])
      (simp_all add: csm_same)
  then show ?thesis by (simp add: mod_mac_def m)
qed

lemma kept_on_mac:
  assumes "entry_kept c p w0 w" "\<And>m w. keeps_key m (fst (f m w)) \<and> io_step w (snd (f m w))"
  shows "safe (entry_kept c p w0) (on_mac p f w)"
proof -
  obtain m where m: "w_mac w p = Some m" using assms(1) by (auto simp: entry_kept_def entry_live_def)
  define w1 where "w1 = snd (f m w)"
  have io: "io_step w w1" using assms(2) by (simp add: w1_def)
  have "mac_only c w1 (upd_mac p (\<lambda>_. fst (f m w)) w1)"
    by (rule mac_onlyI [where rb = "mac_rb c w1" and q = "mac_q c w1" and cnt = "sys_dbg_counters (w_sys w1)"])
      (simp_all add: csm_same)
  then have "mac_only c w (upd_mac p (\<lambda>_. fst (f m w)) w1)"
    using mac_only_trans mac_only_io [OF io] by blast
  then have "entry_kept c p w0 (upd_mac p (\<lambda>_. fst (f m w)) w1)"
    using assms(2) m io_frame [OF io] by (intro kept_update [OF assms(1) m]) auto
  then show ?thesis by (simp add: on_mac_def m w1_def case_prod_beta)
qed


lemma kept_inv: "entry_kept c p w0 w \<Longrightarrow> mac_inv c w"
  by (simp add: entry_kept_def entry_live_def entry_step_def)

lemma kept_alloc: "entry_kept c p w0 w \<Longrightarrow> \<exists>m. w_mac w p = Some m"
  by (auto simp: entry_kept_def entry_live_def)

lemma kept_csm: "entry_kept c p w0 w \<Longrightarrow> \<exists>csm. w_csm w c = Some csm"
  using kept_inv by (auto simp: mac_inv_def)

lemma inv_flag:
  assumes "mac_inv c w" "p \<in> set (mac_rb c w) \<union> set (mac_q c w)" "w_mac w p = Some m"
  shows "mac_in_msg_list m \<longleftrightarrow> p \<in> set (mac_q c w)"
proof -
  have "mac_in_msg_list (the (w_mac w p)) \<longleftrightarrow> p \<in> set (mac_q c w)" using assms(1,2) unfolding mac_inv_def by blast
  then show ?thesis by (simp add: assms(3))
qed

lemma inv_enqueue:
  assumes inv: "mac_inv c w" and p: "p \<in> set (mac_rb c w)" "w_mac w p = Some m" "\<not> mac_in_msg_list m"
    and w': "w' = upd_mac p (mac_in_msg_list_update (\<lambda>_. True)) (upd_mlacp c (ml_mac_msg_list_update (\<lambda>q. q @ [p])) w)"
  shows "mac_inv c w'"
proof -
  obtain csm where csm: "w_csm w c = Some csm" using inv by (auto simp: mac_inv_def)
  have rb: "mac_rb c w' = mac_rb c w" and q: "mac_q c w' = mac_q c w @ [p]" by (simp_all add: w' csm)
  have mac: "w_mac w' = (w_mac w)(p \<mapsto> m\<lparr>mac_in_msg_list := True\<rparr>)" by (simp add: w' p(2))
  have new: "p \<notin> set (mac_q c w)" using inv_flag [OF inv _ p(2)] p(1,3) by blast
  have "mac_tree.tree (map (\<lambda>q. the (w_mac w' q)) (mac_rb c w)) = mac_tree.tree (map (\<lambda>q. the (w_mac w q)) (mac_rb c w))"
    by (rule mac_tree_map_cong) (simp add: mac p(2))
  moreover have "mac_in_msg_list (the (w_mac w' x)) \<longleftrightarrow> x \<in> set (mac_q c w @ [p])"
    if "x \<in> set (mac_rb c w) \<union> set (mac_q c w @ [p])" for x
    using that inv unfolding mac_inv_def by (cases "x = p") (auto simp: mac)
  moreover have "w_csm w' c \<noteq> None" "w_fresh w' = w_fresh w" by (simp_all add: w' csm)
  moreover have "dom (w_mac w') = dom (w_mac w)" using p(2) by (auto simp: mac)
  moreover have "p \<in> dom (w_mac w)" using p(2) by blast
  ultimately show ?thesis using inv new unfolding mac_inv_def rb q by simp
qed

lemma only_mlacp:
  assumes "\<And>m. f m = m\<lparr>ml_mac_rb := ml_mac_rb (f m), ml_mac_msg_list := ml_mac_msg_list (f m)\<rparr>"
  shows "mac_only c w (upd_mlacp c f w)"
proof (cases "w_csm w c")
  case None
  then have "w_csm (upd_mlacp c f w) = w_csm w" by (simp add: fun_upd_idem)
  then show ?thesis
    by (intro mac_onlyI [where rb = "mac_rb c w" and q = "mac_q c w" and cnt = "sys_dbg_counters (w_sys w)"])
      (simp_all add: csm_same)
next
  case (Some csm)
  have "upd_MLACP f csm = upd_MLACP (\<lambda>m. m\<lparr>ml_mac_rb := ml_mac_rb (f (MLACP csm)), ml_mac_msg_list := ml_mac_msg_list (f (MLACP csm))\<rparr>) csm"
    using assms [of "MLACP csm"] by (intro CSM.equality AppCSM.equality) simp_all
  then show ?thesis
    by (intro mac_onlyI [where rb = "ml_mac_rb (f (MLACP csm))" and q = "ml_mac_msg_list (f (MLACP csm))" and cnt = "sys_dbg_counters (w_sys w)"])
      (simp_all add: Some)
qed

lemma only_upd_mac: "mac_only c w (upd_mac p f w)"
  by (rule mac_onlyI [where rb = "mac_rb c w" and q = "mac_q c w" and cnt = "sys_dbg_counters (w_sys w)"])
    (simp_all add: csm_same)

lemma kept_enqueue:
  assumes k: "entry_kept c p w0 w" and p: "p \<in> set (mac_rb c w0)"
  shows "safe (entry_kept c p w0) (mac_enqueue c p w)"
proof -
  obtain m where m: "w_mac w p = Some m" using kept_alloc [OF k] by blast
  show ?thesis
  proof (cases "mac_in_msg_list m")
    case False
    define w' where "w' = upd_mac p (mac_in_msg_list_update (\<lambda>_. True)) (upd_mlacp c (ml_mac_msg_list_update (\<lambda>q. q @ [p])) w)"
    obtain csm where csm: "w_csm w c = Some csm" using kept_csm [OF k] by blast
    have prb: "p \<in> set (mac_rb c w)" using k p by (simp add: entry_kept_def)
    have inv: "mac_inv c w'" by (rule inv_enqueue [OF kept_inv [OF k] prb m False w'_def])
    have "mac_only c w (upd_mlacp c (ml_mac_msg_list_update (\<lambda>q. q @ [p])) w)"
      by (rule only_mlacp) simp
    then have only: "mac_only c w0 w'"
      unfolding w'_def using k only_upd_mac mac_only_trans
      unfolding entry_kept_def entry_live_def entry_step_def by blast
    have "p \<notin> set (mac_q c w)" using inv_flag [OF kept_inv [OF k] _ m] prb False by blast
    then have q: "mac_q c w = mac_q c w0" using k unfolding entry_kept_def entry_live_def entry_step_def by auto
    have "entry_kept c p w0 w'"
      using k inv only q m csm unfolding entry_kept_def entry_live_def entry_step_def by (simp add: w'_def)
    with m False show ?thesis by (simp add: mac_enqueue_def w'_def)
  qed (use m k in \<open>simp add: mac_enqueue_def\<close>)
qed


text \<open>The entry is out of the tree and not yet freed.\<close>

definition entry_out :: "csm_ptr \<Rightarrow> mac_ptr \<Rightarrow> world \<Rightarrow> world \<Rightarrow> bool" where
  "entry_out c p w w' \<longleftrightarrow> entry_live c p w w' \<and> mac_rb c w' = filter (\<lambda>q. q \<noteq> p) (mac_rb c w)"

lemma inv_remove:
  assumes inv: "mac_inv c w" and w': "w' = upd_mlacp c (ml_mac_rb_update (filter (\<lambda>q. q \<noteq> p))) w"
  shows "mac_inv c w'"
proof -
  obtain csm where csm: "w_csm w c = Some csm" using inv by (auto simp: mac_inv_def)
  have "mac_tree.tree (map (\<lambda>p. the (w_mac w p)) (filter (\<lambda>q. q \<noteq> p) (mac_rb c w)))"
    using inv unfolding mac_inv_def mac_tree.tree_def
    by (auto simp: sorted_wrt_map intro: sorted_wrt_filter)
  then show ?thesis using inv unfolding mac_inv_def by (auto simp: w' csm)
qed

lemma kept_remove:
  assumes k: "entry_kept c p w0 w" and p: "p \<in> set (mac_rb c w0)"
  shows "safe (entry_out c p w0) (MAC_RB_REMOVE c p w)"
proof -
  define w' where "w' = upd_mlacp c (ml_mac_rb_update (filter (\<lambda>q. q \<noteq> p))) w"
  obtain m csm where m: "w_mac w p = Some m" and csm: "w_csm w c = Some csm"
    using kept_alloc [OF k] kept_csm [OF k] by blast
  have prb: "p \<in> set (mac_rb c w)" using k p by (simp add: entry_kept_def)
  have inv: "mac_inv c w'" by (rule inv_remove [OF kept_inv [OF k] w'_def])
  have "mac_only c w w'" unfolding w'_def by (rule only_mlacp) simp
  then have only: "mac_only c w0 w'"
    using k mac_only_trans unfolding entry_kept_def entry_live_def entry_step_def by blast
  have "entry_out c p w0 w'"
    using k inv only m csm unfolding entry_out_def entry_kept_def entry_live_def entry_step_def by (simp add: w'_def)
  then show ?thesis using m csm prb by (simp add: MAC_RB_REMOVE_def w'_def)
qed

lemma out_mod_mac:
  assumes k: "entry_out c p w0 w" and f: "\<And>m. keeps_key m (f m)"
  shows "safe (entry_out c p w0) (mod_mac p f w)"
proof -
  obtain m where m: "w_mac w p = Some m" using k by (auto simp: entry_out_def entry_live_def)
  have "entry_live c p w0 (upd_mac p f w)"
    by (rule live_update [OF _ m f]) (use k m in \<open>simp_all add: entry_out_def only_upd_mac\<close>)
  then show ?thesis using k by (simp add: entry_out_def mod_mac_def m)
qed

lemma out_free:
  assumes k: "entry_out c p w0 w"
  shows "safe (entry_step c p w0) (free_unless_queued p w)"
proof -
  obtain m where m: "w_mac w p = Some m" using k by (auto simp: entry_out_def entry_live_def)
  have st: "entry_step c p w0 w" using k by (simp add: entry_out_def entry_live_def)
  have inv: "mac_inv c w" by (rule entry_stepD(2) [OF st])
  have prb: "p \<notin> set (mac_rb c w)" using k by (simp add: entry_out_def)
  show ?thesis
  proof (cases "mac_in_msg_list m")
    case False
    define w' where "w' = w\<lparr>w_mac := (w_mac w)(p := None)\<rparr>"
    have pq: "p \<notin> set (mac_q c w)" using inv_flag [OF inv _ m] False by blast
    have fr: "w_csm w' = w_csm w" "w_fresh w' = w_fresh w" by (simp_all add: w'_def)
    have "map (\<lambda>q. the (w_mac w' q)) (mac_rb c w) = map (\<lambda>q. the (w_mac w q)) (mac_rb c w)"
      using prb by (auto simp: w'_def)
    then have "mac_tree.tree (map (\<lambda>q. the (w_mac w' q)) (mac_rb c w))" using inv by (simp only: mac_inv_def)
    moreover have "set (mac_rb c w) \<subseteq> dom (w_mac w')" "set (mac_q c w) \<subseteq> dom (w_mac w')"
      "\<forall>p \<in> dom (w_mac w'). p < w_fresh w"
      using inv prb pq unfolding mac_inv_def by (auto simp: w'_def)
    moreover have "\<forall>x \<in> set (mac_rb c w) \<union> set (mac_q c w). mac_in_msg_list (the (w_mac w' x)) \<longleftrightarrow> x \<in> set (mac_q c w)"
      using inv prb pq unfolding mac_inv_def by (auto simp: w'_def)
    ultimately have "mac_inv c w'" using inv unfolding mac_inv_def fr by blast
    moreover have "mac_only c w w'"
      by (rule mac_onlyI [where rb = "mac_rb c w" and q = "mac_q c w" and cnt = "sys_dbg_counters (w_sys w)"])
        (simp_all add: w'_def csm_same)
    ultimately have "entry_step c p w0 w'"
      using st mac_only_trans [of c w0 w w'] unfolding entry_step_def by (simp add: w'_def)
    with False m show ?thesis by (simp add: free_unless_queued_def free_mac_def w'_def)
  qed (use m st in \<open>simp add: free_unless_queued_def\<close>)
qed

lemma kept_remove_mac:
  assumes "entry_kept c p w0 w" "p \<in> set (mac_rb c w0)"
  shows "safe (entry_step c p w0) (remove_mac c p w)"
  using kept_remove [OF assms] by (auto simp: remove_mac_def intro: safe_mono out_free)

subsection \<open>Rules for the handlers\<close>

lemma keeps_key_simps [simp]:
  "keeps_key m (m\<lparr>mac_op_type := x\<rparr>)" "keeps_key m (m\<lparr>mac_age_flag := y\<rparr>)" "keeps_key m (m\<lparr>mac_ifname := n\<rparr>)"
  "keeps_key m (m\<lparr>mac_pending_local_del := z\<rparr>)" "keeps_key m (m\<lparr>mac_origin_ifname := n\<rparr>)"
  "keeps_key m (redirect csm m)" "keeps_key m (mac_age_flag_update f m)"
  by (simp_all add: keeps_key_def redirect_def)

lemma send_fdb_entry:
  "keeps_key m (fst (iccp_send_fdb_entry_to_syncd m t oper w)) \<and> io_step w (snd (iccp_send_fdb_entry_to_syncd m t oper w))"
  by (auto simp: iccp_send_fdb_entry_to_syncd_def Let_def keeps_key_def)

lemma chip_ops [simp]:
  "keeps_key m (fst (del_mac_from_chip m w)) \<and> io_step w (snd (del_mac_from_chip m w))"
  "keeps_key m (fst (add_mac_to_chip t m w)) \<and> io_step w (snd (add_mac_to_chip t m w))"
  "keeps_key m (fst (readd_mac_to_chip m w)) \<and> io_step w (snd (readd_mac_to_chip m w))"
  using send_fdb_entry by (simp_all add: del_mac_from_chip_def add_mac_to_chip_def readd_mac_to_chip_def)

lemma kept_step: "entry_kept c p w0 w \<Longrightarrow> entry_step c p w0 w"
  by (simp add: entry_kept_def entry_live_def)

lemma kept_io:
  assumes "entry_kept c p w0 w" "io_step w w'"
  shows "entry_kept c p w0 w'"
proof -
  obtain m where m: "w_mac w p = Some m" using kept_alloc [OF assms(1)] by blast
  have f: "w_mac w' = w_mac w" "w_csm w' = w_csm w" "w_fresh w' = w_fresh w"
    using io_frame [OF assms(2)] by auto
  have "(w_mac w)(p := Some m) = w_mac w" using m by (simp add: fun_upd_idem)
  then show ?thesis
    by (intro kept_update [OF assms(1) m, of m]) (simp_all add: f keeps_key_def mac_only_io [OF assms(2)])
qed


text \<open>
  One rule per primitive, for an entry \<open>p\<close> that is in the tree of the state \<open>w0\<close> the handler
  started from.
\<close>

lemma vc_mod_mac:
  "entry_kept c p w0 w \<Longrightarrow> (\<And>m. keeps_key m (f m)) \<Longrightarrow> (\<And>w'. entry_kept c p w0 w' \<Longrightarrow> Q w') \<Longrightarrow> safe Q (mod_mac p f w)"
  by (blast intro: safe_mono kept_mod_mac)

lemma vc_on_mac:
  "entry_kept c p w0 w \<Longrightarrow> (\<And>m w. keeps_key m (fst (f m w)) \<and> io_step w (snd (f m w))) \<Longrightarrow>
   (\<And>w'. entry_kept c p w0 w' \<Longrightarrow> Q w') \<Longrightarrow> safe Q (on_mac p f w)"
  by (blast intro: safe_mono kept_on_mac)

lemma vc_enqueue:
  "entry_kept c p w0 w \<Longrightarrow> p \<in> set (mac_rb c w0) \<Longrightarrow> (\<And>w'. entry_kept c p w0 w' \<Longrightarrow> Q w') \<Longrightarrow> safe Q (mac_enqueue c p w)"
  by (blast intro: safe_mono kept_enqueue)

lemma vc_remove:
  "entry_kept c p w0 w \<Longrightarrow> p \<in> set (mac_rb c w0) \<Longrightarrow> (\<And>w'. entry_step c p w0 w' \<Longrightarrow> Q w') \<Longrightarrow> safe Q (remove_mac c p w)"
  by (blast intro: safe_mono kept_remove_mac)

lemma vc_rb_remove:
  "entry_kept c p w0 w \<Longrightarrow> p \<in> set (mac_rb c w0) \<Longrightarrow> (\<And>w'. entry_out c p w0 w' \<Longrightarrow> Q w') \<Longrightarrow> safe Q (MAC_RB_REMOVE c p w)"
  by (blast intro: safe_mono kept_remove)

lemma vc_out_mod:
  "entry_out c p w0 w \<Longrightarrow> (\<And>m. keeps_key m (f m)) \<Longrightarrow> (\<And>w'. entry_out c p w0 w' \<Longrightarrow> Q w') \<Longrightarrow> safe Q (mod_mac p f w)"
  by (blast intro: safe_mono out_mod_mac)

lemma vc_out_free:
  "entry_out c p w0 w \<Longrightarrow> (\<And>w'. entry_step c p w0 w' \<Longrightarrow> Q w') \<Longrightarrow> safe Q (free_unless_queued p w)"
  by (blast intro: safe_mono out_free)

lemma vc_mac: "entry_kept c p w0 w \<Longrightarrow> (\<And>m. w_mac w p = Some m \<Longrightarrow> Q m) \<Longrightarrow> safe Q (w_mac w p)"
  using kept_alloc by (fastforce simp: safe_def)

lemma vc_csm: "entry_kept c p w0 w \<Longrightarrow> (\<And>csm. w_csm w c = Some csm \<Longrightarrow> Q csm) \<Longrightarrow> safe Q (w_csm w c)"
  using kept_csm by (fastforce simp: safe_def)

lemma vc_peer_link_up:
  assumes "entry_kept c p w0 w" "env_ok c w0" "entry_kept c p w0 wx" "w_csm wx c = Some csm" "\<And>b. Q b"
  shows "safe Q (peer_link_up csm w)"
proof -
  have o: "mac_only c w0 w" "mac_only c w0 wx" using assms(1,3) entry_stepD(1) [OF kept_step] by blast+
  have "env_ok c wx" by (rule mac_only_env [OF o(2) assms(2)])
  moreover have "w_lif wx = w_lif w" using o by (simp add: mac_only_def)
  ultimately show ?thesis using assms(4,5)
    by (auto simp: peer_link_up_def env_ok_def split: option.splits)
qed

lemma safe_ifI: "(b \<Longrightarrow> safe Q x) \<Longrightarrow> (\<not> b \<Longrightarrow> safe Q y) \<Longrightarrow> safe Q (if b then x else y)"
  by simp

lemma safe_bindI: "safe (\<lambda>y. safe Q (f y)) m \<Longrightarrow> safe Q (Option.bind m f)"
  by simp

lemma safe_SomeI: "Q y \<Longrightarrow> safe Q (Some y)"
  by simp

lemma safe_letI: "safe Q (f x) \<Longrightarrow> safe Q (let y = x in f y)"
  by simp

lemmas safe_rules = safe_ifI safe_bindI safe_SomeI safe_letI
lemmas vc_rules = vc_mod_mac vc_on_mac vc_enqueue vc_remove vc_mac vc_csm vc_peer_link_up

lemma vc_age_flag:
  assumes "entry_kept c p w0 w" "p \<in> set (mac_rb c w0)" "\<And>w'. entry_kept c p w0 w' \<Longrightarrow> Q w'"
  shows "safe Q (set_mac_local_age_flag c p aged upd w)"
  unfolding set_mac_local_age_flag_def
  by (rule assms safe_rules vc_rules | assumption | (simp; fail))+

lemma vc_redirect_or_del:
  assumes "entry_kept c p w0 w" "env_ok c w0" "p \<in> set (mac_rb c w0)" "\<And>w'. entry_kept c p w0 w' \<Longrightarrow> Q w'"
  shows "safe Q (redirect_or_del c p w)"
  unfolding redirect_or_del_def
  by (rule assms safe_rules vc_rules | assumption | (simp; fail))+


lemma tree_distinct: "mac_tree.tree t \<Longrightarrow> distinct t"
  by (induction t) (auto simp: mac_tree.tree_Cons mac_tree.cmp_refl)

lemma inv_distinct: "mac_inv c w \<Longrightarrow> distinct (mac_rb c w)"
  unfolding mac_inv_def using tree_distinct distinct_map by blast

lemma inv_csm: "mac_inv c w \<Longrightarrow> (\<And>csm. w_csm w c = Some csm \<Longrightarrow> Q csm) \<Longrightarrow> safe Q (w_csm w c)"
  by (auto simp: mac_inv_def)

text \<open>A loop over the tree whose body does a step on the entry it visits.\<close>

lemma entry_loop:
  assumes inv: "mac_inv c w" and ps: "ps = mac_rb c w"
    and step: "\<And>p w1. mac_only c w w1 \<Longrightarrow> mac_inv c w1 \<Longrightarrow> p \<in> set (mac_rb c w1) \<Longrightarrow> safe (entry_step c p w1) (f p w1)"
  shows "safe (\<lambda>w'. mac_only c w w' \<and> mac_inv c w') (foreach f ps w)"
proof -
  define I where "I xs w1 \<longleftrightarrow> mac_only c w w1 \<and> mac_inv c w1 \<and> set xs \<subseteq> set (mac_rb c w1) \<and> distinct xs" for xs w1
  have "safe (I []) (foreach f ps w)"
  proof (rule safe_foreach)
    fix p ps w1 assume I: "I (p # ps) w1"
    have "safe (entry_step c p w1) (f p w1)" using I by (intro step) (auto simp: I_def)
    then show "safe (I ps) (f p w1)"
    proof (rule safe_mono)
      fix w2 assume st: "entry_step c p w1 w2"
      then have "mac_only c w w2" using I entry_stepD(1) mac_only_trans unfolding I_def by blast
      moreover have "set ps \<subseteq> set (mac_rb c w2)" using st I unfolding entry_step_def I_def by auto
      ultimately show "I ps w2" using st I unfolding entry_step_def I_def by simp
    qed
  qed (use inv inv_distinct [OF inv] in \<open>simp add: I_def ps\<close>)
  then show ?thesis by (rule safe_mono) (simp add: I_def)
qed

lemma step_l2_mac_intf_down:
  assumes "mac_inv c w" "env_ok c w" "p \<in> set (mac_rb c w)"
  shows "safe (entry_step c p w) (l2_mac_intf_down c up p w)"
proof -
  have k: "entry_kept c p w w" by (rule entry_kept_refl [OF assms(1,3)])
  show ?thesis
    unfolding l2_mac_intf_down_def
    by (rule k assms safe_rules vc_rules vc_age_flag vc_redirect_or_del | assumption | (simp; fail) | rule kept_step)+
qed

lemma vc_clear_pending_mac:
  assumes "entry_kept c p w0 w" "p \<in> set (mac_rb c w0)" "\<And>w'. entry_step c p w0 w' \<Longrightarrow> Q w'"
  shows "safe Q (clear_pending_mac c p w)"
  unfolding clear_pending_mac_def
  by (rule assms safe_ifI safe_bindI vc_on_mac vc_mac vc_rb_remove vc_out_free | assumption
      | rule vc_mod_mac, assumption | rule vc_out_mod, assumption | (simp; fail) | rule kept_step)+

lemma step_l2_mac_intf_up:
  assumes "mac_inv c w" "p \<in> set (mac_rb c w)"
  shows "safe (entry_step c p w) (l2_mac_intf_up c p w)"
proof -
  have k: "entry_kept c p w w" by (rule entry_kept_refl [OF assms])
  have key: "keeps_key m (m\<lparr>mac_ifname := mac_origin_ifname m\<rparr>)" for m by simp
  show ?thesis
    unfolding l2_mac_intf_up_def
    by (rule k assms safe_rules vc_rules vc_clear_pending_mac | assumption | (simp; fail) | rule kept_step)+
qed


subsection \<open>The handlers keep the invariant\<close>

text \<open>What a handler of the MAC table may do: change the table and keep its invariant.\<close>

definition table_step :: "csm_ptr \<Rightarrow> world \<Rightarrow> world \<Rightarrow> bool" where
  "table_step c w w' \<longleftrightarrow> mac_only c w w' \<and> mac_inv c w'"

lemma entry_table_step: "entry_step c p w w' \<Longrightarrow> table_step c w w'"
  by (simp add: table_step_def entry_step_def)

lemma table_step_trans: "table_step c w w' \<Longrightarrow> table_step c w' w'' \<Longrightarrow> table_step c w w''"
  unfolding table_step_def using mac_only_trans by blast

lemma table_loop:
  assumes "mac_inv c w"
    and "\<And>p w1. mac_only c w w1 \<Longrightarrow> mac_inv c w1 \<Longrightarrow> p \<in> set (mac_rb c w1) \<Longrightarrow> entry_kept c p w1 w1 \<Longrightarrow> safe (entry_step c p w1) (f p w1)"
    and "w_csm w c = Some csm"
  shows "safe (table_step c w) (foreach f (ml_mac_rb (MLACP csm)) w)"
  unfolding table_step_def
  using assms by (intro entry_loop) (auto intro: entry_kept_refl)

lemma inv_upd_lif [simp]: "mac_inv c (upd_lif l f w) = mac_inv c w"
  by (simp add: mac_inv_def)

lemma env_upd_lif: "env_ok c w \<Longrightarrow> env_ok c (upd_lif l f w)"
  by (auto simp: env_ok_def)

lemma find_pif_total:
  assumes "env_ok c w"
  shows "\<exists>r. peer_if_find_by_name (Some c) n w = Some r \<and> (\<forall>q. r = Some q \<longrightarrow> w_pif w q \<noteq> None)"
proof -
  obtain csm where csm: "w_csm w c = Some csm" "set (ml_pif_list (MLACP csm)) \<subseteq> dom (w_pif w)"
    using assms by (auto simp: env_ok_def)
  obtain r where "find_ptr (w_pif w) (\<lambda>p. pif_name p = n) (ml_pif_list (MLACP csm)) = Some r"
    using find_ptr_total [OF csm(2)] by blast
  then show ?thesis using find_ptr_Some by (fastforce simp: peer_if_find_by_name_def csm(1))
qed

lemma find_lif_total:
  assumes "env_ok c w"
  shows "\<exists>r. local_if_find_by_name n w = Some r \<and> (\<forall>l. r = Some l \<longrightarrow> w_lif w l \<noteq> None)"
proof -
  have sub: "set (sys_lif_list (w_sys w)) \<subseteq> dom (w_lif w)" using assms by (simp add: env_ok_def)
  obtain r where "find_ptr (w_lif w) (\<lambda>l. lif_name l = n) (sys_lif_list (w_sys w)) = Some r"
    using find_ptr_total [OF sub] by blast
  then show ?thesis using find_ptr_Some by (fastforce simp: local_if_find_by_name_def)
qed

lemma safe_lif: "w_lif w l \<noteq> None \<Longrightarrow> (\<And>x. w_lif w l = Some x \<Longrightarrow> Q x) \<Longrightarrow> safe Q (w_lif w l)"
  by auto

lemma safe_find_pif:
  assumes "env_ok c w" "\<And>r. (\<forall>q. r = Some q \<longrightarrow> w_pif w q \<noteq> None) \<Longrightarrow> Q r"
  shows "safe Q (peer_if_find_by_name (Some c) n w)"
  using find_pif_total [OF assms(1), of n] assms(2) by auto

lemma safe_find_lif:
  assumes "env_ok c w" "\<And>r. (\<forall>l. r = Some l \<longrightarrow> w_lif w l \<noteq> None) \<Longrightarrow> Q r"
  shows "safe Q (local_if_find_by_name n w)"
  using find_lif_total [OF assms(1), of n] assms(2) by auto

lemma safe_pif_state:
  assumes "\<forall>q. r = Some q \<longrightarrow> w_pif w q \<noteq> None" "\<And>b. Q b"
  shows "safe Q (case r of None \<Rightarrow> Some False | Some q \<Rightarrow> w_pif w q \<bind> (\<lambda>pi. Some (pif_state pi = st)))"
  using assms by (cases r) auto

lemma table_refl: "mac_inv c w \<Longrightarrow> table_step c w w"
  by (simp add: table_step_def)

lemma update_l2_mac_state_ok:
  assumes inv: "mac_inv c w" and env: "env_ok c w" and l: "w_lif w l \<noteq> None"
  shows "safe (table_step c (upd_lif l (lif_po_down_time_update (\<lambda>_. if po_state = 0 then w_now w else 0)) w))
    (update_l2_mac_state c l po_state w)"
proof -
  have inv1: "mac_inv c (upd_lif l f w)" for f using inv by simp
  show ?thesis
    unfolding update_l2_mac_state_def
    by (rule safe_rules safe_lif [OF l] safe_find_pif [OF env] safe_pif_state inv_csm [OF inv1] table_loop [OF inv1]
        vc_mac step_l2_mac_intf_down step_l2_mac_intf_up mac_only_env env_upd_lif [OF env] | assumption | rule kept_step)+
qed

lemma update_orphan_port_mac_ok:
  assumes inv: "mac_inv c w" and l: "w_lif w l \<noteq> None"
  shows "safe (table_step c w) (update_orphan_port_mac c l st w)"
  unfolding update_orphan_port_mac_def
  by (rule safe_rules safe_lif [OF l] inv_csm [OF inv] table_loop [OF inv] table_refl [OF inv] vc_rules
      | assumption | (simp; fail) | rule kept_step)+

lemma mlacp_convert_remote_mac_to_local_ok:
  assumes inv: "mac_inv c w" and env: "env_ok c w"
  shows "safe (table_step c w) (mlacp_convert_remote_mac_to_local c n w)"
proof -
  have "safe (table_step c w) (case r of None \<Rightarrow> Some w | Some l \<Rightarrow> f l)"
    if "\<And>l. w_lif w l \<noteq> None \<Longrightarrow> safe (table_step c w) (f l)" "\<forall>l. r = Some l \<longrightarrow> w_lif w l \<noteq> None" for r f
    using that table_refl [OF inv] by (cases r) auto
  note opt = this
  show ?thesis
    unfolding mlacp_convert_remote_mac_to_local_def
    by (rule safe_rules safe_find_lif [OF env] opt safe_lif inv_csm [OF inv] table_loop [OF inv] table_refl [OF inv] vc_rules
        | assumption | (simp; fail) | rule kept_step)+
qed

lemma update_remote_macs_to_peerlink_ok:
  assumes inv: "mac_inv c w" and env: "env_ok c w" and l: "w_lif w l \<noteq> None"
  shows "safe (table_step c w) (update_remote_macs_to_peerlink c l w)"
proof -
  have up: "safe Q (peer_link_up csm w1)" if "w_csm w c = Some csm" "mac_only c w w1" "\<And>b. Q b" for Q csm w1
    using that env by (auto simp: peer_link_up_def env_ok_def mac_only_def split: option.splits)
  show ?thesis
    unfolding update_remote_macs_to_peerlink_def
    by (rule safe_rules safe_lif [OF l] inv_csm [OF inv] table_loop [OF inv] up vc_mac vc_mod_mac vc_on_mac
        | assumption | (simp; fail) | rule kept_step)+
qed

lemma mlacp_peerlink_up_handler_ok:
  assumes inv: "mac_inv c w"
  shows "safe (table_step c w) (mlacp_peerlink_up_handler c w)"
  unfolding mlacp_peerlink_up_handler_def
  by (rule safe_rules inv_csm [OF inv] table_loop [OF inv] vc_rules | assumption | (simp; fail) | rule kept_step)+

lemma step_peerlink_down:
  assumes "mac_inv c w" "p \<in> set (mac_rb c w)"
  shows "safe (entry_step c p w) (peerlink_down_entry c p w)"
proof -
  have k: "entry_kept c p w w" by (rule entry_kept_refl [OF assms])
  show ?thesis
    unfolding peerlink_down_entry_def
    by (rule k assms safe_rules vc_rules vc_age_flag | assumption | (simp; fail) | rule kept_step)+
qed

lemma table_io: "table_step c w w' \<Longrightarrow> io_step w' w'' \<Longrightarrow> table_step c w w''"
  unfolding table_step_def using mac_only_trans mac_only_io by (auto simp: mac_inv_def io_frame)

lemma mlacp_peerlink_down_handler_ok:
  assumes inv: "mac_inv c w"
  shows "safe (table_step c w) (mlacp_peerlink_down_handler c w)"
proof -
  have "safe (table_step c w) (w_csm w c \<bind> (\<lambda>csm. foreach (peerlink_down_entry c) (ml_mac_rb (MLACP csm)) w))"
    by (rule safe_rules inv_csm [OF inv] table_loop [OF inv] step_peerlink_down | assumption)+
  then show ?thesis
    unfolding mlacp_peerlink_down_handler_def
    by simp (erule safe_mono, erule safe_mono, erule table_io, rule io_cnt)
qed

lemma mlacp_peer_disconn_fdb_handler_ok:
  assumes inv: "mac_inv c w"
  shows "safe (table_step c w) (mlacp_peer_disconn_fdb_handler c w)"
proof -
  have "safe (entry_step c p w1) (disconn_fdb_entry c p w1)" if "entry_kept c p w1 w1" "p \<in> set (mac_rb c w1)" for p w1
    unfolding disconn_fdb_entry_def
    by (rule that safe_rules vc_rules | assumption | (simp; fail) | rule kept_step)+
  then show ?thesis
    unfolding mlacp_peer_disconn_fdb_handler_def
    by - (rule safe_rules inv_csm [OF inv] table_loop [OF inv] | assumption)+
qed

lemma mlacp_sync_mac_ok:
  assumes inv: "mac_inv c w"
  shows "safe (table_step c w) (mlacp_sync_mac c w)"
  unfolding mlacp_sync_mac_def
  by (rule safe_rules inv_csm [OF inv] table_loop [OF inv] vc_rules | assumption | (simp; fail) | rule kept_step)+

lemma mlacp_local_lif_clear_pending_mac_ok:
  assumes inv: "mac_inv c w" and l: "w_lif w l \<noteq> None"
  shows "safe (table_step c w) (mlacp_local_lif_clear_pending_mac c l w)"
  unfolding mlacp_local_lif_clear_pending_mac_def
  by (rule safe_rules safe_lif [OF l] inv_csm [OF inv] table_loop [OF inv] vc_mac vc_clear_pending_mac | assumption | rule kept_step)+


subsection \<open>Lookup and insertion\<close>

lemma those_dom: "set ps \<subseteq> dom h \<Longrightarrow> those (map h ps) = Some (map (\<lambda>p. the (h p)) ps)"
  by (induction ps) auto

lemma load_macs_inv:
  assumes "mac_inv c w" "w_csm w c = Some csm"
  shows "load_macs (ml_mac_rb (MLACP csm)) w = Some (map (\<lambda>p. (p, the (w_mac w p))) (ml_mac_rb (MLACP csm)))"
proof -
  have "set (ml_mac_rb (MLACP csm)) \<subseteq> dom (w_mac w)" using assms by (simp add: mac_inv_def)
  then show ?thesis by (simp add: load_macs_def those_dom zip_map2 zip_same_conv_map)
qed

definition same_key :: "u16 \<Rightarrow> bytes \<Rightarrow> MACMsg \<Rightarrow> bool" where
  "same_key vid addr m \<longleftrightarrow> mac_vid m = vid \<and> mac_addr m = addr"

lemma compare_key:
  assumes "mac_key_ok m" "length addr = 6"
  shows "MACMsg_compare (mac_key vid addr) m = 0 \<longleftrightarrow> same_key vid addr m"
  using assms by (subst MACMsg_compare_0) (auto simp: mac_key_def mac_key_ok_def same_key_def)

lemma inv_key_ok: "mac_inv c w \<Longrightarrow> p \<in> set (mac_rb c w) \<Longrightarrow> mac_key_ok (the (w_mac w p))"
  by (auto simp: mac_inv_def mac_tree.tree_def)

lemma mac_rb_find_ok:
  assumes inv: "mac_inv c w" and len: "length addr = 6"
  shows "mac_rb_find c vid addr w = Some (find (\<lambda>p. same_key vid addr (the (w_mac w p))) (mac_rb c w))"
proof -
  obtain csm where csm: "w_csm w c = Some csm" using inv by (auto simp: mac_inv_def)
  have "map_option fst (find (\<lambda>y. MACMsg_compare (mac_key vid addr) (snd y) = 0) (map (\<lambda>p. (p, the (w_mac w p))) ps)) =
      find (\<lambda>p. same_key vid addr (the (w_mac w p))) ps" if "set ps \<subseteq> set (mac_rb c w)" for ps
    using that inv_key_ok [OF inv] compare_key [OF _ len] by (induction ps) auto
  from this [of "mac_rb c w"] show ?thesis
    by (simp add: mac_rb_find_def csm load_macs_inv [OF inv csm] RB_FIND_def)
qed

lemma safe_find_mac:
  assumes "mac_inv c w" "length addr = 6"
    "\<And>p. p \<in> set (mac_rb c w) \<Longrightarrow> same_key vid addr (the (w_mac w p)) \<Longrightarrow> Q (Some p)"
    "(\<forall>p \<in> set (mac_rb c w). \<not> same_key vid addr (the (w_mac w p))) \<Longrightarrow> Q None"
  shows "safe Q (mac_rb_find c vid addr w)"
  unfolding mac_rb_find_ok [OF assms(1,2)] safe_Some
proof (cases "find (\<lambda>p. same_key vid addr (the (w_mac w p))) (mac_rb c w)")
  case None
  then show "Q (find (\<lambda>p. same_key vid addr (the (w_mac w p))) (mac_rb c w))"
    unfolding None by (intro assms(4)) (use None in \<open>simp add: find_None_iff\<close>)
next
  case (Some p)
  then have "p \<in> set (mac_rb c w)" "same_key vid addr (the (w_mac w p))" by (auto simp: find_Some_iff)
  then show "Q (find (\<lambda>p. same_key vid addr (the (w_mac w p))) (mac_rb c w))"
    unfolding Some by (rule assms(3))
qed

lemma insert_pairs:
  "map snd (RB_INSERT (\<lambda>x y. MACMsg_compare (snd x) (snd y)) (p, m) t) = RB_INSERT MACMsg_compare m (map snd t)"
  "set (RB_INSERT (\<lambda>x y. MACMsg_compare (snd x) (snd y)) (p, m) t) \<subseteq> insert (p, m) (set t)"
  by (induction t) auto

lemma insert_new:
  "\<forall>y \<in> set t. cmp x y \<noteq> 0 \<Longrightarrow> set (RB_INSERT cmp x t) = insert x (set t)"
  by (induction t) auto

lemma inv_insert:
  assumes inv: "mac_inv c w" and p: "w_mac w p = Some m" "p \<notin> set (mac_rb c w)" "p \<notin> set (mac_q c w)"
    and m: "mac_key_ok m" "\<not> mac_in_msg_list m"
      "\<forall>q \<in> set (mac_rb c w). \<not> same_key (mac_vid m) (mac_addr m) (the (w_mac w q))"
  shows "safe (\<lambda>w'. table_step c w w' \<and> set (mac_rb c w') = insert p (set (mac_rb c w))
    \<and> w_mac w' = w_mac w \<and> mac_q c w' = mac_q c w) (mac_rb_insert c p w)"
proof -
  obtain csm where csm: "w_csm w c = Some csm" using inv by (auto simp: mac_inv_def)
  define t where "t = map (\<lambda>p. (p, the (w_mac w p))) (mac_rb c w)"
  define t' where "t' = RB_INSERT (\<lambda>x y. MACMsg_compare (snd x) (snd y)) (p, m) t"
  define w' where "w' = upd_mlacp c (ml_mac_rb_update (\<lambda>_. map fst t')) w"
  have new: "MACMsg_compare m (the (w_mac w q)) \<noteq> 0" if "q \<in> set (mac_rb c w)" for q
    using that m inv_key_ok [OF inv that] by (auto simp: MACMsg_compare_0 same_key_def)
  have set: "set t' = insert (p, m) (set t)"
    unfolding t'_def by (rule insert_new) (use new in \<open>auto simp: t_def\<close>)
  have "mac_tree.tree (map snd t)" using inv by (simp add: mac_inv_def t_def comp_def)
  then have "mac_tree.tree (map snd t')" unfolding t'_def insert_pairs using m(1) by (rule mac_tree.tree_insert)
  moreover have "map (\<lambda>p. the (w_mac w p)) (map fst t') = map snd t'"
    using set p(1) by (auto simp: t_def)
  ultimately have tree: "mac_tree.tree (map (\<lambda>p. the (w_mac w p)) (map fst t'))" by (simp only:)
  have rb: "set (map fst t') = insert p (set (mac_rb c w))" by (auto simp: set t_def image_iff)
  have fr: "mac_rb c w' = map fst t'" "mac_q c w' = mac_q c w" "w_mac w' = w_mac w" "w_fresh w' = w_fresh w"
    "w_csm w' c \<noteq> None" by (simp_all add: w'_def csm)
  have "mac_inv c w'"
    using inv p m(2) tree fr(5) unfolding mac_inv_def fr(1-4) rb by auto
  moreover have "mac_only c w w'" unfolding w'_def by (rule only_mlacp) simp
  ultimately show ?thesis
    using rb by (simp add: mac_rb_insert_def csm p(1) load_macs_inv [OF inv csm] table_step_def fr w'_def
        t'_def t_def [simplified csm option.sel])
qed

end
