(* ===== verification/Mac_Learn_Invariant.thy ===== *)
theory Mac_Learn_Invariant
  imports Mac_Invariant
begin

text \<open>
  Learning a MAC address, from the local forwarding table or from the peer, keeps the
  invariant of the table and is free of undefined behaviour, with one exception:
  the log message after an entry was dropped because there is no peer link.
\<close>

lemma init_mac_msg_ok:
  assumes inv: "mac_inv c w" and i: "iccp_csm_init_mac_msg m w = (r, w')"
  shows "table_step c w w' \<and> mac_rb c w' = mac_rb c w \<and> mac_q c w' = mac_q c w
    \<and> (\<forall>q \<in> dom (w_mac w). w_mac w' q = w_mac w q)
    \<and> (\<forall>p. r = Some p \<longrightarrow> w_mac w' p = Some m \<and> p \<notin> set (mac_rb c w') \<and> p \<notin> set (mac_q c w') \<and> p \<notin> dom (w_mac w))"
proof -
  have csm: "w_csm w' = w_csm w" and only: "w_lif w' = w_lif w" "w_pif w' = w_pif w" "w_now w' = w_now w" "w_sys w' = w_sys w"
    using i by (auto simp: iccp_csm_init_mac_msg_def case_prod_beta Let_def split: if_splits)
  have mo: "mac_only c w w'"
    by (rule mac_onlyI [where rb = "mac_rb c w" and q = "mac_q c w" and cnt = "sys_dbg_counters (w_sys w)"])
      (simp_all add: only csm csm_same)
  have fresh: "w_fresh w \<notin> dom (w_mac w)" using inv unfolding mac_inv_def by blast
  consider "r = None" "w_mac w' = w_mac w" "w_fresh w' = w_fresh w"
    | "r = Some (w_fresh w)" "w_mac w' = (w_mac w)(w_fresh w \<mapsto> m)" "w_fresh w' = w_fresh w + 1"
    using i by (auto simp: iccp_csm_init_mac_msg_def case_prod_beta Let_def split: if_splits)
  then show ?thesis
  proof cases
    case 1
    then show ?thesis using inv mo unfolding table_step_def mac_inv_def csm by simp
  next
    case 2
    have not: "w_fresh w \<notin> set (mac_rb c w)" "w_fresh w \<notin> set (mac_q c w)"
      using inv fresh unfolding mac_inv_def by blast+
    have "map (\<lambda>p. the (w_mac w' p)) (mac_rb c w) = map (\<lambda>p. the (w_mac w p)) (mac_rb c w)"
      using not by (auto simp: 2)
    then have "mac_tree.tree (map (\<lambda>p. the (w_mac w' p)) (mac_rb c w))" using inv by (simp only: mac_inv_def)
    moreover have "mac_in_msg_list (the (w_mac w' x)) \<longleftrightarrow> x \<in> set (mac_q c w)"
      if "x \<in> set (mac_rb c w) \<union> set (mac_q c w)" for x
      using that inv not unfolding mac_inv_def by (auto simp: 2)
    moreover have "set (mac_rb c w) \<subseteq> dom (w_mac w')" "set (mac_q c w) \<subseteq> dom (w_mac w')" "\<forall>p \<in> dom (w_mac w'). p < w_fresh w'"
      using inv unfolding mac_inv_def by (auto simp: 2 less_Suc_eq)
    ultimately have "mac_inv c w'" using inv unfolding mac_inv_def csm by blast
    then show ?thesis using mo not fresh by (auto simp: table_step_def 2 csm)
  qed
qed

text \<open>The entry \<open>m\<close> was allocated at \<open>p\<close> and put into the tree.\<close>

definition inserted :: "csm_ptr \<Rightarrow> mac_ptr \<Rightarrow> MACMsg \<Rightarrow> world \<Rightarrow> world \<Rightarrow> bool" where
  "inserted c p m w w' \<longleftrightarrow> table_step c w w' \<and> w_mac w' p = Some m \<and> p \<notin> set (mac_rb c w)
     \<and> set (mac_rb c w') = insert p (set (mac_rb c w)) \<and> mac_q c w' = mac_q c w
     \<and> (\<forall>q \<in> set (mac_rb c w). w_mac w' q = w_mac w q)"

lemma insert_new_ok:
  assumes inv: "mac_inv c w" and m: "mac_key_ok m" "\<not> mac_in_msg_list m"
    "\<forall>p \<in> set (mac_rb c w). \<not> same_key (mac_vid m) (mac_addr m) (the (w_mac w p))"
    and i: "iccp_csm_init_mac_msg m w = (Some p, w')"
  shows "safe (inserted c p m w) (mac_rb_insert c p w')"
proof -
  note i' = init_mac_msg_ok [OF inv i]
  have inv': "mac_inv c w'" using i' by (simp add: table_step_def)
  have val: "w_mac w' q = w_mac w q" if "q \<in> set (mac_rb c w)" for q
    using that inv i' unfolding mac_inv_def by (metis subsetD)
  then have "safe (\<lambda>w''. table_step c w' w'' \<and> set (mac_rb c w'') = insert p (set (mac_rb c w'))
    \<and> w_mac w'' = w_mac w' \<and> mac_q c w'' = mac_q c w') (mac_rb_insert c p w')"
    using i' m by (intro inv_insert [OF inv', where m = m]) auto
  then show ?thesis
    by (rule safe_mono) (use i' val table_step_trans in \<open>auto simp: inserted_def\<close>)
qed

lemma step_io: "entry_kept c p w0 w \<Longrightarrow> io_step w w' \<Longrightarrow> entry_step c p w0 w'"
  by (rule kept_step) (rule kept_io)

lemma chip_io [simp, intro]:
  "io_step w (snd (del_mac_from_chip m w))" "io_step w (snd (add_mac_to_chip t m w))" "io_step w (snd (readd_mac_to_chip m w))"
  using chip_ops by blast+

lemma step_syncd_add_existing:
  assumes "mac_inv c w" "p \<in> set (mac_rb c w)"
  shows "safe (entry_step c p w) (syncd_add_existing c p msg ld fm pu w)"
proof -
  have k: "entry_kept c p w w" by (rule entry_kept_refl [OF assms])
  show ?thesis
    unfolding syncd_add_existing_def
    by (rule k assms safe_rules vc_rules vc_age_flag | assumption | (simp; fail) | (simp add: keeps_key_def; fail)
        | (rule step_io, assumption, rule chip_io) | rule kept_step)+
qed

lemma step_syncd_del:
  assumes inv: "mac_inv c w" and env: "env_ok c w" and p: "p \<in> set (mac_rb c w)"
    and po: "\<forall>l. lif_po = Some l \<longrightarrow> w_lif w l \<noteq> None"
  shows "safe (entry_step c p w) (syncd_del c p lif_po w)"
proof -
  have k: "entry_kept c p w w" by (rule entry_kept_refl [OF inv p])
  have lif: "w_lif w' = w_lif w" and env': "env_ok c w'" if "entry_kept c p w w'" for w'
    using entry_stepD(1) [OF kept_step [OF that]] mac_only_env [OF _ env] by (auto simp: mac_only_def)
  have link: "safe (entry_step c p w) (case csm_peer_link_if csm of None \<Rightarrow> Some w'
      | Some l \<Rightarrow> w_lif w' l \<bind> (\<lambda>lif. if lif_state lif \<noteq> PORT_STATE_DOWN then on_mac p readd_mac_to_chip w' else Some w'))"
    if "entry_kept c p w w'" "w_csm w c = Some csm" for csm w'
    using that env lif [OF that(1)] by (auto simp: env_ok_def intro!: vc_on_mac kept_step split: option.split)
  have po': "safe Q (case lif_po of None \<Rightarrow> Some False | Some l \<Rightarrow> w_lif w' l \<bind> (\<lambda>lif. Some (lif_state lif = PORT_STATE_DOWN)))"
    if "entry_kept c p w w'" "\<And>b. Q b" for Q w'
    using that po lif [OF that(1)] by (auto split: option.split)
  have fin: "safe (entry_step c p w) (case r of None \<Rightarrow> Some w'
      | Some l \<Rightarrow> w_lif w' l \<bind> (\<lambda>lif. if lif_state lif = PORT_STATE_UP then on_mac p readd_mac_to_chip w' else Some w'))"
    if "entry_kept c p w w'" "\<forall>l. r = Some l \<longrightarrow> w_lif w' l \<noteq> None" for r w'
    using that by (auto intro!: vc_on_mac kept_step split: option.split)
  show ?thesis
    unfolding syncd_del_def
    by (rule k env p safe_rules vc_rules vc_age_flag link po' fin safe_find_lif [OF env'] | assumption | (simp; fail) | rule kept_step)+
qed


lemma syncd_add_new_ok:
  assumes inv: "mac_inv c w" and m: "mac_key_ok msg" "\<not> mac_in_msg_list msg"
    "\<forall>p \<in> set (mac_rb c w). \<not> same_key (mac_vid msg) (mac_addr msg) (the (w_mac w p))"
  shows "safe (table_step c w) (syncd_add_new c msg ld fm pu pd w)"
proof -
  define msg' where "msg' = msg\<lparr>mac_age_flag := mac_age_flag msg OR MAC_AGE_PEER, mac_op_type := MAC_SYNC_ADD\<rparr>"
  obtain csm where csm: "w_csm w c = Some csm" using inv by (auto simp: mac_inv_def)
  obtain r w1 where i: "iccp_csm_init_mac_msg msg' w = (r, w1)" by fastforce
  have ts: "table_step c w w1" using init_mac_msg_ok [OF inv i] by simp
  have fin: "safe (table_step c w) (if ld then Some (if fm \<and> pu then snd (readd_mac_to_chip x w2) else w2)
      else if ml_current_state (MLACP csm) = MLACP_STATE_EXCHANGE then mac_enqueue c p w2 else Some w2)"
    if w2: "table_step c w w2" "p \<in> set (mac_rb c w2)" for x w2 p
  proof -
    have k: "entry_kept c p w2 w2" using w2 by (intro entry_kept_refl) (simp_all add: table_step_def)
    have "safe (table_step c w) (mac_enqueue c p w2)"
      by (rule vc_enqueue [OF k w2(2)]) (use w2(1) table_step_trans entry_table_step kept_step in blast)
    then show ?thesis using w2(1) table_io [OF w2(1)] by simp
  qed
  have "safe (table_step c w) (case r of None \<Rightarrow> Some w1 | Some p \<Rightarrow> do {
         w \<leftarrow> mac_rb_insert c p w1;
         if ld then Some (if fm \<and> pu then snd (readd_mac_to_chip (redirect csm (msg'\<lparr>mac_pending_local_del := 1\<rparr>)) w) else w)
         else if ml_current_state (MLACP csm) = MLACP_STATE_EXCHANGE then mac_enqueue c p w
         else Some w })"
  proof (cases r)
    case (Some p)
    have "safe (inserted c p msg' w) (mac_rb_insert c p w1)"
      using m i Some by (intro insert_new_ok [OF inv]) (auto simp: msg'_def mac_key_ok_def)
    then show ?thesis unfolding Some option.case safe_bind by (rule safe_mono) (rule fin, auto simp: inserted_def)
  qed (simp add: ts)
  moreover have "table_step c w (snd (del_mac_from_chip msg w))" by (rule table_io [OF table_refl [OF inv] chip_io(1)])
  ultimately show ?thesis
    unfolding syncd_add_new_def by (simp add: csm msg'_def [symmetric] i)
qed

lemma find_mclag_intf_ok:
  assumes "\<forall>c \<in> set cs. env_ok c w" "\<And>r. (\<forall>l. r = Some l \<longrightarrow> w_lif w l \<noteq> None) \<Longrightarrow> Q r"
  shows "safe Q (find_mclag_intf n cs w)"
  using assms
proof (induction cs)
  case (Cons c cs)
  obtain csm where csm: "w_csm w c = Some csm" "set (ml_lif_list (MLACP csm)) \<subseteq> dom (w_lif w)"
    using Cons.prems(1) by (auto simp: env_ok_def)
  obtain r where r: "find_ptr (w_lif w) (\<lambda>l. lif_type l = IF_T_PORT_CHANNEL \<and> lif_name l = n) (ml_lif_list (MLACP csm)) = Some r"
    using find_ptr_total [OF csm(2)] by blast
  have IH: "safe Q (find_mclag_intf n cs w)" by (rule Cons.IH) (use Cons.prems in auto)
  have "w_lif w l \<noteq> None" if "r = Some l" for l using find_ptr_Some r that by blast
  then show ?case
    using IH r by (auto simp: csm(1) split: option.split intro!: Cons.prems(2))
qed simp

text \<open>The preconditions of learning: the invariant for the first domain, and no dangling pointers.\<close>

definition learn_ok :: "csm_ptr \<Rightarrow> world \<Rightarrow> bool" where
  "learn_ok c w \<longleftrightarrow> mac_inv c w \<and> env_ok c w \<and> (\<exists>cs. sys_csm_list (w_sys w) = c # cs \<and> (\<forall>c' \<in> set cs. env_ok c' w))"

lemma do_mac_update_from_syncd_ok:
  assumes ok: "learn_ok c w" and addr: "length addr = 6" and n: "length ifname < MAX_L_PORT_NAME"
  shows "safe (table_step c w) (do_mac_update_from_syncd addr vid ifname ty op w)"
proof -
  have inv: "mac_inv c w" and env: "env_ok c w" using ok by (auto simp: learn_ok_def)
  obtain cs where cs: "sys_csm_list (w_sys w) = c # cs" "\<forall>c' \<in> set (c # cs). env_ok c' w"
    using ok by (auto simp: learn_ok_def)
  obtain csm where csm: "w_csm w c = Some csm" using inv by (auto simp: mac_inv_def)
  obtain po where po: "find_mclag_intf ifname (c # cs) w = Some po" "\<forall>l. po = Some l \<longrightarrow> w_lif w l \<noteq> None"
    using find_mclag_intf_ok [OF cs(2), where Q = "\<lambda>r. \<forall>l. r = Some l \<longrightarrow> w_lif w l \<noteq> None" and n = ifname]
    unfolding safe_def by blast
  obtain pif where pif: "peer_if_find_by_name (Some c) ifname w = Some pif" "\<forall>q. pif = Some q \<longrightarrow> w_pif w q \<noteq> None"
    using find_pif_total [OF env] by blast
  obtain l where l: "local_if_find_by_name ifname w = Some l" "\<forall>x. l = Some x \<longrightarrow> w_lif w x \<noteq> None"
    using find_lif_total [OF env] by blast
  have st: "safe Q (pif_state_is pif st w)" if "\<And>b. Q b" for Q st
    unfolding pif_state_is_def by (rule safe_pif_state [OF pif(2) that])
  have ex: "safe (table_step c w) x" if "safe (entry_step c p w) x" for x p
    using that entry_table_step by (rule safe_mono)
  have key: "mac_key_ok (zero_MACMsg\<lparr>mac_op_type := op, mac_fdb_type := ty, mac_addr := addr, mac_vid := vid, mac_ifname := ifname, mac_origin_ifname := ifname\<rparr>)"
    using addr by (simp add: mac_key_ok_def)
  show ?thesis
    unfolding do_mac_update_from_syncd_def system_get_first_csm_def cs(1) list.case option.case po(1) Option.bind.bind_lunit csm pif(1)
    apply (rule safe_ifI)
     apply (simp add: table_refl [OF inv])
    apply (rule safe_bindI, rule safe_find_mac [OF inv addr])
    subgoal for p
      using l n
      by (auto split: option.split intro!: st ex [OF step_syncd_add_existing [OF inv]] ex [OF step_syncd_del [OF inv env _ po(2)]] table_refl [OF inv])
    using l n key
    by (auto split: option.split simp: zero_MACMsg_def intro!: st syncd_add_new_ok [OF inv] table_refl [OF inv])
qed


lemma vc_redirect_add:
  assumes "entry_kept c p w0 w" "\<And>w'. entry_kept c p w0 w' \<Longrightarrow> Q w'"
  shows "safe Q (redirect_add csm p w)"
  unfolding redirect_add_def by (rule assms safe_rules vc_mod_mac vc_on_mac | assumption | (simp; fail))+

lemma vc_peer_add_moved:
  assumes k: "entry_kept c p w0 w" and env: "env_ok c w0" and p: "p \<in> set (mac_rb c w0)"
    and link: "csm_peer_itf_name (the (w_csm w0 c)) \<noteq> [] \<or> fm"
  shows "safe (entry_step c p w0) (peer_add_moved c p n fm ld w)"
proof -
  have dead: "safe Q (remove_mac c p w2)"
    if "entry_kept c p w0 wx" "w_csm wx c = Some csm" "\<not> csm_peer_itf_name csm \<noteq> []" "\<not> fm" for Q wx csm w2
    using that link env entry_stepD(1) [OF kept_step [OF that(1)]] by (auto simp: mac_only_def env_ok_def)
  show ?thesis
    unfolding peer_add_moved_def
    by (rule k env p safe_rules dead vc_mod_mac vc_on_mac vc_mac vc_csm vc_peer_link_up vc_age_flag vc_redirect_add
        | assumption | (simp; fail) | rule kept_step)+
qed

lemma step_peer_add_existing:
  assumes inv: "mac_inv c w" and env: "env_ok c w" and p: "p \<in> set (mac_rb c w)"
    and link: "csm_peer_itf_name (the (w_csm w c)) \<noteq> [] \<or> fm"
  shows "safe (entry_step c p w) (peer_add_existing c p n fm ld w)"
proof -
  have k: "entry_kept c p w w" by (rule entry_kept_refl [OF inv p])
  show ?thesis
    unfolding peer_add_existing_def
    by (rule k env p link safe_rules vc_rules vc_redirect_add vc_peer_add_moved
        | assumption | (simp; fail) | (simp add: keeps_key_def; fail) | rule kept_step)+
qed

lemma step_peer_del_existing:
  assumes "mac_inv c w" "p \<in> set (mac_rb c w)"
  shows "safe (entry_step c p w) (peer_del_existing c p w)"
proof -
  have k: "entry_kept c p w w" by (rule entry_kept_refl [OF assms])
  show ?thesis
    unfolding peer_del_existing_def
    by (rule k assms safe_rules vc_rules | assumption | (simp; fail) | rule kept_step)+
qed


text \<open>The entry a new address of the peer gets.\<close>

definition peer_entry :: "CSM \<Rightarrow> mLACPMACData \<Rightarrow> bool \<Rightarrow> MACMsg" where
  "peer_entry csm d lif_down = (let
     m = zero_MACMsg\<lparr>mac_fdb_type := md_mac_type d, mac_vid := ntohs (md_vid d), mac_addr := md_mac_addr d,
           mac_ifname := md_ifname d, mac_origin_ifname := md_ifname d, mac_age_flag := local_age_flag True 0\<rparr>
   in if lif_down \<and> csm_peer_itf_name csm \<noteq> [] then redirect csm m else m)"

lemma peer_entry_simps [simp]:
  "mac_vid (peer_entry csm d ld) = ntohs (md_vid d)" "mac_addr (peer_entry csm d ld) = md_mac_addr d"
  "mac_in_msg_list (peer_entry csm d ld) = False" "mac_age_flag (peer_entry csm d ld) = MAC_AGE_LOCAL"
  "mac_origin_ifname (peer_entry csm d ld) = md_ifname d" "mac_add_to_syncd (peer_entry csm d ld) = 0"
  "mac_ifname (peer_entry csm d ld) = (if ld \<and> csm_peer_itf_name csm \<noteq> [] then csm_peer_itf_name csm else md_ifname d)"
  by (simp_all add: peer_entry_def Let_def redirect_def local_age_flag_def zero_MACMsg_def)

lemma peer_add_new_ok:
  assumes inv: "mac_inv c w" and env: "env_ok c w" and len: "length (md_mac_addr d) = 6"
    and new: "\<forall>p \<in> set (mac_rb c w). \<not> same_key (ntohs (md_vid d)) (md_mac_addr d) (the (w_mac w p))"
    and l: "\<forall>x. local_if = Some x \<longrightarrow> w_lif w x \<noteq> None" and csm: "w_csm w c = Some csm"
  shows "safe (table_step c w) (peer_add_new c d local_if w)"
proof -
  obtain ld where ld: "(case local_if of None \<Rightarrow> Some True | Some l \<Rightarrow> w_lif w l \<bind> (\<lambda>lif. Some (lif_state lif = PORT_STATE_DOWN))) = Some ld"
    and ld': "local_if = None \<Longrightarrow> ld" using l by (cases local_if) auto
  define m where "m = peer_entry csm d ld"
  obtain r w1 where i: "iccp_csm_init_mac_msg m w = (r, w1)" by fastforce
  have "safe (table_step c w) (case r of None \<Rightarrow> Some w1 | Some p \<Rightarrow> do {
         w \<leftarrow> mac_rb_insert c p w1;
         if mac_ifname m = csm_peer_itf_name csm then do {
           up \<leftarrow> peer_link_up csm w;
           Some (if up then snd (readd_mac_to_chip m w) else w) }
         else (case local_if of None \<Rightarrow> None | Some _ \<Rightarrow> Some (if \<not> ld then snd (readd_mac_to_chip m w) else w)) })"
    if keep: "\<not> (ld \<and> csm_peer_itf_name csm = [] \<and> local_if = None)"
  proof (cases r)
    case None
    then show ?thesis using init_mac_msg_ok [OF inv i] by simp
  next
    case (Some p)
    have ins: "safe (inserted c p m w) (mac_rb_insert c p w1)"
      using len new i Some by (intro insert_new_ok [OF inv]) (auto simp: m_def mac_key_ok_def)
    have up: "safe Q (peer_link_up csm w2)" if "table_step c w w2" "\<And>b. Q b" for Q w2
      using that env csm by (auto simp: table_step_def mac_only_def peer_link_up_def env_ok_def split: option.splits)
    have io: "table_step c w (snd (readd_mac_to_chip m w2))" if "table_step c w w2" for w2
      by (rule table_io [OF that chip_io(3)])
    have "mac_ifname m = csm_peer_itf_name csm" if "local_if = None" using that keep ld' by (auto simp: m_def)
    then show ?thesis
      unfolding Some option.case safe_bind
      by (intro safe_mono [OF ins]) (auto simp: inserted_def intro!: up io split: option.split)
  qed
  moreover have "table_step c w w" by (rule table_refl [OF inv])
  ultimately show ?thesis
    unfolding peer_add_new_def csm Option.bind.bind_lunit ld Let_def
    using i unfolding m_def peer_entry_def Let_def by (auto simp: case_prod_beta)
qed

lemma mlacp_fsm_update_mac_entry_from_peer_ok:
  assumes inv: "mac_inv c w" and env: "env_ok c w" and len: "length (md_mac_addr d) = 6"
    and link: "csm_peer_itf_name (the (w_csm w c)) \<noteq> []"
  shows "safe (table_step c w) (mlacp_fsm_update_mac_entry_from_peer c d w)"
proof -
  obtain csm where csm: "w_csm w c = Some csm" "set (ml_lif_list (MLACP csm)) \<subseteq> dom (w_lif w)"
    using env by (auto simp: env_ok_def)
  obtain r where r: "find_ptr (w_lif w) (\<lambda>l. lif_type l = IF_T_PORT_CHANNEL \<and> lif_name l = md_ifname d) (ml_lif_list (MLACP csm)) = Some r"
    using find_ptr_total [OF csm(2)] by blast
  then have r': "\<forall>x. r = Some x \<longrightarrow> w_lif w x \<noteq> None" using find_ptr_Some by fastforce
  have ex: "safe (table_step c w) x" if "safe (entry_step c p w) x" for x p
    using that entry_table_step by (rule safe_mono)
  have ld: "safe Q (case r of None \<Rightarrow> Some False | Some l \<Rightarrow> w_lif w l \<bind> (\<lambda>lif. Some (lif_state lif = PORT_STATE_DOWN)))"
    if "\<And>b. Q b" for Q
    using r' that by (auto split: option.split)
  show ?thesis
    unfolding mlacp_fsm_update_mac_entry_from_peer_def csm(1) Option.bind.bind_lunit r
    apply (rule safe_ifI)
     apply (simp add: table_refl [OF inv])
    apply (rule safe_bindI, rule safe_find_mac [OF inv len])
    subgoal for p
      unfolding option.case
      by (rule safe_rules ld ex [OF step_peer_add_existing [OF inv env]] ex [OF step_peer_del_existing [OF inv]] table_refl [OF inv]
          | assumption | (simp add: link; fail))+
    unfolding option.case
    by (rule safe_rules peer_add_new_ok [OF inv env len _ r' csm(1)] table_refl [OF inv] | assumption)+
qed

end
