(* ===== verification/Mac_Refinement.thy ===== *)
theory Mac_Refinement
  imports Mac_Learn_Invariant
begin

text \<open>
  What the MAC table means, and the handlers as operations on that meaning. The
  abstract table maps a VLAN and an address to what was learned about it; the
  queue to the peer, the pending operation and the chip flag are implementation.
\<close>

record Learned =
  l_ifname :: string
  l_origin :: string
  l_type :: u8
  l_age :: u8
  l_pending :: u8

definition learned :: "MACMsg \<Rightarrow> Learned" where
  "learned m = \<lparr>l_ifname = mac_ifname m, l_origin = mac_origin_ifname m, l_type = mac_fdb_type m,
     l_age = mac_age_flag m, l_pending = mac_pending_local_del m\<rparr>"

lemma learned_simps [simp]:
  "l_ifname (learned m) = mac_ifname m" "l_origin (learned m) = mac_origin_ifname m" "l_type (learned m) = mac_fdb_type m"
  "l_age (learned m) = mac_age_flag m" "l_pending (learned m) = mac_pending_local_del m"
  by (simp_all add: learned_def)

definition fdb :: "csm_ptr \<Rightarrow> world \<Rightarrow> (u16 \<times> bytes) \<rightharpoonup> Learned" where
  "fdb c w k = map_option (\<lambda>p. learned (the (w_mac w p)))
     (find (\<lambda>p. same_key (fst k) (snd k) (the (w_mac w p))) (mac_rb c w))"

text \<open>The learned part of an entry in the tree is in the table under its key.\<close>

lemma inv_key_inj:
  assumes inv: "mac_inv c w" and p: "p \<in> set (mac_rb c w)" and q: "q \<in> set (mac_rb c w)"
    and same: "mac_vid (the (w_mac w p)) = mac_vid (the (w_mac w q))" "mac_addr (the (w_mac w p)) = mac_addr (the (w_mac w q))"
  shows "p = q"
proof -
  let ?f = "\<lambda>p. the (w_mac w p)"
  have t: "mac_tree.tree (map ?f (mac_rb c w))" using inv by (simp add: mac_inv_def)
  have ok: "mac_key_ok (?f p)" "mac_key_ok (?f q)" using inv_key_ok [OF inv] p q by auto
  have c0: "MACMsg_compare (?f p) (?f q) = 0" using MACMsg_compare_0 [OF ok] same by simp
  have eq: "?f p = ?f q"
    using mac_tree.find_unique [OF t ok(1), of "?f q"] mac_tree.find_unique [OF t ok(1), of "?f p"]
      mac_tree.cmp_refl [OF ok(1)] c0 p q by simp
  have "inj_on ?f (set (mac_rb c w))" using tree_distinct [OF t] by (simp add: distinct_map)
  then show ?thesis using eq p q by (rule inj_onD)
qed

lemma fdb_Some:
  assumes inv: "mac_inv c w" and p: "p \<in> set (mac_rb c w)" and k: "same_key vid addr (the (w_mac w p))"
  shows "fdb c w (vid, addr) = Some (learned (the (w_mac w p)))"
proof -
  obtain q where q: "find (\<lambda>p. same_key vid addr (the (w_mac w p))) (mac_rb c w) = Some q"
    using p k by (cases "find (\<lambda>p. same_key vid addr (the (w_mac w p))) (mac_rb c w)") (auto simp: find_None_iff)
  then have "q \<in> set (mac_rb c w)" "same_key vid addr (the (w_mac w q))" by (auto simp: find_Some_iff)
  with p k have "q = p" using inv_key_inj [OF inv] by (simp add: same_key_def)
  with q show ?thesis by (simp add: fdb_def)
qed

lemma fdb_None: "fdb c w (vid, addr) = None \<longleftrightarrow> (\<forall>p \<in> set (mac_rb c w). \<not> same_key vid addr (the (w_mac w p)))"
  by (auto simp: fdb_def find_None_iff)

subsection \<open>Tracking what is learned\<close>

text \<open>The entry \<open>p\<close> of the tree of \<open>w0\<close> is still in the tree of \<open>w\<close>, where it says \<open>l\<close>.\<close>

definition entry_at :: "csm_ptr \<Rightarrow> mac_ptr \<Rightarrow> world \<Rightarrow> Learned \<Rightarrow> world \<Rightarrow> bool" where
  "entry_at c p w0 l w \<longleftrightarrow> p \<in> set (mac_rb c w0) \<and> entry_kept c p w0 w \<and> learned (the (w_mac w p)) = l
     \<and> same_key (mac_vid (the (w_mac w0 p))) (mac_addr (the (w_mac w0 p))) (the (w_mac w p))"

text \<open>The result of visiting an entry: removed, or kept with a new value.\<close>

definition entry_post :: "csm_ptr \<Rightarrow> mac_ptr \<Rightarrow> world \<Rightarrow> Learned option \<Rightarrow> world \<Rightarrow> bool" where
  "entry_post c p w0 r w \<longleftrightarrow> entry_step c p w0 w \<and> (case r of None \<Rightarrow> p \<notin> set (mac_rb c w)
     | Some l \<Rightarrow> entry_at c p w0 l w)"

lemma at_kept: "entry_at c p w0 l w \<Longrightarrow> entry_kept c p w0 w"
  by (simp add: entry_at_def)

lemma at_post: "entry_at c p w0 l w \<Longrightarrow> r = Some l \<Longrightarrow> entry_post c p w0 r w"
  by (simp add: entry_post_def entry_at_def kept_step)

lemma at_start: "mac_inv c w \<Longrightarrow> p \<in> set (mac_rb c w) \<Longrightarrow> entry_at c p w (learned (the (w_mac w p))) w"
  by (simp add: entry_at_def entry_kept_refl same_key_def)


lemma at_mac: "entry_at c p w0 l w \<Longrightarrow> (\<And>m. w_mac w p = Some m \<Longrightarrow> learned m = l \<Longrightarrow> Q m) \<Longrightarrow> safe Q (w_mac w p)"
  using kept_alloc [of c p w0 w] by (auto simp: entry_at_def)

lemma at_mod:
  assumes at: "entry_at c p w0 l w" and f: "\<And>m. keeps_key m (f m)" and l: "\<And>m. learned m = l \<Longrightarrow> learned (f m) = l'"
    and Q: "\<And>w'. entry_at c p w0 l' w' \<Longrightarrow> Q w'"
  shows "safe Q (mod_mac p f w)"
proof -
  obtain m where m: "w_mac w p = Some m" using kept_alloc [OF at_kept [OF at]] by blast
  have "safe (entry_kept c p w0) (mod_mac p f w)" by (rule kept_mod_mac [OF at_kept [OF at] f])
  moreover have "learned (f m) = l'" using l at m by (simp add: entry_at_def)
  moreover have "same_key vid addr m \<Longrightarrow> same_key vid addr (f m)" for vid addr
    using f [of m] by (simp add: keeps_key_def same_key_def)
  ultimately show ?thesis using at m by (intro safe_mono [OF _ Q]) (auto simp: mod_mac_def entry_at_def)
qed

lemma at_mods:
  assumes "entry_at c p w0 l w"
  shows "(\<And>w'. entry_at c p w0 (l\<lparr>l_age := f (l_age l)\<rparr>) w' \<Longrightarrow> Q w') \<Longrightarrow> safe Q (mod_mac p (mac_age_flag_update f) w)"
    "(\<And>w'. entry_at c p w0 l w' \<Longrightarrow> Q w') \<Longrightarrow> safe Q (mod_mac p (mac_op_type_update g) w)"
    "(\<And>w'. entry_at c p w0 (l\<lparr>l_ifname := csm_peer_itf_name csm\<rparr>) w' \<Longrightarrow> Q w') \<Longrightarrow> safe Q (mod_mac p (redirect csm) w)"
    "(\<And>w'. entry_at c p w0 (l\<lparr>l_pending := h (l_pending l)\<rparr>) w' \<Longrightarrow> Q w') \<Longrightarrow> safe Q (mod_mac p (mac_pending_local_del_update h) w)"
    "(\<And>w'. entry_at c p w0 (l\<lparr>l_ifname := n\<rparr>) w' \<Longrightarrow> Q w') \<Longrightarrow> safe Q (mod_mac p (mac_ifname_update (\<lambda>_. n)) w)"
    "(\<And>w'. entry_at c p w0 (l\<lparr>l_origin := n\<rparr>) w' \<Longrightarrow> Q w') \<Longrightarrow> safe Q (mod_mac p (mac_origin_ifname_update (\<lambda>_. n)) w)"
    "(\<And>w'. entry_at c p w0 (l\<lparr>l_ifname := l_origin l\<rparr>) w' \<Longrightarrow> Q w') \<Longrightarrow> safe Q (mod_mac p (\<lambda>m. m\<lparr>mac_ifname := mac_origin_ifname m\<rparr>) w)"
    "(\<And>w'. entry_at c p w0 (l\<lparr>l_pending := x, l_type := t, l_origin := n\<rparr>) w' \<Longrightarrow> Q w') \<Longrightarrow>
      safe Q (mod_mac p (\<lambda>m. m\<lparr>mac_pending_local_del := x, mac_fdb_type := t, mac_origin_ifname := n\<rparr>) w)"
    "(\<And>w'. entry_at c p w0 (l\<lparr>l_type := t, l_ifname := n, l_origin := n'\<rparr>) w' \<Longrightarrow> Q w') \<Longrightarrow>
      safe Q (mod_mac p (\<lambda>m. m\<lparr>mac_fdb_type := t, mac_ifname := n, mac_origin_ifname := n'\<rparr>) w)"
    "(\<And>w'. entry_at c p w0 (l\<lparr>l_pending := x, l_age := y\<rparr>) w' \<Longrightarrow> Q w') \<Longrightarrow>
      safe Q (mod_mac p (\<lambda>m. m\<lparr>mac_pending_local_del := x, mac_age_flag := y, mac_op_type := z\<rparr>) w)"
  by (rule at_mod [OF assms]; auto simp: keeps_key_def learned_def redirect_def)+

text \<open>Programming the chip changes nothing that was learned.\<close>

lemma chip_learned:
  "learned (fst (del_mac_from_chip m w)) = learned m" "learned (fst (add_mac_to_chip t m w)) = learned m"
  "learned (fst (readd_mac_to_chip m w)) = learned m"
  by (simp_all add: del_mac_from_chip_def add_mac_to_chip_def readd_mac_to_chip_def
      iccp_send_fdb_entry_to_syncd_def Let_def learned_def)

lemma at_on:
  assumes at: "entry_at c p w0 l w" and f: "\<And>m w. keeps_key m (fst (f m w)) \<and> io_step w (snd (f m w))"
    and l: "\<And>m w. learned (fst (f m w)) = learned m" and Q: "\<And>w'. entry_at c p w0 l w' \<Longrightarrow> Q w'"
  shows "safe Q (on_mac p f w)"
proof -
  obtain m where m: "w_mac w p = Some m" using kept_alloc [OF at_kept [OF at]] by blast
  have "safe (entry_kept c p w0) (on_mac p f w)" by (rule kept_on_mac [OF at_kept [OF at] f])
  moreover have "w_mac (snd (f m w)) = w_mac w" using f io_frame by blast
  moreover have "same_key vid addr m \<Longrightarrow> same_key vid addr (fst (f m w))" for vid addr
    using f [of m w] by (simp add: keeps_key_def same_key_def)
  ultimately show ?thesis using at m l
    by (intro safe_mono [OF _ Q]) (auto simp: on_mac_def entry_at_def case_prod_beta)
qed

lemmas at_chip = at_on [OF _ chip_ops(1) chip_learned(1)] at_on [OF _ chip_ops(2) chip_learned(2)]
  at_on [OF _ chip_ops(3) chip_learned(3)]

lemma at_enqueue:
  assumes at: "entry_at c p w0 l w" and Q: "\<And>w'. entry_at c p w0 l w' \<Longrightarrow> Q w'"
  shows "safe Q (mac_enqueue c p w)"
proof -
  obtain m where m: "w_mac w p = Some m" using kept_alloc [OF at_kept [OF at]] by blast
  have "safe (entry_kept c p w0) (mac_enqueue c p w)"
    using at by (intro kept_enqueue) (simp_all add: entry_at_def)
  then show ?thesis using at m
    by (intro safe_mono [OF _ Q]) (auto simp: mac_enqueue_def entry_at_def learned_def same_key_def split: if_splits)
qed

lemma at_remove:
  assumes at: "entry_at c p w0 l w" and Q: "\<And>w'. entry_post c p w0 None w' \<Longrightarrow> Q w'"
  shows "safe Q (remove_mac c p w)"
proof -
  have p: "p \<in> set (mac_rb c w0)" using at by (simp add: entry_at_def)
  have "safe (entry_out c p w0) (MAC_RB_REMOVE c p w)" by (rule kept_remove [OF at_kept [OF at] p])
  then obtain w1 where w1: "MAC_RB_REMOVE c p w = Some w1" "entry_out c p w0 w1" by (auto simp: safe_def)
  have "safe (entry_step c p w0) (free_unless_queued p w1)" by (rule out_free [OF w1(2)])
  then obtain w2 where w2: "free_unless_queued p w1 = Some w2" "entry_step c p w0 w2" by (auto simp: safe_def)
  have "w_csm w2 = w_csm w1" using w2(1) by (auto simp: free_unless_queued_def free_mac_def Option.bind_eq_Some_conv split: if_splits)
  then have "p \<notin> set (mac_rb c w2)" using w1(2) by (simp add: entry_out_def)
  then have "entry_post c p w0 None w2" using w2(2) by (simp add: entry_post_def)
  then show ?thesis using w1 w2 by (simp add: remove_mac_def Q)
qed

lemma at_csm: "entry_at c p w0 l w \<Longrightarrow> w_csm w0 c = Some csm0 \<Longrightarrow>
  (\<And>csm. w_csm w c = Some csm \<Longrightarrow> csm_peer_itf_name csm = csm_peer_itf_name csm0 \<Longrightarrow> csm_peer_link_if csm = csm_peer_link_if csm0
     \<Longrightarrow> ml_current_state (MLACP csm) = ml_current_state (MLACP csm0) \<Longrightarrow> Q csm) \<Longrightarrow> safe Q (w_csm w c)"
  using mac_only_csm [OF entry_stepD(1) [OF kept_step [OF at_kept]], of c p w0 l w csm0] by (metis safe_Some)

lemma and_1_odd: "(x AND 1 = 0) = even (x :: 'a::len word)"
  by (simp add: and_one_eq mod_2_eq_odd)

lemma local_age_flag_same: "(x AND MAC_AGE_LOCAL \<noteq> 0) = aged \<Longrightarrow> local_age_flag aged x = x"
  by (cases aged) (auto simp: local_age_flag_def and_1_odd bit_simps bit_0 intro!: bit_word_eqI)

lemma at_age_flag:
  assumes at: "entry_at c p w0 l w" and Q: "\<And>w'. entry_at c p w0 (l\<lparr>l_age := local_age_flag aged (l_age l)\<rparr>) w' \<Longrightarrow> Q w'"
  shows "safe Q (set_mac_local_age_flag c p aged up w)"
proof -
  have csm: "safe R (w_csm w c)" if "\<And>csm. R csm" for R
    using kept_csm [OF at_kept [OF at]] that by auto
  have same: "Q w" if "learned m = l" "(mac_age_flag m AND MAC_AGE_LOCAL \<noteq> 0) = aged" for m
    using Q [of w] at local_age_flag_same [OF that(2)] that(1) by (auto simp: learned_def)
  have upd: "Q w'" if "learned m = l" "entry_at c p w0 (l\<lparr>l_age := local_age_flag aged (mac_age_flag m)\<rparr>) w'" for m w'
    using Q [of w'] that by (auto simp: learned_def)
  show ?thesis
    unfolding set_mac_local_age_flag_def
    by (rule at safe_rules at_mac csm at_mods at_enqueue | assumption | erule same | erule upd)+
qed

subsection \<open>From entries to the table\<close>

lemma fdb_obtain:
  assumes "fdb c w (vid, addr) = Some l"
  obtains p where "p \<in> set (mac_rb c w)" "same_key vid addr (the (w_mac w p))" "learned (the (w_mac w p)) = l"
proof -
  obtain p where "find (\<lambda>p. same_key vid addr (the (w_mac w p))) (mac_rb c w) = Some p" "learned (the (w_mac w p)) = l"
    using assms by (auto simp: fdb_def)
  then show ?thesis by (intro that) (auto simp: find_Some_iff)
qed

definition key_of :: "world \<Rightarrow> mac_ptr \<Rightarrow> u16 \<times> bytes" where
  "key_of w p = (mac_vid (the (w_mac w p)), mac_addr (the (w_mac w p)))"

lemma same_key_of: "same_key vid addr (the (w_mac w p)) \<longleftrightarrow> key_of w p = (vid, addr)"
  by (auto simp: same_key_def key_of_def)

lemma post_rb:
  assumes "entry_post c p w1 r w2"
  shows "set (mac_rb c w2) - {p} = set (mac_rb c w1) - {p}" "q \<noteq> p \<Longrightarrow> w_mac w2 q = w_mac w1 q"
  using assms by (auto simp: entry_post_def entry_step_def)

lemma fdb_step:
  assumes inv: "mac_inv c w1" and p: "p \<in> set (mac_rb c w1)" and post: "entry_post c p w1 r w2"
  shows "fdb c w2 = (fdb c w1)(key_of w1 p := r)"
proof
  fix k :: "u16 \<times> bytes"
  obtain vid addr where k: "k = (vid, addr)" by fastforce
  have inv2: "mac_inv c w2" using post by (simp add: entry_post_def entry_step_def)
  have old: "q \<in> set (mac_rb c w1) \<and> key_of w1 q = key_of w2 q" if "q \<in> set (mac_rb c w2)" "q \<noteq> p" for q
    using that post_rb(1) [OF post] post_rb(2) [OF post that(2)] by (auto simp: key_of_def)
  have none: "fdb c w2 k = None" if "\<And>q. q \<in> set (mac_rb c w2) \<Longrightarrow> key_of w2 q \<noteq> k"
    using that by (simp add: k fdb_None same_key_of)
  show "fdb c w2 k = ((fdb c w1)(key_of w1 p := r)) k"
  proof (cases "k = key_of w1 p")
    case True
    show ?thesis
    proof (cases r)
      case None
      have "key_of w2 q \<noteq> k" if "q \<in> set (mac_rb c w2)" for q
      proof -
        have "q \<noteq> p" using that post None by (auto simp: entry_post_def)
        then show ?thesis
          using old [OF that] inv_key_inj [OF inv p, of q] True by (auto simp: key_of_def)
      qed
      then have "fdb c w2 k = None" by (rule none)
      then show ?thesis using True None by simp
    next
      case (Some l)
      then have at: "entry_at c p w1 l w2" using post by (simp add: entry_post_def)
      then have "p \<in> set (mac_rb c w2)" "same_key vid addr (the (w_mac w2 p))" "learned (the (w_mac w2 p)) = l"
        using True by (auto simp: entry_at_def entry_kept_def key_of_def k same_key_def)
      then have "fdb c w2 k = Some l" using fdb_Some [OF inv2] by (simp add: k)
      then show ?thesis using True Some by simp
    qed
  next
    case False
    show ?thesis
    proof (cases "fdb c w1 k")
      case None
      have "key_of w2 q \<noteq> k" if "q \<in> set (mac_rb c w2)" for q
      proof (cases "q = p")
        case True
        then have "\<exists>l. entry_at c p w1 l w2" using that post by (auto simp: entry_post_def split: option.splits)
        then show ?thesis using False True by (auto simp: entry_at_def same_key_def key_of_def)
      next
        case neq: False
        then show ?thesis using old [OF that] None unfolding k by (auto simp: fdb_None same_key_of)
      qed
      then have "fdb c w2 k = None" by (rule none)
      then show ?thesis using None False by simp
    next
      case (Some l)
      then obtain q where q: "q \<in> set (mac_rb c w1)" "same_key vid addr (the (w_mac w1 q))" "learned (the (w_mac w1 q)) = l"
        unfolding k by (rule fdb_obtain)
      then have "q \<noteq> p" using False by (auto simp: same_key_of k)
      then have "q \<in> set (mac_rb c w2)" "w_mac w2 q = w_mac w1 q" using post_rb [OF post] q(1) by blast+
      then have "fdb c w2 k = Some l" using fdb_Some [OF inv2, of q vid addr] q by (simp add: k)
      then show ?thesis using Some False by simp
    qed
  qed
qed

text \<open>A loop that treats every entry by \<open>g\<close> treats the table by \<open>g\<close>.\<close>

definition refines :: "csm_ptr \<Rightarrow> world \<Rightarrow> (Learned \<Rightarrow> Learned option) \<Rightarrow> world \<Rightarrow> bool" where
  "refines c w g w' \<longleftrightarrow> table_step c w w' \<and> fdb c w' = (\<lambda>k. Option.bind (fdb c w k) g)"

lemma fdb_loop:
  assumes inv: "mac_inv c w" and csm: "w_csm w c = Some csm"
    and step: "\<And>p w1. mac_only c w w1 \<Longrightarrow> mac_inv c w1 \<Longrightarrow> p \<in> set (mac_rb c w1) \<Longrightarrow>
      entry_at c p w1 (learned (the (w_mac w1 p))) w1 \<Longrightarrow>
      safe (entry_post c p w1 (g (learned (the (w_mac w1 p))))) (f p w1)"
  shows "safe (refines c w g) (foreach f (ml_mac_rb (MLACP csm)) w)"
proof -
  define I where "I xs w1 \<longleftrightarrow> mac_only c w w1 \<and> mac_inv c w1 \<and> set xs \<subseteq> set (mac_rb c w1) \<and> distinct xs
    \<and> set xs \<subseteq> set (mac_rb c w) \<and> (\<forall>p \<in> set xs. w_mac w1 p = w_mac w p)
    \<and> (\<forall>k. fdb c w1 k = (if k \<in> key_of w ` set xs then fdb c w k else Option.bind (fdb c w k) g))" for xs w1
  have rb: "ml_mac_rb (MLACP csm) = mac_rb c w" by (simp add: csm)
  have "safe (I []) (foreach f (mac_rb c w) w)"
  proof (rule safe_foreach)
    fix p ps w1 assume I: "I (p # ps) w1"
    let ?l = "learned (the (w_mac w1 p))"
    have p: "p \<in> set (mac_rb c w1)" "mac_inv c w1" "p \<in> set (mac_rb c w)" "w_mac w1 p = w_mac w p" using I by (auto simp: I_def)
    have "safe (entry_post c p w1 (g ?l)) (f p w1)" using I p at_start [OF p(2,1)] by (intro step) (simp_all add: I_def)
    then show "safe (I ps) (f p w1)"
    proof (rule safe_mono)
      fix w2 assume post: "entry_post c p w1 (g ?l) w2"
      have st: "entry_step c p w1 w2" using post by (simp add: entry_post_def)
      have only: "mac_only c w w2" using I entry_stepD(1) [OF st] mac_only_trans unfolding I_def by blast
      have ps: "q \<noteq> p" "w_mac w1 q = w_mac w q" "q \<in> set (mac_rb c w1)" if "q \<in> set ps" for q
        using that I by (auto simp: I_def)
      have sub: "set ps \<subseteq> set (mac_rb c w2)" using ps post_rb(1) [OF post] by blast
      have val: "\<forall>q \<in> set ps. w_mac w2 q = w_mac w q" using ps post_rb(2) [OF post] by simp
      have key: "key_of w1 p = key_of w p" using p(4) by (simp add: key_of_def)
      have lp: "fdb c w (key_of w p) = Some ?l"
        using fdb_Some [OF inv p(3)] p(4) by (simp add: key_of_def same_key_def)
      have notin: "key_of w p \<notin> key_of w ` set ps"
      proof
        assume "key_of w p \<in> key_of w ` set ps"
        then obtain q where "q \<in> set ps" "key_of w q = key_of w p" by force
        then have "q = p" using inv_key_inj [OF inv _ p(3), of q] I by (auto simp: I_def key_of_def)
        with \<open>q \<in> set ps\<close> I show False by (simp add: I_def)
      qed
      have "fdb c w2 k = (if k \<in> key_of w ` set ps then fdb c w k else Option.bind (fdb c w k) g)" for k
      proof -
        have "fdb c w1 k = (if k \<in> key_of w ` set (p # ps) then fdb c w k else Option.bind (fdb c w k) g)"
          using I unfolding I_def by blast
        then show ?thesis
          using fdb_step [OF p(2,1) post] notin lp unfolding key by (cases "k = key_of w p") simp_all
      qed
      then show "I ps w2" using only sub val I entry_stepD(2) [OF st] unfolding I_def by simp
    qed
  next
    have "fdb c w k = None" if "k \<notin> key_of w ` set (mac_rb c w)" for k
      using that by (cases k) (auto simp: fdb_None same_key_of image_iff)
    then show "I (mac_rb c w) w" using inv inv_distinct [OF inv] by (auto simp: I_def)
  qed
  then show ?thesis unfolding rb by (rule safe_mono) (auto simp: I_def refines_def table_step_def)
qed

subsection \<open>The handlers on the abstract table\<close>

text \<open>The session to the peer is lost.\<close>

definition disconn_spec :: "string \<Rightarrow> Learned \<Rightarrow> Learned option" where
  "disconn_spec peer_itf l =
     (if l_ifname l = peer_itf then
        let age = l_age l OR MAC_AGE_PEER in
        if age = (MAC_AGE_LOCAL OR MAC_AGE_PEER) \<or> l_pending l \<noteq> 0 then None else Some (l\<lparr>l_age := age\<rparr>)
      else if l_age l = 0 \<or> l_age l = MAC_AGE_LOCAL then Some (l\<lparr>l_age := MAC_AGE_PEER\<rparr>)
      else Some l)"

text \<open>The peer link goes down.\<close>

definition peerlink_down_spec :: "string \<Rightarrow> Learned \<Rightarrow> Learned option" where
  "peerlink_down_spec peer_itf l =
     (if l_ifname l \<noteq> peer_itf then Some l
      else let age = (if l_pending l = 0 then l_age l OR MAC_AGE_LOCAL else l_age l) in
        if age = (MAC_AGE_LOCAL OR MAC_AGE_PEER) then None else Some (l\<lparr>l_age := age\<rparr>))"

text \<open>A port of the domain goes down, or comes up.\<close>

definition intf_down_spec :: "string \<Rightarrow> bool \<Rightarrow> string \<Rightarrow> Learned \<Rightarrow> Learned option" where
  "intf_down_spec peer_itf pif_up port l =
     (if l_origin l \<noteq> port then Some l
      else if l_age l = MAC_AGE_PEER \<and> pif_up then Some (l\<lparr>l_ifname := peer_itf, l_pending := 1\<rparr>)
      else let age = l_age l OR MAC_AGE_LOCAL in
        if age = (MAC_AGE_LOCAL OR MAC_AGE_PEER) then None
        else Some (l\<lparr>l_age := age, l_ifname := (if peer_itf \<noteq> [] then peer_itf else l_ifname l)\<rparr>))"

definition pending_spec :: "Learned \<Rightarrow> Learned option" where
  "pending_spec l = (if l_type l \<noteq> MAC_TYPE_STATIC then None else Some (l\<lparr>l_pending := 0\<rparr>))"

definition intf_up_spec :: "string \<Rightarrow> string \<Rightarrow> Learned \<Rightarrow> Learned option" where
  "intf_up_spec peer_itf port l =
     (if l_origin l \<noteq> port then Some l
      else if l_ifname l = peer_itf then Some (l\<lparr>l_pending := 0, l_ifname := l_origin l\<rparr>)
      else if l_pending l \<noteq> 0 then pending_spec l
      else Some l)"

text \<open>Pending entries of a port that stayed down for too long go away.\<close>

definition clear_pending_spec :: "string \<Rightarrow> Learned \<Rightarrow> Learned option" where
  "clear_pending_spec port l = (if l_pending l \<noteq> 0 \<and> l_origin l = port then pending_spec l else Some l)"

text \<open>An address is deleted by the peer.\<close>

definition peer_del_spec :: "Learned \<Rightarrow> Learned option" where
  "peer_del_spec l = (let age = l_age l OR MAC_AGE_PEER in
     if age = (MAC_AGE_LOCAL OR MAC_AGE_PEER) then None else Some (l\<lparr>l_age := age\<rparr>))"

lemma at_read:
  assumes "entry_at c p w0 l w"
    "\<And>m. w_mac w p = Some m \<Longrightarrow> mac_age_flag m = l_age l \<Longrightarrow> mac_ifname m = l_ifname l \<Longrightarrow> mac_origin_ifname m = l_origin l \<Longrightarrow>
      mac_fdb_type m = l_type l \<Longrightarrow> mac_pending_local_del m = l_pending l \<Longrightarrow> Q m"
  shows "safe Q (w_mac w p)"
  by (rule at_mac [OF assms(1)]) (auto simp: learned_def intro: assms(2))

lemma at_peer_link_up:
  assumes "entry_at c p w0 l w" "env_ok c w0" "w_csm w0 c = Some csm0" "csm_peer_link_if csm = csm_peer_link_if csm0" "\<And>b. Q b"
  shows "safe Q (peer_link_up csm w)"
  using assms(2-5) entry_stepD(1) [OF kept_step [OF at_kept [OF assms(1)]]]
  by (auto simp: peer_link_up_def env_ok_def mac_only_def split: option.splits)

lemma at_redirect_or_del:
  assumes at: "entry_at c p w0 l w" and env: "env_ok c w0" and csm: "w_csm w0 c = Some csm"
    and Q: "\<And>w'. entry_at c p w0 (l\<lparr>l_ifname := csm_peer_itf_name csm\<rparr>) w' \<Longrightarrow> Q w'"
  shows "safe Q (redirect_or_del c p w)"
  unfolding redirect_or_del_def
  by (rule at env csm safe_rules at_csm at_peer_link_up at_mods at_chip | assumption | (rule Q, simp))+

lemma at_clear_pending:
  assumes at: "entry_at c p w0 l w" and Q: "\<And>w'. entry_post c p w0 (pending_spec l) w' \<Longrightarrow> Q w'"
  shows "safe Q (clear_pending_mac c p w)"
proof -
  have p: "p \<in> set (mac_rb c w0)" using at by (simp add: entry_at_def)
  have free: "safe Q (free_unless_queued p w1)" if out: "entry_out c p w0 w1" and ty: "l_type l \<noteq> MAC_TYPE_STATIC" for w1
  proof -
    have "safe (entry_step c p w0) (free_unless_queued p w1)" by (rule out_free [OF out])
    then obtain w2 where w2: "free_unless_queued p w1 = Some w2" "entry_step c p w0 w2" by (auto simp: safe_def)
    have "w_csm w2 = w_csm w1"
      using w2(1) by (auto simp: free_unless_queued_def free_mac_def Option.bind_eq_Some_conv split: if_splits)
    then have "p \<notin> set (mac_rb c w2)" using out by (simp add: entry_out_def)
    then have "entry_post c p w0 (pending_spec l) w2" using w2(2) ty by (simp add: entry_post_def pending_spec_def)
    with w2(1) show ?thesis by (simp add: Q)
  qed
  have rem: "safe Q (do { w \<leftarrow> MAC_RB_REMOVE c p w1; w \<leftarrow> mod_mac p (mac_op_type_update f) w; free_unless_queued p w })"
    if "entry_at c p w0 l w1" "l_type l \<noteq> MAC_TYPE_STATIC" for w1 f
    by (rule safe_bindI vc_rb_remove [OF at_kept [OF that(1)] p] vc_out_mod free | assumption | (simp add: that(2) keeps_key_def; fail))+
  show ?thesis
    unfolding clear_pending_mac_def
    by (rule at safe_ifI safe_bindI at_read at_mods at_chip rem | assumption | (simp; fail)
        | (rule Q, erule at_post, simp add: pending_spec_def; fail))+
qed

lemmas at_rules = at_csm at_read at_mods at_chip at_enqueue at_age_flag

text \<open>The entry was taken out, as the specification has it.\<close>

lemma post_None: "entry_post c p w0 None w \<Longrightarrow> r = None \<Longrightarrow> entry_post c p w0 r w"
  by simp

lemma post_eq: "entry_post c p w0 r w \<Longrightarrow> r' = r \<Longrightarrow> entry_post c p w0 r' w"
  by simp

lemma peer_disconn_fdb_refines:
  assumes inv: "mac_inv c w" and csm: "w_csm w c = Some csm"
  shows "safe (refines c w (disconn_spec (csm_peer_itf_name csm))) (mlacp_peer_disconn_fdb_handler c w)"
proof -
  have "safe (entry_post c p w1 (disconn_spec (csm_peer_itf_name csm) l)) (disconn_fdb_entry c p w1)"
    if at: "entry_at c p w1 l w1" and only: "mac_only c w w1" for p w1 l
  proof -
    obtain csm1 where csm1: "w_csm w1 c = Some csm1" "csm_peer_itf_name csm1 = csm_peer_itf_name csm"
      using mac_only_csm [OF only csm] by metis
    show ?thesis
      unfolding disconn_fdb_entry_def
      by (rule at csm1(1) safe_rules at_rules at_remove | assumption
          | (rule at_post [OF at], simp add: disconn_spec_def csm1(2); fail)
          | (erule at_post, simp add: disconn_spec_def age_flags_both_def csm1(2); fail)
          | (erule post_None, simp add: disconn_spec_def age_flags_both_def csm1(2); fail))+
  qed
  then show ?thesis
    unfolding mlacp_peer_disconn_fdb_handler_def csm Option.bind.bind_lunit
    by (intro fdb_loop [OF inv csm]) blast
qed

lemma peerlink_down_refines:
  assumes inv: "mac_inv c w" and csm: "w_csm w c = Some csm"
  shows "safe (refines c w (peerlink_down_spec (csm_peer_itf_name csm))) (foreach (peerlink_down_entry c) (mac_rb c w) w)"
proof -
  have "safe (entry_post c p w1 (peerlink_down_spec (csm_peer_itf_name csm) l)) (peerlink_down_entry c p w1)"
    if at: "entry_at c p w1 l w1" and only: "mac_only c w w1" for p w1 l
  proof -
    obtain csm1 where csm1: "w_csm w1 c = Some csm1" "csm_peer_itf_name csm1 = csm_peer_itf_name csm"
      using mac_only_csm [OF only csm] by metis
    show ?thesis
      unfolding peerlink_down_entry_def
      by (rule at csm1(1) safe_rules at_rules at_remove | assumption
          | (rule at_post [OF at], simp add: peerlink_down_spec_def csm1(2); fail)
          | (erule at_post, simp add: peerlink_down_spec_def age_flags_both_def local_age_flag_def csm1(2); fail)
          | (erule post_None, simp add: peerlink_down_spec_def age_flags_both_def local_age_flag_def csm1(2); fail))+
  qed
  then show ?thesis using fdb_loop [OF inv csm, of "peerlink_down_spec (csm_peer_itf_name csm)" "peerlink_down_entry c"]
    by (simp add: csm)
qed

lemma at_intf_down:
  assumes at: "entry_at c p w1 l w1" and env: "env_ok c w1" and csm: "w_csm w1 c = Some csm" and port: "l_origin l = port"
  shows "safe (entry_post c p w1 (intf_down_spec (csm_peer_itf_name csm) up port l)) (l2_mac_intf_down c up p w1)"
  unfolding l2_mac_intf_down_def
  by (rule at env csm safe_rules at_rules at_remove at_redirect_or_del | assumption
      | (erule at_post, auto simp: intf_down_spec_def age_flags_both_def local_age_flag_def port; fail)
      | (erule post_None, auto simp: intf_down_spec_def age_flags_both_def local_age_flag_def port; fail))+

lemma at_intf_up:
  assumes at: "entry_at c p w1 l w1" and csm: "w_csm w1 c = Some csm" and port: "l_origin l = port"
  shows "safe (entry_post c p w1 (intf_up_spec (csm_peer_itf_name csm) port l)) (l2_mac_intf_up c p w1)"
  unfolding l2_mac_intf_up_def
  by (rule at csm safe_rules at_rules at_clear_pending | assumption
      | (rule at_post [OF at], simp add: intf_up_spec_def port; fail)
      | (erule at_post, simp add: intf_up_spec_def port; fail)
      | (erule post_eq, simp add: intf_up_spec_def port; fail))+


definition peer_if_up :: "csm_ptr \<Rightarrow> string \<Rightarrow> world \<Rightarrow> bool" where
  "peer_if_up c n w = (case peer_if_find_by_name (Some c) n w of
     Some (Some q) \<Rightarrow> (case w_pif w q of Some pi \<Rightarrow> pif_state pi = PORT_STATE_UP | None \<Rightarrow> False) | _ \<Rightarrow> False)"

lemma update_l2_mac_state_refines:
  assumes inv: "mac_inv c w" and env: "env_ok c w" and csm: "w_csm w c = Some csm" and lif: "w_lif w l = Some lif"
  shows "safe (refines c (upd_lif l (lif_po_down_time_update (\<lambda>_. if po_state = 0 then w_now w else 0)) w)
      (if po_state = 0 then intf_down_spec (csm_peer_itf_name csm) (peer_if_up c (lif_name lif) w) (lif_name lif)
       else intf_up_spec (csm_peer_itf_name csm) (lif_name lif)))
    (update_l2_mac_state c l po_state w)"
proof -
  define w0 where "w0 = upd_lif l (lif_po_down_time_update (\<lambda>_. if po_state = 0 then w_now w else 0)) w"
  let ?n = "lif_name lif" and ?peer = "csm_peer_itf_name csm" and ?up = "peer_if_up c (lif_name lif) w"
  obtain r where r: "peer_if_find_by_name (Some c) ?n w = Some r" "\<forall>q. r = Some q \<longrightarrow> w_pif w q \<noteq> None"
    using find_pif_total [OF env] by blast
  have up: "(case r of None \<Rightarrow> Some False | Some q \<Rightarrow> w_pif w q \<bind> (\<lambda>pi. Some (pif_state pi = PORT_STATE_UP))) = Some ?up"
    using r by (cases r) (auto simp: peer_if_up_def)
  have csm0: "w_csm w0 c = Some csm" and inv0: "mac_inv c w0" and env0: "env_ok c w0"
    using csm inv env_upd_lif [OF env] by (simp_all add: w0_def)
  let ?g = "if po_state = 0 then intf_down_spec ?peer ?up ?n else intf_up_spec ?peer ?n"
  let ?f = "\<lambda>p w. do { m \<leftarrow> w_mac w p;
       if ?n \<noteq> mac_origin_ifname m then Some w
       else if po_state = 0 then l2_mac_intf_down c ?up p w else l2_mac_intf_up c p w }"
  have "safe (entry_post c p w1 (?g x)) (?f p w1)"
    if at: "entry_at c p w1 x w1" and only: "mac_only c w0 w1" for p w1 x
  proof -
    obtain csm1 where csm1: "w_csm w1 c = Some csm1" "csm_peer_itf_name csm1 = ?peer" using mac_only_csm [OF only csm0] by metis
    have env1: "env_ok c w1" by (rule mac_only_env [OF only env0])
    have other: "entry_post c p w1 (?g x) w1" if "?n \<noteq> l_origin x"
      using that by (intro at_post [OF at]) (simp add: intf_down_spec_def intf_up_spec_def)
    have down: "safe (entry_post c p w1 (?g x)) (l2_mac_intf_down c ?up p w1)" if "l_origin x = ?n" "po_state = 0"
      using at_intf_down [OF at env1 csm1(1) that(1), of ?up] that by (simp add: csm1(2))
    have upp: "safe (entry_post c p w1 (?g x)) (l2_mac_intf_up c p w1)" if "l_origin x = ?n" "po_state \<noteq> 0"
      using at_intf_up [OF at csm1(1) that(1)] that by (simp add: csm1(2))
    show ?thesis
      by (rule safe_bindI, rule at_read [OF at], intro safe_rules) (use other down upp in simp_all)
  qed
  then have "safe (refines c w0 ?g) (foreach ?f (ml_mac_rb (MLACP csm)) w0)"
    by (intro fdb_loop [OF inv0 csm0]) blast
  then show ?thesis
    unfolding update_l2_mac_state_def by (simp add: lif r(1) up w0_def [symmetric] csm0)
qed

lemma clear_pending_refines:
  assumes inv: "mac_inv c w" and csm: "w_csm w c = Some csm" and lif: "w_lif w l = Some lif"
  shows "safe (refines c w (clear_pending_spec (lif_name lif))) (mlacp_local_lif_clear_pending_mac c l w)"
proof -
  have "safe (entry_post c p w1 (clear_pending_spec (lif_name lif) x)) (do {
       m \<leftarrow> w_mac w1 p;
       if mac_pending_local_del m \<noteq> 0 \<and> mac_origin_ifname m = lif_name lif then clear_pending_mac c p w1
       else Some w1 })"
    if at: "entry_at c p w1 x w1" for p w1 x
    by (rule at safe_rules at_read at_clear_pending | assumption
      | (rule at_post [OF at], auto simp: clear_pending_spec_def; fail)
      | (erule post_eq, simp add: clear_pending_spec_def; fail))+
  then show ?thesis
    unfolding mlacp_local_lif_clear_pending_mac_def lif csm Option.bind.bind_lunit
    by (intro fdb_loop [OF inv csm]) blast
qed

end
