(* ===== verification/Mac_Learn_Refinement.thy ===== *)
theory Mac_Learn_Refinement
  imports Mac_Refinement
begin

text \<open>
  Learning as an operation on the abstract table: what an update from the local
  forwarding table or from the peer makes of the one address it names, and that it
  leaves every other address alone.
\<close>

subsection \<open>Specifications\<close>

text \<open>An update of the peer for an address that is in the table.\<close>

definition moved_spec :: "string \<Rightarrow> string \<Rightarrow> bool \<Rightarrow> bool \<Rightarrow> Learned \<Rightarrow> Learned option" where
  "moved_spec peer_itf n mclag lif_down l =
     (if \<not> mclag \<or> lif_down then
        let l = l\<lparr>l_origin := n, l_age := l_age l OR MAC_AGE_LOCAL\<rparr> in
        if peer_itf \<noteq> [] then Some (l\<lparr>l_ifname := peer_itf\<rparr>)
        else if mclag then Some (l\<lparr>l_ifname := n\<rparr>) else None
      else Some (l\<lparr>l_origin := n, l_ifname := n\<rparr>))"

definition peer_add_spec :: "string \<Rightarrow> string \<Rightarrow> bool \<Rightarrow> bool \<Rightarrow> Learned \<Rightarrow> Learned option" where
  "peer_add_spec peer_itf n mclag lif_down l = (let
     l1 = (if mclag \<and> l_pending l \<noteq> 0 then l\<lparr>l_pending := 0, l_age := MAC_AGE_LOCAL\<rparr>
           else l\<lparr>l_age := l_age l AND NOT MAC_AGE_PEER\<rparr>)
   in if l_ifname l \<noteq> n \<or> l_origin l \<noteq> n then
        if l_type l \<noteq> MAC_TYPE_STATIC then moved_spec peer_itf n mclag lif_down l1
        else Some (l1\<lparr>l_age := l_age l1 OR MAC_AGE_PEER\<rparr>)
      else if \<not> mclag \<and> peer_itf \<noteq> [] then Some (l1\<lparr>l_ifname := peer_itf\<rparr>)
      else Some l1)"

text \<open>An update of the local forwarding table for an address that is in the table.\<close>

definition local_add_spec :: "string \<Rightarrow> string \<Rightarrow> u8 \<Rightarrow> bool \<Rightarrow> Learned \<Rightarrow> Learned option" where
  "local_add_spec peer_itf n ty redirected l =
     (if redirected then Some (l\<lparr>l_pending := 1, l_type := ty, l_origin := n, l_ifname := peer_itf\<rparr>)
      else if l_type l \<noteq> ty \<or> l_ifname l \<noteq> n \<or> l_origin l \<noteq> n
      then Some (l\<lparr>l_type := ty, l_ifname := n, l_origin := n, l_age := MAC_AGE_PEER\<rparr>)
      else Some (l\<lparr>l_age := l_age l AND NOT MAC_AGE_LOCAL\<rparr>))"

definition local_del_spec :: "string \<Rightarrow> bool \<Rightarrow> Learned \<Rightarrow> Learned option" where
  "local_del_spec peer_itf po_down l =
     (if l_ifname l = peer_itf \<and> l_pending l \<noteq> 0 then Some l
      else let l1 = l\<lparr>l_age := l_age l OR MAC_AGE_LOCAL\<rparr> in
        if l_age l1 = (MAC_AGE_LOCAL OR MAC_AGE_PEER) then None
        else if l_ifname l \<noteq> peer_itf \<and> po_down \<and> peer_itf \<noteq> [] then Some (l1\<lparr>l_ifname := peer_itf\<rparr>)
        else Some l1)"

subsection \<open>One entry\<close>

lemma entry_at_upd_id: "l_ifname l = n \<Longrightarrow> l\<lparr>l_ifname := n\<rparr> = l"
  by (cases l) simp

lemma at_redirect_add:
  assumes "entry_at c p w0 l w" "\<And>w'. entry_at c p w0 (l\<lparr>l_ifname := csm_peer_itf_name csm\<rparr>) w' \<Longrightarrow> Q w'"
  shows "safe Q (redirect_add csm p w)"
  unfolding redirect_add_def by (rule assms safe_rules at_mods at_chip | assumption)+

lemma at_io:
  assumes at: "entry_at c p w0 l w" and io: "io_step w w'"
  shows "entry_at c p w0 l w'"
  using at kept_io [OF at_kept [OF at] io] io_frame(4) [OF io] by (simp add: entry_at_def)

lemma at_syncd_add_existing:
  assumes at: "entry_at c p w l w" and csm: "w_csm w c = Some csm" and age: "mac_age_flag msg = 0"
  shows "safe (entry_post c p w (local_add_spec (csm_peer_itf_name csm) (mac_ifname msg) (mac_fdb_type msg) (ld \<and> fm \<and> pu) l))
    (syncd_add_existing c p msg ld fm pu w)"
proof -
  let ?spec = "local_add_spec (csm_peer_itf_name csm) (mac_ifname msg) (mac_fdb_type msg) (ld \<and> fm \<and> pu) l"
  have io: "entry_post c p w ?spec (snd (del_mac_from_chip msg w'))" if "entry_at c p w x w'" "?spec = Some x" for x w'
    using at_post [OF at_io [OF that(1) chip_io(1)]] that(2) .
  show ?thesis
    unfolding syncd_add_existing_def
    by (rule at csm safe_rules at_rules | assumption | (simp add: age; fail)
        | (erule at_post, auto simp: local_add_spec_def entry_at_upd_id; fail)
        | (erule io, auto simp: local_add_spec_def local_age_flag_def; fail))+
qed


lemma at_syncd_del:
  assumes at: "entry_at c p w l w" and env: "env_ok c w" and csm: "w_csm w c = Some csm"
    and po: "(case lif_po of None \<Rightarrow> Some False | Some x \<Rightarrow> w_lif w x \<bind> (\<lambda>lif. Some (lif_state lif = PORT_STATE_DOWN))) = Some pd"
  shows "safe (entry_post c p w (local_del_spec (csm_peer_itf_name csm) pd l)) (syncd_del c p lif_po w)"
proof -
  let ?spec = "local_del_spec (csm_peer_itf_name csm) pd l"
  have lif: "w_lif w' = w_lif w" and env': "env_ok c w'" if "entry_at c p w x w'" for w' x
    using entry_stepD(1) [OF kept_step [OF at_kept [OF that]]] mac_only_env [OF _ env] by (auto simp: mac_only_def)
  have link: "safe Q (case csm_peer_link_if csm of None \<Rightarrow> Some w'
      | Some l \<Rightarrow> w_lif w' l \<bind> (\<lambda>lif. if lif_state lif \<noteq> PORT_STATE_DOWN then on_mac p readd_mac_to_chip w' else Some w'))"
    if "entry_at c p w x w'" "\<And>w'. entry_at c p w x w' \<Longrightarrow> Q w'" for w' x Q
    using that env lif [OF that(1)] csm by (auto simp: env_ok_def intro!: at_chip split: option.split)
  have po': "safe Q (case lif_po of None \<Rightarrow> Some False | Some l \<Rightarrow> w_lif w' l \<bind> (\<lambda>lif. Some (lif_state lif = PORT_STATE_DOWN)))"
    if "entry_at c p w x w'" "Q pd" for Q w' x
    unfolding lif [OF that(1)] po using that(2) by simp
  have fin: "safe Q (case r of None \<Rightarrow> Some w'
      | Some l \<Rightarrow> w_lif w' l \<bind> (\<lambda>lif. if lif_state lif = PORT_STATE_UP then on_mac p readd_mac_to_chip w' else Some w'))"
    if "entry_at c p w x w'" "\<forall>l. r = Some l \<longrightarrow> w_lif w' l \<noteq> None" "\<And>w'. entry_at c p w x w' \<Longrightarrow> Q w'" for r w' x Q
    using that by (auto intro!: at_chip split: option.split)
  have csm': "safe Q (w_csm w c)" if "Q csm" for Q using that csm by simp
  show ?thesis
    unfolding syncd_del_def
    by (rule at env csm safe_rules csm' at_rules at_remove link po' fin at_peer_link_up safe_find_lif [OF env'] | assumption | (simp; fail)
        | (rule at_post [OF at], simp add: local_del_spec_def; fail)
        | (erule at_post, auto simp: local_del_spec_def local_age_flag_def age_flags_both_def; fail)
        | (erule post_None, auto simp: local_del_spec_def local_age_flag_def age_flags_both_def; fail))+
qed

lemma at_peer_add_moved:
  assumes at: "entry_at c p w0 l w" and env: "env_ok c w0" and csm: "w_csm w0 c = Some csm"
    and link: "csm_peer_itf_name csm \<noteq> [] \<or> mclag"
  shows "safe (entry_post c p w0 (moved_spec (csm_peer_itf_name csm) n mclag ld l)) (peer_add_moved c p n mclag ld w)"
proof -
  have dead: "safe Q (remove_mac c p w2)" if "csm_peer_itf_name x = csm_peer_itf_name csm" "\<not> csm_peer_itf_name x \<noteq> []" "\<not> mclag" for Q x w2
    using that link by simp
  show ?thesis
    unfolding peer_add_moved_def
    by (rule at env csm safe_rules dead at_rules at_peer_link_up at_redirect_add | assumption
        | (erule at_post, auto simp: moved_spec_def local_age_flag_def Let_def entry_at_upd_id; fail))+
qed

lemma at_peer_add_existing:
  assumes at: "entry_at c p w l w" and env: "env_ok c w" and csm: "w_csm w c = Some csm"
    and link: "csm_peer_itf_name csm \<noteq> [] \<or> mclag"
  shows "safe (entry_post c p w (peer_add_spec (csm_peer_itf_name csm) n mclag ld l)) (peer_add_existing c p n mclag ld w)"
proof -
  let ?spec = "peer_add_spec (csm_peer_itf_name csm) n mclag ld l"
  have moved: "safe (entry_post c p w ?spec) (peer_add_moved c p n mclag ld w')"
    if "entry_at c p w x w'" "?spec = moved_spec (csm_peer_itf_name csm) n mclag ld x" for w' x
    using at_peer_add_moved [OF that(1) env csm link] that(2) by simp
  show ?thesis
    unfolding peer_add_existing_def
    by (rule at env csm link safe_rules at_rules at_peer_link_up at_redirect_add | assumption
        | (erule moved, auto simp: peer_add_spec_def Let_def; fail)
        | (erule at_post, auto simp: peer_add_spec_def Let_def entry_at_upd_id; fail))+
qed

lemma at_peer_del_existing:
  assumes at: "entry_at c p w l w"
  shows "safe (entry_post c p w (peer_del_spec l)) (peer_del_existing c p w)"
  unfolding peer_del_existing_def
  by (rule at safe_rules at_rules at_remove | assumption
      | (erule at_post, auto simp: peer_del_spec_def age_flags_both_def; fail)
      | (erule post_None, auto simp: peer_del_spec_def age_flags_both_def; fail))+


subsection \<open>The whole table\<close>

lemma fdb_inserted:
  assumes inv: "mac_inv c w" and ins: "inserted c p m w w'"
  shows "fdb c w' = (fdb c w)((mac_vid m, mac_addr m) \<mapsto> learned m)"
proof
  fix k :: "u16 \<times> bytes"
  obtain vid addr where k: "k = (vid, addr)" by fastforce
  have inv': "mac_inv c w'" using ins by (simp add: inserted_def table_step_def)
  have p: "p \<in> set (mac_rb c w')" "w_mac w' p = Some m" using ins by (auto simp: inserted_def)
  have old: "key_of w' q = key_of w q" "w_mac w' q = w_mac w q" "q \<in> set (mac_rb c w')" if "q \<in> set (mac_rb c w)" for q
    using that ins by (auto simp: inserted_def key_of_def)
  show "fdb c w' k = ((fdb c w)((mac_vid m, mac_addr m) \<mapsto> learned m)) k"
  proof (cases "k = (mac_vid m, mac_addr m)")
    case True
    then have "fdb c w' k = Some (learned m)" using fdb_Some [OF inv' p(1), of vid addr] p(2) by (simp add: k same_key_def)
    with True show ?thesis by simp
  next
    case False
    show ?thesis
    proof (cases "fdb c w k")
      case None
      have "key_of w' q \<noteq> k" if "q \<in> set (mac_rb c w')" for q
      proof (cases "q = p")
        case True
        then show ?thesis using False p(2) by (auto simp: key_of_def)
      next
        case neq: False
        then have "q \<in> set (mac_rb c w)" using that ins by (auto simp: inserted_def)
        then show ?thesis using old(1) None unfolding k by (auto simp: fdb_None same_key_of)
      qed
      then have "fdb c w' k = None" by (simp add: k fdb_None same_key_of)
      then show ?thesis using None False by simp
    next
      case (Some l)
      then obtain q where q: "q \<in> set (mac_rb c w)" "same_key vid addr (the (w_mac w q))" "learned (the (w_mac w q)) = l"
        unfolding k by (rule fdb_obtain)
      then have "fdb c w' k = Some l" using fdb_Some [OF inv' old(3) [OF q(1)], of vid addr] old(2) [OF q(1)] by (simp add: k)
      then show ?thesis using Some False by simp
    qed
  qed
qed

text \<open>The table after the handler is the one before with the entry of one key set to \<open>r\<close>.\<close>

definition updates :: "csm_ptr \<Rightarrow> world \<Rightarrow> u16 \<times> bytes \<Rightarrow> Learned option \<Rightarrow> world \<Rightarrow> bool" where
  "updates c w k r w' \<longleftrightarrow> table_step c w w' \<and> fdb c w' = (fdb c w)(k := r)"

lemma updates_same: "mac_inv c w \<Longrightarrow> r = fdb c w k \<Longrightarrow> updates c w k r w"
  by (simp add: updates_def table_refl)

lemma updates_post:
  assumes "mac_inv c w" "p \<in> set (mac_rb c w)" "key_of w p = k" "safe (entry_post c p w r) x"
  shows "safe (updates c w k r) x"
  using assms(4)
  by (rule safe_mono) (use fdb_step [OF assms(1,2)] assms(3) in \<open>auto simp: updates_def entry_post_def entry_table_step\<close>)

lemma fdb_io: "io_step w w' \<Longrightarrow> fdb c w' = fdb c w"
  by (rule ext) (simp add: fdb_def io_frame)

lemma updates_io: "updates c w k r w' \<Longrightarrow> io_step w' w'' \<Longrightarrow> updates c w k r w''"
  unfolding updates_def using table_io fdb_io by metis

lemma updates_inserted:
  "mac_inv c w \<Longrightarrow> inserted c p m w w' \<Longrightarrow> updates c w (mac_vid m, mac_addr m) (Some (learned m)) w'"
  using fdb_inserted [of c w p m w'] by (simp add: updates_def) (simp add: inserted_def)

lemma updates_enqueue:
  assumes up: "updates c w k r w'" and p: "p \<in> set (mac_rb c w')"
  shows "safe (updates c w k r) (mac_enqueue c p w')"
proof -
  have inv: "mac_inv c w'" using up by (simp add: updates_def table_step_def)
  have at: "entry_at c p w' (learned (the (w_mac w' p))) w'" by (rule at_start [OF inv p])
  have "safe (entry_post c p w' (Some (learned (the (w_mac w' p))))) (mac_enqueue c p w')"
    by (rule at_enqueue [OF at]) (simp add: at_post)
  then show ?thesis
  proof (rule safe_mono)
    fix w2 assume post: "entry_post c p w' (Some (learned (the (w_mac w' p)))) w2"
    have "fdb c w' (key_of w' p) = Some (learned (the (w_mac w' p)))"
      using fdb_Some [OF inv p] by (simp add: key_of_def same_key_def)
    then have "fdb c w2 = fdb c w'" using fdb_step [OF inv p post] by (simp add: fun_upd_idem)
    moreover have "table_step c w' w2" using post entry_table_step unfolding entry_post_def by blast
    ultimately show "updates c w k r w2" using up table_step_trans unfolding updates_def by metis
  qed
qed


text \<open>The MLAG interface a name stands for, and whether it is there and down.\<close>

definition mclag_if :: "csm_ptr \<Rightarrow> string \<Rightarrow> world \<Rightarrow> LocalInterface option" where
  "mclag_if c n w = (case w_csm w c of None \<Rightarrow> None | Some csm \<Rightarrow>
     find (\<lambda>l. lif_type l = IF_T_PORT_CHANNEL \<and> lif_name l = n) (List.map_filter (w_lif w) (ml_lif_list (MLACP csm))))"

definition if_down :: "LocalInterface option \<Rightarrow> bool" where
  "if_down r = (case r of None \<Rightarrow> False | Some l \<Rightarrow> lif_state l = PORT_STATE_DOWN)"

lemma mclag_if_find:
  assumes env: "env_ok c w" and csm: "w_csm w c = Some csm"
  obtains r where "find_ptr (w_lif w) (\<lambda>l. lif_type l = IF_T_PORT_CHANNEL \<and> lif_name l = n) (ml_lif_list (MLACP csm)) = Some r"
    "\<forall>x. r = Some x \<longrightarrow> w_lif w x \<noteq> None" "mclag_if c n w = Option.bind r (w_lif w)"
proof -
  have sub: "set (ml_lif_list (MLACP csm)) \<subseteq> dom (w_lif w)" using env csm by (simp add: env_ok_def)
  let ?P = "\<lambda>l. lif_type l = IF_T_PORT_CHANNEL \<and> lif_name l = n"
  have "find_ptr (w_lif w) ?P ps = Some r \<Longrightarrow> find ?P (List.map_filter (w_lif w) ps) = Option.bind r (w_lif w)"
    if "set ps \<subseteq> dom (w_lif w)" for ps r
    using that by (induction ps) (auto simp: List.map_filter_simps split: if_splits)
  moreover obtain r where "find_ptr (w_lif w) ?P (ml_lif_list (MLACP csm)) = Some r" using find_ptr_total [OF sub] by blast
  ultimately show ?thesis using that [of r] sub find_ptr_Some by (fastforce simp: mclag_if_def csm)
qed

text \<open>What an update of the peer makes of the entry for its address.\<close>

definition peer_update_spec :: "CSM \<Rightarrow> mLACPMACData \<Rightarrow> LocalInterface option \<Rightarrow> bool \<Rightarrow> Learned option \<Rightarrow> Learned option" where
  "peer_update_spec csm d lif alloc old = (case old of
       Some l \<Rightarrow>
         if md_type d = MAC_SYNC_ADD then peer_add_spec (csm_peer_itf_name csm) (md_ifname d) (lif \<noteq> None) (if_down lif) l
         else if md_type d = MAC_SYNC_DEL then peer_del_spec l else Some l
     | None \<Rightarrow>
         if md_type d = MAC_SYNC_ADD \<and> alloc then Some (learned (peer_entry csm d (lif = None \<or> if_down lif))) else None)"

lemma peer_add_new_updates:
  assumes inv: "mac_inv c w" and env: "env_ok c w" and len: "length (md_mac_addr d) = 6"
    and new: "\<forall>p \<in> set (mac_rb c w). \<not> same_key (ntohs (md_vid d)) (md_mac_addr d) (the (w_mac w p))"
    and l: "\<forall>x. local_if = Some x \<longrightarrow> w_lif w x \<noteq> None" and csm: "w_csm w c = Some csm"
    and link: "csm_peer_itf_name csm \<noteq> []" and lif: "lif = Option.bind local_if (w_lif w)"
  shows "safe (updates c w (ntohs (md_vid d), md_mac_addr d)
      (if fst (malloc_ok w) then Some (learned (peer_entry csm d (lif = None \<or> if_down lif))) else None))
    (peer_add_new c d local_if w)"
proof -
  define ld where "ld = (lif = None \<or> if_down lif)"
  have ld: "(case local_if of None \<Rightarrow> Some True | Some l \<Rightarrow> w_lif w l \<bind> (\<lambda>lif. Some (lif_state lif = PORT_STATE_DOWN))) = Some ld"
    using l by (auto simp: ld_def lif if_down_def split: option.splits)
  define m where "m = peer_entry csm d ld"
  let ?k = "(ntohs (md_vid d), md_mac_addr d)"
  define res where "res = (if fst (malloc_ok w) then Some (learned m) else None)"
  obtain r w1 where i: "iccp_csm_init_mac_msg m w = (r, w1)" by fastforce
  have r: "r = (if fst (malloc_ok w) then Some (w_fresh w) else None)" and w1: "r = None \<Longrightarrow> w1 = snd (malloc_ok w)"
    using i by (auto simp: iccp_csm_init_mac_msg_def case_prod_beta Let_def split: if_splits)
  have "safe (updates c w ?k res) (case r of None \<Rightarrow> Some w1 | Some p \<Rightarrow> do {
         w \<leftarrow> mac_rb_insert c p w1;
         if mac_ifname m = csm_peer_itf_name csm then do {
           up \<leftarrow> peer_link_up csm w;
           Some (if up then snd (readd_mac_to_chip m w) else w) }
         else (case local_if of None \<Rightarrow> None | Some _ \<Rightarrow> Some (if \<not> ld then snd (readd_mac_to_chip m w) else w)) })"
  proof (cases r)
    case None
    have "fdb c w1 = fdb c w" by (rule ext) (simp add: fdb_def w1 [OF None])
    moreover have "fdb c w ?k = None" using new by (simp add: fdb_None)
    ultimately have "updates c w ?k None w1" using init_mac_msg_ok [OF inv i] by (auto simp: updates_def)
    then show ?thesis using None r by (simp add: res_def split: if_splits)
  next
    case (Some p)
    have ins: "safe (inserted c p m w) (mac_rb_insert c p w1)"
      using len new i Some by (intro insert_new_ok [OF inv]) (auto simp: m_def mac_key_ok_def)
    have up: "safe Q (peer_link_up csm w2)" if "inserted c p m w w2" "\<And>b. Q b" for Q w2
      using that env csm by (auto simp: inserted_def table_step_def mac_only_def peer_link_up_def env_ok_def split: option.splits)
    have u: "updates c w ?k res w2" if "inserted c p m w w2" for w2
      using updates_inserted [OF inv that] Some r by (simp add: m_def res_def split: if_splits)
    have io: "updates c w ?k res (snd (readd_mac_to_chip m w2))" if "inserted c p m w w2" for w2
      by (rule updates_io [OF u [OF that] chip_io(3)])
    have "mac_ifname m = csm_peer_itf_name csm" if "local_if = None" using that link lif by (simp add: m_def ld_def)
    then show ?thesis
      unfolding Some option.case safe_bind
      by (intro safe_mono [OF ins]) (auto intro!: up intro: io u split: option.split)
  qed
  then show ?thesis
    unfolding peer_add_new_def csm Option.bind.bind_lunit ld Let_def ld_def [symmetric] m_def [symmetric]
    using i link unfolding m_def peer_entry_def Let_def res_def by (auto simp: case_prod_beta)
qed

lemma peer_update_refines:
  assumes inv: "mac_inv c w" and env: "env_ok c w" and len: "length (md_mac_addr d) = 6" and csm: "w_csm w c = Some csm"
    and addr: "md_mac_addr d \<noteq> replicate 6 0" and link: "csm_peer_itf_name csm \<noteq> []"
  shows "safe (updates c w (ntohs (md_vid d), md_mac_addr d)
      (peer_update_spec csm d (mclag_if c (md_ifname d) w) (fst (malloc_ok w)) (fdb c w (ntohs (md_vid d), md_mac_addr d))))
    (mlacp_fsm_update_mac_entry_from_peer c d w)"
proof -
  let ?k = "(ntohs (md_vid d), md_mac_addr d)"
  obtain r where r: "find_ptr (w_lif w) (\<lambda>l. lif_type l = IF_T_PORT_CHANNEL \<and> lif_name l = md_ifname d) (ml_lif_list (MLACP csm)) = Some r"
    "\<forall>x. r = Some x \<longrightarrow> w_lif w x \<noteq> None" "mclag_if c (md_ifname d) w = Option.bind r (w_lif w)"
    using mclag_if_find [OF env csm] by blast
  have nz: "memcmp (md_mac_addr d) (replicate 6 0) \<noteq> 0" using memcmp_eq_0 [of "md_mac_addr d" "replicate 6 0"] len addr by simp
  have ld: "(case r of None \<Rightarrow> Some False | Some l \<Rightarrow> w_lif w l \<bind> (\<lambda>lif. Some (lif_state lif = PORT_STATE_DOWN)))
      = Some (if_down (mclag_if c (md_ifname d) w))"
    using r(2,3) by (auto simp: if_down_def split: option.splits)
  have mc: "(r \<noteq> None) = (mclag_if c (md_ifname d) w \<noteq> None)" using r(2,3) by (cases r) auto
  let ?s = "\<lambda>old. peer_update_spec csm d (mclag_if c (md_ifname d) w) (fst (malloc_ok w)) old"
  show ?thesis
    unfolding mlacp_fsm_update_mac_entry_from_peer_def csm Option.bind.bind_lunit r(1) if_not_P [OF nz]
  proof (rule safe_bindI, rule safe_find_mac [OF inv len])
    fix p assume p: "p \<in> set (mac_rb c w)" and k: "same_key (ntohs (md_vid d)) (md_mac_addr d) (the (w_mac w p))"
    let ?l = "learned (the (w_mac w p))"
    have at: "entry_at c p w ?l w" by (rule at_start [OF inv p])
    have f: "fdb c w ?k = Some ?l" by (rule fdb_Some [OF inv p k])
    have key: "key_of w p = ?k" using k by (simp add: same_key_of)
    have "safe (entry_post c p w (?s (Some ?l)))
      (if md_type d = MAC_SYNC_ADD
       then (case r of None \<Rightarrow> Some False | Some l \<Rightarrow> w_lif w l \<bind> (\<lambda>lif. Some (lif_state lif = PORT_STATE_DOWN))) \<bind>
         (\<lambda>lif_down. peer_add_existing c p (md_ifname d) (r \<noteq> None) lif_down w)
       else if md_type d = MAC_SYNC_DEL then peer_del_existing c p w else Some w)"
      unfolding ld Option.bind.bind_lunit mc
      using at_peer_add_existing [OF at env csm] at_peer_del_existing [OF at] link at_post [OF at]
      by (simp add: peer_update_spec_def)
    then show "safe (updates c w ?k (?s (fdb c w ?k)))
       (case Some p of None \<Rightarrow> if md_type d = MAC_SYNC_ADD then peer_add_new c d r w else Some w
        | Some p \<Rightarrow> if md_type d = MAC_SYNC_ADD
            then (case r of None \<Rightarrow> Some False | Some l \<Rightarrow> w_lif w l \<bind> (\<lambda>lif. Some (lif_state lif = PORT_STATE_DOWN))) \<bind>
              (\<lambda>lif_down. peer_add_existing c p (md_ifname d) (r \<noteq> None) lif_down w)
            else if md_type d = MAC_SYNC_DEL then peer_del_existing c p w else Some w)"
      unfolding f option.case by (rule updates_post [OF inv p key])
  next
    assume new: "\<forall>p \<in> set (mac_rb c w). \<not> same_key (ntohs (md_vid d)) (md_mac_addr d) (the (w_mac w p))"
    then have f: "fdb c w ?k = None" by (simp add: fdb_None)
    have "safe (updates c w ?k (?s None)) (if md_type d = MAC_SYNC_ADD then peer_add_new c d r w else Some w)"
      using peer_add_new_updates [OF inv env len new r(2) csm link r(3)] updates_same [OF inv f [symmetric]]
      by (simp add: peer_update_spec_def split: if_splits)
    then show "safe (updates c w ?k (?s (fdb c w ?k)))
       (case None of None \<Rightarrow> if md_type d = MAC_SYNC_ADD then peer_add_new c d r w else Some w
        | Some p \<Rightarrow> if md_type d = MAC_SYNC_ADD
            then (case r of None \<Rightarrow> Some False | Some l \<Rightarrow> w_lif w l \<bind> (\<lambda>lif. Some (lif_state lif = PORT_STATE_DOWN))) \<bind>
              (\<lambda>lif_down. peer_add_existing c p (md_ifname d) (r \<noteq> None) lif_down w)
            else if md_type d = MAC_SYNC_DEL then peer_del_existing c p w else Some w)"
      unfolding f by simp
  qed
qed


text \<open>What an update of the local forwarding table makes of the entry for its address.\<close>

definition looked_up :: "('p \<Rightarrow> 'a option) \<Rightarrow> 'p option option \<Rightarrow> 'a option" where
  "looked_up heap r = (case r of Some (Some p) \<Rightarrow> heap p | _ \<Rightarrow> None)"

definition local_update_spec :: "string \<Rightarrow> LocalInterface option \<Rightarrow> LocalInterface option \<Rightarrow> PeerInterface option \<Rightarrow>
    string \<Rightarrow> u8 \<Rightarrow> u8 \<Rightarrow> bool \<Rightarrow> Learned option \<Rightarrow> Learned option" where
  "local_update_spec peer_itf po lif pif n ty op alloc old =
     (if op = MAC_SYNC_ADD then
        if lif = None \<or> peer_itf = n then old
        else (case old of
            Some l \<Rightarrow> local_add_spec peer_itf n ty (if_down lif \<and> po \<noteq> None \<and> map_option pif_state pif = Some PORT_STATE_UP) l
          | None \<Rightarrow>
              if po \<noteq> None \<and> if_down lif \<and> map_option pif_state pif = Some PORT_STATE_DOWN \<or> \<not> alloc then None
              else Some \<lparr>l_ifname = n, l_origin = n, l_type = ty, l_age = MAC_AGE_PEER, l_pending = 0\<rparr>)
      else Option.bind old (local_del_spec peer_itf (if_down po)))"

lemma syncd_add_new_updates:
  assumes inv: "mac_inv c w" and m: "mac_key_ok msg" "\<not> mac_in_msg_list msg"
    "\<forall>p \<in> set (mac_rb c w). \<not> same_key (mac_vid msg) (mac_addr msg) (the (w_mac w p))"
  shows "safe (updates c w (mac_vid msg, mac_addr msg)
      (if fm \<and> ld \<and> pd \<or> \<not> fst (malloc_ok w) then None
       else Some (learned (msg\<lparr>mac_age_flag := mac_age_flag msg OR MAC_AGE_PEER\<rparr>))))
    (syncd_add_new c msg ld fm pu pd w)"
proof -
  define msg' where "msg' = msg\<lparr>mac_age_flag := mac_age_flag msg OR MAC_AGE_PEER, mac_op_type := MAC_SYNC_ADD\<rparr>"
  let ?k = "(mac_vid msg, mac_addr msg)"
  have old: "fdb c w ?k = None" using m(3) by (simp add: fdb_None)
  obtain csm where csm: "w_csm w c = Some csm" using inv by (auto simp: mac_inv_def)
  obtain r w1 where i: "iccp_csm_init_mac_msg msg' w = (r, w1)" by fastforce
  have r: "r = (if fst (malloc_ok w) then Some (w_fresh w) else None)" and w1: "r = None \<Longrightarrow> w1 = snd (malloc_ok w)"
    using i by (auto simp: iccp_csm_init_mac_msg_def case_prod_beta Let_def split: if_splits)
  define res where "res = (if fst (malloc_ok w) then Some (learned msg') else None)"
  have "safe (updates c w ?k res) (case r of None \<Rightarrow> Some w1 | Some p \<Rightarrow> do {
         w \<leftarrow> mac_rb_insert c p w1;
         if ld then Some (if fm \<and> pu then snd (readd_mac_to_chip (redirect csm (msg'\<lparr>mac_pending_local_del := 1\<rparr>)) w) else w)
         else if ml_current_state (MLACP csm) = MLACP_STATE_EXCHANGE then mac_enqueue c p w
         else Some w })"
  proof (cases r)
    case None
    have "fdb c w1 = fdb c w" by (rule ext) (simp add: fdb_def w1 [OF None])
    then have "updates c w ?k None w1" using init_mac_msg_ok [OF inv i] old by (auto simp: updates_def)
    then show ?thesis using None r by (simp add: res_def split: if_splits)
  next
    case (Some p)
    have ins: "safe (inserted c p msg' w) (mac_rb_insert c p w1)"
      using m i Some by (intro insert_new_ok [OF inv]) (auto simp: msg'_def mac_key_ok_def)
    have u: "updates c w ?k res w2" "p \<in> set (mac_rb c w2)" if "inserted c p msg' w w2" for w2
      using updates_inserted [OF inv that] Some r that by (auto simp: msg'_def res_def inserted_def split: if_splits)
    show ?thesis
      unfolding Some option.case safe_bind
      by (intro safe_mono [OF ins]) (auto intro: u updates_io [OF u(1) chip_io(3)] updates_enqueue)
  qed
  moreover have "updates c w ?k None (snd (del_mac_from_chip msg w))"
    by (rule updates_io [OF updates_same [OF inv old [symmetric]] chip_io(1)])
  moreover have "res = (if \<not> fst (malloc_ok w) then None else Some (learned (msg\<lparr>mac_age_flag := mac_age_flag msg OR MAC_AGE_PEER\<rparr>)))"
    by (simp add: res_def msg'_def learned_def)
  ultimately show ?thesis
    unfolding syncd_add_new_def by (cases "fm \<and> ld \<and> pd") (simp_all only: csm msg'_def [symmetric] i Let_def
      Option.bind.bind_lunit prod.case if_True if_False safe_Some simp_thms)
qed

lemma local_update_refines:
  assumes ok: "learn_ok c w" and addr: "length addr = 6" "addr \<noteq> replicate 6 0" and n: "length ifname < MAX_L_PORT_NAME"
    and csm: "w_csm w c = Some csm"
  shows "safe (updates c w (vid, addr)
      (local_update_spec (csm_peer_itf_name csm) (looked_up (w_lif w) (find_mclag_intf ifname (sys_csm_list (w_sys w)) w))
         (looked_up (w_lif w) (local_if_find_by_name ifname w)) (looked_up (w_pif w) (peer_if_find_by_name (Some c) ifname w))
         ifname ty op (fst (malloc_ok w)) (fdb c w (vid, addr))))
    (do_mac_update_from_syncd addr vid ifname ty op w)"
proof -
  have inv: "mac_inv c w" and env: "env_ok c w" using ok by (auto simp: learn_ok_def)
  obtain cs where cs: "sys_csm_list (w_sys w) = c # cs" "\<forall>c' \<in> set (c # cs). env_ok c' w"
    using ok by (auto simp: learn_ok_def)
  obtain po where po: "find_mclag_intf ifname (c # cs) w = Some po" "\<forall>l. po = Some l \<longrightarrow> w_lif w l \<noteq> None"
    using find_mclag_intf_ok [OF cs(2), where Q = "\<lambda>r. \<forall>l. r = Some l \<longrightarrow> w_lif w l \<noteq> None" and n = ifname]
    unfolding safe_def by blast
  obtain pif where pif: "peer_if_find_by_name (Some c) ifname w = Some pif" "\<forall>q. pif = Some q \<longrightarrow> w_pif w q \<noteq> None"
    using find_pif_total [OF env] by blast
  obtain l where l: "local_if_find_by_name ifname w = Some l" "\<forall>x. l = Some x \<longrightarrow> w_lif w x \<noteq> None"
    using find_lif_total [OF env] by blast
  define PO where "PO = looked_up (w_lif w) (Some po)"
  define LIF where "LIF = looked_up (w_lif w) (Some l)"
  define PIF where "PIF = looked_up (w_pif w) (Some pif)"
  have st: "pif_state_is pif s w = Some (map_option pif_state PIF = Some s)" for s
    using pif(2) by (auto simp: pif_state_is_def PIF_def looked_up_def split: option.split)
  have pd: "(case po of None \<Rightarrow> Some False | Some x \<Rightarrow> w_lif w x \<bind> (\<lambda>lif. Some (lif_state lif = PORT_STATE_DOWN)))
      = Some (if_down PO)"
    using po(2) by (auto simp: if_down_def PO_def looked_up_def split: option.split)
  have mc: "(po \<noteq> None) = (PO \<noteq> None)" using po(2) by (cases po) (auto simp: PO_def looked_up_def)
  have lf: "LIF = (case l of None \<Rightarrow> None | Some x \<Rightarrow> w_lif w x)" by (simp add: LIF_def looked_up_def split: option.split)
  have nz: "memcmp addr (replicate 6 0) \<noteq> 0" using memcmp_eq_0 [of addr "replicate 6 0"] addr by simp
  define msg where "msg = zero_MACMsg\<lparr>mac_op_type := op, mac_fdb_type := ty, mac_addr := addr, mac_vid := vid, mac_ifname := ifname, mac_origin_ifname := ifname\<rparr>"
  have msg: "mac_key_ok msg" "\<not> mac_in_msg_list msg" "mac_age_flag msg = 0" "mac_vid msg = vid" "mac_addr msg = addr"
    "mac_ifname msg = ifname" "mac_fdb_type msg = ty" "mac_origin_ifname msg = ifname" "mac_pending_local_del msg = 0"
    using addr by (simp_all add: msg_def mac_key_ok_def zero_MACMsg_def)
  show ?thesis
    unfolding do_mac_update_from_syncd_def system_get_first_csm_def cs(1) list.case option.case po(1) Option.bind.bind_lunit
      csm pif(1) l(1) if_not_P [OF nz] st msg_def [symmetric] Let_def
      PO_def [symmetric] LIF_def [symmetric] PIF_def [symmetric] mc
  proof (rule safe_bindI, rule safe_find_mac [OF inv addr(1)], goal_cases)
    case (1 p)
    let ?l = "learned (the (w_mac w p))"
    have at: "entry_at c p w ?l w" by (rule at_start [OF inv 1(1)])
    have f: "fdb c w (vid, addr) = Some ?l" by (rule fdb_Some [OF inv 1])
    have key: "key_of w p = (vid, addr)" using 1(2) by (simp add: same_key_of)
    have same: "safe (updates c w (vid, addr) (Some ?l)) (Some w)" using updates_same [OF inv f [symmetric]] by simp
    note ex = updates_post [OF inv 1(1) key at_syncd_add_existing [OF at csm msg(3)]] updates_post [OF inv 1(1) key at_syncd_del [OF at env csm pd]]
    show ?case
      using l(2) n ex same unfolding f lf
      by (cases l) (auto simp: local_update_spec_def msg if_down_def)
  next
    case 2
    have f: "fdb c w (vid, addr) = None" using 2 by (simp add: fdb_None)
    have same: "safe (updates c w (vid, addr) None) (Some w)" using updates_same [OF inv f [symmetric]] by simp
    have lm: "learned (msg\<lparr>mac_age_flag := mac_age_flag msg OR MAC_AGE_PEER\<rparr>)
        = \<lparr>l_ifname = ifname, l_origin = ifname, l_type = ty, l_age = MAC_AGE_PEER, l_pending = 0\<rparr>"
      by (simp add: learned_def msg)
    note new = syncd_add_new_updates [OF inv msg(1,2), unfolded msg(4,5), OF 2, where fm = "PO \<noteq> None"
        and pd = "map_option pif_state PIF = Some PORT_STATE_DOWN", unfolded lm]
    show ?case
    proof (cases "op = MAC_SYNC_ADD \<and> LIF \<noteq> None \<and> csm_peer_itf_name csm \<noteq> ifname")
      case True
      then obtain x lif where "l = Some x" "w_lif w x = Some lif" "LIF = Some lif" using l(2) lf by (cases l) auto
      then show ?thesis using True n new unfolding f by (simp only: local_update_spec_def if_down_def option.case simp_thms if_True if_False linorder_not_le [symmetric] Option.bind.bind_lunit)
    next
      case False
      then show ?thesis using l(2) n same unfolding f lf by (cases l) (auto simp: local_update_spec_def)
    qed
  qed
qed

end
