(* ===== verification/Sync_Send_Spec.thy ===== *)
theory Sync_Send_Spec
  imports Mlacp_Sync_Send Mac_Learn_Refinement
begin

text \<open>
  What goes on the wire. A send appends one write to the trace and touches only the log of
  sent messages and the debug counters. The queues of MAC, ARP and ND updates
  leave in order, in messages of at most 30 or 40 entries, whatever the writes return.
\<close>

subsection \<open>One send\<close>

text \<open>A domain whose log is in shape, and one whose socket is open as well.\<close>

definition log_ok :: "csm_ptr \<Rightarrow> world \<Rightarrow> bool" where
  "log_ok c w \<longleftrightarrow> (\<exists>csm. w_csm w c = Some csm \<and> wf_log (csm_msg_log csm))"

definition link_up :: "csm_ptr \<Rightarrow> world \<Rightarrow> bool" where
  "link_up c w \<longleftrightarrow> (\<exists>csm. w_csm w c = Some csm \<and> csm_sock_fd csm > 0 \<and> wf_log (csm_msg_log csm))"

abbreviation sock :: "csm_ptr \<Rightarrow> world \<Rightarrow> int" where
  "sock c w \<equiv> csm_sock_fd (the (w_csm w c))"

text \<open>A domain without its log and counters.\<close>

definition core :: "CSM \<Rightarrow> CSM" where
  "core csm = upd_MLACP (ml_dbg_counters_update (\<lambda>_ _ _ _. 0)) (csm\<lparr>csm_msg_log := zero_MsgLog\<rparr>)"

lemma core_MLACP: "MLACP (core csm) = (MLACP csm)\<lparr>ml_dbg_counters := \<lambda>_ _ _. 0\<rparr>"
  by (simp add: core_def)

lemma core_eqD:
  assumes "core x = core y"
  shows "csm_sock_fd x = csm_sock_fd y" "csm_iccp_info x = csm_iccp_info y" "csm_peer_itf_name x = csm_peer_itf_name y"
    "csm_peer_link_if x = csm_peer_link_if y" "csm_role_type x = csm_role_type y" "csm_current_state x = csm_current_state y"
    "app_current_state (APP_CSM x) = app_current_state (APP_CSM y)"
    "ml_mac_rb (MLACP x) = ml_mac_rb (MLACP y)" "ml_mac_msg_list (MLACP x) = ml_mac_msg_list (MLACP y)"
    "ml_lif_list (MLACP x) = ml_lif_list (MLACP y)" "ml_pif_list (MLACP x) = ml_pif_list (MLACP y)"
    "ml_current_state (MLACP x) = ml_current_state (MLACP y)" "ml_sync_state (MLACP x) = ml_sync_state (MLACP y)"
    "ml_wait_for_sync_data (MLACP x) = ml_wait_for_sync_data (MLACP y)"
    "ml_arp_msg_list (MLACP x) = ml_arp_msg_list (MLACP y)" "ml_ndisc_msg_list (MLACP x) = ml_ndisc_msg_list (MLACP y)"
    "ml_arp_list (MLACP x) = ml_arp_list (MLACP y)" "ml_ndisc_list (MLACP x) = ml_ndisc_list (MLACP y)"
    "ml_mlacp_msg_list (MLACP x) = ml_mlacp_msg_list (MLACP y)"
  using arg_cong [OF assms, of csm_sock_fd] arg_cong [OF assms, of csm_iccp_info] arg_cong [OF assms, of csm_peer_itf_name]
    arg_cong [OF assms, of csm_peer_link_if] arg_cong [OF assms, of csm_role_type] arg_cong [OF assms, of csm_current_state]
    arg_cong [OF assms, of "\<lambda>z. app_current_state (APP_CSM z)"] arg_cong [OF assms, of "\<lambda>z. ml_mac_rb (MLACP z)"]
    arg_cong [OF assms, of "\<lambda>z. ml_mac_msg_list (MLACP z)"] arg_cong [OF assms, of "\<lambda>z. ml_lif_list (MLACP z)"]
    arg_cong [OF assms, of "\<lambda>z. ml_pif_list (MLACP z)"] arg_cong [OF assms, of "\<lambda>z. ml_current_state (MLACP z)"]
    arg_cong [OF assms, of "\<lambda>z. ml_sync_state (MLACP z)"] arg_cong [OF assms, of "\<lambda>z. ml_wait_for_sync_data (MLACP z)"]
    arg_cong [OF assms, of "\<lambda>z. ml_arp_msg_list (MLACP z)"] arg_cong [OF assms, of "\<lambda>z. ml_ndisc_msg_list (MLACP z)"]
    arg_cong [OF assms, of "\<lambda>z. ml_arp_list (MLACP z)"] arg_cong [OF assms, of "\<lambda>z. ml_ndisc_list (MLACP z)"]
    arg_cong [OF assms, of "\<lambda>z. ml_mlacp_msg_list (MLACP z)"]
  by (simp_all add: core_def)

text \<open>From \<open>w\<close> to \<open>w'\<close> the events \<open>evs\<close> were output for \<open>c\<close>; nothing else the protocol depends on changed.\<close>

definition tx_step :: "csm_ptr \<Rightarrow> event list \<Rightarrow> world \<Rightarrow> world \<Rightarrow> bool" where
  "tx_step c evs w w' \<longleftrightarrow> w_sys w' = w_sys w \<and> w_lif w' = w_lif w \<and> w_pif w' = w_pif w \<and> w_mac w' = w_mac w
     \<and> w_fresh w' = w_fresh w \<and> w_now w' = w_now w \<and> w_mallocs w' = w_mallocs w
     \<and> w_out w' = w_out w @ evs \<and> (\<forall>c'. c' \<noteq> c \<longrightarrow> w_csm w' c' = w_csm w c')
     \<and> map_option core (w_csm w' c) = map_option core (w_csm w c) \<and> (log_ok c w \<longrightarrow> log_ok c w')"

lemma link_up_log: "link_up c w \<Longrightarrow> log_ok c w"
  by (auto simp: link_up_def log_ok_def)

lemma tx_refl: "tx_step c [] w w"
  by (simp add: tx_step_def)

lemma tx_trans: "tx_step c es w w' \<Longrightarrow> tx_step c es' w' w'' \<Longrightarrow> tx_step c (es @ es') w w''"
  by (simp add: tx_step_def)

lemma tx_csm:
  assumes "tx_step c es w w'" "w_csm w c = Some csm"
  obtains csm' where "w_csm w' c = Some csm'" "core csm' = core csm"
  using assms by (auto simp: tx_step_def)

lemma tx_link: "tx_step c es w w' \<Longrightarrow> link_up c w \<Longrightarrow> link_up c w' \<and> sock c w' = sock c w"
proof -
  assume tx: "tx_step c es w w'" and up: "link_up c w"
  then obtain csm where csm: "w_csm w c = Some csm" "csm_sock_fd csm > 0" by (auto simp: link_up_def)
  obtain csm' where csm': "w_csm w' c = Some csm'" "core csm' = core csm" using tx_csm [OF tx csm(1)] .
  have "log_ok c w'" using tx link_up_log [OF up] by (simp add: tx_step_def)
  then show ?thesis using csm csm'(1) core_eqD(1) [OF csm'(2)] by (simp add: link_up_def log_ok_def)
qed

lemma tx_info: "tx_step c es w w' \<Longrightarrow> link_up c w \<Longrightarrow> csm_iccp_info (the (w_csm w' c)) = csm_iccp_info (the (w_csm w c))"
  by (auto simp: tx_step_def link_up_def dest!: core_eqD(2))

lemma tx_clear [simp]: "tx_step c [] w (clear_buf w)"
  by (simp add: tx_step_def clear_buf_def log_ok_def)

lemma tx_from_clear: "tx_step c es (clear_buf w) w' \<Longrightarrow> tx_step c es w w'"
  using tx_trans [OF tx_clear] by fastforce

lemma csm_clear [simp]: "w_csm (clear_buf w) = w_csm w"
  by (simp add: clear_buf_def)

lemma tx_in_buf [simp]: "tx_step c [] w (snd (in_buf f w))"
  by (simp add: tx_step_def in_buf_def case_prod_beta log_ok_def)

lemma core_counter [simp]: "core (MLACP_SET_ICCP_TX_DBG_COUNTER tlv st csm) = core csm"
  by (simp add: MLACP_SET_ICCP_TX_DBG_COUNTER_def incr_dbg_counter_def Let_def core_def)

lemma counter_frame [simp]:
  "csm_sock_fd (MLACP_SET_ICCP_TX_DBG_COUNTER tlv st csm) = csm_sock_fd csm"
  "csm_msg_log (MLACP_SET_ICCP_TX_DBG_COUNTER tlv st csm) = csm_msg_log csm"
  by (simp_all add: MLACP_SET_ICCP_TX_DBG_COUNTER_def incr_dbg_counter_def Let_def)

lemma core_log [simp]: "core (csm_msg_log_update f csm) = core csm"
  by (simp add: core_def)

lemma send_ok:
  assumes up: "link_up c w" and n: "0 < n" "n \<le> CSM_BUFFER_SIZE"
  shows "safe (\<lambda>(rc, w'). tx_step c [Ev_write (sock c w) (rdn 0 n (g_csm_buf w)) rc] w w') (iccp_csm_send c (int n) w)"
proof -
  obtain csm where csm: "w_csm w c = Some csm" "csm_sock_fd csm > 0" "wf_log (csm_msg_log csm)"
    using up by (auto simp: link_up_def)
  let ?ty = "ntohs (LDPHdr_msg_type (rd16 0 (g_csm_buf w)))"
  let ?tlv = "ntohs (ICCParameter_type (rd16 (if ?ty = MSG_T_CAPABILITY then sizeof_LDPHdr else sizeof_ICCHdr) (g_csm_buf w)))"
  obtain l where l: "log_sent (ntohl (rd32 4 (g_csm_buf w))) ?ty ?tlv (csm_msg_log csm) = Some l" "wf_log l"
    using wf_log_sent [OF csm(3)] by blast
  show ?thesis
    unfolding iccp_csm_send_def csm(1) Option.bind.bind_lunit Let_def l(1) sys_write_alt prod.case
    using csm n l by (auto simp: tx_step_def log_ok_def)
qed

lemma send_any:
  assumes log: "log_ok c w" and n: "n \<le> int CSM_BUFFER_SIZE"
  shows "safe (\<lambda>(rc, w'). \<exists>evs. tx_step c evs w w') (iccp_csm_send c n w)"
proof (cases "link_up c w \<and> 0 < n")
  case True
  then have "safe (\<lambda>(rc, w'). tx_step c [Ev_write (sock c w) (rdn 0 (nat n) (g_csm_buf w)) rc] w w') (iccp_csm_send c (int (nat n)) w)"
    using n by (intro send_ok) auto
  then show ?thesis using True by (auto elim!: safe_mono)
next
  case False
  then show ?thesis using log tx_refl [of c w] by (auto simp: log_ok_def link_up_def iccp_csm_send_def)
qed

lemma send_built_ok:
  assumes "link_up c w" and f: "f (zero_buf, ICCP_MSG_ID w) = (int n, b, i)" and n: "0 < n" "n \<le> CSM_BUFFER_SIZE"
  shows "safe (\<lambda>(rc, w'). tx_step c [Ev_write (sock c w) (rdn 0 n b) rc] w w' ) (send_built c f w)"
proof -
  let ?w = "snd (in_buf f (clear_buf w))"
  have tx: "tx_step c [] w ?w" using tx_trans [OF tx_clear tx_in_buf] by simp
  have b: "g_csm_buf ?w = b" "fst (in_buf f (clear_buf w)) = int n" using f by (simp_all add: in_buf_def clear_buf_def)
  have "safe (\<lambda>(rc, w'). tx_step c [Ev_write (sock c ?w) (rdn 0 n (g_csm_buf ?w)) rc] ?w w') (iccp_csm_send c (int n) ?w)"
    using tx_link [OF tx assms(1)] n by (intro send_ok) auto
  then have "safe (\<lambda>(rc, w'). tx_step c [Ev_write (sock c w) (rdn 0 n b) rc] w w') (iccp_csm_send c (int n) ?w)"
    by (rule safe_mono) (use tx_trans [OF tx] b tx_link [OF tx assms(1)] in auto)
  then show ?thesis unfolding send_built_def using b by (simp add: case_prod_beta)
qed


subsection \<open>Batches\<close>

fun chunks :: "nat \<Rightarrow> 'a list \<Rightarrow> 'a list list" where
  "chunks n [] = []"
| "chunks n (x # xs) = (if n = 0 then [] else take n (x # xs) # chunks n (drop n (x # xs)))"

lemma chunks_le: "xs \<noteq> [] \<Longrightarrow> length xs \<le> n \<Longrightarrow> chunks n xs = [xs]"
  by (cases xs) auto

lemma chunks_full: "length xs = n \<Longrightarrow> 0 < n \<Longrightarrow> chunks n (xs @ ys) = xs # chunks n ys"
  by (cases xs) auto

lemma concat_chunks: "0 < n \<Longrightarrow> concat (chunks n xs) = xs"
  by (induction n xs rule: chunks.induct) (auto simp del: take_Suc_Cons)

lemma chunks_bound: "ys \<in> set (chunks n xs) \<Longrightarrow> ys \<noteq> [] \<and> length ys \<le> n"
  by (induction n xs rule: chunks.induct) (auto split: if_splits)

text \<open>The events \<open>evs\<close> are writes to the socket \<open>fd\<close>, one for each element of \<open>xs\<close>, related to it by \<open>R\<close>.\<close>

definition writes :: "('a \<Rightarrow> bytes \<Rightarrow> bool) \<Rightarrow> int \<Rightarrow> 'a list \<Rightarrow> event list \<Rightarrow> bool" where
  "writes R fd xs evs \<longleftrightarrow> list_all2 (\<lambda>x e. \<exists>bs rc. e = Ev_write fd bs rc \<and> R x bs) xs evs"

lemma writes_Nil [simp]: "writes R fd [] evs \<longleftrightarrow> evs = []"
  by (simp add: writes_def)

lemma writes_Cons: "writes R fd (x # xs) (Ev_write fd bs rc # evs) \<longleftrightarrow> R x bs \<and> writes R fd xs evs"
  by (simp add: writes_def)

lemma upd_MLACP_cong: "f (MLACP x) = g (MLACP x) \<Longrightarrow> upd_MLACP f x = upd_MLACP g x"
  by (cases x, cases "csm_app_csm x") simp

lemma upd_mlacp_id: "upd_mlacp c id w = w"
proof -
  have "upd_MLACP id = id" by (rule ext, rule CSM.equality) simp_all
  then show ?thesis by (simp add: upd_csm_def option.map_id)
qed

lemma upd_csm_comp: "upd_csm c f (upd_csm c g w) = upd_csm c (f \<circ> g) w"
  by (simp add: upd_csm_def option.map_comp comp_def)

lemma tx_upd:
  assumes f: "\<And>x k. f (x\<lparr>ml_dbg_counters := k\<rparr>) = (f x)\<lparr>ml_dbg_counters := k\<rparr>" and tx: "tx_step c es w w'"
  shows "tx_step c es (upd_mlacp c f w) (upd_mlacp c f w')"
proof -
  have "core (upd_MLACP f x) = upd_MLACP f (core x)" for x by (simp add: core_def f)
  then have "map_option core (map_option (upd_MLACP f) x) = map_option (upd_MLACP f) (map_option core x)" for x
    by (simp add: option.map_comp comp_def)
  then show ?thesis using tx by (auto simp: tx_step_def log_ok_def)
qed

lemma funpow_counters:
  fixes f :: "mLACP \<Rightarrow> mLACP"
  shows "(\<And>x k. f (x\<lparr>ml_dbg_counters := k\<rparr>) = (f x)\<lparr>ml_dbg_counters := k\<rparr>) \<Longrightarrow> (f ^^ n) (x\<lparr>ml_dbg_counters := k\<rparr>) = ((f ^^ n) x)\<lparr>ml_dbg_counters := k\<rparr>"
  by (induction n) simp_all

context info_tlv
begin

definition carries :: "u32 \<Rightarrow> 'm list \<Rightarrow> bytes \<Rightarrow> bool" where
  "carries rg ms bs \<longleftrightarrow> (\<exists>csm i b. icc_rg_id (csm_iccp_info csm) = rg \<and> built csm ms i b \<and> bs = rdn 0 (22 + sz * length ms) b)"

text \<open>The message under construction holds the entries \<open>acc\<close>.\<close>

definition pending :: "csm_ptr \<Rightarrow> 'm list \<Rightarrow> int \<Rightarrow> world \<Rightarrow> bool" where
  "pending c acc n w \<longleftrightarrow> (if acc = [] then g_csm_buf w = zero_buf
     else n = int (22 + sz * length acc) \<and> (\<exists>i. built (the (w_csm w c)) acc i (g_csm_buf w)))"

lemma built_cong:
  "icc_rg_id (csm_iccp_info x) = icc_rg_id (csm_iccp_info y) \<Longrightarrow> built x ms i b = built y ms i b"
  by (simp add: built_def)

lemma append_info_ok:
  assumes csm: "w_csm w c = Some csm" and m: "wf m" and sz: "22 + sz * mx \<le> CSM_BUFFER_SIZE" and len: "length acc < mx"
    and p: "pending c acc n w"
  shows "safe (\<lambda>(n', w'). pending c (acc @ [m]) n' w' \<and> tx_step c [] w w' \<and> w_csm w' c = w_csm w c)
    (append_info c prepare m (length acc) w)"
proof -
  have "sz * (length acc + 1) \<le> sz * mx" using len by (intro mult_le_mono2) simp
  then have "22 + sz * (length acc + 1) \<le> CSM_BUFFER_SIZE" using sz by linarith
  moreover have "if acc = [] then g_csm_buf w = zero_buf
      else built csm acc (SOME i. built csm acc i (g_csm_buf w)) (g_csm_buf w)"
    using p csm by (auto simp: pending_def intro: someI)
  ultimately obtain b' where b': "prepare csm CSM_BUFFER_SIZE m (length acc) (g_csm_buf w, ICCP_MSG_ID w)
      = (int (22 + sz * (length acc + 1)), b', ICCP_MSG_ID w + 1)" "built csm (acc @ [m]) (ICCP_MSG_ID w) b'"
    using append_entry [OF m] by blast
  then show ?thesis
    using csm tx_in_buf [of c w "prepare csm CSM_BUFFER_SIZE m (length acc)"]
    by (auto simp: append_info_def in_buf_def pending_def)
qed

lemma flush_ok:
  assumes up: "link_up c w" and sz: "22 + sz * mx \<le> CSM_BUFFER_SIZE" and len: "acc \<noteq> []" "length acc \<le> mx"
    and p: "pending c acc n w"
  shows "safe (\<lambda>(rc, w'). \<exists>bs. carries (icc_rg_id (csm_iccp_info (the (w_csm w c)))) acc bs
      \<and> tx_step c [Ev_write (sock c w) bs rc] w w') (iccp_csm_send c n w)"
proof -
  have n: "n = int (22 + sz * length acc)" and b: "\<exists>i. built (the (w_csm w c)) acc i (g_csm_buf w)"
    using p len(1) by (auto simp: pending_def)
  have "sz * length acc \<le> sz * mx" using len by (intro mult_le_mono2)
  then have "22 + sz * length acc \<le> CSM_BUFFER_SIZE" using sz by linarith
  then have "safe (\<lambda>(rc, w'). tx_step c [Ev_write (sock c w) (rdn 0 (22 + sz * length acc) (g_csm_buf w)) rc] w w') (iccp_csm_send c n w)"
    unfolding n by (intro send_ok [OF up]) auto
  then show ?thesis
    by (rule safe_mono) (use b in \<open>auto simp: carries_def\<close>)
qed

text \<open>The next entry is in the message, and the message was sent if it is full.\<close>

abbreviation batch :: "nat \<Rightarrow> csm_ptr \<Rightarrow> world \<Rightarrow> 'm list \<Rightarrow> event list \<Rightarrow> bool" where
  "batch mx c w ms evs \<equiv> writes (carries (icc_rg_id (csm_iccp_info (the (w_csm w c))))) (sock c w) (chunks mx ms) evs"

lemma flush_full_ok:
  assumes up: "link_up c w" and sz: "22 + sz * mx \<le> CSM_BUFFER_SIZE" "0 < mx" and len: "acc \<noteq> []" "length acc \<le> mx"
    and p: "pending c acc n w"
  shows "safe (\<lambda>(count, w'). \<exists>acc' evs. count = length acc' \<and> length acc' < mx \<and> pending c acc' n w' \<and> tx_step c evs w w'
      \<and> (\<forall>ms evs'. batch mx c w (acc' @ ms) evs' \<longrightarrow> batch mx c w (acc @ ms) (evs @ evs')))
    (flush_full c mx (length acc) n w)" (is "safe ?Q _")
proof (cases "length acc = mx")
  case True
  have "?Q (0, clear_buf w')" if bs: "carries (icc_rg_id (csm_iccp_info (the (w_csm w c)))) acc bs"
      and tx: "tx_step c [Ev_write (sock c w) bs rc] w w'" for rc w' bs
  proof -
    have "tx_step c [Ev_write (sock c w) bs rc] w (clear_buf w')" using tx_trans [OF tx tx_clear] by simp
    moreover have "chunks mx (acc @ ms) = acc # chunks mx ms" for ms by (rule chunks_full [OF True sz(2)])
    ultimately show ?thesis
      unfolding prod.case using bs sz(2)
      by (intro exI [of _ "[]"] exI [of _ "[Ev_write (sock c w) bs rc]"]) (simp add: pending_def clear_buf_def writes_Cons)
  qed
  then have "safe (\<lambda>(rc, w'). ?Q (0, clear_buf w')) (iccp_csm_send c n w)"
    by (intro safe_mono [OF flush_ok [OF up sz(1) len p]]) blast
  then show ?thesis unfolding flush_full_def using True by (simp add: case_prod_beta)
next
  case False
  then have "flush_full c mx (length acc) n w = Some (length acc, w)" using len by (simp add: flush_full_def)
  moreover have "?Q (length acc, w)"
    unfolding prod.case by (intro exI [of _ acc] exI [of _ "[]"]) (use False len p tx_refl in simp)
  ultimately show ?thesis by simp
qed

text \<open>A send whose message is what remains of the last batch.\<close>

lemma flush_rest_ok:
  assumes up: "link_up c w" and sz: "22 + sz * mx \<le> CSM_BUFFER_SIZE" and len: "length acc < mx" and p: "pending c acc n w"
  shows "safe (\<lambda>w'. \<exists>evs. tx_step c evs w w' \<and> batch mx c w acc evs) (flush_rest c (length acc) n w)"
proof (cases "acc = []")
  case True
  then show ?thesis by (auto simp: flush_rest_def intro: tx_refl)
next
  case False
  have "batch mx c w acc [Ev_write (sock c w) bs rc]"
    if "carries (icc_rg_id (csm_iccp_info (the (w_csm w c)))) acc bs" for bs rc
    using chunks_le [OF False, of mx] len that by (simp add: writes_Cons)
  then have "safe (\<lambda>(rc, w'). \<exists>evs. tx_step c evs w w' \<and> batch mx c w acc evs) (iccp_csm_send c n w)"
    using len by (intro safe_mono [OF flush_ok [OF up sz False _ p]]) auto
  then show ?thesis using False by (auto simp: flush_rest_def safe_def)
qed

lemma tx_batch: "tx_step c es w w' \<Longrightarrow> link_up c w \<Longrightarrow> batch mx c w' ms evs = batch mx c w ms evs"
  using tx_link tx_info by simp

text \<open>One round of the loop: the entry \<open>m\<close> is appended, and the message is sent if it is full.\<close>

lemma round_ok:
  assumes up: "link_up c w" and sz: "22 + sz * mx \<le> CSM_BUFFER_SIZE" "0 < mx" and len: "length acc < mx"
    and p: "pending c acc n w" and m: "wf m"
  shows "safe (\<lambda>(n', w1). tx_step c [] w w1 \<and> (\<forall>w2. link_up c w2 \<and> g_csm_buf w2 = g_csm_buf w1 \<and>
        icc_rg_id (csm_iccp_info (the (w_csm w2 c))) = icc_rg_id (csm_iccp_info (the (w_csm w1 c))) \<longrightarrow>
      safe (\<lambda>(count, w'). \<exists>acc' evs. count = length acc' \<and> length acc' < mx \<and> pending c acc' n' w' \<and> tx_step c evs w2 w'
        \<and> (\<forall>ms evs'. batch mx c w2 (acc' @ ms) evs' \<longrightarrow> batch mx c w2 (acc @ m # ms) (evs @ evs')))
      (flush_full c mx (length acc + 1) n' w2)))
    (append_info c prepare m (length acc) w)"
proof -
  obtain csm where csm: "w_csm w c = Some csm" using up by (auto simp: link_up_def)
  have "pending c (acc @ [m]) n' w2" if "pending c (acc @ [m]) n' w1" "g_csm_buf w2 = g_csm_buf w1"
    "icc_rg_id (csm_iccp_info (the (w_csm w2 c))) = icc_rg_id (csm_iccp_info (the (w_csm w1 c)))" for n' w1 w2
    using that built_cong [OF that(3)] by (simp add: pending_def)
  then show ?thesis
    using flush_full_ok [OF _ sz, where acc = "acc @ [m]"] len
    by (intro safe_mono [OF append_info_ok [OF csm m sz(1) len p]]) fastforce
qed

text \<open>The queue of copies.\<close>

lemma send_neigh_ok:
  assumes up: "link_up c w" and sz: "22 + sz * MAX_NEIGH_ENTRY_NUM \<le> CSM_BUFFER_SIZE" and len: "length acc < MAX_NEIGH_ENTRY_NUM"
    and p: "pending c acc n w" and m: "\<forall>m \<in> set ms. wf m"
    and pop: "\<And>x k. pop (x\<lparr>ml_dbg_counters := k\<rparr>) = (pop x)\<lparr>ml_dbg_counters := k\<rparr>"
  shows "safe (\<lambda>w'. \<exists>evs. tx_step c evs (upd_mlacp c (pop ^^ length ms) w) w' \<and> batch MAX_NEIGH_ENTRY_NUM c w (acc @ ms) evs)
    (send_neigh_loop c prepare pop ms (length acc) n w)"
  using up len p m
proof (induction ms arbitrary: acc n w)
  case Nil
  then show ?case using flush_rest_ok [OF Nil(1) sz Nil(2,3)] by (simp add: upd_mlacp_id [unfolded id_def])
next
  case (Cons m ms)
  let ?w = "upd_mlacp c pop w"
  have up: "link_up c ?w" and same: "sock c ?w = sock c w" "icc_rg_id (csm_iccp_info (the (w_csm ?w c))) = icc_rg_id (csm_iccp_info (the (w_csm w c)))"
    using Cons.prems(1) by (auto simp: link_up_def)
  have pend: "pending c acc n ?w" using Cons.prems(3) built_cong [OF same(2)] by (simp add: pending_def)
  have "safe (\<lambda>(n', w1). safe (\<lambda>(count, w3). safe (\<lambda>w'. \<exists>evs. tx_step c evs (upd_mlacp c (pop ^^ length ms) ?w) w'
        \<and> batch MAX_NEIGH_ENTRY_NUM c w (acc @ m # ms) evs) (send_neigh_loop c prepare pop ms count n' w3))
      (flush_full c MAX_NEIGH_ENTRY_NUM (length acc + 1) n' w1))
    (append_info c prepare m (length acc) ?w)"
  proof (rule safe_mono [OF round_ok [OF up sz _ Cons.prems(2) pend, of m]], simp, use Cons.prems(4) in simp, clarify)
    fix n' w1 assume tx1: "tx_step c [] ?w w1" and r: "\<forall>w2. link_up c w2 \<and> g_csm_buf w2 = g_csm_buf w1 \<and>
        icc_rg_id (csm_iccp_info (the (w_csm w2 c))) = icc_rg_id (csm_iccp_info (the (w_csm w1 c))) \<longrightarrow>
      safe (\<lambda>(count, w'). \<exists>acc' evs. count = length acc' \<and> length acc' < MAX_NEIGH_ENTRY_NUM \<and> pending c acc' n' w' \<and> tx_step c evs w2 w'
        \<and> (\<forall>ms evs'. batch MAX_NEIGH_ENTRY_NUM c w2 (acc' @ ms) evs' \<longrightarrow> batch MAX_NEIGH_ENTRY_NUM c w2 (acc @ m # ms) (evs @ evs')))
      (flush_full c MAX_NEIGH_ENTRY_NUM (length acc + 1) n' w2)"
    have up1: "link_up c w1" using tx_link [OF tx1 up] by simp
    have r1: "safe (\<lambda>(count, w'). \<exists>acc' evs. count = length acc' \<and> length acc' < MAX_NEIGH_ENTRY_NUM \<and> pending c acc' n' w' \<and> tx_step c evs w1 w'
        \<and> (\<forall>ms evs'. batch MAX_NEIGH_ENTRY_NUM c w1 (acc' @ ms) evs' \<longrightarrow> batch MAX_NEIGH_ENTRY_NUM c w1 (acc @ m # ms) (evs @ evs')))
      (flush_full c MAX_NEIGH_ENTRY_NUM (length acc + 1) n' w1)" using r up1 by blast
    show "safe (\<lambda>(count, w3). safe (\<lambda>w'. \<exists>evs. tx_step c evs (upd_mlacp c (pop ^^ length ms) ?w) w'
        \<and> batch MAX_NEIGH_ENTRY_NUM c w (acc @ m # ms) evs) (send_neigh_loop c prepare pop ms count n' w3))
      (flush_full c MAX_NEIGH_ENTRY_NUM (length acc + 1) n' w1)"
    proof (rule safe_mono [OF r1], clarify)
      fix w3 acc' evs
      assume a: "length acc' < MAX_NEIGH_ENTRY_NUM" "pending c acc' n' w3" "tx_step c evs w1 w3"
        "\<forall>ms evs'. batch MAX_NEIGH_ENTRY_NUM c w1 (acc' @ ms) evs' \<longrightarrow> batch MAX_NEIGH_ENTRY_NUM c w1 (acc @ m # ms) (evs @ evs')"
      have up3: "link_up c w3" using tx_link [OF a(3) up1] by simp
      have tx: "tx_step c evs (upd_mlacp c (pop ^^ length ms) ?w) (upd_mlacp c (pop ^^ length ms) w3)"
        using tx_trans [OF tx1 a(3)] funpow_counters [OF pop] by (intro tx_upd) simp_all
      have b: "batch mx c w3 xs es = batch mx c w xs es" "batch mx c w1 xs es = batch mx c w xs es" for mx xs es
        using tx_batch [OF a(3) up1, of mx xs es] tx_batch [OF tx1 up, of mx xs es] same by simp_all
      show "safe (\<lambda>w'. \<exists>evs. tx_step c evs (upd_mlacp c (pop ^^ length ms) ?w) w' \<and> batch MAX_NEIGH_ENTRY_NUM c w (acc @ m # ms) evs)
          (send_neigh_loop c prepare pop ms (length acc') n' w3)"
        using Cons.prems(4) a(4) tx_trans [OF tx] unfolding b
        by (intro safe_mono [OF Cons.IH [OF up3 a(1,2)]]) (simp, unfold b, blast)
    qed
  qed
  then show ?case by (simp add: case_prod_unfold upd_csm_comp funpow_swap1 comp_def)
qed

end

lemma funpow_tl: "(ml_arp_msg_list_update tl ^^ n) x = x\<lparr>ml_arp_msg_list := drop n (ml_arp_msg_list x)\<rparr>"
  "(ml_ndisc_msg_list_update tl ^^ n) x = x\<lparr>ml_ndisc_msg_list := drop n (ml_ndisc_msg_list x)\<rparr>"
  by (induction n) (simp_all add: drop_Suc tl_drop)

lemma arp_queue_sent:
  assumes up: "link_up c w" and csm: "w_csm w c = Some csm" and m: "\<forall>m \<in> set (ml_arp_msg_list (MLACP csm)). wf_ARPMsg m"
  shows "safe (\<lambda>w'. \<exists>evs. tx_step c evs (upd_mlacp c (ml_arp_msg_list_update (\<lambda>_. [])) w) w'
      \<and> arp_tlv.batch MAX_NEIGH_ENTRY_NUM c w (ml_arp_msg_list (MLACP csm)) evs)
    (mlacp_sync_send_syncArpInfo c w)"
proof -
  let ?q = "ml_arp_msg_list (MLACP csm)" and ?w = "clear_buf w"
  have "upd_MLACP (ml_arp_msg_list_update tl ^^ length ?q) csm = upd_MLACP (ml_arp_msg_list_update (\<lambda>_. [])) csm"
    by (rule upd_MLACP_cong) (simp add: funpow_tl)
  then have "upd_mlacp c (ml_arp_msg_list_update tl ^^ length ?q) ?w = clear_buf (upd_mlacp c (ml_arp_msg_list_update (\<lambda>_. [])) w)"
    by (intro world.equality) (simp_all add: upd_csm_def clear_buf_def csm)
  moreover have "link_up c ?w" using tx_link [OF tx_clear up] by simp
  then have "safe (\<lambda>w'. \<exists>evs. tx_step c evs (upd_mlacp c (ml_arp_msg_list_update tl ^^ length ?q) ?w) w'
      \<and> arp_tlv.batch MAX_NEIGH_ENTRY_NUM c ?w ([] @ ?q) evs)
    (send_neigh_loop c mlacp_prepare_for_arp_info (ml_arp_msg_list_update tl) ?q (length ([] :: ARPMsg list)) 0 ?w)"
    by (rule arp_tlv.send_neigh_ok) (use m in \<open>simp_all add: arp_tlv.pending_def clear_buf_def\<close>)
  ultimately show ?thesis
    unfolding mlacp_sync_send_syncArpInfo_def csm Option.bind.bind_lunit
    by (simp add: safe_def csm) (metis tx_from_clear)
qed

lemma ndisc_queue_sent:
  assumes up: "link_up c w" and csm: "w_csm w c = Some csm" and m: "\<forall>m \<in> set (ml_ndisc_msg_list (MLACP csm)). wf_NDISCMsg m"
  shows "safe (\<lambda>w'. \<exists>evs. tx_step c evs (upd_mlacp c (ml_ndisc_msg_list_update (\<lambda>_. [])) w) w'
      \<and> nd_tlv.batch MAX_NEIGH_ENTRY_NUM c w (ml_ndisc_msg_list (MLACP csm)) evs)
    (mlacp_sync_send_syncNdiscInfo c w)"
proof -
  let ?q = "ml_ndisc_msg_list (MLACP csm)" and ?w = "clear_buf w"
  have "upd_MLACP (ml_ndisc_msg_list_update tl ^^ length ?q) csm = upd_MLACP (ml_ndisc_msg_list_update (\<lambda>_. [])) csm"
    by (rule upd_MLACP_cong) (simp add: funpow_tl)
  then have "upd_mlacp c (ml_ndisc_msg_list_update tl ^^ length ?q) ?w = clear_buf (upd_mlacp c (ml_ndisc_msg_list_update (\<lambda>_. [])) w)"
    by (intro world.equality) (simp_all add: upd_csm_def clear_buf_def csm)
  moreover have "link_up c ?w" using tx_link [OF tx_clear up] by simp
  then have "safe (\<lambda>w'. \<exists>evs. tx_step c evs (upd_mlacp c (ml_ndisc_msg_list_update tl ^^ length ?q) ?w) w'
      \<and> nd_tlv.batch MAX_NEIGH_ENTRY_NUM c ?w ([] @ ?q) evs)
    (send_neigh_loop c mlacp_prepare_for_ndisc_info (ml_ndisc_msg_list_update tl) ?q (length ([] :: NDISCMsg list)) 0 ?w)"
    by (rule nd_tlv.send_neigh_ok) (use m in \<open>simp_all add: nd_tlv.pending_def clear_buf_def\<close>)
  ultimately show ?thesis
    unfolding mlacp_sync_send_syncNdiscInfo_def csm Option.bind.bind_lunit
    by (simp add: safe_def csm) (metis tx_from_clear)
qed

subsection \<open>The queue of MAC entries\<close>

text \<open>Nothing but the queue of \<open>c\<close>, its log and counters, and entries outside the tree changed.\<close>

definition unqueued :: "MACMsg \<Rightarrow> MACMsg" where
  "unqueued m = m\<lparr>mac_in_msg_list := False\<rparr>"

definition mac_tx :: "csm_ptr \<Rightarrow> world \<Rightarrow> world \<Rightarrow> bool" where
  "mac_tx c w w' \<longleftrightarrow> w_sys w' = w_sys w \<and> w_lif w' = w_lif w \<and> w_pif w' = w_pif w
     \<and> w_fresh w' = w_fresh w \<and> w_now w' = w_now w \<and> w_mallocs w' = w_mallocs w
     \<and> (\<forall>c'. c' \<noteq> c \<longrightarrow> w_csm w' c' = w_csm w c')
     \<and> map_option (core \<circ> upd_MLACP (ml_mac_msg_list_update (\<lambda>_. []))) (w_csm w' c)
       = map_option (core \<circ> upd_MLACP (ml_mac_msg_list_update (\<lambda>_. []))) (w_csm w c)
     \<and> (\<forall>p \<in> set (mac_rb c w). map_option unqueued (w_mac w' p) = map_option unqueued (w_mac w p))"

lemma core_mac_queue: "core (upd_MLACP (ml_mac_msg_list_update f) x) = upd_MLACP (ml_mac_msg_list_update f) (core x)"
  by (simp add: core_def)

lemma tx_mac_tx: "tx_step c es w w' \<Longrightarrow> mac_tx c w w'"
  unfolding mac_tx_def tx_step_def
  by (simp add: core_mac_queue comp_def flip: option.map_comp [where f = core, unfolded comp_def])

lemma mac_tx_rb: "mac_tx c w w' \<Longrightarrow> w_csm w c \<noteq> None \<Longrightarrow> mac_rb c w' = mac_rb c w"
  by (auto simp: mac_tx_def dest!: core_eqD(8))

lemma mac_tx_trans: "mac_tx c w w' \<Longrightarrow> mac_tx c w' w'' \<Longrightarrow> w_csm w c \<noteq> None \<Longrightarrow> mac_tx c w w''"
  using mac_tx_rb [of c w w'] by (simp add: mac_tx_def)

lemma tx_mac_inv:
  assumes "tx_step c es w w'" "mac_inv c w"
  shows "mac_inv c w'"
proof -
  obtain csm where csm: "w_csm w c = Some csm" using assms(2) by (auto simp: mac_inv_def)
  obtain csm' where csm': "w_csm w' c = Some csm'" "core csm' = core csm" using tx_csm [OF assms(1) csm] .
  then have q: "mac_rb c w' = mac_rb c w" "mac_q c w' = mac_q c w" using csm core_eqD(8,9) [OF csm'(2)] by simp_all
  have m: "w_mac w' = w_mac w" "w_fresh w' = w_fresh w" "w_csm w' c \<noteq> None" using assms(1) csm' by (simp_all add: tx_step_def)
  show ?thesis using assms(2) m(3) unfolding mac_inv_def q m(1,2) by blast
qed

lemma tx_mac_q: "tx_step c es w w' \<Longrightarrow> link_up c w \<Longrightarrow> mac_q c w' = mac_q c w"
  by (auto simp: link_up_def tx_step_def dest!: core_eqD(9))

lemma mac_dequeue_ok:
  assumes inv: "mac_inv c w" and q: "mac_q c w = p # ps"
  shows "\<exists>w'. mac_dequeue c p w = Some w' \<and> mac_inv c w' \<and> mac_q c w' = ps \<and> mac_tx c w w' \<and> w_out w' = w_out w
    \<and> g_csm_buf w' = g_csm_buf w \<and> w_mac w' p = map_option unqueued (w_mac w p) \<and> (\<forall>q. q \<noteq> p \<longrightarrow> w_mac w' q = w_mac w q)
    \<and> (link_up c w \<longrightarrow> link_up c w' \<and> sock c w' = sock c w \<and> csm_iccp_info (the (w_csm w' c)) = csm_iccp_info (the (w_csm w c)))"
proof -
  obtain csm where csm: "w_csm w c = Some csm" using inv by (auto simp: mac_inv_def)
  have "p \<in> dom (w_mac w)" using inv q unfolding mac_inv_def by auto
  then obtain m where m: "w_mac w p = Some m" by auto
  define w' where "w' = upd_mac p (mac_in_msg_list_update (\<lambda>_. False)) (upd_mlacp c (ml_mac_msg_list_update tl) w)"
  have deq: "mac_dequeue c p w = Some w'" by (simp add: mac_dequeue_def m w'_def)
  have w': "w_mac w' = (w_mac w)(p \<mapsto> unqueued m)" "w_csm w' = (w_csm w)(c \<mapsto> upd_MLACP (ml_mac_msg_list_update tl) csm)"
    "w_fresh w' = w_fresh w" by (simp_all add: w'_def m csm unqueued_def)
  have qs: "mac_rb c w' = mac_rb c w" "mac_q c w' = ps" using q csm by (simp_all add: w')
  have "p \<notin> set ps" "distinct ps" "set ps \<subseteq> dom (w_mac w)" using inv q unfolding mac_inv_def by auto
  moreover have "mac_tree.tree (map (\<lambda>p. the (w_mac w' p)) (mac_rb c w)) = mac_tree.tree (map (\<lambda>p. the (w_mac w p)) (mac_rb c w))"
    by (rule mac_tree_map_cong) (simp add: w' unqueued_def m)
  moreover have "mac_in_msg_list (the (w_mac w' x)) \<longleftrightarrow> x \<in> set ps" if "x \<in> set (mac_rb c w) \<union> set ps" for x
  proof (cases "x = p")
    case True
    then show ?thesis using \<open>p \<notin> set ps\<close> by (simp add: w' unqueued_def)
  next
    case False
    have "x \<in> set (mac_rb c w) \<union> set (mac_q c w)" using that q by auto
    then have "mac_in_msg_list (the (w_mac w x)) \<longleftrightarrow> x \<in> set (mac_q c w)" using inv unfolding mac_inv_def by blast
    then show ?thesis using False q by (simp add: w')
  qed
  moreover have "set (mac_rb c w) \<subseteq> dom (w_mac w')" "\<forall>p \<in> dom (w_mac w'). p < w_fresh w'"
    using inv m unfolding mac_inv_def by (auto simp: w')
  ultimately have "mac_inv c w'" using inv unfolding mac_inv_def qs by (auto simp: w')
  moreover have "mac_tx c w w'"
    using csm m by (auto simp: mac_tx_def w'_def unqueued_def core_def)
  ultimately show ?thesis
    using deq qs csm m by (auto simp: w' link_up_def) (simp_all add: w'_def)
qed

lemma free_sent_mac_ok:
  assumes inv: "mac_inv c w" and p: "w_mac w p = Some m" "length (mac_addr m) = 6" "p \<notin> set (mac_q c w)"
  shows "\<exists>w'. free_sent_mac c p w = Some w' \<and> mac_inv c w' \<and> mac_q c w' = mac_q c w \<and> mac_tx c w w' \<and> w_out w' = w_out w
    \<and> g_csm_buf w' = g_csm_buf w \<and> (\<forall>q. q \<noteq> p \<longrightarrow> w_mac w' q = w_mac w q) \<and> w_csm w' = w_csm w"
proof -
  have same: ?thesis if "free_sent_mac c p w = Some w" using that inv by (simp add: mac_tx_def)
  have free: ?thesis if f: "free_sent_mac c p w = Some (w\<lparr>w_mac := (w_mac w)(p := None)\<rparr>)" and np: "p \<notin> set (mac_rb c w)"
  proof -
    let ?w = "w\<lparr>w_mac := (w_mac w)(p := None)\<rparr>"
    have "map (\<lambda>q. the (w_mac ?w q)) (mac_rb c w) = map (\<lambda>q. the (w_mac w q)) (mac_rb c w)" using np by auto
    then have "mac_inv c ?w" using inv np p(3) unfolding mac_inv_def
      by (auto simp: subset_iff simp del: map_eq_conv)
    then show ?thesis using f np by (auto simp: mac_tx_def)
  qed
  show ?thesis
  proof (cases "mac_op_type m = MAC_SYNC_DEL")
    case True
    have "safe (\<lambda>r. r = None \<longrightarrow> p \<notin> set (mac_rb c w)) (mac_rb_find c (mac_vid m) (mac_addr m) w)"
      by (rule safe_find_mac [OF inv p(2)]) (auto simp: same_key_def p(1))
    then obtain r where r: "mac_rb_find c (mac_vid m) (mac_addr m) w = Some r" "r = None \<Longrightarrow> p \<notin> set (mac_rb c w)"
      by (auto simp: safe_def)
    then show ?thesis using same free True p by (cases r) (simp_all add: free_sent_mac_def free_mac_def)
  qed (use same p in \<open>simp add: free_sent_mac_def\<close>)
qed

text \<open>What a run of the loop does: the writes \<open>evs\<close>, an empty queue, the tree as it was.\<close>

definition mac_drained :: "csm_ptr \<Rightarrow> event list \<Rightarrow> world \<Rightarrow> world \<Rightarrow> bool" where
  "mac_drained c evs w w' \<longleftrightarrow> w_out w' = w_out w @ evs \<and> mac_q c w' = [] \<and> mac_tx c w w' \<and> mac_inv c w' \<and> link_up c w'"

lemma send_mac_loop_ok:
  assumes "link_up c w" "mac_inv c w" "mac_q c w = ps" "length acc < MAX_MAC_ENTRY_NUM" "mac_tlv.pending c acc n w"
    "\<forall>p \<in> set ps. wf_MACMsg (the (w_mac w p))"
  shows "safe (\<lambda>w'. \<exists>evs. mac_drained c evs w w' \<and> mac_tlv.batch MAX_MAC_ENTRY_NUM c w (acc @ map (\<lambda>p. unqueued (the (w_mac w p))) ps) evs)
    (send_mac_loop c ps (length acc) n w)"
  using assms
proof (induction ps arbitrary: acc n w)
  case Nil
  have "safe (\<lambda>w'. \<exists>evs. tx_step c evs w w' \<and> mac_tlv.batch MAX_MAC_ENTRY_NUM c w acc evs) (flush_rest c (length acc) n w)"
    by (rule mac_tlv.flush_rest_ok) (use Nil.prems in simp_all)
  moreover have "mac_drained c evs w w'" if tx: "tx_step c evs w w'" for evs w'
  proof -
    have "mac_q c w' = []" using tx_mac_q [OF tx Nil.prems(1)] Nil.prems(3) by simp
    then show ?thesis
      using tx_mac_inv [OF tx Nil.prems(2)] tx_mac_tx [OF tx] tx_link [OF tx Nil.prems(1)] tx by (simp add: mac_drained_def tx_step_def)
  qed
  ultimately show ?case by (auto elim!: safe_mono)
next
  case (Cons p ps)
  define m where "m = unqueued (the (w_mac w p))"
  obtain w1 where w1: "mac_dequeue c p w = Some w1" "mac_inv c w1" "mac_q c w1 = ps" "mac_tx c w w1" "w_out w1 = w_out w"
    "g_csm_buf w1 = g_csm_buf w" "w_mac w1 p = map_option unqueued (w_mac w p)" "\<forall>q. q \<noteq> p \<longrightarrow> w_mac w1 q = w_mac w q"
    "link_up c w1" "sock c w1 = sock c w" "csm_iccp_info (the (w_csm w1 c)) = csm_iccp_info (the (w_csm w c))"
    using mac_dequeue_ok [OF Cons.prems(2,3)] Cons.prems(1) by blast
  have p: "w_mac w p \<noteq> None" "p \<notin> set ps" "w_csm w c \<noteq> None" "w_csm w1 c \<noteq> None"
    using Cons.prems(2,3) w1(2) unfolding mac_inv_def by auto
  have m1: "w_mac w1 p = Some m" using w1(7) p(1) by (auto simp: m_def)
  have wfm: "wf_MACMsg m" using Cons.prems(6) by (simp add: m_def unqueued_def wf_MACMsg_def)
  have pend: "mac_tlv.pending c acc n w1"
    using Cons.prems(5) w1(6,11) mac_tlv.built_cong [of "the (w_csm w1 c)" "the (w_csm w c)"] by (simp add: mac_tlv.pending_def)
  let ?Q = "\<lambda>w'. \<exists>evs. mac_drained c evs w w' \<and> mac_tlv.batch MAX_MAC_ENTRY_NUM c w (acc @ m # map (\<lambda>p. unqueued (the (w_mac w p))) ps) evs"
  have "safe (\<lambda>(n', w2). safe (\<lambda>w3. safe (\<lambda>(count, w4). safe ?Q (send_mac_loop c ps count n' w4))
        (flush_full c MAX_MAC_ENTRY_NUM (length acc + 1) n' w3)) (free_sent_mac c p w2))
    (append_info c mlacp_prepare_for_mac_info_to_peer m (length acc) w1)"
  proof (rule safe_mono [OF mac_tlv.round_ok [OF w1(9) _ _ Cons.prems(4) pend wfm]], simp, simp, clarify)
    fix n' w2
    assume tx2: "tx_step c [] w1 w2" and r: "\<forall>w3. link_up c w3 \<and> g_csm_buf w3 = g_csm_buf w2 \<and>
        icc_rg_id (csm_iccp_info (the (w_csm w3 c))) = icc_rg_id (csm_iccp_info (the (w_csm w2 c))) \<longrightarrow>
      safe (\<lambda>(count, w'). \<exists>acc' evs. count = length acc' \<and> length acc' < MAX_MAC_ENTRY_NUM \<and> mac_tlv.pending c acc' n' w' \<and> tx_step c evs w3 w'
        \<and> (\<forall>ms evs'. mac_tlv.batch MAX_MAC_ENTRY_NUM c w3 (acc' @ ms) evs' \<longrightarrow> mac_tlv.batch MAX_MAC_ENTRY_NUM c w3 (acc @ m # ms) (evs @ evs')))
      (flush_full c MAX_MAC_ENTRY_NUM (length acc + 1) n' w3)"
    show "safe (\<lambda>w3. safe (\<lambda>(count, w4). safe ?Q (send_mac_loop c ps count n' w4))
        (flush_full c MAX_MAC_ENTRY_NUM (length acc + 1) n' w3)) (free_sent_mac c p w2)"
    proof -
      have w2: "mac_inv c w2" "mac_q c w2 = ps" "w_mac w2 = w_mac w1" "link_up c w2" "sock c w2 = sock c w1" "w_out w2 = w_out w1"
          "csm_iccp_info (the (w_csm w2 c)) = csm_iccp_info (the (w_csm w1 c))"
        using tx_mac_inv [OF tx2 w1(2)] tx_link [OF tx2 w1(9)] tx_info [OF tx2 w1(9)] tx_mac_q [OF tx2 w1(9)] w1(3) tx2
        by (simp_all add: tx_step_def)
      obtain w3 where w3: "free_sent_mac c p w2 = Some w3" "mac_inv c w3" "mac_q c w3 = ps" "mac_tx c w2 w3" "w_out w3 = w_out w2"
          "g_csm_buf w3 = g_csm_buf w2" "\<forall>q. q \<noteq> p \<longrightarrow> w_mac w3 q = w_mac w2 q" "w_csm w3 = w_csm w2"
        using free_sent_mac_ok [OF w2(1), of p m] m1 wfm p(2) w2(2,3) by (auto simp: wf_MACMsg_def)
      have up3: "link_up c w3" "sock c w3 = sock c w" "csm_iccp_info (the (w_csm w3 c)) = csm_iccp_info (the (w_csm w c))"
        using w2(4,5,7) w1(10,11) by (simp_all add: link_up_def w3(8))
      have tx3: "mac_tx c w w3"
        by (rule mac_tx_trans [OF mac_tx_trans [OF w1(4) tx_mac_tx [OF tx2]] w3(4)]) (use p in auto)
      have r3: "safe (\<lambda>(count, w'). \<exists>acc' evs. count = length acc' \<and> length acc' < MAX_MAC_ENTRY_NUM \<and> mac_tlv.pending c acc' n' w' \<and> tx_step c evs w3 w'
          \<and> (\<forall>ms evs'. mac_tlv.batch MAX_MAC_ENTRY_NUM c w3 (acc' @ ms) evs' \<longrightarrow> mac_tlv.batch MAX_MAC_ENTRY_NUM c w3 (acc @ m # ms) (evs @ evs')))
        (flush_full c MAX_MAC_ENTRY_NUM (length acc + 1) n' w3)"
        by (rule r [THEN spec, THEN mp]) (use up3(1) w3(6,8) in simp)
      have "safe ?Q (send_mac_loop c ps (length acc') n' w4)"
        if a: "length acc' < MAX_MAC_ENTRY_NUM" "mac_tlv.pending c acc' n' w4" "tx_step c evs w3 w4"
          "\<forall>ms evs'. mac_tlv.batch MAX_MAC_ENTRY_NUM c w3 (acc' @ ms) evs' \<longrightarrow> mac_tlv.batch MAX_MAC_ENTRY_NUM c w3 (acc @ m # ms) (evs @ evs')"
        for acc' evs w4
      proof -
        have w4: "link_up c w4" "mac_inv c w4" "mac_q c w4 = ps" "w_mac w4 = w_mac w3" "w_out w4 = w_out w @ evs"
            "sock c w4 = sock c w" "csm_iccp_info (the (w_csm w4 c)) = csm_iccp_info (the (w_csm w c))"
          using tx_mac_inv [OF a(3) w3(2)] tx_link [OF a(3) up3(1)] tx_info [OF a(3) up3(1)] tx_mac_q [OF a(3) up3(1)] w3(3,5) up3 w2(6) w1(5) a(3)
          by (simp_all add: tx_step_def)
        have same: "w_mac w4 q = w_mac w q" if "q \<in> set ps" for q
          using that p(2) w1(8) w2(3) w3(7) w4(4) by (metis)
        then have ms: "map (\<lambda>p. unqueued (the (w_mac w4 p))) ps = map (\<lambda>p. unqueued (the (w_mac w p))) ps" by simp
        have tx4: "mac_tx c w w4" by (rule mac_tx_trans [OF tx3 tx_mac_tx [OF a(3)] p(3)])
        have wf4: "\<forall>q \<in> set ps. wf_MACMsg (the (w_mac w4 q))" using same Cons.prems(6) by simp
        show ?thesis
          using a(4) mac_tx_trans [OF tx4 _ p(3)]
          by (intro safe_mono [OF Cons.IH [OF w4(1,2,3) a(1,2) wf4]])
            (unfold ms w4(6,7) up3(2,3) mac_drained_def w4(5), metis append.assoc)
      qed
      then show ?thesis
        unfolding w3(1) safe_Some by (intro safe_mono [OF r3]) blast
    qed
  qed
  then show ?case by (simp add: w1(1) m1 case_prod_unfold m_def)
qed

lemma mac_queue_sent:
  assumes up: "link_up c w" and inv: "mac_inv c w" and wf: "\<forall>p \<in> set (mac_q c w). wf_MACMsg (the (w_mac w p))"
  shows "safe (\<lambda>w'. \<exists>evs. mac_drained c evs w w'
      \<and> mac_tlv.batch MAX_MAC_ENTRY_NUM c w (map (\<lambda>p. unqueued (the (w_mac w p))) (mac_q c w)) evs)
    (mlacp_sync_send_syncMacInfo c w)"
proof -
  obtain csm where csm: "w_csm w c = Some csm" using inv by (auto simp: mac_inv_def)
  have mac: "w_mac (clear_buf w) = w_mac w" "w_out (clear_buf w) = w_out w" by (simp_all add: clear_buf_def)
  have "safe (\<lambda>w'. \<exists>evs. mac_drained c evs (clear_buf w) w' \<and> mac_tlv.batch MAX_MAC_ENTRY_NUM c (clear_buf w)
      ([] @ map (\<lambda>p. unqueued (the (w_mac (clear_buf w) p))) (mac_q c w)) evs)
    (send_mac_loop c (mac_q c w) (length ([] :: MACMsg list)) 0 (clear_buf w))"
    using tx_link [OF tx_clear up] tx_mac_inv [OF tx_clear inv] wf
    by (intro send_mac_loop_ok) (simp_all add: mac_tlv.pending_def mac clear_buf_def)
  moreover have "mac_drained c evs w w'" if "mac_drained c evs (clear_buf w) w'" for evs w'
    using that mac_tx_trans [OF tx_mac_tx [OF tx_clear]] csm by (auto simp: mac_drained_def mac)
  ultimately show ?thesis
    unfolding mlacp_sync_send_syncMacInfo_def using csm mac by (simp add: safe_def) metis
qed

text \<open>The abstract table is not affected.\<close>

lemma mac_tx_fdb:
  assumes tx: "mac_tx c w w'" and inv: "mac_inv c w" "mac_inv c w'"
  shows "fdb c w' = fdb c w"
proof
  fix k :: "u16 \<times> bytes"
  obtain vid addr where k: "k = (vid, addr)" by fastforce
  have rb: "mac_rb c w' = mac_rb c w" using inv(1) by (intro mac_tx_rb [OF tx]) (simp add: mac_inv_def)
  have e: "learned (the (w_mac w' p)) = learned (the (w_mac w p))"
      "same_key vid addr (the (w_mac w' p)) = same_key vid addr (the (w_mac w p))" if "p \<in> set (mac_rb c w)" for p
  proof -
    have "map_option unqueued (w_mac w' p) = map_option unqueued (w_mac w p)" using tx that by (simp add: mac_tx_def)
    moreover have "p \<in> dom (w_mac w)" using inv(1) that unfolding mac_inv_def by blast
    ultimately obtain m m' where "w_mac w p = Some m" "w_mac w' p = Some m'" "unqueued m' = unqueued m" by auto
    then show "learned (the (w_mac w' p)) = learned (the (w_mac w p))"
      "same_key vid addr (the (w_mac w' p)) = same_key vid addr (the (w_mac w p))"
      by (auto simp: unqueued_def learned_def same_key_def) (metis MACMsg.simps MACMsg.surjective)+
  qed
  show "fdb c w' k = fdb c w k"
  proof (cases "fdb c w k")
    case None
    moreover have "fdb c w' k = None" using e(2) rb None by (simp add: k fdb_None)
    ultimately show ?thesis by simp
  next
    case (Some l)
    then obtain q where q: "q \<in> set (mac_rb c w)" "same_key vid addr (the (w_mac w q))" "learned (the (w_mac w q)) = l"
      unfolding k by (rule fdb_obtain)
    then show ?thesis using fdb_Some [OF inv(2), of q vid addr] e [OF q(1)] rb Some by (simp add: k)
  qed
qed


subsection \<open>At the receiver\<close>

text \<open>
  A message with the entries \<open>ms\<close> is queued for the application, and the entries it reads from
  the queued message are those of \<open>ms\<close>, in order.
\<close>

context info_tlv
begin

definition delivers :: "'m list \<Rightarrow> bytes \<Rightarrow> bool" where
  "delivers ms msg \<longleftrightarrow> length msg = 22 + sz * length ms \<and> ld16 0 msg = Some MSG_T_RG_APP_DATA \<and> ld16 16 msg = Some tlv
     \<and> ld16 20 msg = Some (htons (of_nat (length ms)))
     \<and> (\<forall>k < length ms. ld_entry (22 + sz * k) msg = Some (view (ms ! k)))"

lemma carries_received:
  assumes c: "carries rg ms bs" and tlv: "TLV_T_MLACP_CONNECT < tlv" "tlv < TLV_T_MLACP_LIST_END" and param: "ICCParameter_type tlv = tlv"
  shows "\<exists>msg. iccp_csm_enqueue_msg rcv bs = Some (mlacp_enqueue_msg rcv msg) \<and> delivers ms msg"
proof -
  obtain csm i b where b: "built csm ms i b" "bs = rdn 0 (22 + sz * length ms) b"
    using c by (auto simp: carries_def)
  let ?n = "22 + sz * length ms"
  let ?b = "st16 16 (htons (rd16 16 b)) (st16 0 (htons (rd16 0 b)) b)"
  have hdr: "rd16 0 b = htons MSG_T_RG_APP_DATA" "rd16 16 b = htons tlv" "rd16 20 b = htons (of_nat (length ms))"
    using b(1) by (auto simp: built_def app_header_def)
  have ty: "LDPHdr_msg_type MSG_T_RG_APP_DATA = MSG_T_RG_APP_DATA" by simp
  have ld: "ld_entry (22 + sz * k) (rdn 0 ?n ?b) = Some (view (ms ! k))" if "k < length ms" for k
  proof -
    have le: "22 + sz * k + sz \<le> ?n" using that mult_le_mono2 [of "Suc k" "length ms" sz] by simp
    have "?b j = b j" if "18 \<le> j" for j
      using that unfolding rd8_apply [symmetric] by (simp add: buf_simps)
    then have "ld_entry (22 + sz * k) (rdn 0 ?n ?b) = ld_entry (22 + sz * k) (rdn 0 ?n b)"
      using le by (intro ld_cong) (auto simp: agree_def)
    then show ?thesis using b(1) that by (simp add: built_def)
  qed
  have "iccp_csm_enqueue_msg rcv bs = Some (mlacp_enqueue_msg rcv (rdn 0 ?n ?b))"
    using tlv hdr param unfolding b(2)
    by (simp add: iccp_csm_enqueue_msg_def app_csm_enqueue_msg_def buf_simps)
  moreover have "delivers ms (rdn 0 ?n ?b)"
    using ld hdr by (simp add: delivers_def buf_simps)
  ultimately show ?thesis by blast
qed

end

lemma mac_received:
  "mac_tlv.carries rg ms bs \<Longrightarrow> \<exists>msg. iccp_csm_enqueue_msg rcv bs = Some (mlacp_enqueue_msg rcv msg) \<and> mac_tlv.delivers ms msg"
  by (rule mac_tlv.carries_received) simp_all

lemma arp_received:
  "arp_tlv.carries rg ms bs \<Longrightarrow> \<exists>msg. iccp_csm_enqueue_msg rcv bs = Some (mlacp_enqueue_msg rcv msg) \<and> arp_tlv.delivers ms msg"
  by (rule arp_tlv.carries_received) simp_all

lemma nd_received:
  "nd_tlv.carries rg ms bs \<Longrightarrow> \<exists>msg. iccp_csm_enqueue_msg rcv bs = Some (mlacp_enqueue_msg rcv msg) \<and> nd_tlv.delivers ms msg"
  by (rule nd_tlv.carries_received) simp_all

text \<open>The receiver of a MAC message runs its update once for every entry sent.\<close>

lemma update_mac_entries_foreach:
  assumes "\<And>k. k < length ms \<Longrightarrow> ld_mLACPMACData (p + 30 * k) msg = Some (f (ms ! k))"
  shows "update_mac_entries c msg p (length ms) w = foreach (\<lambda>m. mlacp_fsm_update_mac_entry_from_peer c (f m)) ms w"
  using assms
proof (induction ms arbitrary: p w)
  case (Cons m ms)
  have "ld_mLACPMACData p msg = Some (f m)" using Cons.prems [of 0] by simp
  moreover have "update_mac_entries c msg (p + 30) (length ms) w' = foreach (\<lambda>m. mlacp_fsm_update_mac_entry_from_peer c (f m)) ms w'" for w'
  proof (rule Cons.IH)
    fix k assume "k < length ms"
    then show "ld_mLACPMACData (p + 30 + 30 * k) msg = Some (f (ms ! k))"
      using Cons.prems [of "Suc k"] by (simp add: add.assoc)
  qed
  ultimately show ?case by simp
qed simp

lemma mac_info_foreach:
  assumes d: "mac_tlv.delivers ms msg" and n: "length ms < 65536"
  shows "mlacp_fsm_update_mac_info_from_peer c msg w = foreach (\<lambda>m. mlacp_fsm_update_mac_entry_from_peer c (MACData_of m)) ms w"
proof -
  have u: "unat (ntohs (htons (of_nat (length ms)))) = length ms" using n by (simp add: unsigned_of_nat take_bit_nat_eq_self)
  have "update_mac_entries c msg 22 (length ms) w = foreach (\<lambda>m. mlacp_fsm_update_mac_entry_from_peer c (MACData_of m)) ms w"
    by (rule update_mac_entries_foreach) (use d in \<open>simp add: mac_tlv.delivers_def\<close>)
  then show ?thesis using d u by (simp add: mlacp_fsm_update_mac_info_from_peer_def mac_tlv.delivers_def)
qed

end
