(* ===== verification/Mac_Machine.thy ===== *)
theory Mac_Machine
  imports Sync_Send_Spec
begin

text \<open>
  The MAC table as a state machine: the events that reach it, in any order, with the
  invariant of the reachable states. Interfaces are those of the domain; names and
  addresses have the size of the fields they arrive in.
\<close>

datatype mac_event =
    Local_update bytes u16 string u8 u8
  | Peer_update mLACPMACData
  | Port_state lif_ptr int
  | Orphan_port_state lif_ptr int
  | Peer_link_up
  | Peer_link_down
  | Peer_link_set lif_ptr
  | Mclag_port_del string
  | Session_up
  | Session_lost
  | Port_down_expired lif_ptr
  | Queue_reset
  | Send_updates

fun handle :: "csm_ptr \<Rightarrow> mac_event \<Rightarrow> world \<Rightarrow> world option" where
  "handle c (Local_update addr vid n ty op) w = do_mac_update_from_syncd addr vid n ty op w"
| "handle c (Peer_update d) w = mlacp_fsm_update_mac_entry_from_peer c d w"
| "handle c (Port_state l st) w = update_l2_mac_state c l st w"
| "handle c (Orphan_port_state l st) w = update_orphan_port_mac c l st w"
| "handle c Peer_link_up w = mlacp_peerlink_up_handler c w"
| "handle c Peer_link_down w = mlacp_peerlink_down_handler c w"
| "handle c (Peer_link_set l) w = update_remote_macs_to_peerlink c l w"
| "handle c (Mclag_port_del n) w = mlacp_convert_remote_mac_to_local c n w"
| "handle c Session_up w = mlacp_sync_mac c w"
| "handle c Session_lost w = mlacp_peer_disconn_fdb_handler c w"
| "handle c (Port_down_expired l) w = mlacp_local_lif_clear_pending_mac c l w"
| "handle c Queue_reset w = mlacp_mac_msg_queue_reinit c w"
| "handle c Send_updates w = mlacp_sync_send_syncMacInfo c w"

text \<open>
  The queue of updates holds a deletion of an address that is still in the tree: the peer keeps
  the address, or it was learned from the peer, and only the local side has deleted it.
\<close>

definition deleting :: "csm_ptr \<Rightarrow> world \<Rightarrow> mac_ptr set" where
  "deleting c w = {p \<in> set (mac_rb c w) \<inter> set (mac_q c w). mac_op_type (the (w_mac w p)) = MAC_SYNC_DEL}"

text \<open>
  The events that can occur. A reset of the queue, made when a session is initialised, ends or
  fails, can occur at any time; it is listed here only where no such deletion is queued, and
  \<open>queue_reset_freed\<close> below shows what it does otherwise.
\<close>

fun possible :: "csm_ptr \<Rightarrow> mac_event \<Rightarrow> world \<Rightarrow> bool" where
  "possible c (Local_update addr vid n ty op) w \<longleftrightarrow> length addr = ETHER_ADDR_LEN \<and> length n < MAX_L_PORT_NAME"
| "possible c (Peer_update d) w \<longleftrightarrow> length (md_mac_addr d) = ETHER_ADDR_LEN"
| "possible c (Port_state l st) w \<longleftrightarrow> w_lif w l \<noteq> None"
| "possible c (Orphan_port_state l st) w \<longleftrightarrow> w_lif w l \<noteq> None"
| "possible c (Peer_link_set l) w \<longleftrightarrow> w_lif w l \<noteq> None"
| "possible c (Port_down_expired l) w \<longleftrightarrow> w_lif w l \<noteq> None"
| "possible c Queue_reset w \<longleftrightarrow> deleting c w = {}"
| "possible c Send_updates w \<longleftrightarrow> link_up c w \<and> (\<forall>p \<in> set (mac_q c w). wf_MACMsg (the (w_mac w p)))"
| "possible c _ w \<longleftrightarrow> True"

inductive mac_run :: "csm_ptr \<Rightarrow> world \<Rightarrow> world \<Rightarrow> bool" for c where
  start: "mac_run c w w"
| event: "mac_run c w w1 \<Longrightarrow> possible c e w1 \<Longrightarrow> handle c e w1 = Some w2 \<Longrightarrow> mac_run c w w2"

inductive_cases mac_runE: "mac_run c w w'"

definition table_ok :: "csm_ptr \<Rightarrow> world \<Rightarrow> bool" where
  "table_ok c w \<longleftrightarrow> learn_ok c w \<and> csm_peer_itf_name (the (w_csm w c)) \<noteq> []"

lemma mac_only_table:
  assumes only: "mac_only c w w'" and inv: "mac_inv c w'" and ok: "table_ok c w"
  shows "table_ok c w'"
proof -
  have "env_ok c' w'" if "env_ok c' w" for c'
    using only that by (cases "c' = c") (auto simp: mac_only_def env_ok_def)
  moreover have "csm_peer_itf_name (the (w_csm w' c)) = csm_peer_itf_name (the (w_csm w c))"
    using only ok by (auto simp: mac_only_def table_ok_def learn_ok_def env_ok_def)
  moreover have "sys_csm_list (w_sys w') = sys_csm_list (w_sys w)" using only by (auto simp: mac_only_def)
  ultimately show ?thesis using ok inv by (auto simp: table_ok_def learn_ok_def)
qed

lemma upd_lif_table: "table_ok c w \<Longrightarrow> table_ok c (upd_lif l f w)"
  by (auto simp: table_ok_def learn_ok_def env_upd_lif)

lemma mac_tx_table:
  assumes tx: "mac_tx c w w'" and inv: "mac_inv c w'" and ok: "table_ok c w"
  shows "table_ok c w'"
proof -
  obtain csm csm' where csm: "w_csm w c = Some csm" "w_csm w' c = Some csm'"
    using ok inv by (auto simp: table_ok_def learn_ok_def mac_inv_def)
  then have "core (upd_MLACP (ml_mac_msg_list_update (\<lambda>_. [])) csm') = core (upd_MLACP (ml_mac_msg_list_update (\<lambda>_. [])) csm)"
    using tx by (simp add: mac_tx_def)
  note eq = core_eqD [OF this, simplified]
  have "env_ok c' w'" if "env_ok c' w" for c'
    using tx that csm eq by (cases "c' = c") (auto simp: mac_tx_def env_ok_def)
  then show ?thesis using ok inv csm eq tx by (auto simp: table_ok_def learn_ok_def mac_tx_def)
qed

text \<open>The reset of the queue: first the queued deletions are freed, then the entries of the tree are unmarked.\<close>

definition freed :: "csm_ptr \<Rightarrow> world \<Rightarrow> mac_ptr \<Rightarrow> bool" where
  "freed c w p \<longleftrightarrow> p \<in> set (mac_q c w) \<and> mac_op_type (the (w_mac w p)) = MAC_SYNC_DEL"

lemma free_deletions:
  assumes "distinct ps" "set ps \<subseteq> dom (w_mac w)"
  shows "foreach (\<lambda>p w. do { m \<leftarrow> w_mac w p; if mac_op_type m = MAC_SYNC_DEL then free_mac p w else Some w }) ps w
    = Some (w\<lparr>w_mac := (\<lambda>p. if p \<in> set ps \<and> mac_op_type (the (w_mac w p)) = MAC_SYNC_DEL then None else w_mac w p)\<rparr>)"
  using assms
proof (induction ps arbitrary: w)
  case (Cons p ps)
  then obtain m where m: "w_mac w p = Some m" by auto
  let ?w = "if mac_op_type m = MAC_SYNC_DEL then w\<lparr>w_mac := (w_mac w)(p := None)\<rparr> else w"
  have same: "w_mac ?w q = w_mac w q" if "q \<in> set ps" for q using Cons.prems(1) that by auto
  then have "set ps \<subseteq> dom (w_mac ?w)" using Cons.prems(2) unfolding subset_iff domIff by (metis list.set_intros(2))
  note IH = Cons.IH [OF _ this]
  have "(\<lambda>q. if q \<in> set ps \<and> mac_op_type (the (w_mac ?w q)) = MAC_SYNC_DEL then None else w_mac ?w q)
      = (\<lambda>q. if q \<in> set (p # ps) \<and> mac_op_type (the (w_mac w q)) = MAC_SYNC_DEL then None else w_mac w q)"
    using same m Cons.prems(1) by (auto simp: fun_eq_iff)
  then show ?case using m IH Cons.prems(1) by (simp add: free_mac_def split: if_splits)
qed simp

lemma unmark_all:
  assumes "set ps \<subseteq> dom (w_mac w)"
  shows "foreach (\<lambda>p. mod_mac p (mac_in_msg_list_update (\<lambda>_. False))) ps w
    = Some (w\<lparr>w_mac := (\<lambda>p. if p \<in> set ps then map_option (mac_in_msg_list_update (\<lambda>_. False)) (w_mac w p) else w_mac w p)\<rparr>)"
  using assms
proof (induction ps arbitrary: w)
  case (Cons p ps)
  then obtain m where m: "w_mac w p = Some m" by auto
  let ?w = "upd_mac p (mac_in_msg_list_update (\<lambda>_. False)) w"
  have "set ps \<subseteq> dom (w_mac ?w)" using Cons.prems by (auto simp: upd_mac_def)
  note IH = Cons.IH [OF this]
  have "(\<lambda>q. if q \<in> set ps then map_option (mac_in_msg_list_update (\<lambda>_. False)) (w_mac ?w q) else w_mac ?w q)
      = (\<lambda>q. if q \<in> set (p # ps) then map_option (mac_in_msg_list_update (\<lambda>_. False)) (w_mac w q) else w_mac w q)"
    using m by (auto simp: fun_eq_iff upd_mac_def)
  moreover have "?w\<lparr>w_mac := g\<rparr> = w\<lparr>w_mac := g\<rparr>" for g by (simp add: upd_mac_def)
  ultimately show ?case using IH m by (simp add: mod_mac_def)
qed simp

lemma unmark_freed: "p \<in> set ps \<Longrightarrow> w_mac w p = None \<Longrightarrow> foreach (\<lambda>p. mod_mac p f) ps w = None"
proof (induction ps arbitrary: w)
  case (Cons q ps)
  have "w_mac (upd_mac q f w) p = None" using Cons.prems(2) by (auto simp: upd_mac_def)
  then show ?case using Cons by (cases "w_mac w q") (auto simp: mod_mac_def)
qed simp

lemma inv_unqueued:
  assumes inv: "mac_inv c w" and rb: "mac_rb c u = mac_rb c w" "mac_q c u = []" "w_csm u c \<noteq> None"
    and dom: "w_fresh u = w_fresh w" "dom (w_mac u) \<subseteq> dom (w_mac w)"
    and entry: "\<And>p. p \<in> set (mac_rb c w) \<Longrightarrow> \<exists>m. w_mac w p = Some m \<and> w_mac u p = Some (m\<lparr>mac_in_msg_list := False\<rparr>)"
  shows "mac_inv c u"
proof -
  have "mac_tree.tree (map (\<lambda>p. the (w_mac u p)) (mac_rb c w)) = mac_tree.tree (map (\<lambda>p. the (w_mac w p)) (mac_rb c w))"
    by (rule mac_tree_map_cong) (use entry in fastforce)
  then have "mac_tree.tree (map (\<lambda>p. the (w_mac u p)) (mac_rb c w))" using inv by (simp add: mac_inv_def)
  moreover have "set (mac_rb c w) \<subseteq> dom (w_mac u)" using entry by blast
  moreover have "\<forall>p \<in> dom (w_mac u). p < w_fresh w" using inv dom(2) unfolding mac_inv_def by blast
  moreover have "\<not> mac_in_msg_list (the (w_mac u p))" if "p \<in> set (mac_rb c w)" for p using entry [OF that] by force
  ultimately show ?thesis unfolding mac_inv_def rb dom(1) using rb(3) by simp
qed

lemma queue_reset_free:
  assumes inv: "mac_inv c w" and csm: "w_csm w c = Some csm"
  shows "mlacp_mac_msg_queue_reinit c w = foreach (\<lambda>p. mod_mac p (mac_in_msg_list_update (\<lambda>_. False))) (mac_rb c w)
    (upd_mlacp c (ml_mac_msg_list_update (\<lambda>_. [])) (w\<lparr>w_mac := (\<lambda>p. if freed c w p then None else w_mac w p)\<rparr>))"
proof -
  have "distinct (mac_q c w)" "set (mac_q c w) \<subseteq> dom (w_mac w)" using inv by (auto simp: mac_inv_def)
  from free_deletions [OF this] csm show ?thesis
    by (simp add: mlacp_mac_msg_queue_reinit_def MLACP_MAC_MSG_QUEUE_REINIT_def freed_def)
qed

lemma queue_reset_freed:
  assumes inv: "mac_inv c w" and "deleting c w \<noteq> {}"
  shows "mlacp_mac_msg_queue_reinit c w = None"
proof -
  obtain csm where csm: "w_csm w c = Some csm" using inv by (auto simp: mac_inv_def)
  obtain p where "p \<in> set (mac_rb c w)" "freed c w p" using assms(2) by (auto simp: deleting_def freed_def)
  then show ?thesis unfolding queue_reset_free [OF inv csm] by (intro unmark_freed [of p]) simp_all
qed

lemma queue_reset_ok:
  assumes inv: "mac_inv c w" and none: "deleting c w = {}"
  shows "safe (table_step c w) (mlacp_mac_msg_queue_reinit c w)"
proof -
  obtain csm where csm: "w_csm w c = Some csm" using inv by (auto simp: mac_inv_def)
  define v where "v = upd_mlacp c (ml_mac_msg_list_update (\<lambda>_. [])) (w\<lparr>w_mac := (\<lambda>p. if freed c w p then None else w_mac w p)\<rparr>)"
  have keep: "w_mac v p = w_mac w p" if "p \<in> set (mac_rb c w)" for p using that none by (auto simp: deleting_def v_def freed_def)
  let ?u = "v\<lparr>w_mac := (\<lambda>p. if p \<in> set (mac_rb c w) then map_option (mac_in_msg_list_update (\<lambda>_. False)) (w_mac v p) else w_mac v p)\<rparr>"
  have "set (mac_rb c w) \<subseteq> dom (w_mac v)" using keep inv by (auto simp: mac_inv_def dom_def)
  then have u: "mlacp_mac_msg_queue_reinit c w = Some ?u"
    using queue_reset_free [OF inv csm] unmark_all [of "mac_rb c w" v] by (simp add: v_def)
  have entry: "\<exists>m. w_mac w p = Some m \<and> w_mac ?u p = Some (m\<lparr>mac_in_msg_list := False\<rparr>)" if "p \<in> set (mac_rb c w)" for p
    using that keep [OF that] inv by (auto simp: mac_inv_def)
  have "mac_inv c ?u" by (rule inv_unqueued [OF inv _ _ _ _ _ entry]) (use csm in \<open>auto simp: v_def split: if_splits\<close>)
  moreover have "mac_only c w ?u"
  proof (rule mac_onlyI [where cnt = "sys_dbg_counters (w_sys w)" and rb = "mac_rb c w" and q = "[]"])
    have emptied: "upd_MLACP (ml_mac_msg_list_update (\<lambda>_. [])) csm =
        upd_MLACP (\<lambda>m. m\<lparr>ml_mac_rb := ml_mac_rb (MLACP csm), ml_mac_msg_list := []\<rparr>) csm"
      by (cases csm, cases "csm_app_csm csm", cases "MLACP csm") simp
    show "w_csm ?u = (w_csm w)(c := map_option (upd_MLACP (\<lambda>m. m\<lparr>ml_mac_rb := mac_rb c w, ml_mac_msg_list := []\<rparr>)) (w_csm w c))"
      by (simp add: v_def upd_csm_def csm emptied)
  qed (simp_all add: v_def)
  ultimately show ?thesis using u by (simp add: table_step_def)
qed

lemma handle_ok:
  assumes ok: "table_ok c w" and p: "possible c e w"
  shows "safe (table_ok c) (handle c e w)"
proof -
  have inv: "mac_inv c w" and env: "env_ok c w" and learn: "learn_ok c w" and n: "csm_peer_itf_name (the (w_csm w c)) \<noteq> []"
    using ok by (auto simp: table_ok_def learn_ok_def)
  have step: "safe (table_ok c) x" if "safe (table_step c w1) x" "table_ok c w1" for x w1
    using that mac_only_table by (auto simp: safe_def table_step_def)
  show ?thesis
  proof (cases e)
    case (Port_state l st)
    then show ?thesis
      using step [OF update_l2_mac_state_ok [OF inv env] upd_lif_table [OF ok]] p by simp
  next
    case Send_updates
    then have "link_up c w" "\<forall>p \<in> set (mac_q c w). wf_MACMsg (the (w_mac w p))" using p by simp_all
    from mac_queue_sent [OF this(1) inv this(2)] show ?thesis
      using mac_tx_table [OF _ _ ok] unfolding Send_updates handle.simps safe_def mac_drained_def by blast
  qed (use p ok in \<open>auto intro!: step [OF do_mac_update_from_syncd_ok] step [OF mlacp_fsm_update_mac_entry_from_peer_ok]
        step [OF update_orphan_port_mac_ok] step [OF mlacp_peerlink_up_handler_ok] step [OF mlacp_peerlink_down_handler_ok]
        step [OF update_remote_macs_to_peerlink_ok] step [OF mlacp_convert_remote_mac_to_local_ok] step [OF mlacp_sync_mac_ok]
        step [OF mlacp_peer_disconn_fdb_handler_ok] step [OF queue_reset_ok] step [OF mlacp_local_lif_clear_pending_mac_ok]
        inv env learn n\<close>)
qed

lemma mac_run_ok: "mac_run c w w' \<Longrightarrow> table_ok c w \<Longrightarrow> table_ok c w'"
  by (induction rule: mac_run.induct) (auto dest!: handle_ok simp: safe_def)

end
