(* ===== verification/C_Strings.thy ===== *)
theory C_Strings
  imports Iccp_Prelude
begin

text \<open>
  What the daemon uses of \<open>printf\<close> and \<open>scanf\<close>: decimal numbers, the notation of MAC
  addresses, and \<open>sscanf\<close> with a literal prefix followed by one number.
\<close>

subsection \<open>Printing\<close>

definition digit_char :: "nat \<Rightarrow> char" where
  "digit_char d = (if d < 10 then char_of (48 + d) else char_of (87 + d))"

fun show_nat :: "nat \<Rightarrow> string" where
  "show_nat n = (if n < 10 then [digit_char n] else show_nat (n div 10) @ [digit_char (n mod 10)])"

declare show_nat.simps [simp del]

text \<open>\<open>"%d"\<close> and \<open>"%02x"\<close>\<close>

definition show_int :: "int \<Rightarrow> string" where
  "show_int i = (if i < 0 then CHR ''-'' # show_nat (nat (- i)) else show_nat (nat i))"

definition show_hex2 :: "u8 \<Rightarrow> string" where
  "show_hex2 b = [digit_char (unat b div 16), digit_char (unat b mod 16)]"

text \<open>\<open>SET_MAC_STR\<close> and the other \<open>"%02x:%02x:%02x:%02x:%02x:%02x"\<close>; the address has six bytes.\<close>

fun show_mac :: "bytes \<Rightarrow> string" where
  "show_mac [] = []"
| "show_mac [b] = show_hex2 b"
| "show_mac (b # bs) = show_hex2 b @ CHR '':'' # show_mac bs"

subsection \<open>Scanning\<close>

definition is_space :: "char \<Rightarrow> bool" where
  "is_space c \<longleftrightarrow> (of_char c :: nat) = 32 \<or> (of_char c :: nat) \<in> {9..13}"

definition is_digit :: "char \<Rightarrow> bool" where
  "is_digit c \<longleftrightarrow> (of_char c :: nat) \<in> {48..57}"

definition digit_val :: "char \<Rightarrow> nat" where
  "digit_val c = of_char c - 48"

definition digits_val :: "string \<Rightarrow> nat" where
  "digits_val s = foldl (\<lambda>n c. 10 * n + digit_val c) 0 s"

text \<open>The number an integer conversion reads at the start of \<open>s\<close>: blanks, a sign, digits.\<close>

definition scan_num :: "string \<Rightarrow> int option" where
  "scan_num s = (let
     s = dropWhile is_space s;
     (neg, s) = (case s of c # r \<Rightarrow> if c = CHR ''-'' then (True, r) else if c = CHR ''+'' then (False, r) else (False, s) | [] \<Rightarrow> (False, s));
     ds = takeWhile is_digit s
   in if ds = [] then None else Some (if neg then - int (digits_val ds) else int (digits_val ds)))"

definition strip_prefix :: "string \<Rightarrow> string \<Rightarrow> string option" where
  "strip_prefix p s = (if take (length p) s = p then Some (drop (length p) s) else None)"

text \<open>
  \<open>sscanf (s, "<prefix>%d", &v)\<close> and \<open>"<prefix>%hu"\<close>, with \<open>v\<close> 0 before: \<open>strtol\<close> and \<open>strtoul\<close>
  saturate at 64 bits and the result is cut to the width of the variable.
\<close>

definition sscanf_d :: "string \<Rightarrow> string \<Rightarrow> int" where
  "sscanf_d p s = (case Option.bind (strip_prefix p s) scan_num of None \<Rightarrow> 0
     | Some v \<Rightarrow> sint (of_int (max (- (2 ^ 63)) (min (2 ^ 63 - 1) v)) :: 32 word))"

definition sscanf_hu :: "string \<Rightarrow> string \<Rightarrow> u16" where
  "sscanf_hu p s = (case Option.bind (strip_prefix p s) scan_num of None \<Rightarrow> 0
     | Some v \<Rightarrow> if \<bar>v\<bar> \<ge> 2 ^ 64 then - 1 else of_int v)"

text \<open>
  \<open>inet_addr\<close>: up to four numbers separated by dots, decimal, octal (leading 0) or hexadecimal
  (leading 0x), the last one filling the remaining bytes. The result is in network order, that
  is, the first number is the least significant byte of the word; \<open>INADDR_NONE\<close> is all ones.
\<close>

definition hex_val :: "char \<Rightarrow> nat option" where
  "hex_val c = (let k = of_char c in
     if k \<in> {48..57} then Some (k - 48)
     else if k \<in> {97..102} then Some (k - 87)
     else if k \<in> {65..70} then Some (k - 55) else None)"

primrec scan_base :: "nat \<Rightarrow> nat \<Rightarrow> string \<Rightarrow> nat \<times> string" where
  "scan_base b n [] = (n, [])"
| "scan_base b n (c # s) = (case hex_val c of None \<Rightarrow> (n, c # s)
     | Some d \<Rightarrow> if d < b then scan_base b (b * n + d) s else (n, c # s))"

definition scan_part :: "string \<Rightarrow> (nat \<times> string) option" where
  "scan_part s = (if s = [] \<or> \<not> is_digit (hd s) then None
     else if hd s \<noteq> CHR ''0'' then Some (scan_base 10 0 s)
     else if tl s \<noteq> [] \<and> hd (tl s) \<in> {CHR ''x'', CHR ''X''} then Some (scan_base 16 0 (tl (tl s)))
     else Some (scan_base 8 0 s))"

function inet_parts :: "nat \<Rightarrow> string \<Rightarrow> nat list option" where
  "inet_parts k s = (case scan_part s of None \<Rightarrow> None
     | Some (n, r) \<Rightarrow>
         if r = [] \<or> is_space (hd r) then Some [n]
         else if hd r = CHR ''.'' \<and> k > 0 \<and> n < 256 then map_option (Cons n) (inet_parts (k - 1) (tl r))
         else None)"
  by pat_completeness auto
termination by (relation "measure fst") auto

definition inet_addr :: "string \<Rightarrow> u32" where
  "inet_addr s = (case inet_parts 3 s of
       Some [a] \<Rightarrow> if a < 2 ^ 32 then htonl (of_nat a) else - 1
     | Some [a, b] \<Rightarrow> if b < 2 ^ 24 then htonl (of_nat (a * 2 ^ 24 + b)) else - 1
     | Some [a, b, c] \<Rightarrow> if c < 2 ^ 16 then htonl (of_nat (a * 2 ^ 24 + b * 2 ^ 16 + c)) else - 1
     | Some [a, b, c, d] \<Rightarrow> if d < 2 ^ 8 then htonl (of_nat (a * 2 ^ 24 + b * 2 ^ 16 + c * 2 ^ 8 + d)) else - 1
     | _ \<Rightarrow> - 1)"

subsection \<open>Reading back what was printed\<close>

lemma of_char_digit: "d < 10 \<Longrightarrow> (of_char (digit_char d) :: nat) = 48 + d"
  by (simp add: digit_char_def of_char_of)

lemma digit_char_props [simp]:
  "d < 10 \<Longrightarrow> is_digit (digit_char d)" "d < 10 \<Longrightarrow> digit_val (digit_char d) = d" "d < 10 \<Longrightarrow> \<not> is_space (digit_char d)"
  by (auto simp: is_digit_def digit_val_def is_space_def of_char_digit)

lemma show_nat_digits: "\<forall>c \<in> set (show_nat n). is_digit c \<and> \<not> is_space c"
  by (induction n rule: show_nat.induct) (subst show_nat.simps, auto)

lemma show_nat_not_Nil [simp]: "show_nat n \<noteq> []"
  by (subst show_nat.simps) simp

lemma digits_val_append: "digits_val (s @ [c]) = 10 * digits_val s + digit_val c"
  by (simp add: digits_val_def)

lemma digits_val_show: "digits_val (show_nat n) = n"
proof (induction n rule: show_nat.induct)
  case (1 n)
  then show ?case by (subst show_nat.simps) (auto simp: digits_val_append, simp add: digits_val_def)
qed

lemma digit_not_sign: "is_digit c \<Longrightarrow> c \<noteq> CHR ''-'' \<and> c \<noteq> CHR ''+''"
  by (auto simp: is_digit_def)

lemma scan_show_nat: "scan_num (show_nat n) = Some (int n)"
proof -
  obtain c r where s: "show_nat n = c # r" by (cases "show_nat n") auto
  have c: "is_digit c" "\<not> is_space c" using show_nat_digits [of n] s by auto
  have "dropWhile is_space (show_nat n) = show_nat n" using c by (simp add: s)
  moreover have "takeWhile is_digit (show_nat n) = show_nat n" using show_nat_digits [of n] by (simp add: takeWhile_eq_all_conv)
  ultimately show ?thesis
    using digit_not_sign [OF c(1)] digits_val_show [of n] by (simp add: scan_num_def s)
qed

lemma strip_prefix_append [simp]: "strip_prefix p (p @ s) = Some s"
  by (simp add: strip_prefix_def)

lemma sscanf_show:
  "n < 2 ^ 16 \<Longrightarrow> sscanf_hu p (p @ show_nat n) = of_nat n"
  "n < 2 ^ 31 \<Longrightarrow> sscanf_d p (p @ show_nat n) = int n"
  by (simp_all add: sscanf_hu_def sscanf_d_def scan_show_nat signed_of_nat signed_take_bit_int_eq_self)

end
