(* ===== verification/Iccp_Netlink.thy ===== *)
theory Iccp_Netlink
  imports Mclag_Syncd Iccp_Port C_Strings
begin

text \<open>
  Requests to the kernel (\<open>src/iccp_netlink.c\<close>): hardware addresses and administrative state of
  interfaces, neighbour entries, and the MAC address a standby switch takes over from the
  active one. The objects libnl allocates may fail to be allocated; the result of a request is
  the kernel's.
\<close>

abbreviation (input) ENOMEM :: int where "ENOMEM \<equiv> 12"
abbreviation (input) AF_INET :: nat where "AF_INET \<equiv> 2"
abbreviation (input) AF_INET6 :: nat where "AF_INET6 \<equiv> 10"

abbreviation null_mac :: bytes where "null_mac \<equiv> replicate ETHER_ADDR_LEN 0"

subsection \<open>Interfaces\<close>

definition iccp_netlink_if_hwaddr_set :: "int \<Rightarrow> bytes \<Rightarrow> world \<Rightarrow> int \<times> world" where
  "iccp_netlink_if_hwaddr_set ifindex addr w = (let (link, w) = malloc_ok w in
     if \<not> link then (- ENOMEM, w)
     else let (nl_addr, w) = malloc_ok w in
       if \<not> nl_addr then (- ENOMEM, w)
       else let (err, w) = answer 0 w in (err, emit (Ev_hwaddr ifindex (take ETHER_ADDR_LEN addr)) w))"

definition if_flags_set :: "bool \<Rightarrow> int \<Rightarrow> world \<Rightarrow> int \<times> world" where
  "if_flags_set up ifindex w = (let (link, w) = malloc_ok w in
     if \<not> link then (- ENOMEM, w)
     else let (err, w) = answer 0 w in (err, emit (Ev_link_flags ifindex up) w))"

definition iccp_netlink_if_startup_set :: "int \<Rightarrow> world \<Rightarrow> int \<times> world" where
  "iccp_netlink_if_startup_set = if_flags_set True"

definition iccp_netlink_if_shutdown_set :: "int \<Rightarrow> world \<Rightarrow> int \<times> world" where
  "iccp_netlink_if_shutdown_set = if_flags_set False"

text \<open>The tokens \<open>strtok_r\<close> finds between commas.\<close>

fun strtok :: "string \<Rightarrow> string \<Rightarrow> string list" where
  "strtok acc [] = (if acc = [] then [] else [rev acc])"
| "strtok acc (c # s) = (if c = CHR '','' then (if acc = [] then [] else [rev acc]) @ strtok [] s else strtok (c # acc) s)"

primrec set_iff_flags :: "bool \<Rightarrow> string list \<Rightarrow> int \<Rightarrow> world \<Rightarrow> (int \<times> world) option" where
  "set_iff_flags up [] ret_rv w = Some (ret_rv, w)"
| "set_iff_flags up (token # ts) ret_rv w = do {
     member_if \<leftarrow> local_if_find_by_name token w;
     case member_if of
       None \<Rightarrow> set_iff_flags up ts ret_rv w
     | Some p \<Rightarrow> do {
         l \<leftarrow> w_lif w p;
         let (rv, w) = (if up then iccp_netlink_if_startup_set (lif_ifindex l) w else iccp_netlink_if_shutdown_set (lif_ifindex l) w);
         set_iff_flags up ts (if rv \<noteq> 0 then rv else ret_rv) w } }"

definition iccp_netlink_set_portchannel_iff_flag :: "lif_ptr option \<Rightarrow> bool \<Rightarrow> world \<Rightarrow> (int \<times> world) option" where
  "iccp_netlink_set_portchannel_iff_flag lif_po is_iff_up w = (case lif_po of
       None \<Rightarrow> Some (MCLAG_ERROR, w)
     | Some p \<Rightarrow> do {
         l \<leftarrow> w_lif w p;
         let (tmp_member_buf, w) = malloc_ok w;
         if \<not> tmp_member_buf then Some (MCLAG_ERROR, w)
         else set_iff_flags is_iff_up (strtok [] (lif_portchannel_member_buf l)) 0 w })"

subsection \<open>Neighbours\<close>

definition iccp_netlink_neighbor_request ::
    "nat \<Rightarrow> bytes \<Rightarrow> bool \<Rightarrow> bytes \<Rightarrow> string \<Rightarrow> bool \<Rightarrow> world \<Rightarrow> (int \<times> world) option" where
  "iccp_netlink_neighbor_request family addr add mac portname permanent w = do {
     lif \<leftarrow> local_if_find_by_name portname w;
     case lif of None \<Rightarrow> Some (- 3, w) | Some p \<Rightarrow> do {
       l \<leftarrow> w_lif w p;
       let (neigh, w) = malloc_ok w;
       if \<not> neigh then Some (- 4, w)
       else do {
         let (nl_addr_mac, w) = malloc_ok w;
         if \<not> nl_addr_mac then Some (- 5, w)
         else do {
           let (nl_addr_dst, w) = malloc_ok w;
           if \<not> nl_addr_dst then Some (- 6, w)
           else do {
             let (err, w) = answer 0 w;
             Some (err, emit (Ev_neighbor family (take (if family = AF_INET then 4 else 16) addr) add
                     (take ETHER_ADDR_LEN mac) (lif_ifindex l) permanent) w) } } } } }"

subsection \<open>The system MAC on the standby switch\<close>

definition iccp_set_interface_ipadd_mac :: "LocalInterface \<Rightarrow> string \<Rightarrow> world \<Rightarrow> world" where
  "iccp_set_interface_ipadd_mac lif mac_str w = (let
     msg = IccpSyncdMsg MCLAG_MSG_TYPE_SET_MAC (sub_option 5 (name_bytes (lif_name lif)) @ sub_option 6 (name_bytes mac_str))
   in if sys_sync_fd (w_sys w) \<noteq> 0 then
        let (rc, w) = sys_write (sys_sync_fd (w_sys w)) msg w
        in SYSTEM_SET_SYNCD_TX_DBG_COUNTER MCLAG_MSG_TYPE_SET_MAC (if rc < 0 then 1 else 0) w
      else w)"

text \<open>Set the address, then restart the interface so that its link local address follows.\<close>

definition refresh_hwaddr :: "int \<Rightarrow> bytes \<Rightarrow> world \<Rightarrow> world" where
  "refresh_hwaddr ifindex mac w = (let
     (_, w) = iccp_netlink_if_hwaddr_set ifindex mac w;
     (_, w) = iccp_netlink_if_shutdown_set ifindex w;
     (_, w) = iccp_netlink_if_startup_set ifindex w
   in w)"

text \<open>The same for an L3 interface, and mclagsyncd and the record are told.\<close>

definition take_over_mac :: "lif_ptr \<Rightarrow> LocalInterface \<Rightarrow> bytes \<Rightarrow> world \<Rightarrow> world" where
  "take_over_mac p lif mac w = upd_lif p (lif_l3_mac_addr_update (\<lambda>_. mac))
     (iccp_set_interface_ipadd_mac lif (show_mac mac) (refresh_hwaddr (lif_ifindex lif) mac w))"

definition update_if_ipmac_on_standby :: "lif_ptr \<Rightarrow> world \<Rightarrow> world option" where
  "update_if_ipmac_on_standby p w = do {
     lif \<leftarrow> w_lif w p;
     case lif_csm lif of None \<Rightarrow> Some w | Some c \<Rightarrow>
       if lif_type lif \<noteq> IF_T_PORT_CHANNEL then Some w
       else do {
         csm \<leftarrow> w_csm w c;
         let sid = rs_system_id (ml_remote_system (MLACP csm));
         if csm_role_type csm \<noteq> STP_ROLE_STANDBY \<or> memcmp sid null_mac = 0 then Some w
         else do {
           pif \<leftarrow> peer_if_find_by_name (Some c) (lif_name lif) w;
           let w = (if pif \<noteq> None \<and> memcmp (lif_mac_addr lif) sid \<noteq> 0
                    then refresh_hwaddr (lif_ifindex lif) sid (upd_lif p (\<lambda>l. l\<lparr>lif_mac_addr_ori := lif_mac_addr l\<rparr>) w) else w);
           if local_if_is_l3_mode lif then
             Some (if memcmp (lif_l3_mac_addr lif) sid \<noteq> 0
                   then upd_lif p (lif_l3_mac_addr_update (\<lambda>_. sid)) (iccp_set_interface_ipadd_mac lif (show_mac sid) w) else w)
           else foreach (\<lambda>vlan w. case vlan_itf vlan of None \<Rightarrow> Some w | Some q \<Rightarrow> do {
               itf \<leftarrow> w_lif w q;
               Some (if local_if_is_l3_mode itf \<and> memcmp (lif_l3_mac_addr itf) sid \<noteq> 0 \<and> \<not> lif_is_l3_proto_enabled itf
                     then take_over_mac q itf sid w else w) })
             (lif_vlan_tree lif) w } } }"

definition recover_if_ipmac_on_standby :: "lif_ptr \<Rightarrow> world \<Rightarrow> world option" where
  "recover_if_ipmac_on_standby p w = do {
     lif \<leftarrow> w_lif w p;
     case lif_csm lif of None \<Rightarrow> Some w | Some c \<Rightarrow>
       if lif_type lif \<noteq> IF_T_PORT_CHANNEL then Some w
       else do {
         csm \<leftarrow> w_csm w c;
         let sid = ml_system_id (MLACP csm);
         if csm_role_type csm \<noteq> STP_ROLE_STANDBY then Some w
         else do {
           let w = (if memcmp (lif_mac_addr lif) sid \<noteq> 0
                    then upd_lif p (lif_mac_addr_update (\<lambda>_. sid)) (refresh_hwaddr (lif_ifindex lif) sid w) else w);
           if local_if_is_l3_mode lif then
             Some (upd_lif p (lif_l3_mac_addr_update (\<lambda>_. sid)) (iccp_set_interface_ipadd_mac lif (show_mac sid) w))
           else foreach (\<lambda>vlan w. case vlan_itf vlan of None \<Rightarrow> Some w | Some q \<Rightarrow> do {
               itf \<leftarrow> w_lif w q;
               Some (if local_if_is_l3_mode itf \<and> \<not> lif_is_l3_proto_enabled itf then take_over_mac q itf sid w else w) })
             (lif_vlan_tree lif) w } } }"

definition set_peer_mac_in_kernel :: "string \<Rightarrow> int \<Rightarrow> bool \<Rightarrow> world \<Rightarrow> world" where
  "set_peer_mac_in_kernel mac vlan add w = snd (sys_system
     (''bridge fdb '' @ (if add then ''replace '' else ''del '') @ mac @ '' dev Bridge vlan '' @ show_int vlan @ '' local'') w)"

text \<open>The first domain whose peer link, or one of whose port channels, is a member of the VLAN.\<close>

fun find_vlan_csm :: "u16 \<Rightarrow> csm_ptr list \<Rightarrow> world \<Rightarrow> csm_ptr option option" where
  "find_vlan_csm vid [] w = Some None"
| "find_vlan_csm vid (c # cs) w = do {
     csm \<leftarrow> w_csm w c;
     peer \<leftarrow> (case csm_peer_link_if csm of None \<Rightarrow> Some False | Some l \<Rightarrow> do {
                lif_peer \<leftarrow> w_lif w l;
                Some (case RB_FIND vlan_node_compare (vlan_key vid) (lif_vlan_tree lif_peer) of
                        None \<Rightarrow> False | Some v \<Rightarrow> vlan_itf v \<noteq> None) });
     po \<leftarrow> (if peer then Some None else find_ptr (w_lif w) (\<lambda>lif_po. lif_type lif_po = IF_T_PORT_CHANNEL
              \<and> RB_FIND vlan_node_compare (vlan_key vid) (lif_vlan_tree lif_po) \<noteq> None) (ml_lif_list (MLACP csm)));
     if peer \<or> po \<noteq> None then Some (Some c) else find_vlan_csm vid cs w }"

definition update_vlan_if_mac_on_standby :: "lif_ptr \<Rightarrow> world \<Rightarrow> world option" where
  "update_vlan_if_mac_on_standby p w = do {
     lif_vlan \<leftarrow> w_lif w p;
     if lif_type lif_vlan \<noteq> IF_T_VLAN then Some w
     else do {
       let vid = sscanf_d ''Vlan'' (lif_name lif_vlan);
       c \<leftarrow> find_vlan_csm (of_int vid) (sys_csm_list (w_sys w)) w;
       case c of None \<Rightarrow> Some w | Some c \<Rightarrow> do {
         csm \<leftarrow> w_csm w c;
         let mac = (if lif_is_l3_proto_enabled lif_vlan then ml_system_id (MLACP csm)
                    else rs_system_id (ml_remote_system (MLACP csm)));
         if csm_role_type csm \<noteq> STP_ROLE_STANDBY \<or> memcmp mac null_mac = 0 then Some w
         else if local_if_is_l3_mode lif_vlan \<and> memcmp (lif_l3_mac_addr lif_vlan) mac \<noteq> 0 then do {
           let w = take_over_mac p lif_vlan mac w;
           Some (if lif_is_l3_proto_enabled lif_vlan then w else set_peer_mac_in_kernel (show_mac mac) vid True w) }
         else Some w } } }"

fun find_peer_link_csm :: "csm_ptr list \<Rightarrow> world \<Rightarrow> csm_ptr option option" where
  "find_peer_link_csm [] w = Some None"
| "find_peer_link_csm (c # cs) w = do {
     csm \<leftarrow> w_csm w c;
     if csm_peer_link_if csm \<noteq> None then Some (Some c) else find_peer_link_csm cs w }"

definition recover_vlan_if_mac_on_standby :: "lif_ptr \<Rightarrow> int \<Rightarrow> bytes option \<Rightarrow> world \<Rightarrow> world option" where
  "recover_vlan_if_mac_on_standby p dir remote_system_mac w = do {
     lif_vlan \<leftarrow> w_lif w p;
     if lif_type lif_vlan \<noteq> IF_T_VLAN then Some w
     else do {
       c \<leftarrow> find_peer_link_csm (sys_csm_list (w_sys w)) w;
       case c of None \<Rightarrow> Some w | Some c \<Rightarrow> do {
         csm \<leftarrow> w_csm w c;
         let vid = sscanf_d ''Vlan'' (lif_name lif_vlan);
         let remote = rs_system_id (ml_remote_system (MLACP csm));
         let mac = (if lif_is_l3_proto_enabled lif_vlan then remote else ml_system_id (MLACP csm));
         if csm_role_type csm \<noteq> STP_ROLE_STANDBY \<or> memcmp mac null_mac = 0 then Some w
         else if local_if_is_l3_mode lif_vlan \<and> memcmp (lif_l3_mac_addr lif_vlan) mac \<noteq> 0 then do {
           let w = take_over_mac p lif_vlan mac w;
           Some (if memcmp remote null_mac \<noteq> 0 then set_peer_mac_in_kernel (show_mac remote) vid False w
                 else (case remote_system_mac of
                         Some m \<Rightarrow> if dir = 4 \<and> memcmp m null_mac \<noteq> 0 then set_peer_mac_in_kernel (show_mac m) vid False w else w
                       | None \<Rightarrow> w)) }
         else Some w } } }"

definition update_vlan_if_mac_on_iccp_up :: "lif_ptr \<Rightarrow> bool \<Rightarrow> bytes option \<Rightarrow> world \<Rightarrow> world option" where
  "update_vlan_if_mac_on_iccp_up p is_iccp_up remote_system_mac w = do {
     lif_peer \<leftarrow> w_lif w p;
     foreach (\<lambda>v w. case vlan_itf v of
         None \<Rightarrow> Some w
       | Some q \<Rightarrow> if is_iccp_up then update_vlan_if_mac_on_standby q w
                   else recover_vlan_if_mac_on_standby q 4 remote_system_mac w)
       (lif_vlan_tree lif_peer) w }"

text \<open>Learning on the peer link, in the kernel; a failed command is retried later.\<close>

definition set_peerlink_learn_kernel :: "csm_ptr \<Rightarrow> int \<Rightarrow> world \<Rightarrow> world option" where
  "set_peerlink_learn_kernel c enable w = do {
     csm \<leftarrow> w_csm w c;
     case csm_peer_link_if csm of None \<Rightarrow> Some w | Some l \<Rightarrow> do {
       lif \<leftarrow> w_lif w l;
       let (ret, w) = sys_system (''bridge link set dev '' @ lif_name lif @ '' learning '' @ (if enable = 0 then ''off'' else ''on'')) w;
       Some (upd_csm c (if ret \<noteq> 0
         then (\<lambda>csm. csm\<lparr>csm_peer_link_learning_enable := enable, csm_peer_link_learning_retry_time := w_now w\<rparr>)
         else csm_peer_link_learning_retry_time_update (\<lambda>_. 0)) w) } }"

end
