(* ===== verification/Mlacp_Neigh.thy ===== *)
theory Mlacp_Neigh
  imports Mlacp_Sync_Send Iccp_Netlink
begin

text \<open>
  ARP and neighbour discovery entries: what the peer sends is programmed into the kernel and
  kept in \<open>arp_list\<close> and \<open>ndisc_list\<close> (\<open>src/mlacp_sync_update.c\<close>), and the entries a port
  needs are replayed when it changes state (\<open>src/mlacp_link_handler.c\<close>, \<open>src/mlacp_fsm.c\<close>).
\<close>

abbreviation (input) ICCP_NLE_SEQ_MISMATCH :: int where "ICCP_NLE_SEQ_MISMATCH \<equiv> - 16"

subsection \<open>Queues of entries\<close>

text \<open>\<open>iccp_csm_init_msg\<close>: the header and the copy of the data are allocated separately.\<close>

definition iccp_csm_init_msg :: "world \<Rightarrow> bool \<times> world" where
  "iccp_csm_init_msg w = (let (iccp_msg, w) = malloc_ok w in if \<not> iccp_msg then (False, w) else malloc_ok w)"

definition mlacp_enqueue_arp :: "csm_ptr \<Rightarrow> ARPMsg \<Rightarrow> world \<Rightarrow> world" where
  "mlacp_enqueue_arp c m w =
     (if arp_op_type m \<noteq> NEIGH_SYNC_DEL then upd_mlacp c (ml_arp_list_update (\<lambda>q. q @ [m])) w else w)"

definition mlacp_enqueue_ndisc :: "csm_ptr \<Rightarrow> NDISCMsg \<Rightarrow> world \<Rightarrow> world" where
  "mlacp_enqueue_ndisc c m w =
     (if nd_op_type m \<noteq> NEIGH_SYNC_DEL then upd_mlacp c (ml_ndisc_list_update (\<lambda>q. q @ [m])) w else w)"

fun update_first :: "('a \<Rightarrow> bool) \<Rightarrow> ('a \<Rightarrow> 'a) \<Rightarrow> 'a list \<Rightarrow> 'a list" where
  "update_first P f [] = []"
| "update_first P f (x # xs) = (if P x then f x # xs else x # update_first P f xs)"

fun remove_first :: "('a \<Rightarrow> bool) \<Rightarrow> 'a list \<Rightarrow> 'a list" where
  "remove_first P [] = []"
| "remove_first P (x # xs) = (if P x then xs else x # remove_first P xs)"

text \<open>Search from the start, remove what is found, and search from the start again.\<close>

function remove_all :: "('a \<Rightarrow> bool) \<Rightarrow> 'a list \<Rightarrow> 'a list" where
  "remove_all P xs = (if find P xs = None then xs else remove_all P (remove_first P xs))"
  by auto
termination
proof (relation "measure (\<lambda>(P, xs). length xs)")
  fix P :: "'a \<Rightarrow> bool" and xs :: "'a list" assume "find P xs \<noteq> None"
  then have "length (remove_first P xs) < length xs"
    by (induction xs) (auto split: if_splits)
  then show "((P, remove_first P xs), P, xs) \<in> measure (\<lambda>(P, xs). length xs)" by simp
qed simp

declare remove_all.simps [simp del]

text \<open>Mark the entries as additions and queue a copy of each for the peer.\<close>

primrec requeue :: "('m \<Rightarrow> bool) \<Rightarrow> ('m \<Rightarrow> 'm) \<Rightarrow> 'm list \<Rightarrow> world \<Rightarrow> 'm list \<times> 'm list \<times> world" where
  "requeue P f [] w = ([], [], w)"
| "requeue P f (m # ms) w = (if P m then let
       (ok, w) = iccp_csm_init_msg w;
       (ms', q, w) = requeue P f ms w
     in (f m # ms', (if ok then f m # q else q), w)
     else let (ms', q, w) = requeue P f ms w in (m # ms', q, w))"

definition arp_readd :: "ARPMsg \<Rightarrow> ARPMsg" where
  "arp_readd m = m\<lparr>arp_op_type := NEIGH_SYNC_ADD, arp_flag := 0\<rparr>"

definition ndisc_readd :: "NDISCMsg \<Rightarrow> NDISCMsg" where
  "ndisc_readd m = m\<lparr>nd_op_type := NEIGH_SYNC_ADD, nd_flag := 0\<rparr>"

definition requeue_arp :: "(ARPMsg \<Rightarrow> bool) \<Rightarrow> csm_ptr \<Rightarrow> world \<Rightarrow> world option" where
  "requeue_arp P c w = do {
     csm \<leftarrow> w_csm w c;
     let (ms, q, w) = requeue P arp_readd (ml_arp_list (MLACP csm)) w;
     Some (upd_mlacp c (\<lambda>m. m\<lparr>ml_arp_list := ms, ml_arp_msg_list := ml_arp_msg_list m @ q\<rparr>) w) }"

definition requeue_ndisc :: "(NDISCMsg \<Rightarrow> bool) \<Rightarrow> csm_ptr \<Rightarrow> world \<Rightarrow> world option" where
  "requeue_ndisc P c w = do {
     csm \<leftarrow> w_csm w c;
     let (ms, q, w) = requeue P ndisc_readd (ml_ndisc_list (MLACP csm)) w;
     Some (upd_mlacp c (\<lambda>m. m\<lparr>ml_ndisc_list := ms, ml_ndisc_msg_list := ml_ndisc_msg_list m @ q\<rparr>) w) }"

definition mlacp_resync_arp :: "csm_ptr \<Rightarrow> world \<Rightarrow> world option" where
  "mlacp_resync_arp = requeue_arp (\<lambda>_. True)"

definition mlacp_resync_ndisc :: "csm_ptr \<Rightarrow> world \<Rightarrow> world option" where
  "mlacp_resync_ndisc = requeue_ndisc (\<lambda>_. True)"

definition syn_arp_info_to_peer :: "csm_ptr \<Rightarrow> lif_ptr \<Rightarrow> world \<Rightarrow> world option" where
  "syn_arp_info_to_peer c l w = do {
     local_if \<leftarrow> w_lif w l;
     requeue_arp (\<lambda>m. arp_ifname m = lif_name local_if) c w }"

definition syn_ndisc_info_to_peer :: "csm_ptr \<Rightarrow> lif_ptr \<Rightarrow> world \<Rightarrow> world option" where
  "syn_ndisc_info_to_peer c l w = do {
     local_if \<leftarrow> w_lif w l;
     requeue_ndisc (\<lambda>m. nd_ifname m = lif_name local_if) c w }"

subsection \<open>Replaying the entries of a port\<close>

definition arp_set_handler :: "csm_ptr \<Rightarrow> lif_ptr \<Rightarrow> bool \<Rightarrow> world \<Rightarrow> world option" where
  "arp_set_handler c l add w = do {
     csm \<leftarrow> w_csm w c;
     lif \<leftarrow> w_lif w l;
     if add \<and> ml_current_state (MLACP csm) \<noteq> MLACP_STATE_EXCHANGE then Some w
     else foreach (\<lambda>m w. if arp_op_type m = NEIGH_SYNC_DEL \<or> lif_name lif \<noteq> arp_ifname m then Some w
         else map_option snd (iccp_netlink_neighbor_request AF_INET (le32 (arp_ipv4_addr m)) add (arp_mac_addr m) (arp_ifname m) False w))
       (ml_arp_list (MLACP csm)) w }"

text \<open>Unlike its ARP counterpart the deletion asks the kernel to add the entries.\<close>

definition ndisc_set_handler :: "csm_ptr \<Rightarrow> lif_ptr \<Rightarrow> bool \<Rightarrow> world \<Rightarrow> world option" where
  "ndisc_set_handler c l add w = do {
     csm \<leftarrow> w_csm w c;
     lif \<leftarrow> w_lif w l;
     if add \<and> ml_current_state (MLACP csm) \<noteq> MLACP_STATE_EXCHANGE then Some w
     else foreach (\<lambda>m w. if nd_op_type m = NEIGH_SYNC_DEL \<or> lif_name lif \<noteq> nd_ifname m then Some w
         else map_option snd (iccp_netlink_neighbor_request AF_INET6 (nd_ipv6_addr m) True (nd_mac_addr m) (nd_ifname m) False w))
       (ml_ndisc_list (MLACP csm)) w }"

subsection \<open>Announcing the addresses of this switch\<close>

definition send_if_built :: "csm_ptr \<Rightarrow> (out \<Rightarrow> int \<times> out) \<Rightarrow> world \<Rightarrow> (int \<times> world) option" where
  "send_if_built c f w = (let (n, w) = in_buf f (clear_buf w) in
     if n > 0 then iccp_csm_send c n w else Some (MCLAG_ERROR, w))"

definition syn_local_mac_info_to_peer :: "csm_ptr \<Rightarrow> LocalInterface \<Rightarrow> bool \<Rightarrow> bool \<Rightarrow> world \<Rightarrow> (int \<times> world) option" where
  "syn_local_mac_info_to_peer c local_if sync_add is_sag w = do {
     csm \<leftarrow> w_csm w c;
     if memcmp (ml_system_id (MLACP csm)) null_mac = 0 then Some (MCLAG_ERROR, w)
     else do {
       let vid = sscanf_d (if is_sag then ''sag'' else ''Vlan'') (lif_name local_if);
       let m = zero_MACMsg\<lparr>mac_op_type := (if sync_add then MAC_SYNC_ADD else MAC_SYNC_DEL), mac_vid := of_int vid,
             mac_fdb_type := MAC_TYPE_STATIC, mac_origin_ifname := csm_peer_itf_name csm, mac_addr := ml_system_id (MLACP csm)\<rparr>;
       send_if_built c (mlacp_prepare_for_mac_info_to_peer csm CSM_BUFFER_SIZE m 0) w } }"

definition syn_local_arp_info_to_peer :: "csm_ptr \<Rightarrow> LocalInterface \<Rightarrow> bool \<Rightarrow> bool \<Rightarrow> world \<Rightarrow> (int \<times> world) option" where
  "syn_local_arp_info_to_peer c local_if sync_add ack w = do {
     csm \<leftarrow> w_csm w c;
     let m = \<lparr>arp_op_type = (if sync_add then NEIGH_SYNC_ADD else NEIGH_SYNC_DEL),
           arp_flag = (if sync_add \<and> ack then NEIGH_SYNC_FLAG_ACK else 0) OR NEIGH_SYNC_FLAG_SELF_IP, arp_learn_flag = 0,
           arp_ifname = lif_name local_if, arp_ipv4_addr = lif_ipv4_addr local_if, arp_mac_addr = lif_mac_addr local_if\<rparr>;
     send_if_built c (mlacp_prepare_for_arp_info csm CSM_BUFFER_SIZE m 0) w }"

definition syn_local_nd_info_to_peer ::
    "csm_ptr \<Rightarrow> LocalInterface \<Rightarrow> bool \<Rightarrow> bool \<Rightarrow> bool \<Rightarrow> world \<Rightarrow> (int \<times> world) option" where
  "syn_local_nd_info_to_peer c local_if sync_add ack is_ipv6_ll w = do {
     csm \<leftarrow> w_csm w c;
     let sid = ml_system_id (MLACP csm);
     if is_ipv6_ll \<and> (lif_ll_prefixlen_v6 local_if = 0 \<or> memcmp sid null_mac = 0) then Some (MCLAG_ERROR, w)
     else do {
       let m = \<lparr>nd_op_type = (if sync_add then NEIGH_SYNC_ADD else NEIGH_SYNC_DEL),
             nd_flag = (if sync_add \<and> ack then NEIGH_SYNC_FLAG_ACK else 0)
               OR (if is_ipv6_ll then NEIGH_SYNC_FLAG_SELF_LL else NEIGH_SYNC_FLAG_SELF_IP), nd_learn_flag = 0,
             nd_ifname = lif_name local_if,
             nd_ipv6_addr = (if is_ipv6_ll then lif_ipv6_ll_addr local_if else lif_ipv6_addr local_if),
             nd_mac_addr = (if is_ipv6_ll then sid else lif_mac_addr local_if)\<rparr>;
       send_if_built c (mlacp_prepare_for_ndisc_info csm CSM_BUFFER_SIZE m 0) w } }"

definition syn_local_neigh_mac_info_to_peer ::
    "lif_ptr \<Rightarrow> bool \<Rightarrow> bool \<Rightarrow> bool \<Rightarrow> bool \<Rightarrow> bool \<Rightarrow> bool \<Rightarrow> world \<Rightarrow> (int \<times> world) option" where
  "syn_local_neigh_mac_info_to_peer l sync_add is_v4 is_v6 sync_mac ack is_ipv6_ll w = (case sys_csm_list (w_sys w) of
       [] \<Rightarrow> Some (MCLAG_ERROR, w)
     | c # _ \<Rightarrow> do {
         csm \<leftarrow> w_csm w c;
         local_if \<leftarrow> w_lif w l;
         if ml_current_state (MLACP csm) \<noteq> MLACP_STATE_EXCHANGE \<or> lif_type local_if \<noteq> IF_T_VLAN then Some (MCLAG_ERROR, w)
         else do {
           w \<leftarrow> set_peerlink_learn_kernel c 0 w;
           w \<leftarrow> (if sync_mac then map_option snd (syn_local_mac_info_to_peer c local_if sync_add is_ipv6_ll w) else Some w);
           w \<leftarrow> (if is_v4 then map_option snd (syn_local_arp_info_to_peer c local_if sync_add ack w) else Some w);
           w \<leftarrow> (if is_v6 then map_option snd (syn_local_nd_info_to_peer c local_if sync_add ack is_ipv6_ll w) else Some w);
           Some (0, w) } })"

definition syn_ack_local_neigh_mac_info_to_peer :: "string \<Rightarrow> bool \<Rightarrow> world \<Rightarrow> world option" where
  "syn_ack_local_neigh_mac_info_to_peer ifname is_ipv6_ll w = do {
     lif \<leftarrow> local_if_find_by_name ifname w;
     case lif of None \<Rightarrow> Some w | Some l \<Rightarrow> do {
       lif \<leftarrow> w_lif w l;
       if is_ipv6_ll then map_option snd (syn_local_neigh_mac_info_to_peer l True False True True False True w)
       else if lif_l3_mode lif \<noteq> 0 \<and> lif_is_l3_proto_enabled lif
       then map_option snd (syn_local_neigh_mac_info_to_peer l True (lif_ipv4_addr lif \<noteq> 0) (lif_prefixlen_v6 lif \<noteq> 0) True False False w)
       else Some w } }"

definition sync_unique_ip :: "world \<Rightarrow> world option" where
  "sync_unique_ip w = foreach (\<lambda>n. syn_ack_local_neigh_mac_info_to_peer n False) (sys_unq_ip_if_list (w_sys w)) w"

subsection \<open>Entries from the peer\<close>

text \<open>
  \<open>self\<close> tells whether an interface has the address of the entry. The first check looks at the
  peer link, the second at the port channels; each returns whether the address is our own, and
  whether the entry can be reached.
\<close>

definition entry_vlan :: "string \<Rightarrow> u16" where
  "entry_vlan ifname = (if take 4 ifname = ''Vlan'' then sscanf_hu ''Vlan'' ifname else 0)"

definition neigh_peer_link :: "CSM \<Rightarrow> string \<Rightarrow> (LocalInterface \<Rightarrow> bool) \<Rightarrow> world \<Rightarrow> (bool \<times> bool) option" where
  "neigh_peer_link csm ifname self w =
     (if entry_vlan ifname = 0 then Some (False, False)
      else do {
        peer_link_if \<leftarrow> local_if_find_by_name (csm_peer_itf_name csm) w;
        case peer_link_if of None \<Rightarrow> Some (False, False) | Some l \<Rightarrow> do {
          lif \<leftarrow> w_lif w l;
          if local_if_is_l3_mode lif then Some (False, False)
          else (case RB_FIND vlan_node_compare (vlan_key (entry_vlan ifname)) (lif_vlan_tree lif) of
              Some v \<Rightarrow> (case vlan_itf v of None \<Rightarrow> Some (False, False) | Some q \<Rightarrow> do {
                itf \<leftarrow> w_lif w q;
                Some (lif_name itf = ifname \<and> local_if_is_l3_mode itf \<and> self itf, True) })
            | None \<Rightarrow> do {
                vlan_if \<leftarrow> local_if_find_by_name ifname w;
                case vlan_if of None \<Rightarrow> Some (False, False) | Some q \<Rightarrow> do {
                  itf \<leftarrow> w_lif w q;
                  Some (if lif_is_l3_proto_enabled itf then (self itf, True) else (False, False)) } }) } })"

fun neigh_port_channels :: "string \<Rightarrow> (LocalInterface \<Rightarrow> bool) \<Rightarrow> bool \<Rightarrow> lif_ptr list \<Rightarrow> world \<Rightarrow> (bool \<times> bool) option" where
  "neigh_port_channels ifname self my_ip [] w = Some (my_ip, False)"
| "neigh_port_channels ifname self my_ip (l # ls) w = do {
     local_if \<leftarrow> w_lif w l;
     if lif_type local_if \<noteq> IF_T_PORT_CHANNEL then neigh_port_channels ifname self my_ip ls w
     else if \<not> local_if_is_l3_mode local_if then do {
       let v = (if entry_vlan ifname \<noteq> 0
                then RB_FIND vlan_node_compare (vlan_key (entry_vlan ifname)) (lif_vlan_tree local_if) else None);
       my_ip \<leftarrow> (case Option.bind v vlan_itf of None \<Rightarrow> Some my_ip | Some q \<Rightarrow> do { itf \<leftarrow> w_lif w q; Some (my_ip \<or> self itf) });
       if v \<noteq> None \<and> lif_po_active local_if = 1 then Some (my_ip, True) else neigh_port_channels ifname self my_ip ls w }
     else if lif_name local_if = ifname \<and> lif_po_active local_if = 1 then Some (my_ip, True)
     else neigh_port_channels ifname self my_ip ls w }"

text \<open>Program the kernel; an early return of the caller is \<open>Some\<close> result.\<close>

definition neigh_program ::
    "nat \<Rightarrow> bytes \<Rightarrow> bytes \<Rightarrow> string \<Rightarrow> u8 \<Rightarrow> bool \<Rightarrow> bool \<Rightarrow> bool \<Rightarrow> world \<Rightarrow> (int option \<times> world) option" where
  "neigh_program family addr mac ifname op_type permanent ack ack_ll w = do {
     (err, w) \<leftarrow> iccp_netlink_neighbor_request family addr (op_type = NEIGH_SYNC_ADD) mac ifname permanent w;
     if err < 0 \<and> err \<noteq> ICCP_NLE_SEQ_MISMATCH then Some (Some MCLAG_ERROR, w)
     else if op_type = NEIGH_SYNC_ADD \<and> ack
     then map_option (Pair None) (syn_ack_local_neigh_mac_info_to_peer ifname ack_ll w)
     else Some (None, w) }"

definition mlacp_fsm_update_arp_entry :: "csm_ptr \<Rightarrow> ARPMsg \<Rightarrow> world \<Rightarrow> (int \<times> world) option" where
  "mlacp_fsm_update_arp_entry c e w = do {
     csm \<leftarrow> w_csm w c;
     let self = (\<lambda>itf. arp_ipv4_addr e = lif_ipv4_addr itf);
     (my_ip, set_arp) \<leftarrow> neigh_peer_link csm (arp_ifname e) self w;
     if my_ip then Some (0, w) else do {
       (my_ip, set_arp) \<leftarrow> (if set_arp then Some (False, True)
         else neigh_port_channels (arp_ifname e) self False (ml_lif_list (MLACP csm)) w);
       if my_ip then Some (0, w) else do {
         (ret, w) \<leftarrow> (if set_arp
           then neigh_program AF_INET (le32 (arp_ipv4_addr e)) (arp_mac_addr e) (arp_ifname e) (arp_op_type e)
                  (arp_flag e AND NEIGH_SYNC_FLAG_SELF_IP \<noteq> 0) (arp_flag e AND NEIGH_SYNC_FLAG_ACK \<noteq> 0) False w
           else do {
             local_vlan_if \<leftarrow> local_if_find_by_name (arp_ifname e) w;
             case local_vlan_if of None \<Rightarrow> Some (None, w) | Some q \<Rightarrow> do {
               itf \<leftarrow> w_lif w q;
               Some (if self itf then Some 0 else None, w) } });
         case ret of Some rc \<Rightarrow> Some (rc, w) | None \<Rightarrow> do {
           csm \<leftarrow> w_csm w c;
           let same = (\<lambda>m. arp_ipv4_addr m = arp_ipv4_addr e);
           let found = (find same (ml_arp_list (MLACP csm)) \<noteq> None);
           let w = upd_mlacp c (ml_arp_list_update
                 (update_first same (\<lambda>m. m\<lparr>arp_ifname := arp_ifname e, arp_mac_addr := arp_mac_addr e\<rparr>))) w;
           let w = (if found \<and> arp_op_type e = NEIGH_SYNC_DEL then upd_mlacp c (ml_arp_list_update (remove_first same)) w
                 else if \<not> found \<and> arp_op_type e = NEIGH_SYNC_ADD then
                   let (ok, w) = iccp_csm_init_msg w
                   in if ok then mlacp_enqueue_arp c (e\<lparr>arp_flag := 0, arp_learn_flag := NEIGH_REMOTE\<rparr>) w else w
                 else w);
           Some (0, upd_mlacp c (ml_arp_msg_list_update (remove_all same)) w) } } } }"

primrec update_arp_entries :: "csm_ptr \<Rightarrow> bytes \<Rightarrow> nat \<Rightarrow> nat \<Rightarrow> world \<Rightarrow> world option" where
  "update_arp_entries c msg p 0 w = Some w"
| "update_arp_entries c msg p (Suc n) w = do {
     e \<leftarrow> ld_ARPMsg p msg;
     (_, w) \<leftarrow> mlacp_fsm_update_arp_entry c e w;
     update_arp_entries c msg (p + 36) n w }"

definition mlacp_fsm_update_arp_info :: "csm_ptr \<Rightarrow> bytes \<Rightarrow> world \<Rightarrow> world option" where
  "mlacp_fsm_update_arp_info c msg w = do {
     num \<leftarrow> ld16 20 msg;
     update_arp_entries c msg 22 (unat (ntohs num)) w }"

text \<open>The printed form of an address starts with \<open>fe80\<close> exactly when its first group is \<open>fe80\<close>.\<close>

definition is_link_local :: "bytes \<Rightarrow> bool" where
  "is_link_local addr \<longleftrightarrow> take 2 addr = [0xFE, 0x80]"

definition mlacp_fsm_update_ndisc_entry :: "csm_ptr \<Rightarrow> NDISCMsg \<Rightarrow> world \<Rightarrow> (int \<times> world) option" where
  "mlacp_fsm_update_ndisc_entry c e w = do {
     csm \<leftarrow> w_csm w c;
     let self = (\<lambda>itf. memcmp (nd_ipv6_addr e) (lif_ipv6_addr itf) = 0);
     let self_ll = (\<lambda>itf. self itf \<or> is_link_local (nd_ipv6_addr e) \<and> memcmp (nd_ipv6_addr e) (lif_ipv6_ll_addr itf) = 0);
     (my_ip, set_nd) \<leftarrow> neigh_peer_link csm (nd_ifname e) self_ll w;
     if my_ip then Some (0, w) else do {
       (my_ip, set_nd) \<leftarrow> (if set_nd then Some (False, True)
         else neigh_port_channels (nd_ifname e) self False (ml_lif_list (MLACP csm)) w);
       if my_ip then Some (0, w) else do {
         (ret, w) \<leftarrow> (if set_nd
           then neigh_program AF_INET6 (nd_ipv6_addr e) (nd_mac_addr e) (nd_ifname e) (nd_op_type e)
                  (nd_flag e AND NEIGH_SYNC_FLAG_SELF_LL \<noteq> 0 \<or> nd_flag e AND NEIGH_SYNC_FLAG_SELF_IP \<noteq> 0)
                  (nd_flag e AND NEIGH_SYNC_FLAG_ACK \<noteq> 0) (nd_flag e AND NEIGH_SYNC_FLAG_SELF_LL \<noteq> 0) w
           else do {
             local_vlan_if \<leftarrow> local_if_find_by_name (nd_ifname e) w;
             case local_vlan_if of None \<Rightarrow> Some (None, w) | Some q \<Rightarrow> do {
               itf \<leftarrow> w_lif w q;
               Some (if self itf then Some 0 else None, w) } });
         case ret of Some rc \<Rightarrow> Some (rc, w) | None \<Rightarrow> do {
           csm \<leftarrow> w_csm w c;
           let same = (\<lambda>m. memcmp (nd_ipv6_addr m) (nd_ipv6_addr e) = 0);
           let found = (find same (ml_ndisc_list (MLACP csm)) \<noteq> None);
           let w = upd_mlacp c (ml_ndisc_list_update
                 (update_first same (\<lambda>m. m\<lparr>nd_ifname := nd_ifname e, nd_mac_addr := nd_mac_addr e\<rparr>))) w;
           let w = (if found \<and> nd_op_type e = NEIGH_SYNC_DEL then upd_mlacp c (ml_ndisc_list_update (remove_first same)) w
                 else if \<not> found \<and> nd_op_type e = NEIGH_SYNC_ADD then
                   let (ok, w) = iccp_csm_init_msg w
                   in if ok then mlacp_enqueue_ndisc c (e\<lparr>nd_flag := 0, nd_learn_flag := NEIGH_REMOTE\<rparr>) w else w
                 else w);
           Some (0, upd_mlacp c (ml_ndisc_msg_list_update (remove_all same)) w) } } } }"

primrec update_ndisc_entries :: "csm_ptr \<Rightarrow> bytes \<Rightarrow> nat \<Rightarrow> nat \<Rightarrow> world \<Rightarrow> world option" where
  "update_ndisc_entries c msg p 0 w = Some w"
| "update_ndisc_entries c msg p (Suc n) w = do {
     e \<leftarrow> ld_NDISCMsg p msg;
     (_, w) \<leftarrow> mlacp_fsm_update_ndisc_entry c e w;
     update_ndisc_entries c msg (p + 48) n w }"

definition mlacp_fsm_update_ndisc_info :: "csm_ptr \<Rightarrow> bytes \<Rightarrow> world \<Rightarrow> world option" where
  "mlacp_fsm_update_ndisc_info c msg w = do {
     num \<leftarrow> ld16 20 msg;
     update_ndisc_entries c msg 22 (unat (ntohs num)) w }"

end
