(* ===== verification/Mlacp_Link_Handler.thy ===== *)
theory Mlacp_Link_Handler
  imports Mlacp_Neigh
begin

text \<open>
  What a change of a port or of the session does to the forwarding plane
  (\<open>src/mlacp_link_handler.c\<close>): isolation of the MLAG ports from the peer link, neighbour
  entries, traffic distribution, and the handlers for connection and disconnection.
\<close>

abbreviation (input) VLAN_PREFIX :: string where "VLAN_PREFIX \<equiv> ''Vlan''"

primrec stage_num :: "MLACP_APP_STATE \<Rightarrow> int" where
  "stage_num MLACP_STATE_INIT = 0"
| "stage_num MLACP_STATE_STAGE1 = 1"
| "stage_num MLACP_STATE_STAGE2 = 2"
| "stage_num MLACP_STATE_EXCHANGE = 3"
| "stage_num MLACP_STATE_ERROR = 4"

datatype ROUTE_MANIPULATE_TYPE_E = ROUTE_NONE | ROUTE_ADD | ROUTE_DEL

definition mod_lif :: "lif_ptr \<Rightarrow> (LocalInterface \<Rightarrow> LocalInterface) \<Rightarrow> world \<Rightarrow> world option" where
  "mod_lif p f w = do { _ \<leftarrow> w_lif w p; Some (upd_lif p f w) }"

subsection \<open>Interface records\<close>

text \<open>\<open>update_vlan_if_info\<close> and \<open>update_l3_if_info\<close>\<close>

definition update_vlan_if_info :: "csm_ptr \<Rightarrow> lif_ptr \<Rightarrow> world \<Rightarrow> world option" where
  "update_vlan_if_info c vlan_if w = do {
     csm \<leftarrow> w_csm w c;
     mod_lif vlan_if (lif_mlacp_state_update (\<lambda>_. stage_num (ml_current_state (MLACP csm)))) w }"

definition update_l3_if_info :: "csm_ptr \<Rightarrow> lif_ptr \<Rightarrow> world \<Rightarrow> world option" where
  "update_l3_if_info = update_vlan_if_info"

definition update_po_if_info :: "csm_ptr \<Rightarrow> lif_ptr \<Rightarrow> int \<Rightarrow> world \<Rightarrow> world option" where
  "update_po_if_info c l po_state w = do {
     csm \<leftarrow> w_csm w c;
     lif \<leftarrow> w_lif w l;
     let w = (if uint (lif_po_active lif) \<noteq> po_state
              then upd_lif l (\<lambda>x. x\<lparr>lif_changed := 1, lif_po_active := of_bool (po_state \<noteq> 0)\<rparr>) w else w);
     Some (upd_lif l (lif_mlacp_state_update (\<lambda>_. stage_num (ml_current_state (MLACP csm)))) w) }"

definition set_l3_itf_state :: "csm_ptr \<Rightarrow> lif_ptr \<Rightarrow> ROUTE_MANIPULATE_TYPE_E \<Rightarrow> world \<Rightarrow> world option" where
  "set_l3_itf_state c l route_type w = (case route_type of
       ROUTE_NONE \<Rightarrow> Some w
     | ROUTE_ADD \<Rightarrow> do {
         lif \<leftarrow> w_lif w l;
         if take 4 (lif_name lif) \<noteq> VLAN_PREFIX then do {
           w \<leftarrow> arp_set_handler c l False w;
           ndisc_set_handler c l False w }
         else Some w }
     | ROUTE_DEL \<Rightarrow> do {
         w \<leftarrow> arp_set_handler c l True w;
         ndisc_set_handler c l True w })"

definition peer_po_is_alive :: "csm_ptr \<Rightarrow> int \<Rightarrow> world \<Rightarrow> bool option" where
  "peer_po_is_alive c po_ifindex w = do {
     csm \<leftarrow> w_csm w c;
     pif \<leftarrow> find_ptr (w_pif w) (\<lambda>p. pif_type p = IF_T_PORT_CHANNEL \<and> pif_po_id p = po_ifindex) (ml_pif_list (MLACP csm));
     case pif of None \<Rightarrow> Some False | Some q \<Rightarrow> do { pi \<leftarrow> w_pif w q; Some (pif_po_active pi \<noteq> 0) } }"

subsection \<open>Isolating MLAG ports from the peer link\<close>

definition set_peerlink_mlag_port_kernel_forward :: "csm_ptr \<Rightarrow> lif_ptr \<Rightarrow> int \<Rightarrow> world \<Rightarrow> world option" where
  "set_peerlink_mlag_port_kernel_forward c l enable w = do {
     csm \<leftarrow> w_csm w c;
     lif \<leftarrow> w_lif w l;
     case csm_peer_link_if csm of None \<Rightarrow> Some w | Some pl \<Rightarrow> do {
       peer_link_if \<leftarrow> w_lif w pl;
       let cmd = (\<lambda>opt. ''ebtables '' @ opt @ '' FORWARD -i '' @ lif_name peer_link_if @ '' -o '' @ lif_name lif @ '' -j DROP'');
       let (_, w) = sys_system (cmd ''-D'') w;
       let (_, w) = sys_system (cmd (if enable \<noteq> 0 then ''-I'' else ''-D'')) w;
       Some w } }"

text \<open>
  The text \<open>mlag_po_buf\<close> (512 bytes) would hold: the isolated port channels and their members,
  separated by commas.
\<close>

fun isolate_dst :: "lif_ptr list \<Rightarrow> string \<Rightarrow> world \<Rightarrow> string option" where
  "isolate_dst [] dst w = Some dst"
| "isolate_dst (l # ls) dst w = do {
     lif \<leftarrow> w_lif w l;
     isolate_dst ls (if lif_type lif = IF_T_PORT_CHANNEL \<and> lif_isolate_to_peer_link lif = 1
       then dst @ (if dst \<noteq> [] then '','' else []) @ lif_name lif
            @ (if lif_portchannel_member_buf lif = [] then [] else '','') @ lif_portchannel_member_buf lif
       else dst) w }"

abbreviation (input) MLAG_PO_BUF_SIZE :: nat where "MLAG_PO_BUF_SIZE \<equiv> 512"

text \<open>
  \<open>snprintf\<close> returns the length it would have written; once the sum exceeds the buffer, the copy
  into the message reads past its end.
\<close>

definition update_peerlink_isolate_from_all_csm_lif :: "csm_ptr \<Rightarrow> world \<Rightarrow> world option" where
  "update_peerlink_isolate_from_all_csm_lif c w = do {
     csm \<leftarrow> w_csm w c;
     case csm_peer_link_if csm of None \<Rightarrow> Some w | Some pl \<Rightarrow> do {
       peer_link_if \<leftarrow> w_lif w pl;
       if lif_type peer_link_if = IF_T_VXLAN then Some w
       else do {
         dst \<leftarrow> isolate_dst (ml_lif_list (MLACP csm)) [] w;
         if length dst > MLAG_PO_BUF_SIZE then None
         else do {
           let data = (if length dst = MLAG_PO_BUF_SIZE then take (MLAG_PO_BUF_SIZE - 1) (name_bytes dst) @ [0] else name_bytes dst);
           let msg = IccpSyncdMsg MCLAG_MSG_TYPE_PORT_ISOLATE (sub_option 1 (name_bytes (lif_name peer_link_if)) @ sub_option 2 data);
           if sys_sync_fd (w_sys w) \<noteq> 0 then do {
             let (rc, w) = sys_write (sys_sync_fd (w_sys w)) msg w;
             Some (SYSTEM_SET_SYNCD_TX_DBG_COUNTER MCLAG_MSG_TYPE_PORT_ISOLATE
                     (if rc \<le> 0 \<or> rc \<noteq> int (length msg) then 1 else 0) w) }
           else Some w } } } }"

definition set_peerlink_mlag_port_isolate :: "csm_ptr \<Rightarrow> lif_ptr \<Rightarrow> int \<Rightarrow> bool \<Rightarrow> world \<Rightarrow> world option" where
  "set_peerlink_mlag_port_isolate c l enable is_unbind_pending w = do {
     w \<leftarrow> mod_lif l (lif_isolate_to_peer_link_update (\<lambda>_. of_int enable)) w;
     csm \<leftarrow> w_csm w c;
     if csm_peer_link_if csm = None \<or> ml_current_state (MLACP csm) \<noteq> MLACP_STATE_EXCHANGE then Some w
     else do {
       w \<leftarrow> update_peerlink_isolate_from_all_csm_lif c w;
       w \<leftarrow> set_peerlink_mlag_port_kernel_forward c l enable w;
       lif \<leftarrow> w_lif w l;
       Some (if is_unbind_pending then w
             else snd (mlacp_link_set_peerlink_port_isolation (csm_mlag_id csm) (lif_name lif) (enable \<noteq> 0) w)) } }"

definition peerlink_port_isolate_cleanup :: "csm_ptr \<Rightarrow> world \<Rightarrow> world option" where
  "peerlink_port_isolate_cleanup c w = do {
     csm \<leftarrow> w_csm w c;
     foreach (\<lambda>l w. do {
         lif \<leftarrow> w_lif w l;
         if lif_type lif = IF_T_PORT_CHANNEL then set_peerlink_mlag_port_isolate c l 0 False w else Some w })
       (ml_lif_list (MLACP csm)) w }"

definition update_peerlink_isolate_from_pif :: "csm_ptr \<Rightarrow> pif_ptr \<Rightarrow> int \<Rightarrow> bool \<Rightarrow> world \<Rightarrow> world option" where
  "update_peerlink_isolate_from_pif c p pif_po_state new_create w = do {
     csm \<leftarrow> w_csm w c;
     pif \<leftarrow> w_pif w p;
     if csm_peer_link_if csm = None \<or> \<not> new_create \<and> pif_po_state = uint (pif_po_active pif)
        \<or> ml_current_state (MLACP csm) \<noteq> MLACP_STATE_EXCHANGE then Some w
     else do {
       lif \<leftarrow> find_ptr (w_lif w) (\<lambda>l. lif_name l = pif_name pif) (ml_lif_list (MLACP csm));
       case lif of None \<Rightarrow> Some w | Some l \<Rightarrow> do {
         lif \<leftarrow> w_lif w l;
         if lif_po_active lif = 1 then set_peerlink_mlag_port_isolate c l (if pif_po_state = 1 then 1 else 0) False w
         else Some w } } }"

definition update_peerlink_isolate_from_lif :: "csm_ptr \<Rightarrow> lif_ptr \<Rightarrow> int \<Rightarrow> world \<Rightarrow> world option" where
  "update_peerlink_isolate_from_lif c l lif_po_state w = do {
     csm \<leftarrow> w_csm w c;
     lif \<leftarrow> w_lif w l;
     if csm_peer_link_if csm = None \<or> ml_current_state (MLACP csm) \<noteq> MLACP_STATE_EXCHANGE then Some w
     else do {
       pif \<leftarrow> find_ptr (w_pif w) (\<lambda>p. pif_name p = lif_name lif) (ml_pif_list (MLACP csm));
       pif_po_state \<leftarrow> (case pif of None \<Rightarrow> Some 1 | Some q \<Rightarrow> do { pi \<leftarrow> w_pif w q; Some (pif_po_active pi) });
       if lif_po_state = 1 then set_peerlink_mlag_port_isolate c l (if pif_po_state = 1 then 1 else 0) False w
       else Some w } }"

subsection \<open>Neighbours of a port that changes\<close>

text \<open>
  \<open>mlacp_state\<close> of the VLAN interface was set just before it is compared with the current state.
  The peer's port channel is looked up by the interface index.
\<close>

definition update_l2_po_state :: "csm_ptr \<Rightarrow> lif_ptr \<Rightarrow> int \<Rightarrow> world \<Rightarrow> world option" where
  "update_l2_po_state c l po_state w = do {
     lif \<leftarrow> w_lif w l;
     foreach (\<lambda>vlan w. case vlan_itf vlan of None \<Rightarrow> Some w | Some q \<Rightarrow> do {
         w \<leftarrow> update_vlan_if_info c q w;
         itf \<leftarrow> w_lif w q;
         lif \<leftarrow> w_lif w l;
         csm \<leftarrow> w_csm w c;
         if \<not> local_if_is_l3_mode itf then Some w
         else do {
           route_type \<leftarrow> (if po_state \<noteq> uint (lif_po_active lif) \<or> stage_num (ml_current_state (MLACP csm)) \<noteq> lif_mlacp_state itf then
               if po_state = 1 then Some ROUTE_DEL
               else if po_state = 0 \<and> ml_current_state (MLACP csm) = MLACP_STATE_EXCHANGE then do {
                 alive \<leftarrow> peer_po_is_alive c (lif_ifindex lif) w;
                 Some (if alive then ROUTE_ADD else ROUTE_NONE) }
               else Some ROUTE_NONE
             else Some ROUTE_NONE);
           w \<leftarrow> set_l3_itf_state c q route_type w;
           update_l3_if_info c q w } })
       (lif_vlan_tree lif) w }"

definition update_l3_po_state :: "csm_ptr \<Rightarrow> lif_ptr \<Rightarrow> int \<Rightarrow> world \<Rightarrow> world option" where
  "update_l3_po_state c l po_state w = do {
     csm \<leftarrow> w_csm w c;
     lif \<leftarrow> w_lif w l;
     let exch = (ml_current_state (MLACP csm) = MLACP_STATE_EXCHANGE);
     let moved = (po_state \<noteq> uint (lif_po_active lif));
     let route_if_alive = (do {
           alive \<leftarrow> peer_po_is_alive c (lif_po_id lif) w;
           Some (if alive then ROUTE_ADD else ROUTE_NONE) });
     route_type \<leftarrow> (if moved \<and> po_state = 1 then Some ROUTE_DEL
           else if moved \<and> po_state = 0 \<and> exch then route_if_alive
           else if stage_num (ml_current_state (MLACP csm)) \<noteq> lif_mlacp_state lif \<and> exch \<and> po_state = 0 then route_if_alive
           else Some ROUTE_NONE);
     w \<leftarrow> set_l3_itf_state c l route_type w;
     update_l3_if_info c l w }"

definition is_local_vlan_on :: "VLAN_ID \<Rightarrow> bool" where
  "is_local_vlan_on v \<longleftrightarrow> vlan_itf v \<noteq> None"

text \<open>What the peer's new state means for one L3 interface of the domain.\<close>

definition peer_l3_itf_state :: "csm_ptr \<Rightarrow> u8 \<Rightarrow> int \<Rightarrow> lif_ptr \<Rightarrow> world \<Rightarrow> world option" where
  "peer_l3_itf_state c po_active po_state q w = do {
     w \<leftarrow> (if po_state = 1 \<and> po_active = 0 then set_l3_itf_state c q ROUTE_ADD w
           else if po_state = 0 \<and> po_active = 0 then set_l3_itf_state c q ROUTE_DEL w else Some w);
     if po_state = 1 \<and> po_active = 1 then do {
       w \<leftarrow> syn_arp_info_to_peer c q w;
       syn_ndisc_info_to_peer c q w }
     else Some w }"

definition update_stp_peer_link :: "csm_ptr \<Rightarrow> pif_ptr \<Rightarrow> int \<Rightarrow> bool \<Rightarrow> world \<Rightarrow> world option" where
  "update_stp_peer_link c p po_state new_create w = do {
     csm \<leftarrow> w_csm w c;
     pif \<leftarrow> w_pif w p;
     if \<not> new_create \<and> po_state = uint (pif_po_active pif) then Some w
     else do {
       lif \<leftarrow> find_ptr (w_lif w) (\<lambda>l. lif_name l = pif_name pif) (ml_lif_list (MLACP csm));
       case lif of None \<Rightarrow> Some w | Some l \<Rightarrow> do {
         lif \<leftarrow> w_lif w l;
         if local_if_is_l3_mode lif then peer_l3_itf_state c (lif_po_active lif) po_state l w
         else foreach (\<lambda>vlan w. case vlan_itf vlan of None \<Rightarrow> Some w | Some q \<Rightarrow> do {
             itf \<leftarrow> w_lif w q;
             if \<not> local_if_is_l3_mode itf then Some w
             else peer_l3_itf_state c (lif_po_active lif) po_state q w })
           (lif_vlan_tree lif) w } } }"

subsection \<open>Traffic distribution\<close>

definition mlacp_link_disable_traffic_distribution :: "lif_ptr \<Rightarrow> world \<Rightarrow> world option" where
  "mlacp_link_disable_traffic_distribution l w = do {
     lif \<leftarrow> w_lif w l;
     case lif_csm lif of None \<Rightarrow> Some w | Some c \<Rightarrow> do {
       csm \<leftarrow> w_csm w c;
       if ml_current_state (MLACP csm) = MLACP_STATE_EXCHANGE \<and> lif_type lif = IF_T_PORT_CHANNEL
          \<and> lif_po_active lif = 0 \<and> \<not> lif_is_traffic_disable lif then do {
         let (rc, w) = mlacp_link_set_traffic_dist_mode (lif_name lif) False w;
         Some (if rc = 0 then upd_lif l (lif_is_traffic_disable_update (\<lambda>_. True)) w else w) }
       else Some w } }"

definition mlacp_link_enable_traffic_distribution :: "lif_ptr \<Rightarrow> world \<Rightarrow> world option" where
  "mlacp_link_enable_traffic_distribution l w = do {
     lif \<leftarrow> w_lif w l;
     case lif_csm lif of None \<Rightarrow> Some w | Some c \<Rightarrow>
       if lif_type lif = IF_T_PORT_CHANNEL \<and> lif_is_traffic_disable lif then do {
         let (rc, w) = mlacp_link_set_traffic_dist_mode (lif_name lif) True w;
         Some (if rc = 0 then upd_lif l (lif_is_traffic_disable_update (\<lambda>_. False)) w else w) }
       else Some w }"

subsection \<open>Port and session handlers\<close>

definition mlacp_portchannel_state_handler :: "csm_ptr \<Rightarrow> lif_ptr \<Rightarrow> int \<Rightarrow> world \<Rightarrow> world option" where
  "mlacp_portchannel_state_handler c l po_state w = do {
     w \<leftarrow> update_peerlink_isolate_from_lif c l po_state w;
     w \<leftarrow> update_l2_mac_state c l po_state w;
     lif \<leftarrow> w_lif w l;
     w \<leftarrow> (if \<not> local_if_is_l3_mode lif then update_l2_po_state c l po_state w else update_l3_po_state c l po_state w);
     w \<leftarrow> update_po_if_info c l po_state w;
     if po_state = 0 then mlacp_link_disable_traffic_distribution l w else Some w }"

definition mlacp_mlag_link_add_handler :: "csm_ptr \<Rightarrow> lif_ptr \<Rightarrow> world \<Rightarrow> world option" where
  "mlacp_mlag_link_add_handler c l w = do {
     csm \<leftarrow> w_csm w c;
     lif \<leftarrow> w_lif w l;
     if ml_current_state (MLACP csm) \<noteq> MLACP_STATE_EXCHANGE then Some w
     else do {
       w \<leftarrow> update_peerlink_isolate_from_lif c l (uint (lif_po_active lif)) w;
       if csm_role_type csm \<noteq> STP_ROLE_STANDBY then Some w
       else do {
         pif \<leftarrow> peer_if_find_by_name (Some c) (lif_name lif) w;
         if pif = None then Some w
         else do {
           w \<leftarrow> update_if_ipmac_on_standby l w;
           lif \<leftarrow> w_lif w l;
           Some (snd (mlacp_link_set_iccp_system_id (csm_mlag_id csm) (lif_mac_addr lif) w)) } } } }"

definition mlacp_mlag_link_del_handler :: "csm_ptr \<Rightarrow> lif_ptr \<Rightarrow> world \<Rightarrow> world option" where
  "mlacp_mlag_link_del_handler c l w = do {
     csm \<leftarrow> w_csm w c;
     if ml_current_state (MLACP csm) \<noteq> MLACP_STATE_EXCHANGE then Some w
     else set_peerlink_mlag_port_isolate c l 0 True w }"

text \<open>With a peer link configured, only the peer link itself gets its traffic back.\<close>

definition mlacp_mlag_intf_detach_handler :: "csm_ptr \<Rightarrow> lif_ptr \<Rightarrow> world \<Rightarrow> world option" where
  "mlacp_mlag_intf_detach_handler c l w = do {
     w \<leftarrow> mlacp_mlag_link_del_handler c l w;
     w \<leftarrow> update_remote_macs_to_peerlink c l w;
     lif \<leftarrow> w_lif w l;
     w \<leftarrow> (if \<not> local_if_is_l3_mode lif then update_l2_po_state c l 0 w else update_l3_po_state c l 0 w);
     lif \<leftarrow> w_lif w l;
     csm \<leftarrow> w_csm w c;
     if \<not> lif_is_traffic_disable lif then Some w
     else (case csm_peer_link_if csm of
         None \<Rightarrow> mlacp_link_enable_traffic_distribution l w
       | Some pl \<Rightarrow> do {
           peer \<leftarrow> w_lif w pl;
           if lif_name peer = lif_name lif then mlacp_link_enable_traffic_distribution l w else Some w }) }"

definition mlacp_peer_mlag_intf_delete_handler :: "csm_ptr \<Rightarrow> string \<Rightarrow> world \<Rightarrow> world option" where
  "mlacp_peer_mlag_intf_delete_handler c mlag_if_name w = do {
     local_if \<leftarrow> local_if_find_by_name mlag_if_name w;
     case local_if of None \<Rightarrow> Some w | Some l \<Rightarrow> recover_if_ipmac_on_standby l w }"

definition mlacp_conn_handler_fdb :: "csm_ptr \<Rightarrow> world \<Rightarrow> world option" where
  "mlacp_conn_handler_fdb = mlacp_sync_mac"

definition mlacp_fix_bridge_mac :: "csm_ptr \<Rightarrow> world \<Rightarrow> world option" where
  "mlacp_fix_bridge_mac c w = do {
     csm \<leftarrow> w_csm w c;
     Some (if memcmp (ml_system_id (MLACP csm)) null_mac \<noteq> 0
           then snd (sys_system (''ip link set dev Bridge address '' @ show_mac (ml_system_id (MLACP csm)) @ '' > /dev/null 2>&1'') w)
           else w) }"

definition mlacp_peer_conn_handler :: "csm_ptr \<Rightarrow> world \<Rightarrow> world option" where
  "mlacp_peer_conn_handler c w = do {
     csm \<leftarrow> w_csm w c;
     let w = upd_csm c (csm_warm_reboot_disconn_time_update (\<lambda>_. 0)) w;
     w \<leftarrow> (if csm_peer_link_if csm \<noteq> None then do {
             w \<leftarrow> set_peerlink_mlag_port_learn (csm_peer_link_if csm) 0 w;
             set_peerlink_learn_kernel c 0 w }
           else Some w);
     w \<leftarrow> (if \<not> g_once_connected w then mlacp_fix_bridge_mac c (w\<lparr>g_once_connected := True\<rparr>) else Some w);
     let w = upd_sys (sys_csm_trans_time_update (\<lambda>_. w_now w)) w;
     w \<leftarrow> mlacp_conn_handler_fdb c w;
     w \<leftarrow> foreach (\<lambda>l w. do {
             lif \<leftarrow> w_lif w l;
             if lif_type lif = IF_T_PORT_CHANNEL
             then mlacp_portchannel_state_handler c l (if lif_state lif = PORT_STATE_UP then 1 else 0) w else Some w })
           (ml_lif_list (MLACP csm)) w;
     let (_, w) = mlacp_link_set_iccp_state (csm_mlag_id csm) True w;
     w \<leftarrow> foreach (\<lambda>p w. do {
             pif \<leftarrow> w_pif w p;
             Some (snd (mlacp_link_set_remote_if_state (csm_mlag_id csm) (pif_name pif) (pif_state pif = PORT_STATE_UP) w)) })
           (ml_pif_list (MLACP csm)) w;
     w \<leftarrow> update_peerlink_isolate_from_all_csm_lif c w;
     w \<leftarrow> (case csm_peer_link_if csm of None \<Rightarrow> Some w | Some pl \<Rightarrow> update_vlan_if_mac_on_iccp_up pl True None w);
     sync_unique_ip w }"

definition mlacp_peer_disconn_handler :: "csm_ptr \<Rightarrow> world \<Rightarrow> world option" where
  "mlacp_peer_disconn_handler c w = do {
     csm \<leftarrow> w_csm w c;
     if sys_warmboot_exit (w_sys w) = WARM_REBOOT then Some w
     else if csm_peer_warm_reboot_time csm \<noteq> 0 then
       Some (upd_csm c (\<lambda>x. x\<lparr>csm_peer_warm_reboot_time := 0, csm_warm_reboot_disconn_time := w_now w\<rparr>) w)
     else do {
       w \<leftarrow> mlacp_peer_disconn_fdb_handler c w;
       let (_, w) = mlacp_link_set_iccp_state (csm_mlag_id csm) False w;
       w \<leftarrow> peerlink_port_isolate_cleanup c w;
       let remote_system_mac = rs_system_id (ml_remote_system (MLACP csm));
       let w = upd_mlacp c (ml_remote_system_update (rs_system_id_update (\<lambda>_. null_mac))) w;
       w \<leftarrow> foreach (\<lambda>l w. do {
               w \<leftarrow> (if csm_role_type csm = STP_ROLE_STANDBY then recover_if_ipmac_on_standby l w else Some w);
               lif \<leftarrow> w_lif w l;
               if lif_is_traffic_disable lif then mlacp_link_enable_traffic_distribution l w else Some w })
             (ml_lif_list (MLACP csm)) w;
       w \<leftarrow> (case csm_peer_link_if csm of None \<Rightarrow> Some w | Some pl \<Rightarrow>
               update_vlan_if_mac_on_iccp_up pl False (Some remote_system_mac) w);
       let w = upd_cnt (cnt_session_down_counter_update (\<lambda>n. n + 1)) w;
       let w = (if csm_role_type csm = STP_ROLE_STANDBY
                then snd (mlacp_link_set_iccp_system_id (csm_mlag_id csm) (ml_system_id (MLACP csm)) w) else w);
       foreach (\<lambda>p w. do {
           pif \<leftarrow> w_pif w p;
           Some (snd (mlacp_link_del_remote_if_info (csm_mlag_id csm) (pif_name pif) w)) })
         (ml_pif_list (MLACP csm)) w } }"

subsection \<open>The connection to mclagsyncd\<close>

definition syncd_info_close :: "world \<Rightarrow> world" where
  "syncd_info_close w = (if sys_sync_fd (w_sys w) > 0
     then upd_sys (sys_sync_fd_update (\<lambda>_. - 1)) (emit (Ev_close (sys_sync_fd (w_sys w))) w) else w)"

end
