(* ===== verification/Mlacp_Sync_Update.thy ===== *)
theory Mlacp_Sync_Update
  imports Mlacp_Link_Handler
begin

text \<open>
  What the configuration and state messages of the peer do (\<open>src/mlacp_sync_update.c\<close>):
  system configuration, port channels with their state and VLANs, peer link, heartbeat and
  the warm reboot flag. A message is the byte string received, with its ICC header of 16
  bytes; reading past its end is undefined.
\<close>

subsection \<open>System configuration\<close>

definition mlacp_fsm_update_system_conf :: "csm_ptr \<Rightarrow> bytes \<Rightarrow> world \<Rightarrow> (int \<times> world) option" where
  "mlacp_fsm_update_system_conf c msg w = do {
     csm \<leftarrow> w_csm w c;
     sys_id \<leftarrow> ldn 20 6 msg;
     sys_priority \<leftarrow> ld16 26 msg;
     node_id \<leftarrow> ld8 28 msg;
     let w = (if node_id = ml_node_id (MLACP csm) then upd_mlacp c (ml_node_id_update (\<lambda>n. n + 1)) w else w);
     let old_remote_system_id = rs_system_id (ml_remote_system (MLACP csm));
     let w = upd_mlacp c (ml_remote_system_update (\<lambda>_.
               \<lparr>rs_system_id = sys_id, rs_system_priority = ntohs sys_priority, rs_node_id = ucast node_id\<rparr>)) w;
     w \<leftarrow> foreach update_if_ipmac_on_standby (ml_lif_list (MLACP csm)) w;
     Some (0, if csm_role_type csm = STP_ROLE_STANDBY \<and> memcmp old_remote_system_id sys_id \<noteq> 0
              then snd (mlacp_link_set_iccp_system_id (csm_mlag_id csm) sys_id w) else w) }"

subsection \<open>Port channels of the peer\<close>

text \<open>
  \<open>memcpy (pif->name, agg_name, agg_name_len)\<close>: the first \<open>n\<close> bytes of the member are
  overwritten; past its size the copy leaves the structure.
\<close>

definition copy_name :: "nat \<Rightarrow> bytes \<Rightarrow> string \<Rightarrow> string option" where
  "copy_name n src old = (if n \<le> MAX_L_PORT_NAME then cstr (take n src @ drop n (cfield MAX_L_PORT_NAME old)) else None)"

text \<open>The purge of a port channel the peer has removed.\<close>

definition purge_peer_if :: "csm_ptr \<Rightarrow> pif_ptr option \<Rightarrow> world \<Rightarrow> world option" where
  "purge_peer_if c pif w = (case pif of
       None \<Rightarrow> do { _ \<leftarrow> w_csm w c; Some (upd_mlacp c (ml_need_to_sync_update (\<lambda>_. 1)) w) }
     | Some q \<Rightarrow> do {
         csm \<leftarrow> w_csm w c;
         pi \<leftarrow> w_pif w q;
         w \<leftarrow> mlacp_peer_mlag_intf_delete_handler c (pif_name pi) w;
         let (_, w) = mlacp_link_del_remote_if_info (csm_mlag_id csm) (pif_name pi) w;
         peer_if_destroy c q w })"

text \<open>The new attributes of a known or just created port channel.\<close>

definition record_agg_conf :: "csm_ptr \<Rightarrow> bytes \<Rightarrow> pif_ptr \<Rightarrow> bool \<Rightarrow> world \<Rightarrow> world option" where
  "record_agg_conf c msg q new_create w = do {
     agg_id \<leftarrow> ld16 28 msg;
     mac \<leftarrow> ldn 30 6 msg;
     agg_name_len \<leftarrow> ld8 41 msg;
     field \<leftarrow> ldn 42 MAX_L_PORT_NAME msg;
     agg_name \<leftarrow> cstr field;
     pi \<leftarrow> w_pif w q;
     name \<leftarrow> copy_name (unat agg_name_len) field (pif_name pi);
     let w = upd_pif q (\<lambda>x. x\<lparr>pif_po_id := uint (ntohs agg_id), pif_name := name, pif_mac_addr := mac\<rparr>) w;
     let po_active = (pif_state pi = PORT_STATE_UP);
     w \<leftarrow> update_stp_peer_link c q (of_bool po_active) new_create w;
     w \<leftarrow> update_peerlink_isolate_from_pif c q (of_bool po_active) new_create w;
     let w = upd_pif q (pif_po_active_update (\<lambda>_. of_bool po_active)) w;
     if new_create then do {
       csm \<leftarrow> w_csm w c;
       let (_, w) = mlacp_link_set_remote_if_state (csm_mlag_id csm) name po_active w;
       if csm_role_type csm = STP_ROLE_STANDBY then do {
         lif \<leftarrow> local_if_find_by_name agg_name w;
         case lif of None \<Rightarrow> Some w | Some l \<Rightarrow> update_if_ipmac_on_standby l w }
       else Some w }
     else Some w }"

definition mlacp_fsm_update_Agg_conf :: "csm_ptr \<Rightarrow> bytes \<Rightarrow> world \<Rightarrow> (int \<times> world) option" where
  "mlacp_fsm_update_Agg_conf c msg w = do {
     agg_id \<leftarrow> ld16 28 msg;
     flags \<leftarrow> ld8 40 msg;
     field \<leftarrow> ldn 42 MAX_L_PORT_NAME msg;
     agg_name \<leftarrow> cstr field;
     pif \<leftarrow> peer_if_find_by_name (Some c) agg_name w;
     if flags AND 0x02 \<noteq> 0 then do {
       w \<leftarrow> purge_peer_if c pif w;
       Some (0, w) }
     else (case pif of
         Some q \<Rightarrow> do { w \<leftarrow> record_agg_conf c msg q False w; Some (0, w) }
       | None \<Rightarrow>
           if flags AND 0x01 \<noteq> 0 then do {
             (q, w) \<leftarrow> peer_if_create c (uint (ntohs agg_id)) IF_T_PORT_CHANNEL w;
             case q of None \<Rightarrow> Some (MCLAG_ERROR, w)
             | Some q \<Rightarrow> do { w \<leftarrow> record_agg_conf c msg q True w; Some (0, w) } }
           else None) }"

text \<open>The first port channel of the peer with the number.\<close>

definition find_peer_po :: "csm_ptr \<Rightarrow> u16 \<Rightarrow> world \<Rightarrow> pif_ptr option option" where
  "find_peer_po c agg_id w = do {
     csm \<leftarrow> w_csm w c;
     find_ptr (w_pif w) (\<lambda>p. pif_type p = IF_T_PORT_CHANNEL \<and> pif_po_id p = uint agg_id) (ml_pif_list (MLACP csm)) }"

definition mlacp_fsm_update_Aggport_state :: "csm_ptr \<Rightarrow> bytes \<Rightarrow> world \<Rightarrow> (int \<times> world) option" where
  "mlacp_fsm_update_Aggport_state c msg w = do {
     agg_id \<leftarrow> ld16 30 msg;
     agg_state \<leftarrow> ld8 34 msg;
     let po_active = (agg_state = PORT_STATE_UP);
     peer_if \<leftarrow> find_peer_po c (ntohs agg_id) w;
     case peer_if of None \<Rightarrow> Some (0, w) | Some q \<Rightarrow> do {
       let w = upd_pif q (pif_state_update (\<lambda>_. agg_state)) w;
       w \<leftarrow> update_stp_peer_link c q (of_bool po_active) False w;
       w \<leftarrow> update_peerlink_isolate_from_pif c q (of_bool po_active) False w;
       let w = upd_pif q (pif_po_active_update (\<lambda>_. of_bool po_active)) w;
       csm \<leftarrow> w_csm w c;
       pi \<leftarrow> w_pif w q;
       if ml_current_state (MLACP csm) = MLACP_STATE_EXCHANGE then do {
         w \<leftarrow> (if agg_state = PORT_STATE_DOWN then mlacp_convert_remote_mac_to_local c (pif_name pi) w else Some w);
         Some (0, snd (mlacp_link_set_remote_if_state (csm_mlag_id csm) (pif_name pi) po_active w)) }
       else Some (0, w) } }"

subsection \<open>VLANs of a port channel of the peer\<close>

primrec add_peer_vlans :: "pif_ptr \<Rightarrow> bytes \<Rightarrow> nat \<Rightarrow> nat \<Rightarrow> world \<Rightarrow> world option" where
  "add_peer_vlans q msg off 0 w = Some w"
| "add_peer_vlans q msg off (Suc n) w = do {
     vlan_id \<leftarrow> ld16 off msg;
     (_, w) \<leftarrow> peer_if_add_vlan q (ntohs vlan_id) w;
     add_peer_vlans q msg (off + 2) n w }"

definition mlacp_fsm_update_port_channel_info :: "csm_ptr \<Rightarrow> bytes \<Rightarrow> world \<Rightarrow> (int \<times> world) option" where
  "mlacp_fsm_update_port_channel_info c msg w = do {
     agg_id \<leftarrow> ld16 20 msg;
     peer_if \<leftarrow> find_peer_po c (ntohs agg_id) w;
     case peer_if of None \<Rightarrow> Some (0, w) | Some q \<Rightarrow> do {
       l3_mode \<leftarrow> ld8 43 msg;
       ipv4_addr \<leftarrow> ld32 44 msg;
       num_of_vlan_id \<leftarrow> ld16 50 msg;
       let w = upd_pif q (\<lambda>x. x\<lparr>pif_vlan_tree := map (vlan_removed_update (\<lambda>_. 1)) (pif_vlan_tree x),
                              pif_ipv4_addr := ntohl ipv4_addr, pif_l3_mode := l3_mode\<rparr>) w;
       w \<leftarrow> add_peer_vlans q msg 52 (unat (ntohs num_of_vlan_id)) w;
       let w = upd_pif q peer_if_clean_unused_vlan w;
       pi \<leftarrow> w_pif w q;
       _ \<leftarrow> iccp_consistency_check (pif_name pi) w;
       Some (0, w) } }"

subsection \<open>Peer link, heartbeat and warm reboot\<close>

text \<open>A peer link of another kind is only reported in the log.\<close>

definition mlacp_fsm_update_peerlink_info :: "csm_ptr \<Rightarrow> bytes \<Rightarrow> world \<Rightarrow> (int \<times> world) option" where
  "mlacp_fsm_update_peerlink_info c msg w = do {
     csm \<leftarrow> w_csm w c;
     case csm_peer_link_if csm of None \<Rightarrow> Some (0, w) | Some pl \<Rightarrow> do {
       _ \<leftarrow> w_lif w pl;
       port_type \<leftarrow> ld8 40 msg;
       _ \<leftarrow> (if uint port_type = IF_T_VXLAN then ldn 20 (length (csm_peer_itf_name csm)) msg else Some []);
       Some (0, w) } }"

definition mlacp_fsm_update_heartbeat :: "csm_ptr \<Rightarrow> world \<Rightarrow> world option" where
  "mlacp_fsm_update_heartbeat c w = do {
     _ \<leftarrow> w_csm w c;
     Some (upd_csm c (csm_heartbeat_update_time_update (\<lambda>_. w_now w)) w) }"

definition mlacp_fsm_update_warmboot :: "csm_ptr \<Rightarrow> world \<Rightarrow> world option" where
  "mlacp_fsm_update_warmboot c w = do {
     _ \<leftarrow> w_csm w c;
     Some (upd_csm c (csm_peer_warm_reboot_time_update (\<lambda>_. w_now w)) w) }"

end
