(* ===== verification/Mlacp_Fsm.thy ===== *)
theory Mlacp_Fsm
  imports Mlacp_Sync_Update
begin

text \<open>
  The mLACP state machine (\<open>src/mlacp_fsm.c\<close>): receiving each kind of message, NAKs, the two
  synchronisation stages, the exchange of updates, initialisation and tear-down. Messages are
  taken from \<open>mlacp_msg_list\<close>, with the type fields of their headers in host order.
\<close>

subsection \<open>NAK messages\<close>

definition mlacp_sync_send_nak_handler :: "csm_ptr \<Rightarrow> bytes \<Rightarrow> world \<Rightarrow> world option" where
  "mlacp_sync_send_nak_handler c msg w = do {
     msg_id \<leftarrow> ld32 4 msg;
     let w = upd_csm c (csm_app_csm_update (app_invalid_msg_id_update (\<lambda>_. ntohl msg_id))) w;
     csm \<leftarrow> w_csm w c;
     map_option snd (send_built c (app_csm_prepare_nak_msg csm) w) }"

text \<open>\<open>tlvType\<close> starts as \<open>(uint16_t)-1\<close>, so an id that is not in the log also asks for a resynchronisation.\<close>

definition mlacp_sync_recv_nak_handler :: "csm_ptr \<Rightarrow> bytes \<Rightarrow> world \<Rightarrow> world option" where
  "mlacp_sync_recv_nak_handler c msg w = do {
     rejected_msg_id \<leftarrow> ld32 24 msg;
     csm \<leftarrow> w_csm w c;
     let tlvType = (case find_log (ntohl rejected_msg_id) csm of None \<Rightarrow> - 1 | Some e \<Rightarrow> mts_tlv e);
     Some (if tlvType = TLV_T_MLACP_SYSTEM_CONFIG
           then upd_mlacp c (\<lambda>m. m\<lparr>ml_node_id := ml_node_id m - 1, ml_system_config_changed := 1\<rparr>) w
           else upd_mlacp c (ml_need_to_sync_update (\<lambda>_. 1)) w) }"

subsection \<open>Receiving\<close>

abbreviation (input) ICCP_DBG_CNTR_STS_OK :: nat where "ICCP_DBG_CNTR_STS_OK \<equiv> 0"
abbreviation (input) ICCP_DBG_CNTR_STS_ERR :: nat where "ICCP_DBG_CNTR_STS_ERR \<equiv> 1"

definition count_rx :: "csm_ptr \<Rightarrow> bytes \<Rightarrow> nat \<Rightarrow> world \<Rightarrow> world option" where
  "count_rx c msg status w = do {
     _ \<leftarrow> w_csm w c;
     param \<leftarrow> ld16 16 msg;
     Some (upd_csm c (MLACP_SET_ICCP_RX_DBG_COUNTER (ICCParameter_type param) status) w) }"

text \<open>An update that fails is answered with a NAK.\<close>

definition recv_update :: "(csm_ptr \<Rightarrow> bytes \<Rightarrow> world \<Rightarrow> (int \<times> world) option) \<Rightarrow> csm_ptr \<Rightarrow> bytes \<Rightarrow> world \<Rightarrow> world option" where
  "recv_update update c msg w = do {
     (rc, w) \<leftarrow> update c msg w;
     if rc = MCLAG_ERROR then do {
       w \<leftarrow> mlacp_sync_send_nak_handler c msg w;
       count_rx c msg ICCP_DBG_CNTR_STS_ERR w }
     else count_rx c msg ICCP_DBG_CNTR_STS_OK w }"

definition mlacp_sync_recv_sysConf :: "csm_ptr \<Rightarrow> bytes \<Rightarrow> world \<Rightarrow> world option" where
  "mlacp_sync_recv_sysConf = recv_update mlacp_fsm_update_system_conf"

text \<open>\<open>mlacp_sync_recv_portConf\<close>, \<open>mlacp_sync_recv_portPrio\<close>, \<open>mlacp_sync_recv_portState\<close> and \<open>mlacp_sync_recv_stpInfo\<close>\<close>

definition mlacp_sync_recv_unsupported :: "csm_ptr \<Rightarrow> bytes \<Rightarrow> world \<Rightarrow> world option" where
  "mlacp_sync_recv_unsupported c msg w = Some w"

definition mlacp_sync_recv_aggConf :: "csm_ptr \<Rightarrow> bytes \<Rightarrow> world \<Rightarrow> world option" where
  "mlacp_sync_recv_aggConf = recv_update mlacp_fsm_update_Agg_conf"

abbreviation (input) IF_UP_ACK_TYPE_PORT_CHANNEL :: u8 where "IF_UP_ACK_TYPE_PORT_CHANNEL \<equiv> 1"
abbreviation (input) PORT_ISOLATION_STATE_ENABLE :: u8 where "PORT_ISOLATION_STATE_ENABLE \<equiv> 1"

definition mlacp_sync_recv_aggState :: "csm_ptr \<Rightarrow> bytes \<Rightarrow> world \<Rightarrow> world option" where
  "mlacp_sync_recv_aggState c msg w = do {
     w \<leftarrow> recv_update mlacp_fsm_update_Aggport_state c msg w;
     agg_state \<leftarrow> ld8 34 msg;
     if agg_state = PORT_STATE_UP then do {
       agg_id \<leftarrow> ld16 30 msg;
       mlacp_fsm_send_if_up_ack c IF_UP_ACK_TYPE_PORT_CHANNEL (ntohs agg_id) PORT_ISOLATION_STATE_ENABLE w }
     else Some w }"

definition mlacp_sync_recv_syncData :: "csm_ptr \<Rightarrow> bytes \<Rightarrow> world \<Rightarrow> world option" where
  "mlacp_sync_recv_syncData c msg w = do {
     flags \<leftarrow> ld16 22 msg;
     let w = (if ntohs flags = 1 then upd_mlacp c (ml_wait_for_sync_data_update (\<lambda>_. 0)) w else w);
     count_rx c msg ICCP_DBG_CNTR_STS_OK w }"

definition mlacp_sync_recv_syncReq :: "csm_ptr \<Rightarrow> bytes \<Rightarrow> world \<Rightarrow> world option" where
  "mlacp_sync_recv_syncReq c msg w = do {
     req_num \<leftarrow> ld16 20 msg;
     let w = upd_mlacp c (ml_sync_req_num_update (\<lambda>_. uint (ntohs req_num))) w;
     w \<leftarrow> mlacp_sync_send_all_info_handler c w;
     count_rx c msg ICCP_DBG_CNTR_STS_OK w }"

definition mlacp_sync_recv_portChanInfo :: "csm_ptr \<Rightarrow> bytes \<Rightarrow> world \<Rightarrow> world option" where
  "mlacp_sync_recv_portChanInfo = recv_update mlacp_fsm_update_port_channel_info"

definition mlacp_sync_recv_peerLlinkInfo :: "csm_ptr \<Rightarrow> bytes \<Rightarrow> world \<Rightarrow> world option" where
  "mlacp_sync_recv_peerLlinkInfo c msg w = do {
     (_, w) \<leftarrow> mlacp_fsm_update_peerlink_info c msg w;
     count_rx c msg ICCP_DBG_CNTR_STS_OK w }"

definition mlacp_sync_recv_macInfo :: "csm_ptr \<Rightarrow> bytes \<Rightarrow> world \<Rightarrow> world option" where
  "mlacp_sync_recv_macInfo c msg w = do {
     w \<leftarrow> mlacp_fsm_update_mac_info_from_peer c msg w;
     count_rx c msg ICCP_DBG_CNTR_STS_OK w }"

definition mlacp_sync_recv_arpInfo :: "csm_ptr \<Rightarrow> bytes \<Rightarrow> world \<Rightarrow> world option" where
  "mlacp_sync_recv_arpInfo c msg w = do {
     w \<leftarrow> mlacp_fsm_update_arp_info c msg w;
     count_rx c msg ICCP_DBG_CNTR_STS_OK w }"

definition mlacp_sync_recv_ndiscInfo :: "csm_ptr \<Rightarrow> bytes \<Rightarrow> world \<Rightarrow> world option" where
  "mlacp_sync_recv_ndiscInfo = mlacp_fsm_update_ndisc_info"

definition mlacp_sync_recv_heartbeat :: "csm_ptr \<Rightarrow> bytes \<Rightarrow> world \<Rightarrow> world option" where
  "mlacp_sync_recv_heartbeat c msg w = do {
     w \<leftarrow> mlacp_fsm_update_heartbeat c w;
     count_rx c msg ICCP_DBG_CNTR_STS_OK w }"

definition mlacp_sync_recv_warmboot :: "csm_ptr \<Rightarrow> bytes \<Rightarrow> world \<Rightarrow> world option" where
  "mlacp_sync_recv_warmboot c msg w = do {
     w \<leftarrow> mlacp_fsm_update_warmboot c w;
     count_rx c msg ICCP_DBG_CNTR_STS_OK w }"

definition mlacp_fsm_recv_if_up_ack :: "csm_ptr \<Rightarrow> bytes \<Rightarrow> world \<Rightarrow> world option" where
  "mlacp_fsm_recv_if_up_ack c msg w = do {
     if_id \<leftarrow> ld16 22 msg;
     if_type \<leftarrow> ld8 20 msg;
     if if_type = IF_UP_ACK_TYPE_PORT_CHANNEL then do {
       local_if \<leftarrow> local_if_find_by_po_id (uint (ntohs if_id)) w;
       w \<leftarrow> (case local_if of None \<Rightarrow> Some w | Some l \<Rightarrow> do {
               lif \<leftarrow> w_lif w l;
               if lif_po_active lif \<noteq> 0 then mlacp_link_enable_traffic_distribution l w else Some w });
       count_rx c msg ICCP_DBG_CNTR_STS_OK w }
     else count_rx c msg ICCP_DBG_CNTR_STS_ERR w }"

definition mlacp_sync_receiver_handler :: "csm_ptr \<Rightarrow> bytes option \<Rightarrow> world \<Rightarrow> world option" where
  "mlacp_sync_receiver_handler c msg w = (case msg of None \<Rightarrow> Some w | Some msg \<Rightarrow> do {
     param \<leftarrow> ld16 16 msg;
     let type = ICCParameter_type param;
     if type = TLV_T_MLACP_SYSTEM_CONFIG then mlacp_sync_recv_sysConf c msg w
     else if type = TLV_T_MLACP_PORT_CONFIG then mlacp_sync_recv_unsupported c msg w
     else if type = TLV_T_MLACP_PORT_PRIORITY then mlacp_sync_recv_unsupported c msg w
     else if type = TLV_T_MLACP_PORT_STATE then mlacp_sync_recv_unsupported c msg w
     else if type = TLV_T_MLACP_AGGREGATOR_CONFIG then mlacp_sync_recv_aggConf c msg w
     else if type = TLV_T_MLACP_AGGREGATOR_STATE then mlacp_sync_recv_aggState c msg w
     else if type = TLV_T_MLACP_SYNC_DATA then mlacp_sync_recv_syncData c msg w
     else if type = TLV_T_MLACP_SYNC_REQUEST then mlacp_sync_recv_syncReq c msg w
     else if type = TLV_T_MLACP_PORT_CHANNEL_INFO then mlacp_sync_recv_portChanInfo c msg w
     else if type = TLV_T_MLACP_PEERLINK_INFO then mlacp_sync_recv_peerLlinkInfo c msg w
     else if type = TLV_T_MLACP_MAC_INFO then mlacp_sync_recv_macInfo c msg w
     else if type = TLV_T_MLACP_ARP_INFO then mlacp_sync_recv_arpInfo c msg w
     else if type = TLV_T_MLACP_NDISC_INFO then mlacp_sync_recv_ndiscInfo c msg w
     else if type = TLV_T_MLACP_STP_INFO then mlacp_sync_recv_unsupported c msg w
     else if type = TLV_T_MLACP_HEARTBEAT then mlacp_sync_recv_heartbeat c msg w
     else if type = TLV_T_MLACP_WARMBOOT_FLAG then mlacp_sync_recv_warmboot c msg w
     else if type = TLV_T_MLACP_IF_UP_ACK then mlacp_fsm_recv_if_up_ack c msg w
     else Some w })"

subsection \<open>The synchronisation stages\<close>

definition mlacp_stage_sync_send_handler :: "csm_ptr \<Rightarrow> bytes option \<Rightarrow> world \<Rightarrow> world option" where
  "mlacp_stage_sync_send_handler c msg w = do {
     csm \<leftarrow> w_csm w c;
     if ml_wait_for_sync_data (MLACP csm) \<noteq> 0 then Some w
     else (case msg of None \<Rightarrow> Some w | Some m \<Rightarrow> do {
       hdr \<leftarrow> ld16 0 m;
       param \<leftarrow> ld16 16 m;
       if LDPHdr_msg_type hdr = MSG_T_RG_APP_DATA \<and> ICCParameter_type param = TLV_T_MLACP_SYNC_REQUEST then do {
         req_num \<leftarrow> ld16 20 m;
         mlacp_sync_send_all_info_handler c
           (upd_mlacp c (\<lambda>x. x\<lparr>ml_wait_for_sync_data := 1, ml_sync_req_num := uint (ntohs req_num)\<rparr>) w) }
       else Some w }) }"

definition mlacp_stage_sync_request_handler :: "csm_ptr \<Rightarrow> bytes option \<Rightarrow> world \<Rightarrow> world option" where
  "mlacp_stage_sync_request_handler c msg w = do {
     csm \<leftarrow> w_csm w c;
     if ml_wait_for_sync_data (MLACP csm) = 0 then do {
       w \<leftarrow> send_sync_request c w;
       Some (upd_mlacp c (ml_wait_for_sync_data_update (\<lambda>_. 1)) w) }
     else do {
       w \<leftarrow> mlacp_sync_receiver_handler c msg w;
       csm \<leftarrow> w_csm w c;
       Some (if ml_wait_for_sync_data (MLACP csm) = 0 then upd_mlacp c (ml_current_state_update next_stage) w else w) } }"

definition mlacp_stage_handler :: "csm_ptr \<Rightarrow> bytes option \<Rightarrow> world \<Rightarrow> world option" where
  "mlacp_stage_handler c msg w = do {
     csm \<leftarrow> w_csm w c;
     if (ml_current_state (MLACP csm) = MLACP_STATE_STAGE1) = (csm_role_type csm = STP_ROLE_ACTIVE)
     then mlacp_stage_sync_send_handler c msg w
     else mlacp_stage_sync_request_handler c msg w }"

subsection \<open>Exchanging updates\<close>

definition exchange_config :: "csm_ptr \<Rightarrow> world \<Rightarrow> world option" where
  "exchange_config c w = do {
     csm \<leftarrow> w_csm w c;
     if ml_system_config_changed (MLACP csm) = 0 then Some w
     else do {
       (_, w) \<leftarrow> send_built c (mlacp_prepare_for_sys_config csm CSM_BUFFER_SIZE) w;
       w \<leftarrow> mlacp_sync_send_syncPeerLinkInfo c w;
       Some (upd_mlacp c (ml_system_config_changed_update (\<lambda>_. 0)) w) } }"

text \<open>\<open>LIST_REMOVE\<close> leaves the link of the removed element in place, so the loop reaches every element.\<close>

definition exchange_purge :: "csm_ptr \<Rightarrow> world \<Rightarrow> world option" where
  "exchange_purge c w = do {
     csm \<leftarrow> w_csm w c;
     foreach (\<lambda>l w. do {
         csm \<leftarrow> w_csm w c;
         lif \<leftarrow> w_lif w l;
         (_, w) \<leftarrow> send_built c (mlacp_prepare_for_Aggport_config csm CSM_BUFFER_SIZE lif 1) w;
         w \<leftarrow> (if lif_type lif = IF_T_PORT_CHANNEL \<and> lif_is_traffic_disable lif
               then mlacp_link_enable_traffic_distribution l w else Some w);
         Some (upd_mlacp c (ml_lif_purge_list_update (remove1 l)) w) })
       (ml_lif_purge_list (MLACP csm)) w }"

definition exchange_lif :: "csm_ptr \<Rightarrow> lif_ptr \<Rightarrow> world \<Rightarrow> world option" where
  "exchange_lif c l w = do {
     lif \<leftarrow> w_lif w l;
     w \<leftarrow> (if lif_type lif = IF_T_PORT_CHANNEL \<and> lif_port_config_sync lif \<noteq> 0 then do {
             w \<leftarrow> (if lif_po_active lif = 0 then mlacp_link_disable_traffic_distribution l w else Some w);
             csm \<leftarrow> w_csm w c; lif \<leftarrow> w_lif w l;
             (_, w) \<leftarrow> send_built c (mlacp_prepare_for_Aggport_config csm CSM_BUFFER_SIZE lif 0) w;
             csm \<leftarrow> w_csm w c; lif \<leftarrow> w_lif w l;
             (_, w) \<leftarrow> send_built c (mlacp_prepare_for_port_channel_info csm CSM_BUFFER_SIZE lif) w;
             Some (upd_lif l (lif_port_config_sync_update (\<lambda>_. 0)) w) }
           else Some w);
     lif \<leftarrow> w_lif w l;
     if lif_type lif = IF_T_PORT_CHANNEL \<and> lif_changed lif \<noteq> 0 then do {
       csm \<leftarrow> w_csm w c;
       (rc, w) \<leftarrow> send_built c (mlacp_prepare_for_Aggport_state csm CSM_BUFFER_SIZE lif) w;
       Some (if rc > 0 then upd_lif l (lif_changed_update (\<lambda>_. 0)) w else w) }
     else Some w }"

abbreviation (input) WARM_REBOOT_TIMEOUT :: int where "WARM_REBOOT_TIMEOUT \<equiv> 90"

definition mlacp_exchange_handler :: "csm_ptr \<Rightarrow> bytes option \<Rightarrow> world \<Rightarrow> world option" where
  "mlacp_exchange_handler c msg w = do {
     w \<leftarrow> (case msg of None \<Rightarrow> Some w | Some m \<Rightarrow> do {
             hdr \<leftarrow> ld16 0 m;
             if LDPHdr_msg_type hdr = MSG_T_RG_APP_DATA then mlacp_sync_receiver_handler c msg w else Some w });
     csm \<leftarrow> w_csm w c;
     w \<leftarrow> (if ml_need_to_sync (MLACP csm) \<noteq> 0
           then send_sync_request c (upd_mlacp c (ml_need_to_sync_update (\<lambda>_. 0)) w) else Some w);
     w \<leftarrow> exchange_config c w;
     w \<leftarrow> exchange_purge c w;
     csm \<leftarrow> w_csm w c;
     w \<leftarrow> foreach (exchange_lif c) (ml_lif_list (MLACP csm)) w;
     w \<leftarrow> mlacp_sync_send_syncMacInfo c w;
     w \<leftarrow> mlacp_sync_send_syncArpInfo c w;
     w \<leftarrow> mlacp_sync_send_syncNdiscInfo c w;
     csm \<leftarrow> w_csm w c;
     Some (if csm_peer_warm_reboot_time csm \<noteq> 0 \<and> w_now w - csm_peer_warm_reboot_time csm \<ge> WARM_REBOOT_TIMEOUT
           then upd_csm c (csm_peer_warm_reboot_time_update (\<lambda>_. 0)) w else w) }"

subsection \<open>Initialisation and tear-down\<close>

text \<open>
  The flag is read from and written to a file below \<open>/proc\<close>: the answer is the digit read,
  negative when the file cannot be opened. A write is reported as an error.
\<close>

definition set_sys_arp_accept_flag :: "string \<Rightarrow> int \<Rightarrow> world \<Rightarrow> int \<times> world" where
  "set_sys_arp_accept_flag ifname flag w = (let (v, w) = answer flag w in
     if v < 0 then (MCLAG_ERROR, w)
     else if v = flag then (0, w)
     else (MCLAG_ERROR, snd (sys_system (take 62 (''echo '' @ show_int flag @ '' > /proc/sys/net/ipv4/conf/'' @ ifname @ ''/arp_accept'')) w)))"

definition LIF_QUEUE_REINIT :: "csm_ptr \<Rightarrow> world \<Rightarrow> world option" where
  "LIF_QUEUE_REINIT c w = do {
     csm \<leftarrow> w_csm w c;
     foreach (\<lambda>l w. do {
         lif \<leftarrow> w_lif w l;
         let w = (if lif_type lif = IF_T_PORT_CHANNEL \<and> lif_is_arp_accept lif \<noteq> 0
                  then (let (rc, w) = set_sys_arp_accept_flag (lif_name lif) 0 w
                        in if rc = 0 then upd_lif l (lif_is_arp_accept_update (\<lambda>_. 0)) w else w)
                  else w);
         Some (upd_mlacp c (ml_lif_list_update tl) w) })
       (ml_lif_list (MLACP csm)) w }"

definition PIF_QUEUE_REINIT :: "csm_ptr \<Rightarrow> world \<Rightarrow> world option" where
  "PIF_QUEUE_REINIT c w = do {
     csm \<leftarrow> w_csm w c;
     foreach (\<lambda>p w. do {
         _ \<leftarrow> w_pif w p;
         let w = upd_mlacp c (ml_pif_list_update tl) w;
         Some (w\<lparr>w_pif := (w_pif w)(p := None)\<rparr>) })
       (ml_pif_list (MLACP csm)) w }"

definition drop_msgs :: "csm_ptr \<Rightarrow> world \<Rightarrow> world option" where
  "drop_msgs c w = do {
     let w = upd_mlacp c (\<lambda>m. m\<lparr>ml_mlacp_msg_list := [], ml_arp_msg_list := [], ml_ndisc_msg_list := []\<rparr>) w;
     mlacp_mac_msg_queue_reinit c w }"

definition NODEID :: "u32 \<Rightarrow> int \<Rightarrow> u8" where
  "NODEID ip r = (0x80 OR (ucast (push_bit 4 (drop_bit 24 ip)) AND 0x70)) OR of_int (r mod 0x0F)"

definition mlacp_init :: "csm_ptr \<Rightarrow> bool \<Rightarrow> world \<Rightarrow> world option" where
  "mlacp_init c all w = do {
     csm \<leftarrow> w_csm w c;
     let w = upd_mlacp c (\<lambda>m. m\<lparr>ml_sync_req_num := - 1, ml_need_to_sync := 0, ml_error_msg := None,
               ml_current_state := MLACP_STATE_INIT,
               ml_remote_system := (ml_remote_system m)\<lparr>rs_system_id := null_mac\<rparr>\<rparr>) w;
     w \<leftarrow> drop_msgs c w;
     w \<leftarrow> PIF_QUEUE_REINIT c w;
     let w = upd_mlacp c (ml_lif_purge_list_update (\<lambda>_. [])) w;
     if all then do {
       let w = upd_mlacp c (\<lambda>m. m\<lparr>ml_arp_list := [], ml_ndisc_list := [], ml_mac_rb := []\<rparr>) w;
       w \<leftarrow> LIF_QUEUE_REINIT c w;
       let (r, w) = answer 0 w;
       Some (upd_mlacp c (ml_node_id_update (\<lambda>_. NODEID (inet_addr (csm_sender_ip csm)) r)) w) }
     else Some w }"

definition mlacp_finalize :: "csm_ptr \<Rightarrow> world \<Rightarrow> world option" where
  "mlacp_finalize c w = do {
     w \<leftarrow> drop_msgs c w;
     let w = upd_mlacp c (\<lambda>m. m\<lparr>ml_arp_list := [], ml_ndisc_list := [], ml_mac_rb := []\<rparr>) w;
     w \<leftarrow> LIF_QUEUE_REINIT c w;
     let w = upd_mlacp c (ml_lif_purge_list_update (\<lambda>_. [])) w;
     PIF_QUEUE_REINIT c w }"

subsection \<open>The transition\<close>

text \<open>Registration with \<open>epoll\<close> is not part of the state.\<close>

definition scheduler_csm_socket_cleanup :: "csm_ptr \<Rightarrow> world \<Rightarrow> world option" where
  "scheduler_csm_socket_cleanup c w = do {
     csm \<leftarrow> w_csm w c;
     if csm_sock_fd csm \<le> 0 then Some w
     else do {
       let (rc, w) = answer 0 w;
       let w = emit (Ev_close (csm_sock_fd csm)) w;
       let w = (if rc \<noteq> 0 then upd_cnt (cnt_socket_close_err_counter_update (\<lambda>n. n + 1)) w else w);
       Some (upd_csm c (csm_sock_fd_update (\<lambda>_. - 1)) w) } }"

definition mlacp_peer_link_learning_handler :: "csm_ptr \<Rightarrow> world \<Rightarrow> world option" where
  "mlacp_peer_link_learning_handler c w = do {
     csm \<leftarrow> w_csm w c;
     case csm_peer_link_if csm of None \<Rightarrow> Some w | Some pl \<Rightarrow> do {
       lif \<leftarrow> w_lif w pl;
       if lif_vlan_count lif = 0 then Some w
       else if csm_peer_link_learning_retry_time csm \<noteq> 0 \<and> w_now w - csm_peer_link_learning_retry_time csm > 2
       then set_peerlink_learn_kernel c (csm_peer_link_learning_enable csm) w
       else Some w } }"

text \<open>
  One round of the loop once the message is taken: the change of state since the last round
  (of any domain: \<open>prev_state\<close> is static), then the handler of the current state.
\<close>

definition transit_state :: "csm_ptr \<Rightarrow> bytes option \<Rightarrow> world \<Rightarrow> world option" where
  "transit_state c msg w = do {
     csm \<leftarrow> w_csm w c;
     w \<leftarrow> (if g_prev_state w \<noteq> ml_current_state (MLACP csm) then do {
             w \<leftarrow> (if ml_current_state (MLACP csm) = MLACP_STATE_EXCHANGE then mlacp_peer_conn_handler c w else Some w);
             csm \<leftarrow> w_csm w c;
             Some (w\<lparr>g_prev_state := ml_current_state (MLACP csm)\<rparr>) }
           else Some w);
     csm \<leftarrow> w_csm w c;
     w \<leftarrow> (if ml_current_state (MLACP csm) = MLACP_STATE_INIT then do {
             let w = upd_mlacp c (\<lambda>m. m\<lparr>ml_wait_for_sync_data := 0, ml_current_state := MLACP_STATE_STAGE1\<rparr>) w;
             w \<leftarrow> mlacp_resync_arp c w;
             mlacp_resync_ndisc c w }
           else Some w);
     csm \<leftarrow> w_csm w c;
     case ml_current_state (MLACP csm) of
       MLACP_STATE_STAGE1 \<Rightarrow> mlacp_stage_handler c msg w
     | MLACP_STATE_STAGE2 \<Rightarrow> mlacp_stage_handler c msg w
     | MLACP_STATE_EXCHANGE \<Rightarrow> mlacp_exchange_handler c msg w
     | _ \<Rightarrow> Some w }"

text \<open>
  The result is whether the loop goes on and whether the variable \<open>msg\<close> points to a freed
  message, which a round in state \<open>MLACP_STATE_INIT\<close> would use.
\<close>

definition transit_round :: "csm_ptr \<Rightarrow> bool \<Rightarrow> world \<Rightarrow> (bool \<times> bool \<times> world) option" where
  "transit_round c stale w = do {
     csm \<leftarrow> w_csm w c;
     if ml_current_state (MLACP csm) = MLACP_STATE_INIT then
       (if stale then None else do { w \<leftarrow> transit_state c None w; Some (True, False, w) })
     else do {
       let (msg, csm') = mlacp_dequeue_msg csm;
       let w = upd_csm c (\<lambda>_. csm') w;
       case msg of
         None \<Rightarrow> do { w \<leftarrow> transit_state c None w; Some (False, False, w) }
       | Some m \<Rightarrow> do {
           hdr \<leftarrow> ld16 0 m;
           param \<leftarrow> ld16 16 m;
           if LDPHdr_msg_type hdr = MSG_T_NOTIFICATION \<and> ICCParameter_type param = TLV_T_NAK
           then do { w \<leftarrow> mlacp_sync_recv_nak_handler c m w; Some (True, True, w) }
           else do { w \<leftarrow> transit_state c (Some m) w; Some (True, True, w) } } } }"

primrec transit_loop :: "nat \<Rightarrow> csm_ptr \<Rightarrow> bool \<Rightarrow> world \<Rightarrow> world option" where
  "transit_loop 0 c stale w = None"
| "transit_loop (Suc fuel) c stale w = do {
     (have_msg, stale, w) \<leftarrow> transit_round c stale w;
     if have_msg then transit_loop fuel c stale w else Some w }"

text \<open>One round to leave the initial state, one per message, one without a message.\<close>

definition mlacp_fsm_transit :: "csm_ptr \<Rightarrow> world \<Rightarrow> world option" where
  "mlacp_fsm_transit c w = do {
     csm \<leftarrow> w_csm w c;
     if csm_sock_fd csm \<le> 0 \<or> app_current_state (APP_CSM csm) \<noteq> APP_OPERATIONAL then
       (if ml_current_state (MLACP csm) = MLACP_STATE_INIT then Some w
        else do {
          w \<leftarrow> drop_msgs c w;
          let w = upd_mlacp c (ml_current_state_update (\<lambda>_. MLACP_STATE_INIT)) w;
          if csm_sock_fd csm > 0 then do {
            w \<leftarrow> scheduler_csm_socket_cleanup c w;
            Some (upd_cnt (cnt_socket_cleanup_counter_update (\<lambda>n. n + 1)) w) }
          else Some w })
     else do {
       w \<leftarrow> (if csm_warm_reboot_disconn_time csm \<noteq> 0 \<and> w_now w - csm_warm_reboot_disconn_time csm \<ge> WARM_REBOOT_TIMEOUT
             then mlacp_peer_disconn_handler c (upd_csm c (csm_warm_reboot_disconn_time_update (\<lambda>_. 0)) w)
             else Some w);
       w \<leftarrow> mlacp_sync_send_heartbeat c w;
       w \<leftarrow> mlacp_local_lif_state_mac_handler c w;
       w \<leftarrow> mlacp_peer_link_learning_handler c w;
       csm \<leftarrow> w_csm w c;
       transit_loop (length (ml_mlacp_msg_list (MLACP csm)) + 2) c False w } }"

end
