(* ===== verification/Iccp_Bind.thy ===== *)
theory Iccp_Bind
  imports Mlacp_Fsm
begin

text \<open>
  Interfaces joining and leaving a domain (\<open>src/app_csm.c\<close>, \<open>src/iccp_cli.c\<close>), the ports of a
  port channel as the kernel reports them (\<open>src/iccp_netlink.c\<close>), and the removal of
  interfaces that are gone (\<open>src/port.c\<close>).
\<close>

abbreviation (input) PORTCHANNEL_PREFIX :: string where "PORTCHANNEL_PREFIX \<equiv> ''PortChannel''"

abbreviation has_prefix :: "string \<Rightarrow> string \<Rightarrow> bool" where
  "has_prefix p s \<equiv> take (length p) s = p"

subsection \<open>Leaving a domain\<close>

definition mlacp_unbind_local_if :: "lif_ptr \<Rightarrow> world \<Rightarrow> world option" where
  "mlacp_unbind_local_if l w = do {
     lif \<leftarrow> w_lif w l;
     case lif_csm lif of None \<Rightarrow> Some w | Some c \<Rightarrow> do {
       csm \<leftarrow> w_csm w c;
       let w = upd_mlacp c (ml_lif_list_update (remove1 l)) w;
       let w = (if ml_current_state (MLACP csm) = MLACP_STATE_EXCHANGE \<and> lif_type lif = IF_T_PORT_CHANNEL
                then upd_mlacp c (ml_lif_purge_list_update (\<lambda>ls. l # ls)) w else w);
       Some (upd_lif l (\<lambda>x. x\<lparr>lif_po_id := if lif_type x = IF_T_PORT then - 1 else lif_po_id x, lif_csm := None\<rparr>) w) } }"

subsection \<open>Joining a domain\<close>

text \<open>An interface that joins is taken off the purge list, wherever it occurs there.\<close>

definition mlacp_bind_local_if :: "csm_ptr \<Rightarrow> lif_ptr \<Rightarrow> world \<Rightarrow> (int \<times> world) option" where
  "mlacp_bind_local_if c l w = do {
     lif \<leftarrow> w_lif w l;
     if lif_csm lif = Some c then Some (0, w)
     else do {
       csm \<leftarrow> w_csm w c;
       let w = upd_mlacp c (ml_lif_purge_list_update (filter (\<lambda>x. x \<noteq> l))) w;
       if l \<in> set (ml_lif_list (MLACP csm)) then Some (0, w)
       else do {
         w \<leftarrow> (if lif_csm lif \<noteq> None then mlacp_unbind_local_if l w else Some w);
         let w = upd_mlacp c (ml_lif_list_update (\<lambda>ls. l # ls)) w;
         let w = upd_lif l (\<lambda>x. x\<lparr>lif_csm := Some c,
                   lif_port_config_sync := if lif_type x = IF_T_PORT_CHANNEL then 1 else lif_port_config_sync x\<rparr>) w;
         lif \<leftarrow> w_lif w l;
         if lif_type lif = IF_T_PORT_CHANNEL then Some (0, w)
         else do {
           csm \<leftarrow> w_csm w c;
           po \<leftarrow> find_ptr (w_lif w) (\<lambda>x. lif_type x = IF_T_PORT_CHANNEL \<and> lif_po_id x = lif_po_id lif) (ml_lif_list (MLACP csm));
           case po of
             Some p \<Rightarrow> do { w \<leftarrow> update_if_ipmac_on_standby p w; Some (0, w) }
           | None \<Rightarrow> do {
               po \<leftarrow> local_if_find_by_po_id (lif_po_id lif) w;
               case po of
                 None \<Rightarrow> Some (MCLAG_ERROR, w)
               | Some p \<Rightarrow> Some (0, upd_lif p (lif_port_config_sync_update (\<lambda>_. 1))
                   (upd_mlacp c (ml_lif_list_update (\<lambda>ls. p # ls)) (upd_lif p (lif_csm_update (\<lambda>_. Some c)) w))) } } } } }"

subsection \<open>The ports of a port channel\<close>

text \<open>
  \<open>snprintf\<close> into \<open>temp_buf[512]\<close> at the sum of the lengths so far; once it exceeds the size, the
  next call has a negative size. The buffer keeps what fits.
\<close>

definition append_text :: "string \<Rightarrow> string \<Rightarrow> string option" where
  "append_text s acc = (if length acc > 512 then None else Some (acc @ s))"

fun member_names :: "int \<Rightarrow> lif_ptr list \<Rightarrow> string \<Rightarrow> world \<Rightarrow> string option" where
  "member_names po_id [] acc w = Some (take 511 acc)"
| "member_names po_id (l # ls) acc w = do {
     lif \<leftarrow> w_lif w l;
     acc \<leftarrow> (if lif_type lif = IF_T_PORT \<and> lif_po_id lif = po_id then do {
               acc \<leftarrow> (if acc \<noteq> [] then append_text '','' acc else Some acc);
               append_text (lif_name lif) acc }
             else Some acc);
     member_names po_id ls acc w }"

definition mlag_member :: "csm_ptr \<Rightarrow> int \<Rightarrow> int \<times> bool \<Rightarrow> world \<Rightarrow> world option" where
  "mlag_member c po_id port w = do {
     m \<leftarrow> local_if_find_by_ifindex (fst port) w;
     case m of None \<Rightarrow> Some w | Some m \<Rightarrow> do {
       member \<leftarrow> w_lif w m;
       if snd port \<and> lif_po_id member \<noteq> - 1 then
         mlacp_unbind_local_if m (upd_lif m (lif_po_id_update (\<lambda>_. - 1)) w)
       else if lif_po_id member = - 1 then
         map_option snd (mlacp_bind_local_if c m (upd_lif m (lif_po_id_update (\<lambda>_. po_id)) w))
       else Some w } }"

definition peer_link_member :: "csm_ptr \<Rightarrow> lif_ptr \<Rightarrow> int \<Rightarrow> int \<times> bool \<Rightarrow> world \<Rightarrow> world option" where
  "peer_link_member c l po_id port w = do {
     m \<leftarrow> local_if_find_by_ifindex (fst port) w;
     case m of None \<Rightarrow> Some w | Some m \<Rightarrow> do {
       member \<leftarrow> w_lif w m;
       csm \<leftarrow> w_csm w c;
       let exch = (ml_current_state (MLACP csm) = MLACP_STATE_EXCHANGE);
       if snd port \<and> lif_po_id member \<noteq> - 1 then do {
         let w = upd_lif m (lif_po_id_update (\<lambda>_. - 1)) w;
         if exch then set_peerlink_mlag_port_learn (Some m) 1 w else Some w }
       else if lif_po_id member = - 1 then do {
         let w = upd_lif m (lif_po_id_update (\<lambda>_. po_id)) w;
         if exch then set_peerlink_mlag_port_learn (Some l) 0 w else Some w }
       else Some w } }"

text \<open>The message carries the index of the port channel and its ports, and for each whether it was removed.\<close>

definition iccp_get_portchannel_member_list_handler :: "int \<Rightarrow> (int \<times> bool) list \<Rightarrow> world \<Rightarrow> world option" where
  "iccp_get_portchannel_member_list_handler ifindex ports w = do {
     l \<leftarrow> local_if_find_by_ifindex ifindex w;
     case l of None \<Rightarrow> Some w | Some l \<Rightarrow> do {
       lif \<leftarrow> w_lif w l;
       if lif_type lif \<noteq> IF_T_PORT_CHANNEL then Some w
       else (case lif_csm lif of
         Some c \<Rightarrow> do {
           w \<leftarrow> foreach (mlag_member c (lif_po_id lif)) ports w;
           csm \<leftarrow> w_csm w c;
           names \<leftarrow> member_names (lif_po_id lif) (ml_lif_list (MLACP csm)) [] w;
           lif \<leftarrow> w_lif w l;
           if names = lif_portchannel_member_buf lif then Some w
           else do {
             let w = upd_lif l (lif_portchannel_member_buf_update (\<lambda>_. names)) w;
             if ml_current_state (MLACP csm) = MLACP_STATE_EXCHANGE
             then update_peerlink_isolate_from_all_csm_lif c w else Some w } }
       | None \<Rightarrow>
           if lif_is_peer_link lif = 0 then Some w
           else do {
             c \<leftarrow> find_ptr (w_csm w) (\<lambda>x. csm_peer_link_if x = Some l) (sys_csm_list (w_sys w));
             case c of None \<Rightarrow> Some w | Some c \<Rightarrow> do {
               w \<leftarrow> foreach (peer_link_member c l (lif_po_id lif)) ports w;
               names \<leftarrow> member_names (lif_po_id lif) (sys_lif_list (w_sys w)) [] w;
               Some (upd_lif l (lif_portchannel_member_buf_update (\<lambda>_. names)) w) } }) } }"

definition iccp_get_port_member_list :: "lif_ptr \<Rightarrow> world \<Rightarrow> world option" where
  "iccp_get_port_member_list l w = do {
     lif \<leftarrow> w_lif w l;
     case w_team w (lif_ifindex lif) of None \<Rightarrow> Some w
     | Some ports \<Rightarrow> iccp_get_portchannel_member_list_handler (lif_ifindex lif) ports w }"

definition mlacp_bind_port_channel_to_csm :: "csm_ptr \<Rightarrow> string \<Rightarrow> world \<Rightarrow> world option" where
  "mlacp_bind_port_channel_to_csm c ifname w = do {
     lif_po \<leftarrow> local_if_find_by_name ifname w;
     case lif_po of None \<Rightarrow> Some w | Some l \<Rightarrow> do {
       (_, w) \<leftarrow> mlacp_bind_local_if c l w;
       w \<leftarrow> iccp_get_port_member_list l w;
       mlacp_mlag_link_add_handler c l w } }"

subsection \<open>Attaching and detaching by command\<close>

definition iccp_cli_attach_mclag_domain_to_port_channel :: "int \<Rightarrow> string \<Rightarrow> world \<Rightarrow> (int \<times> world) option" where
  "iccp_cli_attach_mclag_domain_to_port_channel domain ifname w =
     (if \<not> has_prefix PORTCHANNEL_PREFIX ifname then Some (MCLAG_ERROR, w)
      else do {
        c \<leftarrow> system_get_csm_by_mlacp_id domain w;
        case c of None \<Rightarrow> Some (MCLAG_ERROR, w) | Some c \<Rightarrow> do {
          w \<leftarrow> mlacp_bind_port_channel_to_csm c ifname w;
          csm \<leftarrow> w_csm w c;
          if ifname \<in> set (csm_if_bind_list csm) then Some (0, w)
          else (let (ok, w) = malloc_ok w in
            if \<not> ok then Some (MCLAG_ERROR, w)
            else Some (0, upd_csm c (csm_if_bind_list_update (\<lambda>ns. take (MAX_L_PORT_NAME - 1) ifname # ns)) w)) } })"

text \<open>\<open>LIST_REMOVE\<close> leaves the link of the removed element in place, so both loops reach every element.\<close>

definition iccp_cli_detach_mclag_domain_to_port_channel :: "string \<Rightarrow> world \<Rightarrow> (int \<times> world) option" where
  "iccp_cli_detach_mclag_domain_to_port_channel ifname w =
     (if \<not> has_prefix PORTCHANNEL_PREFIX ifname then Some (MCLAG_ERROR, w)
      else do {
        l \<leftarrow> local_if_find_by_name ifname w;
        case l of None \<Rightarrow> Some (MCLAG_ERROR, w) | Some l \<Rightarrow> do {
          lif \<leftarrow> w_lif w l;
          if lif_type lif \<noteq> IF_T_PORT_CHANNEL \<or> lif_po_id lif \<le> 0 then Some (MCLAG_ERROR, w)
          else (case lif_csm lif of None \<Rightarrow> Some (MCLAG_ERROR, w) | Some c \<Rightarrow> do {
            w \<leftarrow> recover_if_ipmac_on_standby l w;
            w \<leftarrow> mlacp_mlag_intf_detach_handler c l w;
            lif \<leftarrow> w_lif w l;
            w \<leftarrow> mlacp_unbind_local_if l w;
            csm \<leftarrow> w_csm w c;
            w \<leftarrow> foreach (\<lambda>m w. do {
                    x \<leftarrow> w_lif w m;
                    if lif_type x = IF_T_PORT \<and> lif_po_id x = lif_po_id lif then mlacp_unbind_local_if m w else Some w })
                  (ml_lif_list (MLACP csm)) w;
            Some (0, upd_csm c (csm_if_bind_list_update (filter (\<lambda>n. n \<noteq> ifname))) w) }) } })"

subsection \<open>Interfaces that are gone\<close>

definition local_if_mlacp_purge_del :: "lif_ptr \<Rightarrow> world \<Rightarrow> world option" where
  "local_if_mlacp_purge_del l w = do {
     lif \<leftarrow> w_lif w l;
     case lif_csm lif of None \<Rightarrow> Some w | Some c \<Rightarrow> do {
       _ \<leftarrow> w_csm w c;
       Some (upd_mlacp c (ml_lif_purge_list_update (remove1 l)) w) } }"

definition local_if_purge_clear :: "world \<Rightarrow> world option" where
  "local_if_purge_clear w = foreach (\<lambda>l w. do {
       let w = upd_sys (sys_lif_purge_list_update tl) w;
       w \<leftarrow> local_if_mlacp_purge_del l w;
       local_if_finalize l w })
     (sys_lif_purge_list (w_sys w)) w"

end
