(* ===== verification/Iccp_Session.thy ===== *)
theory Iccp_Session
  imports Iccp_Bind
begin

text \<open>
  The session with the peer: the connection state machine (\<open>src/iccp_csm.c\<close>,
  \<open>src/app_csm.c\<close>) and the scheduler that opens, reads, watches and closes the connection
  (\<open>src/scheduler.c\<close>). System calls that only configure a socket or register it with \<open>epoll\<close> and
  whose failure is only logged are left out.
\<close>

subsection \<open>Reset\<close>

definition app_csm_init :: "csm_ptr \<Rightarrow> bool \<Rightarrow> world \<Rightarrow> world option" where
  "app_csm_init c all w = mlacp_init c all (upd_csm c (csm_app_csm_update (\<lambda>a.
     (if all then zero_AppCSM else a)\<lparr>app_msg_list := [], app_current_state := APP_NONEXISTENT,
       app_rx_connect_msg_id := 0, app_tx_connect_msg_id := 0, app_invalid_msg_id := 0,
       app_invalid_msg := False, app_nak_msg := False\<rparr>)) w)"

definition app_csm_finalize :: "csm_ptr \<Rightarrow> world \<Rightarrow> world option" where
  "app_csm_finalize = mlacp_finalize"

definition reset_csm :: "bool \<Rightarrow> CSM \<Rightarrow> CSM" where
  "reset_csm all csm = (if all then zero_CSM else csm)\<lparr>csm_msg_list := [], csm_sock_fd := - 1, csm_connTimePrev := 0,
     csm_heartbeat_send_time := 0, csm_heartbeat_update_time := 0, csm_peer_warm_reboot_time := 0,
     csm_warm_reboot_disconn_time := 0, csm_peer_link_learning_retry_time := 0, csm_peer_link_learning_enable := 0,
     csm_role_type := STP_ROLE_NONE, csm_sock_read_event_ptr := False, csm_peer_link_if := None,
     csm_u_msg_in_count := 0, csm_i_msg_in_count := 0, csm_icc_msg_in_count := 0, csm_icc_msg_out_count := 0,
     csm_current_state := ICCP_NONEXISTENT,
     csm_iccp_info := (csm_iccp_info (if all then zero_CSM else csm))\<lparr>status_code := 0, rejected_msg_id := 0,
       peer_capability_flag := False, peer_rg_connect_flag := False,
       sender_capability_flag := False, sender_rg_connect_flag := False\<rparr>\<rparr>"

definition iccp_csm_status_reset :: "csm_ptr \<Rightarrow> bool \<Rightarrow> world \<Rightarrow> world option" where
  "iccp_csm_status_reset c all w = do {
     _ \<leftarrow> w_csm w c;
     w \<leftarrow> app_csm_init c all (upd_csm c (reset_csm all) w);
     Some (upd_csm c (csm_msg_log_update (\<lambda>_. zero_MsgLog)) w) }"

abbreviation (input) CONNECT_INTERVAL_SEC :: int where "CONNECT_INTERVAL_SEC \<equiv> 1"
abbreviation (input) HEARTBEAT_TIMEOUT_SEC :: int where "HEARTBEAT_TIMEOUT_SEC \<equiv> 15"

definition iccp_csm_init :: "csm_ptr \<Rightarrow> world \<Rightarrow> world option" where
  "iccp_csm_init c w = do {
     w \<leftarrow> iccp_csm_status_reset c True w;
     Some (upd_csm c (\<lambda>csm. csm\<lparr>csm_sender_ip := [], csm_peer_ip := [],
       csm_iccp_info := (csm_iccp_info csm)\<lparr>sender_name := [], icc_rg_id := 0\<rparr>,
       csm_keepalive_time := CONNECT_INTERVAL_SEC, csm_session_timeout := HEARTBEAT_TIMEOUT_SEC\<rparr>) w) }"

definition system_create_csm :: "world \<Rightarrow> (csm_ptr option \<times> world) option" where
  "system_create_csm w = (let (ok, w) = malloc_ok w in
     if \<not> ok then Some (None, w)
     else do {
       let c = w_fresh w;
       w \<leftarrow> iccp_csm_init c (w\<lparr>w_csm := (w_csm w)(c \<mapsto> zero_CSM), w_fresh := c + 1\<rparr>);
       Some (Some c, upd_sys (sys_csm_list_update (\<lambda>cs. c # cs)) w) })"

subsection \<open>Losing the connection\<close>

text \<open>\<open>scheduler_unregister_sock_read_event_callback\<close>, then the steps of the handler\<close>

definition scheduler_session_disconnect_handler :: "csm_ptr \<Rightarrow> world \<Rightarrow> world option" where
  "scheduler_session_disconnect_handler c w = do {
     csm \<leftarrow> w_csm w c;
     let w = (if csm_sock_fd csm > 0 then upd_sys (sys_readfd_update (filter (\<lambda>fd. fd \<noteq> csm_sock_fd csm))) w else w);
     w \<leftarrow> scheduler_csm_socket_cleanup c w;
     w \<leftarrow> mlacp_peer_disconn_handler c w;
     let w = upd_mlacp c (ml_current_state_update (\<lambda>_. MLACP_STATE_INIT)) w;
     w \<leftarrow> iccp_csm_status_reset c False w;
     Some (upd_csm c (csm_connTimePrev_update (\<lambda>_. w_now w)) w) }"

definition heartbeat_check :: "csm_ptr \<Rightarrow> world \<Rightarrow> world option" where
  "heartbeat_check c w = do {
     csm \<leftarrow> w_csm w c;
     if csm_heartbeat_update_time csm = 0 then Some (upd_csm c (csm_heartbeat_update_time_update (\<lambda>_. w_now w)) w)
     else if w_now w - csm_heartbeat_update_time csm > csm_session_timeout csm
     then scheduler_session_disconnect_handler c w
     else Some w }"

definition heartbeat_update :: "csm_ptr \<Rightarrow> world \<Rightarrow> world option" where
  "heartbeat_update c w = do {
     csm \<leftarrow> w_csm w c;
     if csm_sock_fd csm > 0 then heartbeat_check c w else Some w }"

subsection \<open>Opening the connection\<close>

text \<open>The addresses are compared as words in network order.\<close>

definition iccp_csm_stp_role_count :: "csm_ptr \<Rightarrow> world \<Rightarrow> world option" where
  "iccp_csm_stp_role_count c w = do {
     csm \<leftarrow> w_csm w c;
     if csm_role_type csm \<noteq> STP_ROLE_NONE then Some w
     else if inet_addr (csm_sender_ip csm) < inet_addr (csm_peer_ip csm) then
       Some (snd (mlacp_link_set_iccp_role (csm_mlag_id csm) True (ml_system_id (MLACP csm))
         (upd_csm c (csm_role_type_update (\<lambda>_. STP_ROLE_ACTIVE)) w)))
     else
       mlacp_fix_bridge_mac c (snd (mlacp_link_set_iccp_role (csm_mlag_id csm) False []
         (upd_csm c (csm_role_type_update (\<lambda>_. STP_ROLE_STANDBY)) w))) }"

definition scheduler_check_csm_config :: "csm_ptr \<Rightarrow> world \<Rightarrow> (int \<times> world) option" where
  "scheduler_check_csm_config c w = do {
     csm \<leftarrow> w_csm w c;
     if csm_mlag_id csm \<le> 0 \<or> csm_peer_ip csm = [] \<or> csm_sender_ip csm = [] then do {
       w \<leftarrow> iccp_csm_stp_role_count c w;
       Some (MCLAG_ERROR, w) }
     else if csm_peer_itf_name csm = [] then do {
       w \<leftarrow> iccp_csm_stp_role_count c w;
       Some (1, w) }
     else do {
       lif \<leftarrow> local_if_find_by_name (csm_peer_itf_name csm) w;
       case lif of None \<Rightarrow> Some (MCLAG_ERROR, w) | Some l \<Rightarrow> do {
         let w = upd_csm c (csm_peer_link_if_update (\<lambda>_. Some l)) (upd_lif l (lif_is_peer_link_update (\<lambda>_. 1)) w);
         w \<leftarrow> set_peerlink_learn_kernel c 0 w;
         w \<leftarrow> iccp_csm_stp_role_count c w;
         Some (1, w) } } }"

text \<open>\<open>socket\<close>, \<open>bind\<close>, \<open>connect\<close> and the registration can fail; then a socket just created is closed.\<close>

definition session_client_conn_handler :: "csm_ptr \<Rightarrow> world \<Rightarrow> world option" where
  "session_client_conn_handler c w = do {
     _ \<leftarrow> w_csm w c;
     let (connFd, w) = answer 3 w;
     let fail = (\<lambda>w. if connFd \<ge> 0 then emit (Ev_close connFd) (upd_csm c (csm_sock_fd_update (\<lambda>_. - 1)) w) else w);
     let w = (if connFd = - 1 then fail w
              else let (err, w) = answer 0 w in
              if err < 0 then fail w
              else let (connStat, w) = answer 0 w in
              if connStat \<noteq> 0 then fail w
              else let (err, w) = answer 0 w in
              if err \<noteq> 0 then fail w
              else upd_sys (\<lambda>s. s\<lparr>sys_readfd := connFd # sys_readfd s, sys_readfd_count := sys_readfd_count s + 1\<rparr>)
                     (upd_csm c (csm_sock_fd_update (\<lambda>_. connFd)) w));
     Some (upd_csm c (csm_connTimePrev_update (\<lambda>_. w_now w)) w) }"

definition scheduler_prepare_session :: "csm_ptr \<Rightarrow> world \<Rightarrow> world option" where
  "scheduler_prepare_session c w = do {
     csm \<leftarrow> w_csm w c;
     let w = (if csm_connTimePrev csm = 0 then upd_csm c (csm_connTimePrev_update (\<lambda>_. w_now w)) w else w);
     csm \<leftarrow> w_csm w c;
     if w_now w - csm_connTimePrev csm < CONNECT_INTERVAL_SEC then Some w
     else do {
       w \<leftarrow> (if csm_sock_fd csm > 0 then Some w
             else do {
               (ret, w) \<leftarrow> scheduler_check_csm_config c w;
               csm \<leftarrow> w_csm w c;
               if ret < 0 then Some w
               else if inet_addr (csm_sender_ip csm) \<ge> inet_addr (csm_peer_ip csm) then Some w
               else session_client_conn_handler c w });
       Some (upd_csm c (csm_connTimePrev_update (\<lambda>_. w_now w)) w) } }"

text \<open>A client of the given address connects; \<open>new_fd\<close> is what \<open>accept\<close> returns.\<close>

definition scheduler_server_accept :: "int \<Rightarrow> string \<Rightarrow> world \<Rightarrow> (int \<times> world) option" where
  "scheduler_server_accept new_fd client_ip w = (
     let reject = (\<lambda>w. Some (MCLAG_ERROR, if new_fd \<ge> 0 then emit (Ev_close new_fd) w else w)) in
     if sys_server_fd (w_sys w) \<le> 0 then Some (MCLAG_ERROR, w)
     else if new_fd = - 1 then reject w
     else do {
       c \<leftarrow> system_get_csm_by_peer_ip client_ip w;
       case c of None \<Rightarrow> reject w | Some c \<Rightarrow> do {
         csm \<leftarrow> w_csm w c;
         if csm_sock_fd csm > 0 then reject w
         else do {
           (ret, w) \<leftarrow> scheduler_check_csm_config c w;
           if ret < 0 then reject w
           else (let (err, w) = answer 0 w in
             if err \<noteq> 0 then reject w
             else Some (0, upd_sys (\<lambda>s. s\<lparr>sys_readfd := new_fd # sys_readfd s, sys_readfd_count := sys_readfd_count s + 1\<rparr>)
               (upd_csm c (\<lambda>x. x\<lparr>csm_sock_fd := new_fd, csm_current_state := ICCP_NONEXISTENT\<rparr>) w))) } } })"

subsection \<open>Reading a message\<close>

text \<open>
  What the next calls of \<open>recv\<close> find: bytes that have arrived, nothing yet, or an error. A call
  takes at most as many bytes as it asks for; no bytes, or the end of the script, is the end of
  the connection.
\<close>

datatype recv_result = Recv_data bytes | Recv_again | Recv_error

definition leftover :: "bytes \<Rightarrow> recv_result list \<Rightarrow> recv_result list" where
  "leftover bs rx = (if bs = [] then rx else Recv_data bs # rx)"

datatype hdr_result = Hdr_ok | Hdr_error | Hdr_closed

text \<open>The header of eight bytes, with blocking calls.\<close>

primrec recv_hdr :: "recv_result list \<Rightarrow> bytes \<Rightarrow> hdr_result \<times> bytes \<times> recv_result list" where
  "recv_hdr [] got = (Hdr_closed, got, [])"
| "recv_hdr (r # rx) got = (case r of
       Recv_data bs \<Rightarrow>
         if bs = [] then (Hdr_closed, got, rx)
         else (let n = sizeof_LDPHdr - length got in
           if length bs < n then recv_hdr rx (got @ bs)
           else (Hdr_ok, got @ take n bs, leftover (drop n bs) rx))
     | _ \<Rightarrow> (Hdr_error, got, rx))"

datatype data_result = Data_ok nat | Data_error | Data_closed | Data_retry_failed

abbreviation (input) RECV_RETRY_INTERVAL_USEC :: int where "RECV_RETRY_INTERVAL_USEC \<equiv> 100000"
abbreviation (input) RECV_RETRY_MAX :: nat where "RECV_RETRY_MAX \<equiv> 10"

text \<open>
  The rest, with non-blocking calls that are retried; \<open>timeout\<close> is the session timeout in seconds.
  The waiting time is computed in an \<open>int\<close>.
\<close>

definition retry_sleep :: "nat \<Rightarrow> int \<Rightarrow> int \<Rightarrow> (nat \<times> int) option" where
  "retry_sleep num_retry timeout waited =
     (if num_retry = RECV_RETRY_MAX
      then (if \<bar>timeout * 1000000\<bar> < 2 ^ 31 then Some (nat ((timeout * 1000000 - waited) mod 2 ^ 32), waited) else None)
      else Some (nat (int num_retry * RECV_RETRY_INTERVAL_USEC), waited + int num_retry * RECV_RETRY_INTERVAL_USEC))"

fun recv_data :: "recv_result list \<Rightarrow> bytes \<Rightarrow> nat \<Rightarrow> nat \<Rightarrow> int \<Rightarrow> int \<Rightarrow> world \<Rightarrow> (data_result \<times> bytes \<times> world) option" where
  "recv_data rx got 0 num_retry timeout waited w = Some (Data_ok num_retry, got, w)"
| "recv_data [] got data_len num_retry timeout waited w = Some (Data_closed, got, w)"
| "recv_data (Recv_error # rx) got data_len num_retry timeout waited w = Some (Data_error, got, w)"
| "recv_data (Recv_again # rx) got data_len num_retry timeout waited w =
     (if num_retry + 1 > RECV_RETRY_MAX then Some (Data_retry_failed, got, w)
      else do {
        (usec, waited) \<leftarrow> retry_sleep (num_retry + 1) timeout waited;
        recv_data rx got data_len (num_retry + 1) timeout waited (emit (Ev_sleep usec) w) })"
| "recv_data (Recv_data bs # rx) got data_len num_retry timeout waited w =
     (if bs = [] then Some (Data_closed, got, w)
      else if sizeof_LDPHdr + length got + min (length bs) data_len > CSM_BUFFER_SIZE then None
      else recv_data (leftover (drop data_len bs) rx) (got @ take data_len bs) (data_len - length bs) num_retry timeout waited w)"

definition SYSTEM_SET_RETRY_COUNTER :: "nat \<Rightarrow> world \<Rightarrow> world" where
  "SYSTEM_SET_RETRY_COUNTER n w = upd_cnt (\<lambda>k. k\<lparr>
     cnt_rx_retry_total_counter := cnt_rx_retry_total_counter k + of_nat n,
     cnt_rx_retry_max_counter := max (of_nat n) (cnt_rx_retry_max_counter k)\<rparr>) w"

definition recv_err :: "csm_ptr \<Rightarrow> (system_dbg_counter_info \<Rightarrow> system_dbg_counter_info) \<Rightarrow> world \<Rightarrow> (int \<times> world) option" where
  "recv_err c count w = do {
     w \<leftarrow> scheduler_session_disconnect_handler c (upd_cnt count w);
     Some (MCLAG_ERROR, w) }"

definition enqueue_received :: "csm_ptr \<Rightarrow> bytes \<Rightarrow> world \<Rightarrow> world option" where
  "enqueue_received c m w = (let (ok, w) = iccp_csm_init_msg w in do {
     csm \<leftarrow> w_csm w c;
     if ok then do {
       csm \<leftarrow> iccp_csm_enqueue_msg csm m;
       Some (upd_csm c (\<lambda>_. csm\<lparr>csm_icc_msg_in_count := csm_icc_msg_in_count csm + 1\<rparr>) w) }
     else Some (upd_csm c (csm_i_msg_in_count_update (\<lambda>n. n + 1)) w) })"

definition scheduler_csm_read_callback :: "csm_ptr \<Rightarrow> recv_result list \<Rightarrow> world \<Rightarrow> (int \<times> world) option" where
  "scheduler_csm_read_callback c rx w = do {
     csm \<leftarrow> w_csm w c;
     if csm_sock_fd csm \<le> 0 then Some (MCLAG_ERROR, w)
     else do {
       let (res, hdr, rx) = recv_hdr rx [];
       let w = w\<lparr>g_csm_buf := stn 0 hdr zero_buf\<rparr>;
       let len = unat (ntohs (rd16 2 (g_csm_buf w)));
       case res of
         Hdr_error \<Rightarrow> recv_err c (cnt_rx_peer_hdr_read_sock_err_counter_update (\<lambda>n. n + 1)) w
       | Hdr_closed \<Rightarrow> recv_err c (cnt_rx_peer_hdr_read_sock_zero_len_counter_update (\<lambda>n. n + 1)) w
       | Hdr_ok \<Rightarrow>
           if len < MSG_L_INCLUD_U_BIT_MSG_T_L_FIELDS
           then recv_err c (cnt_rx_peer_invalid_msg_counter_update (\<lambda>n. n + 1)) w
           else do {
             (res, body, w) \<leftarrow> recv_data rx [] (len - MSG_L_INCLUD_U_BIT_MSG_T_L_FIELDS) 0 (csm_session_timeout csm) 0 w;
             let w = w\<lparr>g_csm_buf := stn sizeof_LDPHdr body (g_csm_buf w)\<rparr>;
             case res of
               Data_error \<Rightarrow> recv_err c (cnt_rx_peer_tlv_read_sock_err_counter_update (\<lambda>n. n + 1)) w
             | Data_closed \<Rightarrow> recv_err c (cnt_rx_peer_tlv_read_sock_zero_len_counter_update (\<lambda>n. n + 1)) w
             | Data_retry_failed \<Rightarrow> recv_err c (cnt_rx_retry_fail_counter_update (\<lambda>n. n + 1)) w
             | Data_ok num_retry \<Rightarrow> do {
                 let w = (if num_retry > 0 then SYSTEM_SET_RETRY_COUNTER num_retry w else w);
                 w \<leftarrow> enqueue_received c (hdr @ body) w;
                 Some (1, w) } } } }"

subsection \<open>The connection state machine\<close>

definition enter_state :: "ICCP_CONNECTION_STATE \<Rightarrow> IccpInfo \<Rightarrow> IccpInfo" where
  "enter_state s x = (case s of
       ICCP_INITIALIZED \<Rightarrow> x\<lparr>sender_capability_flag := True\<rparr>
     | ICCP_CAPREC \<Rightarrow> x\<lparr>sender_capability_flag := True, peer_capability_flag := True\<rparr>
     | ICCP_CONNECTING \<Rightarrow> x\<lparr>sender_rg_connect_flag := True\<rparr>
     | ICCP_OPERATIONAL \<Rightarrow> x\<lparr>sender_rg_connect_flag := True, peer_rg_connect_flag := True\<rparr>
     | _ \<Rightarrow> x)"

text \<open>Tear-down of a domain; the messages still queued, their buffers apart, go with it.\<close>

definition iccp_csm_finalize :: "csm_ptr \<Rightarrow> world \<Rightarrow> world option" where
  "iccp_csm_finalize c w = do {
     csm \<leftarrow> w_csm w c;
     w \<leftarrow> (if sys_warmboot_exit (w_sys w) \<noteq> WARM_REBOOT \<and> csm_peer_link_if csm \<noteq> None then do {
             w \<leftarrow> set_peerlink_mlag_port_learn (csm_peer_link_if csm) 1 w;
             set_peerlink_learn_kernel c 1 w }
           else Some w);
     w \<leftarrow> scheduler_session_disconnect_handler c w;
     csm \<leftarrow> w_csm w c;
     w \<leftarrow> foreach (\<lambda>l w. do {
             lif \<leftarrow> w_lif w l;
             map_option snd (iccp_cli_detach_mclag_domain_to_port_channel (lif_name lif) w) })
           (ml_lif_list (MLACP csm)) w;
     w \<leftarrow> app_csm_finalize c w;
     csm \<leftarrow> w_csm w c;
     w \<leftarrow> foreach (\<lambda>l. mod_lif l (lif_csm_update (\<lambda>_. None))) (ml_lif_list (MLACP csm)) w;
     Some (upd_sys (sys_csm_list_update (remove1 c)) (w\<lparr>w_csm := (w_csm w)(c := None)\<rparr>)) }"

text \<open>The message at the head of the queue, if any, is applied in every state but the first.\<close>

definition apply_msg :: "csm_ptr \<Rightarrow> bytes option \<Rightarrow> world \<Rightarrow> world option" where
  "apply_msg c msg w = (case msg of None \<Rightarrow> Some w | Some m \<Rightarrow> do {
     csm \<leftarrow> w_csm w c;
     csm \<leftarrow> iccp_csm_correspond_from_msg csm m;
     Some (upd_csm c (\<lambda>_. csm) w) })"

definition send_iccp_msg :: "csm_ptr \<Rightarrow> world \<Rightarrow> world option" where
  "send_iccp_msg c w = do {
     csm \<leftarrow> w_csm w c;
     let (n, w) = in_buf (iccp_csm_prepare_iccp_msg csm) w;
     map_option snd (iccp_csm_send c n w) }"

definition csm_step :: "csm_ptr \<Rightarrow> bytes option \<Rightarrow> ICCP_CONNECTION_STATE \<Rightarrow> world \<Rightarrow> world option" where
  "csm_step c msg s w = (let set_state = (\<lambda>s. upd_csm c (csm_current_state_update (\<lambda>_. s))) in case s of
       ICCP_NONEXISTENT \<Rightarrow> do {
         w \<leftarrow> scheduler_prepare_session c w;
         csm \<leftarrow> w_csm w c;
         if csm_sock_fd csm > 0 then do {
           (ret, w) \<leftarrow> scheduler_check_csm_config c w;
           Some (if ret > 0 then set_state ICCP_INITIALIZED w else w) }
         else Some w }
     | ICCP_INITIALIZED \<Rightarrow> do {
         w \<leftarrow> apply_msg c msg w;
         w \<leftarrow> send_iccp_msg c w;
         csm \<leftarrow> w_csm w c;
         let x = csm_iccp_info csm;
         Some (if sender_capability_flag x \<and> \<not> peer_capability_flag x then set_state ICCP_CAPSENT w
               else if sender_capability_flag x \<and> peer_capability_flag x then set_state ICCP_CAPREC w
               else w) }
     | ICCP_CAPSENT \<Rightarrow> do {
         w \<leftarrow> apply_msg c msg w;
         csm \<leftarrow> w_csm w c;
         let x = csm_iccp_info csm;
         Some (if sender_capability_flag x \<and> peer_capability_flag x then set_state ICCP_CAPREC w else w) }
     | ICCP_CAPREC \<Rightarrow> do {
         w \<leftarrow> apply_msg c msg w;
         w \<leftarrow> send_iccp_msg c (clear_buf w);
         csm \<leftarrow> w_csm w c;
         let x = csm_iccp_info csm;
         Some (if status_code x \<noteq> 0 then w
               else if peer_rg_connect_flag x then set_state ICCP_OPERATIONAL w
               else set_state ICCP_CONNECTING w) }
     | ICCP_CONNECTING \<Rightarrow> do {
         w \<leftarrow> apply_msg c msg w;
         w \<leftarrow> send_iccp_msg c (clear_buf w);
         csm \<leftarrow> w_csm w c;
         let x = csm_iccp_info csm;
         Some (if status_code x > 0 then set_state ICCP_CAPREC w
               else if peer_rg_connect_flag x then set_state ICCP_OPERATIONAL w
               else w) }
     | ICCP_OPERATIONAL \<Rightarrow> do {
         w \<leftarrow> apply_msg c msg w;
         csm \<leftarrow> w_csm w c;
         let x = csm_iccp_info csm;
         if \<not> sender_rg_connect_flag x \<or> \<not> peer_rg_connect_flag x then do {
           w \<leftarrow> send_iccp_msg c (clear_buf w);
           Some (set_state ICCP_CAPREC w) }
         else Some w })"

definition iccp_csm_transit :: "csm_ptr \<Rightarrow> world \<Rightarrow> world option" where
  "iccp_csm_transit c w = do {
     csm \<leftarrow> w_csm w c;
     let prev_state = csm_current_state csm;
     if prev_state \<noteq> ICCP_NONEXISTENT \<and> csm_sock_fd csm \<le> 0 then
       iccp_csm_finalize c (upd_csm c (csm_current_state_update (\<lambda>_. ICCP_NONEXISTENT)) w)
     else do {
       let (msg, csm') = iccp_csm_dequeue_msg csm;
       w \<leftarrow> csm_step c msg prev_state (upd_csm c (\<lambda>_. csm') w);
       csm \<leftarrow> w_csm w c;
       let s = csm_current_state csm;
       if prev_state \<noteq> s \<or> s \<noteq> ICCP_NONEXISTENT \<and> msg \<noteq> None then
         (if s = ICCP_NONEXISTENT then iccp_csm_finalize c w
          else Some (upd_csm c (csm_iccp_info_update (enter_state s)) w))
       else Some w } }"

definition app_csm_transit :: "csm_ptr \<Rightarrow> world \<Rightarrow> world option" where
  "app_csm_transit c w = do {
     csm \<leftarrow> w_csm w c;
     Some (if app_current_state (APP_CSM csm) \<noteq> APP_NONEXISTENT \<and> csm_sock_fd csm \<le> 0
           then upd_csm c (csm_app_csm_update (app_current_state_update (\<lambda>_. APP_NONEXISTENT))) w
           else if app_current_state (APP_CSM csm) \<noteq> APP_OPERATIONAL \<and> csm_current_state csm = ICCP_OPERATIONAL
           then upd_csm c (csm_app_csm_update (app_current_state_update (\<lambda>_. APP_OPERATIONAL))) w
           else w) }"

subsection \<open>The scheduler\<close>

text \<open>\<open>LIST_FOREACH\<close> reads the link of a domain after its state machines have run.\<close>

definition transit_csm :: "csm_ptr \<Rightarrow> world \<Rightarrow> world option" where
  "transit_csm c w = do {
     w \<leftarrow> heartbeat_update c w;
     w \<leftarrow> iccp_csm_transit c w;
     w \<leftarrow> app_csm_transit c w;
     w \<leftarrow> mlacp_fsm_transit c w;
     _ \<leftarrow> w_csm w c;
     Some w }"

definition scheduler_transit_fsm :: "world \<Rightarrow> world option" where
  "scheduler_transit_fsm w = do {
     w \<leftarrow> foreach transit_csm (sys_csm_list (w_sys w)) w;
     local_if_purge_clear w }"

definition mlacp_sync_send_warmboot_flag :: "world \<Rightarrow> world option" where
  "mlacp_sync_send_warmboot_flag w = foreach (\<lambda>c w. do {
       csm \<leftarrow> w_csm w c;
       if ml_current_state (MLACP csm) = MLACP_STATE_EXCHANGE
       then map_option snd (send_built c (mlacp_prepare_for_warm_reboot csm CSM_BUFFER_SIZE) w) else Some w })
     (sys_csm_list (w_sys w)) w"

text \<open>The byte read from the signal pipe.\<close>

definition iccp_receive_signal_handler :: "char \<Rightarrow> world \<Rightarrow> world option" where
  "iccp_receive_signal_handler ctrl_byte w = (if ctrl_byte = CHR ''w'' then do {
       w \<leftarrow> mlacp_sync_send_warmboot_flag w;
       Some (upd_sys (sys_warmboot_exit_update (\<lambda>_. WARM_REBOOT)) w) }
     else Some w)"

definition iccp_connect_syncd :: "world \<Rightarrow> int \<times> world" where
  "iccp_connect_syncd w = (if sys_sync_fd (w_sys w) \<ge> 0 then (0, w)
     else let (fd, w) = answer 4 w in
     if fd < 0 then (MCLAG_ERROR, w)
     else let (ret, w) = answer 0 w in
     if ret < 0 then (MCLAG_ERROR, emit (Ev_close fd) w)
     else (0, upd_sys (sys_sync_fd_update (\<lambda>_. fd)) w))"

end
