(* ===== verification/Iccp_Interfaces.thy ===== *)
theory Iccp_Interfaces
  imports Iccp_Session
begin

text \<open>
  Interfaces coming and going (\<open>src/port.c\<close>, \<open>src/iccp_ifm.c\<close>, \<open>src/iccp_netlink.c\<close>): creation and
  destruction, VLAN membership, also of interfaces not yet known, and the link and address
  events of the kernel.
\<close>

subsection \<open>VLAN membership\<close>

definition vlan_name :: "int \<Rightarrow> string" where
  "vlan_name vid = ''Vlan'' @ show_int vid"

definition local_if_add_vlan :: "lif_ptr \<Rightarrow> u16 \<Rightarrow> world \<Rightarrow> (int \<times> world) option" where
  "local_if_add_vlan l vid w = do {
     lif \<leftarrow> w_lif w l;
     (ret, w) \<leftarrow> (case RB_FIND vlan_node_compare (vlan_key vid) (lif_vlan_tree lif) of
         Some _ \<Rightarrow> Some (0, w)
       | None \<Rightarrow> (let (ok, w) = malloc_ok w in
           if \<not> ok then Some (MCLAG_ERROR, w)
           else do {
             itf \<leftarrow> local_if_find_by_name (vlan_name (uint vid)) w;
             Some (0, upd_lif l (\<lambda>x. x\<lparr>
               lif_vlan_tree := RB_INSERT vlan_node_compare (vlan_info_init\<lparr>vlan_vid := vid, vlan_itf := itf\<rparr>) (lif_vlan_tree x),
               lif_vlan_count := lif_vlan_count x + 1, lif_port_config_sync := 1\<rparr>) w) }));
     if ret = MCLAG_ERROR then Some (ret, w)
     else do {
       let w = upd_lif l (lif_vlan_tree_update (set_vlan vid (vlan_removed_update (\<lambda>_. 0)))) w;
       lif \<leftarrow> w_lif w l;
       vlan \<leftarrow> RB_FIND vlan_node_compare (vlan_key vid) (lif_vlan_tree lif);
       w \<leftarrow> (case vlan_itf vlan of
           Some q \<Rightarrow> if lif_is_peer_link lif \<noteq> 0 then update_vlan_if_mac_on_standby q w else Some w
         | None \<Rightarrow> Some w);
       Some (0, w) } }"

text \<open>Memberships of interfaces that do not exist yet, the latest interface first.\<close>

definition upd_pending :: "string \<Rightarrow> (PendingVlanMbrIf \<Rightarrow> PendingVlanMbrIf) \<Rightarrow> PendingVlanMbrIf list \<Rightarrow> PendingVlanMbrIf list" where
  "upd_pending n f ps = update_first (\<lambda>p. pend_name p = n) f ps"

definition find_pending_vlan_mbr_if :: "string \<Rightarrow> world \<Rightarrow> PendingVlanMbrIf option" where
  "find_pending_vlan_mbr_if ifname w = find (\<lambda>p. pend_name p = ifname) (sys_pending_vlan_mbr_if_list (w_sys w))"

abbreviation pending_vlan :: "u16 \<Rightarrow> VLAN_ID" where
  "pending_vlan vid \<equiv> \<lparr>vlan_vid = vid, vlan_removed = 0, vlan_itf = None\<rparr>"

definition add_pending_vlan_mbr :: "string \<Rightarrow> u16 \<Rightarrow> world \<Rightarrow> world" where
  "add_pending_vlan_mbr n vid w = (case find_pending_vlan_mbr_if n w of None \<Rightarrow> w
     | Some p \<Rightarrow>
         if RB_FIND vlan_node_compare (vlan_key vid) (pend_vlan_tree p) \<noteq> None then w
         else let (ok, w) = malloc_ok w in
         if \<not> ok then w
         else upd_sys (sys_pending_vlan_mbr_if_list_update (upd_pending n (pend_vlan_tree_update
                (RB_INSERT vlan_node_compare (pending_vlan vid))))) w)"

definition del_pending_vlan_mbr :: "string \<Rightarrow> u16 \<Rightarrow> world \<Rightarrow> world" where
  "del_pending_vlan_mbr n vid w = upd_sys (sys_pending_vlan_mbr_if_list_update (upd_pending n (pend_vlan_tree_update
     (\<lambda>t. case RB_FIND vlan_node_compare (vlan_key vid) t of None \<Rightarrow> t | Some v \<Rightarrow> RB_REMOVE vlan_node_compare v t)))) w"

definition update_pending_vlan_mbr :: "string \<Rightarrow> u16 \<Rightarrow> bool \<Rightarrow> world \<Rightarrow> world" where
  "update_pending_vlan_mbr mbr_if_name vid add w = (case find_pending_vlan_mbr_if mbr_if_name w of
       Some _ \<Rightarrow> if add then add_pending_vlan_mbr mbr_if_name vid w else del_pending_vlan_mbr mbr_if_name vid w
     | None \<Rightarrow>
         if \<not> add then w
         else let (ok, w) = malloc_ok w in
         if \<not> ok then w
         else (let n = take (MAX_L_PORT_NAME - 1) mbr_if_name in
           add_pending_vlan_mbr n vid
             (upd_sys (sys_pending_vlan_mbr_if_list_update (\<lambda>ps. \<lparr>pend_name = n, pend_vlan_tree = []\<rparr> # ps)) w)))"

definition move_pending_vlan_mbr_to_lif :: "lif_ptr \<Rightarrow> world \<Rightarrow> world option" where
  "move_pending_vlan_mbr_to_lif l w = do {
     lif \<leftarrow> w_lif w l;
     case find_pending_vlan_mbr_if (lif_name lif) w of None \<Rightarrow> Some w
     | Some p \<Rightarrow> do {
         w \<leftarrow> foreach (\<lambda>v w. do {
                 (_, w) \<leftarrow> local_if_add_vlan l (vlan_vid v) w;
                 Some (del_pending_vlan_mbr (lif_name lif) (vlan_vid v) w) })
               (pend_vlan_tree p) w;
         Some (upd_sys (sys_pending_vlan_mbr_if_list_update (remove_first (\<lambda>p. pend_name p = lif_name lif))) w) } }"

definition del_all_pending_vlan_mbr_ifs :: "world \<Rightarrow> world" where
  "del_all_pending_vlan_mbr_ifs w = upd_sys (sys_pending_vlan_mbr_if_list_update (\<lambda>_. [])) w"

subsection \<open>Creation\<close>

definition atoi :: "string \<Rightarrow> int" where
  "atoi s = sscanf_d [] s"

definition new_lif :: "int \<Rightarrow> string \<Rightarrow> int \<Rightarrow> u8 \<Rightarrow> bool \<Rightarrow> LocalInterface" where
  "new_lif ifindex ifname type state l3_proto = local_if_init\<lparr>lif_ifindex := ifindex, lif_type := type, lif_state := state,
     lif_po_down_time := 0,
     lif_po_id := (if type = IF_T_PORT_CHANNEL then atoi (dropWhile (\<lambda>c. \<not> is_digit c) ifname) else - 1),
     lif_po_active := (if type = IF_T_PORT_CHANNEL then of_bool (state = PORT_STATE_UP) else 1),
     lif_name := take (MAX_L_PORT_NAME - 1) ifname,
     lif_is_l3_proto_enabled := (type = IF_T_VLAN \<and> l3_proto)\<rparr>"

text \<open>The domains that wait for the interface, as their peer link or as one of their port channels.\<close>

primrec join_domains :: "csm_ptr list \<Rightarrow> lif_ptr \<Rightarrow> string \<Rightarrow> world \<Rightarrow> world option" where
  "join_domains [] l ifname w = Some w"
| "join_domains (c # cs) l ifname w = do {
     lif \<leftarrow> w_lif w l;
     csm \<leftarrow> w_csm w c;
     if lif_name lif = csm_peer_itf_name csm then
       set_peerlink_learn_kernel c 0
         (upd_csm c (csm_peer_link_if_update (\<lambda>_. Some l)) (upd_lif l (lif_is_peer_link_update (\<lambda>_. 1)) w))
     else do {
       w \<leftarrow> foreach (\<lambda>n w. if ifname = n then mlacp_bind_port_channel_to_csm c ifname w else Some w) (csm_if_bind_list csm) w;
       join_domains cs l ifname w } }"

definition local_if_create :: "int \<Rightarrow> string \<Rightarrow> int \<Rightarrow> u8 \<Rightarrow> world \<Rightarrow> (lif_ptr option \<times> world) option" where
  "local_if_create ifindex ifname type state w = do {
     known \<leftarrow> (if ifindex > 0 then local_if_find_by_ifindex ifindex w else Some None);
     case known of Some l \<Rightarrow> Some (Some l, w)
     | None \<Rightarrow> (let (ok, w) = malloc_ok w in
         if \<not> ok then Some (None, w)
         else if type = IF_T_PORT_CHANNEL \<and> \<not> (\<exists>c \<in> set ifname. is_digit c) then Some (None, w)
         else if type \<notin> {IF_T_PORT_CHANNEL, IF_T_PORT, IF_T_VLAN, IF_T_VXLAN} then Some (None, w)
         else do {
           let l = w_fresh w;
           let lif = new_lif ifindex ifname type state (is_unique_ip_configured (take (MAX_L_PORT_NAME - 1) ifname) w);
           let w = upd_sys (sys_lif_list_update (\<lambda>ls. l # ls)) (w\<lparr>w_lif := (w_lif w)(l \<mapsto> lif), w_fresh := l + 1\<rparr>);
           w \<leftarrow> move_pending_vlan_mbr_to_lif l w;
           w \<leftarrow> join_domains (sys_csm_list (w_sys w)) l ifname w;
           Some (Some l, w) }) }"

text \<open>A VLAN interface not known yet is created with index \<open>-1\<close> and the state \<open>IF_OPER_DOWN\<close> (2).\<close>

definition vlan_mbrship_change_handler :: "int \<Rightarrow> string \<Rightarrow> bool \<Rightarrow> world \<Rightarrow> world option" where
  "vlan_mbrship_change_handler vlan_id mbr_if_name add w = do {
     lif \<leftarrow> local_if_find_by_name mbr_if_name w;
     case lif of None \<Rightarrow> Some (update_pending_vlan_mbr mbr_if_name (of_int vlan_id) add w)
     | Some l \<Rightarrow>
         if add then do {
           vlan_lif \<leftarrow> local_if_find_by_name (vlan_name vlan_id) w;
           w \<leftarrow> (if vlan_lif = None then map_option snd (local_if_create (- 1) (vlan_name vlan_id) IF_T_VLAN 2 w) else Some w);
           map_option snd (local_if_add_vlan l (of_int vlan_id) w) }
         else do {
           _ \<leftarrow> w_lif w l;
           Some (upd_lif l (local_if_del_vlan (of_int vlan_id)) w) } }"

subsection \<open>Destruction\<close>

text \<open>No interface keeps a pointer to a VLAN interface that goes.\<close>

definition local_if_vlan_remove :: "lif_ptr \<Rightarrow> world \<Rightarrow> world option" where
  "local_if_vlan_remove v w = do {
     lif_vlan \<leftarrow> w_lif w v;
     if lif_type lif_vlan \<noteq> IF_T_VLAN then Some w
     else do {
       let vid = of_int (sscanf_d ''Vlan'' (lif_name lif_vlan));
       foreach (\<lambda>l w. do {
           lif \<leftarrow> w_lif w l;
           Some (if lif_type lif = IF_T_VLAN then w
                 else upd_lif l (lif_vlan_tree_update (set_vlan vid (vlan_itf_update (\<lambda>_. None)))) w) })
         (sys_lif_list (w_sys w)) w } }"

definition local_if_po_remove :: "lif_ptr \<Rightarrow> world \<Rightarrow> world option" where
  "local_if_po_remove p w = do {
     lif_po \<leftarrow> w_lif w p;
     case lif_csm lif_po of None \<Rightarrow> Some w | Some c \<Rightarrow> do {
       csm \<leftarrow> w_csm w c;
       foreach (\<lambda>l w. do {
           lif \<leftarrow> w_lif w l;
           if lif_type lif = IF_T_PORT \<and> lif_po_id lif = lif_po_id lif_po then mlacp_unbind_local_if l w else Some w })
         (ml_lif_list (MLACP csm)) w } }"

definition local_if_remove :: "lif_ptr \<Rightarrow> world \<Rightarrow> world option" where
  "local_if_remove l w = do {
     w \<leftarrow> mlacp_unbind_local_if l w;
     mod_lif l (lif_po_id_update (\<lambda>_. - 1)) w }"

definition local_if_destroy :: "string \<Rightarrow> world \<Rightarrow> world option" where
  "local_if_destroy ifname w = do {
     l \<leftarrow> local_if_find_by_name ifname w;
     case l of None \<Rightarrow> Some w | Some l \<Rightarrow> do {
       lif \<leftarrow> w_lif w l;
       w \<leftarrow> (if lif_type lif = IF_T_VLAN then local_if_vlan_remove l w
             else if lif_type lif = IF_T_PORT_CHANNEL then local_if_po_remove l w
             else local_if_remove l w);
       c \<leftarrow> system_get_csm_by_peer_ifname ifname w;
       w \<leftarrow> (case c of None \<Rightarrow> Some w | Some c \<Rightarrow> scheduler_session_disconnect_handler c w);
       lif \<leftarrow> w_lif w l;
       let w = upd_sys (\<lambda>s. s\<lparr>sys_lif_list := remove1 l (sys_lif_list s), sys_lif_purge_list := l # sys_lif_purge_list s\<rparr>) w;
       case lif_csm lif of None \<Rightarrow> Some w | Some c \<Rightarrow> do {
         csm \<leftarrow> w_csm w c;
         let w = upd_mlacp c (ml_lif_list_update (remove1 l)) w;
         Some (if ml_current_state (MLACP csm) = MLACP_STATE_EXCHANGE
               then upd_mlacp c (ml_lif_purge_list_update (\<lambda>ls. l # ls)) w else w) } } }"

subsection \<open>Link events of the kernel\<close>

text \<open>
  What the daemon reads of a link object: index, operational state, name, hardware address if it
  has one, the flag \<open>IFF_LOWER_UP\<close> and the index of its master.
\<close>

record nl_link =
  nl_ifindex :: int
  nl_oper_up :: bool
  nl_name :: string
  nl_addr :: "bytes option"
  nl_lower_up :: bool
  nl_master :: u32

text \<open>The variable \<open>is_mclag_intf\<close> is not reset from one domain to the next.\<close>

fun port_state_domains :: "csm_ptr list \<Rightarrow> bool \<Rightarrow> string \<Rightarrow> bool \<Rightarrow> world \<Rightarrow> world option" where
  "port_state_domains [] is_mclag_intf ifname po_is_active w = Some w"
| "port_state_domains (c # cs) is_mclag_intf ifname po_is_active w = do {
     csm \<leftarrow> w_csm w c;
     if ifname = csm_peer_itf_name csm then
       (if po_is_active then mlacp_peerlink_up_handler c w else mlacp_peerlink_down_handler c w)
     else do {
       (is_mclag_intf, w) \<leftarrow> foreach (\<lambda>l (found, w). do {
             lif \<leftarrow> w_lif w l;
             if lif_type lif = IF_T_PORT_CHANNEL \<and> lif_name lif = ifname then do {
               w \<leftarrow> mlacp_portchannel_state_handler c l (of_bool po_is_active) w;
               Some (True, w) }
             else Some (found, w) })
           (ml_lif_list (MLACP csm)) (is_mclag_intf, w);
       w \<leftarrow> (if is_mclag_intf then Some w
             else do {
               l \<leftarrow> local_if_find_by_name ifname w;
               case l of None \<Rightarrow> Some w
               | Some l \<Rightarrow> update_orphan_port_mac c l (of_bool po_is_active) w });
       port_state_domains cs is_mclag_intf ifname po_is_active w } }"

definition iccp_from_netlink_port_state_handler :: "string \<Rightarrow> u8 \<Rightarrow> world \<Rightarrow> world option" where
  "iccp_from_netlink_port_state_handler ifname state w =
     port_state_domains (sys_csm_list (w_sys w)) False ifname (state = PORT_STATE_UP) w"

definition if_whitelist :: "(string \<times> int) list" where
  "if_whitelist = [(PORTCHANNEL_PREFIX, IF_T_PORT_CHANNEL), (VLAN_PREFIX, IF_T_VLAN), (''Ethernet'', IF_T_PORT), (''VTTNL'', IF_T_VXLAN)]"

text \<open>A link not known yet, or known with another index: the old interface goes, a new one is created.\<close>

definition newlink_create :: "lif_ptr option \<Rightarrow> nl_link \<Rightarrow> world \<Rightarrow> world option" where
  "newlink_create known k w = (case find (\<lambda>e. has_prefix (fst e) (nl_name k)) if_whitelist of
       None \<Rightarrow> Some (upd_cnt (cnt_unknown_if_name_count_update (\<lambda>n. n + 1)) w)
     | Some e \<Rightarrow> do {
         w \<leftarrow> (if known \<noteq> None then local_if_destroy (nl_name k) w else Some w);
         (l, w) \<leftarrow> local_if_create (nl_ifindex k) (nl_name k) (snd e) (if nl_oper_up k then PORT_STATE_UP else PORT_STATE_DOWN) w;
         case nl_addr k of None \<Rightarrow> Some w
         | Some a \<Rightarrow> do { l \<leftarrow> l; mod_lif l (lif_mac_addr_update (\<lambda>_. a)) w } })"

definition newlink_state :: "lif_ptr \<Rightarrow> nl_link \<Rightarrow> world \<Rightarrow> world option" where
  "newlink_state l k w = do {
     lif \<leftarrow> w_lif w l;
     let go = (\<lambda>st act. do {
           let w = upd_lif l (\<lambda>x. x\<lparr>lif_state := st,
                     lif_po_active := if lif_type x = IF_T_PORT_CHANNEL \<and> lif_csm x = None then act else lif_po_active x\<rparr>) w;
           iccp_from_netlink_port_state_handler (lif_name lif) st w });
     if lif_state lif = PORT_STATE_DOWN \<and> nl_lower_up k then go PORT_STATE_UP 1
     else if lif_state lif = PORT_STATE_UP \<and> \<not> nl_lower_up k then go PORT_STATE_DOWN 0
     else Some w }"

definition newlink_master :: "lif_ptr \<Rightarrow> u32 \<Rightarrow> world \<Rightarrow> world option" where
  "newlink_master l master w = do {
     lif \<leftarrow> w_lif w l;
     if lif_type lif \<noteq> IF_T_VLAN \<or> lif_master_ifindex lif = master then Some w
     else if master \<noteq> 0 then
       update_vlan_if_mac_on_standby l (upd_lif l (\<lambda>x. x\<lparr>lif_master_ifindex := master, lif_l3_mode := 1\<rparr>) w)
     else do {
       w \<leftarrow> (if lif_ipv4_addr lif = 0 \<and> memcmp (lif_ipv6_addr lif) (replicate 16 0) = 0 then do {
               w \<leftarrow> (if \<not> lif_is_l3_proto_enabled lif then recover_vlan_if_mac_on_standby l 5 None w else Some w);
               Some (upd_lif l (\<lambda>x. x\<lparr>lif_l3_mode := 0, lif_l3_mac_addr := null_mac\<rparr>) w) }
             else Some w);
       mod_lif l (lif_master_ifindex_update (\<lambda>_. 0)) w } }"

definition iccp_event_handler_obj_input_newlink :: "nl_link \<Rightarrow> world \<Rightarrow> world option" where
  "iccp_event_handler_obj_input_newlink k w =
     (if has_prefix ''VTTNL'' (nl_name k) then do {
        let name = takeWhile (\<lambda>c. c \<noteq> CHR ''-'') (nl_name k);
        l \<leftarrow> local_if_find_by_name name w;
        case l of Some _ \<Rightarrow> Some w
        | None \<Rightarrow> do {
            (l, w) \<leftarrow> local_if_create (nl_ifindex k) name IF_T_VXLAN (if nl_oper_up k then PORT_STATE_UP else PORT_STATE_DOWN) w;
            l \<leftarrow> l;
            mod_lif l (lif_state_update (\<lambda>_. PORT_STATE_UP)) w } }
      else do {
        known \<leftarrow> local_if_find_by_name (nl_name k) w;
        case known of None \<Rightarrow> newlink_create None k w
        | Some l \<Rightarrow> do {
            lif \<leftarrow> w_lif w l;
            if lif_ifindex lif = - 1 \<and> lif_type lif = IF_T_VLAN then
              Some (upd_lif l (\<lambda>x. x\<lparr>lif_ifindex := nl_ifindex k,
                lif_state := if nl_oper_up k then PORT_STATE_UP else PORT_STATE_DOWN,
                lif_mac_addr := case nl_addr k of None \<Rightarrow> lif_mac_addr x | Some a \<Rightarrow> a\<rparr>) w)
            else if lif_ifindex lif \<noteq> nl_ifindex k then newlink_create (Some l) k w
            else do {
              w \<leftarrow> newlink_state l k w;
              w \<leftarrow> (case nl_addr k of None \<Rightarrow> Some w | Some a \<Rightarrow> do {
                      lif \<leftarrow> w_lif w l;
                      Some (if a \<noteq> lif_mac_addr lif
                            then upd_lif l (\<lambda>x. x\<lparr>lif_mac_addr := a, lif_port_config_sync := 1\<rparr>) w else w) });
              newlink_master l (nl_master k) w } } })"

definition iccp_event_handler_obj_input_dellink :: "int \<Rightarrow> world \<Rightarrow> world option" where
  "iccp_event_handler_obj_input_dellink ifindex w = do {
     l \<leftarrow> local_if_find_by_ifindex ifindex w;
     case l of None \<Rightarrow> Some w | Some l \<Rightarrow> do { lif \<leftarrow> w_lif w l; local_if_destroy (lif_name lif) w } }"

subsection \<open>Address events of the kernel\<close>

text \<open>Our own address is not a neighbour: the first entry for it, in the first domain that has one, goes.\<close>

fun del_self_ip :: "csm_ptr list \<Rightarrow> (mLACP \<Rightarrow> bool) \<Rightarrow> (mLACP \<Rightarrow> mLACP) \<Rightarrow> world \<Rightarrow> world option" where
  "del_self_ip [] has del w = Some w"
| "del_self_ip (c # cs) has del w = do {
     csm \<leftarrow> w_csm w c;
     if has (MLACP csm) then Some (upd_mlacp c del w) else del_self_ip cs has del w }"

definition iccp_del_self_ip_from_neigh_table :: "lif_ptr \<Rightarrow> nat \<Rightarrow> world \<Rightarrow> world option" where
  "iccp_del_self_ip_from_neigh_table l family w = do {
     lif \<leftarrow> w_lif w l;
     if family = AF_INET then
       del_self_ip (sys_csm_list (w_sys w)) (\<lambda>m. \<exists>a \<in> set (ml_arp_list m). arp_ipv4_addr a = lif_ipv4_addr lif)
         (ml_arp_list_update (remove_first (\<lambda>a. arp_ipv4_addr a = lif_ipv4_addr lif))) w
     else
       del_self_ip (sys_csm_list (w_sys w)) (\<lambda>m. \<exists>n \<in> set (ml_ndisc_list m). nd_ipv6_addr n = lif_ipv6_addr lif)
         (ml_ndisc_list_update (remove_first (\<lambda>n. nd_ipv6_addr n = lif_ipv6_addr lif))) w }"

datatype nl_ip = Ip4 u32 | Ip6 bytes

definition newaddr_common :: "lif_ptr \<Rightarrow> nat \<Rightarrow> bool \<Rightarrow> world \<Rightarrow> world option" where
  "newaddr_common l family sync_mac w = do {
     w \<leftarrow> (if sync_mac then do {
             w \<leftarrow> update_if_ipmac_on_standby l w;
             update_vlan_if_mac_on_standby l w }
           else Some w);
     w \<leftarrow> iccp_del_self_ip_from_neigh_table l family w;
     lif \<leftarrow> w_lif w l;
     if lif_is_l3_proto_enabled lif
     then map_option snd (syn_local_neigh_mac_info_to_peer l True (family = AF_INET) (family \<noteq> AF_INET) sync_mac True False w)
     else Some w }"

definition iccp_event_handler_obj_input_newaddr :: "int \<Rightarrow> nl_ip \<Rightarrow> u8 \<Rightarrow> world \<Rightarrow> world option" where
  "iccp_event_handler_obj_input_newaddr ifindex ip prefixlen w = do {
     l \<leftarrow> local_if_find_by_ifindex ifindex w;
     case l of None \<Rightarrow> Some w | Some l \<Rightarrow> do {
       lif \<leftarrow> w_lif w l;
       case ip of
         Ip4 a \<Rightarrow>
           if lif_ipv4_addr lif \<noteq> 0 then Some w
           else newaddr_common l AF_INET (memcmp (lif_ipv6_addr lif) (replicate 16 0) = 0)
                  (upd_lif l (\<lambda>x. x\<lparr>lif_ipv4_addr := a, lif_prefixlen := prefixlen, lif_l3_mode := 1, lif_port_config_sync := 1\<rparr>) w)
       | Ip6 a \<Rightarrow>
           if is_link_local a then Some (upd_lif l (\<lambda>x. x\<lparr>lif_ipv6_ll_addr := a, lif_ll_prefixlen_v6 := prefixlen\<rparr>) w)
           else if memcmp (lif_ipv6_addr lif) (replicate 16 0) \<noteq> 0 then Some w
           else newaddr_common l AF_INET6 (lif_ipv4_addr lif = 0)
                  (upd_lif l (\<lambda>x. x\<lparr>lif_ipv6_addr := a, lif_prefixlen_v6 := prefixlen, lif_l3_mode := 1, lif_port_config_sync := 1\<rparr>) w) } }"

definition deladdr_common :: "lif_ptr \<Rightarrow> nat \<Rightarrow> bool \<Rightarrow> (LocalInterface \<Rightarrow> LocalInterface) \<Rightarrow> world \<Rightarrow> world option" where
  "deladdr_common l family sync_mac clear w = do {
     lif \<leftarrow> w_lif w l;
     w \<leftarrow> (if sync_mac \<and> lif_master_ifindex lif = 0 then recover_vlan_if_mac_on_standby l (if family = AF_INET then 2 else 3) None w else Some w);
     lif \<leftarrow> w_lif w l;
     w \<leftarrow> (if lif_is_l3_proto_enabled lif
           then map_option snd (syn_local_neigh_mac_info_to_peer l False (family = AF_INET) (family \<noteq> AF_INET) sync_mac False False w)
           else Some w);
     w \<leftarrow> mod_lif l clear w;
     lif \<leftarrow> w_lif w l;
     Some (if lif_ipv4_addr lif = 0 \<and> lif_master_ifindex lif = 0 \<and> memcmp (lif_ipv6_addr lif) (replicate 16 0) = 0
           then upd_lif l (\<lambda>x. x\<lparr>lif_l3_mode := 0, lif_l3_mac_addr := null_mac\<rparr>) w else w) }"

definition iccp_event_handler_obj_input_deladdr :: "int \<Rightarrow> nl_ip \<Rightarrow> world \<Rightarrow> world option" where
  "iccp_event_handler_obj_input_deladdr ifindex ip w = do {
     l \<leftarrow> local_if_find_by_ifindex ifindex w;
     case l of None \<Rightarrow> Some w | Some l \<Rightarrow> do {
       lif \<leftarrow> w_lif w l;
       case ip of
         Ip4 a \<Rightarrow>
           if lif_ipv4_addr lif \<noteq> a then Some w
           else deladdr_common l AF_INET (memcmp (lif_ipv6_addr lif) (replicate 16 0) = 0)
                  (\<lambda>x. x\<lparr>lif_ipv4_addr := 0, lif_prefixlen := 0\<rparr>) w
       | Ip6 a \<Rightarrow>
           if is_link_local a then Some (upd_lif l (\<lambda>x. x\<lparr>lif_ipv6_ll_addr := replicate 16 0, lif_ll_prefixlen_v6 := 0\<rparr>) w)
           else if memcmp (lif_ipv6_addr lif) a \<noteq> 0 then Some w
           else deladdr_common l AF_INET6 (lif_ipv4_addr lif = 0)
                  (\<lambda>x. x\<lparr>lif_ipv6_addr := replicate 16 0, lif_prefixlen_v6 := 0\<rparr>) w } }"

end
