(* ===== verification/Mclagsyncd_Config.thy ===== *)
theory Mclagsyncd_Config
  imports Iccp_Interfaces
begin

text \<open>
  Configuration and table updates from mclagsyncd: the commands of \<open>src/iccp_cli.c\<close> and
  \<open>src/iccp_cmd.c\<close>, the handlers of the five kinds of messages and the reader of the message
  stream (\<open>src/mlacp_link_handler.c\<close>). Integers in these messages are in host order.
\<close>

subsection \<open>Domains\<close>

abbreviation (input) IFNAMSIZ :: nat where "IFNAMSIZ \<equiv> 16"
abbreviation (input) INET_ADDRSTRLEN :: nat where "INET_ADDRSTRLEN \<equiv> 16"

definition set_mc_lag_by_id :: "u16 \<Rightarrow> world \<Rightarrow> (int \<times> world) option" where
  "set_mc_lag_by_id mid w = do {
     c \<leftarrow> system_get_csm_by_mlacp_id (uint mid) w;
     case c of Some _ \<Rightarrow> Some (0, w)
     | None \<Rightarrow> do {
         (c, w) \<leftarrow> system_create_csm w;
         case c of None \<Rightarrow> Some (MCLAG_ERROR, w)
         | Some c \<Rightarrow> Some (0, upd_csm c (\<lambda>x. x\<lparr>csm_mlag_id := uint mid, csm_iccp_info := (csm_iccp_info x)\<lparr>icc_rg_id := ucast mid\<rparr>,
             csm_app_csm := (csm_app_csm x)\<lparr>app_mlacp := (MLACP x)\<lparr>ml_id := uint mid\<rparr>\<rparr>\<rparr>) w) } }"

definition unset_mc_lag_id :: "csm_ptr \<Rightarrow> world \<Rightarrow> (int \<times> world) option" where
  "unset_mc_lag_id c w = do {
     csm \<leftarrow> w_csm w c;
     w \<leftarrow> iccp_csm_finalize c (snd (mlacp_link_del_iccp_info (csm_mlag_id csm) w));
     Some (0, w) }"

definition unset_mc_lag_by_id :: "u16 \<Rightarrow> world \<Rightarrow> (int \<times> world) option" where
  "unset_mc_lag_by_id mid w = do {
     c \<leftarrow> system_get_csm_by_mlacp_id (uint mid) w;
     case c of None \<Rightarrow> Some (MCLAG_ERROR, w) | Some c \<Rightarrow> unset_mc_lag_id c w }"

text \<open>The commands below apply to the domain with the given id, and fail if there is none.\<close>

definition on_domain :: "int \<Rightarrow> (csm_ptr \<Rightarrow> world \<Rightarrow> (int \<times> world) option) \<Rightarrow> world \<Rightarrow> (int \<times> world) option" where
  "on_domain mid f w = do {
     c \<leftarrow> system_get_csm_by_mlacp_id mid w;
     case c of None \<Rightarrow> Some (MCLAG_ERROR, w) | Some c \<Rightarrow> f c w }"

subsection \<open>The peer link\<close>

text \<open>
  The session ends before the peer link changes and once more afterwards; the reset of the
  session also clears \<open>peer_link_if\<close>. A name of exactly \<open>IFNAMSIZ\<close> bytes is stored without
  terminator.
\<close>

definition set_peer_link :: "int \<Rightarrow> string \<Rightarrow> world \<Rightarrow> (int \<times> world) option" where
  "set_peer_link mid ifname w =
     (if \<not> has_prefix ''Ethernet'' ifname \<and> \<not> has_prefix PORTCHANNEL_PREFIX ifname \<and> \<not> has_prefix ''VTTNL'' ifname
      then Some (MCLAG_ERROR, w)
      else on_domain mid (\<lambda>c w. do {
        csm \<leftarrow> w_csm w c;
        if length ifname > MAX_L_PORT_NAME then Some (MCLAG_ERROR, w)
        else if csm_peer_itf_name csm \<noteq> [] \<and> csm_peer_itf_name csm = ifname then Some (0, w)
        else do {
          w \<leftarrow> (if csm_peer_itf_name csm \<noteq> [] then do {
                  w \<leftarrow> scheduler_session_disconnect_handler c w;
                  csm \<leftarrow> w_csm w c;
                  case csm_peer_link_if csm of None \<Rightarrow> Some w
                  | Some pl \<Rightarrow> do {
                      w \<leftarrow> mod_lif pl (lif_is_peer_link_update (\<lambda>_. 0)) w;
                      Some (upd_csm c (csm_peer_link_if_update (\<lambda>_. None)) w) } }
                else Some w);
          let w = upd_csm c (csm_peer_itf_name_update (\<lambda>_. [])) w;
          if length ifname > IFNAMSIZ then Some (MCLAG_ERROR, w)
          else if length ifname = IFNAMSIZ then None
          else do {
            let w = upd_csm c (csm_peer_itf_name_update (\<lambda>_. ifname)) w;
            l \<leftarrow> local_if_find_by_name ifname w;
            w \<leftarrow> (case l of None \<Rightarrow> Some w | Some l \<Rightarrow> do {
                    let w = upd_csm c (\<lambda>x. upd_MLACP (ml_system_config_changed_update (\<lambda>_. 1)) (x\<lparr>csm_peer_link_if := Some l\<rparr>)) w;
                    w \<leftarrow> mod_lif l (lif_is_peer_link_update (\<lambda>_. 1)) w;
                    lif \<leftarrow> w_lif w l;
                    w \<leftarrow> (if lif_type lif = IF_T_PORT_CHANNEL then iccp_get_port_member_list l w else Some w);
                    set_peerlink_learn_kernel c 0 w });
            w \<leftarrow> scheduler_session_disconnect_handler c w;
            Some (0, w) } } }) w)"

text \<open>
  \<open>memset (csm->peer_itf_name, 0, MAX_L_PORT_NAME)\<close> clears 20 bytes of a member of 16: the low half of
  the next member, \<open>peer_link_learning_retry_time\<close>, goes too.
\<close>

definition unset_peer_link :: "int \<Rightarrow> world \<Rightarrow> (int \<times> world) option" where
  "unset_peer_link mid = on_domain mid (\<lambda>c w. do {
     csm \<leftarrow> w_csm w c;
     w \<leftarrow> (if ml_current_state (MLACP csm) = MLACP_STATE_EXCHANGE \<and> csm_peer_link_if csm \<noteq> None then do {
             w \<leftarrow> set_peerlink_mlag_port_learn (csm_peer_link_if csm) 1 w;
             set_peerlink_learn_kernel c 1 w }
           else Some w);
     w \<leftarrow> scheduler_session_disconnect_handler c w;
     let w = upd_csm c (\<lambda>x. x\<lparr>csm_peer_itf_name := [],
               csm_peer_link_learning_retry_time := csm_peer_link_learning_retry_time x div 2 ^ 32 * 2 ^ 32\<rparr>) w;
     csm \<leftarrow> w_csm w c;
     case csm_peer_link_if csm of None \<Rightarrow> Some (0, w)
     | Some pl \<Rightarrow> do {
         w \<leftarrow> mod_lif pl (lif_is_peer_link_update (\<lambda>_. 0)) w;
         Some (0, upd_csm c (\<lambda>x. upd_MLACP (ml_system_config_changed_update (\<lambda>_. 1)) (x\<lparr>csm_peer_link_if := None\<rparr>)) w) } })"

subsection \<open>Addresses and timers\<close>

text \<open>An address of exactly \<open>INET_ADDRSTRLEN\<close> bytes would be stored without terminator.\<close>

definition set_local_address :: "int \<Rightarrow> string \<Rightarrow> world \<Rightarrow> (int \<times> world) option" where
  "set_local_address mid addr = on_domain mid (\<lambda>c w. do {
     csm \<leftarrow> w_csm w c;
     if csm_sender_ip csm \<noteq> [] \<and> csm_sender_ip csm = addr then Some (0, w)
     else do {
       w \<leftarrow> (if csm_sender_ip csm \<noteq> [] then scheduler_session_disconnect_handler c w else Some w);
       if length addr > INET_ADDRSTRLEN then Some (MCLAG_ERROR, upd_csm c (csm_sender_ip_update (\<lambda>_. [])) w)
       else if length addr = INET_ADDRSTRLEN then None
       else Some (0, upd_csm c (\<lambda>x. x\<lparr>csm_sender_ip := addr, csm_iccp_info := (csm_iccp_info x)\<lparr>sender_name := addr\<rparr>\<rparr>) w) } })"

definition unset_local_address :: "int \<Rightarrow> world \<Rightarrow> (int \<times> world) option" where
  "unset_local_address mid = on_domain mid (\<lambda>c w. do {
     w \<leftarrow> scheduler_session_disconnect_handler c
           (upd_csm c (\<lambda>x. x\<lparr>csm_sender_ip := [], csm_iccp_info := (csm_iccp_info x)\<lparr>sender_name := []\<rparr>\<rparr>) w);
     Some (0, w) })"

definition set_peer_address :: "int \<Rightarrow> string \<Rightarrow> world \<Rightarrow> (int \<times> world) option" where
  "set_peer_address mid addr = on_domain mid (\<lambda>c w. do {
     csm \<leftarrow> w_csm w c;
     if csm_peer_ip csm \<noteq> [] \<and> csm_peer_ip csm = addr then Some (0, w)
     else do {
       w \<leftarrow> (if csm_peer_ip csm \<noteq> [] then scheduler_session_disconnect_handler c w else Some w);
       if length addr > INET_ADDRSTRLEN then Some (MCLAG_ERROR, upd_csm c (csm_peer_ip_update (\<lambda>_. [])) w)
       else if length addr = INET_ADDRSTRLEN then None
       else Some (0, upd_csm c (csm_peer_ip_update (\<lambda>_. addr)) w) } })"

definition unset_peer_address :: "int \<Rightarrow> world \<Rightarrow> (int \<times> world) option" where
  "unset_peer_address mid = on_domain mid (\<lambda>c w. do {
     w \<leftarrow> scheduler_session_disconnect_handler c (upd_csm c (csm_peer_ip_update (\<lambda>_. [])) w);
     Some (0, w) })"

definition set_keepalive_time :: "int \<Rightarrow> int \<Rightarrow> world \<Rightarrow> (int \<times> world) option" where
  "set_keepalive_time mid keepalive_time = on_domain mid (\<lambda>c w. do {
     csm \<leftarrow> w_csm w c;
     Some (0, if csm_keepalive_time csm \<noteq> keepalive_time
              then upd_csm c (\<lambda>x. x\<lparr>csm_keepalive_time := keepalive_time, csm_heartbeat_send_time := 0\<rparr>) w else w) })"

definition set_session_timeout :: "int \<Rightarrow> int \<Rightarrow> world \<Rightarrow> (int \<times> world) option" where
  "set_session_timeout mid session_timeout = on_domain mid (\<lambda>c w.
     Some (0, upd_csm c (csm_session_timeout_update (\<lambda>_. session_timeout)) w))"

subsection \<open>The system id\<close>

primrec parse_octets :: "string \<Rightarrow> nat list \<Rightarrow> bytes \<Rightarrow> int \<times> bytes" where
  "parse_octets s [] m = (0, m)"
| "parse_octets s (i # is) m = (case hex_val (s ! (3 * i)) of None \<Rightarrow> (MCLAG_ERROR, m)
     | Some left \<Rightarrow> (let m = m[i := push_bit 4 (of_nat left)] in
         case hex_val (s ! (3 * i + 1)) of None \<Rightarrow> (MCLAG_ERROR, m)
         | Some right \<Rightarrow> parse_octets s is (m[i := push_bit 4 (of_nat left) OR of_nat right])))"

definition parseMacString :: "string \<Rightarrow> bytes \<Rightarrow> int \<times> bytes" where
  "parseMacString str_mac bin_mac =
     (if length str_mac \<noteq> ETHER_ADDR_LEN * 2 + 5 then (MCLAG_ERROR, bin_mac)
      else if \<not> (str_mac ! 2 = str_mac ! 5 \<and> str_mac ! 5 = str_mac ! 8 \<and> str_mac ! 8 = str_mac ! 11 \<and> str_mac ! 11 = str_mac ! 14)
      then (MCLAG_ERROR, bin_mac)
      else if str_mac ! 2 \<noteq> CHR '':'' \<and> str_mac ! 2 \<noteq> CHR ''-'' then (MCLAG_ERROR, bin_mac)
      else parse_octets str_mac [0..<ETHER_ADDR_LEN] bin_mac)"

definition set_local_system_id :: "string \<Rightarrow> world \<Rightarrow> world option" where
  "set_local_system_id mac w = foreach (\<lambda>c w. do {
       _ \<leftarrow> w_csm w c;
       Some (upd_mlacp c (ml_system_id_update (\<lambda>m. snd (parseMacString mac m))) w) })
     (sys_csm_list (w_sys w)) w"

definition unset_local_system_id :: "world \<Rightarrow> world option" where
  "unset_local_system_id w = foreach (\<lambda>c w. do {
       _ \<leftarrow> w_csm w c;
       Some (upd_mlacp c (ml_system_id_update (\<lambda>_. null_mac)) w) })
     (sys_csm_list (w_sys w)) w"

subsection \<open>Messages\<close>

text \<open>
  A message lies in the receive buffer, zero before the first byte arrives; \<open>pos\<close> is the offset
  of its header (version, type, length). The number of entries is computed from the length in
  unsigned 64-bit arithmetic and stored in an \<open>int\<close>.
\<close>

abbreviation (input) MCLAG_MAX_MSG_LEN :: nat where "MCLAG_MAX_MSG_LEN \<equiv> 4096"
abbreviation (input) ICCP_MLAGSYNCD_RECV_MSG_BUFFER_SIZE :: nat where "ICCP_MLAGSYNCD_RECV_MSG_BUFFER_SIZE \<equiv> 1048576"
abbreviation (input) sizeof_IccpSyncdHDr :: nat where "sizeof_IccpSyncdHDr \<equiv> 4"

abbreviation (input) MCLAG_CFG_OPER_ADD :: int where "MCLAG_CFG_OPER_ADD \<equiv> 1"
abbreviation (input) MCLAG_CFG_OPER_DEL :: int where "MCLAG_CFG_OPER_DEL \<equiv> 2"
abbreviation (input) MCLAG_CFG_OPER_UPDATE :: int where "MCLAG_CFG_OPER_UPDATE \<equiv> 3"
abbreviation (input) MCLAG_CFG_OPER_ATTR_DEL :: int where "MCLAG_CFG_OPER_ATTR_DEL \<equiv> 4"

definition entry_count :: "u16 \<Rightarrow> nat \<Rightarrow> int" where
  "entry_count len esz = sint (of_int ((uint len - 4) mod 2 ^ 64 div int esz) :: 32 word)"

text \<open>The offsets of the entries; an entry outside the buffer must not be touched.\<close>

definition entries :: "buf \<Rightarrow> nat \<Rightarrow> nat \<Rightarrow> nat list" where
  "entries b pos esz = map (\<lambda>i. pos + sizeof_IccpSyncdHDr + i * esz) [0..<nat (entry_count (rd16 (pos + 2) b) esz)]"

definition for_entries :: "nat \<Rightarrow> (nat \<Rightarrow> 's \<Rightarrow> 's option) \<Rightarrow> buf \<Rightarrow> nat \<Rightarrow> 's \<Rightarrow> 's option" where
  "for_entries esz f b pos s =
     foreach (\<lambda>off s. if off + esz > ICCP_MLAGSYNCD_RECV_MSG_BUFFER_SIZE then None else f off s) (entries b pos esz) s"

abbreviation rd_int :: "nat \<Rightarrow> buf \<Rightarrow> int" where
  "rd_int k b \<equiv> sint (rd32 k b)"

record mclag_domain_cfg_info =
  cfg_op_type :: int
  cfg_domain_id :: int
  cfg_keepalive_time :: int
  cfg_session_timeout :: int
  cfg_local_ip :: string
  cfg_peer_ip :: string
  cfg_peer_ifname :: string
  cfg_system_mac :: bytes
  cfg_attr_bmap :: u32

definition read_domain_cfg :: "buf \<Rightarrow> nat \<Rightarrow> mclag_domain_cfg_info option" where
  "read_domain_cfg b off = do {
     local_ip \<leftarrow> cstr (rdn (off + 16) INET_ADDRSTRLEN b);
     peer_ip \<leftarrow> cstr (rdn (off + 32) INET_ADDRSTRLEN b);
     peer_ifname \<leftarrow> cstr (rdn (off + 48) MAX_L_PORT_NAME b);
     Some \<lparr>cfg_op_type = rd_int off b, cfg_domain_id = rd_int (off + 4) b, cfg_keepalive_time = rd_int (off + 8) b,
       cfg_session_timeout = rd_int (off + 12) b, cfg_local_ip = local_ip, cfg_peer_ip = peer_ip,
       cfg_peer_ifname = peer_ifname, cfg_system_mac = rdn (off + 68) ETHER_ADDR_LEN b, cfg_attr_bmap = rd32 (off + 76) b\<rparr> }"

abbreviation drop_rc :: "(int \<times> world) option \<Rightarrow> world option" where
  "drop_rc \<equiv> map_option snd"

text \<open>Creation or change of a domain: the attributes named in the bitmap.\<close>

definition domain_cfg_set :: "mclag_domain_cfg_info \<Rightarrow> world \<Rightarrow> world option" where
  "domain_cfg_set i w = do {
     let has = (\<lambda>b. cfg_attr_bmap i AND b \<noteq> 0);
     let mid = cfg_domain_id i;
     w \<leftarrow> (if cfg_op_type i = MCLAG_CFG_OPER_ADD then do {
             w \<leftarrow> drop_rc (set_mc_lag_by_id (of_int mid) w);
             set_local_system_id (show_mac (cfg_system_mac i)) w }
           else Some w);
     w \<leftarrow> (if has 0x1 then drop_rc (set_local_address mid (cfg_local_ip i) w) else Some w);
     w \<leftarrow> (if has 0x2 then drop_rc (set_peer_address mid (cfg_peer_ip i) w) else Some w);
     w \<leftarrow> (if has 0x4 then drop_rc (set_peer_link mid (cfg_peer_ifname i) w) else Some w);
     w \<leftarrow> (if has 0x8 then drop_rc (set_keepalive_time mid
              (if cfg_keepalive_time i \<noteq> - 1 then cfg_keepalive_time i else CONNECT_INTERVAL_SEC) w) else Some w);
     if has 0x10 then drop_rc (set_session_timeout mid
        (if cfg_session_timeout i \<noteq> - 1 then cfg_session_timeout i else HEARTBEAT_TIMEOUT_SEC) w) else Some w }"

text \<open>Removal of attributes: only the first one of the bitmap in this order.\<close>

definition domain_cfg_unset :: "mclag_domain_cfg_info \<Rightarrow> world \<Rightarrow> world option" where
  "domain_cfg_unset i w = (let has = (\<lambda>b. cfg_attr_bmap i AND b \<noteq> 0); mid = cfg_domain_id i in
     if has 0x4 then drop_rc (unset_peer_link mid w)
     else if has 0x8 then drop_rc (set_keepalive_time mid CONNECT_INTERVAL_SEC w)
     else if has 0x10 then drop_rc (set_session_timeout mid HEARTBEAT_TIMEOUT_SEC w)
     else if has 0x1 then drop_rc (unset_local_address mid w)
     else if has 0x2 then drop_rc (unset_peer_address mid w)
     else Some w)"

definition iccp_mclagsyncd_mclag_domain_cfg_handler :: "buf \<Rightarrow> nat \<Rightarrow> world \<Rightarrow> world option" where
  "iccp_mclagsyncd_mclag_domain_cfg_handler b = for_entries 80 (\<lambda>off w. do {
     i \<leftarrow> read_domain_cfg b off;
     if cfg_op_type i = MCLAG_CFG_OPER_ADD \<or> cfg_op_type i = MCLAG_CFG_OPER_UPDATE then domain_cfg_set i w
     else if cfg_op_type i = MCLAG_CFG_OPER_DEL then drop_rc (unset_mc_lag_by_id (of_int (cfg_domain_id i)) w)
     else if cfg_op_type i = MCLAG_CFG_OPER_ATTR_DEL then domain_cfg_unset i w
     else Some w }) b"

definition iccp_mclagsyncd_mclag_iface_cfg_handler :: "buf \<Rightarrow> nat \<Rightarrow> world \<Rightarrow> world option" where
  "iccp_mclagsyncd_mclag_iface_cfg_handler b = for_entries 28 (\<lambda>off w. do {
     iface \<leftarrow> cstr (rdn (off + 8) MAX_L_PORT_NAME b);
     if rd_int off b = MCLAG_CFG_OPER_ADD
     then drop_rc (iccp_cli_attach_mclag_domain_to_port_channel (rd_int (off + 4) b) iface w)
     else if rd_int off b = MCLAG_CFG_OPER_DEL
     then drop_rc (iccp_cli_detach_mclag_domain_to_port_channel iface w)
     else Some w }) b"

text \<open>
  \<open>sync_add\<close>, \<open>is_v4\<close> and \<open>is_v6\<close> are declared outside the loop and never reset: an entry sees what
  the entries before it have set.
\<close>

definition unique_ip_list :: "int \<Rightarrow> string \<Rightarrow> world \<Rightarrow> bool \<times> world" where
  "unique_ip_list op name w =
     (if op = MCLAG_CFG_OPER_ADD then
        (if is_unique_ip_configured name w then (True, w)
         else let (ok, w) = malloc_ok w in
         (ok, if ok then upd_sys (sys_unq_ip_if_list_update (\<lambda>ns. take (MAX_L_PORT_NAME - 1) name # ns)) w else w))
      else if op = MCLAG_CFG_OPER_DEL then (True, upd_sys (sys_unq_ip_if_list_update (remove1 name)) w)
      else (True, w))"

definition unique_ip_entry :: "int \<Rightarrow> string \<Rightarrow> (bool \<times> bool \<times> bool) \<times> world \<Rightarrow> ((bool \<times> bool \<times> bool) \<times> world) option" where
  "unique_ip_entry op name s = (case s of ((sync_add, is_v4, is_v6), w) \<Rightarrow> do {
     l \<leftarrow> local_if_find_by_name name w;
     case l of None \<Rightarrow> Some s | Some l \<Rightarrow> do {
       lif \<leftarrow> w_lif w l;
       let known = (op = MCLAG_CFG_OPER_ADD \<or> op = MCLAG_CFG_OPER_DEL);
       let sync_add = (if known then op = MCLAG_CFG_OPER_ADD else sync_add);
       let is_v4 = (is_v4 \<or> known \<and> lif_ipv4_addr lif \<noteq> 0);
       let is_v6 = (is_v6 \<or> known \<and> lif_prefixlen_v6 lif \<noteq> 0);
       let w = (if known then upd_lif l (lif_is_l3_proto_enabled_update (\<lambda>_. sync_add)) w else w);
       w \<leftarrow> (if local_if_is_l3_mode lif then do {
               w \<leftarrow> (if sync_add then update_vlan_if_mac_on_standby l w else Some w);
               drop_rc (syn_local_neigh_mac_info_to_peer l sync_add is_v4 is_v6 True True False w) }
             else if \<not> sync_add then do {
               w \<leftarrow> recover_vlan_if_mac_on_standby l 6 None w;
               drop_rc (syn_local_neigh_mac_info_to_peer l sync_add is_v4 is_v6 True True False w) }
             else Some w);
       Some ((sync_add, is_v4, is_v6), w) } })"

text \<open>A failed allocation ends the handler.\<close>

primrec unique_ip_entries :: "buf \<Rightarrow> nat list \<Rightarrow> (bool \<times> bool \<times> bool) \<times> world \<Rightarrow> world option" where
  "unique_ip_entries b [] s = Some (snd s)"
| "unique_ip_entries b (off # offs) s =
     (if off + 24 > ICCP_MLAGSYNCD_RECV_MSG_BUFFER_SIZE then None
      else do {
        name \<leftarrow> cstr (rdn (off + 4) MAX_L_PORT_NAME b);
        let (ok, w) = unique_ip_list (rd_int off b) name (snd s);
        if \<not> ok then Some w
        else do {
          s \<leftarrow> unique_ip_entry (rd_int off b) name (fst s, w);
          unique_ip_entries b offs s } })"

definition iccp_mclagsyncd_mclag_unique_ip_cfg_handler :: "buf \<Rightarrow> nat \<Rightarrow> world \<Rightarrow> world option" where
  "iccp_mclagsyncd_mclag_unique_ip_cfg_handler b pos w = unique_ip_entries b (entries b pos 24) ((False, False, False), w)"

definition iccp_mclagsyncd_vlan_mbr_update_handler :: "buf \<Rightarrow> nat \<Rightarrow> world \<Rightarrow> world option" where
  "iccp_mclagsyncd_vlan_mbr_update_handler b = for_entries 28 (\<lambda>off w. do {
     iface \<leftarrow> cstr (rdn (off + 8) MAX_L_PORT_NAME b);
     if rd_int off b = MCLAG_CFG_OPER_ADD then vlan_mbrship_change_handler (rd_int (off + 4) b) iface True w
     else if rd_int off b = MCLAG_CFG_OPER_DEL then vlan_mbrship_change_handler (rd_int (off + 4) b) iface False w
     else Some w }) b"

definition iccp_receive_fdb_handler_from_syncd :: "buf \<Rightarrow> nat \<Rightarrow> world \<Rightarrow> world option" where
  "iccp_receive_fdb_handler_from_syncd b = for_entries 36 (\<lambda>off w. do {
     port_name \<leftarrow> cstr (rdn (off + 12) MAX_L_PORT_NAME b);
     do_mac_update_from_syncd (rdn off ETHER_ADDR_LEN b) (ucast (rd32 (off + 8) b)) port_name
       (ucast (rd16 (off + 32) b)) (ucast (rd16 (off + 34) b)) w }) b"

subsection \<open>The message stream\<close>

definition recv1 :: "nat \<Rightarrow> recv_result list \<Rightarrow> recv_result \<times> recv_result list" where
  "recv1 n rx = (case rx of
       [] \<Rightarrow> (Recv_data [], [])
     | Recv_data bs # rx \<Rightarrow> (Recv_data (take n bs), leftover (drop n bs) rx)
     | r # rx \<Rightarrow> (r, rx))"

abbreviation (input) SYNCD_RECV_RETRY_INTERVAL_USEC :: nat where "SYNCD_RECV_RETRY_INTERVAL_USEC \<equiv> 50000"
abbreviation (input) SYNCD_RECV_RETRY_MAX :: nat where "SYNCD_RECV_RETRY_MAX \<equiv> 5"

definition SYSTEM_SET_SYNCD_RX_DBG_COUNTER :: "u8 \<Rightarrow> nat \<Rightarrow> world \<Rightarrow> world" where
  "SYSTEM_SET_SYNCD_RX_DBG_COUNTER msg_type status w = (let
     dbg_type = system_syncdrx_to_dbg_msg_type msg_type in
     if dbg_type < SYNCD_RX_DBG_CNTR_MSG_MAX \<and> status < 2
     then upd_cnt (cnt_syncd_rx_counters_update (\<lambda>cs. cs(dbg_type := (cs dbg_type)(status := cs dbg_type status + 1)))) w
     else w)"

type_synonym 'a count = "('a \<Rightarrow> 'a) \<Rightarrow> system_dbg_counter_info \<Rightarrow> system_dbg_counter_info"

abbreviation incr :: "u32 count \<Rightarrow> world \<Rightarrow> world" where
  "incr f \<equiv> upd_cnt (f (\<lambda>n. n + 1))"

text \<open>
  The first read after one that failed: \<open>num_bytes_rxed\<close> is still \<open>-1\<close> when the length of what has
  arrived is added to it. The result is that number and the bytes, or nothing after an error.
\<close>

function first_retry :: "recv_result list \<Rightarrow> nat \<Rightarrow> world \<Rightarrow> (int \<times> bytes \<times> recv_result list) option \<times> world" where
  "first_retry rx num_retry w = (case recv1 (ICCP_MLAGSYNCD_RECV_MSG_BUFFER_SIZE - MCLAG_MAX_MSG_LEN) rx of
       (Recv_again, rx) \<Rightarrow>
         if num_retry + 1 > SYNCD_RECV_RETRY_MAX then (None, incr cnt_rx_retry_fail_counter_update w)
         else first_retry rx (num_retry + 1) (emit (Ev_sleep SYNCD_RECV_RETRY_INTERVAL_USEC) w)
     | (Recv_error, rx) \<Rightarrow> (None, incr cnt_rx_peer_hdr_read_sock_err_counter_update w)
     | (Recv_data bs, rx) \<Rightarrow>
         if bs = [] then (None, incr cnt_rx_peer_hdr_read_sock_zero_len_counter_update w)
         else (Some (int (length bs) - 1, bs, rx), w))"
  by pat_completeness auto

termination
  by (relation "measure (\<lambda>(rx, num_retry, w). SYNCD_RECV_RETRY_MAX + 1 - num_retry)") auto

declare first_retry.simps [simp del]

definition first_recv :: "recv_result list \<Rightarrow> world \<Rightarrow> (int \<times> bytes \<times> recv_result list) option \<times> world" where
  "first_recv rx w = (case recv1 (ICCP_MLAGSYNCD_RECV_MSG_BUFFER_SIZE - MCLAG_MAX_MSG_LEN) rx of
       (Recv_data bs, rx) \<Rightarrow>
         if bs = [] then (None, incr cnt_rx_read_sock_zero_len_counter_update w)
         else (Some (int (length bs), bs, rx), w)
     | (_, rx) \<Rightarrow> first_retry rx 0 w)"

text \<open>
  Reading the missing bytes of a message to the end of those received, at offset \<open>base\<close>. The
  result is the bytes and the number of retries so far, or nothing after an error.
\<close>

fun fetch :: "recv_result list \<Rightarrow> nat \<Rightarrow> nat \<Rightarrow> bytes \<Rightarrow> nat \<Rightarrow> u32 count \<Rightarrow> u32 count \<Rightarrow> world \<Rightarrow>
    ((bytes \<times> nat \<times> recv_result list) option \<times> world) option" where
  "fetch rx base 0 got num_retry zero err w = Some (Some (got, num_retry, rx), w)"
| "fetch [] base pending got num_retry zero err w = Some (None, incr zero w)"
| "fetch (Recv_error # rx) base pending got num_retry zero err w = Some (None, incr err w)"
| "fetch (Recv_again # rx) base pending got num_retry zero err w =
     (if num_retry + 1 > SYNCD_RECV_RETRY_MAX then Some (None, incr cnt_rx_retry_fail_counter_update w)
      else fetch rx base pending got (num_retry + 1) zero err (emit (Ev_sleep SYNCD_RECV_RETRY_INTERVAL_USEC) w))"
| "fetch (Recv_data bs # rx) base pending got num_retry zero err w =
     (if bs = [] then Some (None, incr zero w)
      else if base + length got + min (length bs) pending > ICCP_MLAGSYNCD_RECV_MSG_BUFFER_SIZE then None
      else fetch (leftover (drop pending bs) rx) base (pending - length bs) (got @ take pending bs) num_retry zero err w)"

definition syncd_dispatch :: "buf \<Rightarrow> nat \<Rightarrow> world \<Rightarrow> world option" where
  "syncd_dispatch b pos w = (let type = rd8 (pos + 1) b; count = SYSTEM_SET_SYNCD_RX_DBG_COUNTER type 0 in
     if type = 1 then map_option count (iccp_receive_fdb_handler_from_syncd b pos w)
     else if type = 2 then map_option count (iccp_mclagsyncd_mclag_domain_cfg_handler b pos w)
     else if type = 3 then map_option count (iccp_mclagsyncd_mclag_iface_cfg_handler b pos w)
     else if type = 5 then map_option count (iccp_mclagsyncd_mclag_unique_ip_cfg_handler b pos w)
     else if type = 4 then map_option count (iccp_mclagsyncd_vlan_mbr_update_handler b pos w)
     else Some w)"

text \<open>
  The messages in the buffer. Neither of the two reads of missing bytes changes
  \<open>num_bytes_rxed\<close>, here \<open>num\<close>: the second one writes where the first one wrote, which may change
  the header. Every round moves on by at least one byte of the buffer or takes one from the
  socket.
\<close>

primrec syncd_msgs :: "nat \<Rightarrow> buf \<Rightarrow> nat \<Rightarrow> nat \<Rightarrow> nat \<Rightarrow> recv_result list \<Rightarrow> world \<Rightarrow> (int \<times> world) option" where
  "syncd_msgs 0 b num pos num_retry rx w = (if pos \<ge> num then Some (0, w) else None)"
| "syncd_msgs (Suc fuel) b num pos num_retry rx w =
     (if pos \<ge> num then Some (0, w)
      else do {
        (hdr, w) \<leftarrow> (if num - pos < sizeof_IccpSyncdHDr
          then fetch rx num (sizeof_IccpSyncdHDr - (num - pos)) [] num_retry
                 cnt_rx_peer_hdr_read_sock_zero_len_counter_update cnt_rx_peer_hdr_read_sock_err_counter_update w
          else Some (Some ([], num_retry, rx), w));
        case hdr of None \<Rightarrow> Some (MCLAG_ERROR, w)
        | Some (bs, num_retry, rx) \<Rightarrow> do {
            let b = stn num bs b;
            let len = unat (rd16 (pos + 2) b);
            if len = 0 then Some (MCLAG_ERROR, w)
            else if rd8 pos b \<noteq> 1 then syncd_msgs fuel b num (pos + len) num_retry rx w
            else do {
              (body, w) \<leftarrow> (if pos + len > num
                then fetch rx num (pos + len - num) [] num_retry
                       cnt_rx_peer_tlv_read_sock_zero_len_counter_update cnt_rx_peer_tlv_read_sock_err_counter_update w
                else Some (Some ([], num_retry, rx), w));
              case body of None \<Rightarrow> Some (MCLAG_ERROR, w)
              | Some (bs, num_retry, rx) \<Rightarrow> do {
                  let b = stn num bs b;
                  let len = unat (rd16 (pos + 2) b);
                  w \<leftarrow> syncd_dispatch b pos w;
                  syncd_msgs fuel b num (pos + len) num_retry rx w } } } })"

definition rx_bytes :: "recv_result list \<Rightarrow> nat" where
  "rx_bytes rx = (\<Sum>r\<leftarrow>rx. case r of Recv_data bs \<Rightarrow> length bs | _ \<Rightarrow> 0)"

definition iccp_mclagsyncd_msg_handler :: "recv_result list \<Rightarrow> world \<Rightarrow> (int \<times> world) option" where
  "iccp_mclagsyncd_msg_handler rx w = (case first_recv rx w of
       (None, w) \<Rightarrow> Some (MCLAG_ERROR, w)
     | (Some (num, bs, rx), w) \<Rightarrow> syncd_msgs (nat num + rx_bytes rx) (stn 0 bs zero_buf) (nat num) 0 0 rx w)"

end
