(* ===== verification/Iccp_Neigh_Learn.thy ===== *)
theory Iccp_Neigh_Learn
  imports Mclagsyncd_Config
begin

text \<open>
  Neighbours learned on this switch (\<open>src/iccp_ifm.c\<close>): neighbour events of the kernel and ARP and
  ND replies seen on the wire (\<open>src/iccp_netlink.c\<close>). An entry that belongs to a member of a
  domain goes into the table of that domain and, during the exchange, to the peer.
\<close>

abbreviation (input) RTM_NEWNEIGH :: nat where "RTM_NEWNEIGH \<equiv> 28"
abbreviation (input) RTM_DELNEIGH :: nat where "RTM_DELNEIGH \<equiv> 29"
abbreviation (input) NUD_NONE :: u16 where "NUD_NONE \<equiv> 0"
abbreviation (input) NUD_INCOMPLETE :: u16 where "NUD_INCOMPLETE \<equiv> 1"
abbreviation (input) NUD_FAILED :: u16 where "NUD_FAILED \<equiv> 0x20"
abbreviation (input) NUD_NOARP :: u16 where "NUD_NOARP \<equiv> 0x40"
abbreviation (input) NUD_PERMANENT :: u16 where "NUD_PERMANENT \<equiv> 0x80"
abbreviation (input) RTN_UNICAST :: u8 where "RTN_UNICAST \<equiv> 1"

abbreviation bcast_mac :: bytes where "bcast_mac \<equiv> replicate 6 0xFF"

subsection \<open>The domain of a neighbour\<close>

text \<open>The VLAN \<open>key\<close> of an interface, when its VLAN interface is the one with index \<open>ifindex\<close>.\<close>

definition l2_vlan :: "LocalInterface \<Rightarrow> u16 \<Rightarrow> int \<Rightarrow> world \<Rightarrow> (u16 \<times> LocalInterface option) option option" where
  "l2_vlan lif key ifindex w = (case RB_FIND vlan_node_compare (vlan_key key) (lif_vlan_tree lif) of
       None \<Rightarrow> Some None
     | Some v \<Rightarrow> (case vlan_itf v of None \<Rightarrow> Some None | Some q \<Rightarrow> do {
         itf \<leftarrow> w_lif w q;
         Some (if lif_ifindex itf = ifindex then Some (vlan_vid v, Some itf) else None) }))"

fun neigh_po :: "lif_ptr list \<Rightarrow> u16 \<Rightarrow> int \<Rightarrow> world \<Rightarrow> (u16 \<times> LocalInterface option) option option" where
  "neigh_po [] key ifindex w = Some None"
| "neigh_po (l # ls) key ifindex w = do {
     lif_po \<leftarrow> w_lif w l;
     hit \<leftarrow> (if lif_type lif_po \<noteq> IF_T_PORT_CHANNEL then Some None
            else if \<not> local_if_is_l3_mode lif_po then l2_vlan lif_po key ifindex w
            else Some (if ifindex = lif_ifindex lif_po then Some (0, None) else None));
     case hit of Some h \<Rightarrow> Some (Some h) | None \<Rightarrow> neigh_po ls key ifindex w }"

text \<open>The first domain with a matching port channel or, failing that, a matching peer link.\<close>

fun neigh_domain :: "csm_ptr list \<Rightarrow> u16 \<Rightarrow> int \<Rightarrow> world \<Rightarrow> (csm_ptr \<times> u16 \<times> LocalInterface option) option option" where
  "neigh_domain [] key ifindex w = Some None"
| "neigh_domain (c # cs) key ifindex w = do {
     csm \<leftarrow> w_csm w c;
     hit \<leftarrow> neigh_po (ml_lif_list (MLACP csm)) key ifindex w;
     hit \<leftarrow> (case hit of Some h \<Rightarrow> Some (Some h) | None \<Rightarrow>
       (case csm_peer_link_if csm of None \<Rightarrow> Some None | Some l \<Rightarrow> do {
          peer_link_if \<leftarrow> w_lif w l;
          if local_if_is_l3_mode peer_link_if then Some None else l2_vlan peer_link_if key ifindex w }));
     case hit of Some h \<Rightarrow> Some (Some (c, h)) | None \<Rightarrow> neigh_domain cs key ifindex w }"

text \<open>Our own address on the VLAN interface is no neighbour.\<close>

definition own_address :: "(LocalInterface \<Rightarrow> bool) \<Rightarrow> u16 \<Rightarrow> LocalInterface option \<Rightarrow> bool" where
  "own_address self v itf = (v \<noteq> 0 \<and> (case itf of None \<Rightarrow> False | Some i \<Rightarrow> self i))"

subsection \<open>The tables\<close>

definition queue_arp :: "csm_ptr \<Rightarrow> ARPMsg \<Rightarrow> world \<Rightarrow> world" where
  "queue_arp c m w = (let (ok, w) = iccp_csm_init_msg w in
     if ok then upd_mlacp c (ml_arp_msg_list_update (\<lambda>q. q @ [m])) w else w)"

definition queue_ndisc :: "csm_ptr \<Rightarrow> NDISCMsg \<Rightarrow> world \<Rightarrow> world" where
  "queue_ndisc c m w = (let (ok, w) = iccp_csm_init_msg w in
     if ok then upd_mlacp c (ml_ndisc_msg_list_update (\<lambda>q. q @ [m])) w else w)"

definition arp_differs :: "ARPMsg \<Rightarrow> ARPMsg \<Rightarrow> bool" where
  "arp_differs a b = (arp_op_type a \<noteq> arp_op_type b \<or> arp_ifname a \<noteq> arp_ifname b \<or> memcmp (arp_mac_addr a) (arp_mac_addr b) \<noteq> 0)"

definition nd_differs :: "NDISCMsg \<Rightarrow> NDISCMsg \<Rightarrow> bool" where
  "nd_differs a b = (nd_op_type a \<noteq> nd_op_type b \<or> nd_ifname a \<noteq> nd_ifname b \<or> memcmp (nd_mac_addr a) (nd_mac_addr b) \<noteq> 0)"

abbreviation arp_overwrite :: "ARPMsg \<Rightarrow> ARPMsg \<Rightarrow> ARPMsg" where
  "arp_overwrite e m \<equiv> m\<lparr>arp_op_type := arp_op_type e, arp_ifname := arp_ifname e, arp_mac_addr := arp_mac_addr e\<rparr>"

abbreviation nd_overwrite :: "NDISCMsg \<Rightarrow> NDISCMsg \<Rightarrow> NDISCMsg" where
  "nd_overwrite e m \<equiv> m\<lparr>nd_op_type := nd_op_type e, nd_ifname := nd_ifname e, nd_mac_addr := nd_mac_addr e\<rparr>"

abbreviation same_arp :: "ARPMsg \<Rightarrow> ARPMsg \<Rightarrow> bool" where
  "same_arp e \<equiv> \<lambda>m. arp_ipv4_addr m = arp_ipv4_addr e"

abbreviation same_nd :: "NDISCMsg \<Rightarrow> NDISCMsg \<Rightarrow> bool" where
  "same_nd e \<equiv> \<lambda>m. memcmp (nd_ipv6_addr m) (nd_ipv6_addr e) = 0"

text \<open>Store the entry: overwrite the first one for its address, or append a new one.\<close>

definition arp_store :: "csm_ptr \<Rightarrow> ARPMsg \<Rightarrow> world \<Rightarrow> (ARPMsg \<times> world) option" where
  "arp_store c e w = do {
     csm \<leftarrow> w_csm w c;
     case find (same_arp e) (ml_arp_list (MLACP csm)) of
       Some m \<Rightarrow> Some (e, if arp_differs m e
           then upd_mlacp c (ml_arp_list_update (update_first (same_arp e) (arp_overwrite e))) w else w)
     | None \<Rightarrow> do {
         let e = e\<lparr>arp_op_type := NEIGH_SYNC_LIF, arp_learn_flag := NEIGH_LOCAL\<rparr>;
         let (ok, w) = iccp_csm_init_msg w;
         Some (e, if ok then mlacp_enqueue_arp c e w else w) } }"

definition nd_store :: "csm_ptr \<Rightarrow> NDISCMsg \<Rightarrow> world \<Rightarrow> (NDISCMsg \<times> world) option" where
  "nd_store c e w = do {
     csm \<leftarrow> w_csm w c;
     case find (same_nd e) (ml_ndisc_list (MLACP csm)) of
       Some m \<Rightarrow> Some (e, if nd_differs m e
           then upd_mlacp c (ml_ndisc_list_update (update_first (same_nd e) (nd_overwrite e))) w else w)
     | None \<Rightarrow> do {
         let e = e\<lparr>nd_op_type := NEIGH_SYNC_LIF, nd_learn_flag := NEIGH_LOCAL\<rparr>;
         let (ok, w) = iccp_csm_init_msg w;
         Some (e, if ok then mlacp_enqueue_ndisc c e w else w) } }"

text \<open>Tell the peer, while the domain exchanges information with it.\<close>

definition arp_announce :: "csm_ptr \<Rightarrow> u8 \<Rightarrow> ARPMsg \<Rightarrow> world \<Rightarrow> world option" where
  "arp_announce c op e w = do {
     csm \<leftarrow> w_csm w c;
     Some (if ml_current_state (MLACP csm) = MLACP_STATE_EXCHANGE then queue_arp c (e\<lparr>arp_op_type := op, arp_flag := 0\<rparr>) w else w) }"

definition nd_announce :: "csm_ptr \<Rightarrow> u8 \<Rightarrow> NDISCMsg \<Rightarrow> world \<Rightarrow> world option" where
  "nd_announce c op e w = do {
     csm \<leftarrow> w_csm w c;
     Some (if ml_current_state (MLACP csm) = MLACP_STATE_EXCHANGE then queue_ndisc c (e\<lparr>nd_op_type := op, nd_flag := 0\<rparr>) w else w) }"

subsection \<open>Neighbour events of the kernel\<close>

record nl_neigh =
  nn_type :: nat
  nn_family :: nat
  nn_state :: u16
  nn_rtype :: u8
  nn_ifindex :: int
  nn_dst :: "bytes option"
  nn_lladdr :: "bytes option"

text \<open>
  \<open>memcpy\<close> of an attribute into the last two fields of the entry, the address and the MAC, which
  are adjacent; what goes beyond the MAC lands behind the entry and is not used.
\<close>

definition copy_attr :: "nat \<Rightarrow> bytes option \<Rightarrow> bytes \<Rightarrow> bytes" where
  "copy_attr p a b = (case a of None \<Rightarrow> b | Some x \<Rightarrow> take (length b) (take p b @ x @ drop (p + length x) b))"

definition neigh_fields :: "nat \<Rightarrow> bool \<Rightarrow> nl_neigh \<Rightarrow> bytes" where
  "neigh_fields n is_del ndm =
     copy_attr n (if is_del then None else nn_lladdr ndm) (copy_attr 0 (nn_dst ndm) (replicate (n + ETHER_ADDR_LEN) 0))"

definition do_arp_learn_from_kernel :: "nl_neigh \<Rightarrow> nat \<Rightarrow> bool \<Rightarrow> world \<Rightarrow> world option" where
  "do_arp_learn_from_kernel ndm msgtype is_del w = do {
     arp_lif \<leftarrow> local_if_find_by_ifindex (nn_ifindex ndm) w;
     case arp_lif of None \<Rightarrow> Some w | Some l \<Rightarrow> do {
       lif \<leftarrow> w_lif w l;
       let b = neigh_fields 4 is_del ndm;
       let e = \<lparr>arp_op_type = NEIGH_SYNC_LIF, arp_flag = 0, arp_learn_flag = 0, arp_ifname = lif_name lif,
             arp_ipv4_addr = mk32 (b ! 0) (b ! 1) (b ! 2) (b ! 3), arp_mac_addr = drop 4 b\<rparr>;
       if msgtype \<noteq> RTM_DELNEIGH \<and> lif_ipv4_addr lif = 0 then Some w
       else do {
         let del = (msgtype = RTM_DELNEIGH \<or> memcmp (arp_mac_addr e) bcast_mac = 0);
         hit \<leftarrow> neigh_domain (sys_csm_list (w_sys w)) (entry_vlan (arp_ifname e)) (nn_ifindex ndm) w;
         case hit of None \<Rightarrow> Some w | Some (c, v, itf) \<Rightarrow>
           if own_address (\<lambda>i. arp_ipv4_addr e = lif_ipv4_addr i) v itf then Some w
           else do {
             csm \<leftarrow> w_csm w c;
             let old = find (same_arp e) (ml_arp_list (MLACP csm));
             if del then do {
               let w = upd_mlacp c (ml_arp_list_update (remove_first (same_arp e))) w;
               if old \<noteq> None then arp_announce c NEIGH_SYNC_DEL e w else Some w }
             else if (case old of None \<Rightarrow> False | Some m \<Rightarrow> \<not> arp_differs m e) then Some w
             else do {
               (e, w) \<leftarrow> arp_store c e w;
               arp_announce c NEIGH_SYNC_ADD e w } } } } }"

text \<open>The comparison of a known ND entry is with itself, so it is never overwritten.\<close>

definition do_ndisc_learn_from_kernel :: "nl_neigh \<Rightarrow> nat \<Rightarrow> bool \<Rightarrow> world \<Rightarrow> world option" where
  "do_ndisc_learn_from_kernel ndm msgtype is_del w = do {
     ndisc_lif \<leftarrow> local_if_find_by_ifindex (nn_ifindex ndm) w;
     case ndisc_lif of None \<Rightarrow> Some w | Some l \<Rightarrow> do {
       lif \<leftarrow> w_lif w l;
       let b = neigh_fields 16 is_del ndm;
       let e = \<lparr>nd_op_type = NEIGH_SYNC_LIF, nd_flag = 0, nd_learn_flag = 0, nd_ifname = lif_name lif,
             nd_ipv6_addr = take 16 b, nd_mac_addr = drop 16 b\<rparr>;
       if msgtype \<noteq> RTM_DELNEIGH \<and> memcmp (lif_ipv6_addr lif) (replicate 16 0) = 0 then Some w
       else if memcmp (nd_mac_addr e) bcast_mac = 0 then Some w
       else do {
         hit \<leftarrow> neigh_domain (sys_csm_list (w_sys w)) (entry_vlan (nd_ifname e)) (nn_ifindex ndm) w;
         case hit of None \<Rightarrow> Some w | Some (c, v, itf) \<Rightarrow>
           if own_address (\<lambda>i. memcmp (nd_ipv6_addr e) (lif_ipv6_addr i) = 0
                \<or> is_link_local (nd_ipv6_addr e) \<and> memcmp (nd_ipv6_addr e) (lif_ipv6_ll_addr i) = 0) v itf then Some w
           else do {
             csm \<leftarrow> w_csm w c;
             let old = find (same_nd e) (ml_ndisc_list (MLACP csm));
             if msgtype = RTM_DELNEIGH then do {
               let w = upd_mlacp c (ml_ndisc_list_update (remove_first (same_nd e))) w;
               if old \<noteq> None then nd_announce c NEIGH_SYNC_DEL e w else Some w }
             else if (case old of None \<Rightarrow> False | Some m \<Rightarrow> \<not> nd_differs m m) then Some w
             else do {
               (e, w) \<leftarrow> nd_store c e w;
               nd_announce c NEIGH_SYNC_ADD e w } } } } }"

definition do_one_neigh_request :: "nl_neigh \<Rightarrow> world \<Rightarrow> world option" where
  "do_one_neigh_request n w = (
     if nn_type n \<noteq> RTM_NEWNEIGH \<and> nn_type n \<noteq> RTM_DELNEIGH then Some w
     else if system_get_first_csm w = None then Some w
     else let is_del = (nn_state n = NUD_FAILED \<or> nn_state n = NUD_INCOMPLETE);
              msgtype = (if is_del then RTM_DELNEIGH else nn_type n)
          in if nn_state n \<in> {NUD_NOARP, NUD_PERMANENT, NUD_NONE} then Some w
             else if nn_dst n = None \<or> nn_rtype n \<noteq> RTN_UNICAST then Some w
             else if nn_family n = AF_INET then do_arp_learn_from_kernel n msgtype is_del w
             else if nn_family n = AF_INET6 then do_ndisc_learn_from_kernel n msgtype is_del w
             else Some w)"

subsection \<open>Replies on the wire\<close>

text \<open>
  \<open>kaddrs\<close> is the kernel's answer to \<open>RTM_GETADDR\<close>: the addresses of each interface. An IPv4
  address of the answer is byte-swapped before the comparison.
\<close>

definition iccp_check_if_addr_from_netlink :: "(int \<times> nl_ip list) list \<Rightarrow> nl_ip \<Rightarrow> LocalInterface \<Rightarrow> bool" where
  "iccp_check_if_addr_from_netlink kaddrs addr lif = (\<exists>(i, ips) \<in> set kaddrs. lif_ifindex lif = i \<and> (\<exists>ip \<in> set ips.
     case (addr, ip) of
       (Ip4 a, Ip4 b) \<Rightarrow> a = ntohl b
     | (Ip6 a, Ip6 b) \<Rightarrow> memcmp b a = 0
     | _ \<Rightarrow> False))"

definition do_arp_update_from_reply_packet :: "(int \<times> nl_ip list) list \<Rightarrow> int \<Rightarrow> u32 \<Rightarrow> bytes \<Rightarrow> world \<Rightarrow> world option" where
  "do_arp_update_from_reply_packet kaddrs ifindex addr mac w = do {
     arp_lif \<leftarrow> local_if_find_by_ifindex ifindex w;
     case arp_lif of None \<Rightarrow> Some w | Some l \<Rightarrow> do {
       lif \<leftarrow> w_lif w l;
       let e = \<lparr>arp_op_type = NEIGH_SYNC_LIF, arp_flag = 0, arp_learn_flag = 0, arp_ifname = lif_name lif,
             arp_ipv4_addr = addr, arp_mac_addr = mac\<rparr>;
       if lif_ipv4_addr lif = 0 \<or> memcmp mac bcast_mac = 0 then Some w
       else do {
         hit \<leftarrow> neigh_domain (sys_csm_list (w_sys w)) (entry_vlan (lif_name lif)) ifindex w;
         case hit of None \<Rightarrow> Some w | Some (c, v, itf) \<Rightarrow>
           if v = 0 \<and> iccp_check_if_addr_from_netlink kaddrs (Ip4 addr) lif then Some w
           else if own_address (\<lambda>i. addr = lif_ipv4_addr i) v itf then Some w
           else do {
             (e, w) \<leftarrow> arp_store c e w;
             arp_announce c NEIGH_SYNC_ADD e w } } } }"

definition do_ndisc_update_from_reply_packet :: "int \<Rightarrow> bytes \<Rightarrow> bytes \<Rightarrow> world \<Rightarrow> world option" where
  "do_ndisc_update_from_reply_packet ifindex ipv6_addr mac w = do {
     ndisc_lif \<leftarrow> local_if_find_by_ifindex ifindex w;
     case ndisc_lif of None \<Rightarrow> Some w | Some l \<Rightarrow> do {
       lif \<leftarrow> w_lif w l;
       if memcmp (lif_ipv6_addr lif) (replicate 16 0) = 0 \<or> memcmp mac bcast_mac = 0 then Some w
       else do {
         hit \<leftarrow> neigh_domain (sys_csm_list (w_sys w)) (entry_vlan (lif_name lif)) ifindex w;
         case hit of None \<Rightarrow> Some w | Some (c, v, itf) \<Rightarrow>
           if own_address (\<lambda>i. memcmp ipv6_addr (lif_ipv6_addr i) = 0
                \<or> is_link_local ipv6_addr \<and> memcmp ipv6_addr (lif_ipv6_ll_addr i) = 0) v itf then Some w
           else do {
             csm \<leftarrow> w_csm w c;
             let e = \<lparr>nd_op_type = NEIGH_SYNC_LIF, nd_flag = 0, nd_learn_flag = 0, nd_ifname = lif_name lif,
                   nd_ipv6_addr = ipv6_addr, nd_mac_addr = mac\<rparr>;
             let old = find (same_nd e) (ml_ndisc_list (MLACP csm));
             if memcmp mac null_mac = 0 \<and> old = None then Some w
             else do {
               let e = (case old of None \<Rightarrow> e
                 | Some m \<Rightarrow> if memcmp mac null_mac = 0 then e\<lparr>nd_mac_addr := nd_mac_addr m\<rparr> else e);
               (e, w) \<leftarrow> nd_store c e w;
               (err, w) \<leftarrow> iccp_netlink_neighbor_request AF_INET6 (nd_ipv6_addr e) True (nd_mac_addr e) (nd_ifname e) False w;
               if err < 0 \<and> err \<noteq> ICCP_NLE_SEQ_MISMATCH then Some w
               else nd_announce c NEIGH_SYNC_ADD e w } } } } }"

text \<open>
  An ARP packet of the link with hardware address length \<open>halen\<close>. The header is eight bytes: two
  of hardware type, two of protocol, the lengths of both addresses and the operation; then come
  hardware and protocol address of sender and target.
\<close>

abbreviation (input) ARPOP_REPLY :: u16 where "ARPOP_REPLY \<equiv> 2"
abbreviation (input) ETH_P_IP :: u16 where "ETH_P_IP \<equiv> 0x0800"

definition iccp_receive_arp_packet_handler ::
    "(int \<times> nl_ip list) list \<Rightarrow> bytes \<Rightarrow> int \<Rightarrow> u8 \<Rightarrow> world \<Rightarrow> world option" where
  "iccp_receive_arp_packet_handler kaddrs buf ifindex halen w =
     (if length buf < 8 then Some w
      else do {
        ar_op \<leftarrow> ld16 6 buf;
        ar_pln \<leftarrow> ld8 5 buf;
        ar_pro \<leftarrow> ld16 2 buf;
        ar_hln \<leftarrow> ld8 4 buf;
        if ar_op \<noteq> htons ARPOP_REPLY \<or> ar_pln \<noteq> 4 \<or> ar_pro \<noteq> htons ETH_P_IP \<or> ar_hln \<noteq> halen
           \<or> 8 + 2 * 4 + 2 * unat ar_hln > length buf then Some w
        else if system_get_first_csm w = None then Some w
        else do {
          mac \<leftarrow> ldn 8 ETHER_ADDR_LEN buf;
          addr \<leftarrow> ld32 (8 + unat ar_hln) buf;
          do_arp_update_from_reply_packet kaddrs ifindex addr mac w } })"

text \<open>
  The options of a neighbour advertisement. \<open>opt_len\<close> is an \<open>int\<close> but is compared with the size of
  an option header as an unsigned number, so a negative rest passes; a read behind the received
  bytes is undefined. The result \<open>None\<close> is the early return. The rest falls by at least eight
  in each round and the position grows with it, so the length of the packet bounds the rounds.
\<close>

abbreviation (input) ND_OPT_TARGET_LL_ADDR :: u8 where "ND_OPT_TARGET_LL_ADDR \<equiv> 2"
abbreviation (input) NDISC_NEIGHBOUR_ADVERTISEMENT :: u8 where "NDISC_NEIGHBOUR_ADVERTISEMENT \<equiv> 136"

function nd_options :: "bytes \<Rightarrow> nat \<Rightarrow> int \<Rightarrow> bytes option option" where
  "nd_options buf opt opt_len =
     (if opt_len = 0 then Some (Some null_mac)
      else if 0 \<le> opt_len \<and> opt_len < 2 then Some None
      else case (ld8 opt buf, ld8 (opt + 1) buf) of
        (Some opt_type, Some nd_opt_len) \<Rightarrow>
          if nd_opt_len = 0 then Some None
          else if opt_type = ND_OPT_TARGET_LL_ADDR then map_option Some (ldn (opt + 2) ETHER_ADDR_LEN buf)
          else nd_options buf (opt + 8 * unat nd_opt_len) (opt_len - 8 * uint nd_opt_len)
      | _ \<Rightarrow> None)"
  by pat_completeness auto
termination
  by (relation "measure (\<lambda>(buf, opt, opt_len). length buf - opt)") (auto simp: ld8_def unat_gt_0 intro!: diff_less_mono2 split: if_splits)

declare nd_options.simps [simp del]

definition iccp_receive_ndisc_packet_handler :: "bytes \<Rightarrow> int \<Rightarrow> world \<Rightarrow> world option" where
  "iccp_receive_ndisc_packet_handler buf ifindex w =
     (if system_get_first_csm w = None then Some w
      else do {
        icmp6_type \<leftarrow> ld8 0 buf;
        if icmp6_type \<noteq> NDISC_NEIGHBOUR_ADVERTISEMENT then Some w
        else do {
          target \<leftarrow> ldn 8 16 buf;
          let opt_len = int (length buf) - 24;
          mac \<leftarrow> (if opt_len > 0 then nd_options buf 24 opt_len else Some (Some null_mac));
          case mac of None \<Rightarrow> Some w | Some mac \<Rightarrow> do_ndisc_update_from_reply_packet ifindex target mac w } })"

end
