(* ===== verification/Iccp_Scheduler.thy ===== *)
theory Iccp_Scheduler
  imports Iccp_Neigh_Learn
begin

text \<open>
  The main loop (\<open>src/scheduler.c\<close>) over the descriptors that \<open>epoll\<close> reports ready
  (\<open>src/iccp_netlink.c\<close>), start and end of the process (\<open>src/system.c\<close>). What a ready descriptor
  delivers is part of the event. The event of the control socket is modelled with the
  socket, and leaves the state alone.
\<close>

subsection \<open>Routing messages of the kernel\<close>

datatype nl_route_msg =
    Nl_newlink nl_link
  | Nl_dellink int
  | Nl_neigh nl_neigh
  | Nl_newaddr int nl_ip u8
  | Nl_deladdr int nl_ip
  | Nl_other

abbreviation (input) AF_BRIDGE :: nat where "AF_BRIDGE \<equiv> 7"

definition count_neigh :: "nl_neigh \<Rightarrow> world \<Rightarrow> world" where
  "count_neigh n w =
     (if nn_type n = RTM_NEWNEIGH then let w = incr cnt_newnbr_count_update w in
        if nn_family n = AF_BRIDGE then incr cnt_newmac_count_update w else w
      else if nn_type n = RTM_DELNEIGH then let w = incr cnt_delnbr_count_update w in
        if nn_family n = AF_BRIDGE then incr cnt_delmac_count_update w else w
      else incr cnt_unknown_type_count_update w)"

definition system_update_netlink_counters :: "nl_route_msg \<Rightarrow> world \<Rightarrow> world" where
  "system_update_netlink_counters m w = (case m of
       Nl_newlink _ \<Rightarrow> incr cnt_newlink_count_update w
     | Nl_dellink _ \<Rightarrow> incr cnt_dellink_count_update w
     | Nl_neigh n \<Rightarrow> count_neigh n w
     | Nl_newaddr _ _ _ \<Rightarrow> incr cnt_newaddr_count_update w
     | Nl_deladdr _ _ \<Rightarrow> incr cnt_deladdr_count_update w
     | Nl_other \<Rightarrow> incr cnt_unknown_type_count_update w)"

text \<open>The result tells whether the rest of the datagram is discarded (\<open>NL_STOP\<close>).\<close>

definition iccp_route_event_handler :: "nl_route_msg \<Rightarrow> world \<Rightarrow> (bool \<times> world) option" where
  "iccp_route_event_handler m w = (let w = system_update_netlink_counters m w in case m of
       Nl_newlink k \<Rightarrow> map_option (Pair True) (iccp_event_handler_obj_input_newlink k w)
     | Nl_dellink i \<Rightarrow> map_option (Pair True) (iccp_event_handler_obj_input_dellink i w)
     | Nl_neigh n \<Rightarrow> map_option (Pair True) (do_one_neigh_request n w)
     | Nl_newaddr i ip p \<Rightarrow> map_option (Pair True) (iccp_event_handler_obj_input_newaddr i ip p w)
     | Nl_deladdr i ip \<Rightarrow> map_option (Pair True) (iccp_event_handler_obj_input_deladdr i ip w)
     | Nl_other \<Rightarrow> Some (False, w))"

fun route_datagram :: "nl_route_msg list \<Rightarrow> world \<Rightarrow> world option" where
  "route_datagram [] w = Some w"
| "route_datagram (m # ms) w = do {
     (stop, w) \<leftarrow> iccp_route_event_handler m w;
     if stop then Some w else route_datagram ms w }"

subsection \<open>Reading the state of the kernel\<close>

text \<open>
  A dump of the kernel is asked for again while it was interrupted by a change; the attempts are
  scripted, each with its messages and its result, and past the end of the script the kernel
  has nothing to report.
\<close>

abbreviation (input) NLE_DUMP_INTR :: int where "NLE_DUMP_INTR \<equiv> 33"

fun nl_dump :: "('m \<Rightarrow> world \<Rightarrow> world option) \<Rightarrow> ('m list \<times> int) list \<Rightarrow> world \<Rightarrow> (int \<times> world) option" where
  "nl_dump handler [] w = Some (0, w)"
| "nl_dump handler ((ms, ret) # rest) w = do {
     w \<leftarrow> foreach handler ms w;
     if ret = - NLE_DUMP_INTR then nl_dump handler rest w else Some (ret, w) }"

definition iccp_sys_local_if_list_get_init :: "(nl_link list \<times> int) list \<Rightarrow> world \<Rightarrow> (int \<times> world) option" where
  "iccp_sys_local_if_list_get_init = nl_dump iccp_event_handler_obj_input_newlink"

definition iccp_sys_local_if_list_get_addr :: "((int \<times> nl_ip \<times> u8) list \<times> int) list \<Rightarrow> world \<Rightarrow> (int \<times> world) option" where
  "iccp_sys_local_if_list_get_addr = nl_dump (\<lambda>(i, ip, p). iccp_event_handler_obj_input_newaddr i ip p)"

definition iccp_neigh_get_init :: "(nl_neigh list \<times> int) list \<Rightarrow> world \<Rightarrow> (int \<times> world) option" where
  "iccp_neigh_get_init = nl_dump do_one_neigh_request"

definition iccp_netlink_sync_again :: "(nl_link list \<times> int) list \<Rightarrow> world \<Rightarrow> world option" where
  "iccp_netlink_sync_again links w = do {
     w \<leftarrow> (if sys_need_sync_netlink_again (w_sys w) \<noteq> 0
           then map_option snd (iccp_sys_local_if_list_get_init links (upd_sys (sys_need_sync_netlink_again_update (\<lambda>_. 0)) w))
           else Some w);
     if sys_need_sync_team_again (w_sys w) \<noteq> 0 then do {
       let w = upd_sys (sys_need_sync_team_again_update (\<lambda>_. 0)) w;
       foreach (\<lambda>l w. do {
           lif \<leftarrow> w_lif w l;
           if lif_type lif = IF_T_PORT_CHANNEL then iccp_get_port_member_list l w else Some w })
         (sys_lif_list (w_sys w)) w }
     else Some w }"

definition iccp_netlink_route_sock_event_handler ::
    "nl_route_msg list \<Rightarrow> int \<Rightarrow> (nl_link list \<times> int) list \<Rightarrow> world \<Rightarrow> world option" where
  "iccp_netlink_route_sock_event_handler ms ret links w = do {
     w \<leftarrow> route_datagram ms w;
     if ret \<noteq> 0 then Some (incr cnt_rx_error_count_update (upd_sys (sys_need_sync_netlink_again_update (\<lambda>_. 1)) w))
     else if sys_need_sync_netlink_again (w_sys w) = 1 then iccp_netlink_sync_again links w
     else Some w }"

definition iccp_netlink_genic_sock_event_handler :: "(int \<times> (int \<times> bool) list) list \<Rightarrow> int \<Rightarrow> world \<Rightarrow> world option" where
  "iccp_netlink_genic_sock_event_handler ms ret w = do {
     w \<leftarrow> foreach (\<lambda>(ifindex, ports). iccp_get_portchannel_member_list_handler ifindex ports) ms w;
     Some (if ret \<noteq> 0 then upd_sys (sys_need_sync_team_again_update (\<lambda>_. 1)) w else w) }"

subsection \<open>Ready descriptors\<close>

datatype fd_event =
    Fd_server int string
  | Fd_team "(int \<times> (int \<times> bool) list) list" int
  | Fd_route "nl_route_msg list" int "(nl_link list \<times> int) list"
  | Fd_arp bytes int u8 "(int \<times> nl_ip list) list"
  | Fd_ndisc bytes int
  | Fd_syncd "recv_result list"
  | Fd_signal char
  | Fd_peer int "recv_result list"

text \<open>The first domain with that socket reads; any message of the peer counts as a heartbeat.\<close>

fun read_peer :: "csm_ptr list \<Rightarrow> int \<Rightarrow> recv_result list \<Rightarrow> world \<Rightarrow> world option" where
  "read_peer [] fd rx w = Some w"
| "read_peer (c # cs) fd rx w = do {
     csm \<leftarrow> w_csm w c;
     if csm_sock_fd csm = fd then do {
       (ret, w) \<leftarrow> scheduler_csm_read_callback c rx w;
       if ret \<noteq> MCLAG_ERROR then mlacp_fsm_update_heartbeat c w else Some w }
     else read_peer cs fd rx w }"

definition handle_event :: "fd_event \<Rightarrow> world \<Rightarrow> world option" where
  "handle_event ev w = (case ev of
       Fd_server fd ip \<Rightarrow> map_option snd (scheduler_server_accept fd ip w)
     | Fd_team ms ret \<Rightarrow> iccp_netlink_genic_sock_event_handler ms ret w
     | Fd_route ms ret links \<Rightarrow> iccp_netlink_route_sock_event_handler ms ret links w
     | Fd_arp buf ifindex halen kaddrs \<Rightarrow> iccp_receive_arp_packet_handler kaddrs buf ifindex halen w
     | Fd_ndisc buf ifindex \<Rightarrow> iccp_receive_ndisc_packet_handler buf ifindex w
     | Fd_syncd rx \<Rightarrow> map_option snd (iccp_mclagsyncd_msg_handler rx w)
     | Fd_signal ch \<Rightarrow> iccp_receive_signal_handler ch w
     | Fd_peer fd rx \<Rightarrow> if fd \<in> set (sys_readfd (w_sys w)) then read_peer (sys_csm_list (w_sys w)) fd rx w else Some w)"

definition iccp_handle_events :: "fd_event list \<Rightarrow> world \<Rightarrow> world option" where
  "iccp_handle_events = foreach handle_event"

text \<open>One turn of the loop at time \<open>now\<close>, and the loop over the turns to come until a warm reboot.\<close>

definition scheduler_turn :: "int \<Rightarrow> fd_event list \<Rightarrow> world \<Rightarrow> world option" where
  "scheduler_turn now evs w = do {
     let w = w\<lparr>w_now := now\<rparr>;
     let w = (if sys_sync_fd (w_sys w) \<le> 0 then snd (iccp_connect_syncd w) else w);
     w \<leftarrow> iccp_handle_events evs w;
     scheduler_transit_fsm w }"

fun scheduler_loop :: "(int \<times> fd_event list) list \<Rightarrow> world \<Rightarrow> world option" where
  "scheduler_loop [] w = Some w"
| "scheduler_loop ((now, evs) # turns) w = do {
     w \<leftarrow> scheduler_turn now evs w;
     if sys_warmboot_exit (w_sys w) = WARM_REBOOT then Some w else scheduler_loop turns w }"

subsection \<open>Start and end\<close>

definition system_init :: "int \<Rightarrow> int \<Rightarrow> System" where
  "system_init server_fd epoll_fd = \<lparr>sys_server_fd = server_fd, sys_sync_fd = - 1, sys_sync_ctrl_fd = - 1,
     sys_epoll_fd = epoll_fd, sys_warmboot_start = 0, sys_warmboot_exit = 0, sys_csm_list = [], sys_lif_list = [],
     sys_lif_purge_list = [], sys_unq_ip_if_list = [], sys_pending_vlan_mbr_if_list = [], sys_readfd = [],
     sys_readfd_count = 0, sys_csm_trans_time = 0, sys_need_sync_team_again = 0, sys_need_sync_netlink_again = 0,
     sys_dbg_counters = zero_dbg_counters\<rparr>"

text \<open>The domains are released from the head of the list; each release takes the head away.\<close>

primrec finalize_domains :: "nat \<Rightarrow> world \<Rightarrow> world option" where
  "finalize_domains 0 w = (if sys_csm_list (w_sys w) = [] then Some w else None)"
| "finalize_domains (Suc n) w = (case sys_csm_list (w_sys w) of [] \<Rightarrow> Some w | c # _ \<Rightarrow> do {
     csm \<leftarrow> w_csm w c;
     let w = (if sys_warmboot_exit (w_sys w) \<noteq> WARM_REBOOT then snd (mlacp_link_del_iccp_info (csm_mlag_id csm) w) else w);
     w \<leftarrow> iccp_csm_finalize c w;
     finalize_domains n w })"

definition system_finalize :: "world \<Rightarrow> world option" where
  "system_finalize w = do {
     w \<leftarrow> finalize_domains (length (sys_csm_list (w_sys w))) w;
     w \<leftarrow> foreach (\<lambda>l w. local_if_finalize l (upd_sys (sys_lif_list_update (remove1 l)) w)) (sys_lif_list (w_sys w)) w;
     w \<leftarrow> foreach (\<lambda>l w. local_if_finalize l (upd_sys (sys_lif_purge_list_update (remove1 l)) w)) (sys_lif_purge_list (w_sys w)) w;
     Some (upd_sys (sys_unq_ip_if_list_update (\<lambda>_. [])) (del_all_pending_vlan_mbr_ifs w)) }"

end
