(* ===== verification/Frame.thy ===== *)
theory Frame
  imports Iccp_Scheduler
begin

text \<open>
  What operations leave alone. \<open>keeps Q x\<close> says that \<open>Q\<close> holds of the state an operation ends in,
  if it ends regularly; the rules follow the structure of the code, and where two paths
  join only \<open>Q\<close> is remembered. The locales are the interface between operations and invariants:
  an invariant that tolerates a kind of change, which is the law of the locale, is kept by every
  operation that makes only such changes.
\<close>

named_theorems frame \<open>rules that show what an operation keeps\<close>

subsection \<open>Rules for programs\<close>

definition keeps :: "(world \<Rightarrow> bool) \<Rightarrow> world option \<Rightarrow> bool" where
  "keeps Q x \<longleftrightarrow> (\<forall>w. x = Some w \<longrightarrow> Q w)"

definition keeps2 :: "(world \<Rightarrow> bool) \<Rightarrow> ('a \<times> world) option \<Rightarrow> bool" where
  "keeps2 Q x \<longleftrightarrow> (\<forall>r w. x = Some (r, w) \<longrightarrow> Q w)"

lemma keeps_ends [frame]:
  "Q w \<Longrightarrow> keeps Q (Some w)" "Q (snd p) \<Longrightarrow> keeps2 Q (Some p)" "keeps Q None" "keeps2 Q None"
  by (auto simp: keeps_def keeps2_def)

lemma keeps_bind [frame]:
  "keeps Q x \<Longrightarrow> (\<And>w. Q w \<Longrightarrow> keeps Q (f w)) \<Longrightarrow> keeps Q (x \<bind> f)"
  "keeps Q x \<Longrightarrow> (\<And>w. Q w \<Longrightarrow> keeps2 Q (g w)) \<Longrightarrow> keeps2 Q (x \<bind> g)"
  "keeps2 Q y \<Longrightarrow> (\<And>r w. Q w \<Longrightarrow> keeps Q (h (r, w))) \<Longrightarrow> keeps Q (y \<bind> h)"
  "keeps2 Q y \<Longrightarrow> (\<And>r w. Q w \<Longrightarrow> keeps2 Q (k (r, w))) \<Longrightarrow> keeps2 Q (y \<bind> k)"
  by (auto simp: keeps_def keeps2_def split: Option.bind_splits)

text \<open>An intermediate state may be described by another predicate.\<close>

lemma keeps_via:
  "keeps R x \<Longrightarrow> (\<And>w. R w \<Longrightarrow> keeps Q (f w)) \<Longrightarrow> keeps Q (x \<bind> f)"
  "keeps R x \<Longrightarrow> (\<And>w. R w \<Longrightarrow> keeps2 Q (g w)) \<Longrightarrow> keeps2 Q (x \<bind> g)"
  "keeps2 R y \<Longrightarrow> (\<And>r w. R w \<Longrightarrow> keeps Q (h (r, w))) \<Longrightarrow> keeps Q (y \<bind> h)"
  "keeps2 R y \<Longrightarrow> (\<And>r w. R w \<Longrightarrow> keeps2 Q (k (r, w))) \<Longrightarrow> keeps2 Q (y \<bind> k)"
  by (auto simp: keeps_def keeps2_def split: Option.bind_splits)

lemma keeps_let_via:
  "R (snd p) \<Longrightarrow> (\<And>r w. R w \<Longrightarrow> keeps Q (h r w)) \<Longrightarrow> keeps Q (case p of (r, w) \<Rightarrow> h r w)"
  "R (snd p) \<Longrightarrow> (\<And>r w. R w \<Longrightarrow> keeps2 Q (k r w)) \<Longrightarrow> keeps2 Q (case p of (r, w) \<Rightarrow> k r w)"
  by (auto split: prod.splits)

lemma keeps_foreach_in:
  assumes "\<And>x w. x \<in> set xs \<Longrightarrow> Q w \<Longrightarrow> keeps Q (f x w)"
  shows "Q w \<Longrightarrow> keeps Q (foreach f xs w)"
  using assms
proof (induction xs arbitrary: w)
  case (Cons x xs)
  have "keeps Q (f x w)" using Cons.prems by simp
  then show ?case unfolding foreach.simps by (rule keeps_via(1)) (rule Cons.IH, simp_all add: Cons.prems)
qed (simp add: keeps_def)

lemma keeps_look:
  "(\<And>y. keeps Q (f y)) \<Longrightarrow> keeps Q (x \<bind> f)" "(\<And>y. keeps2 Q (g y)) \<Longrightarrow> keeps2 Q (x \<bind> g)"
  by (auto simp: keeps_def keeps2_def split: Option.bind_splits)

lemmas keeps_lookups [frame] =
  keeps_look [where x = "x :: (CSM) option" for x] keeps_look [where x = "x :: (LocalInterface) option" for x]
  keeps_look [where x = "x :: (PeerInterface) option" for x] keeps_look [where x = "x :: (MACMsg) option" for x]
  keeps_look [where x = "x :: (MsgLog) option" for x] keeps_look [where x = "x :: (ARPMsg) option" for x]
  keeps_look [where x = "x :: (NDISCMsg) option" for x] keeps_look [where x = "x :: (nat option) option" for x]
  keeps_look [where x = "x :: (bool) option" for x] keeps_look [where x = "x :: (nat) option" for x]
  keeps_look [where x = "x :: (string) option" for x] keeps_look [where x = "x :: (bytes) option" for x]
  keeps_look [where x = "x :: ('w :: len word) option" for x] keeps_look [where x = "x :: ((nat \<times> MACMsg) list) option" for x]
  keeps_look [where x = "x :: (ROUTE_MANIPULATE_TYPE_E) option" for x] keeps_look [where x = "x :: (bool \<times> bool) option" for x]
  keeps_look [where x = "x :: mLACPMACData option" for x]
  keeps_look [where x = "x :: VLAN_ID option" for x] keeps_look [where x = "x :: bytes option option" for x]
  keeps_look [where x = "x :: (nat \<times> u16 \<times> LocalInterface option) option option" for x]
  keeps_look [where x = "x :: mclag_domain_cfg_info option" for x]

lemma keeps_join [frame]:
  "keeps Q x \<Longrightarrow> keeps Q y \<Longrightarrow> keeps Q (if b then x else y)"
  "keeps2 Q u \<Longrightarrow> keeps2 Q v \<Longrightarrow> keeps2 Q (if b then u else v)"
  "keeps Q x \<Longrightarrow> (\<And>z. keeps Q (f z)) \<Longrightarrow> keeps Q (case ov of None \<Rightarrow> x | Some z \<Rightarrow> f z)"
  "keeps2 Q u \<Longrightarrow> (\<And>z. keeps2 Q (g z)) \<Longrightarrow> keeps2 Q (case ov of None \<Rightarrow> u | Some z \<Rightarrow> g z)"
  "keeps Q x \<Longrightarrow> (\<And>z zs. keeps Q (h z zs)) \<Longrightarrow> keeps Q (case lv of [] \<Rightarrow> x | z # zs \<Rightarrow> h z zs)"
  "keeps2 Q u \<Longrightarrow> (\<And>z zs. keeps2 Q (k z zs)) \<Longrightarrow> keeps2 Q (case lv of [] \<Rightarrow> u | z # zs \<Rightarrow> k z zs)"
  by (auto split: option.splits list.splits)

lemma keeps_states [frame]:
  "keeps Q x1 \<Longrightarrow> keeps Q x2 \<Longrightarrow> keeps Q x3 \<Longrightarrow> keeps Q x4 \<Longrightarrow> keeps Q x5 \<Longrightarrow> keeps Q x6 \<Longrightarrow> keeps Q x7 \<Longrightarrow> keeps Q x8
    \<Longrightarrow> keeps Q (case ss of MLACP_SYNC_SYSCONF \<Rightarrow> x1 | MLACP_SYNC_AGGCONF \<Rightarrow> x2 | MLACP_SYNC_AGGSTATE \<Rightarrow> x3 | MLACP_SYNC_AGGINFO \<Rightarrow> x4
         | MLACP_SYNC_PEERLINKINFO \<Rightarrow> x5 | MLACP_SYNC_ARP_INFO \<Rightarrow> x6 | MLACP_SYNC_NDISC_INFO \<Rightarrow> x7 | MLACP_SYNC_DONE \<Rightarrow> x8)"
  "keeps Q x1 \<Longrightarrow> keeps Q x2 \<Longrightarrow> keeps Q x3 \<Longrightarrow> keeps Q x4 \<Longrightarrow> keeps Q x5
    \<Longrightarrow> keeps Q (case ms of MLACP_STATE_INIT \<Rightarrow> x1 | MLACP_STATE_STAGE1 \<Rightarrow> x2 | MLACP_STATE_STAGE2 \<Rightarrow> x3 | MLACP_STATE_EXCHANGE \<Rightarrow> x4
         | MLACP_STATE_ERROR \<Rightarrow> x5)"
  "keeps Q x1 \<Longrightarrow> keeps Q x2 \<Longrightarrow> keeps Q x3 \<Longrightarrow> keeps Q (case r of ROUTE_NONE \<Rightarrow> x1 | ROUTE_ADD \<Rightarrow> x2 | ROUTE_DEL \<Rightarrow> x3)"
  "(\<And>a b. keeps Q (f a b)) \<Longrightarrow> keeps Q (case p of (a, b) \<Rightarrow> f a b)"
  "(\<And>a b. keeps2 Q (g a b)) \<Longrightarrow> keeps2 Q (case p of (a, b) \<Rightarrow> g a b)"
  "(\<And>a b c. keeps Q (h a b c)) \<Longrightarrow> keeps Q (case t of (a, b, c) \<Rightarrow> h a b c)"
  "(\<And>a. keeps Q (j a)) \<Longrightarrow> (\<And>a. keeps Q (k a)) \<Longrightarrow> keeps Q (case ip of Ip4 a \<Rightarrow> j a | Ip6 a \<Rightarrow> k a)"
  "(\<And>a b c. keeps2 Q (l a b c)) \<Longrightarrow> keeps2 Q (case u of (a, b, c) \<Rightarrow> l a b c)"
  for p :: "bool \<times> bool" and t :: "nat \<times> u16 \<times> LocalInterface option" and u :: "bytes \<times> nat \<times> recv_result list"
  by (auto split: MLACP_SYNC_STATE.split MLACP_APP_STATE.split ROUTE_MANIPULATE_TYPE_E.split prod.split nl_ip.split)

lemma keeps_rc [frame]:
  "keeps Q y \<Longrightarrow> (\<And>w. Q w \<Longrightarrow> Q (f w)) \<Longrightarrow> keeps Q (map_option f y)"
  "keeps2 Q x \<Longrightarrow> keeps Q (map_option snd x)" "keeps Q y \<Longrightarrow> keeps2 Q (map_option (Pair r) y)"
  by (auto simp: keeps_def keeps2_def)

lemma keeps_let [frame]:
  "Q w \<Longrightarrow> (\<And>w. Q w \<Longrightarrow> keeps Q (f w)) \<Longrightarrow> keeps Q (Let w f)"
  "Q w \<Longrightarrow> (\<And>w. Q w \<Longrightarrow> keeps2 Q (g w)) \<Longrightarrow> keeps2 Q (Let w g)"
  "Q (snd p) \<Longrightarrow> (\<And>r w. Q w \<Longrightarrow> keeps Q (h r w)) \<Longrightarrow> keeps Q (case p of (r, w) \<Rightarrow> h r w)"
  "Q (snd p) \<Longrightarrow> (\<And>r w. Q w \<Longrightarrow> keeps2 Q (k r w)) \<Longrightarrow> keeps2 Q (case p of (r, w) \<Rightarrow> k r w)"
  "Q (snd p) \<Longrightarrow> (\<And>r w. Q w \<Longrightarrow> keeps Q (h r w)) \<Longrightarrow> keeps Q (Let p (\<lambda>(r, w). h r w))"
  "Q (snd p) \<Longrightarrow> (\<And>r w. Q w \<Longrightarrow> keeps2 Q (k r w)) \<Longrightarrow> keeps2 Q (Let p (\<lambda>(r, w). k r w))"
  by (auto simp: Let_def split: prod.splits)

lemma keeps_let3 [frame]:
  "Q (snd (snd p)) \<Longrightarrow> (\<And>r s w. Q w \<Longrightarrow> keeps Q (h r s w)) \<Longrightarrow> keeps Q (case p of (r, s, w) \<Rightarrow> h r s w)"
  "Q (snd (snd p)) \<Longrightarrow> (\<And>r s w. Q w \<Longrightarrow> keeps2 Q (k r s w)) \<Longrightarrow> keeps2 Q (case p of (r, s, w) \<Rightarrow> k r s w)"
  by (auto split: prod.splits)

lemma keeps_foreach [frame]:
  assumes "\<And>x w. Q w \<Longrightarrow> keeps Q (f x w)"
  shows "Q w \<Longrightarrow> keeps Q (foreach f xs w)"
proof (induction xs arbitrary: w)
  case (Cons x xs)
  show ?case unfolding foreach.simps by (rule keeps_bind(1) [OF assms [OF Cons.prems] Cons.IH])
qed (simp add: keeps_def)

lemma keeps2_foreach [frame]:
  assumes "\<And>x r w. Q w \<Longrightarrow> keeps2 Q (f x (r, w))"
  shows "Q w \<Longrightarrow> keeps2 Q (foreach f xs (r, w))"
proof (induction xs arbitrary: r w)
  case (Cons x xs)
  show ?case unfolding foreach.simps by (rule keeps_bind(4), rule assms [OF Cons.prems], rule Cons.IH)
qed (simp add: keeps2_def)

lemma keeps_for_entries [frame]:
  "(\<And>off w. Q w \<Longrightarrow> keeps Q (f off w)) \<Longrightarrow> Q w \<Longrightarrow> keeps Q (for_entries esz f b pos w)"
  unfolding for_entries_def by (intro frame)

lemma keeps_on_domain [frame]: "(\<And>c. keeps2 Q (f c w)) \<Longrightarrow> Q w \<Longrightarrow> keeps2 Q (on_domain mid f w)"
  unfolding on_domain_def by (intro frame) simp

lemma keeps_nl_dump [frame]:
  assumes "\<And>m w. Q w \<Longrightarrow> keeps Q (f m w)"
  shows "Q w \<Longrightarrow> keeps2 Q (nl_dump f rounds w)"
proof (induction rounds arbitrary: w)
  case (Cons r rounds)
  show ?case by (cases r) (use assms Cons in \<open>simp, intro frame; simp\<close>)
qed (simp add: keeps2_def)

subsection \<open>What is kept of the domains\<close>

text \<open>
  The same domains as in \<open>w0\<close>, with the same view of each. Addresses handed out since are
  larger than those before.
\<close>

definition kept :: "(CSM \<Rightarrow> 'v) \<Rightarrow> world \<Rightarrow> world \<Rightarrow> bool" where
  "kept view w0 w \<longleftrightarrow> sys_csm_list (w_sys w) = sys_csm_list (w_sys w0) \<and> w_fresh w0 \<le> w_fresh w
     \<and> (\<forall>c. map_option view (w_csm w c) = map_option view (w_csm w0 c))"

lemma kept_refl [simp]: "kept view w w"
  by (simp add: kept_def)

lemma kept_trans: "kept view w0 w1 \<Longrightarrow> kept view w1 w2 \<Longrightarrow> kept view w0 w2"
  by (simp add: kept_def)

lemma kept_upd_csm: "(\<And>x. view (f x) = view x) \<Longrightarrow> kept view w (upd_csm c f w)"
  by (simp add: kept_def option.map_comp comp_def)

lemma kept_view:
  assumes "kept view w w'" and v: "\<And>x y. view x = view y \<Longrightarrow> view' x = view' y"
  shows "kept view' w w'"
proof -
  have *: "map_option view' a = map_option view' b" if "map_option view a = map_option view b" for a b
    using that by (cases a; cases b) (auto intro: v)
  have "map_option view' (w_csm w' c) = map_option view' (w_csm w c)" for c
    by (rule *) (use assms(1) in \<open>simp add: kept_def\<close>)
  then show ?thesis using assms(1) unfolding kept_def by blast
qed

subsection \<open>Operations that talk to the outside\<close>

text \<open>
  Sending touches the log and the counters of a domain, programming the kernel the state of the
  learning on the peer link.
\<close>

definition io_core :: "CSM \<Rightarrow> CSM" where
  "io_core x = upd_MLACP (ml_dbg_counters_update (\<lambda>_ _ _ _. 0)) (x\<lparr>csm_msg_log := zero_MsgLog,
     csm_peer_link_learning_enable := 0, csm_peer_link_learning_retry_time := 0\<rparr>)"

lemma io_core_simps [simp]:
  "io_core (MLACP_SET_ICCP_TX_DBG_COUNTER t st x) = io_core x" "io_core (csm_msg_log_update f x) = io_core x"
  "io_core (csm_peer_link_learning_retry_time_update g x) = io_core x" "io_core (csm_peer_link_learning_enable_update h x) = io_core x"
  by (simp_all add: io_core_def MLACP_SET_ICCP_TX_DBG_COUNTER_def incr_dbg_counter_def Let_def)

locale io_inv =
  fixes Q :: "world \<Rightarrow> bool"
  assumes io: "Q w \<Longrightarrow> kept io_core w w' \<Longrightarrow> Q w'"
begin

lemma io_kept: "Q w \<Longrightarrow> io_step w w' \<Longrightarrow> Q w'"
  by (erule io) (simp add: kept_def io_frame)

lemma updates_keep [frame]:
  "Q w \<Longrightarrow> Q (emit e w)"
  "Q w \<Longrightarrow> Q (snd (answer d w))"
  "Q w \<Longrightarrow> Q (snd (malloc_ok w))"
  "Q w \<Longrightarrow> Q (upd_lif l f w)"
  "Q w \<Longrightarrow> Q (upd_pif q g w)"
  "Q w \<Longrightarrow> Q (upd_mac m h w)"
  "Q w \<Longrightarrow> Q (w\<lparr>g_csm_buf := b\<rparr>)"
  "Q w \<Longrightarrow> Q (w\<lparr>ICCP_MSG_ID := i\<rparr>)"
  "Q w \<Longrightarrow> Q (w\<lparr>w_lif := hl\<rparr>)"
  "Q w \<Longrightarrow> Q (w\<lparr>w_pif := hp\<rparr>)"
  "Q w \<Longrightarrow> Q (w\<lparr>w_mac := hm\<rparr>)"
  "Q w \<Longrightarrow> Q (w\<lparr>g_once_connected := o1\<rparr>)"
  "Q w \<Longrightarrow> Q (w\<lparr>g_prev_state := ps\<rparr>)"
  "Q w \<Longrightarrow> Q (w\<lparr>w_team := tm\<rparr>)"
  "Q w \<Longrightarrow> Q (w\<lparr>w_now := t\<rparr>)"
  "Q w \<Longrightarrow> w_fresh w \<le> n \<Longrightarrow> Q (w\<lparr>w_fresh := n\<rparr>)"
  "Q w \<Longrightarrow> (\<And>s. sys_csm_list (fs s) = sys_csm_list s) \<Longrightarrow> Q (upd_sys fs w)"
  by (erule io; simp add: kept_def)+

lemma join_keeps [frame]:
  "Q (snd p) \<Longrightarrow> Q (snd q) \<Longrightarrow> Q (snd (if b then p else q))"
  "Q w \<Longrightarrow> Q (snd (r, w))"
  "Q w \<Longrightarrow> Q v \<Longrightarrow> Q (if b then w else v)"
  "Q w \<Longrightarrow> (\<And>z. Q (f z)) \<Longrightarrow> Q (case x of None \<Rightarrow> w | Some z \<Rightarrow> f z)"
  "Q (snd p) \<Longrightarrow> (\<And>r w. Q w \<Longrightarrow> Q (snd (h r w))) \<Longrightarrow> Q (snd (case p of (r, w) \<Rightarrow> h r w))"
  "Q (snd p) \<Longrightarrow> (\<And>r w. Q w \<Longrightarrow> Q (k r w)) \<Longrightarrow> Q (case p of (r, w) \<Rightarrow> k r w)"
  by (auto split: prod.splits option.splits)

lemma requests_keep [frame]:
  "Q w \<Longrightarrow> Q (snd (sys_write fd bs w))" "Q w \<Longrightarrow> Q (snd (sys_system cmd w))" "Q w \<Longrightarrow> Q (snd (sys_send fd bs w))"
  "Q w \<Longrightarrow> Q (SYSTEM_SET_SYNCD_TX_DBG_COUNTER t st w)"
  "Q w \<Longrightarrow> Q (snd (iccp_send_to_mclagsyncd t m w))" "Q w \<Longrightarrow> Q (snd (syncd_request t body w))"
  "Q w \<Longrightarrow> Q (snd (mlacp_link_set_traffic_dist_mode n e w))" "Q w \<Longrightarrow> Q (snd (mlacp_link_set_iccp_state i up w))"
  "Q w \<Longrightarrow> Q (snd (mlacp_link_set_iccp_role i act sid w))" "Q w \<Longrightarrow> Q (snd (mlacp_link_set_iccp_system_id i sid w))"
  "Q w \<Longrightarrow> Q (snd (mlacp_link_set_remote_if_state i n up w))" "Q w \<Longrightarrow> Q (snd (mlacp_link_del_remote_if_info i n w))"
  "Q w \<Longrightarrow> Q (snd (mlacp_link_set_peerlink_port_isolation i n e w))" "Q w \<Longrightarrow> Q (snd (mlacp_link_del_iccp_info i w))"
  by (erule io_kept, blast)+

lemma csm_io:
  assumes "Q w" "\<And>x. io_core (f x) = io_core x"
  shows "Q (upd_csm c f w)"
  using assms(1) by (rule io) (rule kept_upd_csm, rule assms(2))

lemma iccp_csm_send_keeps [frame]: "Q w \<Longrightarrow> keeps2 Q (iccp_csm_send c n w)"
  unfolding iccp_csm_send_def Let_def by (intro frame csm_io; simp)

lemma in_buf_keeps [frame]: "Q w \<Longrightarrow> Q (snd (in_buf f w))"
  by (erule io) (simp add: in_buf_def kept_def split: prod.split)

lemma clear_buf_keeps [frame]:
  "Q w \<Longrightarrow> keeps Q (set_peerlink_mlag_port_learn lif enable w)"
  "Q w \<Longrightarrow> Q (clear_buf w)"
  unfolding set_peerlink_mlag_port_learn_def clear_buf_def Let_def by (intro frame csm_io; simp?)+

lemma if_flags_set_keeps [frame]:
  "Q w \<Longrightarrow> keeps2 Q (send_built c f w)"
  "Q w \<Longrightarrow> keeps2 Q (append_info c prepare m count w)"
  "Q w \<Longrightarrow> keeps2 Q (flush_full c mx count msg_len w)"
  "Q w \<Longrightarrow> keeps Q (flush_rest c count msg_len w)"
  "Q w \<Longrightarrow> Q (snd (iccp_netlink_if_hwaddr_set ifindex addr w))"
  "Q w \<Longrightarrow> Q (snd (if_flags_set up ifindex w))"
  unfolding send_built_def append_info_def flush_full_def flush_rest_def iccp_netlink_if_hwaddr_set_def if_flags_set_def Let_def
    by (intro frame csm_io; simp?)+

lemma iccp_set_interface_ipadd_mac_keeps [frame]:
  "Q w \<Longrightarrow> Q (snd (iccp_netlink_if_startup_set a0 w))"
  "Q w \<Longrightarrow> Q (snd (iccp_netlink_if_shutdown_set a0 w))"
  "Q w \<Longrightarrow> Q (iccp_set_interface_ipadd_mac lif mac_str w)"
  unfolding iccp_netlink_if_startup_set_def iccp_netlink_if_shutdown_set_def iccp_set_interface_ipadd_mac_def Let_def by (intro
    frame csm_io; simp?)+

lemma refresh_hwaddr_keeps [frame]:
  "Q w \<Longrightarrow> Q (refresh_hwaddr ifindex mac w)"
  unfolding refresh_hwaddr_def Let_def by (intro frame csm_io; simp?)+

lemma take_over_mac_keeps [frame]:
  "Q w \<Longrightarrow> Q (take_over_mac p lif mac w)"
  unfolding take_over_mac_def Let_def by (intro frame csm_io; simp?)+

lemma set_peer_mac_in_kernel_keeps [frame]:
  "Q w \<Longrightarrow> keeps Q (recover_if_ipmac_on_standby p w)"
  "Q w \<Longrightarrow> Q (set_peer_mac_in_kernel mac vlan xadd w)"
  unfolding recover_if_ipmac_on_standby_def set_peer_mac_in_kernel_def Let_def by (intro frame csm_io; simp?)+

lemma recover_vlan_if_mac_on_standby_keeps [frame]:
  "Q w \<Longrightarrow> keeps Q (update_vlan_if_mac_on_standby p w)"
  "Q w \<Longrightarrow> keeps Q (recover_vlan_if_mac_on_standby p dir remote_system_mac w)"
  unfolding update_vlan_if_mac_on_standby_def recover_vlan_if_mac_on_standby_def Let_def by (intro frame csm_io; simp?)+

lemma send_if_built_keeps [frame]:
  "Q w \<Longrightarrow> keeps Q (update_vlan_if_mac_on_iccp_up p is_iccp_up remote_system_mac w)"
  "Q w \<Longrightarrow> keeps Q (set_peerlink_learn_kernel c enable w)"
  "Q w \<Longrightarrow> Q (snd (iccp_csm_init_msg w))"
  "Q w \<Longrightarrow> keeps2 Q (send_if_built c f w)"
  unfolding update_vlan_if_mac_on_iccp_up_def set_peerlink_learn_kernel_def iccp_csm_init_msg_def send_if_built_def Let_def by
    (intro frame csm_io; simp?)+

lemma syn_local_nd_info_to_peer_keeps [frame]:
  "Q w \<Longrightarrow> keeps2 Q (syn_local_mac_info_to_peer c local_if sync_add is_sag w)"
  "Q w \<Longrightarrow> keeps2 Q (syn_local_arp_info_to_peer c local_if sync_add ack w)"
  "Q w \<Longrightarrow> keeps2 Q (syn_local_nd_info_to_peer c local_if sync_add ack is_ipv6_ll w)"
  unfolding syn_local_mac_info_to_peer_def syn_local_arp_info_to_peer_def syn_local_nd_info_to_peer_def Let_def by (intro frame
    csm_io; simp?)+

lemma syn_local_neigh_mac_info_to_peer_keeps [frame]:
  "Q w \<Longrightarrow> keeps2 Q (syn_local_neigh_mac_info_to_peer l sync_add is_v4 is_v6 sync_mac ack is_ipv6_ll w)"
  unfolding syn_local_neigh_mac_info_to_peer_def Let_def by (intro frame csm_io; simp?)+

end

subsection \<open>Operations that leave the sessions alone\<close>

text \<open>The state of a session: connection, state machines, and the messages that wait for mLACP.\<close>

definition stat :: "CSM \<Rightarrow> int \<times> ICCP_CONNECTION_STATE \<times> APP_CONNECTION_STATE \<times> MLACP_APP_STATE \<times> bytes list" where
  "stat x = (csm_sock_fd x, csm_current_state x, app_current_state (APP_CSM x), ml_current_state (MLACP x), ml_mlacp_msg_list (MLACP x))"

lemma stat_io_core: "stat (io_core x) = stat x"
  by (simp add: stat_def io_core_def)

lemma rx_counter_stat: "stat (MLACP_SET_ICCP_RX_DBG_COUNTER t st x) = stat x"
  by (simp add: stat_def MLACP_SET_ICCP_RX_DBG_COUNTER_def incr_dbg_counter_def Let_def)

declare stat_def [simp]

locale quiet_inv =
  fixes Q :: "world \<Rightarrow> bool"
  assumes quiet: "Q w \<Longrightarrow> kept stat w w' \<Longrightarrow> Q w'"

sublocale quiet_inv \<subseteq> io_inv
proof
  fix w w' assume "Q w" "kept io_core w w'"
  then show "Q w'" by (elim quiet kept_view) (metis stat_io_core)
qed

context quiet_inv
begin

lemma csm_stat:
  assumes "Q w" "\<And>x. stat (f x) = stat x"
  shows "Q (upd_csm c f w)"
  using assms(1) by (rule quiet) (rule kept_upd_csm, rule assms(2))

lemma csm_replace:
  assumes "Q w" "w_csm w c = Some x" "stat y = stat x"
  shows "Q (upd_csm c (\<lambda>_. y) w)"
  using assms(1) by (rule quiet) (use assms(2,3) in \<open>simp add: kept_def\<close>)

lemma mac_rb_insert_keeps [frame]:
  "Q w \<Longrightarrow> keeps Q (local_if_change_flag_clear w)"
  "Q w \<Longrightarrow> keeps2 Q (peer_if_create c peer_if_number type w)"
  "Q w \<Longrightarrow> keeps Q (peer_if_destroy c p w)"
  "Q w \<Longrightarrow> keeps2 Q (peer_if_add_vlan p vlan_id w)"
  "Q w \<Longrightarrow> keeps Q (local_if_finalize p2 w)"
  "Q w \<Longrightarrow> keeps Q (mac_rb_insert c p3 w)"
  unfolding local_if_change_flag_clear_def peer_if_create_def peer_if_destroy_def peer_if_add_vlan_def local_if_finalize_def
    mac_rb_insert_def Let_def by (intro frame csm_stat; simp?)+

lemma mac_enqueue_keeps [frame]:
  "Q w \<Longrightarrow> keeps Q (MAC_RB_REMOVE c p w)"
  "Q w \<Longrightarrow> keeps Q (free_mac p w)"
  "Q w \<Longrightarrow> keeps Q (mac_enqueue c p w)"
  unfolding MAC_RB_REMOVE_def free_mac_def mac_enqueue_def Let_def by (intro frame csm_stat; simp?)+

lemma iccp_csm_init_mac_msg_keeps [frame]:
  "Q w \<Longrightarrow> keeps Q (free_unless_queued p w)"
  "Q w \<Longrightarrow> Q (snd (iccp_csm_init_mac_msg m w))"
  unfolding free_unless_queued_def iccp_csm_init_mac_msg_def Let_def by (intro frame csm_stat; simp?)+

lemma on_mac_keeps [frame]:
  "Q w \<Longrightarrow> (\<And>m w. Q w \<Longrightarrow> Q (snd (f m w))) \<Longrightarrow> keeps Q (on_mac p f w)"
  unfolding on_mac_def Let_def by (intro frame csm_stat; simp?)

lemma iccp_send_fdb_entry_to_syncd_keeps [frame]:
  "Q w \<Longrightarrow> keeps Q (mod_mac p f w)"
  "Q w \<Longrightarrow> Q (snd (iccp_send_fdb_entry_to_syncd m mac_type oper w))"
  unfolding mod_mac_def iccp_send_fdb_entry_to_syncd_def Let_def by (intro frame csm_stat; simp?)+

lemma del_mac_from_chip_keeps [frame]:
  "Q w \<Longrightarrow> Q (snd (add_mac_to_chip mac_type m w))"
  "Q w \<Longrightarrow> Q (snd (del_mac_from_chip m w))"
  unfolding add_mac_to_chip_def del_mac_from_chip_def Let_def by (intro frame csm_stat; simp?)+

lemma remove_mac_keeps [frame]:
  "Q w \<Longrightarrow> Q (snd (readd_mac_to_chip m w))"
  "Q w \<Longrightarrow> keeps Q (set_mac_local_age_flag c p aged update_peer w)"
  "Q w \<Longrightarrow> keeps Q (remove_mac c p w)"
  unfolding readd_mac_to_chip_def set_mac_local_age_flag_def remove_mac_def Let_def by (intro frame csm_stat; simp?)+

lemma redirect_or_del_keeps [frame]:
  "Q w \<Longrightarrow> keeps Q (redirect_or_del c p w)"
  unfolding redirect_or_del_def Let_def by (intro frame csm_stat; simp?)+

lemma clear_pending_mac_keeps [frame]:
  "Q w \<Longrightarrow> keeps Q (l2_mac_intf_down c pif_up p w)"
  "Q w \<Longrightarrow> keeps Q (clear_pending_mac c p w)"
  unfolding l2_mac_intf_down_def clear_pending_mac_def Let_def by (intro frame csm_stat; simp?)+

lemma l2_mac_intf_up_keeps [frame]:
  "Q w \<Longrightarrow> keeps Q (l2_mac_intf_up c p w)"
  unfolding l2_mac_intf_up_def Let_def by (intro frame csm_stat; simp?)+

lemma peerlink_down_entry_keeps [frame]:
  "Q w \<Longrightarrow> keeps Q (update_l2_mac_state c l po_state w)"
  "Q w \<Longrightarrow> keeps Q (update_orphan_port_mac c l state w)"
  "Q w \<Longrightarrow> keeps Q (mlacp_convert_remote_mac_to_local c po_name w)"
  "Q w \<Longrightarrow> keeps Q (update_remote_macs_to_peerlink c l w)"
  "Q w \<Longrightarrow> keeps Q (mlacp_peerlink_up_handler c w)"
  "Q w \<Longrightarrow> keeps Q (peerlink_down_entry c p w)"
  unfolding update_l2_mac_state_def update_orphan_port_mac_def mlacp_convert_remote_mac_to_local_def
    update_remote_macs_to_peerlink_def mlacp_peerlink_up_handler_def peerlink_down_entry_def Let_def by (intro frame csm_stat;
    simp?)+

lemma disconn_fdb_entry_keeps [frame]:
  "Q w \<Longrightarrow> keeps Q (mlacp_peerlink_down_handler c w)"
  "Q w \<Longrightarrow> keeps Q (disconn_fdb_entry c p w)"
  unfolding mlacp_peerlink_down_handler_def disconn_fdb_entry_def Let_def by (intro frame csm_stat; simp?)+

lemma MLACP_MAC_MSG_QUEUE_REINIT_keeps [frame]:
  "Q w \<Longrightarrow> keeps Q (mlacp_peer_disconn_fdb_handler c w)"
  "Q w \<Longrightarrow> keeps Q (MLACP_MAC_MSG_QUEUE_REINIT c w)"
  unfolding mlacp_peer_disconn_fdb_handler_def MLACP_MAC_MSG_QUEUE_REINIT_def Let_def by (intro frame csm_stat; simp?)+

lemma mlacp_local_lif_clear_pending_mac_keeps [frame]:
  "Q w \<Longrightarrow> keeps Q (mlacp_mac_msg_queue_reinit c w)"
  "Q w \<Longrightarrow> keeps Q (mlacp_sync_mac c w)"
  "Q w \<Longrightarrow> keeps Q (mlacp_local_lif_clear_pending_mac c l w)"
  unfolding mlacp_mac_msg_queue_reinit_def mlacp_sync_mac_def mlacp_local_lif_clear_pending_mac_def Let_def by (intro frame
    csm_stat; simp?)+

lemma syncd_del_keeps [frame]:
  "Q w \<Longrightarrow> keeps Q (mlacp_local_lif_state_mac_handler c w)"
  "Q w \<Longrightarrow> keeps Q (syncd_add_existing c p msg lif_down from_mclag_intf pif_up w)"
  "Q w \<Longrightarrow> keeps Q (syncd_add_new c msg lif_down from_mclag_intf pif_up pif_down w)"
  "Q w \<Longrightarrow> keeps Q (syncd_del c p lif_po w)"
  unfolding mlacp_local_lif_state_mac_handler_def syncd_add_existing_def syncd_add_new_def syncd_del_def Let_def by (intro frame
    csm_stat; simp?)+

lemma redirect_add_keeps [frame]:
  "Q w \<Longrightarrow> keeps Q (do_mac_update_from_syncd addr vid ifname fdb_type op_type w)"
  "Q w \<Longrightarrow> keeps Q (redirect_add csm p w)"
  unfolding do_mac_update_from_syncd_def redirect_add_def Let_def by (intro frame csm_stat; simp?)+

lemma peer_add_moved_keeps [frame]:
  "Q w \<Longrightarrow> keeps Q (peer_add_moved c p ifname from_mclag_intf lif_down w)"
  unfolding peer_add_moved_def Let_def by (intro frame csm_stat; simp?)+

lemma peer_add_new_keeps [frame]:
  "Q w \<Longrightarrow> keeps Q (peer_add_existing c p ifname from_mclag_intf lif_down w)"
  "Q w \<Longrightarrow> keeps Q (peer_del_existing c p w)"
  "Q w \<Longrightarrow> keeps Q (peer_add_new c d local_if w)"
  unfolding peer_add_existing_def peer_del_existing_def peer_add_new_def Let_def by (intro frame csm_stat; simp?)+

lemma mlacp_fsm_update_mac_entry_from_peer_keeps [frame]:
  "Q w \<Longrightarrow> keeps Q (mlacp_fsm_update_mac_entry_from_peer c d w)"
  unfolding mlacp_fsm_update_mac_entry_from_peer_def Let_def by (intro frame csm_stat; simp?)+

lemma update_mac_entries_keeps [frame]:
  "Q w \<Longrightarrow> keeps Q (update_mac_entries a0 a1 a2 a3 w)"
  by (induction a3 arbitrary: a2 w) (unfold update_mac_entries.simps Let_def, (intro frame csm_stat; simp add: updates_keep csm_stat)+)

lemma send_port_channels_keeps [frame]:
  "Q w \<Longrightarrow> keeps Q (mlacp_fsm_update_mac_info_from_peer c msg w)"
  "Q w \<Longrightarrow> keeps Q (mlacp_sync_send_sysConf c w)"
  "Q w \<Longrightarrow> keeps Q (send_port_channels c prepare sent w)"
  unfolding mlacp_fsm_update_mac_info_from_peer_def mlacp_sync_send_sysConf_def send_port_channels_def Let_def by (intro frame
    csm_stat; simp?)+

lemma mlacp_sync_send_syncDoneData_keeps [frame]:
  "Q w \<Longrightarrow> keeps Q (mlacp_sync_send_aggConf c w)"
  "Q w \<Longrightarrow> keeps Q (mlacp_sync_send_aggState c w)"
  "Q w \<Longrightarrow> keeps Q (mlacp_sync_send_syncPortChannelInfo c w)"
  "Q w \<Longrightarrow> keeps Q (mlacp_sync_send_syncPeerLinkInfo c w)"
  "Q w \<Longrightarrow> keeps Q (mlacp_sync_send_heartbeat c w)"
  "Q w \<Longrightarrow> keeps Q (mlacp_sync_send_syncDoneData c w)"
  unfolding mlacp_sync_send_aggConf_def mlacp_sync_send_aggState_def mlacp_sync_send_syncPortChannelInfo_def
    mlacp_sync_send_syncPeerLinkInfo_def mlacp_sync_send_heartbeat_def mlacp_sync_send_syncDoneData_def Let_def by (intro frame
    csm_stat; simp?)+

lemma send_sync_request_keeps [frame]:
  "Q w \<Longrightarrow> keeps Q (send_sync_request c w)"
  proof (cases "w_csm (clear_buf w) c")
  let ?v = "clear_buf w"
  case (Some x)
  assume "Q w"
  then have v: "Q ?v" by (intro frame)
  obtain n y b i where p: "mlacp_prepare_for_sync_request_tlv x CSM_BUFFER_SIZE (g_csm_buf ?v, ICCP_MSG_ID ?v) = (n, y, b, i)"
    by (metis prod_cases4)
  then have "stat y = stat x" by (auto simp: mlacp_prepare_for_sync_request_tlv_def Let_def split: if_splits prod.splits)
  then have "Q (upd_csm c (\<lambda>_. y) ?v)" by (rule csm_replace [OF v Some])
  then show ?thesis using p Some unfolding send_sync_request_def Let_def by simp (intro frame; simp)
qed (simp add: send_sync_request_def keeps_def)

lemma mac_dequeue_keeps [frame]:
  "Q w \<Longrightarrow> keeps Q (mlacp_fsm_send_if_up_ack c if_type if_id port_isolation_enable w)"
  "Q w \<Longrightarrow> keeps Q (free_sent_mac c p w)"
  "Q w \<Longrightarrow> keeps Q (mac_dequeue c p w)"
  unfolding mlacp_fsm_send_if_up_ack_def free_sent_mac_def mac_dequeue_def Let_def by (intro frame csm_stat; simp?)+

lemma send_mac_loop_keeps [frame]:
  "Q w \<Longrightarrow> keeps Q (send_mac_loop a0 a1 a2 a3 w)"
  by (induction a1 arbitrary: a2 a3 w) (unfold send_mac_loop.simps Let_def, (intro frame csm_stat; simp add: updates_keep csm_stat)+)

lemma mlacp_sync_send_syncMacInfo_keeps [frame]:
  "Q w \<Longrightarrow> keeps Q (mlacp_sync_send_syncMacInfo c w)"
  unfolding mlacp_sync_send_syncMacInfo_def Let_def by (intro frame csm_stat; simp?)+

lemma send_neigh_loop_keeps [frame]:
  "Q w \<Longrightarrow> (\<And>m. ml_current_state (pop m) = ml_current_state m \<and> ml_mlacp_msg_list (pop m) =
    ml_mlacp_msg_list m)
    \<Longrightarrow> keeps Q (send_neigh_loop c prepare pop ms n len w)"
  by (induction ms arbitrary: n len w) (unfold send_neigh_loop.simps Let_def, (intro frame csm_stat; simp add: updates_keep csm_stat)+)

lemma mlacp_sync_send_syncNdiscInfo_keeps [frame]:
  "Q w \<Longrightarrow> keeps Q (mlacp_sync_send_syncArpInfo c w)"
  "Q w \<Longrightarrow> keeps Q (mlacp_sync_send_syncNdiscInfo c w)"
  unfolding mlacp_sync_send_syncArpInfo_def mlacp_sync_send_syncNdiscInfo_def Let_def by (intro frame csm_stat; simp?)+

lemma mlacp_sync_sender_handler_keeps [frame]:
  "Q w \<Longrightarrow> keeps Q (mlacp_sync_sender_handler c w)"
  unfolding mlacp_sync_sender_handler_def Let_def by (intro frame csm_stat; simp?)+

lemma set_iff_flags_keeps [frame]:
  "Q w \<Longrightarrow> keeps2 Q (set_iff_flags a0 a1 a2 w)"
  by (induction a1 arbitrary: a2 w) (unfold set_iff_flags.simps Let_def, (intro frame csm_stat; simp add: updates_keep csm_stat)+)

lemma mlacp_enqueue_ndisc_keeps [frame]:
  "Q w \<Longrightarrow> keeps2 Q (iccp_netlink_set_portchannel_iff_flag lif_po is_iff_up w)"
  "Q w \<Longrightarrow> keeps2 Q (iccp_netlink_neighbor_request family addr xadd mac portname permanent w)"
  "Q w \<Longrightarrow> keeps Q (update_if_ipmac_on_standby p w)"
  "Q w \<Longrightarrow> Q (mlacp_enqueue_arp c m w)"
  "Q w \<Longrightarrow> Q (mlacp_enqueue_ndisc c m2 w)"
  unfolding iccp_netlink_set_portchannel_iff_flag_def iccp_netlink_neighbor_request_def update_if_ipmac_on_standby_def
    mlacp_enqueue_arp_def mlacp_enqueue_ndisc_def Let_def by (intro frame csm_stat; simp?)+

lemma requeue_keeps [frame]:
  "Q w \<Longrightarrow> Q (snd (snd (requeue P f ms w)))"
  by (induction ms arbitrary: w) (auto simp: Let_def case_prod_beta iccp_csm_init_msg_def updates_keep)

lemma requeue_ndisc_keeps [frame]:
  "Q w \<Longrightarrow> keeps Q (requeue_arp xP c w)"
  "Q w \<Longrightarrow> keeps Q (requeue_ndisc xP2 c w)"
  unfolding requeue_arp_def requeue_ndisc_def Let_def by (intro frame csm_stat; simp?)+

lemma ndisc_set_handler_keeps [frame]:
  "Q w \<Longrightarrow> keeps Q (mlacp_resync_arp a0 w)"
  "Q w \<Longrightarrow> keeps Q (mlacp_resync_ndisc a0 w)"
  "Q w \<Longrightarrow> keeps Q (syn_arp_info_to_peer c l w)"
  "Q w \<Longrightarrow> keeps Q (syn_ndisc_info_to_peer c l w)"
  "Q w \<Longrightarrow> keeps Q (arp_set_handler c l xadd w)"
  "Q w \<Longrightarrow> keeps Q (ndisc_set_handler c l xadd w)"
  unfolding mlacp_resync_arp_def mlacp_resync_ndisc_def syn_arp_info_to_peer_def syn_ndisc_info_to_peer_def arp_set_handler_def
    ndisc_set_handler_def Let_def by (intro frame csm_stat; simp?)+

lemma syn_ack_local_neigh_mac_info_to_peer_keeps [frame]:
  "Q w \<Longrightarrow> keeps Q (syn_ack_local_neigh_mac_info_to_peer ifname is_ipv6_ll w)"
  unfolding syn_ack_local_neigh_mac_info_to_peer_def Let_def by (intro frame csm_stat; simp?)+

lemma neigh_program_keeps [frame]:
  "Q w \<Longrightarrow> keeps Q (sync_unique_ip w)"
  "Q w \<Longrightarrow> keeps2 Q (neigh_program family addr mac ifname op_type permanent ack ack_ll w)"
  unfolding sync_unique_ip_def neigh_program_def Let_def by (intro frame csm_stat; simp?)+

lemma mlacp_fsm_update_arp_entry_keeps [frame]:
  "Q w \<Longrightarrow> keeps2 Q (mlacp_fsm_update_arp_entry c e w)"
  unfolding mlacp_fsm_update_arp_entry_def Let_def by (intro frame csm_stat; simp?)+

lemma update_arp_entries_keeps [frame]:
  "Q w \<Longrightarrow> keeps Q (update_arp_entries a0 a1 a2 a3 w)"
  by (induction a3 arbitrary: a2 w) (unfold update_arp_entries.simps Let_def, (intro frame csm_stat; simp add: updates_keep csm_stat)+)

lemma mlacp_fsm_update_ndisc_entry_keeps [frame]:
  "Q w \<Longrightarrow> keeps Q (mlacp_fsm_update_arp_info c msg w)"
  "Q w \<Longrightarrow> keeps2 Q (mlacp_fsm_update_ndisc_entry c e w)"
  unfolding mlacp_fsm_update_arp_info_def mlacp_fsm_update_ndisc_entry_def Let_def by (intro frame csm_stat; simp?)+

lemma update_ndisc_entries_keeps [frame]:
  "Q w \<Longrightarrow> keeps Q (update_ndisc_entries a0 a1 a2 a3 w)"
  by (induction a3 arbitrary: a2 w) (unfold update_ndisc_entries.simps Let_def, (intro frame csm_stat; simp add: updates_keep
    csm_stat)+)

lemma mod_lif_keeps [frame]:
  "Q w \<Longrightarrow> keeps Q (mlacp_fsm_update_ndisc_info c msg w)"
  "Q w \<Longrightarrow> keeps Q (mod_lif p f w)"
  unfolding mlacp_fsm_update_ndisc_info_def mod_lif_def Let_def by (intro frame csm_stat; simp?)+

lemma update_vlan_if_info_keeps [frame]:
  "Q w \<Longrightarrow> keeps Q (update_vlan_if_info c vlan_if w)"
  unfolding update_vlan_if_info_def Let_def by (intro frame csm_stat; simp?)+

lemma update_peerlink_isolate_from_all_csm_lif_keeps [frame]:
  "Q w \<Longrightarrow> keeps Q (update_l3_if_info a0 a1 w)"
  "Q w \<Longrightarrow> keeps Q (update_po_if_info c l po_state w)"
  "Q w \<Longrightarrow> keeps Q (set_l3_itf_state c l route_type w)"
  "Q w \<Longrightarrow> keeps Q (set_peerlink_mlag_port_kernel_forward c l enable w)"
  "Q w \<Longrightarrow> keeps Q (update_peerlink_isolate_from_all_csm_lif c w)"
  unfolding update_l3_if_info_def update_po_if_info_def set_l3_itf_state_def set_peerlink_mlag_port_kernel_forward_def
    update_peerlink_isolate_from_all_csm_lif_def Let_def by (intro frame csm_stat; simp?)+

lemma set_peerlink_mlag_port_isolate_keeps [frame]:
  "Q w \<Longrightarrow> keeps Q (set_peerlink_mlag_port_isolate c l enable is_unbind_pending w)"
  unfolding set_peerlink_mlag_port_isolate_def Let_def by (intro frame csm_stat; simp?)+

lemma peer_l3_itf_state_keeps [frame]:
  "Q w \<Longrightarrow> keeps Q (peerlink_port_isolate_cleanup c w)"
  "Q w \<Longrightarrow> keeps Q (update_peerlink_isolate_from_pif c p pif_po_state new_create w)"
  "Q w \<Longrightarrow> keeps Q (update_peerlink_isolate_from_lif c l lif_po_state w)"
  "Q w \<Longrightarrow> keeps Q (update_l2_po_state c l po_state w)"
  "Q w \<Longrightarrow> keeps Q (update_l3_po_state c l po_state w)"
  "Q w \<Longrightarrow> keeps Q (peer_l3_itf_state c po_active po_state q w)"
  unfolding peerlink_port_isolate_cleanup_def update_peerlink_isolate_from_pif_def update_peerlink_isolate_from_lif_def
    update_l2_po_state_def update_l3_po_state_def peer_l3_itf_state_def Let_def by (intro frame csm_stat; simp?)+

lemma mlacp_link_enable_traffic_distribution_keeps [frame]:
  "Q w \<Longrightarrow> keeps Q (update_stp_peer_link c p po_state new_create w)"
  "Q w \<Longrightarrow> keeps Q (mlacp_link_disable_traffic_distribution l w)"
  "Q w \<Longrightarrow> keeps Q (mlacp_link_enable_traffic_distribution l w)"
  unfolding update_stp_peer_link_def mlacp_link_disable_traffic_distribution_def mlacp_link_enable_traffic_distribution_def
    Let_def by (intro frame csm_stat; simp?)+

lemma mlacp_mlag_link_del_handler_keeps [frame]:
  "Q w \<Longrightarrow> keeps Q (mlacp_portchannel_state_handler c l po_state w)"
  "Q w \<Longrightarrow> keeps Q (mlacp_mlag_link_add_handler c l w)"
  "Q w \<Longrightarrow> keeps Q (mlacp_mlag_link_del_handler c l w)"
  unfolding mlacp_portchannel_state_handler_def mlacp_mlag_link_add_handler_def mlacp_mlag_link_del_handler_def Let_def by (intro
    frame csm_stat; simp?)+

lemma mlacp_fix_bridge_mac_keeps [frame]:
  "Q w \<Longrightarrow> keeps Q (mlacp_mlag_intf_detach_handler c l w)"
  "Q w \<Longrightarrow> keeps Q (mlacp_peer_mlag_intf_delete_handler c mlag_if_name w)"
  "Q w \<Longrightarrow> keeps Q (mlacp_conn_handler_fdb a0 w)"
  "Q w \<Longrightarrow> keeps Q (mlacp_fix_bridge_mac c w)"
  unfolding mlacp_mlag_intf_detach_handler_def mlacp_peer_mlag_intf_delete_handler_def mlacp_conn_handler_fdb_def
    mlacp_fix_bridge_mac_def Let_def by (intro frame csm_stat; simp?)+

lemma record_agg_conf_keeps [frame]:
  "Q w \<Longrightarrow> keeps Q (mlacp_peer_conn_handler c w)"
  "Q w \<Longrightarrow> keeps Q (mlacp_peer_disconn_handler c w)"
  "Q w \<Longrightarrow> Q (syncd_info_close w)"
  "Q w \<Longrightarrow> keeps2 Q (mlacp_fsm_update_system_conf c msg w)"
  "Q w \<Longrightarrow> keeps Q (purge_peer_if c pif w)"
  "Q w \<Longrightarrow> keeps Q (record_agg_conf c msg q new_create w)"
  unfolding mlacp_peer_conn_handler_def mlacp_peer_disconn_handler_def syncd_info_close_def mlacp_fsm_update_system_conf_def
    purge_peer_if_def record_agg_conf_def Let_def by (intro frame csm_stat; simp?)+

lemma mlacp_fsm_update_Aggport_state_keeps [frame]:
  "Q w \<Longrightarrow> keeps2 Q (mlacp_fsm_update_Agg_conf c msg w)"
  "Q w \<Longrightarrow> keeps2 Q (mlacp_fsm_update_Aggport_state c msg w)"
  unfolding mlacp_fsm_update_Agg_conf_def mlacp_fsm_update_Aggport_state_def Let_def by (intro frame csm_stat; simp?)+

lemma add_peer_vlans_keeps [frame]:
  "Q w \<Longrightarrow> keeps Q (add_peer_vlans a0 a1 a2 a3 w)"
  by (induction a3 arbitrary: a2 w) (unfold add_peer_vlans.simps Let_def, (intro frame csm_stat; simp add: updates_keep csm_stat)+)

lemma mlacp_sync_recv_nak_handler_keeps [frame]:
  "Q w \<Longrightarrow> keeps2 Q (mlacp_fsm_update_port_channel_info c msg w)"
  "Q w \<Longrightarrow> keeps2 Q (mlacp_fsm_update_peerlink_info c msg w)"
  "Q w \<Longrightarrow> keeps Q (mlacp_fsm_update_heartbeat c w)"
  "Q w \<Longrightarrow> keeps Q (mlacp_fsm_update_warmboot c w)"
  "Q w \<Longrightarrow> keeps Q (mlacp_sync_send_nak_handler c msg w)"
  "Q w \<Longrightarrow> keeps Q (mlacp_sync_recv_nak_handler c msg w)"
  unfolding mlacp_fsm_update_port_channel_info_def mlacp_fsm_update_peerlink_info_def mlacp_fsm_update_heartbeat_def
    mlacp_fsm_update_warmboot_def mlacp_sync_send_nak_handler_def mlacp_sync_recv_nak_handler_def Let_def by (intro frame
    csm_stat; simp?)+

lemma count_rx_keeps [frame]:
  "Q w \<Longrightarrow> keeps Q (count_rx c msg st w)"
  unfolding count_rx_def by (intro frame csm_stat; simp add: rx_counter_stat del: stat_def)

lemma recv_update_keeps [frame]:
  "Q w \<Longrightarrow> (\<And>w. Q w \<Longrightarrow> keeps2 Q (f c m w)) \<Longrightarrow> keeps Q (recv_update f c m w)"
  unfolding recv_update_def Let_def by (intro frame csm_stat; simp?)

lemma mlacp_sync_recv_peerLlinkInfo_keeps [frame]:
  "Q w \<Longrightarrow> keeps Q (mlacp_sync_recv_sysConf a0 a1 w)"
  "Q w \<Longrightarrow> keeps Q (mlacp_sync_recv_unsupported c msg w)"
  "Q w \<Longrightarrow> keeps Q (mlacp_sync_recv_aggConf a0 a1 w)"
  "Q w \<Longrightarrow> keeps Q (mlacp_sync_recv_aggState c msg w)"
  "Q w \<Longrightarrow> keeps Q (mlacp_sync_recv_portChanInfo a0 a1 w)"
  "Q w \<Longrightarrow> keeps Q (mlacp_sync_recv_peerLlinkInfo c msg w)"
  unfolding mlacp_sync_recv_sysConf_def mlacp_sync_recv_unsupported_def mlacp_sync_recv_aggConf_def mlacp_sync_recv_aggState_def
    mlacp_sync_recv_portChanInfo_def mlacp_sync_recv_peerLlinkInfo_def Let_def by (intro frame csm_stat; simp?)+

lemma mlacp_fsm_recv_if_up_ack_keeps [frame]:
  "Q w \<Longrightarrow> keeps Q (mlacp_sync_recv_macInfo c msg w)"
  "Q w \<Longrightarrow> keeps Q (mlacp_sync_recv_arpInfo c msg w)"
  "Q w \<Longrightarrow> keeps Q (mlacp_sync_recv_ndiscInfo a0 a1 w)"
  "Q w \<Longrightarrow> keeps Q (mlacp_sync_recv_heartbeat c msg w)"
  "Q w \<Longrightarrow> keeps Q (mlacp_sync_recv_warmboot c msg w)"
  "Q w \<Longrightarrow> keeps Q (mlacp_fsm_recv_if_up_ack c msg w)"
  unfolding mlacp_sync_recv_macInfo_def mlacp_sync_recv_arpInfo_def mlacp_sync_recv_ndiscInfo_def mlacp_sync_recv_heartbeat_def
    mlacp_sync_recv_warmboot_def mlacp_fsm_recv_if_up_ack_def Let_def by (intro frame csm_stat; simp?)+

lemma set_sys_arp_accept_flag_keeps [frame]:
  "Q w \<Longrightarrow> keeps Q (exchange_config c w)"
  "Q w \<Longrightarrow> keeps Q (exchange_purge c w)"
  "Q w \<Longrightarrow> keeps Q (exchange_lif c l w)"
  "Q w \<Longrightarrow> Q (snd (set_sys_arp_accept_flag ifname flag w))"
  unfolding exchange_config_def exchange_purge_def exchange_lif_def set_sys_arp_accept_flag_def Let_def by (intro frame csm_stat;
    simp?)+

lemma mlacp_unbind_local_if_keeps [frame]:
  "Q w \<Longrightarrow> keeps Q (LIF_QUEUE_REINIT c w)"
  "Q w \<Longrightarrow> keeps Q (PIF_QUEUE_REINIT c w)"
  "Q w \<Longrightarrow> keeps Q (mlacp_peer_link_learning_handler c w)"
  "Q w \<Longrightarrow> keeps Q (mlacp_unbind_local_if l w)"
  unfolding LIF_QUEUE_REINIT_def PIF_QUEUE_REINIT_def mlacp_peer_link_learning_handler_def mlacp_unbind_local_if_def Let_def by
    (intro frame csm_stat; simp?)+

lemma mlacp_bind_local_if_keeps [frame]:
  "Q w \<Longrightarrow> keeps2 Q (mlacp_bind_local_if c l w)"
  unfolding mlacp_bind_local_if_def Let_def by (intro frame csm_stat; simp?)+

lemma peer_link_member_keeps [frame]:
  "Q w \<Longrightarrow> keeps Q (mlag_member c po_id port w)"
  "Q w \<Longrightarrow> keeps Q (peer_link_member c l po_id port w)"
  unfolding mlag_member_def peer_link_member_def Let_def by (intro frame csm_stat; simp?)+

lemma iccp_get_portchannel_member_list_handler_keeps [frame]:
  "Q w \<Longrightarrow> keeps Q (iccp_get_portchannel_member_list_handler ifindex ports w)"
  unfolding iccp_get_portchannel_member_list_handler_def Let_def by (intro frame csm_stat; simp?)+

lemma iccp_get_port_member_list_keeps [frame]:
  "Q w \<Longrightarrow> keeps Q (iccp_get_port_member_list l w)"
  unfolding iccp_get_port_member_list_def Let_def by (intro frame csm_stat; simp?)+

lemma mlacp_bind_port_channel_to_csm_keeps [frame]:
  "Q w \<Longrightarrow> keeps Q (mlacp_bind_port_channel_to_csm c ifname w)"
  unfolding mlacp_bind_port_channel_to_csm_def Let_def by (intro frame csm_stat; simp?)+

lemma local_if_mlacp_purge_del_keeps [frame]:
  "Q w \<Longrightarrow> keeps2 Q (iccp_cli_attach_mclag_domain_to_port_channel domain ifname w)"
  "Q w \<Longrightarrow> keeps2 Q (iccp_cli_detach_mclag_domain_to_port_channel ifname w)"
  "Q w \<Longrightarrow> keeps Q (local_if_mlacp_purge_del l w)"
  unfolding iccp_cli_attach_mclag_domain_to_port_channel_def iccp_cli_detach_mclag_domain_to_port_channel_def
    local_if_mlacp_purge_del_def Let_def by (intro frame csm_stat; simp?)+

lemma iccp_csm_stp_role_count_keeps [frame]:
  "Q w \<Longrightarrow> keeps Q (local_if_purge_clear w)"
  "Q w \<Longrightarrow> keeps Q (iccp_csm_stp_role_count c w)"
  unfolding local_if_purge_clear_def iccp_csm_stp_role_count_def Let_def by (intro frame csm_stat; simp?)+

lemma mlacp_sync_send_warmboot_flag_keeps [frame]:
  "Q w \<Longrightarrow> keeps2 Q (scheduler_check_csm_config c w)"
  "Q w \<Longrightarrow> keeps Q (send_iccp_msg c w)"
  "Q w \<Longrightarrow> keeps Q (mlacp_sync_send_warmboot_flag w)"
  unfolding scheduler_check_csm_config_def send_iccp_msg_def mlacp_sync_send_warmboot_flag_def Let_def by (intro frame csm_stat;
    simp?)+

lemma del_pending_vlan_mbr_keeps [frame]:
  "Q w \<Longrightarrow> keeps Q (iccp_receive_signal_handler ctrl_byte w)"
  "Q w \<Longrightarrow> Q (snd (iccp_connect_syncd w))"
  "Q w \<Longrightarrow> keeps2 Q (local_if_add_vlan l vid w)"
  "Q w \<Longrightarrow> Q (add_pending_vlan_mbr n vid w)"
  "Q w \<Longrightarrow> Q (del_pending_vlan_mbr n vid w)"
  unfolding iccp_receive_signal_handler_def iccp_connect_syncd_def local_if_add_vlan_def add_pending_vlan_mbr_def
    del_pending_vlan_mbr_def Let_def by (intro frame csm_stat; simp?)+

lemma del_all_pending_vlan_mbr_ifs_keeps [frame]:
  "Q w \<Longrightarrow> Q (update_pending_vlan_mbr mbr_if_name vid xadd w)"
  "Q w \<Longrightarrow> keeps Q (move_pending_vlan_mbr_to_lif l w)"
  "Q w \<Longrightarrow> Q (del_all_pending_vlan_mbr_ifs w)"
  unfolding update_pending_vlan_mbr_def move_pending_vlan_mbr_to_lif_def del_all_pending_vlan_mbr_ifs_def Let_def by (intro frame
    csm_stat; simp?)+

lemma join_domains_keeps [frame]:
  "Q w \<Longrightarrow> keeps Q (join_domains cs l ifname w)"
  by (induction cs arbitrary: w) (unfold join_domains.simps, (intro frame csm_stat; simp add: updates_keep csm_stat)+)

lemma local_if_create_keeps [frame]:
  "Q w \<Longrightarrow> keeps2 Q (local_if_create ifindex ifname type state w)"
  unfolding local_if_create_def Let_def by (intro frame csm_stat; simp?)+

lemma local_if_remove_keeps [frame]:
  "Q w \<Longrightarrow> keeps Q (vlan_mbrship_change_handler vlan_id mbr_if_name xadd w)"
  "Q w \<Longrightarrow> keeps Q (local_if_vlan_remove v w)"
  "Q w \<Longrightarrow> keeps Q (local_if_po_remove p w)"
  "Q w \<Longrightarrow> keeps Q (local_if_remove l w)"
  unfolding vlan_mbrship_change_handler_def local_if_vlan_remove_def local_if_po_remove_def local_if_remove_def Let_def by (intro
    frame csm_stat; simp?)+

lemma port_state_domains_keeps [frame]:
  "Q w \<Longrightarrow> keeps Q (port_state_domains cs mclag ifname up w)"
  by (induction cs arbitrary: mclag w) (unfold port_state_domains.simps case_prod_conv, (intro frame csm_stat; simp)+)

lemma iccp_from_netlink_port_state_handler_keeps [frame]:
  "Q w \<Longrightarrow> keeps Q (iccp_from_netlink_port_state_handler ifname state w)"
  unfolding iccp_from_netlink_port_state_handler_def Let_def by (intro frame csm_stat; simp?)+

lemma newlink_master_keeps [frame]:
  "Q w \<Longrightarrow> keeps Q (newlink_state l k w)"
  "Q w \<Longrightarrow> keeps Q (newlink_master l master w)"
  unfolding newlink_state_def newlink_master_def Let_def by (intro frame csm_stat; simp?)+

lemma del_self_ip_keeps [frame]:
  "Q w \<Longrightarrow> (\<And>m. ml_current_state (del m) = ml_current_state m \<and> ml_mlacp_msg_list (del m) =
    ml_mlacp_msg_list m)
    \<Longrightarrow> keeps Q (del_self_ip cs has del w)"
  by (induction cs arbitrary: w) (unfold del_self_ip.simps, (intro frame csm_stat; simp)+)

lemma iccp_del_self_ip_from_neigh_table_keeps [frame]:
  "Q w \<Longrightarrow> keeps Q (iccp_del_self_ip_from_neigh_table l family w)"
  unfolding iccp_del_self_ip_from_neigh_table_def Let_def by (intro frame csm_stat; simp?)+

lemma newaddr_common_keeps [frame]:
  "Q w \<Longrightarrow> keeps Q (newaddr_common l family sync_mac w)"
  unfolding newaddr_common_def Let_def by (intro frame csm_stat; simp?)+

lemma deladdr_common_keeps [frame]:
  "Q w \<Longrightarrow> keeps Q (iccp_event_handler_obj_input_newaddr ifindex ip prefixlen w)"
  "Q w \<Longrightarrow> keeps Q (deladdr_common l family sync_mac clear w)"
  unfolding iccp_event_handler_obj_input_newaddr_def deladdr_common_def Let_def by (intro frame csm_stat; simp?)+

lemma iccp_event_handler_obj_input_deladdr_keeps [frame]:
  "Q w \<Longrightarrow> keeps Q (iccp_event_handler_obj_input_deladdr ifindex ip w)"
  unfolding iccp_event_handler_obj_input_deladdr_def Let_def by (intro frame csm_stat; simp?)+

lemma unique_ip_list_keeps [frame]:
  "Q w \<Longrightarrow> keeps2 Q (set_keepalive_time mid keepalive_time w)"
  "Q w \<Longrightarrow> keeps2 Q (set_session_timeout mid session_timeout w)"
  "Q w \<Longrightarrow> keeps Q (set_local_system_id mac w)"
  "Q w \<Longrightarrow> keeps Q (unset_local_system_id w)"
  "Q w \<Longrightarrow> keeps Q (iccp_mclagsyncd_mclag_iface_cfg_handler b a1 w)"
  "Q w \<Longrightarrow> Q (snd (unique_ip_list xop name w))"
  unfolding set_keepalive_time_def set_session_timeout_def set_local_system_id_def unset_local_system_id_def
    iccp_mclagsyncd_mclag_iface_cfg_handler_def unique_ip_list_def Let_def by (intro frame csm_stat; simp?)+

lemma unique_ip_entry_keeps [frame]:
  "Q w \<Longrightarrow> keeps2 Q (unique_ip_entry op name (r, w))"
  by (cases r rule: prod_cases3, hypsubst, unfold unique_ip_entry_def Let_def case_prod_conv, (intro frame csm_stat; simp)+)

lemma unique_ip_entries_keeps [frame]:
  "Q (snd s) \<Longrightarrow> keeps Q (unique_ip_entries b offs s)"
  by (induction offs arbitrary: s) (unfold unique_ip_entries.simps Let_def, (intro frame; simp)+)

lemma iccp_mclagsyncd_mclag_unique_ip_cfg_handler_keeps [frame]:
  "Q w \<Longrightarrow> keeps Q (iccp_mclagsyncd_mclag_unique_ip_cfg_handler b pos w)"
  unfolding iccp_mclagsyncd_mclag_unique_ip_cfg_handler_def by (intro frame; simp)

lemma SYSTEM_SET_SYNCD_RX_DBG_COUNTER_keeps [frame]:
  "Q w \<Longrightarrow> keeps Q (iccp_mclagsyncd_vlan_mbr_update_handler b a1 w)"
  "Q w \<Longrightarrow> keeps Q (iccp_receive_fdb_handler_from_syncd b a1 w)"
  "Q w \<Longrightarrow> Q (SYSTEM_SET_SYNCD_RX_DBG_COUNTER msg_type status w)"
  unfolding iccp_mclagsyncd_vlan_mbr_update_handler_def iccp_receive_fdb_handler_from_syncd_def
    SYSTEM_SET_SYNCD_RX_DBG_COUNTER_def Let_def by (intro frame csm_stat; simp?)+

lemma first_retry_keeps [frame]:
  "Q w \<Longrightarrow> Q (snd (first_retry rx n w))"
  by (induction rx n w rule: first_retry.induct) (subst first_retry.simps, simp add: updates_keep split: recv_result.split prod.split)

lemma first_recv_keeps [frame]:
  "Q w \<Longrightarrow> Q (snd (first_recv rx w))"
  by (simp add: first_recv_def updates_keep first_retry_keeps split: recv_result.split prod.split)

lemma fetch_keeps [frame]:
  "Q w \<Longrightarrow> keeps2 Q (fetch rx base pending got n zero err w)"
  by (induction rx base pending got n zero err w rule: fetch.induct) (simp_all add: updates_keep frame)

lemma nd_store_keeps [frame]:
  "Q w \<Longrightarrow> Q (queue_arp c m w)"
  "Q w \<Longrightarrow> Q (queue_ndisc c m2 w)"
  "Q w \<Longrightarrow> keeps2 Q (arp_store c e w)"
  "Q w \<Longrightarrow> keeps2 Q (nd_store c e2 w)"
  unfolding queue_arp_def queue_ndisc_def arp_store_def nd_store_def Let_def by (intro frame csm_stat; simp?)+

lemma nd_announce_keeps [frame]:
  "Q w \<Longrightarrow> keeps Q (arp_announce c xop e w)"
  "Q w \<Longrightarrow> keeps Q (nd_announce c xop e2 w)"
  unfolding arp_announce_def nd_announce_def Let_def by (intro frame csm_stat; simp?)+

lemma do_ndisc_learn_from_kernel_keeps [frame]:
  "Q w \<Longrightarrow> keeps Q (do_arp_learn_from_kernel ndm msgtype is_del w)"
  "Q w \<Longrightarrow> keeps Q (do_ndisc_learn_from_kernel ndm msgtype is_del w)"
  unfolding do_arp_learn_from_kernel_def do_ndisc_learn_from_kernel_def Let_def by (intro frame csm_stat; simp?)+

lemma do_ndisc_update_from_reply_packet_keeps [frame]:
  "Q w \<Longrightarrow> keeps Q (do_one_neigh_request n w)"
  "Q w \<Longrightarrow> keeps Q (do_arp_update_from_reply_packet kaddrs ifindex addr mac w)"
  "Q w \<Longrightarrow> keeps Q (do_ndisc_update_from_reply_packet ifindex ipv6_addr mac w)"
  unfolding do_one_neigh_request_def do_arp_update_from_reply_packet_def do_ndisc_update_from_reply_packet_def Let_def by (intro
    frame csm_stat; simp?)+

lemma count_neigh_keeps [frame]:
  "Q w \<Longrightarrow> keeps Q (iccp_receive_arp_packet_handler kaddrs buf ifindex halen w)"
  "Q w \<Longrightarrow> keeps Q (iccp_receive_ndisc_packet_handler buf ifindex w)"
  "Q w \<Longrightarrow> Q (count_neigh n w)"
  unfolding iccp_receive_arp_packet_handler_def iccp_receive_ndisc_packet_handler_def count_neigh_def Let_def by (intro frame
    csm_stat; simp?)+

lemma system_update_netlink_counters_keeps [frame]:
  "Q w \<Longrightarrow> Q (system_update_netlink_counters m w)"
  by (simp add: system_update_netlink_counters_def count_neigh_def Let_def updates_keep split: nl_route_msg.split)

lemma iccp_sys_local_if_list_get_addr_keeps [frame]:
  "Q w \<Longrightarrow> keeps2 Q (iccp_sys_local_if_list_get_addr rounds w)"
  unfolding iccp_sys_local_if_list_get_addr_def case_prod_beta by (intro frame; simp)

lemma iccp_neigh_get_init_keeps [frame]:
  "Q w \<Longrightarrow> keeps2 Q (iccp_neigh_get_init a0 w)"
  unfolding iccp_neigh_get_init_def Let_def by (intro frame csm_stat; simp?)+

lemma iccp_netlink_genic_sock_event_handler_keeps [frame]:
  "Q w \<Longrightarrow> keeps Q (iccp_netlink_genic_sock_event_handler ms ret w)"
  unfolding iccp_netlink_genic_sock_event_handler_def case_prod_beta by (intro frame; simp)

end

end
