(* ===== verification/Session_Frame.thy ===== *)
theory Session_Frame
  imports Frame
begin

text \<open>
  What operations do to sessions: those that move the synchronisation of one domain
  (\<open>mlacp_fsm.c\<close>), and those that open and close sessions, up to the loop of the scheduler.
\<close>

subsection \<open>Operations that move the synchronisation of one domain\<close>

text \<open>
  Connection and queued messages stay as they are, the state of mLACP of one domain moves on
  and never back to the initial state.
\<close>

definition held :: "CSM \<Rightarrow> int \<times> ICCP_CONNECTION_STATE \<times> APP_CONNECTION_STATE \<times> bytes list" where
  "held x = (csm_sock_fd x, csm_current_state x, app_current_state (APP_CSM x), ml_mlacp_msg_list (MLACP x))"

definition progress :: "csm_ptr \<Rightarrow> world \<Rightarrow> world \<Rightarrow> bool" where
  "progress c w w' \<longleftrightarrow> kept held w w'
     \<and> (\<forall>d. d \<noteq> c \<longrightarrow> map_option stat (w_csm w' d) = map_option stat (w_csm w d))
     \<and> (\<forall>x y. w_csm w c = Some x \<and> w_csm w' c = Some y \<and> ml_current_state (MLACP x) \<noteq> MLACP_STATE_INIT
          \<longrightarrow> ml_current_state (MLACP y) \<noteq> MLACP_STATE_INIT)"

declare held_def [simp]

lemma stat_progress: "kept stat w w' \<Longrightarrow> progress c w w'"
  unfolding progress_def
proof (intro conjI allI impI)
  assume *: "kept stat w w'"
  then show "kept held w w'" by (rule kept_view) simp
  show "map_option stat (w_csm w' d) = map_option stat (w_csm w d)" for d
    using * by (simp add: kept_def del: stat_def)
  have "map_option stat (w_csm w' c) = map_option stat (w_csm w c)"
    using * by (simp add: kept_def del: stat_def)
  then show "ml_current_state (MLACP y) \<noteq> MLACP_STATE_INIT"
    if "w_csm w c = Some x \<and> w_csm w' c = Some y \<and> ml_current_state (MLACP x) \<noteq> MLACP_STATE_INIT" for x y
    using that by simp
qed

lemma csm_progress:
  assumes "\<And>x. held (f x) = held x"
    and "\<And>x. ml_current_state (MLACP x) \<noteq> MLACP_STATE_INIT \<Longrightarrow> ml_current_state (MLACP (f x)) \<noteq> MLACP_STATE_INIT"
  shows "progress c w (upd_csm c f w)"
proof -
  have "kept held w (upd_csm c f w)" by (rule kept_upd_csm) (rule assms(1))
  moreover have "w_csm (upd_csm c f w) d = w_csm w d" if "d \<noteq> c" for d using that by simp
  moreover have "ml_current_state (MLACP y) \<noteq> MLACP_STATE_INIT"
    if "w_csm w c = Some x" "w_csm (upd_csm c f w) c = Some y" "ml_current_state (MLACP x) \<noteq> MLACP_STATE_INIT" for x y
    using that assms(2) [of x] by auto
  ultimately show ?thesis unfolding progress_def by metis
qed

lemma next_stage_INIT [simp]: "next_stage s \<noteq> MLACP_STATE_INIT"
  by (cases s) simp_all

locale progress_inv =
  fixes c :: csm_ptr and Q :: "world \<Rightarrow> bool"
  assumes progress: "Q w \<Longrightarrow> progress c w w' \<Longrightarrow> Q w'"

sublocale progress_inv \<subseteq> quiet_inv
  by unfold_locales (blast intro: progress stat_progress)

context progress_inv
begin

lemma csm_moves:
  assumes "Q w" "\<And>x. held (f x) = held x"
    and "\<And>x. ml_current_state (MLACP x) \<noteq> MLACP_STATE_INIT \<Longrightarrow> ml_current_state (MLACP (f x)) \<noteq> MLACP_STATE_INIT"
  shows "Q (upd_csm c f w)"
  using assms(1) by (rule progress) (rule csm_progress [OF assms(2,3)])

lemma send_all_loop_keeps [frame]:
  "Q w \<Longrightarrow> keeps Q (send_all_loop n c w)"
  by (induction n arbitrary: w) (unfold send_all_loop.simps Let_def, (intro frame csm_moves; simp add: updates_keep csm_moves)+)

lemma mlacp_sync_recv_syncData_keeps [frame]:
  "Q w \<Longrightarrow> keeps Q (mlacp_sync_send_all_info_handler c w)"
  "Q w \<Longrightarrow> keeps Q (mlacp_sync_recv_syncData c msg w)"
  unfolding mlacp_sync_send_all_info_handler_def mlacp_sync_recv_syncData_def Let_def by (intro frame csm_moves; simp?)+

lemma mlacp_sync_recv_syncReq_keeps [frame]:
  "Q w \<Longrightarrow> keeps Q (mlacp_sync_recv_syncReq c msg w)"
  unfolding mlacp_sync_recv_syncReq_def Let_def by (intro frame csm_moves; simp?)+

lemma mlacp_stage_sync_send_handler_keeps [frame]:
  "Q w \<Longrightarrow> keeps Q (mlacp_sync_receiver_handler c msg w)"
  "Q w \<Longrightarrow> keeps Q (mlacp_stage_sync_send_handler c msg w)"
  unfolding mlacp_sync_receiver_handler_def mlacp_stage_sync_send_handler_def Let_def by (intro frame csm_moves; simp?)+

lemma mlacp_stage_sync_request_handler_keeps [frame]:
  "Q w \<Longrightarrow> keeps Q (mlacp_stage_sync_request_handler c msg w)"
  unfolding mlacp_stage_sync_request_handler_def Let_def by (intro frame csm_moves; simp?)+

lemma mlacp_exchange_handler_keeps [frame]:
  "Q w \<Longrightarrow> keeps Q (mlacp_stage_handler c msg w)"
  "Q w \<Longrightarrow> keeps Q (mlacp_exchange_handler c msg w)"
  unfolding mlacp_stage_handler_def mlacp_exchange_handler_def Let_def by (intro frame csm_moves; simp?)+

lemma transit_state_keeps [frame]:
  "Q w \<Longrightarrow> keeps Q (transit_state c msg w)"
  unfolding transit_state_def Let_def by (intro frame csm_moves; simp?)+

end

subsection \<open>Operations that open and close sessions\<close>

text \<open>The operations that change the state of sessions otherwise are the laws, all else follows.\<close>

locale session_inv = quiet_inv +
  assumes disconnect [frame]: "Q w \<Longrightarrow> keeps Q (scheduler_session_disconnect_handler c w)"
    and finalize [frame]: "Q w \<Longrightarrow> keeps Q (iccp_csm_finalize c w)"
    and create [frame]: "Q w \<Longrightarrow> keeps2 Q (system_create_csm w)"
    and accept [frame]: "Q w \<Longrightarrow> keeps2 Q (scheduler_server_accept fd ip w)"
    and callback [frame]: "Q w \<Longrightarrow> keeps2 Q (scheduler_csm_read_callback c rx w)"
    and transit [frame]: "Q w \<Longrightarrow> keeps Q (scheduler_transit_fsm w)"
begin

lemma local_if_destroy_keeps [frame]:
  "Q w \<Longrightarrow> keeps Q (local_if_destroy ifname w)"
  unfolding local_if_destroy_def Let_def by (intro frame csm_stat; simp?)+

lemma newlink_create_keeps [frame]:
  "Q w \<Longrightarrow> keeps Q (newlink_create known k w)"
  unfolding newlink_create_def Let_def by (intro frame csm_stat; simp?)+

lemma unset_mc_lag_id_keeps [frame]:
  "Q w \<Longrightarrow> keeps Q (iccp_event_handler_obj_input_newlink k w)"
  "Q w \<Longrightarrow> keeps Q (iccp_event_handler_obj_input_dellink ifindex w)"
  "Q w \<Longrightarrow> keeps2 Q (set_mc_lag_by_id mid w)"
  "Q w \<Longrightarrow> keeps2 Q (unset_mc_lag_id c w)"
  unfolding iccp_event_handler_obj_input_newlink_def iccp_event_handler_obj_input_dellink_def set_mc_lag_by_id_def
    unset_mc_lag_id_def Let_def by (intro frame csm_stat; simp?)+

lemma set_peer_address_keeps [frame]:
  "Q w \<Longrightarrow> keeps2 Q (unset_mc_lag_by_id mid w)"
  "Q w \<Longrightarrow> keeps2 Q (set_peer_link mid2 ifname w)"
  "Q w \<Longrightarrow> keeps2 Q (unset_peer_link mid2 w)"
  "Q w \<Longrightarrow> keeps2 Q (set_local_address mid2 addr w)"
  "Q w \<Longrightarrow> keeps2 Q (unset_local_address mid2 w)"
  "Q w \<Longrightarrow> keeps2 Q (set_peer_address mid2 addr w)"
  unfolding unset_mc_lag_by_id_def set_peer_link_def unset_peer_link_def set_local_address_def unset_local_address_def
    set_peer_address_def Let_def by (intro frame csm_stat; simp?)+

lemma domain_cfg_set_keeps [frame]:
  "Q w \<Longrightarrow> keeps2 Q (unset_peer_address mid w)"
  "Q w \<Longrightarrow> keeps Q (domain_cfg_set i w)"
  unfolding unset_peer_address_def domain_cfg_set_def Let_def by (intro frame csm_stat; simp?)+

lemma domain_cfg_unset_keeps [frame]:
  "Q w \<Longrightarrow> keeps Q (domain_cfg_unset i w)"
  unfolding domain_cfg_unset_def Let_def by (intro frame csm_stat; simp?)+

lemma iccp_mclagsyncd_mclag_domain_cfg_handler_keeps [frame]:
  "Q w \<Longrightarrow> keeps Q (iccp_mclagsyncd_mclag_domain_cfg_handler b a1 w)"
  unfolding iccp_mclagsyncd_mclag_domain_cfg_handler_def Let_def by (intro frame csm_stat; simp?)+

lemma syncd_dispatch_keeps [frame]:
  "Q w \<Longrightarrow> keeps Q (syncd_dispatch b pos w)"
  unfolding syncd_dispatch_def Let_def by (intro frame csm_stat; simp?)+

lemma syncd_msgs_keeps [frame]:
  "Q w \<Longrightarrow> keeps2 Q (syncd_msgs fuel b num pos n rx w)"
  by (induction fuel arbitrary: b pos n rx w) (unfold syncd_msgs.simps Let_def case_prod_conv, (intro frame; simp)+)

lemma iccp_mclagsyncd_msg_handler_keeps [frame]:
  "Q w \<Longrightarrow> keeps2 Q (iccp_mclagsyncd_msg_handler rx w)"
  using first_recv_keeps [of w rx]
  by (auto simp: iccp_mclagsyncd_msg_handler_def keeps_ends syncd_msgs_keeps split: prod.split option.split)

lemma iccp_route_event_handler_keeps [frame]:
  "Q w \<Longrightarrow> keeps2 Q (iccp_route_event_handler m w)"
  unfolding iccp_route_event_handler_def Let_def by (cases m; simp only: nl_route_msg.case; intro frame; simp)

lemma route_datagram_keeps [frame]:
  "Q w \<Longrightarrow> keeps Q (route_datagram ms w)"
  by (induction ms arbitrary: w) (unfold route_datagram.simps case_prod_conv, (intro frame; simp)+)

lemma iccp_sys_local_if_list_get_init_keeps [frame]:
  "Q w \<Longrightarrow> keeps2 Q (iccp_sys_local_if_list_get_init a0 w)"
  unfolding iccp_sys_local_if_list_get_init_def Let_def by (intro frame csm_stat; simp?)+

lemma iccp_netlink_sync_again_keeps [frame]:
  "Q w \<Longrightarrow> keeps Q (iccp_netlink_sync_again links w)"
  unfolding iccp_netlink_sync_again_def Let_def by (intro frame csm_stat; simp?)+

lemma iccp_netlink_route_sock_event_handler_keeps [frame]:
  "Q w \<Longrightarrow> keeps Q (iccp_netlink_route_sock_event_handler ms ret links w)"
  unfolding iccp_netlink_route_sock_event_handler_def Let_def by (intro frame csm_stat; simp?)+

lemma read_peer_keeps [frame]:
  "Q w \<Longrightarrow> keeps Q (read_peer cs fd rx w)"
  by (induction cs arbitrary: w) (unfold read_peer.simps case_prod_conv, (intro frame; simp)+)

lemma handle_event_keeps [frame]:
  "Q w \<Longrightarrow> keeps Q (handle_event ev w)"
  unfolding handle_event_def by (cases ev; simp only: fd_event.case; intro frame; simp)

lemma iccp_handle_events_keeps [frame]:
  "Q w \<Longrightarrow> keeps Q (iccp_handle_events a0 w)"
  unfolding iccp_handle_events_def Let_def by (intro frame csm_stat; simp?)+

lemma scheduler_turn_keeps [frame]:
  "Q w \<Longrightarrow> keeps Q (scheduler_turn now evs w)"
  unfolding scheduler_turn_def Let_def by (intro frame csm_stat; simp?)+

lemma scheduler_loop_keeps [frame]:
  "Q w \<Longrightarrow> keeps Q (scheduler_loop turns w)"
  by (induction turns arbitrary: w rule: list.induct) (auto simp: frame)

lemma finalize_domains_keeps [frame]:
  "Q w \<Longrightarrow> keeps Q (finalize_domains n w)"
  by (induction n arbitrary: w) (unfold finalize_domains.simps Let_def, (intro frame; simp)+)

lemma system_finalize_keeps [frame]:
  "Q w \<Longrightarrow> keeps Q (system_finalize w)"
  unfolding system_finalize_def Let_def by (intro frame csm_stat; simp?)+

end

end
