(* ===== verification/Loop_Invariant.thy ===== *)
theory Loop_Invariant
  imports Session_Frame
begin

text \<open>
  The invariant of the loop of the scheduler: the list of domains is sound, and a domain
  without connection is in the initial state of both state machines. It makes the branches of
  the code that tear a domain down in the middle of a turn unreachable, so the loop over
  the domains never follows the link of a domain that was freed.
\<close>

subsection \<open>Domains\<close>

definition domains :: "csm_ptr list \<Rightarrow> csm_ptr list \<Rightarrow> (csm_ptr \<Rightarrow> CSM \<Rightarrow> bool) \<Rightarrow> world \<Rightarrow> bool" where
  "domains ls cs P w \<longleftrightarrow> sys_csm_list (w_sys w) = ls \<and> distinct cs
     \<and> (\<forall>c \<in> set cs. c < w_fresh w \<and> (\<exists>x. w_csm w c = Some x \<and> P c x))"

lemma domains_csm:
  assumes "domains ls cs P w" "\<And>x. w_csm w c = Some x \<Longrightarrow> P c x \<Longrightarrow> P' c (f x)" "\<And>d x. d \<noteq> c \<Longrightarrow> P d x \<Longrightarrow> P' d x"
  shows "domains ls cs P' (upd_csm c f w)"
  using assms unfolding domains_def by auto

lemma domains_mono:
  assumes "domains ls cs P w" "\<And>d x. w_csm w d = Some x \<Longrightarrow> P d x \<Longrightarrow> P' d x"
  shows "domains ls cs P' w"
  using assms unfolding domains_def by blast

lemma domains_get: "domains ls cs P w \<Longrightarrow> c \<in> set cs \<Longrightarrow> \<exists>x. w_csm w c = Some x \<and> P c x"
  unfolding domains_def by blast

lemma kept_some:
  assumes "kept view w w'" "w_csm w c = Some x"
  shows "\<exists>y. w_csm w' c = Some y \<and> view y = view x"
proof -
  have "map_option view (w_csm w' c) = map_option view (w_csm w c)" using assms(1) unfolding kept_def by blast
  then show ?thesis using assms(2) by auto
qed

lemma domains_kept:
  assumes "domains ls cs P w" "kept view w w'" "\<And>d x y. view y = view x \<Longrightarrow> P d x \<Longrightarrow> P d y"
  shows "domains ls cs P w'"
proof -
  have "\<exists>y. w_csm w' d = Some y \<and> P d y" if "d \<in> set cs" for d
    using domains_get [OF assms(1) that] kept_some [OF assms(2)] assms(3) by metis
  then show ?thesis using assms(1,2) unfolding domains_def kept_def by fastforce
qed

subsection \<open>Sessions\<close>

definition session_ok :: "CSM \<Rightarrow> bool" where
  "session_ok x \<longleftrightarrow>
     (csm_sock_fd x \<le> 0 \<longrightarrow> csm_current_state x = ICCP_NONEXISTENT \<and> ml_current_state (MLACP x) = MLACP_STATE_INIT)
   \<and> (ml_current_state (MLACP x) \<noteq> MLACP_STATE_INIT \<longrightarrow> app_current_state (APP_CSM x) = APP_OPERATIONAL)"

definition sessions_ok :: "csm_ptr list \<Rightarrow> csm_ptr list \<Rightarrow> world \<Rightarrow> bool" where
  "sessions_ok ls cs = domains ls cs (\<lambda>_. session_ok)"

text \<open>All sessions but one; one session closed; one with a connection; one past its initial state; one with mLACP running.\<close>

definition others_ok :: "csm_ptr \<Rightarrow> csm_ptr list \<Rightarrow> csm_ptr list \<Rightarrow> world \<Rightarrow> bool" where
  "others_ok c ls cs = domains ls cs (\<lambda>d x. d \<noteq> c \<longrightarrow> session_ok x)"

definition closed_ok :: "csm_ptr \<Rightarrow> csm_ptr list \<Rightarrow> csm_ptr list \<Rightarrow> world \<Rightarrow> bool" where
  "closed_ok c ls cs = domains ls cs (\<lambda>d x. session_ok x \<and> (d = c \<longrightarrow> csm_sock_fd x \<le> 0))"

definition conn_ok :: "csm_ptr \<Rightarrow> csm_ptr list \<Rightarrow> csm_ptr list \<Rightarrow> world \<Rightarrow> bool" where
  "conn_ok c ls cs = domains ls cs (\<lambda>d x. session_ok x \<and> (d = c \<longrightarrow> csm_sock_fd x > 0))"

definition open_ok :: "csm_ptr \<Rightarrow> csm_ptr list \<Rightarrow> csm_ptr list \<Rightarrow> world \<Rightarrow> bool" where
  "open_ok c ls cs = domains ls cs (\<lambda>d x. session_ok x
     \<and> (d = c \<longrightarrow> csm_sock_fd x > 0 \<and> csm_current_state x \<noteq> ICCP_NONEXISTENT))"

definition sync_ok :: "csm_ptr \<Rightarrow> csm_ptr list \<Rightarrow> csm_ptr list \<Rightarrow> world \<Rightarrow> bool" where
  "sync_ok c ls cs = domains ls cs (\<lambda>d x. session_ok x
     \<and> (d = c \<longrightarrow> csm_sock_fd x > 0 \<and> app_current_state (APP_CSM x) = APP_OPERATIONAL))"

lemmas ok_defs = sessions_ok_def others_ok_def closed_ok_def conn_ok_def open_ok_def sync_ok_def

interpretation all_ok: quiet_inv "sessions_ok ls cs" for ls cs
  by unfold_locales (auto simp: ok_defs session_ok_def elim!: domains_kept)

interpretation but_one: quiet_inv "others_ok c ls cs" for c ls cs
  by unfold_locales (auto simp: ok_defs session_ok_def elim!: domains_kept)

interpretation one_closed: quiet_inv "closed_ok c ls cs" for c ls cs
  by unfold_locales (auto simp: ok_defs session_ok_def elim!: domains_kept)

interpretation one_connected: quiet_inv "conn_ok c ls cs" for c ls cs
  by unfold_locales (auto simp: ok_defs session_ok_def elim!: domains_kept)

interpretation one_open: quiet_inv "open_ok c ls cs" for c ls cs
  by unfold_locales (auto simp: ok_defs session_ok_def elim!: domains_kept)

lemma sync_ok_progress:
  assumes "sync_ok c ls cs w" "progress c w w'"
  shows "sync_ok c ls cs w'"
proof -
  let ?P = "\<lambda>d x. session_ok x \<and> (d = c \<longrightarrow> csm_sock_fd x > 0 \<and> app_current_state (APP_CSM x) = APP_OPERATIONAL)"
  have "\<exists>y. w_csm w' d = Some y \<and> ?P d y" if d: "d \<in> set cs" for d
  proof -
    obtain x where x: "w_csm w d = Some x" "?P d x" using domains_get assms(1) d unfolding sync_ok_def by blast
    obtain y where y: "w_csm w' d = Some y" "held y = held x"
      using kept_some x(1) assms(2) unfolding progress_def by blast
    have "d \<noteq> c \<Longrightarrow> map_option stat (w_csm w' d) = map_option stat (w_csm w d)"
      using assms(2) unfolding progress_def by blast
    then have "?P d y" using x y by (cases "d = c") (auto simp: session_ok_def)
    then show ?thesis using y(1) by blast
  qed
  then show ?thesis using assms unfolding sync_ok_def domains_def progress_def kept_def by fastforce
qed

interpretation one_syncing: progress_inv c "sync_ok c ls cs" for c ls cs
  by unfold_locales (rule sync_ok_progress)

subsection \<open>Closing a session\<close>

lemma sessions_csm:
  "sessions_ok ls cs w \<Longrightarrow> (\<And>x. w_csm w c = Some x \<Longrightarrow> session_ok x \<Longrightarrow> session_ok (f x)) \<Longrightarrow> sessions_ok ls cs (upd_csm c f w)"
  unfolding sessions_ok_def by (rule domains_csm)

lemma others_csm: "others_ok c ls cs w \<Longrightarrow> others_ok c ls cs (upd_csm c f w)"
  unfolding others_ok_def by (erule domains_csm) auto

lemma sessions_others: "sessions_ok ls cs w \<Longrightarrow> others_ok c ls cs w"
  unfolding ok_defs by (erule domains_mono) simp

lemma drop_msgs_keeps: "sessions_ok ls cs w \<Longrightarrow> keeps (sessions_ok ls cs) (drop_msgs c w)"
  unfolding drop_msgs_def Let_def by (intro frame sessions_csm; simp add: session_ok_def)

lemma mlacp_finalize_keeps: "sessions_ok ls cs w \<Longrightarrow> keeps (sessions_ok ls cs) (mlacp_finalize c w)"
  unfolding mlacp_finalize_def Let_def by (intro frame drop_msgs_keeps all_ok.csm_stat; simp)

lemma mlacp_init_keeps:
  assumes "domains ls cs (\<lambda>d x. if d = c then csm_sock_fd x \<le> 0 \<and> csm_current_state x = ICCP_NONEXISTENT else session_ok x) w"
  shows "keeps (sessions_ok ls cs) (mlacp_init c all w)"
proof -
  have start: "sessions_ok ls cs (upd_mlacp c (\<lambda>m. m\<lparr>ml_sync_req_num := - 1, ml_need_to_sync := 0, ml_error_msg := None,
      ml_current_state := MLACP_STATE_INIT, ml_remote_system := (ml_remote_system m)\<lparr>rs_system_id := null_mac\<rparr>\<rparr>) w)"
    unfolding sessions_ok_def by (rule domains_csm [OF assms]) (auto simp: session_ok_def)
  show ?thesis unfolding mlacp_init_def Let_def
    by (intro frame drop_msgs_keeps; (rule start | (intro all_ok.csm_stat; simp))?)
qed

lemma status_reset_keeps:
  assumes "others_ok c ls cs w"
  shows "keeps (sessions_ok ls cs) (iccp_csm_status_reset c all w)"
proof -
  let ?P = "\<lambda>d x. if d = c then csm_sock_fd x \<le> 0 \<and> csm_current_state x = ICCP_NONEXISTENT else session_ok x"
  have "domains ls cs ?P (upd_csm c (reset_csm all) w)"
    by (rule domains_csm [OF assms [unfolded others_ok_def]]) (simp_all add: reset_csm_def)
  then have start: "domains ls cs ?P (upd_csm c (csm_app_csm_update f) (upd_csm c (reset_csm all) w))" for f
    by (rule domains_csm) auto
  show ?thesis unfolding iccp_csm_status_reset_def app_csm_init_def
    by (intro frame mlacp_init_keeps start; intro all_ok.csm_stat; simp)
qed

lemma disconnect_keeps:
  assumes "sessions_ok ls cs w"
  shows "keeps (sessions_ok ls cs) (scheduler_session_disconnect_handler c w)"
proof -
  have others: "others_ok c ls cs w" by (rule sessions_others [OF assms])
  have socket: "others_ok c ls cs w \<Longrightarrow> keeps (others_ok c ls cs) (scheduler_csm_socket_cleanup c w)" for w
    unfolding scheduler_csm_socket_cleanup_def Let_def by (intro frame others_csm; simp)
  have reset: "others_ok c ls cs w \<Longrightarrow> keeps (sessions_ok ls cs) (iccp_csm_status_reset c False w
      \<bind> (\<lambda>w. Some (upd_csm c (csm_connTimePrev_update (\<lambda>_. w_now w)) w)))" for w
    by (intro frame status_reset_keeps all_ok.csm_stat; simp)
  have mlacp: "others_ok c ls cs w \<Longrightarrow> keeps (sessions_ok ls cs) (mlacp_peer_disconn_handler c w \<bind> (\<lambda>w.
      iccp_csm_status_reset c False (upd_mlacp c (ml_current_state_update (\<lambda>_. MLACP_STATE_INIT)) w)
      \<bind> (\<lambda>w. Some (upd_csm c (csm_connTimePrev_update (\<lambda>_. w_now w)) w))))" for w
    by (rule keeps_via [of "others_ok c ls cs"]) (intro frame reset others_csm; simp)+
  show ?thesis unfolding scheduler_session_disconnect_handler_def Let_def
    by (rule keeps_look, rule keeps_via [of "others_ok c ls cs"]) (intro frame socket mlacp; simp add: others)+
qed

lemma finalize_keeps:
  assumes "sessions_ok cs cs w"
  shows "keeps (\<lambda>w. sessions_ok (remove1 c cs) (remove1 c cs) w) (iccp_csm_finalize c w)"
proof -
  have free: "sessions_ok (remove1 c cs) (remove1 c cs) (upd_sys (sys_csm_list_update (remove1 c)) (w\<lparr>w_csm := (w_csm w)(c := None)\<rparr>))"
    if "sessions_ok cs cs w" for w
    using that by (auto simp: sessions_ok_def domains_def)
  have detach: "keeps (sessions_ok cs cs) (foreach (\<lambda>l w. do {
      lif \<leftarrow> w_lif w l;
      map_option snd (iccp_cli_detach_mclag_domain_to_port_channel (lif_name lif) w) }) ls w)" if "sessions_ok cs cs w" for ls w
    by (intro frame; simp add: that)
  have fin: "keeps (sessions_ok cs cs) (app_csm_finalize c w)" if "sessions_ok cs cs w" for w
    unfolding app_csm_finalize_def by (rule mlacp_finalize_keeps [OF that])
  have learn: "keeps (sessions_ok cs cs) (set_peerlink_mlag_port_learn x 1 w \<bind> set_peerlink_learn_kernel c 1)" for x
    by (intro frame; simp add: assms)
  show ?thesis unfolding iccp_csm_finalize_def
    by (rule keeps_look, rule keeps_via(1) [of "sessions_ok cs cs"], (intro frame learn; simp add: assms),
        rule keeps_via(1) [OF disconnect_keeps], assumption, rule keeps_look, rule keeps_via(1) [OF detach], assumption,
        rule keeps_via(1) [OF fin], assumption, rule keeps_look, rule keeps_via(1) [of "sessions_ok cs cs"], (intro frame; simp),
        rule keeps_ends, erule free)
qed

subsection \<open>Opening a session\<close>

lemma create_keeps:
  assumes "sessions_ok cs cs w"
  shows "keeps2 (\<lambda>w. sessions_ok (sys_csm_list (w_sys w)) (sys_csm_list (w_sys w)) w) (system_create_csm w)"
proof -
  obtain ok v where ok: "malloc_ok w = (ok, v)" by (metis surj_pair)
  then have v: "sessions_ok cs cs v" using all_ok.updates_keep(3) [OF assms] by simp
  then have l: "sys_csm_list (w_sys v) = cs" by (simp add: sessions_ok_def domains_def)
  let ?c = "w_fresh v"
  have fresh: "others_ok ?c cs (?c # cs) (v\<lparr>w_csm := (w_csm v)(?c \<mapsto> zero_CSM), w_fresh := ?c + 1\<rparr>)"
    using v by (force simp: ok_defs domains_def)
  have init: "keeps (sessions_ok cs (?c # cs)) (iccp_csm_init ?c (v\<lparr>w_csm := (w_csm v)(?c \<mapsto> zero_CSM), w_fresh := ?c + 1\<rparr>))"
    unfolding iccp_csm_init_def
    by (rule keeps_via(1) [OF status_reset_keeps [OF fresh]]) (intro frame all_ok.csm_stat; simp)
  have link: "sessions_ok (?c # cs) (?c # cs) (upd_sys (sys_csm_list_update (\<lambda>cs. ?c # cs)) w')"
    "sys_csm_list (w_sys w') = cs" if "sessions_ok cs (?c # cs) w'" for w'
    using that by (simp_all add: sessions_ok_def domains_def)
  show ?thesis
  proof (cases ok)
    case True
    show ?thesis unfolding system_create_csm_def ok Let_def case_prod_conv
      by (simp only: True not_True_eq_False if_False) (rule keeps_via(2) [OF init], rule keeps_ends, simp add: link)
  qed (simp add: system_create_csm_def ok keeps2_def l v)
qed

text \<open>A connection is only opened for a session that has none.\<close>

lemma sessions_closed:
  "sessions_ok ls cs w \<Longrightarrow> w_csm w c = Some x \<Longrightarrow> csm_sock_fd x \<le> 0 \<Longrightarrow> closed_ok c ls cs w"
  unfolding ok_defs by (erule domains_mono) auto

lemma closed_sessions: "closed_ok c ls cs w \<Longrightarrow> sessions_ok ls cs w"
  unfolding ok_defs by (erule domains_mono) simp

lemma closed_opens:
  assumes "closed_ok c ls cs w" "\<And>x. ml_current_state (MLACP (f x)) = ml_current_state (MLACP x)"
    and "\<And>x. csm_current_state x = ICCP_NONEXISTENT \<Longrightarrow> csm_current_state (f x) = ICCP_NONEXISTENT"
  shows "sessions_ok ls cs (upd_csm c f w)"
  using assms unfolding ok_defs by (elim domains_csm) (auto simp: session_ok_def)

lemma accept_keeps:
  assumes "sessions_ok ls cs w"
  shows "keeps2 (sessions_ok ls cs) (scheduler_server_accept fd ip w)"
proof -
  let ?reject = "\<lambda>w. Some (MCLAG_ERROR, if fd \<ge> 0 then emit (Ev_close fd) w else w)"
  let ?connect = "\<lambda>c (ret, w). if ret < 0 then ?reject w else (case answer 0 w of (err, w) \<Rightarrow>
      if err \<noteq> 0 then ?reject w
      else Some (0, upd_sys (\<lambda>s. s\<lparr>sys_readfd := fd # sys_readfd s, sys_readfd_count := sys_readfd_count s + 1\<rparr>)
        (upd_csm c (\<lambda>x. x\<lparr>csm_sock_fd := fd, csm_current_state := ICCP_NONEXISTENT\<rparr>) w)))"
  have reject: "sessions_ok ls cs w \<Longrightarrow> keeps2 (sessions_ok ls cs) (?reject w)" for w
    by (intro frame; simp)
  have closed: "keeps2 (sessions_ok ls cs) (scheduler_check_csm_config c w \<bind> ?connect c)" if w: "closed_ok c ls cs w" for c
    by (rule keeps_via(4) [of "closed_ok c ls cs"], intro frame, rule w, unfold case_prod_conv, rule keeps_join,
        rule reject, erule closed_sessions, rule keeps_let_via(2) [of "closed_ok c ls cs"], intro frame, assumption,
        rule keeps_join, rule reject, erule closed_sessions, intro frame closed_opens; simp)
  have found: "keeps2 (sessions_ok ls cs) (w_csm w c \<bind> (\<lambda>csm. if csm_sock_fd csm > 0 then ?reject w
      else scheduler_check_csm_config c w \<bind> ?connect c))" for c
  proof (cases "w_csm w c")
    case (Some x)
    show ?thesis by (cases "csm_sock_fd x > 0") (use Some reject assms closed sessions_closed in \<open>simp_all\<close>)
  qed (simp add: keeps2_def)
  show ?thesis unfolding scheduler_server_accept_def Let_def
    by (intro keeps_join found reject assms keeps_ends(2) keeps_lookups(16); simp add: assms)
qed

text \<open>The client side: whatever becomes of the socket, the session had no connection before.\<close>

lemma client_conn_keeps:
  assumes "closed_ok c ls cs w"
  shows "keeps (sessions_ok ls cs) (session_client_conn_handler c w)"
proof -
  have step: "closed_ok c ls cs v" if "closed_ok c ls cs u" "answer d u = (r, v)" for d r u v
    using one_closed.updates_keep(2) [OF that(1), of d] that(2) by simp
  obtain a wa b wb e we g wg where ans: "answer 3 w = (a, wa)" "answer 0 wa = (b, wb)" "answer 0 wb = (e, we)" "answer 0 we = (g, wg)"
    by (metis surj_pair)
  have closed: "closed_ok c ls cs wa" "closed_ok c ls cs wb" "closed_ok c ls cs we" "closed_ok c ls cs wg"
    using step assms ans by blast+
  note sessions = closed [THEN closed_sessions]
  have fail: "sessions_ok ls cs (if a \<ge> 0 then emit (Ev_close a) (upd_csm c (csm_sock_fd_update (\<lambda>_. - 1)) u) else u)"
    if "closed_ok c ls cs u" for u
    using closed_opens [OF that, of "csm_sock_fd_update (\<lambda>_. - 1)"] closed_sessions [OF that]
    by (simp add: all_ok.updates_keep)
  show ?thesis unfolding session_client_conn_handler_def Let_def ans case_prod_conv
    by (intro keeps_lookups(1) keeps_ends(1) all_ok.csm_stat all_ok.join_keeps(3) all_ok.updates_keep fail closed closed_opens; simp)
qed

lemma prepare_keeps:
  assumes "sessions_ok ls cs w"
  shows "keeps (sessions_ok ls cs) (scheduler_prepare_session c w)"
proof -
  have conn: "keeps (sessions_ok ls cs) (scheduler_check_csm_config c v \<bind> (\<lambda>(ret, w). w_csm w c \<bind> (\<lambda>csm.
      if ret < 0 then Some w
      else if inet_addr (csm_sender_ip csm) \<ge> inet_addr (csm_peer_ip csm) then Some w
      else session_client_conn_handler c w)))" if v: "closed_ok c ls cs v" for v
    by (rule keeps_via(3) [of "closed_ok c ls cs"], intro frame, rule v, unfold case_prod_conv)
      (intro keeps_lookups(1) keeps_join(1) keeps_ends(1) client_conn_keeps; simp add: closed_sessions)
  have stamp: "sessions_ok ls cs (if b then upd_csm c (csm_connTimePrev_update f) w else w)" for b f
    by (intro frame all_ok.csm_stat; simp add: assms)
  show ?thesis unfolding scheduler_prepare_session_def Let_def
  proof (rule keeps_look(1), goal_cases)
    case (1 x)
    let ?w = "if csm_connTimePrev x = 0 then upd_csm c (csm_connTimePrev_update (\<lambda>_. w_now w)) w else w"
    show ?case
    proof (cases "w_csm ?w c")
      case (Some y)
      have closed: "csm_sock_fd y \<le> 0 \<Longrightarrow> closed_ok c ls cs ?w" using sessions_closed [OF stamp Some] .
      show ?thesis unfolding Some Option.bind.bind_lunit
        by (rule keeps_join, rule keeps_ends, rule stamp, rule keeps_via(1) [of "sessions_ok ls cs"],
            cases "csm_sock_fd y > 0", use stamp keeps_ends in simp, use conn [OF closed] in simp)
          (intro frame all_ok.csm_stat; simp)
    qed (simp add: keeps_def)
  qed
qed

subsection \<open>Moving a session\<close>

lemma correspond_parts_stat:
  "iccp_csm_check_id_from_msg x m = Some y \<Longrightarrow> stat y = stat x"
  "iccp_csm_correspond_from_capability_msg x m = Some y \<Longrightarrow> stat y = stat x"
  "iccp_csm_correspond_from_rg_connect_msg x m = Some y \<Longrightarrow> stat y = stat x"
  "iccp_csm_correspond_from_rg_disconnect_msg x m = Some y \<Longrightarrow> stat y = stat x"
  unfolding iccp_csm_check_id_from_msg_def iccp_csm_correspond_from_capability_msg_def
    iccp_csm_correspond_from_rg_connect_msg_def iccp_csm_correspond_from_rg_disconnect_msg_def Let_def
  by (auto split: Option.bind_splits if_splits)

lemma correspond_stat: "iccp_csm_correspond_from_msg x m = Some y \<Longrightarrow> stat y = stat x"
  unfolding iccp_csm_correspond_from_msg_def Let_def
  by (auto split: Option.bind_splits if_splits simp del: stat_def dest!: correspond_parts_stat) simp_all

lemma apply_msg_keeps: "open_ok c ls cs w \<Longrightarrow> keeps (open_ok c ls cs) (apply_msg c m w)"
  unfolding apply_msg_def keeps_def
  by (auto split: option.splits Option.bind_splits simp del: stat_def intro: one_open.csm_replace dest: correspond_stat)

lemma open_state: "open_ok c ls cs w \<Longrightarrow> s \<noteq> ICCP_NONEXISTENT \<Longrightarrow> open_ok c ls cs (upd_csm c (csm_current_state_update (\<lambda>_. s)) w)"
  unfolding open_ok_def by (erule domains_csm) (auto simp: session_ok_def)

lemma csm_step_open:
  assumes "open_ok c ls cs w" "s \<noteq> ICCP_NONEXISTENT"
  shows "keeps (open_ok c ls cs) (csm_step c m s w)"
  using assms unfolding csm_step_def Let_def
  by (cases s; simp only: ICCP_CONNECTION_STATE.case; (intro frame apply_msg_keeps open_state; simp)?)

lemma sessions_conn:
  "sessions_ok ls cs w \<Longrightarrow> w_csm w c = Some x \<Longrightarrow> csm_sock_fd x > 0 \<Longrightarrow> conn_ok c ls cs w"
  unfolding ok_defs by (erule domains_mono) auto

lemma conn_sessions: "conn_ok c ls cs w \<Longrightarrow> sessions_ok ls cs w"
  unfolding ok_defs by (erule domains_mono) simp

lemma conn_state: "conn_ok c ls cs w \<Longrightarrow> sessions_ok ls cs (upd_csm c (csm_current_state_update f) w)"
  unfolding ok_defs by (erule domains_csm) (auto simp: session_ok_def)

lemma open_sessions: "open_ok c ls cs w \<Longrightarrow> sessions_ok ls cs w"
  unfolding ok_defs by (erule domains_mono) simp

lemma csm_step_first:
  assumes "sessions_ok ls cs w"
  shows "keeps (sessions_ok ls cs) (csm_step c m ICCP_NONEXISTENT w)"
proof -
  have init: "keeps (sessions_ok ls cs) (scheduler_check_csm_config c v \<bind> (\<lambda>(ret, w).
      Some (if ret > 0 then upd_csm c (csm_current_state_update (\<lambda>_. ICCP_INITIALIZED)) w else w)))"
    if v: "conn_ok c ls cs v" for v
    by (rule keeps_via(3) [of "conn_ok c ls cs"], intro frame, rule v, unfold case_prod_conv)
      (intro keeps_ends all_ok.join_keeps conn_state; simp add: conn_sessions)
  have after: "keeps (sessions_ok ls cs) (w_csm v c \<bind> (\<lambda>csm. if csm_sock_fd csm > 0
      then scheduler_check_csm_config c v \<bind> (\<lambda>(ret, w).
        Some (if ret > 0 then upd_csm c (csm_current_state_update (\<lambda>_. ICCP_INITIALIZED)) w else w))
      else Some v))" if v: "sessions_ok ls cs v" for v
  proof (cases "w_csm v c")
    case (Some x)
    show ?thesis unfolding Some Option.bind.bind_lunit
      by (cases "csm_sock_fd x > 0") (use init [OF sessions_conn [OF v Some]] v keeps_ends in simp_all)
  qed (simp add: keeps_def)
  show ?thesis unfolding csm_step_def Let_def ICCP_CONNECTION_STATE.case
    by (rule keeps_via(1) [OF prepare_keeps [OF assms]]) (rule after)
qed

lemma dequeue_stat: "stat (snd (iccp_csm_dequeue_msg x)) = stat x"
  by (simp add: iccp_csm_dequeue_msg_def split: list.split)

text \<open>The branches that tear the domain down are never taken.\<close>

lemma iccp_csm_transit_eq:
  assumes w: "sessions_ok ls cs w" and c: "c \<in> set cs"
  shows "iccp_csm_transit c w = do {
     csm \<leftarrow> w_csm w c;
     let (msg, csm') = iccp_csm_dequeue_msg csm;
     w \<leftarrow> csm_step c msg (csm_current_state csm) (upd_csm c (\<lambda>_. csm') w);
     csm2 \<leftarrow> w_csm w c;
     Some (if csm_current_state csm \<noteq> csm_current_state csm2 \<or> csm_current_state csm2 \<noteq> ICCP_NONEXISTENT \<and> msg \<noteq> None
           then upd_csm c (csm_iccp_info_update (enter_state (csm_current_state csm2))) w else w) }"
proof -
  obtain x where x: "w_csm w c = Some x" "session_ok x" using domains_get w c unfolding sessions_ok_def by blast
  obtain m y where m: "iccp_csm_dequeue_msg x = (m, y)" by (metis surj_pair)
  then have y: "stat y = stat x" using dequeue_stat [of x] by simp
  let ?s = "csm_current_state x"
  have "csm_current_state z \<noteq> ICCP_NONEXISTENT"
    if s: "?s \<noteq> ICCP_NONEXISTENT" and v: "csm_step c m ?s (upd_csm c (\<lambda>_. y) w) = Some v" "w_csm v c = Some z" for v z
  proof -
    have "open_ok c ls cs w" using w s x unfolding ok_defs by (elim domains_mono) (auto simp: session_ok_def)
    then have "open_ok c ls cs v"
      using csm_step_open [OF one_open.csm_replace [OF _ x(1) y] s] v(1) unfolding keeps_def by blast
    then show ?thesis using domains_get [OF _ c] v(2) unfolding open_ok_def by fastforce
  qed
  moreover have "?s \<noteq> ICCP_NONEXISTENT \<Longrightarrow> csm_sock_fd x > 0" using x(2) by (auto simp: session_ok_def)
  ultimately show ?thesis unfolding iccp_csm_transit_def
    by (auto simp: x(1) m Let_def intro!: Option.bind_cong)
qed

lemma iccp_csm_transit_keeps:
  assumes w: "sessions_ok ls cs w" and c: "c \<in> set cs"
  shows "keeps (sessions_ok ls cs) (iccp_csm_transit c w)"
proof -
  obtain x where x: "w_csm w c = Some x" "session_ok x" using domains_get w c unfolding sessions_ok_def by blast
  obtain m y where m: "iccp_csm_dequeue_msg x = (m, y)" by (metis surj_pair)
  then have y: "stat y = stat x" using dequeue_stat [of x] by simp
  have step: "keeps (sessions_ok ls cs) (csm_step c m (csm_current_state x) (upd_csm c (\<lambda>_. y) w))"
  proof (cases "csm_current_state x = ICCP_NONEXISTENT")
    case True
    then show ?thesis using csm_step_first [OF all_ok.csm_replace [OF w x(1) y]] by simp
  next
    case False
    have "open_ok c ls cs w" using w False x unfolding ok_defs by (elim domains_mono) (auto simp: session_ok_def)
    then show ?thesis
      using csm_step_open [OF one_open.csm_replace [OF _ x(1) y] False] open_sessions unfolding keeps_def by blast
  qed
  show ?thesis unfolding iccp_csm_transit_eq [OF w c] x(1) m Let_def case_prod_conv Option.bind.bind_lunit
    by (rule keeps_via(1) [OF step]) (intro frame all_ok.csm_stat; simp)
qed

lemma app_csm_transit_keeps:
  "sessions_ok ls cs w \<Longrightarrow> keeps (sessions_ok ls cs) (app_csm_transit c w)"
  unfolding app_csm_transit_def keeps_def
  by (auto split: Option.bind_splits if_splits simp: session_ok_def intro!: sessions_csm)

subsection \<open>mLACP\<close>

lemma sync_sessions: "sync_ok c ls cs w \<Longrightarrow> sessions_ok ls cs w"
  unfolding ok_defs by (erule domains_mono) simp

lemma mlacp_dequeue_states:
  "mlacp_dequeue_msg x = (m, y) \<Longrightarrow> (csm_sock_fd y, csm_current_state y, app_current_state (APP_CSM y), ml_current_state (MLACP y))
    = (csm_sock_fd x, csm_current_state x, app_current_state (APP_CSM x), ml_current_state (MLACP x))"
  by (auto simp: mlacp_dequeue_msg_def split: list.splits)

lemma sync_dequeue:
  assumes "sync_ok c ls cs w" "w_csm w c = Some x" "mlacp_dequeue_msg x = (m, y)"
  shows "sync_ok c ls cs (upd_csm c (\<lambda>_. y) w)"
  using assms(1) mlacp_dequeue_states [OF assms(3)] assms(2) unfolding sync_ok_def
  by (elim domains_csm) (auto simp: session_ok_def)

lemma keepsD: "keeps Q x \<Longrightarrow> x = Some w \<Longrightarrow> Q w"
  by (simp add: keeps_def)

lemma transit_round_keeps:
  assumes "sync_ok c ls cs w" "transit_round c stale w = Some (go, stale', v)"
  shows "sync_ok c ls cs v"
  using assms(2) unfolding transit_round_def Let_def
  by (auto split: Option.bind_splits if_splits prod.splits option.splits
      intro: keepsD [OF one_syncing.transit_state_keeps] keepsD [OF one_syncing.mlacp_sync_recv_nak_handler_keeps(6)]
        assms(1) sync_dequeue [OF assms(1)])

lemma transit_loop_keeps: "sync_ok c ls cs w \<Longrightarrow> keeps (sync_ok c ls cs) (transit_loop n c stale w)"
  by (induction n arbitrary: stale w)
    (auto simp: keeps_def split: Option.bind_splits if_splits prod.splits dest: transit_round_keeps)

text \<open>
  The branch that empties the queues and closes the socket, without resetting the connection, is
  never taken.
\<close>

lemma mlacp_fsm_transit_eq:
  assumes w: "sessions_ok ls cs w" and c: "c \<in> set cs"
  shows "mlacp_fsm_transit c w = do {
     csm \<leftarrow> w_csm w c;
     if csm_sock_fd csm \<le> 0 \<or> app_current_state (APP_CSM csm) \<noteq> APP_OPERATIONAL then Some w
     else do {
       w \<leftarrow> (if csm_warm_reboot_disconn_time csm \<noteq> 0 \<and> w_now w - csm_warm_reboot_disconn_time csm \<ge> WARM_REBOOT_TIMEOUT
             then mlacp_peer_disconn_handler c (upd_csm c (csm_warm_reboot_disconn_time_update (\<lambda>_. 0)) w)
             else Some w);
       w \<leftarrow> mlacp_sync_send_heartbeat c w;
       w \<leftarrow> mlacp_local_lif_state_mac_handler c w;
       w \<leftarrow> mlacp_peer_link_learning_handler c w;
       csm \<leftarrow> w_csm w c;
       transit_loop (length (ml_mlacp_msg_list (MLACP csm)) + 2) c False w } }"
proof -
  obtain x where x: "w_csm w c = Some x" "session_ok x" using domains_get w c unfolding sessions_ok_def by blast
  then show ?thesis unfolding mlacp_fsm_transit_def by (auto simp: session_ok_def)
qed

lemma mlacp_fsm_transit_keeps:
  assumes w: "sessions_ok ls cs w" and c: "c \<in> set cs"
  shows "keeps (sessions_ok ls cs) (mlacp_fsm_transit c w)"
proof -
  obtain x where x: "w_csm w c = Some x" "session_ok x" using domains_get w c unfolding sessions_ok_def by blast
  show ?thesis
  proof (cases "csm_sock_fd x \<le> 0 \<or> app_current_state (APP_CSM x) \<noteq> APP_OPERATIONAL")
    case False
    then have start: "sync_ok c ls cs w" using w x unfolding ok_defs by (elim domains_mono) auto
    have "keeps (sync_ok c ls cs) (mlacp_fsm_transit c w)"
      unfolding mlacp_fsm_transit_eq [OF w c] x(1) Option.bind.bind_lunit
      by (simp only: False if_False) (intro frame transit_loop_keeps one_syncing.csm_stat; simp add: start)
    then show ?thesis using sync_sessions unfolding keeps_def by blast
  qed (simp add: mlacp_fsm_transit_eq [OF w c] x(1) keeps_ends w)
qed

subsection \<open>Receiving\<close>

lemma enqueue_states:
  "iccp_csm_enqueue_msg x m = Some y \<Longrightarrow> (csm_sock_fd y, csm_current_state y, app_current_state (APP_CSM y), ml_current_state (MLACP y))
    = (csm_sock_fd x, csm_current_state x, app_current_state (APP_CSM x), ml_current_state (MLACP x))"
  by (auto simp: iccp_csm_enqueue_msg_def app_csm_enqueue_msg_def mlacp_enqueue_msg_def Let_def split: Option.bind_splits if_splits)

lemma enqueue_received_keeps:
  assumes "sessions_ok ls cs w"
  shows "keeps (sessions_ok ls cs) (enqueue_received c m w)"
proof -
  obtain ok v where v: "iccp_csm_init_msg w = (ok, v)" by (metis surj_pair)
  then have s: "sessions_ok ls cs v" using all_ok.send_if_built_keeps(3) [OF assms] by simp
  show ?thesis unfolding enqueue_received_def v keeps_def
    by (auto split: Option.bind_splits if_splits dest!: enqueue_states intro!: sessions_csm [OF s] simp: session_ok_def)
qed

lemma recv_data_keeps: "sessions_ok ls cs w \<Longrightarrow> recv_data rx got len n t waited w = Some (res, body, v) \<Longrightarrow> sessions_ok ls cs v"
  by (induction rx got len n t waited w arbitrary: v rule: recv_data.induct)
    (auto split: if_splits Option.bind_splits simp: all_ok.updates_keep)

lemma keeps2_tail:
  "(\<And>a b w. x = Some (a, b, w) \<Longrightarrow> keeps2 Q (f a b w)) \<Longrightarrow> keeps2 Q (x \<bind> (\<lambda>(a, b, w). f a b w))"
  by (auto simp: keeps2_def split: Option.bind_splits)

lemma callback_keeps:
  assumes "sessions_ok ls cs w"
  shows "keeps2 (sessions_ok ls cs) (scheduler_csm_read_callback c rx w)"
proof -
  have err: "keeps2 (sessions_ok ls cs) (recv_err c f v)" if "sessions_ok ls cs v" for f v
    unfolding recv_err_def by (intro frame disconnect_keeps; simp add: that)
  have ok: "keeps2 (sessions_ok ls cs) (enqueue_received c m (if n > 0 then SYSTEM_SET_RETRY_COUNTER n v else v) \<bind> (\<lambda>w. Some (1, w)))"
    if "sessions_ok ls cs v" for m n v
    unfolding SYSTEM_SET_RETRY_COUNTER_def by (intro frame enqueue_received_keeps; simp add: that)
  have buf: "sessions_ok ls cs v \<Longrightarrow> sessions_ok ls cs (v\<lparr>g_csm_buf := b\<rparr>)" for v b
    by (intro frame)
  obtain res hdr rest where h: "recv_hdr rx [] = (res, hdr, rest)" by (metis prod_cases3)
  have data: "keeps2 (sessions_ok ls cs) (case r of
      Data_error \<Rightarrow> recv_err c (cnt_rx_peer_tlv_read_sock_err_counter_update (\<lambda>n. n + 1)) v
    | Data_closed \<Rightarrow> recv_err c (cnt_rx_peer_tlv_read_sock_zero_len_counter_update (\<lambda>n. n + 1)) v
    | Data_retry_failed \<Rightarrow> recv_err c (cnt_rx_retry_fail_counter_update (\<lambda>n. n + 1)) v
    | Data_ok n \<Rightarrow> enqueue_received c m (if n > 0 then SYSTEM_SET_RETRY_COUNTER n v else v) \<bind> (\<lambda>w. Some (1, w)))"
    if "sessions_ok ls cs v" for r m v
    by (cases r) (simp_all only: data_result.case err ok that)
  show ?thesis unfolding scheduler_csm_read_callback_def Let_def h case_prod_conv
    by (rule keeps_look, rule keeps_join, rule keeps_ends, simp add: assms, cases res)
      (auto simp only: hdr_result.case err buf assms split: if_splits
        intro!: keeps2_tail data buf elim!: recv_data_keeps [OF buf [OF assms]])
qed

subsection \<open>The loop\<close>

definition loop_inv :: "world \<Rightarrow> bool" where
  "loop_inv w \<longleftrightarrow> sessions_ok (sys_csm_list (w_sys w)) (sys_csm_list (w_sys w)) w"

lemma loop_inv_sessions: "loop_inv w \<Longrightarrow> sessions_ok (sys_csm_list (w_sys w)) (sys_csm_list (w_sys w)) w"
  by (simp add: loop_inv_def)

lemma sessions_loop_inv: "sessions_ok cs cs w \<Longrightarrow> loop_inv w"
  by (auto simp: loop_inv_def sessions_ok_def domains_def)

lemma keeps_weaken: "keeps P x \<Longrightarrow> (\<And>w. P w \<Longrightarrow> Q w) \<Longrightarrow> keeps Q x" "keeps2 P y \<Longrightarrow> (\<And>w. P w \<Longrightarrow> Q w) \<Longrightarrow> keeps2 Q y"
  by (simp_all add: keeps_def keeps2_def)

text \<open>The state machines of all domains run, and none of the domains is freed meanwhile.\<close>

text \<open>The machines of one domain, without the read of its link by which the loop goes on.\<close>

definition machines :: "csm_ptr \<Rightarrow> world \<Rightarrow> world option" where
  "machines c w = do {
     w \<leftarrow> heartbeat_update c w;
     w \<leftarrow> iccp_csm_transit c w;
     w \<leftarrow> app_csm_transit c w;
     mlacp_fsm_transit c w }"

lemma machines_keep:
  assumes "sessions_ok ls cs w" "c \<in> set cs"
  shows "keeps (sessions_ok ls cs) (machines c w)"
proof -
  have beat: "keeps (sessions_ok ls cs) (heartbeat_update c w)"
    unfolding heartbeat_update_def heartbeat_check_def by (intro frame disconnect_keeps all_ok.csm_stat; simp add: assms)
  show ?thesis unfolding machines_def
    by (rule keeps_via(1) [OF beat], rule keeps_via(1) [OF iccp_csm_transit_keeps [OF _ assms(2)]], assumption,
        rule keeps_via(1) [OF app_csm_transit_keeps], assumption, rule mlacp_fsm_transit_keeps [OF _ assms(2)])
qed

lemma transit_csm_machines:
  assumes "sessions_ok ls cs w" "c \<in> set cs"
  shows "transit_csm c w = machines c w"
proof -
  have split: "transit_csm c w = machines c w \<bind> (\<lambda>w. w_csm w c \<bind> (\<lambda>_. Some w))"
    by (simp add: transit_csm_def machines_def)
  show ?thesis
  proof (cases "machines c w")
    case (Some v)
    then have "sessions_ok ls cs v" using machines_keep [OF assms] by (simp add: keeps_def)
    then obtain x where "w_csm v c = Some x" using domains_get assms(2) unfolding sessions_ok_def by blast
    then show ?thesis using split Some by simp
  qed (simp add: split)
qed

lemma transit_csm_keeps:
  "sessions_ok ls cs w \<Longrightarrow> c \<in> set cs \<Longrightarrow> keeps (sessions_ok ls cs) (transit_csm c w)"
  by (simp add: transit_csm_machines machines_keep)

lemma transit_fsm_keeps:
  assumes "sessions_ok ls ls w"
  shows "keeps (sessions_ok ls ls) (scheduler_transit_fsm w)"
proof -
  have ls: "sys_csm_list (w_sys w) = ls" using assms by (simp add: sessions_ok_def domains_def)
  have run: "keeps (sessions_ok ls ls) (foreach transit_csm ls w)"
    by (rule keeps_foreach_in) (simp_all add: transit_csm_keeps assms)
  show ?thesis unfolding scheduler_transit_fsm_def ls by (rule keeps_via(1) [OF run]) (intro frame)
qed

interpretation loop: session_inv loop_inv
proof
  fix w assume inv: "loop_inv w"
  note w = loop_inv_sessions [OF inv]
  show "loop_inv w'" if "kept stat w w'" for w'
    using all_ok.quiet [OF w that] by (rule sessions_loop_inv)
  show "keeps loop_inv (scheduler_session_disconnect_handler c w)" for c
    using disconnect_keeps [OF w] sessions_loop_inv by (rule keeps_weaken)
  show "keeps loop_inv (iccp_csm_finalize c w)" for c
    using finalize_keeps [OF w] sessions_loop_inv by (rule keeps_weaken)
  show "keeps2 loop_inv (system_create_csm w)"
    using create_keeps [OF w] sessions_loop_inv by (rule keeps_weaken)
  show "keeps2 loop_inv (scheduler_server_accept fd ip w)" for fd ip
    using accept_keeps [OF w] sessions_loop_inv by (rule keeps_weaken)
  show "keeps2 loop_inv (scheduler_csm_read_callback c rx w)" for c rx
    using callback_keeps [OF w] sessions_loop_inv by (rule keeps_weaken)
  show "keeps loop_inv (scheduler_transit_fsm w)"
    using transit_fsm_keeps [OF w] sessions_loop_inv by (rule keeps_weaken)
qed

end
