(* ===== verification/Sync_All_Spec.thy ===== *)
theory Sync_All_Spec
  imports Sync_Send_Spec
begin

text \<open>
  The reply to a synchronisation request: \<open>mlacp_sync_send_all_info_handler\<close> ends, and what it
  puts on the wire is the start marker, the system configuration, the configuration,
  state and VLANs of every port channel, the peer link, the queued ARP and ND entries
  in full batches, and the end marker, in this order and with their contents.
\<close>

subsection \<open>The messages of a reply\<close>

text \<open>
  What a reply consists of: the marker at its start and its end, with the number of the request;
  the identity of the system; configuration, state and VLANs of a port channel; the peer link;
  a batch of ARP or ND entries.
\<close>

datatype reply =
    Sync_mark u16 bool
  | Sys_config bytes u16 u8
  | Agg_config LocalInterface
  | Agg_state LocalInterface
  | Po_info LocalInterface
  | Peer_link LocalInterface
  | Arp_batch "ARPMsg list"
  | Nd_batch "NDISCMsg list"

text \<open>The bytes of an application message of the group \<open>rg\<close> with one TLV, of \<open>n\<close> bytes in all.\<close>

definition app_msg :: "u32 \<Rightarrow> u16 \<Rightarrow> nat \<Rightarrow> bytes \<Rightarrow> bool" where
  "app_msg rg tlv n bs \<longleftrightarrow> length bs = n \<and> ld16 0 bs = Some (htons MSG_T_RG_APP_DATA) \<and> ld16 2 bs = Some (htons (of_nat (n - 4)))
     \<and> ld16 8 bs = Some (htons TLV_T_ICC_RG_ID) \<and> ld16 10 bs = Some (htons TLV_L_ICC_RG_ID) \<and> ld32 12 bs = Some (htonl rg)
     \<and> ld16 16 bs = Some (htons tlv) \<and> ld16 18 bs = Some (htons (of_nat (n - 20)))"

lemma app_msgI: "app_header rg tlv n i b \<Longrightarrow> 20 \<le> n \<Longrightarrow> app_msg rg tlv n (rdn 0 n b)"
  by (simp add: app_msg_def app_header_def buf_simps)

text \<open>The bytes that say a part of the reply: the header, and every field at its offset.\<close>

fun reply_msg :: "u32 \<Rightarrow> reply \<Rightarrow> bytes \<Rightarrow> bool" where
  "reply_msg rg (Sync_mark num final) bs = (app_msg rg TLV_T_MLACP_SYNC_DATA 24 bs
     \<and> ld16 20 bs = Some (htons num) \<and> ld16 22 bs = Some (if final then htons 1 else 0))"
| "reply_msg rg (Sys_config system_id priority node_id) bs = (app_msg rg TLV_T_MLACP_SYSTEM_CONFIG 29 bs
     \<and> ldn 20 6 bs = Some system_id \<and> ld16 26 bs = Some (htons priority) \<and> ld8 28 bs = Some node_id)"
| "reply_msg rg (Agg_config lif) bs = (app_msg rg TLV_T_MLACP_AGGREGATOR_CONFIG 62 bs
     \<and> ld16 28 bs = Some (htons (of_int (lif_po_id lif))) \<and> ldn 30 6 bs = Some (lif_mac_addr lif) \<and> ld8 40 bs = Some 1
     \<and> ld8 41 bs = Some (of_nat (length (lif_name lif))) \<and> ldn 42 20 bs = Some (cfield 20 (lif_name lif)))"
| "reply_msg rg (Agg_state lif) bs = (app_msg rg TLV_T_MLACP_AGGREGATOR_STATE 35 bs
     \<and> ld16 30 bs = Some (htons (of_int (lif_po_id lif))) \<and> ld8 34 bs = Some (lif_state lif))"
| "reply_msg rg (Po_info lif) bs = (app_msg rg TLV_T_MLACP_PORT_CHANNEL_INFO (52 + 2 * length (lif_vlan_tree lif)) bs
     \<and> ld16 20 bs = Some (htons (of_int (lif_po_id lif))) \<and> ldn 22 20 bs = Some (cfield 20 (lif_name lif))
     \<and> ld8 42 bs = Some (of_nat (length (lif_name lif))) \<and> ld8 43 bs = Some (lif_l3_mode lif) \<and> ld32 44 bs = Some (htonl (lif_ipv4_addr lif))
     \<and> ld16 48 bs = Some (htons (of_int (lif_po_id lif))) \<and> ld16 50 bs = Some (htons (of_nat (length (lif_vlan_tree lif))))
     \<and> (\<forall>j < length (lif_vlan_tree lif). ld16 (52 + 2 * j) bs = Some (htons (vlan_vid (lif_vlan_tree lif ! j)))))"
| "reply_msg rg (Peer_link lif) bs = (app_msg rg TLV_T_MLACP_PEERLINK_INFO 41 bs
     \<and> ldn 20 20 bs = Some (cfield 20 (lif_name lif)) \<and> ld8 40 bs = Some (of_int (lif_type lif)))"
| "reply_msg rg (Arp_batch ms) bs = (app_msg rg TLV_T_MLACP_ARP_INFO (22 + 36 * length ms) bs
     \<and> ld16 20 bs = Some (htons (of_nat (length ms)))
     \<and> (\<forall>k < length ms. ld_ARPMsg (22 + 36 * k) bs = Some ((ms ! k)\<lparr>arp_learn_flag := 0\<rparr>)))"
| "reply_msg rg (Nd_batch ms) bs = (app_msg rg TLV_T_MLACP_NDISC_INFO (22 + 48 * length ms) bs
     \<and> ld16 20 bs = Some (htons (of_nat (length ms)))
     \<and> (\<forall>k < length ms. ld_NDISCMsg (22 + 48 * k) bs = Some ((ms ! k)\<lparr>nd_learn_flag := 0\<rparr>)))"

text \<open>The builders of the code write these bytes.\<close>

lemma mark_built:
  "\<exists>b'. mlacp_prepare_for_sync_data_tlv csm CSM_BUFFER_SIZE end (b, i) = (int 24, b', i + 1)
    \<and> reply_msg (icc_rg_id (csm_iccp_info csm)) (Sync_mark (of_int (ml_sync_req_num (MLACP csm))) (end \<noteq> 0)) (rdn 0 24 b')"
  using sync_data_wire [of CSM_BUFFER_SIZE csm "end" b i] by (auto simp: buf_simps dest!: app_msgI)

lemma sys_config_built:
  "length (ml_system_id (MLACP csm)) = 6 \<Longrightarrow> \<exists>b'. mlacp_prepare_for_sys_config csm CSM_BUFFER_SIZE (b, i) = (int 29, b', i + 1)
    \<and> reply_msg (icc_rg_id (csm_iccp_info csm))
        (Sys_config (ml_system_id (MLACP csm)) (ml_system_priority (MLACP csm)) (ml_node_id (MLACP csm))) (rdn 0 29 b')"
  using sys_config_wire [of CSM_BUFFER_SIZE csm b i] by (auto simp: buf_simps dest!: app_msgI)

lemma agg_config_built:
  "length (lif_mac_addr lif) = 6 \<Longrightarrow> \<exists>b'. mlacp_prepare_for_Aggport_config csm CSM_BUFFER_SIZE lif 0 (b, i) = (int 62, b', i + 1)
    \<and> reply_msg (icc_rg_id (csm_iccp_info csm)) (Agg_config lif) (rdn 0 62 b')"
  using aggport_config_wire [of CSM_BUFFER_SIZE lif csm 0 b i] by (auto simp: buf_simps dest!: app_msgI)

lemma agg_state_built:
  "lif_type lif = IF_T_PORT_CHANNEL \<Longrightarrow> \<exists>b'. mlacp_prepare_for_Aggport_state csm CSM_BUFFER_SIZE lif (b, i) = (int 35, b', i + 1)
    \<and> reply_msg (icc_rg_id (csm_iccp_info csm)) (Agg_state lif) (rdn 0 35 b')"
  using aggport_state_wire [of CSM_BUFFER_SIZE lif csm b i] by (auto simp: buf_simps dest!: app_msgI)

lemma po_info_built:
  assumes "lif_type lif = IF_T_PORT_CHANNEL" "cstring 20 (lif_name lif)" "length (lif_vlan_tree lif) \<le> 4096"
  shows "\<exists>b'. mlacp_prepare_for_port_channel_info csm CSM_BUFFER_SIZE lif (b, i) = (int (52 + 2 * length (lif_vlan_tree lif)), b', i + 1)
    \<and> reply_msg (icc_rg_id (csm_iccp_info csm)) (Po_info lif) (rdn 0 (52 + 2 * length (lif_vlan_tree lif)) b')"
  using assms port_channel_info_wire [of lif CSM_BUFFER_SIZE csm b i] by (auto simp: buf_simps dest!: app_msgI)

lemma peer_link_built:
  "\<exists>b'. mlacp_prepare_for_port_peerlink_info csm CSM_BUFFER_SIZE lif (b, i) = (int 41, b', i + 1)
    \<and> reply_msg (icc_rg_id (csm_iccp_info csm)) (Peer_link lif) (rdn 0 41 b')"
  using peerlink_info_wire [of CSM_BUFFER_SIZE csm lif b i] by (auto simp: buf_simps dest!: app_msgI)

lemma batch_built:
  "arp_tlv.carries rg ms bs \<Longrightarrow> reply_msg rg (Arp_batch ms) bs"
  "nd_tlv.carries rg ns bs \<Longrightarrow> reply_msg rg (Nd_batch ns) bs"
  by (auto simp: arp_tlv.carries_def arp_tlv.built_def nd_tlv.carries_def nd_tlv.built_def buf_simps dest!: app_msgI)

lemma writes_append: "writes R fd xs es \<Longrightarrow> writes R fd ys es' \<Longrightarrow> writes R fd (xs @ ys) (es @ es')"
  by (simp add: writes_def list_all2_appendI)

lemma writes_map: "writes R fd xs es \<Longrightarrow> (\<And>x bs. R x bs \<Longrightarrow> R' (f x) bs) \<Longrightarrow> writes R' fd (map f xs) es"
  unfolding writes_def by (induction xs es rule: list_all2_induct) auto

subsection \<open>What a reply changes\<close>

definition sync_core :: "CSM \<Rightarrow> CSM" where
  "sync_core csm = upd_MLACP (\<lambda>m. m\<lparr>ml_sync_state := MLACP_SYNC_SYSCONF, ml_wait_for_sync_data := 0\<rparr>) (core csm)"

definition lif_core :: "LocalInterface \<Rightarrow> LocalInterface" where
  "lif_core l = l\<lparr>lif_changed := 0, lif_port_config_sync := 0\<rparr>"

abbreviation rg_of :: "csm_ptr \<Rightarrow> world \<Rightarrow> u32" where
  "rg_of c w \<equiv> icc_rg_id (csm_iccp_info (the (w_csm w c)))"

text \<open>An interface without the marks that the reply resets.\<close>

definition look :: "world \<Rightarrow> lif_ptr \<Rightarrow> LocalInterface" where
  "look w l = lif_core (the (w_lif w l))"

abbreviation sync_state :: "csm_ptr \<Rightarrow> world \<Rightarrow> MLACP_SYNC_STATE" where
  "sync_state c w \<equiv> ml_sync_state (MLACP (the (w_csm w c)))"

definition sync_step :: "csm_ptr \<Rightarrow> event list \<Rightarrow> world \<Rightarrow> world \<Rightarrow> bool" where
  "sync_step c evs w w' \<longleftrightarrow> w_sys w' = w_sys w \<and> w_pif w' = w_pif w \<and> w_mac w' = w_mac w
     \<and> w_fresh w' = w_fresh w \<and> w_now w' = w_now w \<and> w_mallocs w' = w_mallocs w
     \<and> w_out w' = w_out w @ evs \<and> (\<forall>c'. c' \<noteq> c \<longrightarrow> w_csm w' c' = w_csm w c')
     \<and> (\<forall>l. map_option lif_core (w_lif w' l) = map_option lif_core (w_lif w l))
     \<and> map_option sync_core (w_csm w' c) = map_option sync_core (w_csm w c) \<and> (log_ok c w \<longrightarrow> log_ok c w')"

lemma sync_refl: "sync_step c [] w w"
  by (simp add: sync_step_def)

lemma sync_trans: "sync_step c es w w' \<Longrightarrow> sync_step c es' w' w'' \<Longrightarrow> sync_step c (es @ es') w w''"
  by (simp add: sync_step_def)

lemma tx_sync: "tx_step c es w w' \<Longrightarrow> sync_step c es w w'"
proof -
  assume tx: "tx_step c es w w'"
  have "map_option sync_core x = map_option (upd_MLACP (\<lambda>m. m\<lparr>ml_sync_state := MLACP_SYNC_SYSCONF, ml_wait_for_sync_data := 0\<rparr>)) (map_option core x)" for x
    by (cases x) (simp_all add: sync_core_def)
  then show ?thesis using tx by (simp add: tx_step_def sync_step_def)
qed

lemma sync_core_eqD:
  assumes "sync_core x = sync_core y"
  shows "csm_sock_fd x = csm_sock_fd y" "csm_iccp_info x = csm_iccp_info y" "csm_peer_link_if x = csm_peer_link_if y"
    "ml_lif_list (MLACP x) = ml_lif_list (MLACP y)" "ml_current_state (MLACP x) = ml_current_state (MLACP y)"
    "ml_arp_msg_list (MLACP x) = ml_arp_msg_list (MLACP y)" "ml_ndisc_msg_list (MLACP x) = ml_ndisc_msg_list (MLACP y)"
    "ml_system_id (MLACP x) = ml_system_id (MLACP y)" "ml_system_priority (MLACP x) = ml_system_priority (MLACP y)"
    "ml_node_id (MLACP x) = ml_node_id (MLACP y)" "ml_sync_req_num (MLACP x) = ml_sync_req_num (MLACP y)"
  using arg_cong [OF assms, of csm_sock_fd] arg_cong [OF assms, of csm_iccp_info] arg_cong [OF assms, of csm_peer_link_if]
    arg_cong [OF assms, of "\<lambda>z. ml_lif_list (MLACP z)"] arg_cong [OF assms, of "\<lambda>z. ml_current_state (MLACP z)"]
    arg_cong [OF assms, of "\<lambda>z. ml_arp_msg_list (MLACP z)"] arg_cong [OF assms, of "\<lambda>z. ml_ndisc_msg_list (MLACP z)"]
    arg_cong [OF assms, of "\<lambda>z. ml_system_id (MLACP z)"] arg_cong [OF assms, of "\<lambda>z. ml_system_priority (MLACP z)"]
    arg_cong [OF assms, of "\<lambda>z. ml_node_id (MLACP z)"] arg_cong [OF assms, of "\<lambda>z. ml_sync_req_num (MLACP z)"]
  by (simp_all add: sync_core_def core_def)

text \<open>What the reply needs: an open connection, interfaces that exist and fit their messages.\<close>

definition wf_lif :: "LocalInterface \<Rightarrow> bool" where
  "wf_lif l \<longleftrightarrow> length (lif_mac_addr l) = 6 \<and> cstring 20 (lif_name l) \<and> length (lif_vlan_tree l) \<le> 4096"

definition sync_ready :: "csm_ptr \<Rightarrow> world \<Rightarrow> bool" where
  "sync_ready c w \<longleftrightarrow> link_up c w \<and> length (ml_system_id (MLACP (the (w_csm w c)))) = 6
     \<and> (\<forall>l \<in> set (ml_lif_list (MLACP (the (w_csm w c)))). \<exists>lif. w_lif w l = Some lif \<and> wf_lif lif)
     \<and> (\<forall>l. csm_peer_link_if (the (w_csm w c)) = Some l \<longrightarrow> w_lif w l \<noteq> None)
     \<and> (\<forall>m \<in> set (ml_arp_msg_list (MLACP (the (w_csm w c)))). wf_ARPMsg m)
     \<and> (\<forall>m \<in> set (ml_ndisc_msg_list (MLACP (the (w_csm w c)))). wf_NDISCMsg m)"

lemma ready_lif:
  "sync_ready c w \<Longrightarrow> w_csm w c = Some csm \<Longrightarrow> l \<in> set (ml_lif_list (MLACP csm)) \<Longrightarrow> \<exists>lif. w_lif w l = Some lif \<and> wf_lif lif"
  by (simp add: sync_ready_def)

lemma lif_core_eqD:
  assumes "map_option lif_core (w_lif w' l) = map_option lif_core (w_lif w l)" "w_lif w l = Some lif"
  obtains lif' where "w_lif w' l = Some lif'" "lif_type lif' = lif_type lif" "wf_lif lif' = wf_lif lif"
proof -
  obtain lif' where l: "w_lif w' l = Some lif'" "lif_core lif' = lif_core lif" using assms by auto
  show thesis
    using that [OF l(1)] arg_cong [OF l(2), of lif_type] arg_cong [OF l(2), of lif_mac_addr] arg_cong [OF l(2), of lif_name]
      arg_cong [OF l(2), of lif_vlan_tree] by (simp add: lif_core_def wf_lif_def)
qed

lemma sync_csm:
  assumes "sync_step c es w w'" "w_csm w c = Some csm"
  obtains csm' where "w_csm w' c = Some csm'" "sync_core csm' = sync_core csm"
  using assms by (auto simp: sync_step_def)

lemma sync_link: "sync_step c es w w' \<Longrightarrow> link_up c w \<Longrightarrow> link_up c w' \<and> sock c w' = sock c w"
proof -
  assume st: "sync_step c es w w'" and up: "link_up c w"
  then obtain csm where csm: "w_csm w c = Some csm" "csm_sock_fd csm > 0" by (auto simp: link_up_def)
  obtain csm' where csm': "w_csm w' c = Some csm'" "sync_core csm' = sync_core csm" using sync_csm [OF st csm(1)] .
  have "log_ok c w'" using st link_up_log [OF up] by (simp add: sync_step_def)
  then show ?thesis using csm csm'(1) sync_core_eqD(1) [OF csm'(2)] by (simp add: link_up_def log_ok_def)
qed

lemma sync_group: "sync_step c es w w' \<Longrightarrow> w_csm w c \<noteq> None \<Longrightarrow> rg_of c w' = rg_of c w"
  by (auto simp: sync_step_def dest!: sync_core_eqD(2))

lemma sync_look: "sync_step c es w w' \<Longrightarrow> w_lif w l \<noteq> None \<Longrightarrow> look w' l = look w l"
  unfolding sync_step_def look_def by (metis (no_types, lifting) map_option_is_None option.map_sel)

lemma sync_ready_step:
  assumes st: "sync_step c es w w'" and r: "sync_ready c w"
  shows "sync_ready c w'"
proof -
  obtain csm where csm: "w_csm w c = Some csm" using r by (auto simp: sync_ready_def link_up_def)
  obtain csm' where csm': "w_csm w' c = Some csm'" "sync_core csm' = sync_core csm" using sync_csm [OF st csm] .
  note eqs = sync_core_eqD [OF csm'(2)]
  have lif: "map_option lif_core (w_lif w' l) = map_option lif_core (w_lif w l)" for l using st by (simp add: sync_step_def)
  have "\<exists>lif. w_lif w' l = Some lif \<and> wf_lif lif" if l: "l \<in> set (ml_lif_list (MLACP csm))" for l
  proof -
    obtain lif where "w_lif w l = Some lif" "wf_lif lif" using r l unfolding sync_ready_def csm option.sel by blast
    then show ?thesis using lif_core_eqD [OF lif] by metis
  qed
  moreover have "w_lif w' l \<noteq> None" if "w_lif w l \<noteq> None" for l using lif [of l] that by auto
  ultimately show ?thesis
    using r sync_link [OF st] csm csm'(1) by (simp add: sync_ready_def eqs)
qed

subsection \<open>One kind of information\<close>

text \<open>The parts \<open>ts\<close> of a reply were sent.\<close>

definition replies :: "csm_ptr \<Rightarrow> reply list \<Rightarrow> world \<Rightarrow> world \<Rightarrow> bool" where
  "replies c ts w w' \<longleftrightarrow> (\<exists>evs. sync_step c evs w w' \<and> sync_state c w' = sync_state c w \<and> writes (reply_msg (rg_of c w)) (sock c w) ts evs)"

lemma replies_refl: "replies c [] w w"
  using sync_refl by (simp add: replies_def)

lemma replies_trans:
  assumes "replies c ts w w'" "replies c ts' w' w''" "link_up c w"
  shows "replies c (ts @ ts') w w''"
proof -
  obtain es where es: "sync_step c es w w'" "sync_state c w' = sync_state c w" "writes (reply_msg (rg_of c w)) (sock c w) ts es"
    using assms(1) by (auto simp: replies_def)
  moreover obtain es' where "sync_step c es' w' w''" "sync_state c w'' = sync_state c w'" "writes (reply_msg (rg_of c w')) (sock c w') ts' es'"
    using assms(2) by (auto simp: replies_def)
  ultimately have "sync_step c (es @ es') w w''" "sync_state c w'' = sync_state c w" "writes (reply_msg (rg_of c w)) (sock c w) (ts @ ts') (es @ es')"
    using sync_trans writes_append sync_link [OF es(1) assms(3)] sync_group [OF es(1)] assms(3) by (auto simp: link_up_def)
  then show ?thesis unfolding replies_def by blast
qed

lemma replies_ready: "replies c ts w w' \<Longrightarrow> sync_ready c w \<Longrightarrow> sync_ready c w'"
  using sync_ready_step by (auto simp: replies_def)

lemma sync_state_tx: "tx_step c es w w' \<Longrightarrow> link_up c w \<Longrightarrow> sync_state c w' = sync_state c w"
  by (auto simp: link_up_def tx_step_def dest!: core_eqD(13))

lemma tx_replies: "tx_step c es w w' \<Longrightarrow> link_up c w \<Longrightarrow> writes (reply_msg (rg_of c w)) (sock c w) ts es \<Longrightarrow> replies c ts w w'"
  unfolding replies_def using tx_sync sync_state_tx by blast

lemma send_built_sync:
  assumes r: "link_up c w" "w_csm w c = Some csm"
    and f: "\<exists>b'. f (zero_buf, ICCP_MSG_ID w) = (int n, b', ICCP_MSG_ID w + 1) \<and> reply_msg (icc_rg_id (csm_iccp_info csm)) t (rdn 0 n b')"
    and n: "18 \<le> n" "n \<le> CSM_BUFFER_SIZE"
  shows "safe (\<lambda>(rc, w'). replies c [t] w w') (send_built c f w)"
proof -
  obtain b' where b': "f (zero_buf, ICCP_MSG_ID w) = (int n, b', ICCP_MSG_ID w + 1)" "reply_msg (rg_of c w) t (rdn 0 n b')"
    using f r(2) by auto
  have "writes (reply_msg (rg_of c w)) (sock c w) [t] [Ev_write (sock c w) (rdn 0 n b') rc]" for rc using b'(2) by (simp add: writes_Cons)
  moreover have "safe (\<lambda>(rc, w'). tx_step c [Ev_write (sock c w) (rdn 0 n b') rc] w w') (send_built c f w)"
    by (rule send_built_ok [where f = f, OF r(1) b'(1)]) (use n in auto)
  ultimately show ?thesis by (elim safe_mono) (auto intro: tx_replies [OF _ r(1)])
qed

lemma upd_lif_replies:
  "(\<And>x. lif_core (f x) = lif_core x) \<Longrightarrow> replies c [] w (upd_lif l f w)"
  by (simp add: replies_def sync_step_def log_ok_def option.map_comp comp_def)

lemma replies_look: "replies c ts w w' \<Longrightarrow> w_lif w l \<noteq> None \<Longrightarrow> look w' l = look w l"
  using sync_look by (auto simp: replies_def)

lemma replies_lifs:
  "replies c ts w w' \<Longrightarrow> w_csm w c \<noteq> None \<Longrightarrow> ml_lif_list (MLACP (the (w_csm w' c))) = ml_lif_list (MLACP (the (w_csm w c)))"
  by (auto simp: replies_def sync_step_def dest!: sync_core_eqD(4))

subsection \<open>The port channels\<close>

definition is_po :: "world \<Rightarrow> lif_ptr \<Rightarrow> bool" where
  "is_po w l \<longleftrightarrow> lif_type (look w l) = IF_T_PORT_CHANNEL"

lemma is_po_type: "w_lif w l = Some lif \<Longrightarrow> is_po w l \<longleftrightarrow> lif_type lif = IF_T_PORT_CHANNEL"
  by (simp add: is_po_def look_def lif_core_def)

definition port_channels :: "csm_ptr \<Rightarrow> world \<Rightarrow> lif_ptr list" where
  "port_channels c w = filter (is_po w) (ml_lif_list (MLACP (the (w_csm w c))))"

definition send_port_channel ::
    "csm_ptr \<Rightarrow> (CSM \<Rightarrow> nat \<Rightarrow> LocalInterface \<Rightarrow> out \<Rightarrow> int \<times> out) \<Rightarrow> (LocalInterface \<Rightarrow> LocalInterface) \<Rightarrow> lif_ptr \<Rightarrow> world \<Rightarrow> world option" where
  "send_port_channel c prepare sent l w = do {
         csm \<leftarrow> w_csm w c;
         lif \<leftarrow> w_lif w l;
         if lif_type lif = IF_T_PORT_CHANNEL then do {
           (_, w) \<leftarrow> send_built c (prepare csm CSM_BUFFER_SIZE lif) w;
           Some (upd_lif l sent w) }
         else Some w }"

lemma send_port_channel_ok:
  assumes r: "sync_ready c w" and l: "l \<in> set (ml_lif_list (MLACP (the (w_csm w c))))"
    and prep: "\<And>csm lif i. wf_lif lif \<Longrightarrow> lif_type lif = IF_T_PORT_CHANNEL \<Longrightarrow>
      \<exists>n b'. prepare csm CSM_BUFFER_SIZE lif (zero_buf, i) = (int n, b', i + 1)
        \<and> reply_msg (icc_rg_id (csm_iccp_info csm)) (part (lif_core lif)) (rdn 0 n b') \<and> 18 \<le> n \<and> n \<le> CSM_BUFFER_SIZE"
    and f: "\<And>x. lif_core (f x) = lif_core x"
  shows "safe (replies c (if is_po w l then [part (look w l)] else []) w) (send_port_channel c prepare f l w)"
proof -
  have up: "link_up c w" using r by (simp add: sync_ready_def)
  then obtain csm where csm: "w_csm w c = Some csm" by (auto simp: link_up_def)
  obtain lif where lif: "w_lif w l = Some lif" "wf_lif lif" using ready_lif [OF r csm] l csm by auto
  show ?thesis
  proof (cases "lif_type lif = IF_T_PORT_CHANNEL")
    case True
    obtain n b' where p: "prepare csm CSM_BUFFER_SIZE lif (zero_buf, ICCP_MSG_ID w) = (int n, b', ICCP_MSG_ID w + 1)"
        "reply_msg (icc_rg_id (csm_iccp_info csm)) (part (look w l)) (rdn 0 n b')" "18 \<le> n" "n \<le> CSM_BUFFER_SIZE"
      using prep [OF lif(2) True, of csm "ICCP_MSG_ID w"] lif(1) by (auto simp: look_def)
    have "safe (\<lambda>(rc, w'). replies c [part (look w l)] w w') (send_built c (prepare csm CSM_BUFFER_SIZE lif) w)"
      using p by (intro send_built_sync [OF up csm]) auto
    then have "safe (\<lambda>(rc, w'). replies c [part (look w l)] w (upd_lif l f w')) (send_built c (prepare csm CSM_BUFFER_SIZE lif) w)"
      using replies_trans [OF _ upd_lif_replies [OF f] up] by (elim safe_mono) auto
    then show ?thesis using True csm lif by (simp add: case_prod_unfold is_po_type send_port_channel_def)
  next
    case False
    then show ?thesis using csm lif replies_refl by (simp add: is_po_type send_port_channel_def)
  qed
qed

lemma send_port_channels_ok:
  assumes r: "sync_ready c w"
    and prep: "\<And>csm lif i. wf_lif lif \<Longrightarrow> lif_type lif = IF_T_PORT_CHANNEL \<Longrightarrow>
      \<exists>n b'. prepare csm CSM_BUFFER_SIZE lif (zero_buf, i) = (int n, b', i + 1)
        \<and> reply_msg (icc_rg_id (csm_iccp_info csm)) (part (lif_core lif)) (rdn 0 n b') \<and> 18 \<le> n \<and> n \<le> CSM_BUFFER_SIZE"
    and f: "\<And>x. lif_core (f x) = lif_core x"
  shows "safe (replies c (map (\<lambda>l. part (look w l)) (port_channels c w)) w) (send_port_channels c prepare f w)"
proof -
  let ?L = "\<lambda>w. ml_lif_list (MLACP (the (w_csm w c)))"
  obtain csm where csm: "w_csm w c = Some csm" using r by (auto simp: sync_ready_def link_up_def)
  have "safe (replies c (map (\<lambda>l. part (look w l)) (filter (is_po w) ls)) w) (foreach (send_port_channel c prepare f) ls w)"
    if "set ls \<subseteq> set (?L w)" "sync_ready c w" for ls w
    using that
  proof (induction ls arbitrary: w)
    case Nil
    then show ?case using replies_refl by simp
  next
    case (Cons l ls)
    have up: "link_up c w" "w_csm w c \<noteq> None" using Cons.prems(2) by (auto simp: sync_ready_def link_up_def)
    let ?ts = "if is_po w l then [part (look w l)] else []" and ?us = "\<lambda>w. map (\<lambda>l. part (look w l)) (filter (is_po w) ls)"
    have "safe (replies c (?ts @ ?us w) w) (foreach (send_port_channel c prepare f) ls w1)"
      if w1: "replies c ?ts w w1" for w1
    proof -
      have "look w1 x = look w x" if "x \<in> set ls" for x
        using that Cons.prems up(2) ready_lif [OF Cons.prems(2), of _ x] replies_look [OF w1, of x] by fastforce
      then have "?us w1 = ?us w" by (auto simp: is_po_def intro!: map_cong filter_cong)
      moreover have "safe (replies c (?us w1) w1) (foreach (send_port_channel c prepare f) ls w1)"
        using Cons.prems(1) replies_lifs [OF w1 up(2)] replies_ready [OF w1 Cons.prems(2)] by (intro Cons.IH) simp_all
      ultimately show ?thesis using replies_trans [OF w1 _ up(1)] by (elim safe_mono) simp
    qed
    moreover have "safe (replies c ?ts w) (send_port_channel c prepare f l w)"
      using Cons.prems prep f by (intro send_port_channel_ok) auto
    ultimately show ?case by (simp split: if_splits) (auto elim: safe_mono)
  qed
  then show ?thesis
    using r unfolding send_port_channels_def csm Option.bind.bind_lunit port_channels_def send_port_channel_def by (simp add: csm)
qed

subsection \<open>The stages of the reply\<close>

definition stage_parts :: "csm_ptr \<Rightarrow> MLACP_SYNC_STATE \<Rightarrow> world \<Rightarrow> reply list" where
  "stage_parts c s w = (let csm = the (w_csm w c); m = MLACP csm in case s of
       MLACP_SYNC_SYSCONF \<Rightarrow> [Sys_config (ml_system_id m) (ml_system_priority m) (ml_node_id m)]
     | MLACP_SYNC_AGGCONF \<Rightarrow> map (\<lambda>l. Agg_config (look w l)) (port_channels c w)
     | MLACP_SYNC_AGGSTATE \<Rightarrow> map (\<lambda>l. Agg_state (look w l)) (port_channels c w)
     | MLACP_SYNC_AGGINFO \<Rightarrow> map (\<lambda>l. Po_info (look w l)) (port_channels c w)
     | MLACP_SYNC_PEERLINKINFO \<Rightarrow> (case csm_peer_link_if csm of None \<Rightarrow> [] | Some l \<Rightarrow> [Peer_link (look w l)])
     | MLACP_SYNC_ARP_INFO \<Rightarrow> map Arp_batch (chunks MAX_NEIGH_ENTRY_NUM (ml_arp_msg_list m))
     | MLACP_SYNC_NDISC_INFO \<Rightarrow> map Nd_batch (chunks MAX_NEIGH_ENTRY_NUM (ml_ndisc_msg_list m))
     | MLACP_SYNC_DONE \<Rightarrow> [Sync_mark (of_int (ml_sync_req_num m)) True])"

text \<open>The queue a stage empties.\<close>

definition drop_queue :: "csm_ptr \<Rightarrow> MLACP_SYNC_STATE \<Rightarrow> world \<Rightarrow> world" where
  "drop_queue c s w = (case s of
       MLACP_SYNC_ARP_INFO \<Rightarrow> upd_mlacp c (ml_arp_msg_list_update (\<lambda>_. [])) w
     | MLACP_SYNC_NDISC_INFO \<Rightarrow> upd_mlacp c (ml_ndisc_msg_list_update (\<lambda>_. [])) w
     | _ \<Rightarrow> w)"

lemma replies_upd_wait: "replies c [] w (upd_mlacp c (ml_wait_for_sync_data_update (\<lambda>_. 0)) w)"
  by (cases "w_csm w c") (auto simp: replies_def sync_step_def log_ok_def sync_core_def core_def)

lemma send_sysConf_ok:
  assumes r: "sync_ready c w"
  shows "safe (replies c (stage_parts c MLACP_SYNC_SYSCONF w) w) (mlacp_sync_send_sysConf c w)"
proof -
  have up: "link_up c w" using r by (simp add: sync_ready_def)
  then obtain csm where csm: "w_csm w c = Some csm" by (auto simp: link_up_def)
  have "length (ml_system_id (MLACP csm)) = 6" using r csm by (simp add: sync_ready_def)
  note wire = sys_config_built [OF this, of zero_buf "ICCP_MSG_ID w"]
  then have "safe (\<lambda>(rc, w'). replies c (stage_parts c MLACP_SYNC_SYSCONF w) w w') (send_built c (mlacp_prepare_for_sys_config csm CSM_BUFFER_SIZE) w)"
    unfolding stage_parts_def Let_def csm option.sel MLACP_SYNC_STATE.case by (rule send_built_sync [OF up csm]) simp_all
  moreover have "mlacp_sync_send_sysConf c w = map_option snd (send_built c (mlacp_prepare_for_sys_config csm CSM_BUFFER_SIZE) w)"
    using wire csm by (auto simp: mlacp_sync_send_sysConf_def send_built_def in_buf_def clear_buf_def)
  ultimately show ?thesis by (auto simp: safe_def)
qed

lemma part_core [simp]:
  "reply_msg rg (Agg_config (lif_core lif)) = reply_msg rg (Agg_config lif)" "reply_msg rg (Agg_state (lif_core lif)) = reply_msg rg (Agg_state lif)"
  "reply_msg rg (Po_info (lif_core lif)) = reply_msg rg (Po_info lif)" "reply_msg rg (Peer_link (lif_core lif)) = reply_msg rg (Peer_link lif)"
  by (rule ext, simp add: lif_core_def)+

lemma send_aggConf_ok:
  assumes r: "sync_ready c w"
  shows "safe (replies c (stage_parts c MLACP_SYNC_AGGCONF w) w) (mlacp_sync_send_aggConf c w)"
  unfolding mlacp_sync_send_aggConf_def stage_parts_def Let_def MLACP_SYNC_STATE.case
proof (rule send_port_channels_ok [OF r])
  fix csm lif i assume "wf_lif lif"
  then show "\<exists>n b'. mlacp_prepare_for_Aggport_config csm CSM_BUFFER_SIZE lif 0 (zero_buf, i) = (int n, b', i + 1)
      \<and> reply_msg (icc_rg_id (csm_iccp_info csm)) (Agg_config (lif_core lif)) (rdn 0 n b') \<and> 18 \<le> n \<and> n \<le> CSM_BUFFER_SIZE"
    using agg_config_built [of lif csm zero_buf i] unfolding part_core by (intro exI [of _ 62]) (auto simp: wf_lif_def simp del: reply_msg.simps)
qed (simp add: lif_core_def)

lemma send_aggState_ok:
  assumes r: "sync_ready c w"
  shows "safe (replies c (stage_parts c MLACP_SYNC_AGGSTATE w) w) (mlacp_sync_send_aggState c w)"
  unfolding mlacp_sync_send_aggState_def stage_parts_def Let_def MLACP_SYNC_STATE.case
proof (rule send_port_channels_ok [OF r])
  fix csm i and lif :: LocalInterface assume "lif_type lif = IF_T_PORT_CHANNEL"
  then show "\<exists>n b'. mlacp_prepare_for_Aggport_state csm CSM_BUFFER_SIZE lif (zero_buf, i) = (int n, b', i + 1)
      \<and> reply_msg (icc_rg_id (csm_iccp_info csm)) (Agg_state (lif_core lif)) (rdn 0 n b') \<and> 18 \<le> n \<and> n \<le> CSM_BUFFER_SIZE"
    using agg_state_built [of lif csm zero_buf i] unfolding part_core by (intro exI [of _ 35]) (auto simp del: reply_msg.simps)
qed (simp add: lif_core_def)

lemma send_portChannelInfo_ok:
  assumes r: "sync_ready c w"
  shows "safe (replies c (stage_parts c MLACP_SYNC_AGGINFO w) w) (mlacp_sync_send_syncPortChannelInfo c w)"
  unfolding mlacp_sync_send_syncPortChannelInfo_def stage_parts_def Let_def MLACP_SYNC_STATE.case
proof (rule send_port_channels_ok [OF r])
  fix csm lif i assume "wf_lif lif" "lif_type lif = IF_T_PORT_CHANNEL"
  then show "\<exists>n b'. mlacp_prepare_for_port_channel_info csm CSM_BUFFER_SIZE lif (zero_buf, i) = (int n, b', i + 1)
      \<and> reply_msg (icc_rg_id (csm_iccp_info csm)) (Po_info (lif_core lif)) (rdn 0 n b') \<and> 18 \<le> n \<and> n \<le> CSM_BUFFER_SIZE"
    using po_info_built [of lif csm zero_buf i] unfolding part_core
    by (intro exI [of _ "52 + 2 * length (lif_vlan_tree lif)"]) (auto simp: wf_lif_def simp del: reply_msg.simps)
qed (simp add: lif_core_def)

lemma send_peerLinkInfo_ok:
  assumes r: "sync_ready c w"
  shows "safe (replies c (stage_parts c MLACP_SYNC_PEERLINKINFO w) w) (mlacp_sync_send_syncPeerLinkInfo c w)"
proof -
  have up: "link_up c w" using r by (simp add: sync_ready_def)
  then obtain csm where csm: "w_csm w c = Some csm" by (auto simp: link_up_def)
  have *: "safe (replies c [Peer_link (lif_core lif)] w) (map_option snd (send_built c (mlacp_prepare_for_port_peerlink_info csm CSM_BUFFER_SIZE lif) w))" for lif
  proof -
    have "safe (\<lambda>(rc, w'). replies c [Peer_link (lif_core lif)] w w') (send_built c (mlacp_prepare_for_port_peerlink_info csm CSM_BUFFER_SIZE lif) w)"
      by (rule send_built_sync [OF up csm, where n = 41]) (unfold part_core, rule peer_link_built, simp_all)
    then show ?thesis by (fastforce simp: safe_def)
  qed
  show ?thesis
    using csm r * replies_refl by (auto simp: mlacp_sync_send_syncPeerLinkInfo_def sync_ready_def stage_parts_def look_def split: option.split)
qed

lemma send_doneData_ok:
  assumes r: "sync_ready c w"
  shows "safe (replies c (stage_parts c MLACP_SYNC_DONE w) w) (mlacp_sync_send_syncDoneData c w)"
proof -
  let ?w = "upd_mlacp c (ml_wait_for_sync_data_update (\<lambda>_. 0)) w"
  have up: "link_up c w" "link_up c ?w" using r by (auto simp: sync_ready_def link_up_def)
  then obtain csm where csm: "w_csm ?w c = Some csm" by (auto simp: link_up_def)
  have "safe (\<lambda>(rc, w'). replies c [Sync_mark (of_int (ml_sync_req_num (MLACP csm))) True] ?w w')
      (send_built c (mlacp_prepare_for_sync_data_tlv csm CSM_BUFFER_SIZE 1) ?w)"
    using mark_built [of csm 1 zero_buf "ICCP_MSG_ID ?w"] by (intro send_built_sync [OF up(2) csm, where n = 24]) simp_all
  moreover have "stage_parts c MLACP_SYNC_DONE w = [Sync_mark (of_int (ml_sync_req_num (MLACP csm))) True]"
    using csm by (auto simp: stage_parts_def)
  ultimately show ?thesis
    unfolding mlacp_sync_send_syncDoneData_def Let_def csm Option.bind.bind_lunit
    using replies_trans [OF replies_upd_wait _ up(1)] by (fastforce simp: safe_def)
qed

lemma stage_ok:
  assumes r: "sync_ready c w"
  shows "safe (replies c (stage_parts c (sync_state c w) w) (drop_queue c (sync_state c w) w)) (mlacp_sync_sender_handler c w)"
proof -
  have up: "link_up c w" using r by (simp add: sync_ready_def)
  then obtain csm where csm: "w_csm w c = Some csm" by (auto simp: link_up_def)
  have q: "\<forall>m \<in> set (ml_arp_msg_list (MLACP csm)). wf_ARPMsg m" "\<forall>m \<in> set (ml_ndisc_msg_list (MLACP csm)). wf_NDISCMsg m"
    using r csm by (simp_all add: sync_ready_def)
  let ?a = "upd_mlacp c (ml_arp_msg_list_update (\<lambda>_. [])) w" and ?n = "upd_mlacp c (ml_ndisc_msg_list_update (\<lambda>_. [])) w"
  have same: "link_up c ?a" "link_up c ?n" "sock c ?a = sock c w" "sock c ?n = sock c w" using up by (auto simp: link_up_def)
  have group: "rg_of c ?a = rg_of c w" "rg_of c ?n = rg_of c w" using csm by simp_all
  have "safe (replies c (map Arp_batch (chunks MAX_NEIGH_ENTRY_NUM (ml_arp_msg_list (MLACP csm)))) ?a) (mlacp_sync_send_syncArpInfo c w)"
    by (rule safe_mono [OF arp_queue_sent [OF up csm q(1)]], elim exE conjE, intro tx_replies)
      (assumption, rule same(1), unfold same(3) group(1), rule writes_map, assumption, rule batch_built(1))
  moreover have "safe (replies c (map Nd_batch (chunks MAX_NEIGH_ENTRY_NUM (ml_ndisc_msg_list (MLACP csm)))) ?n) (mlacp_sync_send_syncNdiscInfo c w)"
    by (rule safe_mono [OF ndisc_queue_sent [OF up csm q(2)]], elim exE conjE, intro tx_replies)
      (assumption, rule same(2), unfold same(4) group(2), rule writes_map, assumption, rule batch_built(2))
  ultimately have "safe (replies c (stage_parts c MLACP_SYNC_ARP_INFO w) ?a) (mlacp_sync_send_syncArpInfo c w)"
    "safe (replies c (stage_parts c MLACP_SYNC_NDISC_INFO w) ?n) (mlacp_sync_send_syncNdiscInfo c w)"
    by (simp_all add: stage_parts_def csm)
  then show ?thesis
    using csm send_sysConf_ok [OF r] send_aggConf_ok [OF r] send_aggState_ok [OF r] send_portChannelInfo_ok [OF r]
      send_peerLinkInfo_ok [OF r] send_doneData_ok [OF r]
    by (cases "ml_sync_state (MLACP csm)") (simp_all add: mlacp_sync_sender_handler_def drop_queue_def)
qed

subsection \<open>All stages\<close>

fun rank :: "MLACP_SYNC_STATE \<Rightarrow> nat" where
  "rank MLACP_SYNC_SYSCONF = 0" | "rank MLACP_SYNC_AGGCONF = 1" | "rank MLACP_SYNC_AGGSTATE = 2"
| "rank MLACP_SYNC_AGGINFO = 3" | "rank MLACP_SYNC_PEERLINKINFO = 4" | "rank MLACP_SYNC_ARP_INFO = 5"
| "rank MLACP_SYNC_NDISC_INFO = 6" | "rank MLACP_SYNC_DONE = 7"

primrec stages :: "nat \<Rightarrow> MLACP_SYNC_STATE \<Rightarrow> MLACP_SYNC_STATE list" where
  "stages 0 s = []"
| "stages (Suc n) s = s # (if s = MLACP_SYNC_DONE then [] else stages n (next_sync s))"

lemma rank_next: "s \<noteq> MLACP_SYNC_DONE \<Longrightarrow> rank (next_sync s) = Suc (rank s)"
  by (cases s) simp_all

lemma rank_stages: "s' \<in> set (stages n s) \<Longrightarrow> rank s \<le> rank s'"
proof (induction n arbitrary: s)
  case (Suc n)
  then show ?case using rank_next [of s] by (fastforce split: if_splits)
qed simp

text \<open>The reply up to \<open>sync_state\<close>, and its result for the messages of later stages.\<close>

definition sync_out :: "csm_ptr \<Rightarrow> reply list \<Rightarrow> world \<Rightarrow> world \<Rightarrow> bool" where
  "sync_out c ts w w' \<longleftrightarrow> (\<exists>evs. sync_step c evs w w' \<and> writes (reply_msg (rg_of c w)) (sock c w) ts evs)"

lemma sync_out_trans:
  assumes "sync_out c ts w w'" "sync_out c ts' w' w''" "link_up c w"
  shows "sync_out c (ts @ ts') w w''"
proof -
  obtain es es' where es: "sync_step c es w w'" "writes (reply_msg (rg_of c w)) (sock c w) ts es"
      "sync_step c es' w' w''" "writes (reply_msg (rg_of c w')) (sock c w') ts' es'"
    using assms(1,2) by (auto simp: sync_out_def)
  have "sock c w' = sock c w" "rg_of c w' = rg_of c w"
    using sync_link [OF es(1) assms(3)] sync_group [OF es(1)] assms(3) by (auto simp: link_up_def)
  then show ?thesis using sync_trans [OF es(1,3)] writes_append es(2,4) unfolding sync_out_def by metis
qed

lemma sync_out_ready: "sync_out c ts w w' \<Longrightarrow> sync_ready c w \<Longrightarrow> sync_ready c w'"
  using sync_ready_step by (auto simp: sync_out_def)

lemma sync_out_parts:
  assumes o: "sync_out c ts w w'" and r: "sync_ready c w"
  shows "stage_parts c s w' = stage_parts c s w"
proof -
  obtain csm where csm: "w_csm w c = Some csm" using r by (auto simp: sync_ready_def link_up_def)
  obtain evs where st: "sync_step c evs w w'" using o by (auto simp: sync_out_def)
  obtain csm' where csm': "w_csm w' c = Some csm'" "sync_core csm' = sync_core csm" using sync_csm [OF st csm] .
  note eqs = sync_core_eqD [OF csm'(2)]
  have lifs: "look w' l = look w l" if l: "l \<in> set (ml_lif_list (MLACP csm))" for l
    using sync_look [OF st] ready_lif [OF r csm l] by auto
  have pl: "look w' l = look w l" if "csm_peer_link_if csm = Some l" for l
    using sync_look [OF st] r csm that by (auto simp: sync_ready_def)
  have pc: "port_channels c w' = port_channels c w" "\<And>l. l \<in> set (port_channels c w) \<Longrightarrow> look w' l = look w l"
    using lifs unfolding port_channels_def csm csm'(1) option.sel eqs(4) by (auto simp: is_po_def intro: filter_cong)
  show ?thesis unfolding stage_parts_def csm csm'(1) option.sel eqs pc(1) Let_def
    using pc(2) pl by (auto split: MLACP_SYNC_STATE.split option.split)
qed

lemma core_drop: "sync_core (upd_MLACP (ml_arp_msg_list_update (\<lambda>_. [])) x) = upd_MLACP (ml_arp_msg_list_update (\<lambda>_. [])) (sync_core x)"
  "sync_core (upd_MLACP (ml_ndisc_msg_list_update (\<lambda>_. [])) x) = upd_MLACP (ml_ndisc_msg_list_update (\<lambda>_. [])) (sync_core x)"
  by (simp_all add: sync_core_def core_def)

lemma sync_out_drop:
  assumes "sync_out c ts w w'" "link_up c w"
  shows "sync_out c ts (drop_queue c s w) (drop_queue c s w')"
proof -
  obtain evs where st: "sync_step c evs w w'" "writes (reply_msg (rg_of c w)) (sock c w) ts evs" using assms by (auto simp: sync_out_def)
  obtain csm where csm: "w_csm w c = Some csm" using assms(2) by (auto simp: link_up_def)
  obtain csm' where csm': "w_csm w' c = Some csm'" "sync_core csm' = sync_core csm" using sync_csm [OF st(1) csm] .
  have "sync_step c evs (drop_queue c s w) (drop_queue c s w')"
    using st(1) csm csm' by (cases s) (auto simp: drop_queue_def sync_step_def log_ok_def core_drop)
  moreover have "sock c (drop_queue c s w) = sock c w" "rg_of c (drop_queue c s w) = rg_of c w"
    using assms(2) by (cases s; auto simp: drop_queue_def link_up_def)+
  ultimately show ?thesis using st(2) by (auto simp: sync_out_def)
qed

lemma drop_ready: "sync_ready c w \<Longrightarrow> sync_ready c (drop_queue c s w)"
  by (cases s) (auto simp: drop_queue_def sync_ready_def link_up_def)

lemma is_po_upd_csm: "is_po (upd_csm c f w) = is_po w"
  by (rule ext) (simp add: is_po_def look_def)

lemma drop_parts: "w_csm w c \<noteq> None \<Longrightarrow> s' \<noteq> s \<Longrightarrow> stage_parts c s' (drop_queue c s w) = stage_parts c s' w"
  by (cases s; cases s') (auto simp: drop_queue_def stage_parts_def port_channels_def is_po_upd_csm look_def Let_def split: option.split)

lemma fold_drop:
  "sync_out c ts w w' \<Longrightarrow> link_up c w \<Longrightarrow> sync_out c ts (fold (drop_queue c) ss w) (fold (drop_queue c) ss w')"
proof (induction ss arbitrary: w w')
  case (Cons s ss)
  have "link_up c (drop_queue c s w)" using Cons.prems(2) by (cases s) (auto simp: drop_queue_def link_up_def)
  then show ?case using Cons.IH [OF sync_out_drop [OF Cons.prems]] by simp
qed simp

lemma fold_drop_ready: "sync_ready c w \<Longrightarrow> sync_ready c (fold (drop_queue c) ss w)"
  by (induction ss arbitrary: w) (simp_all add: drop_ready)

definition sync_finish :: "csm_ptr \<Rightarrow> world \<Rightarrow> world" where
  "sync_finish c = upd_mlacp c (\<lambda>m. m\<lparr>ml_wait_for_sync_data := 0, ml_current_state := next_stage (ml_current_state m)\<rparr>)"

lemma send_all_loop_ok:
  assumes "sync_ready c w" "sync_state c w = s" "MLACP_SYNC_DONE \<in> set (stages n s)"
  shows "safe (\<lambda>w'. \<exists>w1. w' = sync_finish c w1 \<and> sync_state c w1 = MLACP_SYNC_DONE
      \<and> sync_out c (concat (map (\<lambda>s. stage_parts c s w) (stages n s))) (fold (drop_queue c) (stages n s) w) w1)
    (send_all_loop n c w)"
  using assms
proof (induction n arbitrary: s w)
  case (Suc n)
  have up: "link_up c w" "w_csm w c \<noteq> None" using Suc.prems(1) by (auto simp: sync_ready_def link_up_def)
  have rd: "sync_ready c (drop_queue c s w)" by (rule drop_ready [OF Suc.prems(1)])
  let ?Q = "\<lambda>w'. \<exists>w1. w' = sync_finish c w1 \<and> sync_state c w1 = MLACP_SYNC_DONE
      \<and> sync_out c (concat (map (\<lambda>s. stage_parts c s w) (stages (Suc n) s))) (fold (drop_queue c) (stages (Suc n) s) w) w1"
  have fin: "safe ?Q (w_csm w1 c \<bind> (\<lambda>csm.
      if ml_sync_state (MLACP csm) \<noteq> MLACP_SYNC_DONE then send_all_loop n c (upd_mlacp c (ml_sync_state_update next_sync) w1)
      else Some (sync_finish c w1)))" if rep: "replies c (stage_parts c s w) (drop_queue c s w) w1" for w1
  proof -
    have o1: "sync_out c (stage_parts c s w) (drop_queue c s w) w1" using rep by (auto simp: replies_def sync_out_def)
    have r1: "sync_ready c w1" by (rule replies_ready [OF rep rd])
    then obtain csm1 where csm1: "w_csm w1 c = Some csm1" by (auto simp: sync_ready_def link_up_def)
    have st: "ml_sync_state (MLACP csm1) = s"
      using rep csm1 up(2) Suc.prems(2) by (cases s) (auto simp: replies_def drop_queue_def)
    show ?thesis
    proof (cases "s = MLACP_SYNC_DONE")
      case True
      then show ?thesis using o1 csm1 st by auto
    next
      case False
      let ?w2 = "upd_mlacp c (ml_sync_state_update next_sync) w1" and ?ss = "stages n (next_sync s)"
      have o2: "sync_out c [] w1 ?w2" using csm1 by (auto simp: sync_out_def sync_step_def log_ok_def sync_core_def core_def)
      have r2: "sync_ready c ?w2" by (rule sync_out_ready [OF o2 r1])
      have "s' \<noteq> s" if "s' \<in> set ?ss" for s' using rank_stages [OF that] rank_next [OF False] by auto
      then have tl: "concat (map (\<lambda>s. stage_parts c s ?w2) ?ss) = concat (map (\<lambda>s. stage_parts c s w) ?ss)"
        using sync_out_parts [OF o2 r1] sync_out_parts [OF o1 rd] drop_parts [OF up(2)]
        by (intro arg_cong [where f = concat] map_cong) auto
      have o12: "sync_out c (stage_parts c s w) (drop_queue c s w) ?w2"
        using sync_out_trans [OF o1 o2] rd by (simp add: sync_ready_def)
      have f: "sync_out c (stage_parts c s w) (fold (drop_queue c) ?ss (drop_queue c s w)) (fold (drop_queue c) ?ss ?w2)"
        using rd by (intro fold_drop [OF o12]) (simp add: sync_ready_def)
      have upf: "link_up c (fold (drop_queue c) ?ss (drop_queue c s w))" using fold_drop_ready [OF rd] by (simp add: sync_ready_def)
      have "safe (\<lambda>w'. \<exists>w1. w' = sync_finish c w1 \<and> sync_state c w1 = MLACP_SYNC_DONE
          \<and> sync_out c (concat (map (\<lambda>s. stage_parts c s w) ?ss)) (fold (drop_queue c) ?ss ?w2) w1) (send_all_loop n c ?w2)"
        using Suc.IH [OF r2, of "next_sync s"] st csm1 False Suc.prems(3) unfolding tl by simp
      then show ?thesis
        using False csm1 st sync_out_trans [OF f _ upf] by (auto elim!: safe_mono)
    qed
  qed
  have "safe (replies c (stage_parts c s w) (drop_queue c s w)) (mlacp_sync_sender_handler c w)"
    using stage_ok [OF Suc.prems(1)] Suc.prems(2) by simp
  then show ?case
    unfolding send_all_loop.simps sync_finish_def [symmetric] by (rule safe_bindI [OF safe_mono]) (rule fin)
qed simp

text \<open>The parts of a full reply, in order.\<close>

definition reply_parts :: "csm_ptr \<Rightarrow> world \<Rightarrow> reply list" where
  "reply_parts c w = (let
     csm = the (w_csm w c);
     m = MLACP csm;
     pos = map (look w) (port_channels c w);
     num = of_int (ml_sync_req_num m)
   in [Sync_mark num False, Sys_config (ml_system_id m) (ml_system_priority m) (ml_node_id m)]
     @ map Agg_config pos @ map Agg_state pos @ map Po_info pos
     @ (case csm_peer_link_if csm of None \<Rightarrow> [] | Some l \<Rightarrow> [Peer_link (look w l)])
     @ map Arp_batch (chunks MAX_NEIGH_ENTRY_NUM (ml_arp_msg_list m)) @ map Nd_batch (chunks MAX_NEIGH_ENTRY_NUM (ml_ndisc_msg_list m))
     @ [Sync_mark num True])"

text \<open>What is left of the domain after the reply.\<close>

definition replied :: "csm_ptr \<Rightarrow> world \<Rightarrow> world \<Rightarrow> bool" where
  "replied c w w' \<longleftrightarrow> (\<exists>csm csm'. w_csm w c = Some csm \<and> w_csm w' c = Some csm' \<and>
     sync_core csm' = sync_core (upd_MLACP (\<lambda>m. m\<lparr>ml_arp_msg_list := [], ml_ndisc_msg_list := [],
       ml_current_state := next_stage (ml_current_state m)\<rparr>) csm) \<and> ml_wait_for_sync_data (MLACP csm') = 0
     \<and> log_ok c w') \<and> w_sys w' = w_sys w \<and> w_pif w' = w_pif w \<and> w_mac w' = w_mac w \<and> w_fresh w' = w_fresh w \<and> w_now w' = w_now w
     \<and> w_mallocs w' = w_mallocs w \<and> (\<forall>c'. c' \<noteq> c \<longrightarrow> w_csm w' c' = w_csm w c')
     \<and> (\<forall>l. map_option lif_core (w_lif w' l) = map_option lif_core (w_lif w l))"

lemma send_all_info_ok:
  assumes r: "sync_ready c w"
  shows "safe (\<lambda>w'. replied c w w' \<and> (\<exists>evs. w_out w' = w_out w @ evs \<and> writes (reply_msg (rg_of c w)) (sock c w) (reply_parts c w) evs))
    (mlacp_sync_send_all_info_handler c w)"
proof -
  have up: "link_up c w" using r by (simp add: sync_ready_def)
  then obtain csm where csm: "w_csm w c = Some csm" by (auto simp: link_up_def)
  let ?S = "MLACP_SYNC_SYSCONF" and ?start = "Sync_mark (of_int (ml_sync_req_num (MLACP csm))) False"
  let ?Q = "\<lambda>w'. replied c w w' \<and> (\<exists>evs. w_out w' = w_out w @ evs \<and> writes (reply_msg (rg_of c w)) (sock c w) (reply_parts c w) evs)"
  have "safe ?Q (send_all_loop 8 c (upd_mlacp c (ml_sync_state_update (\<lambda>_. ?S)) w1))" if rep: "replies c [?start] w w1" for w1
  proof -
    let ?w = "upd_mlacp c (ml_sync_state_update (\<lambda>_. ?S)) w1"
    have o1: "sync_out c [?start] w w1" using rep by (auto simp: replies_def sync_out_def)
    have r1: "sync_ready c w1" by (rule replies_ready [OF rep r])
    then obtain csm1 where csm1: "w_csm w1 c = Some csm1" by (auto simp: sync_ready_def link_up_def)
    have o2: "sync_out c [] w1 ?w" using csm1 by (auto simp: sync_out_def sync_step_def log_ok_def sync_core_def core_def)
    have r2: "sync_ready c ?w" by (rule sync_out_ready [OF o2 r1])
    have o12: "sync_out c [?start] w ?w" using sync_out_trans [OF o1 o2 up] by simp
    have tl: "stage_parts c s ?w = stage_parts c s w" for s by (rule sync_out_parts [OF o12 r])
    have ss: "stages 8 ?S = [?S, MLACP_SYNC_AGGCONF, MLACP_SYNC_AGGSTATE, MLACP_SYNC_AGGINFO, MLACP_SYNC_PEERLINKINFO,
        MLACP_SYNC_ARP_INFO, MLACP_SYNC_NDISC_INFO, MLACP_SYNC_DONE]" by (simp add: numeral_eq_Suc)
    have drop: "fold (drop_queue c) (stages 8 ?S) x = upd_mlacp c (\<lambda>m. m\<lparr>ml_arp_msg_list := [], ml_ndisc_msg_list := []\<rparr>) x" for x
      by (simp add: ss drop_queue_def upd_csm_comp comp_def)
    have "?Q (sync_finish c w2)" if "sync_out c (concat (map (\<lambda>s. stage_parts c s w) (stages 8 ?S))) (fold (drop_queue c) (stages 8 ?S) ?w) w2" for w2
    proof -
      have o: "sync_out c (reply_parts c w) (upd_mlacp c (\<lambda>m. m\<lparr>ml_arp_msg_list := [], ml_ndisc_msg_list := []\<rparr>) w) w2"
        using sync_out_trans [OF fold_drop [OF o12 up] that] fold_drop_ready [OF r, of "stages 8 ?S"] unfolding drop
        by (simp add: ss reply_parts_def stage_parts_def Let_def sync_ready_def csm comp_def)
      then obtain evs where st: "sync_step c evs (upd_mlacp c (\<lambda>m. m\<lparr>ml_arp_msg_list := [], ml_ndisc_msg_list := []\<rparr>) w) w2"
        and wr: "writes (reply_msg (rg_of c w)) (sock c w) (reply_parts c w) evs" using csm by (auto simp: sync_out_def)
      obtain csm2 where csm2: "w_csm w2 c = Some csm2"
        "sync_core csm2 = sync_core (upd_MLACP (\<lambda>m. m\<lparr>ml_arp_msg_list := [], ml_ndisc_msg_list := []\<rparr>) csm)"
        using sync_csm [OF st] csm by auto
      have log: "log_ok c w2" using st link_up_log [OF up] by (auto simp: sync_step_def log_ok_def)
      have "sync_core (upd_MLACP (\<lambda>m. m\<lparr>ml_wait_for_sync_data := 0, ml_current_state := next_stage (ml_current_state m)\<rparr>) x)
          = upd_MLACP (\<lambda>m. m\<lparr>ml_current_state := next_stage (ml_current_state m)\<rparr>) (sync_core x)" for x
        by (simp add: sync_core_def core_def)
      then have "replied c w (sync_finish c w2)"
        using st csm csm2 log unfolding replied_def sync_step_def
        by (simp add: sync_finish_def log_ok_def) (simp add: sync_core_def core_def)
      moreover have "w_out (sync_finish c w2) = w_out w @ evs" using st by (simp add: sync_finish_def sync_step_def)
      ultimately show ?thesis using wr by blast
    qed
    moreover have "safe (\<lambda>w'. \<exists>w1. w' = sync_finish c w1 \<and> sync_state c w1 = MLACP_SYNC_DONE
      \<and> sync_out c (concat (map (\<lambda>s. stage_parts c s w) (stages 8 ?S))) (fold (drop_queue c) (stages 8 ?S) ?w) w1)
      (send_all_loop 8 c ?w)"
      using send_all_loop_ok [OF r2, of ?S 8] csm1 unfolding tl by (simp add: ss)
    ultimately show ?thesis by (elim safe_mono) blast
  qed
  moreover have "safe (\<lambda>(rc, w'). replies c [?start] w w') (send_built c (mlacp_prepare_for_sync_data_tlv csm CSM_BUFFER_SIZE 0) w)"
    using mark_built [of csm 0 zero_buf "ICCP_MSG_ID w"] by (intro send_built_sync [OF up csm, where n = 24]) simp_all
  ultimately show ?thesis
    unfolding mlacp_sync_send_all_info_handler_def csm Option.bind.bind_lunit
    by (intro safe_bindI) (auto elim!: safe_mono)
qed

end
