(* ===== verification/Demo_Domain.thy ===== *)
theory Demo_Domain
  imports Iccp_Csm_Msg Sync_All_Spec
begin

text \<open>
  A small domain in which the hypotheses of the properties hold: one peer session with
  its peer link \<open>Ethernet0\<close>, the MLAG interface \<open>PortChannel1\<close> on both sides, one address
  learned locally and queued for the peer, and one learned from the peer.
\<close>

definition demo_sys :: System where
  "demo_sys = \<lparr>sys_server_fd = 3, sys_sync_fd = 4, sys_sync_ctrl_fd = 5, sys_epoll_fd = 6, sys_warmboot_start = 0,
     sys_warmboot_exit = 0, sys_csm_list = [0], sys_lif_list = [1, 2], sys_lif_purge_list = [], sys_unq_ip_if_list = [],
     sys_pending_vlan_mbr_if_list = [], sys_readfd = [], sys_readfd_count = 0, sys_csm_trans_time = 0,
     sys_need_sync_team_again = 0, sys_need_sync_netlink_again = 0, sys_dbg_counters = zero_dbg_counters\<rparr>"

definition demo_lif :: "string \<Rightarrow> int \<Rightarrow> LocalInterface" where
  "demo_lif n ty = \<lparr>lif_ifindex = 10, lif_type = ty, lif_name = n, lif_mac_addr = [0, 1, 2, 3, 4, 5],
     lif_mac_addr_ori = [0, 1, 2, 3, 4, 5], lif_state = PORT_STATE_UP, lif_ipv4_addr = 0, lif_prefixlen = 0,
     lif_ipv6_addr = replicate 16 0, lif_prefixlen_v6 = 0, lif_ipv6_ll_addr = replicate 16 0, lif_ll_prefixlen_v6 = 0,
     lif_l3_mode = 0, lif_l3_mac_addr = replicate 6 0, lif_is_peer_link = 0, lif_portchannel_member_buf = [],
     lif_is_arp_accept = 0, lif_po_id = 1, lif_po_active = 1, lif_mlacp_state = 0, lif_isolate_to_peer_link = 0,
     lif_po_down_time = 0, lif_csm = Some 0, lif_changed = 1, lif_port_config_sync = 1, lif_is_traffic_disable = False,
     lif_is_l3_proto_enabled = False, lif_vlan_count = 0, lif_master_ifindex = 0,
     lif_vlan_tree = [\<lparr>vlan_vid = 10, vlan_removed = 0, vlan_itf = None\<rparr>]\<rparr>"

definition demo_pif :: PeerInterface where
  "demo_pif = \<lparr>pif_ifindex = 20, pif_type = IF_T_PORT_CHANNEL, pif_name = ''PortChannel1'', pif_mac_addr = replicate 6 0,
     pif_state = PORT_STATE_UP, pif_ipv4_addr = 0, pif_l3_mode = 0, pif_is_peer_link = 0, pif_po_id = 1, pif_po_active = 1,
     pif_csm = Some 0, pif_vlan_tree = [\<lparr>vlan_vid = 10, vlan_removed = 0, vlan_itf = None\<rparr>]\<rparr>"

definition demo_mac :: "u8 \<Rightarrow> string \<Rightarrow> u8 \<Rightarrow> bool \<Rightarrow> MACMsg" where
  "demo_mac k n age queued = zero_MACMsg\<lparr>mac_vid := 10, mac_addr := [2, 0, 0, 0, 0, k], mac_op_type := MAC_SYNC_ADD,
     mac_fdb_type := MAC_TYPE_DYNAMIC, mac_ifname := n, mac_origin_ifname := n, mac_age_flag := age, mac_in_msg_list := queued\<rparr>"

definition demo_csm :: CSM where
  "demo_csm = zero_CSM\<lparr>csm_mlag_id := 1, csm_sock_fd := 7, csm_peer_itf_name := ''Ethernet0'', csm_peer_link_if := Some 1,
     csm_app_csm := zero_AppCSM\<lparr>app_mlacp := zero_mLACP\<lparr>ml_lif_list := [2], ml_pif_list := [1],
       ml_mac_rb := [1, 2], ml_mac_msg_list := [1]\<rparr>\<rparr>\<rparr>"

definition demo :: world where
  "demo = \<lparr>w_sys = demo_sys, w_csm = [0 \<mapsto> demo_csm],
     w_lif = [1 \<mapsto> demo_lif ''Ethernet0'' IF_T_PORT, 2 \<mapsto> demo_lif ''PortChannel1'' IF_T_PORT_CHANNEL],
     w_pif = [1 \<mapsto> demo_pif],
     w_mac = [1 \<mapsto> demo_mac 1 ''PortChannel1'' MAC_AGE_PEER True, 2 \<mapsto> demo_mac 2 ''Ethernet0'' MAC_AGE_LOCAL False],
     w_fresh = 3, g_csm_buf = zero_buf, ICCP_MSG_ID = 1, g_prev_state = MLACP_STATE_INIT, g_once_connected = False,
     w_now = 1000, w_team = Map.empty, w_answers = [], w_mallocs = [], w_out = []\<rparr>"

lemmas demo_simps = demo_def demo_csm_def demo_lif_def demo_pif_def demo_mac_def demo_sys_def zero_simps

lemma demo_csm [simp]: "w_csm demo 0 = Some demo_csm"
  by (simp add: demo_def)

lemma demo_mac_inv: "mac_inv 0 demo"
  by (auto simp: mac_inv_def demo_simps mac_tree.tree_def mac_key_ok_def MACMsg_compare_def)

lemma demo_env: "env_ok 0 demo"
  by (auto simp: env_ok_def demo_simps)

lemma demo_learn: "learn_ok 0 demo"
  using demo_mac_inv demo_env by (simp add: learn_ok_def) (simp add: demo_simps)

lemma demo_wf_log: "wf_log zero_MsgLog"
  by (simp add: wf_log_def zero_simps)

lemma demo_link: "link_up 0 demo"
  using demo_wf_log by (simp add: link_up_def) (simp add: demo_csm_def zero_CSM_def)

lemma demo_ready: "sync_ready 0 demo"
  using demo_link by (auto simp: sync_ready_def demo_simps wf_lif_def cstring_def)

lemma demo_queue: "mac_q 0 demo = [1]" "\<forall>p \<in> set (mac_q 0 demo). wf_MACMsg (the (w_mac demo p))"
  by (simp_all add: demo_simps wf_MACMsg_def cstring_def)

lemma not_zero_addr: "x \<noteq> 0 \<Longrightarrow> x # xs \<noteq> replicate n (0 :: u8)"
  by (cases n) auto

end
