(* ===== verification/Session_Spec.thy ===== *)
theory Session_Spec
  imports Iccp_Scheduler Demo_Domain
begin

text \<open>
  Correctness of the session with the peer: messages are put together again from whatever pieces
  TCP delivers, the waits of the reader, the election of the roles, the connection state machine
  as an abstract automaton, and the handshake of two peers.
\<close>

subsection \<open>Reading a message in pieces\<close>

text \<open>The bytes of a script, and scripts of data that has arrived or is still on its way.\<close>

fun rx_data :: "recv_result list \<Rightarrow> bytes" where
  "rx_data [] = []"
| "rx_data (Recv_data bs # rx) = bs @ rx_data rx"
| "rx_data (_ # rx) = rx_data rx"

definition pieces :: "recv_result list \<Rightarrow> bool" where
  "pieces rx \<longleftrightarrow> (\<forall>r \<in> set rx. \<exists>bs. r = Recv_data bs \<and> bs \<noteq> [])"

definition alive :: "recv_result list \<Rightarrow> bool" where
  "alive rx \<longleftrightarrow> (\<forall>r \<in> set rx. r \<noteq> Recv_error \<and> r \<noteq> Recv_data [])"

lemma pieces_simps [simp]:
  "pieces []" "pieces (Recv_data bs # rx) = (bs \<noteq> [] \<and> pieces rx)"
  "\<not> pieces (Recv_again # rx)" "\<not> pieces (Recv_error # rx)"
  by (auto simp: pieces_def)

lemma alive_simps [simp]:
  "alive []" "alive (Recv_data bs # rx) = (bs \<noteq> [] \<and> alive rx)"
  "alive (Recv_again # rx) = alive rx" "\<not> alive (Recv_error # rx)"
  by (auto simp: alive_def)

lemma leftover_simps [simp]:
  "rx_data (leftover bs rx) = bs @ rx_data rx" "alive (leftover bs rx) = alive rx" "pieces (leftover bs rx) = pieces rx"
  "count_list (leftover bs rx) Recv_again = count_list rx Recv_again"
  by (auto simp: leftover_def)

text \<open>The header is read with blocking calls, so pieces of it just follow each other.\<close>

lemma rx_data_append [simp]: "rx_data (pre @ rx) = rx_data pre @ rx_data rx"
  by (induction pre rule: rx_data.induct) auto

lemma pieces_append [simp]: "pieces (ps @ qs) = (pieces ps \<and> pieces qs)"
  by (auto simp: pieces_def)

lemma alive_append [simp]: "alive (ps @ qs) = (alive ps \<and> alive qs)"
  by (auto simp: alive_def)

lemma pieces_alive: "pieces ps \<Longrightarrow> alive ps \<and> count_list ps Recv_again = 0"
  by (induction ps) (auto simp: pieces_def alive_def)

lemma recv_hdr_pieces:
  assumes "pieces pre" "length got < 8" "8 \<le> length (got @ rx_data pre)"
  shows "\<exists>ps. recv_hdr (pre @ rx) got = (Hdr_ok, take 8 (got @ rx_data pre), ps @ rx) \<and> pieces ps
    \<and> rx_data ps = drop 8 (got @ rx_data pre)"
  using assms
proof (induction pre arbitrary: got)
  case (Cons r pre)
  then obtain bs where r: "r = Recv_data bs" "bs \<noteq> []" "pieces pre" by (auto simp: pieces_def)
  show ?case
  proof (cases "length (got @ bs) < 8")
    case True
    with Cons r show ?thesis using Cons.IH [of "got @ bs"] by (simp add: less_diff_conv)
  next
    case False
    have "leftover bs' (pre @ rx) = leftover bs' pre @ rx" for bs' by (simp add: leftover_def)
    with False r Cons.prems(2) show ?thesis
      by (intro exI [of _ "leftover (drop (8 - length got) bs) pre"]) (simp add: less_diff_conv Let_def)
  qed
qed simp

text \<open>The rest is read with calls that return at once; fewer than ten of them may find nothing.\<close>

lemma recv_data_alive:
  assumes "alive rx" "n \<le> length (rx_data rx)" "k + count_list rx Recv_again < 10" "8 + length got + n \<le> 65536"
  shows "\<exists>k' us. recv_data rx got n k timeout waited w
      = Some (Data_ok k', got @ take n (rx_data rx), w\<lparr>w_out := w_out w @ map Ev_sleep us\<rparr>)
    \<and> k' \<le> k + count_list rx Recv_again"
  using assms
proof (induction rx got n k timeout waited w rule: recv_data.induct)
  case (1 rx got k timeout waited w)
  then show ?case by (intro exI [of _ k] exI [of _ "[]"]) simp
next
  case (4 rx got n k timeout waited w)
  then have k: "k + 1 < 10" by simp
  define u where "u = (int k + 1) * 100000"
  have *: "retry_sleep (k + 1) timeout waited = Some (nat u, waited + u)"
    using k by (simp add: retry_sleep_def u_def)
  have "\<exists>k' us. recv_data rx got (Suc n) (k + 1) timeout (waited + u) (emit (Ev_sleep (nat u)) w)
      = Some (Data_ok k', got @ take (Suc n) (rx_data rx),
          (emit (Ev_sleep (nat u)) w)\<lparr>w_out := w_out (emit (Ev_sleep (nat u)) w) @ map Ev_sleep us\<rparr>)
    \<and> k' \<le> k + 1 + count_list rx Recv_again"
    by (rule 4(1) [OF _ * refl]) (use 4(2-) k in simp_all)
  then obtain k' us where IH: "recv_data rx got (Suc n) (k + 1) timeout (waited + u) (emit (Ev_sleep (nat u)) w)
      = Some (Data_ok k', got @ take (Suc n) (rx_data rx), w\<lparr>w_out := w_out w @ map Ev_sleep (nat u # us)\<rparr>)"
    "k' \<le> k + 1 + count_list rx Recv_again"
    by (auto simp: emit_def)
  have "recv_data (Recv_again # rx) got (Suc n) k timeout waited w
      = recv_data rx got (Suc n) (k + 1) timeout (waited + u) (emit (Ev_sleep (nat u)) w)"
    using k * by (simp only: recv_data.simps) simp
  also note IH(1)
  finally have "recv_data (Recv_again # rx) got (Suc n) k timeout waited w
      = Some (Data_ok k', got @ take (Suc n) (rx_data (Recv_again # rx)), w\<lparr>w_out := w_out w @ map Ev_sleep (nat u # us)\<rparr>)"
    by (simp only: rx_data.simps)
  moreover have "k' \<le> k + count_list (Recv_again # rx) Recv_again" using IH(2) by simp
  ultimately show ?case by blast
next
  case (5 bs rx got n k timeout waited w)
  have "\<exists>k' us. recv_data (leftover (drop (Suc n) bs) rx) (got @ take (Suc n) bs) (Suc n - length bs) k timeout waited w
      = Some (Data_ok k', (got @ take (Suc n) bs) @ take (Suc n - length bs) (rx_data (leftover (drop (Suc n) bs) rx)),
          w\<lparr>w_out := w_out w @ map Ev_sleep us\<rparr>) \<and> k' \<le> k + count_list (leftover (drop (Suc n) bs) rx) Recv_again"
    by (rule 5(1)) (use 5(2-) in \<open>auto simp: min_def split: if_splits\<close>)
  moreover have "recv_data (Recv_data bs # rx) got (Suc n) k timeout waited w
      = recv_data (leftover (drop (Suc n) bs) rx) (got @ take (Suc n) bs) (Suc n - length bs) k timeout waited w"
    using 5(2,5) by (simp add: min_def split: if_splits)
  moreover have "take (Suc n) bs @ take (Suc n - length bs) (rx_data (leftover (drop (Suc n) bs) rx))
      = take (Suc n) (rx_data (Recv_data bs # rx))"
    by (cases "length bs \<le> Suc n") simp_all
  ultimately obtain k' us where IH: "recv_data (Recv_data bs # rx) got (Suc n) k timeout waited w
      = Some (Data_ok k', got @ take (Suc n) (rx_data (Recv_data bs # rx)), w\<lparr>w_out := w_out w @ map Ev_sleep us\<rparr>)"
    "k' \<le> k + count_list (leftover (drop (Suc n) bs) rx) Recv_again"
    by (auto simp only: append_assoc)
  then have "k' \<le> k + count_list (Recv_data bs # rx) Recv_again" by simp
  with IH(1) show ?case by blast
next
  case 2
  from 2(2) show ?case by simp
next
  case 3
  from 3(1) show ?case by simp
qed

text \<open>A complete message: its length field counts the bytes behind the first four.\<close>

definition framed :: "bytes \<Rightarrow> bool" where
  "framed msg \<longleftrightarrow> 8 \<le> length msg \<and> length msg \<le> CSM_BUFFER_SIZE \<and> unat (ntohs (mk16 (msg ! 2) (msg ! 3))) + 4 = length msg"

lemma header_length: "8 \<le> length msg \<Longrightarrow> rd16 2 (stn 0 (take 8 msg) b) = mk16 (msg ! 2) (msg ! 3)"
  by (simp add: rd16_def stn_def)

lemma read_callback_framed:
  assumes "w_csm w c = Some csm" "csm_sock_fd csm > 0" "pieces pre" "alive rx" "8 \<le> length (rx_data pre)"
    and data: "rx_data (pre @ rx) = msg @ rest" "framed msg" "count_list rx Recv_again < 10"
  shows "\<exists>b us f. scheduler_csm_read_callback c (pre @ rx) w = map_option (Pair 1)
      (enqueue_received c msg (upd_cnt f (w\<lparr>w_out := w_out w @ map Ev_sleep us, g_csm_buf := b\<rparr>)))"
proof -
  have msg: "8 \<le> length msg" "length msg \<le> 65536" "unat (ntohs (mk16 (msg ! 2) (msg ! 3))) + 4 = length msg"
    using data(2) by (simp_all add: framed_def)
  have "take 8 (rx_data pre) = take 8 (rx_data pre @ rx_data rx)" using assms(5) by simp
  also have "\<dots> = take 8 msg" using msg(1) data(1) by simp
  finally have hd: "take 8 (rx_data pre) = take 8 msg" .
  have "drop 8 (rx_data pre) @ rx_data rx = drop 8 (rx_data pre @ rx_data rx)" using assms(5) by simp
  also have "\<dots> = drop 8 msg @ rest" using msg(1) data(1) by simp
  finally have tl: "drop 8 (rx_data pre) @ rx_data rx = drop 8 msg @ rest" .
  obtain rx' where rx': "recv_hdr (pre @ rx) [] = (Hdr_ok, take 8 msg, rx')" "alive rx'" "rx_data rx' = drop 8 msg @ rest"
      "count_list rx' Recv_again = count_list rx Recv_again"
    using recv_hdr_pieces [of pre "[]" rx] assms(3-5) hd tl by (auto dest: pieces_alive)
  define w1 where "w1 = w\<lparr>g_csm_buf := stn 0 (take 8 msg) zero_buf\<rparr>"
  have len: "unat (ntohs (rd16 2 (g_csm_buf w1))) = length msg - 4"
    using msg by (simp add: w1_def header_length)
  have "length msg - 4 - 4 \<le> length (rx_data rx')" "0 + count_list rx' Recv_again < 10"
    "8 + length ([] :: bytes) + (length msg - 4 - 4) \<le> 65536"
    using rx' msg data(3) by simp_all
  from recv_data_alive [OF rx'(2) this, of "csm_session_timeout csm" 0 w1] obtain k us where
    k: "recv_data rx' [] (length msg - 4 - 4) 0 (csm_session_timeout csm) 0 w1
      = Some (Data_ok k, drop 8 msg, w1\<lparr>w_out := w_out w1 @ map Ev_sleep us\<rparr>)"
    using rx'(3) msg(1) by auto
  define w2 where "w2 = w\<lparr>w_out := w_out w @ map Ev_sleep us, g_csm_buf := stn 8 (drop 8 msg) (stn 0 (take 8 msg) zero_buf)\<rparr>"
  have n: "\<not> length msg - 4 < 4" using msg(1) by simp
  have "scheduler_csm_read_callback c (pre @ rx) w = map_option (Pair 1)
      (enqueue_received c msg (if k > 0 then SYSTEM_SET_RETRY_COUNTER k w2 else w2))"
    using assms(1,2) rx'(1) len k n
    by (simp add: scheduler_csm_read_callback_def Let_def map_conv_bind_option w2_def flip: w1_def) (simp add: w1_def comp_def)
  moreover have "\<exists>f. (if k > 0 then SYSTEM_SET_RETRY_COUNTER k w2 else w2) = upd_cnt f w2"
    by (cases "k > 0") (auto simp: SYSTEM_SET_RETRY_COUNTER_def intro: exI [of _ "\<lambda>x. x"])
  ultimately obtain f where "scheduler_csm_read_callback c (pre @ rx) w = map_option (Pair 1) (enqueue_received c msg (upd_cnt f w2))"
    by metis
  then show ?thesis unfolding w2_def by blast
qed

lemma enqueue_received_eq:
  assumes "w_csm w c = Some csm" "w_mallocs w = []"
  shows "enqueue_received c msg w = map_option
    (\<lambda>csm'. upd_csm c (\<lambda>_. csm'\<lparr>csm_icc_msg_in_count := csm_icc_msg_in_count csm' + 1\<rparr>) w) (iccp_csm_enqueue_msg csm msg)"
  using assms by (simp add: enqueue_received_def iccp_csm_init_msg_def malloc_ok_def map_conv_bind_option comp_def)

text \<open>
  A peer that stops in the middle of a message is given up after ten waits. The last wait is what
  is left of the session timeout; below five seconds nothing is left, and the difference, an
  unsigned number to \<open>usleep\<close>, is more than an hour.
\<close>

definition waits :: "int \<Rightarrow> nat list" where
  "waits timeout = map (\<lambda>k. k * 100000) [1..<10] @ [nat ((timeout * 1000000 - 4500000) mod 2 ^ 32)]"

lemma waits_length: "length (waits timeout) = 10"
  by (simp add: waits_def)

lemma recv_data_silent:
  assumes "0 \<le> timeout" "timeout < 2148" "n > 0"
  shows "recv_data (replicate 11 Recv_again @ rx) got n 0 timeout 0 w
    = Some (Data_retry_failed, got, w\<lparr>w_out := w_out w @ map Ev_sleep (waits timeout)\<rparr>)"
proof -
  from \<open>n > 0\<close> obtain m where "n = Suc m" by (cases n) auto
  moreover have "\<bar>timeout * 1000000\<bar> < 2 ^ 31" using assms by simp
  moreover have "replicate 11 Recv_again @ rx = Recv_again # Recv_again # Recv_again # Recv_again # Recv_again # Recv_again
      # Recv_again # Recv_again # Recv_again # Recv_again # Recv_again # rx"
    by (simp add: eval_nat_numeral)
  ultimately show ?thesis by (simp add: retry_sleep_def waits_def emit_def upt_rec)
qed

lemma recv_data_pieces:
  assumes "pieces ps" "length (rx_data ps) < n" "8 + length got + n \<le> 65536"
  shows "recv_data (ps @ rx) got n k timeout waited w
    = recv_data rx (got @ rx_data ps) (n - length (rx_data ps)) k timeout waited w"
  using assms
proof (induction ps arbitrary: got n)
  case (Cons r ps)
  then obtain bs where r: "r = Recv_data bs" "bs \<noteq> []" "pieces ps" by (auto simp: pieces_def)
  with Cons.prems(2) obtain m where n: "n = Suc m" "length bs < n" by (cases n) auto
  have "recv_data ((r # ps) @ rx) got n k timeout waited w
      = recv_data (ps @ rx) (got @ bs) (n - length bs) k timeout waited w"
    using r(1,2) n Cons.prems(3) by (simp add: leftover_def)
  then show ?case using Cons.IH [of "n - length bs" "got @ bs"] r Cons.prems(2,3) n(2) by simp
qed simp

lemma last_wait:
  assumes "0 \<le> timeout" "timeout < 2148"
  shows "timeout \<ge> 5 \<Longrightarrow> sum_list (waits timeout) = nat timeout * 1000000"
    and "timeout < 5 \<Longrightarrow> last (waits timeout) > 3600 * 1000000"
proof -
  show "sum_list (waits timeout) = nat timeout * 1000000" if "timeout \<ge> 5"
    using assms that by (simp add: waits_def upt_rec nat_diff_distrib nat_mult_distrib)
  assume "timeout < 5"
  with assms(1) have "timeout \<in> {0, 1, 2, 3, 4}" by auto
  then show "last (waits timeout) > 3600 * 1000000" by (auto simp: waits_def)
qed

lemma recv_hdr_read:
  assumes "pieces pre" "8 \<le> length (rx_data pre)"
  obtains ps where "recv_hdr (pre @ rx) [] = (Hdr_ok, take 8 (rx_data pre), ps @ rx)" "pieces ps"
    "rx_data ps = drop 8 (rx_data pre)"
  using recv_hdr_pieces [of pre "[]" rx] assms by auto

lemma read_callback_silent:
  assumes "w_csm w c = Some csm" "csm_sock_fd csm > 0" "pieces pre" "8 \<le> length (rx_data pre)"
    and len: "length (rx_data pre) < 4 + unat (ntohs (mk16 (rx_data pre ! 2) (rx_data pre ! 3)))"
      "unat (ntohs (mk16 (rx_data pre ! 2) (rx_data pre ! 3))) \<le> 65532"
    and timeout: "0 \<le> csm_session_timeout csm" "csm_session_timeout csm < 2148"
  shows "\<exists>b. scheduler_csm_read_callback c (pre @ replicate 11 Recv_again @ rx) w
    = recv_err c (cnt_rx_retry_fail_counter_update (\<lambda>n. n + 1))
        (w\<lparr>w_out := w_out w @ map Ev_sleep (waits (csm_session_timeout csm)), g_csm_buf := b\<rparr>)"
proof -
  obtain ps where ps: "recv_hdr (pre @ replicate 11 Recv_again @ rx) [] = (Hdr_ok, take 8 (rx_data pre), ps @ replicate 11 Recv_again @ rx)"
      "pieces ps" "rx_data ps = drop 8 (rx_data pre)"
    using recv_hdr_read [OF assms(3,4)] .
  define n where "n = unat (ntohs (mk16 (rx_data pre ! 2) (rx_data pre ! 3)))"
  define w1 where "w1 = w\<lparr>g_csm_buf := stn 0 (take 8 (rx_data pre)) zero_buf\<rparr>"
  have len1: "unat (ntohs (rd16 2 (g_csm_buf w1))) = n" using assms(4) by (simp add: w1_def n_def header_length)
  have "length (rx_data ps) < n - 4" using ps(3) len(1) assms(4) by (simp add: n_def)
  moreover have "8 + length ([] :: bytes) + (n - 4) \<le> 65536" using len(2) by (simp add: n_def)
  ultimately have "recv_data (ps @ replicate 11 Recv_again @ rx) [] (n - 4) 0 (csm_session_timeout csm) 0 w1
      = Some (Data_retry_failed, rx_data ps, w1\<lparr>w_out := w_out w1 @ map Ev_sleep (waits (csm_session_timeout csm))\<rparr>)"
    using recv_data_pieces [OF ps(2)] recv_data_silent [OF timeout] by simp
  moreover have "\<not> n < 4" using len(1) assms(4) by (simp add: n_def)
  ultimately show ?thesis
    using assms(1,2) ps(1) len1
    by (simp add: scheduler_csm_read_callback_def Let_def flip: w1_def) (auto simp: w1_def)
qed

lemma recv_data_overrun:
  assumes "pieces ps" "n \<le> length (rx_data ps)" "8 + length got + n > 65536" "8 + length got \<le> 65536"
  shows "recv_data (ps @ rx) got n k timeout waited w = None"
  using assms
proof (induction ps arbitrary: got n)
  case (Cons r ps)
  then obtain bs where r: "r = Recv_data bs" "bs \<noteq> []" "pieces ps" by (auto simp: pieces_def)
  from Cons.prems(3,4) obtain m where n: "n = Suc m" by (cases n) auto
  show ?case
  proof (cases "8 + length got + min (length bs) n > 65536")
    case True
    then show ?thesis using r n by simp
  next
    case False
    with Cons.prems(3) have "length bs < n" by (simp add: min_def split: if_splits)
    then have "recv_data ((r # ps) @ rx) got n k timeout waited w = recv_data (ps @ rx) (got @ bs) (n - length bs) k timeout waited w"
      using False r(1,2) n by (simp add: leftover_def)
    also have "\<dots> = None"
      by (rule Cons.IH) (use Cons.prems(2,3) r False \<open>length bs < n\<close> in \<open>simp_all add: min_def split: if_splits\<close>)
    finally show ?thesis .
  qed
qed simp

subsection \<open>Properties of the reader\<close>

text \<open>
  C5: whatever pieces TCP cuts a message of the peer into, as long as fewer than ten calls find
  nothing and the header is not waited for, the reader puts the message together again, queues it
  for the state machines, and changes nothing else but the debug counters; it only sleeps.
\<close>

theorem message_reassembly:
  assumes "w_csm w c = Some csm" "csm_sock_fd csm > 0" "w_mallocs w = []" "pieces pre" "alive rx" "8 \<le> length (rx_data pre)"
    and "rx_data (pre @ rx) = msg @ rest" "framed msg" "count_list rx Recv_again < 10"
    and "iccp_csm_enqueue_msg csm msg = Some csm'"
  shows "\<exists>w' us. scheduler_csm_read_callback c (pre @ rx) w = Some (1, w')
    \<and> w_csm w' = (w_csm w)(c \<mapsto> csm'\<lparr>csm_icc_msg_in_count := csm_icc_msg_in_count csm' + 1\<rparr>)
    \<and> w_lif w' = w_lif w \<and> w_pif w' = w_pif w \<and> w_mac w' = w_mac w \<and> w_out w' = w_out w @ map Ev_sleep us"
proof -
  obtain b us f where rd: "scheduler_csm_read_callback c (pre @ rx) w = map_option (Pair 1)
      (enqueue_received c msg (upd_cnt f (w\<lparr>w_out := w_out w @ map Ev_sleep us, g_csm_buf := b\<rparr>)))"
    using read_callback_framed [OF assms(1,2,4-9)] by blast
  show ?thesis unfolding rd by (subst enqueue_received_eq) (use assms(1,3,10) in auto)
qed

theorem message_reassembly_witness:
  "\<exists>w'. scheduler_csm_read_callback 0 [Recv_data [7, 0], Recv_data [0, 8, 0, 0, 0, 1, 9], Recv_again, Recv_data [9, 9, 9, 7]] demo
      = Some (1, w')
    \<and> map_option csm_msg_list (w_csm w' 0) = Some [[0, 7, 0, 8, 0, 0, 0, 1, 9, 9, 9, 9]]"
proof -
  let ?m = "[7, 0, 0, 8, 0, 0, 0, 1, 9, 9, 9, 9] :: bytes"
  have "unat (ntohs (mk16 0 8)) = 8" by code_simp
  then have "framed ?m" by (simp add: framed_def)
  moreover have "iccp_csm_enqueue_msg demo_csm ?m = Some (demo_csm\<lparr>csm_msg_list := [[0, 7, 0, 8, 0, 0, 0, 1, 9, 9, 9, 9]]\<rparr>)"
  proof -
    have "csm_msg_list demo_csm = []" by (simp add: demo_simps)
    moreover have "swap16 0 ?m = Some [0, 7, 0, 8, 0, 0, 0, 1, 9, 9, 9, 9]" by code_simp
    moreover have "map_option LDPHdr_msg_type (ld16 0 [0, 7, 0, 8, 0, 0, 0, 1, 9, 9, 9, 9]) = Some 0x700" by code_simp
    ultimately show ?thesis by (auto simp: iccp_csm_enqueue_msg_def)
  qed
  moreover have "csm_sock_fd demo_csm > 0" "w_mallocs demo = []" by (simp_all add: demo_simps)
  ultimately show ?thesis
    using message_reassembly [of demo 0 demo_csm "[Recv_data [7, 0], Recv_data [0, 8, 0, 0, 0, 1, 9]]"
        "[Recv_again, Recv_data [9, 9, 9, 7]]" ?m "[7]"] by auto
qed

text \<open>
  C26: a peer that falls silent in the middle of a message is given up after exactly ten waits of
  the reader. With a session timeout of at least five seconds they add up to
  the session timeout; with a shorter one the last of them alone takes more than an hour.
\<close>

theorem silent_peer:
  assumes "w_csm w c = Some csm" "csm_sock_fd csm > 0" "pieces pre" "8 \<le> length (rx_data pre)"
    and "length (rx_data pre) < 4 + unat (ntohs (mk16 (rx_data pre ! 2) (rx_data pre ! 3)))"
      "unat (ntohs (mk16 (rx_data pre ! 2) (rx_data pre ! 3))) \<le> 65532"
    and "0 \<le> csm_session_timeout csm" "csm_session_timeout csm < 2148"
  shows "\<exists>b us. scheduler_csm_read_callback c (pre @ replicate 11 Recv_again @ rx) w
      = recv_err c (cnt_rx_retry_fail_counter_update (\<lambda>n. n + 1)) (w\<lparr>w_out := w_out w @ map Ev_sleep us, g_csm_buf := b\<rparr>)
    \<and> length us = 10
    \<and> (csm_session_timeout csm \<ge> 5 \<longrightarrow> sum_list us = nat (csm_session_timeout csm) * 1000000)
    \<and> (csm_session_timeout csm < 5 \<longrightarrow> last us > 3600 * 1000000)"
  using read_callback_silent [OF assms, of rx] last_wait [OF assms(7,8)]
  by (metis waits_length)

theorem silent_peer_witness:
  "\<exists>b us. scheduler_csm_read_callback 0 ([Recv_data [7, 0, 0, 8, 0, 0, 0, 1, 9]] @ replicate 11 Recv_again)
        (upd_csm 0 (csm_session_timeout_update (\<lambda>_. HEARTBEAT_TIMEOUT_SEC)) demo)
      = recv_err 0 (cnt_rx_retry_fail_counter_update (\<lambda>n. n + 1))
          ((upd_csm 0 (csm_session_timeout_update (\<lambda>_. HEARTBEAT_TIMEOUT_SEC)) demo)\<lparr>w_out := map Ev_sleep us, g_csm_buf := b\<rparr>)
    \<and> length us = 10 \<and> sum_list us = 15000000"
proof -
  have "unat (ntohs (mk16 0 8)) = 8" by code_simp
  moreover have "csm_sock_fd demo_csm > 0" "w_out demo = []" by (simp_all add: demo_simps)
  ultimately show ?thesis
    using silent_peer [of "upd_csm 0 (csm_session_timeout_update (\<lambda>_. HEARTBEAT_TIMEOUT_SEC)) demo" 0
        "demo_csm\<lparr>csm_session_timeout := HEARTBEAT_TIMEOUT_SEC\<rparr>" "[Recv_data [7, 0, 0, 8, 0, 0, 0, 1, 9]]" "[]"]
    by simp
qed

text \<open>
  C27: a length field of more than 65532, which the reader does not refuse, makes it write
  behind the end of its buffer as soon as the bytes announced arrive.
\<close>

theorem oversized_message:
  assumes "w_csm w c = Some csm" "csm_sock_fd csm > 0" "pieces pre"
    and "unat (ntohs (mk16 (rx_data pre ! 2) (rx_data pre ! 3))) > 65532"
      "length (rx_data pre) \<ge> 4 + unat (ntohs (mk16 (rx_data pre ! 2) (rx_data pre ! 3)))"
  shows "scheduler_csm_read_callback c (pre @ rx) w = None"
proof -
  have 8: "8 \<le> length (rx_data pre)" using assms(4,5) by linarith
  obtain ps where ps: "recv_hdr (pre @ rx) [] = (Hdr_ok, take 8 (rx_data pre), ps @ rx)" "pieces ps" "rx_data ps = drop 8 (rx_data pre)"
    using recv_hdr_read [OF assms(3) 8] .
  define n where "n = unat (ntohs (mk16 (rx_data pre ! 2) (rx_data pre ! 3)))"
  have n: "n > 65532" "n \<le> length (rx_data pre) - 4" using assms(4,5) by (simp_all add: n_def)
  have "recv_data (ps @ rx) [] (n - 4) 0 t 0 w1 = None" for t w1
    by (rule recv_data_overrun) (use ps(2,3) n in simp_all)
  moreover have "unat (ntohs (rd16 2 (stn 0 (take 8 (rx_data pre)) zero_buf))) = n" using 8 by (simp add: n_def header_length)
  ultimately show ?thesis
    using assms(1,2) ps(1) n(1) by (simp add: scheduler_csm_read_callback_def Let_def)
qed

theorem oversized_message_witness:
  "scheduler_csm_read_callback 0 [Recv_data ([7, 0, 0xFF, 0xFF] @ replicate 65535 0)] demo = None"
proof -
  define zs :: bytes where "zs = replicate 65535 0"
  have zs: "length zs = 65535" unfolding zs_def by (rule length_replicate)
  have "mk16 0xFF 0xFF = 0xFFFF" "ntohs 0xFFFF = 0xFFFF" by code_simp+
  moreover have "csm_sock_fd demo_csm > 0" by (simp add: demo_simps)
  ultimately show ?thesis
    using oversized_message [OF demo_csm, of "[Recv_data ([7, 0, 0xFF, 0xFF] @ zs)]" "[]"] zs
    unfolding zs_def [symmetric] by simp
qed

subsection \<open>Election of the roles\<close>

definition smaller_address :: "CSM \<Rightarrow> bool" where
  "smaller_address csm \<longleftrightarrow> inet_addr (csm_sender_ip csm) < inet_addr (csm_peer_ip csm)"

lemma fix_bridge_mac_ok: "w_csm w c \<noteq> None \<Longrightarrow> safe (io_step w) (mlacp_fix_bridge_mac c w)"
  by (auto simp: mlacp_fix_bridge_mac_def safe_def)

definition elect :: "CSM \<Rightarrow> CSM" where
  "elect csm = (if csm_role_type csm = STP_ROLE_NONE
     then csm\<lparr>csm_role_type := if smaller_address csm then STP_ROLE_ACTIVE else STP_ROLE_STANDBY\<rparr> else csm)"

lemma role_count_ok:
  assumes "w_csm w c = Some csm"
  shows "safe (io_step (upd_csm c elect w)) (iccp_csm_stp_role_count c w)"
proof -
  have r: "io_step w (snd (mlacp_link_set_iccp_role i r sid w))" for i r sid w by blast
  show ?thesis
  proof (cases "csm_role_type csm = STP_ROLE_NONE")
    case False
    moreover have "upd_csm c elect w = w" using False assms by (simp add: upd_csm_def elect_def fun_upd_idem)
    ultimately show ?thesis using assms by (simp add: iccp_csm_stp_role_count_def safe_def)
  next
    case True
    let ?w = "\<lambda>role. upd_csm c (csm_role_type_update (\<lambda>_. role)) w"
    let ?v = "snd (mlacp_link_set_iccp_role (csm_mlag_id csm) False [] (?w STP_ROLE_STANDBY))"
    have "safe (io_step (?w STP_ROLE_STANDBY)) (mlacp_fix_bridge_mac c ?v)"
      by (rule safe_mono [OF fix_bridge_mac_ok]) (use assms io_frame(1) [OF r] in \<open>auto intro: io_trans [OF r]\<close>)
    moreover have "upd_csm c elect w = ?w (if smaller_address csm then STP_ROLE_ACTIVE else STP_ROLE_STANDBY)"
      using True assms by (simp add: upd_csm_def elect_def)
    ultimately show ?thesis
      using True assms r by (simp add: iccp_csm_stp_role_count_def smaller_address_def)
  qed
qed

lemma role_count_elect:
  assumes "w_csm w c = Some csm"
  shows "\<exists>w'. iccp_csm_stp_role_count c w = Some w' \<and> w_csm w' = (w_csm w)(c \<mapsto> elect csm)"
proof -
  obtain w' where "iccp_csm_stp_role_count c w = Some w'" "io_step (upd_csm c elect w) w'"
    using role_count_ok [OF assms] by (auto simp: safe_def)
  then show ?thesis using io_frame(1) assms by (fastforce simp: upd_csm_def)
qed

text \<open>What the preparation of a session keeps of a domain.\<close>

definition same_session :: "CSM \<Rightarrow> CSM \<Rightarrow> bool" where
  "same_session csm csm' \<longleftrightarrow> csm_sock_fd csm' = csm_sock_fd csm \<and> csm_sender_ip csm' = csm_sender_ip csm
     \<and> csm_peer_ip csm' = csm_peer_ip csm \<and> csm_current_state csm' = csm_current_state csm
     \<and> csm_iccp_info csm' = csm_iccp_info csm \<and> csm_msg_list csm' = csm_msg_list csm"

definition same_lifs :: "world \<Rightarrow> world \<Rightarrow> bool" where
  "same_lifs w w' \<longleftrightarrow> sys_lif_list (w_sys w') = sys_lif_list (w_sys w) \<and> dom (w_lif w') = dom (w_lif w)"

text \<open>The domain has a number and both addresses.\<close>

definition configured :: "CSM \<Rightarrow> bool" where
  "configured csm \<longleftrightarrow> csm_mlag_id csm > 0 \<and> csm_peer_ip csm \<noteq> [] \<and> csm_sender_ip csm \<noteq> []"

lemma check_config_ok:
  assumes "w_csm w c = Some csm" "set (sys_lif_list (w_sys w)) \<subseteq> dom (w_lif w)"
  shows "safe (\<lambda>(ret, w'). w_now w' = w_now w \<and> same_lifs w w' \<and> (\<exists>csm'. w_csm w' c = Some csm' \<and> same_session csm csm'
     \<and> (ret \<ge> 0 \<longrightarrow> configured csm \<and> csm_role_type csm' = csm_role_type (elect csm))))
    (scheduler_check_csm_config c w)"
proof -
  have role: "\<exists>w'. iccp_csm_stp_role_count c v = Some w' \<and> w_now w' = w_now v \<and> same_lifs v w' \<and> w_csm w' c = Some (elect x)"
    if "w_csm v c = Some x" for v x
    using role_count_ok [OF that] that by (auto simp: safe_def io_frame same_lifs_def)
  have el: "same_session csm (elect x)" "csm_role_type (elect x) = csm_role_type (elect csm)"
    if "same_session csm x" "csm_role_type x = csm_role_type csm" for x
    using that by (auto simp: same_session_def elect_def smaller_address_def)
  have refl: "same_session csm csm" by (simp add: same_session_def)
  from assms(2) obtain lif where lif: "local_if_find_by_name (csm_peer_itf_name csm) w = Some lif"
    using find_ptr_total unfolding local_if_find_by_name_def by blast
  show ?thesis
  proof (cases "csm_mlag_id csm \<le> 0 \<or> csm_peer_ip csm = [] \<or> csm_sender_ip csm = [] \<or> csm_peer_itf_name csm = []")
    case True
    then show ?thesis
      using role [OF assms(1)] el [OF refl] assms(1)
      by (auto simp: scheduler_check_csm_config_def safe_def configured_def)
  next
    case False
    show ?thesis
    proof (cases lif)
      case None
      with False lif assms(1) refl show ?thesis by (auto simp: scheduler_check_csm_config_def safe_def same_lifs_def)
    next
      case (Some l)
      let ?w = "upd_csm c (csm_peer_link_if_update (\<lambda>_. Some l)) (upd_lif l (lif_is_peer_link_update (\<lambda>_. 1)) w)"
      obtain y where y: "w_lif w l = Some y" using find_ptr_Some lif Some unfolding local_if_find_by_name_def by blast
      have "\<exists>w' x. set_peerlink_learn_kernel c 0 ?w = Some w' \<and> w_now w' = w_now w \<and> same_lifs w w'
          \<and> w_csm w' c = Some x \<and> same_session csm x \<and> csm_role_type x = csm_role_type csm"
        using assms(1) y io_frame(1,2,10,15) [OF io_sys_system]
        by (auto simp: set_peerlink_learn_kernel_def same_session_def same_lifs_def Let_def case_prod_beta)
      then obtain w1 x where w1: "set_peerlink_learn_kernel c 0 ?w = Some w1" "w_now w1 = w_now w \<and> same_lifs w w1"
          "w_csm w1 c = Some x" "same_session csm x" "csm_role_type x = csm_role_type csm" by blast
      show ?thesis
        using False lif Some w1(1,2) role [OF w1(3)] el [OF w1(4,5)] assms(1)
        by (auto simp: scheduler_check_csm_config_def safe_def configured_def same_lifs_def Let_def)
    qed
  qed
qed

definition role_of :: "u32 \<Rightarrow> u32 \<Rightarrow> stp_role_type" where
  "role_of a b = (if a < b then STP_ROLE_ACTIVE else STP_ROLE_STANDBY)"

lemma roles_exclusive:
  "if a = b then role_of a b = STP_ROLE_STANDBY \<and> role_of b a = STP_ROLE_STANDBY
   else {role_of a b, role_of b a} = {STP_ROLE_ACTIVE, STP_ROLE_STANDBY}"
  by (cases a b rule: linorder_cases) (auto simp: role_of_def)

text \<open>What opening the connection keeps in addition to the interfaces.\<close>

definition same_conn :: "CSM \<Rightarrow> CSM \<Rightarrow> bool" where
  "same_conn csm csm' \<longleftrightarrow> csm_current_state csm' = csm_current_state csm \<and> csm_iccp_info csm' = csm_iccp_info csm"

lemma client_conn_ok:
  assumes "w_csm w c = Some csm"
  shows "safe (\<lambda>w'. same_lifs w w' \<and> (\<exists>csm'. w_csm w' c = Some csm' \<and> csm_role_type csm' = csm_role_type csm \<and> same_conn csm csm'))
    (session_client_conn_handler c w)"
  using assms by (auto simp: session_client_conn_handler_def safe_def same_lifs_def same_conn_def Let_def case_prod_beta)

lemma prepare_session_ok:
  assumes "w_csm w c = Some csm" "set (sys_lif_list (w_sys w)) \<subseteq> dom (w_lif w)"
  shows "safe (\<lambda>w'. same_lifs w w' \<and> (\<exists>csm'. w_csm w' c = Some csm' \<and> same_conn csm csm' \<and>
    (csm_sock_fd csm' \<noteq> csm_sock_fd csm \<longrightarrow> smaller_address csm \<and> configured csm
       \<and> w_now w - csm_connTimePrev csm \<ge> CONNECT_INTERVAL_SEC \<and> csm_role_type csm' = csm_role_type (elect csm))))
    (scheduler_prepare_session c w)"
proof -
  let ?x = "if csm_connTimePrev csm = 0 then csm\<lparr>csm_connTimePrev := w_now w\<rparr> else csm"
  let ?w = "if csm_connTimePrev csm = 0 then upd_csm c (csm_connTimePrev_update (\<lambda>_. w_now w)) w else w"
  have x: "w_csm ?w c = Some ?x" "csm_sock_fd ?x = csm_sock_fd csm" "configured ?x = configured csm" "csm_role_type (elect ?x) = csm_role_type (elect csm)"
      "w_now ?w = w_now w" "set (sys_lif_list (w_sys ?w)) \<subseteq> dom (w_lif ?w)" "same_conn csm ?x" "same_lifs w ?w"
    using assms by (simp_all add: smaller_address_def configured_def elect_def same_conn_def same_lifs_def)
  obtain ret w1 y where y: "scheduler_check_csm_config c ?w = Some (ret, w1)" "w_csm w1 c = Some y" "same_session ?x y"
      "ret \<ge> 0 \<Longrightarrow> configured csm \<and> csm_role_type y = csm_role_type (elect csm)" "w_now w1 = w_now w" "same_lifs ?w w1"
    using check_config_ok [OF x(1,6)] x(3-5) by (auto simp: safe_def)
  have small: "smaller_address y = smaller_address csm" "csm_sock_fd y = csm_sock_fd csm" "same_conn csm y" "same_lifs w w1"
    using y(3,6) x(2) by (simp_all add: same_session_def smaller_address_def same_conn_def same_lifs_def split: if_splits)
  obtain w2 z where w2: "session_client_conn_handler c w1 = Some w2" "w_csm w2 c = Some z" "csm_role_type z = csm_role_type y"
      "same_conn csm z" "same_lifs w w2"
    using client_conn_ok [OF y(2)] small(3,4) by (auto simp: safe_def same_conn_def same_lifs_def)
  have prep: "scheduler_prepare_session c w = Some (if w_now w - csm_connTimePrev ?x < CONNECT_INTERVAL_SEC then ?w
     else let v = if csm_sock_fd csm > 0 then ?w else if ret < 0 \<or> \<not> smaller_address csm then w1 else w2
       in upd_csm c (csm_connTimePrev_update (\<lambda>_. w_now v)) v)"
    using assms(1) y(1,2) x(1,2,5) w2(1) small(1)
    by (auto simp: scheduler_prepare_session_def Let_def smaller_address_def not_less)
  have timed: "same_lifs w (upd_csm c (csm_connTimePrev_update f) v) = same_lifs w v" "same_conn csm (csm_connTimePrev_update f u) = same_conn csm u" for f v u
    by (simp_all add: same_lifs_def same_conn_def)
  show ?thesis unfolding prep using y w2 x small by (auto simp: safe_def timed Let_def split: if_splits)
qed

text \<open>The domain of the examples before the connection, with its two addresses.\<close>

definition demo_peer :: "string \<Rightarrow> string \<Rightarrow> CSM" where
  "demo_peer sender peer = zero_CSM\<lparr>csm_mlag_id := 1, csm_sock_fd := - 1, csm_sender_ip := sender, csm_peer_ip := peer,
     csm_connTimePrev := 990\<rparr>"

definition demo_peers :: "string \<Rightarrow> string \<Rightarrow> world" where
  "demo_peers sender peer = demo\<lparr>w_csm := [0 \<mapsto> demo_peer sender peer]\<rparr>"

lemma demo_addresses: "inet_addr ''10.0.0.1'' = 0x0100000A" "inet_addr ''10.0.0.2'' = 0x0200000A"
proof -
  have "inet_parts 3 ''10.0.0.1'' = Some [10, 0, 0, 1]" "inet_parts 3 ''10.0.0.2'' = Some [10, 0, 0, 2]" by code_simp+
  moreover have "htonl 0x0A000001 = 0x0100000A" "htonl 0x0A000002 = 0x0200000A" by code_simp+
  ultimately show "inet_addr ''10.0.0.1'' = 0x0100000A" "inet_addr ''10.0.0.2'' = 0x0200000A"
    by (simp_all only: inet_addr_def option.case list.case) simp_all
qed

lemma demo_peers_csm: "w_csm (demo_peers sender peer) 0 = Some (demo_peer sender peer)"
  by (simp add: demo_peers_def)

text \<open>
  C22: two daemons that name each other's addresses elect one ACTIVE and one STANDBY side, the
  one with the smaller address (as \<open>inet_addr\<close> returns it) being ACTIVE. When the two addresses
  are the same number, which also happens when neither can be parsed, both are STANDBY.
\<close>

theorem role_election:
  assumes "w_csm w c = Some csm" "w_csm v d = Some dsm" "csm_role_type csm = STP_ROLE_NONE" "csm_role_type dsm = STP_ROLE_NONE"
    and "csm_peer_ip dsm = csm_sender_ip csm" "csm_sender_ip dsm = csm_peer_ip csm"
  shows "\<exists>w' v' csm' dsm'. iccp_csm_stp_role_count c w = Some w' \<and> iccp_csm_stp_role_count d v = Some v'
    \<and> w_csm w' = (w_csm w)(c \<mapsto> csm') \<and> w_csm v' = (w_csm v)(d \<mapsto> dsm')
    \<and> (if inet_addr (csm_sender_ip csm) = inet_addr (csm_peer_ip csm)
       then csm_role_type csm' = STP_ROLE_STANDBY \<and> csm_role_type dsm' = STP_ROLE_STANDBY
       else {csm_role_type csm', csm_role_type dsm'} = {STP_ROLE_ACTIVE, STP_ROLE_STANDBY})"
proof -
  obtain w' v' where w': "iccp_csm_stp_role_count c w = Some w'" "w_csm w' = (w_csm w)(c \<mapsto> elect csm)"
    and v': "iccp_csm_stp_role_count d v = Some v'" "w_csm v' = (w_csm v)(d \<mapsto> elect dsm)"
    using role_count_elect [OF assms(1)] role_count_elect [OF assms(2)] by blast
  let ?a = "inet_addr (csm_sender_ip csm)" and ?b = "inet_addr (csm_peer_ip csm)"
  have "csm_role_type (elect csm) = role_of ?a ?b" "csm_role_type (elect dsm) = role_of ?b ?a"
    using assms(3-6) by (simp_all add: elect_def smaller_address_def role_of_def)
  then have "if ?a = ?b then csm_role_type (elect csm) = STP_ROLE_STANDBY \<and> csm_role_type (elect dsm) = STP_ROLE_STANDBY
     else {csm_role_type (elect csm), csm_role_type (elect dsm)} = {STP_ROLE_ACTIVE, STP_ROLE_STANDBY}"
    using roles_exclusive by metis
  then show ?thesis using w' v' by blast
qed

theorem role_election_witness:
  "\<exists>w' v' csm' dsm'. iccp_csm_stp_role_count 0 (demo_peers ''10.0.0.1'' ''10.0.0.2'') = Some w'
    \<and> iccp_csm_stp_role_count 0 (demo_peers ''10.0.0.2'' ''10.0.0.1'') = Some v'
    \<and> w_csm w' 0 = Some csm' \<and> w_csm v' 0 = Some dsm'
    \<and> {csm_role_type csm', csm_role_type dsm'} = {STP_ROLE_ACTIVE, STP_ROLE_STANDBY}"
proof -
  have "inet_addr ''10.0.0.1'' \<noteq> inet_addr ''10.0.0.2''" by (simp add: demo_addresses)
  then show ?thesis
    using role_election [OF demo_peers_csm demo_peers_csm, of "''10.0.0.1''" "''10.0.0.2''" "''10.0.0.2''" "''10.0.0.1''"]
    by (auto simp: demo_peer_def zero_CSM_def)
qed

text \<open>
  C23: preparing a session opens a connection only from the side with the smaller address: the
  socket of a domain without a connection changes only when the domain has a number and both
  addresses, the connection interval is over and the own address is the smaller one. The role of
  the domain does not enter: it becomes ACTIVE if none was elected before, but a role elected
  earlier stays as it is, also a STANDBY one that no longer fits the addresses.
\<close>

theorem only_smaller_connects:
  assumes "w_csm w c = Some csm" "csm_sock_fd csm \<le> 0" "set (sys_lif_list (w_sys w)) \<subseteq> dom (w_lif w)"
  shows "\<exists>w' csm'. scheduler_prepare_session c w = Some w' \<and> w_csm w' c = Some csm' \<and>
    (csm_sock_fd csm' \<noteq> csm_sock_fd csm \<longrightarrow> smaller_address csm \<and> configured csm
       \<and> w_now w - csm_connTimePrev csm \<ge> CONNECT_INTERVAL_SEC
       \<and> csm_role_type csm' = (if csm_role_type csm = STP_ROLE_NONE then STP_ROLE_ACTIVE else csm_role_type csm))"
  using prepare_session_ok [OF assms(1,3)] by (auto simp: safe_def elect_def)

text \<open>
  A domain whose role was elected before it had its own address, so STANDBY, connects once the
  address is there and keeps the role; with the addresses exchanged nothing is opened.
\<close>

lemma demo_stale_connects:
  "scheduler_prepare_session 0 (upd_csm 0 (csm_role_type_update (\<lambda>_. STP_ROLE_STANDBY)) (demo_peers ''10.0.0.1'' ''10.0.0.2'')) = Some w
    \<Longrightarrow> w_csm w 0 = Some csm \<Longrightarrow> csm_sock_fd csm = 3"
  by (auto simp: scheduler_prepare_session_def scheduler_check_csm_config_def iccp_csm_stp_role_count_def session_client_conn_handler_def
      answer_def Let_def demo_addresses demo_peers_def demo_peer_def demo_def zero_CSM_def)

theorem only_smaller_connects_witness:
  "(\<exists>w' csm'. scheduler_prepare_session 0 (upd_csm 0 (csm_role_type_update (\<lambda>_. STP_ROLE_STANDBY)) (demo_peers ''10.0.0.1'' ''10.0.0.2'')) = Some w'
      \<and> w_csm w' 0 = Some csm' \<and> csm_sock_fd csm' = 3 \<and> csm_role_type csm' = STP_ROLE_STANDBY)
   \<and> (\<exists>w' csm'. scheduler_prepare_session 0 (demo_peers ''10.0.0.2'' ''10.0.0.1'') = Some w' \<and> w_csm w' 0 = Some csm' \<and> csm_sock_fd csm' = - 1)"
proof
  let ?w = "upd_csm 0 (csm_role_type_update (\<lambda>_. STP_ROLE_STANDBY)) (demo_peers ''10.0.0.1'' ''10.0.0.2'')"
  let ?x = "(demo_peer ''10.0.0.1'' ''10.0.0.2'')\<lparr>csm_role_type := STP_ROLE_STANDBY\<rparr>"
  have lifs: "set (sys_lif_list (w_sys (demo_peers x y))) \<subseteq> dom (w_lif (demo_peers x y))" for x y
    by (auto simp: demo_peers_def demo_def demo_sys_def)
  have "w_csm ?w 0 = Some ?x" "csm_sock_fd ?x = - 1" "csm_role_type ?x = STP_ROLE_STANDBY"
      "set (sys_lif_list (w_sys ?w)) \<subseteq> dom (w_lif ?w)"
    using lifs by (simp_all add: demo_peers_csm demo_peer_def)
  then show "\<exists>w' csm'. scheduler_prepare_session 0 ?w = Some w'
      \<and> w_csm w' 0 = Some csm' \<and> csm_sock_fd csm' = 3 \<and> csm_role_type csm' = STP_ROLE_STANDBY"
    using only_smaller_connects [of ?w 0 ?x] demo_stale_connects by fastforce
  have "\<not> inet_addr ''10.0.0.2'' < inet_addr ''10.0.0.1''" by (simp add: demo_addresses)
  then show "\<exists>w' csm'. scheduler_prepare_session 0 (demo_peers ''10.0.0.2'' ''10.0.0.1'') = Some w' \<and> w_csm w' 0 = Some csm' \<and> csm_sock_fd csm' = - 1"
    using only_smaller_connects [OF demo_peers_csm, of "''10.0.0.2''" "''10.0.0.1''"] lifs
    by (auto simp: demo_peer_def smaller_address_def)
qed

end
