(* ===== verification/Connection_Spec.thy ===== *)
theory Connection_Spec
  imports Session_Spec
begin

text \<open>
  The connection state machine as an automaton over abstract messages, the refinement
  of that automaton by the code, byte level included, and the handshake of two peers.
\<close>

subsection \<open>The automaton\<close>

datatype conn_msg = Capability bool | Connect u32 | Disconnect u32 bool | Nak u32 u32 u32

text \<open>What a message of the peer does to the connection information.\<close>

fun hear :: "conn_msg \<Rightarrow> IccpInfo \<Rightarrow> IccpInfo" where
  "hear (Capability offered) x = (if offered then x\<lparr>peer_capability_flag := True\<rparr> else x)"
| "hear (Connect rg) x = (rg_checked rg x)\<lparr>peer_rg_connect_flag := True\<rparr>"
| "hear (Disconnect rg removed) x = (let y = rg_checked rg x in
     if removed then y\<lparr>sender_rg_connect_flag := False, peer_rg_connect_flag := False\<rparr> else y)"
| "hear (Nak rg status rejected) x = x"

fun heard :: "conn_msg option \<Rightarrow> IccpInfo \<Rightarrow> IccpInfo" where
  "heard None = (\<lambda>x. x)"
| "heard (Some m) = hear m"

text \<open>The message a state calls for; a NAK names the redundancy group only if that is what is rejected.\<close>

definition nak :: "IccpInfo \<Rightarrow> conn_msg" where
  "nak x = (if status_code x = STATUS_CODE_U_ICCP_RG then Nak (icc_rg_id x) (status_code x) (rejected_msg_id x) else Nak (icc_rg_id x) 0 0)"

fun says :: "ICCP_CONNECTION_STATE \<Rightarrow> IccpInfo \<Rightarrow> conn_msg option" where
  "says ICCP_INITIALIZED x = Some (Capability (sender_capability_flag x))"
| "says ICCP_CAPREC x = Some (if status_code x \<noteq> 0 then nak x else Connect (icc_rg_id x))"
| "says ICCP_CONNECTING x = (if status_code x \<noteq> 0 then Some (nak x) else None)"
| "says ICCP_OPERATIONAL x = (if peer_rg_connect_flag x then None
     else Some (Disconnect (icc_rg_id x) (status_code x = STATUS_CODE_ICCP_RG_REMOVED)))"
| "says _ x = None"

fun goes :: "ICCP_CONNECTION_STATE \<Rightarrow> IccpInfo \<Rightarrow> ICCP_CONNECTION_STATE" where
  "goes ICCP_INITIALIZED x = (if \<not> sender_capability_flag x then ICCP_INITIALIZED
     else if peer_capability_flag x then ICCP_CAPREC else ICCP_CAPSENT)"
| "goes ICCP_CAPSENT x = (if sender_capability_flag x \<and> peer_capability_flag x then ICCP_CAPREC else ICCP_CAPSENT)"
| "goes ICCP_CAPREC x = (if status_code x \<noteq> 0 then ICCP_CAPREC
     else if peer_rg_connect_flag x then ICCP_OPERATIONAL else ICCP_CONNECTING)"
| "goes ICCP_CONNECTING x = (if status_code x \<noteq> 0 then ICCP_CAPREC
     else if peer_rg_connect_flag x then ICCP_OPERATIONAL else ICCP_CONNECTING)"
| "goes ICCP_OPERATIONAL x = (if sender_rg_connect_flag x \<and> peer_rg_connect_flag x then ICCP_OPERATIONAL else ICCP_CAPREC)"
| "goes ICCP_NONEXISTENT x = ICCP_NONEXISTENT"

text \<open>
  What is certain in a state that is entered: the own capability from the start, the peer's when
  both were exchanged, the own request to join the group once it is sent, the peer's request
  when both have joined. Nothing that was certain before is forgotten.
\<close>

definition entered :: "ICCP_CONNECTION_STATE \<Rightarrow> IccpInfo \<Rightarrow> IccpInfo" where
  "entered s x = x\<lparr>
     sender_capability_flag := sender_capability_flag x \<or> s \<in> {ICCP_INITIALIZED, ICCP_CAPREC},
     peer_capability_flag := peer_capability_flag x \<or> s = ICCP_CAPREC,
     sender_rg_connect_flag := sender_rg_connect_flag x \<or> s \<in> {ICCP_CONNECTING, ICCP_OPERATIONAL},
     peer_rg_connect_flag := peer_rg_connect_flag x \<or> s = ICCP_OPERATIONAL\<rparr>"

text \<open>One step: hear a message if there is one, speak, change the state and enter it.\<close>

definition conn_step :: "ICCP_CONNECTION_STATE \<times> IccpInfo \<Rightarrow> conn_msg option \<Rightarrow> (ICCP_CONNECTION_STATE \<times> IccpInfo) \<times> conn_msg option" where
  "conn_step = (\<lambda>(s, x) m. let
     y = heard m x;
     s' = goes s y
   in ((s', if s' \<noteq> s \<or> m \<noteq> None then entered s' y else y), says s y))"

subsection \<open>Messages on the wire\<close>

text \<open>
  A queued message \<open>m\<close> is understood as \<open>cm\<close>; the bytes \<open>bs\<close> are queued by the receiver as such
  a message. Of a NAK only the bytes are fixed: no receiver understands one
  (\<open>notification_reads_past_end\<close>).
\<close>

definition understood :: "conn_msg \<Rightarrow> bytes \<Rightarrow> bool" where
  "understood cm m \<longleftrightarrow> (\<forall>csm. iccp_csm_correspond_from_msg csm m = Some (csm_iccp_info_update (hear cm) csm))"

definition queued_as :: "conn_msg \<Rightarrow> bytes \<Rightarrow> bool" where
  "queued_as cm bs \<longleftrightarrow> (\<exists>m. understood cm m \<and> (\<forall>csm. iccp_csm_enqueue_msg csm bs = Some (csm_msg_list_update (\<lambda>q. q @ [m]) csm)))"

fun on_wire :: "conn_msg \<Rightarrow> bytes \<Rightarrow> bool" where
  "on_wire (Nak rg status rejected) bs = (framed bs \<and> length bs = 28 \<and> ld16 0 bs = Some (htons MSG_T_NOTIFICATION) \<and> ld32 12 bs = Some (htonl rg)
     \<and> ld16 16 bs = Some (htons TLV_T_NAK) \<and> ld32 20 bs = Some (htonl status) \<and> ld32 24 bs = Some (htonl rejected))"
| "on_wire cm bs = (framed bs \<and> queued_as cm bs)"

fun is_Nak :: "conn_msg option \<Rightarrow> bool" where
  "is_Nak (Some (Nak rg status rejected)) = True"
| "is_Nak _ = False"

lemma on_wire_queued: "on_wire cm bs \<Longrightarrow> \<not> is_Nak (Some cm) \<Longrightarrow> framed bs \<and> queued_as cm bs"
  by (cases cm) auto

lemma framed_rdn:
  assumes "8 \<le> n" "n \<le> CSM_BUFFER_SIZE" "rd16 2 b = htons (of_nat (n - 4))"
  shows "framed (rdn 0 n b)"
proof -
  have "mk16 (rdn 0 n b ! 2) (rdn 0 n b ! 3) = rd16 2 b" using assms(1) by (simp add: rdn_def rd16_def eval_nat_numeral)
  moreover have "unat (of_nat (n - 4) :: u16) = n - 4"
    using assms(2) by (simp add: unsigned_of_nat take_bit_nat_eq_self)
  ultimately show ?thesis using assms by (simp add: framed_def)
qed

lemma info_update_eq: "f (csm_iccp_info csm) = x \<Longrightarrow> csm\<lparr>csm_iccp_info := x\<rparr> = csm_iccp_info_update f csm"
  by (cases csm) simp

lemma capability_on_wire:
  assumes "iccp_csm_prepare_capability_msg csm out = (n, b, i)"
  shows "n = 16 \<and> on_wire (Capability (sender_capability_flag (csm_iccp_info csm))) (rdn 0 16 b)"
proof -
  have "rd16 2 b = htons 12"
    using assms by (auto simp: iccp_csm_prepare_capability_msg_def Let_def buf_simps)
  then have "framed (rdn 0 16 b)" by (intro framed_rdn) simp_all
  moreover have "understood (Capability (sender_capability_flag (csm_iccp_info csm))) (arrived 16 b)"
    using capability_received [OF assms] by (auto simp: understood_def csm_iccp_info_update_id)
  ultimately show ?thesis using capability_received [OF assms] by (auto simp: queued_as_def)
qed

text \<open>The name fits its field of \<open>MAX_L_ICC_SENDER_NAME\<close> bytes.\<close>

definition named :: "CSM \<Rightarrow> bool" where
  "named csm \<longleftrightarrow> length (sender_name (csm_iccp_info csm)) < 80"

lemma connect_on_wire:
  assumes "iccp_csm_prepare_rg_connect_msg csm out = (n, b, i)" "named csm"
  shows "0 < n \<and> n \<le> int CSM_BUFFER_SIZE \<and> on_wire (Connect (icc_rg_id (csm_iccp_info csm))) (rdn 0 (nat n) b)"
proof -
  define N where "N = 20 + length (sender_name (csm_iccp_info csm))"
  note r = rg_connect_received [OF assms(1) N_def]
  have "rd16 2 b = htons (of_nat (N - 4))"
    using assms(1) by (auto simp: iccp_csm_prepare_rg_connect_msg_def N_def Let_def buf_simps)
  then have "framed (rdn 0 N b)" using assms(2) by (intro framed_rdn) (simp_all add: N_def named_def)
  moreover have "understood (Connect (icc_rg_id (csm_iccp_info csm))) (arrived N b)"
    using r by (auto simp: understood_def intro!: info_update_eq)
  moreover have "0 < N" "N \<le> CSM_BUFFER_SIZE" using assms(2) by (simp_all add: N_def named_def)
  ultimately show ?thesis using r by (auto simp: queued_as_def)
qed

lemma disconnect_on_wire:
  assumes "iccp_csm_prepare_rg_disconnect_msg csm out = (n, b, i)"
  shows "n = 24 \<and> on_wire (Disconnect (icc_rg_id (csm_iccp_info csm)) (status_code (csm_iccp_info csm) = STATUS_CODE_ICCP_RG_REMOVED)) (rdn 0 24 b)"
proof -
  note r = rg_disconnect_received [OF assms]
  have "rd16 2 b = htons 20"
    using assms by (auto simp: iccp_csm_prepare_rg_disconnect_msg_def Let_def buf_simps)
  then have "framed (rdn 0 24 b)" by (intro framed_rdn) simp_all
  moreover have "understood (Disconnect (icc_rg_id (csm_iccp_info csm)) (status_code (csm_iccp_info csm) = STATUS_CODE_ICCP_RG_REMOVED)) (arrived 24 b)"
    using r by (auto simp: understood_def Let_def intro!: info_update_eq)
  ultimately show ?thesis using r by (auto simp: queued_as_def)
qed

lemma nak_on_wire:
  assumes "iccp_csm_prepare_nak_msg csm out = (n, b, i)"
  shows "n = 28 \<and> on_wire (nak (csm_iccp_info csm)) (rdn 0 28 b)"
proof -
  have "n = 28" "rd16 2 b = htons 24" "rd16 0 b = htons MSG_T_NOTIFICATION" "rd32 12 b = htonl (icc_rg_id (csm_iccp_info csm))"
      "rd16 16 b = htons TLV_T_NAK"
      "rd32 20 b = (if status_code (csm_iccp_info csm) = STATUS_CODE_U_ICCP_RG then htonl (status_code (csm_iccp_info csm)) else 0)"
      "rd32 24 b = (if status_code (csm_iccp_info csm) = STATUS_CODE_U_ICCP_RG then htonl (rejected_msg_id (csm_iccp_info csm)) else 0)"
    using assms by (auto simp: iccp_csm_prepare_nak_msg_def Let_def buf_simps)
  then show ?thesis using framed_rdn [of 28 b] by (simp add: nak_def buf_simps)
qed

text \<open>What a step of the machine writes.\<close>

definition spoken :: "int \<Rightarrow> conn_msg option \<Rightarrow> event list \<Rightarrow> bool" where
  "spoken fd out evs \<longleftrightarrow> (case out of None \<Rightarrow> evs = [] | Some cm \<Rightarrow> \<exists>bs rc. evs = [Ev_write fd bs rc] \<and> on_wire cm bs)"

lemma prepared_says:
  assumes "iccp_csm_prepare_iccp_msg csm out = (n, b, i)" "named csm" "csm_current_state csm \<noteq> ICCP_NONEXISTENT"
  shows "case says (csm_current_state csm) (csm_iccp_info csm) of None \<Rightarrow> n = - 1
     | Some cm \<Rightarrow> 0 < n \<and> n \<le> int CSM_BUFFER_SIZE \<and> on_wire cm (rdn 0 (nat n) b)"
  using assms capability_on_wire [of csm out n b i] connect_on_wire [of csm out n b i]
    disconnect_on_wire [of csm out n b i] nak_on_wire [of csm out n b i]
  by (cases "csm_current_state csm")
     (auto simp: iccp_csm_prepare_iccp_msg_def named_def word_neq_0_conv split: if_splits)

lemma send_iccp_msg_ok:
  assumes "link_up c w" "w_csm w c = Some csm" "named csm" "csm_current_state csm \<noteq> ICCP_NONEXISTENT"
  shows "safe (\<lambda>w'. \<exists>evs. tx_step c evs w w' \<and> spoken (sock c w) (says (csm_current_state csm) (csm_iccp_info csm)) evs)
    (send_iccp_msg c w)"
proof -
  obtain n w1 where w1: "in_buf (iccp_csm_prepare_iccp_msg csm) w = (n, w1)" by fastforce
  then obtain b i where b: "iccp_csm_prepare_iccp_msg csm (g_csm_buf w, ICCP_MSG_ID w) = (n, b, i)" "g_csm_buf w1 = b"
    by (auto simp: in_buf_def split: prod.splits)
  have tx: "tx_step c [] w w1" using tx_in_buf [of c w "iccp_csm_prepare_iccp_msg csm"] w1 by simp
  note up = tx_link [OF tx assms(1)]
  note says = prepared_says [OF b(1) assms(3,4)]
  show ?thesis
  proof (cases "says (csm_current_state csm) (csm_iccp_info csm)")
    case None
    have "safe (\<lambda>(rc, w'). w' = w1) (iccp_csm_send c n w1)"
      using up says None by (auto simp: iccp_csm_send_def link_up_def safe_def)
    then show ?thesis
      using assms(2) w1 tx None by (auto simp: send_iccp_msg_def safe_def spoken_def)
  next
    case (Some cm)
    then have n: "0 < nat n" "nat n \<le> CSM_BUFFER_SIZE" "int (nat n) = n" "on_wire cm (rdn 0 (nat n) b)"
      using says by auto
    show ?thesis
      using send_ok [OF conjunct1 [OF up] n(1,2)] assms(2) w1 n(3,4) b(2) up Some tx_trans [OF tx]
      by (auto simp: send_iccp_msg_def safe_def spoken_def)
  qed
qed

subsection \<open>The code implements the automaton\<close>

lemma hear_keeps [simp]: "sender_name (hear cm x) = sender_name x" "icc_rg_id (hear cm x) = icc_rg_id x"
  by (cases cm; simp add: rg_checked_def Let_def)+

lemma entered_keeps [simp]:
  "sender_name (entered s x) = sender_name x" "icc_rg_id (entered s x) = icc_rg_id x" "status_code (entered s x) = status_code x"
  by (simp_all add: entered_def)

lemma enter_state_entered: "enter_state s x = entered s x"
  by (cases s; cases x) (auto simp: enter_state_def entered_def)

text \<open>The message at hand and its meaning.\<close>

definition means :: "bytes option \<Rightarrow> conn_msg option \<Rightarrow> bool" where
  "means = rel_option (\<lambda>m cm. understood cm m)"

lemma upd_csm_id: "w_csm w c = Some csm \<Longrightarrow> f csm = csm \<Longrightarrow> upd_csm c f w = w"
  by (simp add: upd_csm_def fun_upd_idem)

lemma apply_msg_means:
  assumes "means msg cm" "w_csm w c = Some csm"
  shows "apply_msg c msg w = Some (upd_csm c (csm_iccp_info_update (heard cm)) w)"
proof (cases cm)
  case None
  then have "msg = None" using assms(1) by (simp add: means_def)
  moreover have "csm_iccp_info_update (heard cm) csm = csm" using None by (intro csm_iccp_info_update_id) simp
  ultimately show ?thesis using upd_csm_id [OF assms(2)] by (simp add: apply_msg_def)
next
  case (Some k)
  then obtain m where "msg = Some m" "understood k m" using assms(1) by (auto simp: means_def option_rel_Some2)
  with Some assms(2) show ?thesis by (simp add: apply_msg_def understood_def upd_csm_def)
qed

lemma link_up_upd:
  "link_up c w \<Longrightarrow> (\<And>csm. csm_sock_fd (f csm) = csm_sock_fd csm \<and> csm_msg_log (f csm) = csm_msg_log csm)
    \<Longrightarrow> link_up c (upd_csm c f w) \<and> sock c (upd_csm c f w) = sock c w"
  by (auto simp: link_up_def)

lemma csm_step_ok:
  assumes up: "link_up c w" and csm: "w_csm w c = Some csm" "named csm" "csm_current_state csm = s" "s \<noteq> ICCP_NONEXISTENT"
    and "means msg cm" and y: "y = heard cm (csm_iccp_info csm)"
  shows "safe (\<lambda>w'. \<exists>evs w1. tx_step c evs (upd_csm c (csm_iccp_info_update (heard cm)) w) w1 \<and> spoken (sock c w) (says s y) evs
      \<and> w' = upd_csm c (csm_current_state_update (\<lambda>_. goes s y)) w1)
    (csm_step c msg s w)"
proof -
  let ?w = "upd_csm c (csm_iccp_info_update (heard cm)) w" and ?x = "csm_iccp_info_update (heard cm) csm"
  have ap: "apply_msg c msg w = Some ?w" by (rule apply_msg_means [OF assms(6) csm(1)])
  have x: "w_csm ?w c = Some ?x" "csm_iccp_info ?x = y" "csm_current_state ?x = s"
    using csm y by simp_all
  have "named ?x" using csm(2) by (cases cm) (simp_all add: named_def)
  note send = send_iccp_msg_ok [OF conjunct1 [OF link_up_upd], OF up _ x(1) this, unfolded x(2,3)]
  obtain w1 evs where w1: "send_iccp_msg c ?w = Some w1" "tx_step c evs ?w w1" "spoken (sock c w) (says s y) evs"
    using send csm(4) link_up_upd [OF up] by (auto simp: safe_def)
  obtain w2 evs2 where w2: "send_iccp_msg c (clear_buf ?w) = Some w2" "tx_step c evs2 ?w w2" "spoken (sock c w) (says s y) evs2"
    using send_iccp_msg_ok [of c "clear_buf ?w" ?x] tx_link [OF tx_clear, of c ?w] link_up_upd [OF up]
      x csm(4) \<open>named ?x\<close> tx_from_clear by (fastforce simp: safe_def)
  obtain x1 where x1: "w_csm w1 c = Some x1" "csm_iccp_info x1 = y" "csm_current_state x1 = s"
    using tx_csm [OF w1(2) x(1)] x(2,3) core_eqD(2,6) by metis
  obtain x2 where x2: "w_csm w2 c = Some x2" "csm_iccp_info x2 = y" "csm_current_state x2 = s"
    using tx_csm [OF w2(2) x(1)] x(2,3) core_eqD(2,6) by metis
  have same: "upd_csm c (csm_current_state_update (\<lambda>_. s)) v = v" if "w_csm v c = Some z" "csm_current_state z = s" for v z
    by (rule upd_csm_id [OF that(1)]) (use that(2) in \<open>cases z; simp\<close>)
  note same1 = same [OF x1(1,3)] and same2 = same [OF x2(1,3)] and same0 = same [OF x(1,3)]
  have fin: ?thesis
    if "csm_step c msg s w = Some (upd_csm c (csm_current_state_update (\<lambda>_. goes s y)) v)" "tx_step c es ?w v" "spoken (sock c w) (says s y) es"
    for v es using that by (auto simp: safe_def)
  have quiet: "spoken (sock c w) None []" by (simp add: spoken_def)
  show ?thesis
  proof (cases s)
    case ICCP_NONEXISTENT with csm(4) show ?thesis by simp
  next
    case ICCP_INITIALIZED
    show ?thesis
      by (rule fin [OF _ w1(2,3)]) (use ICCP_INITIALIZED ap w1(1) x1 same1 in \<open>auto simp: csm_step_def\<close>)
  next
    case ICCP_CAPSENT
    show ?thesis
      by (rule fin [OF _ tx_refl]) (use ICCP_CAPSENT ap x same0 quiet in \<open>auto simp: csm_step_def\<close>)
  next
    case ICCP_CAPREC
    show ?thesis
      by (rule fin [OF _ w2(2,3)]) (use ICCP_CAPREC ap w2(1) x2 same2 in \<open>auto simp: csm_step_def\<close>)
  next
    case ICCP_CONNECTING
    show ?thesis
      by (rule fin [OF _ w2(2,3)]) (use ICCP_CONNECTING ap w2(1) x2 same2 in \<open>auto simp: csm_step_def word_neq_0_conv\<close>)
  next
    case ICCP_OPERATIONAL
    show ?thesis
    proof (cases "sender_rg_connect_flag y \<and> peer_rg_connect_flag y")
      case True
      show ?thesis
        by (rule fin [OF _ tx_refl]) (use True ICCP_OPERATIONAL ap x same0 quiet in \<open>auto simp: csm_step_def\<close>)
    next
      case False
      show ?thesis
        by (rule fin [OF _ w2(2,3)]) (use False ICCP_OPERATIONAL ap w2(1) x x2 same2 in \<open>auto simp: csm_step_def\<close>)
    qed
  qed
qed

lemma core_queue: "core x = core y \<Longrightarrow> csm_msg_list x = csm_msg_list y"
  by (drule arg_cong [of _ _ csm_msg_list]) (simp add: core_def)

lemma goes_exists: "s \<noteq> ICCP_NONEXISTENT \<Longrightarrow> goes s y \<noteq> ICCP_NONEXISTENT"
  by (cases s) auto

text \<open>Everything a step of the machine guarantees.\<close>

definition stepped :: "csm_ptr \<Rightarrow> CSM \<Rightarrow> (ICCP_CONNECTION_STATE \<times> IccpInfo) \<Rightarrow> conn_msg option \<Rightarrow> world \<Rightarrow> world \<Rightarrow> bool" where
  "stepped c csm sx out w w' \<longleftrightarrow> link_up c w' \<and> sock c w' = sock c w \<and> w_mallocs w' = w_mallocs w \<and> (\<exists>csm' evs. w_csm w' c = Some csm'
     \<and> (csm_current_state csm', csm_iccp_info csm') = sx \<and> csm_msg_list csm' = tl (csm_msg_list csm)
     \<and> w_out w' = w_out w @ evs \<and> spoken (sock c w) out evs)"

lemma transit_step:
  assumes up: "link_up c w" and csm: "w_csm w c = Some csm" "named csm" "csm_current_state csm \<noteq> ICCP_NONEXISTENT"
    and msg: "iccp_csm_dequeue_msg csm = (msg, csm')" "means msg cm"
    and step: "conn_step (csm_current_state csm, csm_iccp_info csm) cm = (sx, out)"
  shows "safe (stepped c csm sx out w) (iccp_csm_transit c w)"
proof -
  let ?s = "csm_current_state csm" and ?y = "heard cm (csm_iccp_info csm)"
  define w0 where "w0 = upd_csm c (\<lambda>_. csm') w"
  have csm': "csm_msg_list csm' = tl (csm_msg_list csm)" "csm_current_state csm' = ?s" "csm_iccp_info csm' = csm_iccp_info csm"
      "csm_sock_fd csm' = csm_sock_fd csm" "csm_msg_log csm' = csm_msg_log csm"
    using msg(1) by (auto simp: iccp_csm_dequeue_msg_def split: list.splits)
  have w0: "w_csm w0 c = Some csm'" "w_out w0 = w_out w" "w_mallocs w0 = w_mallocs w" "link_up c w0" "sock c w0 = sock c w"
    using up csm csm' by (auto simp: w0_def link_up_def)
  let ?v = "upd_csm c (csm_iccp_info_update (heard cm)) w0"
  have "named csm'" using csm(2) csm'(3) by (simp add: named_def)
  from csm_step_ok [OF w0(4,1) this csm'(2) csm(3) msg(2) refl, unfolded csm'(3) w0(5)]
  obtain evs w1 where w1: "tx_step c evs ?v w1" "spoken (sock c w) (says ?s ?y) evs"
      and st: "csm_step c msg ?s w0 = Some (upd_csm c (csm_current_state_update (\<lambda>_. goes ?s ?y)) w1)"
    unfolding safe_def by blast
  obtain x1 where x1: "w_csm w1 c = Some x1" "csm_iccp_info x1 = ?y" "csm_msg_list x1 = tl (csm_msg_list csm)"
  proof (rule tx_csm [OF w1(1)])
    show "w_csm ?v c = Some (csm_iccp_info_update (heard cm) csm')" using w0(1) by simp
    fix x assume x: "w_csm w1 c = Some x" "core x = core (csm_iccp_info_update (heard cm) csm')"
    show thesis by (rule that [OF x(1)]) (use core_eqD(2) [OF x(2)] core_queue [OF x(2)] csm'(1,3) in simp_all)
  qed
  have l1: "link_up c w1" "sock c w1 = sock c w" "w_out w1 = w_out w @ evs" "w_mallocs w1 = w_mallocs w"
    using tx_link [OF w1(1)] link_up_upd [OF w0(4), of "csm_iccp_info_update (heard cm)"] w0 w1(1) by (auto simp: tx_step_def)
  let ?e = "\<lambda>x. if goes ?s ?y \<noteq> ?s \<or> cm \<noteq> None then entered (goes ?s ?y) x else x"
  have "msg = None \<longleftrightarrow> cm = None" using msg(2) by (cases msg; cases cm) (auto simp: means_def)
  then have "iccp_csm_transit c w = Some (upd_csm c (\<lambda>x. csm_iccp_info_update ?e (x\<lparr>csm_current_state := goes ?s ?y\<rparr>)) w1)"
    using up csm msg(1) st x1 goes_exists [OF csm(3)]
    by (auto simp: iccp_csm_transit_def link_up_def w0_def upd_csm_def Let_def csm_iccp_info_update_id enter_state_entered [abs_def])
  moreover have "sx = (goes ?s ?y, ?e ?y)" "out = says ?s ?y" using step by (simp_all add: conn_step_def Let_def split: if_splits)
  ultimately show ?thesis
    using x1 l1 w1(2) link_up_upd [OF l1(1), of "\<lambda>x. csm_iccp_info_update ?e (x\<lparr>csm_current_state := goes ?s ?y\<rparr>)"]
    by (auto simp: safe_def stepped_def)
qed

subsection \<open>Two peers\<close>

text \<open>
  One turn of a daemon: read what has arrived, run the state machine, and hand what it wrote to
  the network, which delivers it.
\<close>

definition sent :: "world \<Rightarrow> world \<Rightarrow> recv_result list" where
  "sent w w' = concat (map (\<lambda>e. case e of Ev_write fd bs rc \<Rightarrow> [Recv_data bs] | _ \<Rightarrow> []) (drop (length (w_out w)) (w_out w')))"

definition turn :: "csm_ptr \<Rightarrow> recv_result list \<Rightarrow> world \<Rightarrow> (recv_result list \<times> world) option" where
  "turn c rx w = do {
     w1 \<leftarrow> (if rx = [] then Some w else map_option snd (scheduler_csm_read_callback c rx w));
     w2 \<leftarrow> iccp_csm_transit c w1;
     Some (sent w1 w2, w2) }"

fun rounds :: "nat \<Rightarrow> csm_ptr \<Rightarrow> csm_ptr \<Rightarrow> world \<times> recv_result list \<Rightarrow> world \<times> recv_result list
    \<Rightarrow> ((world \<times> recv_result list) \<times> world \<times> recv_result list) option" where
  "rounds 0 c d p q = Some (p, q)"
| "rounds (Suc n) c d (w, to_c) (v, to_d) = do {
     (from_c, w) \<leftarrow> turn c to_c w;
     (from_d, v) \<leftarrow> turn d to_d v;
     rounds n c d (w, from_d) (v, from_c) }"

text \<open>A connected daemon in a state of the automaton, and what is on the way to it.\<close>

definition peer_in :: "csm_ptr \<Rightarrow> ICCP_CONNECTION_STATE \<times> IccpInfo \<Rightarrow> world \<Rightarrow> bool" where
  "peer_in c sx w \<longleftrightarrow> link_up c w \<and> w_mallocs w = [] \<and> (\<exists>csm. w_csm w c = Some csm \<and> named csm
     \<and> (csm_current_state csm, csm_iccp_info csm) = sx \<and> csm_msg_list csm = [])"

fun carried :: "conn_msg option \<Rightarrow> recv_result list \<Rightarrow> bool" where
  "carried None rx = (rx = [])"
| "carried (Some k) rx = (\<exists>bs. rx = [Recv_data bs] \<and> on_wire k bs)"

lemma conn_step_name: "conn_step (s, x) cm = ((s', x'), out) \<Longrightarrow> sender_name x' = sender_name x"
  by (cases cm) (auto simp: conn_step_def Let_def split: if_splits)

lemma turn_receive:
  assumes csm: "w_csm w c = Some csm" "named csm" "csm_current_state csm = s" "csm_iccp_info csm = x" "csm_msg_list csm = []"
    and up: "link_up c w" "w_mallocs w = []" and rx: "carried cm rx" "\<not> is_Nak cm"
  shows "\<exists>w1 csm1. (if rx = [] then Some w else map_option snd (scheduler_csm_read_callback c rx w)) = Some w1
    \<and> link_up c w1 \<and> w_mallocs w1 = [] \<and> w_csm w1 c = Some csm1 \<and> named csm1 \<and> csm_current_state csm1 = s \<and> csm_iccp_info csm1 = x
    \<and> means (fst (iccp_csm_dequeue_msg csm1)) cm \<and> tl (csm_msg_list csm1) = []"
proof (cases cm)
  case None
  then show ?thesis
    using csm up rx by (intro exI [of _ w] exI [of _ csm]) (simp add: iccp_csm_dequeue_msg_def means_def)
next
  case (Some k)
  then obtain bs where "rx = [Recv_data bs]" "framed bs" "queued_as k bs" using rx on_wire_queued by auto
  then obtain m where bs: "rx = [Recv_data bs]" "framed bs" "understood k m"
      "\<And>csm. iccp_csm_enqueue_msg csm bs = Some (csm_msg_list_update (\<lambda>q. q @ [m]) csm)"
    by (auto simp: queued_as_def)
  have "bs \<noteq> []" "8 \<le> length bs" "csm_sock_fd csm > 0" using bs(2) up(1) csm(1) by (auto simp: framed_def link_up_def)
  then obtain b us f where rd: "scheduler_csm_read_callback c rx w = map_option (Pair 1)
      (enqueue_received c bs (upd_cnt f (w\<lparr>w_out := w_out w @ map Ev_sleep us, g_csm_buf := b\<rparr>)))" (is "_ = map_option _ (enqueue_received _ _ ?v)")
    using read_callback_framed [OF csm(1), of "[Recv_data bs]" "[]" bs "[]"] bs(1,2) by auto
  let ?csm1 = "csm_msg_list_update (\<lambda>q. q @ [m]) csm\<lparr>csm_icc_msg_in_count := csm_icc_msg_in_count csm + 1\<rparr>"
  let ?w1 = "upd_csm c (\<lambda>_. ?csm1) ?v"
  have "scheduler_csm_read_callback c rx w = Some (1, ?w1)"
    unfolding rd by (subst enqueue_received_eq [of _ _ csm]) (use csm(1,5) up(2) bs(4) in auto)
  moreover have "link_up c ?w1" using up(1) csm(1) by (auto simp: link_up_def)
  ultimately show ?thesis
    using bs(1,3) csm up(2) Some
    by (intro exI [of _ ?w1] exI [of _ ?csm1])
      (simp add: iccp_csm_dequeue_msg_def means_def named_def)
qed

lemma turn_ok:
  assumes p: "peer_in c (s, x) w" "s \<noteq> ICCP_NONEXISTENT" and rx: "carried cm rx" "\<not> is_Nak cm"
    and step: "conn_step (s, x) cm = (sx, out)"
  shows "\<exists>rx' w'. turn c rx w = Some (rx', w') \<and> peer_in c sx w' \<and> carried out rx'"
proof -
  obtain csm where csm: "w_csm w c = Some csm" "named csm" "csm_current_state csm = s" "csm_iccp_info csm = x" "csm_msg_list csm = []"
      and up: "link_up c w" "w_mallocs w = []"
    using p(1) by (auto simp: peer_in_def)
  obtain w1 csm1 where w1: "(if rx = [] then Some w else map_option snd (scheduler_csm_read_callback c rx w)) = Some w1"
      "link_up c w1" "w_mallocs w1 = []" "w_csm w1 c = Some csm1" "named csm1" "csm_current_state csm1 = s" "csm_iccp_info csm1 = x"
      "means (fst (iccp_csm_dequeue_msg csm1)) cm" "tl (csm_msg_list csm1) = []"
    using turn_receive [OF csm up rx] by blast
  from transit_step [OF w1(2,4,5) _ prod.collapse [symmetric] w1(8)] w1(6,7) p(2) step
  obtain w2 where w2: "iccp_csm_transit c w1 = Some w2" "stepped c csm1 sx out w1 w2" by (auto simp: safe_def)
  then obtain csm2 evs where s2: "link_up c w2" "w_mallocs w2 = []" "w_csm w2 c = Some csm2" "(csm_current_state csm2, csm_iccp_info csm2) = sx"
      "csm_msg_list csm2 = []" "w_out w2 = w_out w1 @ evs" "spoken (sock c w1) out evs"
    using w1(3,9) by (auto simp: stepped_def)
  have "named csm2" using conn_step_name [of s x cm _ _ out] step s2(4) w1(5,7) by (auto simp: named_def)
  then have "peer_in c sx w2" using s2 by (auto simp: peer_in_def)
  moreover have "carried out (sent w1 w2)"
    using s2(6,7) by (cases out) (auto simp: sent_def spoken_def)
  ultimately show ?thesis using w1(1) w2(1) by (auto simp: turn_def)
qed

subsection \<open>Properties of the connection\<close>

text \<open>What the flags of a connection say about its state, and the flags of a new connection.\<close>

definition conn_inv :: "ICCP_CONNECTION_STATE \<Rightarrow> IccpInfo \<Rightarrow> bool" where
  "conn_inv s x \<longleftrightarrow> (s \<noteq> ICCP_NONEXISTENT \<longrightarrow> sender_capability_flag x)
     \<and> (s \<in> {ICCP_CAPREC, ICCP_CONNECTING, ICCP_OPERATIONAL} \<longrightarrow> peer_capability_flag x)
     \<and> (s \<in> {ICCP_CONNECTING, ICCP_OPERATIONAL} \<longrightarrow> sender_rg_connect_flag x)
     \<and> (s = ICCP_OPERATIONAL \<longrightarrow> peer_rg_connect_flag x)"

lemma hear_keeps_caps [simp]: "sender_capability_flag (hear cm x) = sender_capability_flag x"
    "peer_capability_flag x \<Longrightarrow> peer_capability_flag (hear cm x)"
  by (cases cm; simp add: rg_checked_def Let_def)+

lemma conn_step_inv: "conn_inv s x \<Longrightarrow> conn_step (s, x) cm = ((s', x'), out) \<Longrightarrow> conn_inv s' x'"
  by (cases s; cases cm) (auto simp: conn_step_def conn_inv_def entered_def Let_def split: if_splits)

definition fresh :: "IccpInfo \<Rightarrow> bool" where
  "fresh x \<longleftrightarrow> status_code x = 0 \<and> sender_capability_flag x \<and> \<not> peer_capability_flag x
     \<and> \<not> sender_rg_connect_flag x \<and> \<not> peer_rg_connect_flag x"

lemma rounds_Suc:
  assumes "peer_in c (s, x) w" "peer_in d (t, y) v" "s \<noteq> ICCP_NONEXISTENT" "t \<noteq> ICCP_NONEXISTENT"
    and "carried cm to_c" "carried dm to_d" "\<not> is_Nak cm" "\<not> is_Nak dm"
    and "conn_step (s, x) cm = (sx, cout)" "conn_step (t, y) dm = (ty, dout)"
  shows "\<exists>w' v' to_c' to_d'. rounds (Suc n) c d (w, to_c) (v, to_d) = rounds n c d (w', to_c') (v', to_d')
    \<and> peer_in c sx w' \<and> peer_in d ty v' \<and> carried dout to_c' \<and> carried cout to_d'"
  using turn_ok [OF assms(1,3,5,7,9)] turn_ok [OF assms(2,4,6,8,10)] by fastforce

text \<open>A freshly connected domain for the examples.\<close>

definition demo_info :: IccpInfo where
  "demo_info = (csm_iccp_info zero_CSM)\<lparr>sender_name := ''iccpd'', icc_rg_id := 1, sender_capability_flag := True\<rparr>"

definition demo_conn :: world where
  "demo_conn = demo\<lparr>w_csm := [0 \<mapsto> zero_CSM\<lparr>csm_sock_fd := 7, csm_current_state := ICCP_INITIALIZED, csm_iccp_info := demo_info\<rparr>]\<rparr>"

lemma demo_conn_peer: "peer_in 0 (ICCP_INITIALIZED, demo_info) demo_conn"
  using demo_wf_log by (simp add: peer_in_def demo_conn_def link_up_def named_def demo_info_def) (simp add: zero_CSM_def demo_def)

lemma demo_info_fresh: "fresh demo_info" "conn_inv ICCP_INITIALIZED demo_info"
  by (simp_all add: fresh_def conn_inv_def demo_info_def zero_CSM_def)

lemma demo_conn_csm:
  obtains csm where "w_csm demo_conn 0 = Some csm" "link_up 0 demo_conn" "named csm" "csm_current_state csm = ICCP_INITIALIZED"
    "csm_iccp_info csm = demo_info" "csm_sock_fd csm = 7" "csm_msg_list csm = []"
  using demo_conn_peer by (auto simp: peer_in_def) (auto simp: demo_conn_def)

text \<open>
  C4: one run of the connection state machine is one step of the automaton \<open>conn_step\<close>: the
  message at the head of the queue is consumed, state and connection information become what the
  automaton says, and exactly the message it says is written. The bytes of a capability, connect
  or disconnect message are framed for the peer's reader and queued there with that meaning;
  those of a NAK have the group, the status and the rejected identifier at their offsets.
\<close>

theorem connection_machine:
  assumes "link_up c w" "w_csm w c = Some csm" "named csm" "csm_current_state csm \<noteq> ICCP_NONEXISTENT"
    and "means (fst (iccp_csm_dequeue_msg csm)) cm"
    and "conn_step (csm_current_state csm, csm_iccp_info csm) cm = ((s', x'), out)"
  shows "\<exists>w' csm' evs. iccp_csm_transit c w = Some w' \<and> w_csm w' c = Some csm' \<and> link_up c w'
    \<and> csm_current_state csm' = s' \<and> csm_iccp_info csm' = x' \<and> csm_msg_list csm' = tl (csm_msg_list csm)
    \<and> w_out w' = w_out w @ evs \<and> spoken (csm_sock_fd csm) out evs"
  using transit_step [OF assms(1-4) prod.collapse [symmetric] assms(5,6)] assms(2)
  by (auto simp: safe_def stepped_def)

theorem connection_machine_witness:
  "\<exists>w' csm' evs. iccp_csm_transit 0 demo_conn = Some w' \<and> w_csm w' 0 = Some csm' \<and> csm_current_state csm' = ICCP_CAPSENT
    \<and> w_out w' = w_out demo_conn @ evs \<and> spoken 7 (Some (Capability True)) evs"
proof -
  obtain csm where csm: "w_csm demo_conn 0 = Some csm" "link_up 0 demo_conn" "named csm" "csm_current_state csm = ICCP_INITIALIZED"
    "csm_iccp_info csm = demo_info" "csm_sock_fd csm = 7" "csm_msg_list csm = []" using demo_conn_csm .
  then have "means (fst (iccp_csm_dequeue_msg csm)) None" by (simp add: iccp_csm_dequeue_msg_def means_def)
  moreover have "conn_step (csm_current_state csm, csm_iccp_info csm) None = ((ICCP_CAPSENT, demo_info), Some (Capability True))"
    using csm(4,5) demo_info_fresh(1) by (simp add: conn_step_def fresh_def entered_def Let_def)
  moreover have "csm_current_state csm \<noteq> ICCP_NONEXISTENT" using csm(4) by simp
  ultimately show ?thesis using connection_machine [OF csm(2,1,3)] csm(6) by metis
qed

lemma transit_first:
  assumes "w_csm w c = Some csm" "csm_current_state csm = ICCP_NONEXISTENT" "set (sys_lif_list (w_sys w)) \<subseteq> dom (w_lif w)"
  shows "safe (\<lambda>w'. \<exists>csm'. w_csm w' c = Some csm' \<and> conn_inv (csm_current_state csm') (csm_iccp_info csm'))
    (iccp_csm_transit c w)"
proof -
  obtain msg y where y: "iccp_csm_dequeue_msg csm = (msg, y)" by (metis surj_pair)
  then have s: "csm_current_state y = ICCP_NONEXISTENT"
    using assms(2) by (auto simp: iccp_csm_dequeue_msg_def split: list.splits)
  let ?w = "upd_csm c (\<lambda>_. y) w"
  obtain w1 x1 where w1: "scheduler_prepare_session c ?w = Some w1" "same_lifs ?w w1" "w_csm w1 c = Some x1" "same_conn y x1"
    using prepare_session_ok [of ?w c y] assms(1,3) by (auto simp: safe_def)
  then have "set (sys_lif_list (w_sys w1)) \<subseteq> dom (w_lif w1)" using assms(3) by (simp add: same_lifs_def)
  then obtain ret w2 x2 where w2: "scheduler_check_csm_config c w1 = Some (ret, w2)" "w_csm w2 c = Some x2" "same_session x1 x2"
    using check_config_ok [OF w1(3)] by (auto simp: safe_def)
  have "csm_current_state x1 = ICCP_NONEXISTENT" "csm_current_state x2 = ICCP_NONEXISTENT"
    using s w1(4) w2(3) by (simp_all add: same_conn_def same_session_def)
  then show ?thesis
    using assms(1,2) y w1 w2 by (auto simp: iccp_csm_transit_def csm_step_def safe_def conn_inv_def enter_state_def Let_def)
qed

text \<open>
  C21: the flags of the connection agree with its state, whatever they are before the connection:
  every state of a connected domain has the own capability, those after the exchange of
  capabilities the peer's, those after the own request to join the group have that request, and
  an operational domain has both requests. A run of the state machine establishes this where it
  takes up a connection, from \<open>ICCP_NONEXISTENT\<close>, and keeps it in every other state.
\<close>

theorem connection_invariant:
  assumes "w_csm w c = Some csm" "conn_inv (csm_current_state csm) (csm_iccp_info csm)"
    and "set (sys_lif_list (w_sys w)) \<subseteq> dom (w_lif w)"
    and "csm_current_state csm \<noteq> ICCP_NONEXISTENT \<longrightarrow> link_up c w \<and> named csm \<and> means (fst (iccp_csm_dequeue_msg csm)) cm"
  shows "conn_inv ICCP_NONEXISTENT x \<and> (\<exists>w' csm'. iccp_csm_transit c w = Some w' \<and> w_csm w' c = Some csm'
    \<and> conn_inv (csm_current_state csm') (csm_iccp_info csm'))"
proof (cases "csm_current_state csm = ICCP_NONEXISTENT")
  case True
  then show ?thesis using transit_first [OF assms(1) True assms(3)] by (auto simp: safe_def conn_inv_def)
next
  case False
  then have ok: "link_up c w" "named csm" "means (fst (iccp_csm_dequeue_msg csm)) cm" using assms(4) by auto
  obtain s' x' out where step: "conn_step (csm_current_state csm, csm_iccp_info csm) cm = ((s', x'), out)" by (metis prod.exhaust)
  from transit_step [OF ok(1) assms(1) ok(2) False prod.collapse [symmetric] ok(3) step] conn_step_inv [OF assms(2) step]
  show ?thesis by (auto simp: safe_def stepped_def conn_inv_def [of ICCP_NONEXISTENT])
qed

text \<open>A connection that was just accepted is taken up, and an established one goes on.\<close>

lemma demo_accepted_transit:
  "iccp_csm_transit 0 (upd_csm 0 (csm_sock_fd_update (\<lambda>_. 9)) (demo_peers ''10.0.0.2'' ''10.0.0.1'')) = Some w
    \<Longrightarrow> w_csm w 0 = Some csm \<Longrightarrow> csm_current_state csm = ICCP_INITIALIZED"
  by (auto simp: iccp_csm_transit_def iccp_csm_dequeue_msg_def csm_step_def scheduler_prepare_session_def scheduler_check_csm_config_def
      iccp_csm_stp_role_count_def mlacp_link_set_iccp_role_def demo_addresses demo_peers_def demo_peer_def answer_def Let_def demo_def zero_CSM_def
      split: if_splits Option.bind_splits)

theorem connection_invariant_witness:
  "(\<exists>w' csm'. iccp_csm_transit 0 (upd_csm 0 (csm_sock_fd_update (\<lambda>_. 9)) (demo_peers ''10.0.0.2'' ''10.0.0.1'')) = Some w' \<and> w_csm w' 0 = Some csm'
      \<and> csm_current_state csm' = ICCP_INITIALIZED \<and> sender_capability_flag (csm_iccp_info csm'))
   \<and> (\<exists>w' csm'. iccp_csm_transit 0 demo_conn = Some w' \<and> w_csm w' 0 = Some csm' \<and> conn_inv (csm_current_state csm') (csm_iccp_info csm'))"
proof
  let ?w = "upd_csm 0 (csm_sock_fd_update (\<lambda>_. 9)) (demo_peers ''10.0.0.2'' ''10.0.0.1'')"
  let ?x = "(demo_peer ''10.0.0.2'' ''10.0.0.1'')\<lparr>csm_sock_fd := 9\<rparr>"
  have "w_csm ?w 0 = Some ?x" "csm_current_state ?x = ICCP_NONEXISTENT" "set (sys_lif_list (w_sys ?w)) \<subseteq> dom (w_lif ?w)"
    by (auto simp: demo_peers_csm demo_peer_def zero_CSM_def demo_peers_def demo_def demo_sys_def)
  then obtain w' csm' where w': "iccp_csm_transit 0 ?w = Some w'" "w_csm w' 0 = Some csm'" "conn_inv (csm_current_state csm') (csm_iccp_info csm')"
    using connection_invariant [of ?w 0 ?x] by (auto simp: conn_inv_def)
  moreover have "csm_current_state csm' = ICCP_INITIALIZED" using demo_accepted_transit w'(1,2) .
  ultimately show "\<exists>w' csm'. iccp_csm_transit 0 ?w = Some w' \<and> w_csm w' 0 = Some csm'
      \<and> csm_current_state csm' = ICCP_INITIALIZED \<and> sender_capability_flag (csm_iccp_info csm')"
    by (auto simp: conn_inv_def)
next
  obtain csm where csm: "w_csm demo_conn 0 = Some csm" "link_up 0 demo_conn" "named csm" "csm_current_state csm = ICCP_INITIALIZED"
    "csm_iccp_info csm = demo_info" "csm_sock_fd csm = 7" "csm_msg_list csm = []" using demo_conn_csm .
  then have "means (fst (iccp_csm_dequeue_msg csm)) None" by (simp add: iccp_csm_dequeue_msg_def means_def)
  moreover have "set (sys_lif_list (w_sys demo_conn)) \<subseteq> dom (w_lif demo_conn)" by (auto simp: demo_conn_def demo_def demo_sys_def)
  ultimately show "\<exists>w' csm'. iccp_csm_transit 0 demo_conn = Some w' \<and> w_csm w' 0 = Some csm' \<and> conn_inv (csm_current_state csm') (csm_iccp_info csm')"
    using connection_invariant [OF csm(1), of None] csm(2-5) demo_info_fresh(2) by metis
qed

text \<open>
  C3: two daemons of the same redundancy group that are freshly connected are both operational
  after four rounds of reading, stepping and writing, and nothing is left on the wire.
\<close>

theorem handshake:
  assumes "peer_in c (ICCP_INITIALIZED, x) w" "peer_in d (ICCP_INITIALIZED, y) v" "fresh x" "fresh y" "icc_rg_id x = icc_rg_id y"
  shows "\<exists>w' v' x' y'. rounds 4 c d (w, []) (v, []) = Some ((w', []), (v', []))
    \<and> peer_in c (ICCP_OPERATIONAL, x') w' \<and> peer_in d (ICCP_OPERATIONAL, y') v'"
proof -
  let ?cap = "\<lambda>x. x\<lparr>peer_capability_flag := True, sender_capability_flag := True\<rparr>"
  let ?con = "\<lambda>x. (?cap x)\<lparr>sender_rg_connect_flag := True\<rparr>"
  let ?op = "\<lambda>x. (?con x)\<lparr>peer_rg_connect_flag := True, sender_rg_connect_flag := True\<rparr>"
  have s1: "conn_step (ICCP_INITIALIZED, x) None = ((ICCP_CAPSENT, x), Some (Capability True))"
   and s2: "conn_step (ICCP_CAPSENT, x) (Some (Capability True)) = ((ICCP_CAPREC, ?cap x), None)"
   and s3: "conn_step (ICCP_CAPREC, ?cap x) None = ((ICCP_CONNECTING, ?con x), Some (Connect (icc_rg_id x)))"
   and s4: "icc_rg_id x = rg \<Longrightarrow> conn_step (ICCP_CONNECTING, ?con x) (Some (Connect rg)) = ((ICCP_OPERATIONAL, ?op x), None)"
    if "fresh x" for x rg
    using that by (simp_all add: fresh_def conn_step_def Let_def entered_def rg_checked_def)
  have ne: "ICCP_INITIALIZED \<noteq> ICCP_NONEXISTENT" "ICCP_CAPSENT \<noteq> ICCP_NONEXISTENT" "ICCP_CAPREC \<noteq> ICCP_NONEXISTENT"
    "ICCP_CONNECTING \<noteq> ICCP_NONEXISTENT" and nn: "\<not> is_Nak None" "\<not> is_Nak (Some (Capability b))" "\<not> is_Nak (Some (Connect rg))" for b rg
    by simp_all
  have z: "carried None []" by simp
  obtain w1 v1 c1 d1 where 1: "rounds (Suc 3) c d (w, []) (v, []) = rounds 3 c d (w1, c1) (v1, d1)"
      "peer_in c (ICCP_CAPSENT, x) w1" "peer_in d (ICCP_CAPSENT, y) v1" "carried (Some (Capability True)) c1" "carried (Some (Capability True)) d1"
    using rounds_Suc [OF assms(1,2) ne(1,1) z z nn(1,1) s1 [OF assms(3)] s1 [OF assms(4)]] by blast
  obtain w2 v2 c2 d2 where 2: "rounds (Suc 2) c d (w1, c1) (v1, d1) = rounds 2 c d (w2, c2) (v2, d2)"
      "peer_in c (ICCP_CAPREC, ?cap x) w2" "peer_in d (ICCP_CAPREC, ?cap y) v2" "carried None c2" "carried None d2"
    using rounds_Suc [OF 1(2,3) ne(2,2) 1(4,5) nn(2,2) s2 [OF assms(3)] s2 [OF assms(4)]] by blast
  obtain w3 v3 c3 d3 where 3: "rounds (Suc 1) c d (w2, c2) (v2, d2) = rounds 1 c d (w3, c3) (v3, d3)"
      "peer_in c (ICCP_CONNECTING, ?con x) w3" "peer_in d (ICCP_CONNECTING, ?con y) v3"
      "carried (Some (Connect (icc_rg_id y))) c3" "carried (Some (Connect (icc_rg_id x))) d3"
    using rounds_Suc [OF 2(2,3) ne(3,3) 2(4,5) nn(1,1) s3 [OF assms(3)] s3 [OF assms(4)]] by blast
  obtain w4 v4 c4 d4 where 4: "rounds (Suc 0) c d (w3, c3) (v3, d3) = rounds 0 c d (w4, c4) (v4, d4)"
      "peer_in c (ICCP_OPERATIONAL, ?op x) w4" "peer_in d (ICCP_OPERATIONAL, ?op y) v4" "carried None c4" "carried None d4"
    using rounds_Suc [OF 3(2,3) ne(4,4) 3(4,5) nn(3,3) s4 [OF assms(3,5)] s4 [OF assms(4) assms(5) [symmetric]]] by blast
  have "rounds 4 c d (w, []) (v, []) = Some ((w4, []), (v4, []))"
    using 1(1) 2(1) 3(1) 4(1,4,5) by (simp del: rounds.simps(2) add: eval_nat_numeral)
  then show ?thesis using 4(2,3) by blast
qed

theorem handshake_witness:
  "\<exists>w' v' x' y'. rounds 4 0 0 (demo_conn, []) (demo_conn, []) = Some ((w', []), (v', []))
    \<and> peer_in 0 (ICCP_OPERATIONAL, x') w' \<and> peer_in 0 (ICCP_OPERATIONAL, y') v'"
  by (rule handshake [OF demo_conn_peer demo_conn_peer demo_info_fresh(1) demo_info_fresh(1) refl])

end
