(* ===== verification/Loop_Spec.thy ===== *)
theory Loop_Spec
  imports Loop_Invariant Connection_Spec
begin

text \<open>
  Properties of the main loop: what holds between any two turns, that running the state
  machines frees no domain, and that the loop over the messages of a domain ends.
\<close>

subsection \<open>The loop over the messages of a domain\<close>

definition queued :: "csm_ptr \<Rightarrow> bytes list \<Rightarrow> bool \<Rightarrow> world \<Rightarrow> bool" where
  "queued c q moved w \<longleftrightarrow> (\<exists>x. w_csm w c = Some x \<and> ml_mlacp_msg_list (MLACP x) = q
     \<and> (moved \<longrightarrow> ml_current_state (MLACP x) \<noteq> MLACP_STATE_INIT))"

interpretation queue: progress_inv c "queued c q moved" for c q moved
proof
  fix w w' assume q: "queued c q moved w" and p: "progress c w w'"
  obtain x where x: "w_csm w c = Some x" "ml_mlacp_msg_list (MLACP x) = q"
    "moved \<longrightarrow> ml_current_state (MLACP x) \<noteq> MLACP_STATE_INIT" using q unfolding queued_def by blast
  obtain y where y: "w_csm w' c = Some y" "held y = held x" using kept_some x(1) p unfolding progress_def by blast
  moreover have "moved \<longrightarrow> ml_current_state (MLACP y) \<noteq> MLACP_STATE_INIT" using p x(1,3) y(1) unfolding progress_def by blast
  ultimately show "queued c q moved w'" using x(2) by (simp add: queued_def)
qed

lemma transit_state_queued:
  assumes "queued c q False w"
  shows "keeps (queued c q True) (transit_state c msg w)"
proof -
  have go: "keeps (queued c q True) (w_csm v c \<bind> (\<lambda>csm. case ml_current_state (MLACP csm) of
       MLACP_STATE_STAGE1 \<Rightarrow> mlacp_stage_handler c msg v
     | MLACP_STATE_STAGE2 \<Rightarrow> mlacp_stage_handler c msg v
     | MLACP_STATE_EXCHANGE \<Rightarrow> mlacp_exchange_handler c msg v
     | _ \<Rightarrow> Some v))" if "queued c q True v" for v
    by (intro frame; simp add: that)
  have first: "keeps (queued c q True) (w_csm v c \<bind> (\<lambda>csm. if ml_current_state (MLACP csm) = MLACP_STATE_INIT then
      mlacp_resync_arp c (upd_mlacp c (\<lambda>m. m\<lparr>ml_wait_for_sync_data := 0, ml_current_state := MLACP_STATE_STAGE1\<rparr>) v) \<bind> mlacp_resync_ndisc c
      else Some v))" if v: "queued c q False v" for v
  proof -
    obtain x where x: "w_csm v c = Some x" "ml_mlacp_msg_list (MLACP x) = q" using v by (auto simp: queued_def)
    have "queued c q True (upd_mlacp c (\<lambda>m. m\<lparr>ml_wait_for_sync_data := 0, ml_current_state := MLACP_STATE_STAGE1\<rparr>) v)"
      using x by (simp add: queued_def)
    then have "keeps (queued c q True) (mlacp_resync_arp c (upd_mlacp c (\<lambda>m. m\<lparr>ml_wait_for_sync_data := 0,
        ml_current_state := MLACP_STATE_STAGE1\<rparr>) v) \<bind> mlacp_resync_ndisc c)"
      by (intro frame)
    then show ?thesis using x by (simp add: queued_def keeps_ends)
  qed
  have prev: "keeps (queued c q False) (w_csm w c \<bind> (\<lambda>csm. if g_prev_state w \<noteq> ml_current_state (MLACP csm) then
      (if ml_current_state (MLACP csm) = MLACP_STATE_EXCHANGE then mlacp_peer_conn_handler c w else Some w)
        \<bind> (\<lambda>w. w_csm w c \<bind> (\<lambda>csm. Some (w\<lparr>g_prev_state := ml_current_state (MLACP csm)\<rparr>)))
      else Some w))"
    by (intro frame; simp add: assms)
  show ?thesis
    using keeps_via(1) [OF prev keeps_via(1) [OF first go]] unfolding transit_state_def Let_def
    by simp
qed

lemma transit_round_first:
  assumes "queued c q False w" "w_csm w c = Some x" "ml_current_state (MLACP x) = MLACP_STATE_INIT"
    and "transit_round c stale w = Some (go, stale', v)"
  shows "queued c q True v"
  using assms(2-) unfolding transit_round_def
  by (auto split: Option.bind_splits if_splits intro: keepsD [OF transit_state_queued [OF assms(1)]])

lemma transit_round_next:
  assumes "queued c q False w" "w_csm w c = Some x" "ml_current_state (MLACP x) \<noteq> MLACP_STATE_INIT"
    and "transit_round c stale w = Some (True, stale', v)"
  shows "\<exists>m q'. q = m # q' \<and> queued c q' True v"
proof -
  have q: "ml_mlacp_msg_list (MLACP x) = q" using assms(1,2) by (simp add: queued_def)
  obtain m q' where mq: "q = m # q'"
    using assms(2-4) q by (cases q) (auto simp: transit_round_def mlacp_dequeue_msg_def split: Option.bind_splits)
  let ?v = "upd_csm c (\<lambda>_. upd_MLACP (ml_mlacp_msg_list_update (\<lambda>_. q')) x) w"
  have v: "queued c q' b ?v" for b using assms(2,3) by (simp add: queued_def)
  have "queued c q' True v"
    using assms(2-4) q mq unfolding transit_round_def mlacp_dequeue_msg_def Let_def
    by (auto split: Option.bind_splits if_splits intro: keepsD [OF transit_state_queued [OF v]]
        keepsD [OF queue.mlacp_sync_recv_nak_handler_keeps(6) [OF v]])
  then show ?thesis using mq by blast
qed

lemma transit_loop_enough:
  assumes "queued c q moved w" "length q + (if moved then 1 else 2) \<le> n"
  shows "transit_loop (n + k) c stale w = transit_loop n c stale w"
  using assms
proof (induction n arbitrary: q moved stale w)
  case (Suc n)
  obtain x where x: "w_csm w c = Some x" "moved \<longrightarrow> ml_current_state (MLACP x) \<noteq> MLACP_STATE_INIT"
    and q: "queued c q False w" using Suc.prems(1) by (auto simp: queued_def)
  have "transit_loop (n + k) c stale' v = transit_loop n c stale' v" if r: "transit_round c stale w = Some (True, stale', v)" for stale' v
  proof (cases "ml_current_state (MLACP x) = MLACP_STATE_INIT")
    case True
    then show ?thesis using Suc.IH [OF transit_round_first [OF q x(1) True r]] Suc.prems(2) x(2) by simp
  next
    case False
    then obtain m q' where "q = m # q'" "queued c q' True v" using transit_round_next [OF q x(1) False r] by blast
    then show ?thesis using Suc.IH [of q' True v] Suc.prems(2) by (simp split: if_splits)
  qed
  then show ?case by (auto intro!: Option.bind_cong split: prod.split)
qed (simp split: if_splits)

definition demo_standby :: world where
  "demo_standby = demo\<lparr>w_csm := [0 \<mapsto> (demo_peer ''10.0.0.2'' ''10.0.0.1'')\<lparr>csm_role_type := STP_ROLE_STANDBY\<rparr>]\<rparr>"

lemma demo_standby_inv: "loop_inv demo_standby"
  by (simp add: loop_inv_def sessions_ok_def domains_def demo_standby_def demo_peer_def demo_def demo_sys_def session_ok_def zero_simps)

lemmas demo_turn = scheduler_transit_fsm_def transit_csm_def heartbeat_update_def heartbeat_check_def
  iccp_csm_dequeue_msg_def csm_step_def scheduler_prepare_session_def scheduler_check_csm_config_def iccp_csm_stp_role_count_def
  local_if_find_by_name_def demo_addresses app_csm_transit_def mlacp_fsm_transit_def local_if_purge_clear_def enter_state_def
  answer_def Let_def demo_standby_def demo_peer_def demo_simps

lemma demo_accepted:
  "\<exists>w x. scheduler_loop [(1000, [Fd_server 9 ''10.0.0.1''])] demo_standby = Some w
     \<and> sys_csm_list (w_sys w) = [0] \<and> w_csm w 0 = Some x \<and> csm_sock_fd x = 9 \<and> csm_current_state x = ICCP_INITIALIZED"
  by (simp add: scheduler_turn_def iccp_handle_events_def handle_event_def scheduler_server_accept_def
      system_get_csm_by_peer_ip_def iccp_csm_transit_def demo_turn)

subsection \<open>Between the turns\<close>

lemma loop_inv_init: "loop_inv (v\<lparr>w_sys := system_init server_fd epoll_fd\<rparr>)"
  by (simp add: loop_inv_def sessions_ok_def domains_def system_init_def)

text \<open>
  C9: Whatever events arrive and whatever the kernel, the peer and \<open>mclagsyncd\<close> answer, between
  two turns of the main loop the domains of the system are pairwise different live objects, a
  domain without a connection is in the initial state of the connection and of mLACP, and
  mLACP has left its initial state only where the application machine is operational. The
  state after initialisation is of this kind.
\<close>

theorem session_invariant:
  assumes "loop_inv w" "scheduler_loop turns w = Some w'"
  shows "loop_inv (v\<lparr>w_sys := system_init server_fd epoll_fd\<rparr>) \<and> loop_inv w' \<and> distinct (sys_csm_list (w_sys w'))
    \<and> (\<forall>c \<in> set (sys_csm_list (w_sys w')). \<exists>x. w_csm w' c = Some x
         \<and> (csm_sock_fd x \<le> 0 \<longrightarrow> csm_current_state x = ICCP_NONEXISTENT \<and> ml_current_state (MLACP x) = MLACP_STATE_INIT)
         \<and> (ml_current_state (MLACP x) \<noteq> MLACP_STATE_INIT \<longrightarrow> app_current_state (APP_CSM x) = APP_OPERATIONAL))"
proof -
  have "loop_inv w'" by (rule keepsD [OF loop.scheduler_loop_keeps [OF assms(1)] assms(2)])
  then show ?thesis using loop_inv_init
    by (simp add: loop_inv_def [of w'] sessions_ok_def domains_def session_ok_def)
qed

theorem session_invariant_witness:
  "\<exists>w'. scheduler_loop [(1000, [Fd_server 9 ''10.0.0.1''])] demo_standby = Some w' \<and> loop_inv w'"
  using session_invariant [OF demo_standby_inv] demo_accepted by blast




text \<open>
  C24: The connection machine never tears a domain down: for a domain of the system
  \<open>iccp_csm_transit\<close> is the dispatch on the state without the two calls of \<open>iccp_csm_finalize\<close>,
  the one for a lost connection and the one on returning to the initial state.
\<close>

theorem teardown_unreachable:
  assumes "loop_inv w" "c \<in> set (sys_csm_list (w_sys w))"
  shows "iccp_csm_transit c w = do {
     csm \<leftarrow> w_csm w c;
     let (msg, csm') = iccp_csm_dequeue_msg csm;
     w \<leftarrow> csm_step c msg (csm_current_state csm) (upd_csm c (\<lambda>_. csm') w);
     csm2 \<leftarrow> w_csm w c;
     Some (if csm_current_state csm \<noteq> csm_current_state csm2 \<or> csm_current_state csm2 \<noteq> ICCP_NONEXISTENT \<and> msg \<noteq> None
           then upd_csm c (csm_iccp_info_update (enter_state (csm_current_state csm2))) w else w) }"
  by (rule iccp_csm_transit_eq [OF loop_inv_sessions [OF assms(1)] assms(2)])

theorem teardown_unreachable_witness:
  "\<exists>w' x. iccp_csm_transit 0 demo_standby = Some w' \<and> w_csm w' 0 = Some x \<and> csm_current_state x = ICCP_NONEXISTENT"
  by (subst teardown_unreachable [OF demo_standby_inv]) (simp_all add: demo_turn)

subsection \<open>The messages of a domain\<close>

text \<open>Rounds of the loop of \<open>mlacp_fsm_transit\<close>, each of which asks for another one.\<close>

inductive rounds_run :: "csm_ptr \<Rightarrow> nat \<Rightarrow> bool \<Rightarrow> world \<Rightarrow> bool \<Rightarrow> world \<Rightarrow> bool" for c where
  run_0: "rounds_run c 0 stale w stale w"
| run_Suc: "transit_round c stale w = Some (True, stale1, w1) \<Longrightarrow> rounds_run c n stale1 w1 stale2 w2
    \<Longrightarrow> rounds_run c (Suc n) stale w stale2 w2"

lemma rounds_run_bound:
  assumes "rounds_run c n stale w stale' w'" "queued c q moved w"
  shows "n \<le> length q + (if moved then 0 else 1)"
  using assms
proof (induction arbitrary: q moved rule: rounds_run.induct)
  case (run_Suc stale w stale1 w1 n stale2 w2)
  obtain x where x: "w_csm w c = Some x" "moved \<longrightarrow> ml_current_state (MLACP x) \<noteq> MLACP_STATE_INIT"
    and q: "queued c q False w" using run_Suc.prems by (auto simp: queued_def)
  show ?case
  proof (cases "ml_current_state (MLACP x) = MLACP_STATE_INIT")
    case True
    then show ?thesis using run_Suc.IH [OF transit_round_first [OF q x(1) True run_Suc.hyps(1)]] x(2) by simp
  next
    case False
    then obtain m q' where "q = m # q'" "queued c q' True w1" using transit_round_next [OF q x(1) False run_Suc.hyps(1)] by blast
    then show ?thesis using run_Suc.IH [of q' True] by simp
  qed
qed simp

lemma transit_loop_last:
  assumes "\<nexists>s v. transit_round c stale w = Some (True, s, v)"
  shows "(\<exists>w'. transit_loop (Suc k) c stale w = Some w') \<or> transit_round c stale w = None"
proof (cases "transit_round c stale w")
  case (Some r)
  obtain go s v where "r = (go, s, v)" by (metis prod_cases3)
  moreover from this have "\<not> go" using assms Some by (cases go) auto
  ultimately show ?thesis using Some by simp
qed simp

lemma transit_loop_stops:
  assumes "\<And>n stale' w'. rounds_run c n stale w stale' w' \<Longrightarrow> n \<le> k"
  shows "(\<exists>w'. transit_loop (Suc k) c stale w = Some w')
    \<or> (\<exists>n stale' w'. rounds_run c n stale w stale' w' \<and> transit_round c stale' w' = None)"
  using assms
proof (induction k arbitrary: stale w)
  case 0
  have "\<nexists>s v. transit_round c stale w = Some (True, s, v)"
    using 0 [OF run_Suc [OF _ run_0]] by auto
  then show ?case using transit_loop_last run_0 by blast
next
  case (Suc k)
  show ?case
  proof (cases "\<exists>s v. transit_round c stale w = Some (True, s, v)")
    case True
    then obtain s v where r: "transit_round c stale w = Some (True, s, v)" by blast
    have "n \<le> k" if "rounds_run c n s v stale' w'" for n stale' w' using Suc.prems [OF run_Suc [OF r that]] by simp
    then consider w' where "transit_loop (Suc k) c s v = Some w'"
      | n stale' w' where "rounds_run c n s v stale' w'" "transit_round c stale' w' = None" using Suc.IH by blast
    then show ?thesis
    proof cases
      case 1
      then show ?thesis using r by (simp only: transit_loop.simps(2) [of "Suc k"]) simp
    qed (use run_Suc [OF r] in blast)
  next
    case False
    then show ?thesis using transit_loop_last run_0 by blast
  qed
qed

text \<open>A domain in the error state with one message, which takes one round and asks for another.\<close>

definition demo_error :: world where
  "demo_error = demo\<lparr>w_csm := [0 \<mapsto> upd_MLACP (\<lambda>m. m\<lparr>ml_current_state := MLACP_STATE_ERROR, ml_mlacp_msg_list := [replicate 20 0]\<rparr>) zero_CSM]\<rparr>"

lemma demo_error_csm:
  obtains x where "w_csm demo_error 0 = Some x" "length (ml_mlacp_msg_list (MLACP x)) = 1"
  by (simp add: demo_error_def)

lemma demo_error_round: "\<exists>w'. transit_round 0 False demo_error = Some (True, True, w')"
proof -
  have "get_bits 0 15 (mk16 0 0) \<noteq> 1794" by code_simp
  then show ?thesis
    by (simp add: transit_round_def transit_state_def mlacp_dequeue_msg_def demo_error_def ld16_def LDPHdr_msg_type_def
        ICCParameter_type_def Let_def)
qed

text \<open>
  C11: The loop over the messages of a domain ends: no more rounds follow one another than there
  are messages, and one that leaves the initial state. With the bound \<open>mlacp_fsm_transit\<close> uses
  the loop returns, unless one of its rounds has no defined result.
\<close>

theorem mlacp_loop_ends:
  assumes "w_csm w c = Some x"
  shows "(rounds_run c n stale w stale' w' \<longrightarrow> n \<le> length (ml_mlacp_msg_list (MLACP x)) + 1)
    \<and> ((\<exists>v. transit_loop (length (ml_mlacp_msg_list (MLACP x)) + 2) c stale w = Some v)
       \<or> (\<exists>k s v. rounds_run c k stale w s v \<and> transit_round c s v = None))"
proof -
  have "queued c (ml_mlacp_msg_list (MLACP x)) False w" using assms by (simp add: queued_def)
  note bound = rounds_run_bound [OF _ this, simplified]
  show ?thesis using bound transit_loop_stops [of c stale w, OF bound] by simp
qed

theorem mlacp_loop_ends_witness:
  "\<exists>w'. rounds_run 0 1 False demo_error True w' \<and> (1 :: nat) \<le> 1 + 1
    \<and> ((\<exists>v. transit_loop (1 + 2) 0 False demo_error = Some v)
       \<or> (\<exists>k s v. rounds_run 0 k False demo_error s v \<and> transit_round 0 s v = None))"
proof -
  obtain x where x: "w_csm demo_error 0 = Some x" "length (ml_mlacp_msg_list (MLACP x)) = 1" by (rule demo_error_csm)
  obtain w' where "rounds_run 0 1 False demo_error True w'" using demo_error_round run_Suc [OF _ run_0] by fastforce
  then show ?thesis using mlacp_loop_ends [OF x(1), of 1 False True w'] x(2) by auto
qed

lemma rounds_run_stale:
  assumes "rounds_run c n stale w stale' w'" "queued c q moved w" "stale \<longrightarrow> moved" "stale'"
  shows "\<exists>q'. queued c q' True w'"
  using assms
proof (induction arbitrary: q moved rule: rounds_run.induct)
  case (run_Suc stale w stale1 w1 n stale2 w2)
  obtain x where x: "w_csm w c = Some x" and q: "queued c q False w" using run_Suc.prems by (auto simp: queued_def)
  have "\<exists>q'. queued c q' True w1"
    using transit_round_first [OF q x _ run_Suc.hyps(1)] transit_round_next [OF q x _ run_Suc.hyps(1)] by blast
  then show ?case using run_Suc.IH run_Suc.prems(3) by blast
qed (auto simp: queued_def)

text \<open>
  C25: The variable \<open>msg\<close> of the loop keeps pointing to a message after that was freed, but a
  round that would use it, one in the initial state, never follows: after the first message
  the state is past the initial one.
\<close>

theorem freed_message_unused:
  assumes "w_csm w c = Some x" "rounds_run c n False w True w'"
  shows "\<exists>y. w_csm w' c = Some y \<and> ml_current_state (MLACP y) \<noteq> MLACP_STATE_INIT"
proof -
  have "queued c (ml_mlacp_msg_list (MLACP x)) False w" using assms(1) by (simp add: queued_def)
  then show ?thesis using rounds_run_stale [OF assms(2)] by (auto simp: queued_def)
qed

theorem freed_message_unused_witness:
  "\<exists>w' y. rounds_run 0 1 False demo_error True w' \<and> w_csm w' 0 = Some y \<and> ml_current_state (MLACP y) \<noteq> MLACP_STATE_INIT"
proof -
  obtain x where x: "w_csm demo_error 0 = Some x" "length (ml_mlacp_msg_list (MLACP x)) = 1" by (rule demo_error_csm)
  obtain w' where w': "rounds_run 0 1 False demo_error True w'" using demo_error_round run_Suc [OF _ run_0] by fastforce
  show ?thesis using freed_message_unused [OF x(1) w'] w' by blast
qed

end
