(* ===== verification/Openbsd_Tree.thy ===== *)
theory Openbsd_Tree
  imports Iccp_Prelude
begin

text \<open>
  The red-black trees of \<open>src/openbsd_tree.c\<close>, on a heap of entries. A node and the entry embedded
  in it have the same address here (\<open>rb_n2e\<close> and \<open>rb_e2n\<close> add and subtract the offset of the
  field). The trees of the daemon are made with \<open>RB_GENERATE\<close>, which leaves \<open>t_augment\<close> \<open>NULL\<close>, so
  the calls of the augmentation are left out. A null pointer or the address of no entry makes an
  access undefined.
\<close>

type_synonym rb_ptr = nat

abbreviation (input) RB_BLACK :: u32 where "RB_BLACK \<equiv> 0"
abbreviation (input) RB_RED :: u32 where "RB_RED \<equiv> 1"

record rb_entry =
  rbt_parent :: "rb_ptr option"
  rbt_left :: "rb_ptr option"
  rbt_right :: "rb_ptr option"
  rbt_color :: u32

record rbt_tree =
  rbt_root :: "rb_ptr option"
  rbt_heap :: "rb_ptr \<rightharpoonup> rb_entry"

type_synonym rb_compare = "rb_ptr \<Rightarrow> rb_ptr \<Rightarrow> int"

subsection \<open>Access to entries\<close>

definition rbe_get :: "(rb_entry \<Rightarrow> 'a) \<Rightarrow> rb_ptr option \<Rightarrow> rbt_tree \<Rightarrow> 'a option" where
  "rbe_get f p s = do { a \<leftarrow> p; e \<leftarrow> rbt_heap s a; Some (f e) }"

definition rbe_upd :: "(rb_entry \<Rightarrow> rb_entry) \<Rightarrow> rb_ptr option \<Rightarrow> rbt_tree \<Rightarrow> rbt_tree option" where
  "rbe_upd f p s = do { a \<leftarrow> p; e \<leftarrow> rbt_heap s a; Some (s\<lparr>rbt_heap := (rbt_heap s)(a \<mapsto> f e)\<rparr>) }"

abbreviation (input) "RBE_LEFT \<equiv> rbe_get rbt_left"
abbreviation (input) "RBE_RIGHT \<equiv> rbe_get rbt_right"
abbreviation (input) "RBE_PARENT \<equiv> rbe_get rbt_parent"
abbreviation (input) "RBE_COLOR \<equiv> rbe_get rbt_color"
abbreviation (input) "SET_LEFT p v \<equiv> rbe_upd (rbt_left_update (\<lambda>_. v)) p"
abbreviation (input) "SET_RIGHT p v \<equiv> rbe_upd (rbt_right_update (\<lambda>_. v)) p"
abbreviation (input) "SET_PARENT p v \<equiv> rbe_upd (rbt_parent_update (\<lambda>_. v)) p"
abbreviation (input) "SET_COLOR p v \<equiv> rbe_upd (rbt_color_update (\<lambda>_. v)) p"

definition rbe_set :: "rb_ptr option \<Rightarrow> rb_ptr option \<Rightarrow> rbt_tree \<Rightarrow> rbt_tree option" where
  "rbe_set rbe parent s = do {
     s \<leftarrow> SET_PARENT rbe parent s;
     s \<leftarrow> SET_RIGHT rbe None s;
     s \<leftarrow> SET_LEFT rbe None s;
     SET_COLOR rbe RB_RED s }"

definition rbe_set_blackred :: "rb_ptr option \<Rightarrow> rb_ptr option \<Rightarrow> rbt_tree \<Rightarrow> rbt_tree option" where
  "rbe_set_blackred black red s = do {
     s \<leftarrow> SET_COLOR black RB_BLACK s;
     SET_COLOR red RB_RED s }"

text \<open>Where the parent, if any, has a child, it gets another one.\<close>

definition replace_child :: "rb_ptr option \<Rightarrow> rb_ptr option \<Rightarrow> rb_ptr option \<Rightarrow> rbt_tree \<Rightarrow> rbt_tree option" where
  "replace_child parent old new s =
     (if parent \<noteq> None then do {
        l \<leftarrow> RBE_LEFT parent s;
        if l = old then SET_LEFT parent new s else SET_RIGHT parent new s }
      else Some (s\<lparr>rbt_root := new\<rparr>))"

definition rbe_rotate_left :: "rb_ptr option \<Rightarrow> rbt_tree \<Rightarrow> rbt_tree option" where
  "rbe_rotate_left rbe s = do {
     tmp \<leftarrow> RBE_RIGHT rbe s;
     l \<leftarrow> RBE_LEFT tmp s;
     s \<leftarrow> SET_RIGHT rbe l s;
     r \<leftarrow> RBE_RIGHT rbe s;
     s \<leftarrow> (if r \<noteq> None then do { l \<leftarrow> RBE_LEFT tmp s; SET_PARENT l rbe s } else Some s);
     parent \<leftarrow> RBE_PARENT rbe s;
     s \<leftarrow> SET_PARENT tmp parent s;
     s \<leftarrow> replace_child parent rbe tmp s;
     s \<leftarrow> SET_LEFT tmp rbe s;
     SET_PARENT rbe tmp s }"

definition rbe_rotate_right :: "rb_ptr option \<Rightarrow> rbt_tree \<Rightarrow> rbt_tree option" where
  "rbe_rotate_right rbe s = do {
     tmp \<leftarrow> RBE_LEFT rbe s;
     r \<leftarrow> RBE_RIGHT tmp s;
     s \<leftarrow> SET_LEFT rbe r s;
     l \<leftarrow> RBE_LEFT rbe s;
     s \<leftarrow> (if l \<noteq> None then do { r \<leftarrow> RBE_RIGHT tmp s; SET_PARENT r rbe s } else Some s);
     parent \<leftarrow> RBE_PARENT rbe s;
     s \<leftarrow> SET_PARENT tmp parent s;
     s \<leftarrow> replace_child parent rbe tmp s;
     s \<leftarrow> SET_RIGHT tmp rbe s;
     SET_PARENT rbe tmp s }"

subsection \<open>Insertion\<close>

text \<open>One round of the loop, with the entry the next round looks at.\<close>

definition insert_color_round :: "rb_ptr option \<Rightarrow> rb_ptr option \<Rightarrow> rbt_tree \<Rightarrow> (rb_ptr option \<times> rbt_tree) option" where
  "insert_color_round rbe parent s = do {
     gparent \<leftarrow> RBE_PARENT parent s;
     l \<leftarrow> RBE_LEFT gparent s;
     if parent = l then do {
       tmp \<leftarrow> RBE_RIGHT gparent s;
       c \<leftarrow> (if tmp \<noteq> None then RBE_COLOR tmp s else Some RB_BLACK);
       if tmp \<noteq> None \<and> c = RB_RED then do {
         s \<leftarrow> SET_COLOR tmp RB_BLACK s;
         s \<leftarrow> rbe_set_blackred parent gparent s;
         Some (gparent, s) }
       else do {
         r \<leftarrow> RBE_RIGHT parent s;
         (parent, rbe, s) \<leftarrow> (if r = rbe then do { s \<leftarrow> rbe_rotate_left parent s; Some (rbe, parent, s) }
                            else Some (parent, rbe, s));
         s \<leftarrow> rbe_set_blackred parent gparent s;
         s \<leftarrow> rbe_rotate_right gparent s;
         Some (rbe, s) } }
     else do {
       tmp \<leftarrow> RBE_LEFT gparent s;
       c \<leftarrow> (if tmp \<noteq> None then RBE_COLOR tmp s else Some RB_BLACK);
       if tmp \<noteq> None \<and> c = RB_RED then do {
         s \<leftarrow> SET_COLOR tmp RB_BLACK s;
         s \<leftarrow> rbe_set_blackred parent gparent s;
         Some (gparent, s) }
       else do {
         l \<leftarrow> RBE_LEFT parent s;
         (parent, rbe, s) \<leftarrow> (if l = rbe then do { s \<leftarrow> rbe_rotate_right parent s; Some (rbe, parent, s) }
                            else Some (parent, rbe, s));
         s \<leftarrow> rbe_set_blackred parent gparent s;
         s \<leftarrow> rbe_rotate_left gparent s;
         Some (rbe, s) } } }"

partial_function (option) insert_color_loop :: "rb_ptr option \<Rightarrow> rbt_tree \<Rightarrow> rbt_tree option" where
  "insert_color_loop rbe s = do {
     parent \<leftarrow> RBE_PARENT rbe s;
     if parent = None then Some s
     else do {
       c \<leftarrow> RBE_COLOR parent s;
       if c \<noteq> RB_RED then Some s
       else do {
         (rbe, s) \<leftarrow> insert_color_round rbe parent s;
         insert_color_loop rbe s } } }"

definition rbe_insert_color :: "rb_ptr option \<Rightarrow> rbt_tree \<Rightarrow> rbt_tree option" where
  "rbe_insert_color rbe s = do {
     s \<leftarrow> insert_color_loop rbe s;
     SET_COLOR (rbt_root s) RB_BLACK s }"

text \<open>The way down: the node with the same key, or the last node and the side of the new one.\<close>

partial_function (option) insert_descend ::
    "rb_compare \<Rightarrow> rb_ptr \<Rightarrow> rb_ptr option \<Rightarrow> rb_ptr option \<Rightarrow> int \<Rightarrow> rbt_tree \<Rightarrow> (rb_ptr + rb_ptr option \<times> int) option" where
  "insert_descend cmp elm tmp parent cmp_res s = (case tmp of
       None \<Rightarrow> Some (Inr (parent, cmp_res))
     | Some node \<Rightarrow> (let cmp_res = cmp elm node in
         if cmp_res < 0 then do { l \<leftarrow> RBE_LEFT tmp s; insert_descend cmp elm l tmp cmp_res s }
         else if cmp_res > 0 then do { r \<leftarrow> RBE_RIGHT tmp s; insert_descend cmp elm r tmp cmp_res s }
         else Some (Inl node)))"

definition rb_insert :: "rb_compare \<Rightarrow> rb_ptr \<Rightarrow> rbt_tree \<Rightarrow> (rb_ptr option \<times> rbt_tree) option" where
  "rb_insert cmp elm s = do {
     d \<leftarrow> insert_descend cmp elm (rbt_root s) None 0 s;
     case d of Inl node \<Rightarrow> Some (Some node, s)
     | Inr (parent, cmp_res) \<Rightarrow> do {
         s \<leftarrow> rbe_set (Some elm) parent s;
         s \<leftarrow> (if parent \<noteq> None
               then (if cmp_res < 0 then SET_LEFT parent (Some elm) s else SET_RIGHT parent (Some elm) s)
               else Some (s\<lparr>rbt_root := Some elm\<rparr>));
         s \<leftarrow> rbe_insert_color (Some elm) s;
         Some (None, s) } }"

subsection \<open>Removal\<close>

definition black_or_null :: "rb_ptr option \<Rightarrow> rbt_tree \<Rightarrow> bool option" where
  "black_or_null p s = (if p = None then Some True else do { c \<leftarrow> RBE_COLOR p s; Some (c = RB_BLACK) })"

definition blacken_if :: "rb_ptr option \<Rightarrow> rbt_tree \<Rightarrow> rbt_tree option" where
  "blacken_if p s = (if p \<noteq> None then SET_COLOR p RB_BLACK s else Some s)"

text \<open>
  One round of the loop: whether it is left, and the entry and parent the next round looks at.
  The two tests of the children are evaluated left to right.
\<close>

definition remove_color_round ::
    "rb_ptr option \<Rightarrow> rb_ptr option \<Rightarrow> rbt_tree \<Rightarrow> (bool \<times> rb_ptr option \<times> rb_ptr option \<times> rbt_tree) option" where
  "remove_color_round parent rbe s = do {
     l \<leftarrow> RBE_LEFT parent s;
     if l = rbe then do {
       tmp \<leftarrow> RBE_RIGHT parent s;
       c \<leftarrow> RBE_COLOR tmp s;
       (tmp, s) \<leftarrow> (if c = RB_RED then do {
           s \<leftarrow> rbe_set_blackred tmp parent s;
           s \<leftarrow> rbe_rotate_left parent s;
           tmp \<leftarrow> RBE_RIGHT parent s;
           Some (tmp, s) }
         else Some (tmp, s));
       tl \<leftarrow> RBE_LEFT tmp s;
       bl \<leftarrow> black_or_null tl s;
       tr \<leftarrow> RBE_RIGHT tmp s;
       br \<leftarrow> (if bl then black_or_null tr s else Some False);
       if bl \<and> br then do {
         s \<leftarrow> SET_COLOR tmp RB_RED s;
         gp \<leftarrow> RBE_PARENT parent s;
         Some (False, gp, parent, s) }
       else do {
         br \<leftarrow> black_or_null tr s;
         (tmp, s) \<leftarrow> (if br then do {
             oleft \<leftarrow> RBE_LEFT tmp s;
             s \<leftarrow> blacken_if oleft s;
             s \<leftarrow> SET_COLOR tmp RB_RED s;
             s \<leftarrow> rbe_rotate_right tmp s;
             tmp \<leftarrow> RBE_RIGHT parent s;
             Some (tmp, s) }
           else Some (tmp, s));
         pc \<leftarrow> RBE_COLOR parent s;
         s \<leftarrow> SET_COLOR tmp pc s;
         s \<leftarrow> SET_COLOR parent RB_BLACK s;
         r \<leftarrow> RBE_RIGHT tmp s;
         s \<leftarrow> blacken_if r s;
         s \<leftarrow> rbe_rotate_left parent s;
         Some (True, parent, rbt_root s, s) } }
     else do {
       tmp \<leftarrow> RBE_LEFT parent s;
       c \<leftarrow> RBE_COLOR tmp s;
       (tmp, s) \<leftarrow> (if c = RB_RED then do {
           s \<leftarrow> rbe_set_blackred tmp parent s;
           s \<leftarrow> rbe_rotate_right parent s;
           tmp \<leftarrow> RBE_LEFT parent s;
           Some (tmp, s) }
         else Some (tmp, s));
       tl \<leftarrow> RBE_LEFT tmp s;
       bl \<leftarrow> black_or_null tl s;
       tr \<leftarrow> RBE_RIGHT tmp s;
       br \<leftarrow> (if bl then black_or_null tr s else Some False);
       if bl \<and> br then do {
         s \<leftarrow> SET_COLOR tmp RB_RED s;
         gp \<leftarrow> RBE_PARENT parent s;
         Some (False, gp, parent, s) }
       else do {
         bl \<leftarrow> black_or_null tl s;
         (tmp, s) \<leftarrow> (if bl then do {
             oright \<leftarrow> RBE_RIGHT tmp s;
             s \<leftarrow> blacken_if oright s;
             s \<leftarrow> SET_COLOR tmp RB_RED s;
             s \<leftarrow> rbe_rotate_left tmp s;
             tmp \<leftarrow> RBE_LEFT parent s;
             Some (tmp, s) }
           else Some (tmp, s));
         pc \<leftarrow> RBE_COLOR parent s;
         s \<leftarrow> SET_COLOR tmp pc s;
         s \<leftarrow> SET_COLOR parent RB_BLACK s;
         l \<leftarrow> RBE_LEFT tmp s;
         s \<leftarrow> blacken_if l s;
         s \<leftarrow> rbe_rotate_right parent s;
         Some (True, parent, rbt_root s, s) } } }"

partial_function (option) remove_color_loop ::
    "rb_ptr option \<Rightarrow> rb_ptr option \<Rightarrow> rbt_tree \<Rightarrow> (rb_ptr option \<times> rbt_tree) option" where
  "remove_color_loop parent rbe s = do {
     b \<leftarrow> black_or_null rbe s;
     if b \<and> rbe \<noteq> rbt_root s \<and> parent \<noteq> None then do {
       (stop, parent, rbe, s) \<leftarrow> remove_color_round parent rbe s;
       if stop then Some (rbe, s) else remove_color_loop parent rbe s }
     else Some (rbe, s) }"

definition rbe_remove_color :: "rb_ptr option \<Rightarrow> rb_ptr option \<Rightarrow> rbt_tree \<Rightarrow> rbt_tree option" where
  "rbe_remove_color parent rbe s = do {
     (rbe, s) \<leftarrow> remove_color_loop parent rbe s;
     blacken_if rbe s }"

text \<open>The leftmost entry below an entry, and the rightmost.\<close>

partial_function (option) leftmost :: "rb_ptr option \<Rightarrow> rbt_tree \<Rightarrow> rb_ptr option option" where
  "leftmost rbe s = do {
     tmp \<leftarrow> RBE_LEFT rbe s;
     if tmp \<noteq> None then leftmost tmp s else Some rbe }"

partial_function (option) rightmost :: "rb_ptr option \<Rightarrow> rbt_tree \<Rightarrow> rb_ptr option option" where
  "rightmost rbe s = do {
     tmp \<leftarrow> RBE_RIGHT rbe s;
     if tmp \<noteq> None then rightmost tmp s else Some rbe }"

text \<open>An entry with at most one child, \<open>child\<close>, is taken out of the tree.\<close>

definition unlink_entry :: "rb_ptr option \<Rightarrow> rb_ptr option \<Rightarrow> rbt_tree \<Rightarrow> (rb_ptr option \<times> u32 \<times> rbt_tree) option" where
  "unlink_entry rbe child s = do {
     parent \<leftarrow> RBE_PARENT rbe s;
     color \<leftarrow> RBE_COLOR rbe s;
     s \<leftarrow> (if child \<noteq> None then SET_PARENT child parent s else Some s);
     s \<leftarrow> replace_child parent rbe child s;
     Some (parent, color, s) }"

text \<open>The smallest entry to the right, already taken out, takes the place of \<open>old\<close>.\<close>

definition replace_entry :: "rb_ptr option \<Rightarrow> rb_ptr option \<Rightarrow> rbt_tree \<Rightarrow> rbt_tree option" where
  "replace_entry old rbe s = do {
     e \<leftarrow> rbe_get (\<lambda>e. e) old s;
     s \<leftarrow> rbe_upd (\<lambda>_. e) rbe s;
     tmp \<leftarrow> RBE_PARENT old s;
     s \<leftarrow> replace_child tmp old rbe s;
     l \<leftarrow> RBE_LEFT old s;
     s \<leftarrow> SET_PARENT l rbe s;
     r \<leftarrow> RBE_RIGHT old s;
     if r \<noteq> None then SET_PARENT r rbe s else Some s }"

definition rbe_remove :: "rb_ptr option \<Rightarrow> rbt_tree \<Rightarrow> (rb_ptr option \<times> rbt_tree) option" where
  "rbe_remove old s = do {
     l \<leftarrow> RBE_LEFT old s;
     r \<leftarrow> RBE_RIGHT old s;
     (parent, child, color, s) \<leftarrow> (
       if l = None then do {
         (parent, color, s) \<leftarrow> unlink_entry old r s;
         Some (parent, r, color, s) }
       else if r = None then do {
         (parent, color, s) \<leftarrow> unlink_entry old l s;
         Some (parent, l, color, s) }
       else do {
         rbe \<leftarrow> leftmost r s;
         child \<leftarrow> RBE_RIGHT rbe s;
         (parent, color, s) \<leftarrow> unlink_entry rbe child s;
         p \<leftarrow> RBE_PARENT rbe s;
         let parent = (if p = old then rbe else parent);
         s \<leftarrow> replace_entry old rbe s;
         Some (parent, child, color, s) });
     s \<leftarrow> (if color = RB_BLACK then rbe_remove_color parent child s else Some s);
     Some (old, s) }"

definition rb_remove :: "rb_ptr \<Rightarrow> rbt_tree \<Rightarrow> (rb_ptr option \<times> rbt_tree) option" where
  "rb_remove elm s = rbe_remove (Some elm) s"

subsection \<open>Search and traversal\<close>

partial_function (option) find_loop :: "rb_compare \<Rightarrow> rb_ptr \<Rightarrow> rb_ptr option \<Rightarrow> rbt_tree \<Rightarrow> rb_ptr option option" where
  "find_loop cmp key tmp s = (case tmp of
       None \<Rightarrow> Some None
     | Some node \<Rightarrow> (let cmp_res = cmp key node in
         if cmp_res < 0 then do { l \<leftarrow> RBE_LEFT tmp s; find_loop cmp key l s }
         else if cmp_res > 0 then do { r \<leftarrow> RBE_RIGHT tmp s; find_loop cmp key r s }
         else Some (Some node)))"

definition rb_find :: "rb_compare \<Rightarrow> rb_ptr \<Rightarrow> rbt_tree \<Rightarrow> rb_ptr option option" where
  "rb_find cmp key s = find_loop cmp key (rbt_root s) s"

partial_function (option) nfind_loop :: "rb_compare \<Rightarrow> rb_ptr \<Rightarrow> rb_ptr option \<Rightarrow> rb_ptr option \<Rightarrow> rbt_tree \<Rightarrow> rb_ptr option option" where
  "nfind_loop cmp key tmp res s = (case tmp of
       None \<Rightarrow> Some res
     | Some node \<Rightarrow> (let cmp_res = cmp key node in
         if cmp_res < 0 then do { l \<leftarrow> RBE_LEFT tmp s; nfind_loop cmp key l (Some node) s }
         else if cmp_res > 0 then do { r \<leftarrow> RBE_RIGHT tmp s; nfind_loop cmp key r res s }
         else Some (Some node)))"

definition rb_nfind :: "rb_compare \<Rightarrow> rb_ptr \<Rightarrow> rbt_tree \<Rightarrow> rb_ptr option option" where
  "rb_nfind cmp key s = nfind_loop cmp key (rbt_root s) None s"

text \<open>Up while the entry is the right child, or the left child, of its parent; then once more.\<close>

partial_function (option) climb_right :: "rb_ptr option \<Rightarrow> rbt_tree \<Rightarrow> rb_ptr option option" where
  "climb_right rbe s = do {
     parent \<leftarrow> RBE_PARENT rbe s;
     if parent = None then Some None
     else do {
       r \<leftarrow> RBE_RIGHT parent s;
       if rbe = r then climb_right parent s else Some parent } }"

partial_function (option) climb_left :: "rb_ptr option \<Rightarrow> rbt_tree \<Rightarrow> rb_ptr option option" where
  "climb_left rbe s = do {
     parent \<leftarrow> RBE_PARENT rbe s;
     if parent = None then Some None
     else do {
       l \<leftarrow> RBE_LEFT parent s;
       if rbe = l then climb_left parent s else Some parent } }"

definition rb_next :: "rb_ptr \<Rightarrow> rbt_tree \<Rightarrow> rb_ptr option option" where
  "rb_next elm s = do {
     r \<leftarrow> RBE_RIGHT (Some elm) s;
     if r \<noteq> None then leftmost r s
     else do {
       parent \<leftarrow> RBE_PARENT (Some elm) s;
       l \<leftarrow> (if parent \<noteq> None then RBE_LEFT parent s else Some None);
       if parent \<noteq> None \<and> Some elm = l then Some parent
       else climb_right (Some elm) s } }"

definition rb_prev :: "rb_ptr \<Rightarrow> rbt_tree \<Rightarrow> rb_ptr option option" where
  "rb_prev elm s = do {
     l \<leftarrow> RBE_LEFT (Some elm) s;
     if l \<noteq> None then rightmost l s
     else do {
       parent \<leftarrow> RBE_PARENT (Some elm) s;
       r \<leftarrow> (if parent \<noteq> None then RBE_RIGHT parent s else Some None);
       if parent \<noteq> None \<and> Some elm = r then Some parent
       else climb_left (Some elm) s } }"

definition rb_root :: "rbt_tree \<Rightarrow> rb_ptr option" where
  "rb_root s = rbt_root s"

partial_function (option) min_loop :: "rb_ptr option \<Rightarrow> rb_ptr option \<Rightarrow> rbt_tree \<Rightarrow> rb_ptr option option" where
  "min_loop rbe parent s = (if rbe = None then Some parent else do { l \<leftarrow> RBE_LEFT rbe s; min_loop l rbe s })"

definition rb_min :: "rbt_tree \<Rightarrow> rb_ptr option option" where
  "rb_min s = min_loop (rbt_root s) None s"

partial_function (option) max_loop :: "rb_ptr option \<Rightarrow> rb_ptr option \<Rightarrow> rbt_tree \<Rightarrow> rb_ptr option option" where
  "max_loop rbe parent s = (if rbe = None then Some parent else do { r \<leftarrow> RBE_RIGHT rbe s; max_loop r rbe s })"

definition rb_max :: "rbt_tree \<Rightarrow> rb_ptr option option" where
  "rb_max s = max_loop (rbt_root s) None s"

definition rb_left :: "rb_ptr \<Rightarrow> rbt_tree \<Rightarrow> rb_ptr option option" where
  "rb_left node = RBE_LEFT (Some node)"

definition rb_right :: "rb_ptr \<Rightarrow> rbt_tree \<Rightarrow> rb_ptr option option" where
  "rb_right node = RBE_RIGHT (Some node)"

definition rb_parent :: "rb_ptr \<Rightarrow> rbt_tree \<Rightarrow> rb_ptr option option" where
  "rb_parent node = RBE_PARENT (Some node)"

definition rb_set_left :: "rb_ptr \<Rightarrow> rb_ptr option \<Rightarrow> rbt_tree \<Rightarrow> rbt_tree option" where
  "rb_set_left node left = SET_LEFT (Some node) left"

definition rb_set_right :: "rb_ptr \<Rightarrow> rb_ptr option \<Rightarrow> rbt_tree \<Rightarrow> rbt_tree option" where
  "rb_set_right node right = SET_RIGHT (Some node) right"

definition rb_set_parent :: "rb_ptr \<Rightarrow> rb_ptr option \<Rightarrow> rbt_tree \<Rightarrow> rbt_tree option" where
  "rb_set_parent node parent = SET_PARENT (Some node) parent"

definition ptr_of_long :: "nat \<Rightarrow> rb_ptr option" where
  "ptr_of_long n = (if n = 0 then None else Some n)"

definition rb_poison :: "rb_ptr \<Rightarrow> nat \<Rightarrow> rbt_tree \<Rightarrow> rbt_tree option" where
  "rb_poison node poison s = do {
     s \<leftarrow> SET_RIGHT (Some node) (ptr_of_long poison) s;
     s \<leftarrow> SET_LEFT (Some node) (ptr_of_long poison) s;
     SET_PARENT (Some node) (ptr_of_long poison) s }"

definition rb_check :: "rb_ptr \<Rightarrow> nat \<Rightarrow> rbt_tree \<Rightarrow> bool option" where
  "rb_check node poison s = do {
     p \<leftarrow> RBE_PARENT (Some node) s;
     l \<leftarrow> RBE_LEFT (Some node) s;
     r \<leftarrow> RBE_RIGHT (Some node) s;
     Some (p = ptr_of_long poison \<and> l = ptr_of_long poison \<and> r = ptr_of_long poison) }"

definition rb_init :: "rbt_tree \<Rightarrow> rbt_tree" where
  "rb_init s = s\<lparr>rbt_root := None\<rparr>"

definition rb_empty :: "rbt_tree \<Rightarrow> bool" where
  "rb_empty s \<longleftrightarrow> rbt_root s = None"

text \<open>\<open>RB_FOREACH\<close>: the nodes in the order of the visits.\<close>

partial_function (option) foreach_from :: "rb_ptr option \<Rightarrow> rbt_tree \<Rightarrow> rb_ptr list option" where
  "foreach_from e s = (case e of None \<Rightarrow> Some [] | Some a \<Rightarrow> do {
     n \<leftarrow> rb_next a s;
     as \<leftarrow> foreach_from n s;
     Some (a # as) })"

definition RB_FOREACH :: "rbt_tree \<Rightarrow> rb_ptr list option" where
  "RB_FOREACH s = do { e \<leftarrow> rb_min s; foreach_from e s }"

end
