(* ===== verification/Rb_Heap.thy ===== *)
theory Rb_Heap
  imports Openbsd_Tree
begin

text \<open>
  Which heaps represent which trees. A tree is seen from one of its subtrees: the frames from
  there up to the root say on which side the subtree hangs and what the other side is. Rotations
  and changes of colour are then local. The code for the left and for the right side is the
  same up to the exchange of the sides, so the proofs speak of a side.
\<close>

subsection \<open>Trees and frames\<close>

datatype tr = E | T bool tr rb_ptr tr

datatype side = Lft | Rgt

fun opp :: "side \<Rightarrow> side" where
  "opp Lft = Rgt"
| "opp Rgt = Lft"

text \<open>The node whose child on the given side is the first subtree.\<close>

fun nd :: "side \<Rightarrow> bool \<Rightarrow> tr \<Rightarrow> rb_ptr \<Rightarrow> tr \<Rightarrow> tr" where
  "nd Lft c x a y = T c x a y"
| "nd Rgt c x a y = T c y a x"

datatype frame = F side bool rb_ptr tr

fun top_of :: "tr \<Rightarrow> rb_ptr option" where
  "top_of E = None"
| "top_of (T c l a r) = Some a"

fun parent_of :: "frame list \<Rightarrow> rb_ptr option" where
  "parent_of [] = None"
| "parent_of (F d c a u # fs) = Some a"

fun plug :: "tr \<Rightarrow> frame list \<Rightarrow> tr" where
  "plug t [] = t"
| "plug t (F d c a u # fs) = plug (nd d c t a u) fs"

fun nodes :: "tr \<Rightarrow> rb_ptr list" where
  "nodes E = []"
| "nodes (T c l a r) = nodes l @ a # nodes r"

fun fnodes :: "frame list \<Rightarrow> rb_ptr list" where
  "fnodes [] = []"
| "fnodes (F d c a u # fs) = a # nodes u @ fnodes fs"

text \<open>The nodes before and after the place the frames lead to.\<close>

fun before :: "frame list \<Rightarrow> rb_ptr list" where
  "before [] = []"
| "before (F Lft c a u # fs) = before fs"
| "before (F Rgt c a u # fs) = before fs @ nodes u @ [a]"

fun behind :: "frame list \<Rightarrow> rb_ptr list" where
  "behind [] = []"
| "behind (F Lft c a u # fs) = a # nodes u @ behind fs"
| "behind (F Rgt c a u # fs) = behind fs"

lemma opp_opp [simp]: "opp (opp d) = d"
  by (cases d) simp_all

lemma nd_simps [simp]:
  "top_of (nd d c x a y) = Some a" "nd d c x a y \<noteq> E" "nd (opp d) c x a y = nd d c y a x"
  "set (nodes (nd d c x a y)) = insert a (set (nodes x) \<union> set (nodes y))"
  "nd d c x a y = nd d c' x' a' y' \<longleftrightarrow> c = c' \<and> x = x' \<and> a = a' \<and> y = y'"
  by (cases d; auto)+

lemma tr_side_cases:
  obtains "t = E" | c x a y where "t = nd d c x a y"
proof (cases t)
  case (T c l a r)
  then show ?thesis by (cases d) (auto intro: that(2) [of c l a r] that(2) [of c r a l])
qed (simp add: that)

lemma nodes_plug: "nodes (plug t fs) = before fs @ nodes t @ behind fs"
proof (induction t fs rule: plug.induct)
  case (2 t d c a u fs)
  then show ?case by (cases d) simp_all
qed simp

lemma top_of_None [simp]: "top_of t = None \<longleftrightarrow> t = E" "None = top_of t \<longleftrightarrow> t = E"
  by (cases t; simp)+

lemma parent_of_None [simp]: "parent_of fs = None \<longleftrightarrow> fs = []"
  by (cases fs rule: parent_of.cases) simp_all

subsection \<open>Representation\<close>

definition color_of :: "bool \<Rightarrow> u32" where
  "color_of red = (if red then RB_RED else RB_BLACK)"

definition ent :: "side \<Rightarrow> bool \<Rightarrow> rb_ptr option \<Rightarrow> rb_ptr option \<Rightarrow> rb_ptr option \<Rightarrow> rb_entry" where
  "ent d c par x y = \<lparr>rbt_parent = par, rbt_left = (if d = Lft then x else y), rbt_right = (if d = Lft then y else x),
     rbt_color = color_of c\<rparr>"

fun rep :: "(rb_ptr \<rightharpoonup> rb_entry) \<Rightarrow> rb_ptr option \<Rightarrow> tr \<Rightarrow> bool" where
  "rep h par E \<longleftrightarrow> True"
| "rep h par (T c l a r) \<longleftrightarrow> h a = Some (ent Lft c par (top_of l) (top_of r)) \<and> rep h (Some a) l \<and> rep h (Some a) r"

fun reps :: "(rb_ptr \<rightharpoonup> rb_entry) \<Rightarrow> rb_ptr option \<Rightarrow> frame list \<Rightarrow> bool" where
  "reps h hole [] \<longleftrightarrow> True"
| "reps h hole (F d c a u # fs) \<longleftrightarrow> h a = Some (ent d c (parent_of fs) hole (top_of u)) \<and> rep h (Some a) u \<and> reps h (Some a) fs"

fun root_of :: "rb_ptr option \<Rightarrow> frame list \<Rightarrow> rb_ptr option" where
  "root_of hole [] = hole"
| "root_of hole (F d c a u # fs) = root_of (Some a) fs"

definition at :: "rbt_tree \<Rightarrow> tr \<Rightarrow> frame list \<Rightarrow> bool" where
  "at s t fs \<longleftrightarrow> rep (rbt_heap s) (parent_of fs) t \<and> reps (rbt_heap s) (top_of t) fs \<and> rbt_root s = root_of (top_of t) fs
     \<and> distinct (nodes t @ fnodes fs)"

lemma ent_opp: "ent (opp d) c par x y = ent d c par y x"
  by (cases d) (simp_all add: ent_def)

lemma rep_nd: "rep h par (nd d c x a y) \<longleftrightarrow> h a = Some (ent d c par (top_of x) (top_of y)) \<and> rep h (Some a) x \<and> rep h (Some a) y"
  by (cases d) (auto simp: ent_def)

lemma distinct_nd [simp]:
  "distinct (nodes (nd d c x a y)) \<longleftrightarrow> distinct (nodes x) \<and> distinct (nodes y) \<and> a \<notin> set (nodes x) \<and> a \<notin> set (nodes y)
     \<and> set (nodes x) \<inter> set (nodes y) = {}"
  by (cases d) auto

lemma at_move: "at s t (F d c a u # fs) \<longleftrightarrow> at s (nd d c t a u) fs"
  by (auto simp: at_def rep_nd)

lemma at_plug: "at s t fs \<longleftrightarrow> at s (plug t fs) []"
  by (induction t fs rule: plug.induct) (simp_all add: at_move)

lemma rep_outside [simp]: "a \<notin> set (nodes t) \<Longrightarrow> rep (h(a := v)) par t = rep h par t"
  by (induction t arbitrary: par) auto

lemma reps_outside [simp]: "a \<notin> set (fnodes fs) \<Longrightarrow> reps (h(a := v)) hole fs = reps h hole fs"
  by (induction fs arbitrary: hole rule: fnodes.induct) auto

subsection \<open>Access by side\<close>

fun kid :: "side \<Rightarrow> rb_entry \<Rightarrow> rb_ptr option" where
  "kid Lft = rbt_left"
| "kid Rgt = rbt_right"

fun kid_update :: "side \<Rightarrow> rb_ptr option \<Rightarrow> rb_entry \<Rightarrow> rb_entry" where
  "kid_update Lft v = rbt_left_update (\<lambda>_. v)"
| "kid_update Rgt v = rbt_right_update (\<lambda>_. v)"

lemma ent_simps [simp]:
  "kid d (ent d c par x y) = x" "kid (opp d) (ent d c par x y) = y"
  "rbt_parent (ent d c par x y) = par" "rbt_color (ent d c par x y) = color_of c"
  "kid_update d v (ent d c par x y) = ent d c par v y" "kid_update (opp d) v (ent d c par x y) = ent d c par x v"
  "rbt_parent_update (\<lambda>_. v) (ent d c par x y) = ent d c v x y"
  "rbt_color_update (\<lambda>_. color_of c') (ent d c par x y) = ent d c' par x y"
  by (cases d; simp add: ent_def)+

lemma color_of_simps [simp]: "color_of c = RB_RED \<longleftrightarrow> c" "color_of c = RB_BLACK \<longleftrightarrow> \<not> c" "RB_RED = color_of c \<longleftrightarrow> c"
  by (simp_all add: color_of_def)

lemma color_of_consts: "RB_RED = color_of True" "RB_BLACK = color_of False"
  by (simp_all add: color_of_def)

lemma rbe_get_Some [simp]: "rbe_get f (Some a) s = map_option f (rbt_heap s a)"
  by (cases "rbt_heap s a") (simp_all add: rbe_get_def)

lemma rbe_upd_Some [simp]:
  "rbt_heap s a = Some e \<Longrightarrow> rbe_upd f (Some a) s = Some (s\<lparr>rbt_heap := (rbt_heap s)(a \<mapsto> f e)\<rparr>)"
  by (simp add: rbe_upd_def)

definition rotate :: "side \<Rightarrow> rb_ptr option \<Rightarrow> rbt_tree \<Rightarrow> rbt_tree option" where
  "rotate d rbe s = do {
     tmp \<leftarrow> rbe_get (kid (opp d)) rbe s;
     l \<leftarrow> rbe_get (kid d) tmp s;
     s \<leftarrow> rbe_upd (kid_update (opp d) l) rbe s;
     r \<leftarrow> rbe_get (kid (opp d)) rbe s;
     s \<leftarrow> (if r \<noteq> None then do { l \<leftarrow> rbe_get (kid d) tmp s; rbe_upd (rbt_parent_update (\<lambda>_. rbe)) l s } else Some s);
     parent \<leftarrow> rbe_get rbt_parent rbe s;
     s \<leftarrow> rbe_upd (rbt_parent_update (\<lambda>_. parent)) tmp s;
     s \<leftarrow> replace_child parent rbe tmp s;
     s \<leftarrow> rbe_upd (kid_update d rbe) tmp s;
     rbe_upd (rbt_parent_update (\<lambda>_. tmp)) rbe s }"

lemma rotate_sides: "rbe_rotate_left = rotate Lft" "rbe_rotate_right = rotate Rgt"
  unfolding fun_eq_iff rotate_def rbe_rotate_left_def rbe_rotate_right_def opp.simps kid.simps kid_update.simps by blast+

lemma at_root: "at s t fs \<Longrightarrow> rbt_root s = root_of (top_of t) fs"
  by (simp add: at_def)

text \<open>A place in a tree gets another subtree: what the parent must be told.\<close>

lemma replace_child_at:
  assumes "reps (rbt_heap s) (Some a) fs" "a \<notin> set (fnodes fs)" "distinct (fnodes fs)" "rbt_root s = root_of (Some a) fs"
  shows "\<exists>s'. replace_child (parent_of fs) (Some a) new s = Some s' \<and> reps (rbt_heap s') new fs \<and> rbt_root s' = root_of new fs
    \<and> (\<forall>b. b \<notin> set (fnodes fs) \<longrightarrow> rbt_heap s' b = rbt_heap s b)
    \<and> (\<forall>t par. set (nodes t) \<inter> set (fnodes fs) = {} \<longrightarrow> rep (rbt_heap s') par t = rep (rbt_heap s) par t)"
proof (cases fs)
  case Nil
  then show ?thesis using assms by (simp add: replace_child_def)
next
  case (Cons f gs)
  obtain d c b u where f: "f = F d c b u" by (cases f)
  have b: "rbt_heap s b = Some (ent d c (parent_of gs) (Some a) (top_of u))" "rep (rbt_heap s) (Some b) u" "reps (rbt_heap s) (Some b) gs"
    using assms(1) Cons f by simp_all
  let ?s = "s\<lparr>rbt_heap := (rbt_heap s)(b \<mapsto> ent d c (parent_of gs) new (top_of u))\<rparr>"
  have "top_of u \<noteq> Some a" using assms(2) Cons f by (cases u) auto
  then have "replace_child (parent_of fs) (Some a) new s = Some ?s"
    using b(1) Cons f by (cases d) (auto simp: replace_child_def ent_def)
  moreover have "rep (rbt_heap ?s) par t = rep (rbt_heap s) par t" if "set (nodes t) \<inter> set (fnodes fs) = {}" for t par
    using that Cons f by auto
  ultimately show ?thesis using assms Cons f b by auto
qed

lemma rep_cong: "(\<And>b. b \<in> set (nodes t) \<Longrightarrow> h b = h' b) \<Longrightarrow> rep h par t = rep h' par t"
  by (induction t arbitrary: par) auto

lemma reps_cong: "(\<And>b. b \<in> set (fnodes fs) \<Longrightarrow> h b = h' b) \<Longrightarrow> reps h hole fs = reps h' hole fs"
  by (induction fs arbitrary: hole rule: fnodes.induct) (auto cong: rep_cong)

text \<open>The other child of a node that changes places gets a new parent.\<close>

lemma reparent:
  assumes "rep (rbt_heap s) par y" "distinct (nodes y)" "y \<noteq> E"
  shows "\<exists>s'. rbe_upd (rbt_parent_update (\<lambda>_. p)) (top_of y) s = Some s' \<and> rep (rbt_heap s') p y \<and> rbt_root s' = rbt_root s
    \<and> (\<forall>b. b \<notin> set (nodes y) \<longrightarrow> rbt_heap s' b = rbt_heap s b)"
  using assms by (cases y) auto

lemma reparent_if:
  assumes "rep (rbt_heap s) par y" "distinct (nodes y)"
  shows "\<exists>s'. (if top_of y \<noteq> None then rbe_upd (rbt_parent_update (\<lambda>_. p)) (top_of y) s else Some s) = Some s' \<and> rep (rbt_heap s') p y
    \<and> rbt_root s' = rbt_root s \<and> (\<forall>b. b \<notin> set (nodes y) \<longrightarrow> rbt_heap s' b = rbt_heap s b)"
proof (cases "y = E")
  case False
  then show ?thesis using reparent [OF assms False, of p] by simp
qed simp

lemma rotate_at:
  assumes "at s (nd d c x a (nd d c2 y b z)) fs"
  shows "\<exists>s'. rotate d (Some a) s = Some s' \<and> at s' (nd d c2 (nd d c x a y) b z) fs"
proof -
  let ?par = "parent_of fs"
  have h: "rbt_heap s a = Some (ent d c ?par (top_of x) (Some b))" "rbt_heap s b = Some (ent d c2 (Some a) (top_of y) (top_of z))"
    and r: "rep (rbt_heap s) (Some a) x" "rep (rbt_heap s) (Some b) y" "rep (rbt_heap s) (Some b) z" "reps (rbt_heap s) (Some a) fs"
      "rbt_root s = root_of (Some a) fs"
    and dx: "distinct (nodes x @ nodes y @ nodes z @ [a, b] @ fnodes fs)"
    using assms by (auto simp: at_def rep_nd)
  define s1 where "s1 = s\<lparr>rbt_heap := (rbt_heap s)(a \<mapsto> ent d c ?par (top_of x) (top_of y))\<rparr>"
  have "rep (rbt_heap s1) (Some b) y" using r(2) dx by (simp add: s1_def)
  then obtain s2 where s2: "(if top_of y \<noteq> None then rbe_upd (rbt_parent_update (\<lambda>_. Some a)) (top_of y) s1 else Some s1) = Some s2"
      "rep (rbt_heap s2) (Some a) y" "rbt_root s2 = rbt_root s1" "\<And>b. b \<notin> set (nodes y) \<Longrightarrow> rbt_heap s2 b = rbt_heap s1 b"
    using reparent_if [of s1 "Some b" y "Some a"] dx by auto
  define s3 where "s3 = s2\<lparr>rbt_heap := (rbt_heap s2)(b \<mapsto> ent d c2 ?par (top_of y) (top_of z))\<rparr>"
  have o3: "rbt_heap s3 e = rbt_heap s e" if "e \<notin> set (nodes y)" "e \<noteq> a" "e \<noteq> b" for e
    using that s2(4) [of e] by (simp add: s3_def s1_def)
  have "reps (rbt_heap s3) (Some a) fs = reps (rbt_heap s) (Some a) fs" by (rule reps_cong, rule o3) (use dx in auto)
  then obtain s4 where s4: "replace_child ?par (Some a) (Some b) s3 = Some s4" "reps (rbt_heap s4) (Some b) fs" "rbt_root s4 = root_of (Some b) fs"
      "\<And>e. e \<notin> set (fnodes fs) \<Longrightarrow> rbt_heap s4 e = rbt_heap s3 e"
    using replace_child_at [of s3 a fs "Some b"] r(4,5) dx s2(3) by (auto simp: s3_def s1_def)
  have o4: "rbt_heap s4 e = rbt_heap s e" if "e \<in> set (nodes x) \<union> set (nodes z)" for e
  proof -
    have "e \<notin> set (fnodes fs)" "e \<notin> set (nodes y)" "e \<noteq> a" "e \<noteq> b" using that dx by auto
    then show ?thesis using s4(4) o3 by simp
  qed
  have a4: "rbt_heap s4 a = Some (ent d c ?par (top_of x) (top_of y))" "rbt_heap s4 b = Some (ent d c2 ?par (top_of y) (top_of z))"
    using dx s4(4) s2(4) by (auto simp: s3_def s1_def)
  define s5 where "s5 = s4\<lparr>rbt_heap := (rbt_heap s4)(b \<mapsto> ent d c2 ?par (Some a) (top_of z), a \<mapsto> ent d c (Some b) (top_of x) (top_of y))\<rparr>"
  have "rep (rbt_heap s4) (Some a) x = rep (rbt_heap s) (Some a) x" "rep (rbt_heap s4) (Some b) z = rep (rbt_heap s) (Some b) z"
    by (rule rep_cong, rule o4, simp)+
  moreover have "rep (rbt_heap s4) (Some a) y = rep (rbt_heap s2) (Some a) y"
  proof (rule rep_cong)
    fix e assume "e \<in> set (nodes y)"
    then have "e \<notin> set (fnodes fs)" "e \<noteq> b" using dx by auto
    then show "rbt_heap s4 e = rbt_heap s2 e" using s4(4) by (simp add: s3_def)
  qed
  ultimately have "at s5 (nd d c2 (nd d c x a y) b z) fs"
    using r s2(2) s4(2,3) dx by (auto simp: at_def rep_nd s5_def)
  moreover have "rotate d (Some a) s = Some s5"
  proof -
    have "rbt_heap s1 b = rbt_heap s b" "rbt_heap s1 a = Some (ent d c ?par (top_of x) (top_of y))" "rbe_upd (kid_update (opp d) (top_of y)) (Some a) s = Some s1"
      using dx h by (simp_all add: s1_def)
    moreover have "rbt_heap s2 a = Some (ent d c ?par (top_of x) (top_of y))" "rbt_heap s2 b = rbt_heap s b"
      "rbe_upd (rbt_parent_update (\<lambda>_. ?par)) (Some b) s2 = Some s3"
      using dx h s2(4) by (auto simp: s3_def s1_def)
    moreover have "rbe_upd (kid_update d (Some a)) (Some b) s4 \<bind> rbe_upd (rbt_parent_update (\<lambda>_. Some b)) (Some a) = Some s5"
      using a4 dx by (simp add: s5_def fun_upd_twist)
    ultimately show ?thesis unfolding rotate_def using h s2(1) s4(1) by (cases y) simp_all
  qed
  ultimately show ?thesis by blast
qed

subsection \<open>Colours\<close>

fun red :: "tr \<Rightarrow> bool" where
  "red E \<longleftrightarrow> False"
| "red (T c l a r) \<longleftrightarrow> c"

fun paint :: "bool \<Rightarrow> tr \<Rightarrow> tr" where
  "paint c E = E"
| "paint c (T c' l a r) = T c l a r"

lemma paint_simps [simp]:
  "red (nd d c x a y) = c" "paint c' (nd d c x a y) = nd d c' x a y" "top_of (paint c t) = top_of t" "nodes (paint c t) = nodes t"
  "paint c t = E \<longleftrightarrow> t = E" "red (paint c t) \<longleftrightarrow> c \<and> t \<noteq> E" "paint c (paint c' t) = paint c t"
  by (cases d; cases t; simp)+

lemma at_heap: "at s (nd d c x a y) fs \<Longrightarrow> rbt_heap s a = Some (ent d c (parent_of fs) (top_of x) (top_of y))"
  by (simp add: at_def rep_nd)

lemma at_swap: "at s t (F d c a u # fs) \<longleftrightarrow> at s u (F (opp d) c a t # fs)"
  by (simp add: at_move)

lemma at_fheap: "at s t (F d c a u # fs) \<Longrightarrow> rbt_heap s a = Some (ent d c (parent_of fs) (top_of t) (top_of u))"
  by (simp add: at_move at_heap)

lemma at_color: "at s t fs \<Longrightarrow> t \<noteq> E \<Longrightarrow> rbe_get rbt_color (top_of t) s = Some (color_of (red t))"
  by (cases t) (simp_all add: at_def)

lemma at_parent: "at s t fs \<Longrightarrow> t \<noteq> E \<Longrightarrow> rbe_get rbt_parent (top_of t) s = Some (parent_of fs)"
  by (cases t) (simp_all add: at_def)

lemma at_black_or_null: "at s t fs \<Longrightarrow> black_or_null (top_of t) s = Some (\<not> red t)"
  by (cases t) (auto simp: black_or_null_def at_def)

lemma at_paint:
  assumes "at s t fs" "t \<noteq> E"
  shows "\<exists>s'. rbe_upd (rbt_color_update (\<lambda>_. color_of c)) (top_of t) s = Some s' \<and> at s' (paint c t) fs"
  using assms by (cases t) (auto simp: at_def)

lemma at_blacken: "at s t fs \<Longrightarrow> \<exists>s'. blacken_if (top_of t) s = Some s' \<and> at s' (paint False t) fs"
  using at_paint [of s t fs False] by (cases "t = E") (auto simp: blacken_if_def color_of_def)

text \<open>The frame next to the subtree changes its colour.\<close>

lemma at_paint_frame:
  assumes "at s t (F d c a u # fs)"
  shows "\<exists>s'. rbe_upd (rbt_color_update (\<lambda>_. color_of c')) (Some a) s = Some s' \<and> at s' t (F d c' a u # fs)"
  using at_paint [of s "nd d c t a u" fs c'] assms by (simp add: at_move)

subsection \<open>One round of the repair after an insertion\<close>

definition ins_round :: "side \<Rightarrow> rb_ptr option \<Rightarrow> rb_ptr option \<Rightarrow> rb_ptr option \<Rightarrow> rbt_tree \<Rightarrow> (rb_ptr option \<times> rbt_tree) option" where
  "ins_round d rbe parent gparent s = do {
     tmp \<leftarrow> rbe_get (kid (opp d)) gparent s;
     c \<leftarrow> (if tmp \<noteq> None then RBE_COLOR tmp s else Some RB_BLACK);
     if tmp \<noteq> None \<and> c = RB_RED then do {
       s \<leftarrow> SET_COLOR tmp RB_BLACK s;
       s \<leftarrow> rbe_set_blackred parent gparent s;
       Some (gparent, s) }
     else do {
       r \<leftarrow> rbe_get (kid (opp d)) parent s;
       (parent, rbe, s) \<leftarrow> (if r = rbe then do { s \<leftarrow> rotate d parent s; Some (rbe, parent, s) } else Some (parent, rbe, s));
       s \<leftarrow> rbe_set_blackred parent gparent s;
       s \<leftarrow> rotate (opp d) gparent s;
       Some (rbe, s) } }"

lemma insert_round_sides:
  "insert_color_round rbe parent s = do {
     gparent \<leftarrow> RBE_PARENT parent s;
     l \<leftarrow> RBE_LEFT gparent s;
     if parent = l then ins_round Lft rbe parent gparent s else ins_round Rgt rbe parent gparent s }"
  unfolding insert_color_round_def ins_round_def opp.simps kid.simps rotate_sides by (rule refl)

lemma set_blackred_at:
  assumes "at s t (F d c p v # F d2 c2 g u # fs)"
  shows "\<exists>s'. rbe_set_blackred (Some p) (Some g) s = Some s' \<and> at s' t (F d False p v # F d2 True g u # fs)"
proof -
  obtain s1 where s1: "rbe_upd (rbt_color_update (\<lambda>_. color_of False)) (Some p) s = Some s1" "at s1 t (F d False p v # F d2 c2 g u # fs)"
    using at_paint_frame [OF assms] by blast
  then obtain s2 where "rbe_upd (rbt_color_update (\<lambda>_. color_of True)) (Some g) s1 = Some s2" "at s2 t (F d False p v # F d2 True g u # fs)"
    using at_paint_frame [of s1 "nd d False t p v" d2 c2 g u fs True] by (auto simp: at_move)
  then show ?thesis using s1(1) by (simp add: rbe_set_blackred_def color_of_def)
qed

lemma ins_round_red:
  assumes "at s t (F d1 True p v # F d False g u # fs)" "red u"
  shows "\<exists>s'. ins_round d (top_of t) (Some p) (Some g) s = Some (Some g, s') \<and> at s' (nd d True (nd d1 False t p v) g (paint False u)) fs"
proof -
  have u: "at s u (F (opp d) False g (nd d1 True t p v) # fs)" "u \<noteq> E" using assms by (auto simp: at_move at_swap [of s u])
  have g: "rbt_heap s g = Some (ent d False (parent_of fs) (Some p) (top_of u))" using at_fheap [OF u(1)] by (simp add: ent_opp)
  obtain s1 where s1: "rbe_upd (rbt_color_update (\<lambda>_. color_of False)) (top_of u) s = Some s1"
      "at s1 (paint False u) (F (opp d) False g (nd d1 True t p v) # fs)" using at_paint [OF u] by blast
  then have "at s1 t (F d1 True p v # F d False g (paint False u) # fs)" by (simp add: at_move)
  then obtain s2 where "rbe_set_blackred (Some p) (Some g) s1 = Some s2" "at s2 t (F d1 False p v # F d True g (paint False u) # fs)"
    using set_blackred_at by blast
  then show ?thesis using s1(1) g at_color [OF u] u(2) assms(2) by (auto simp: ins_round_def at_move color_of_def)
qed

lemma ins_round_outer:
  assumes "at s t (F d True p v # F d False g u # fs)" "\<not> red u" "top_of t \<noteq> top_of v"
  shows "\<exists>s'. ins_round d (top_of t) (Some p) (Some g) s = Some (top_of t, s') \<and> at s' (nd d False t p (nd d True v g u)) fs"
proof -
  have u: "at s u (F (opp d) False g (nd d True t p v) # fs)" using assms(1) by (simp add: at_move)
  have g: "rbt_heap s g = Some (ent d False (parent_of fs) (Some p) (top_of u))" using at_fheap [OF u(1)] by (simp add: ent_opp)
  have p: "rbt_heap s p = Some (ent d True (Some g) (top_of t) (top_of v))" using at_fheap [OF assms(1)] by simp
  obtain s1 where s1: "rbe_set_blackred (Some p) (Some g) s = Some s1" "at s1 t (F d False p v # F d True g u # fs)"
    using set_blackred_at [OF assms(1)] by blast
  then have "at s1 (nd (opp d) True u g (nd (opp d) False v p t)) fs" by (simp add: at_move)
  then obtain s2 where "rotate (opp d) (Some g) s1 = Some s2" "at s2 (nd (opp d) False (nd (opp d) True u g v) p t) fs"
    using rotate_at by blast
  then show ?thesis using s1(1) g p assms(2,3) at_color [OF u] by (cases u) (auto simp: ins_round_def)
qed

lemma ins_round_inner:
  assumes "at s (nd d True x r y) (F (opp d) True p v # F d False g u # fs)" "\<not> red u"
  shows "\<exists>s'. ins_round d (Some r) (Some p) (Some g) s = Some (Some p, s')
    \<and> at s' (nd d False (nd d True v p x) r (nd d True y g u)) fs"
proof -
  let ?t = "nd d True x r y"
  have u: "at s u (F (opp d) False g (nd (opp d) True ?t p v) # fs)" using assms(1) by (simp add: at_move)
  have g: "rbt_heap s g = Some (ent d False (parent_of fs) (Some p) (top_of u))" using at_fheap [OF u(1)] by (simp add: ent_opp)
  have p: "rbt_heap s p = Some (ent (opp d) True (Some g) (Some r) (top_of v))" using at_fheap [OF assms(1)] by simp
  have "at s (nd d True v p ?t) (F d False g u # fs)" using assms(1) by (simp add: at_move)
  from rotate_at [OF this] obtain s0
    where s0: "rotate d (Some p) s = Some s0" "at s0 (nd d True v p x) (F d True r y # F d False g u # fs)"
    by (auto simp: at_move)
  obtain s1 where s1: "rbe_set_blackred (Some r) (Some g) s0 = Some s1" "at s1 (nd d True v p x) (F d False r y # F d True g u # fs)"
    using set_blackred_at [OF s0(2)] by blast
  then have "at s1 (nd (opp d) True u g (nd (opp d) False y r (nd d True v p x))) fs" by (simp add: at_move)
  then obtain s2 where "rotate (opp d) (Some g) s1 = Some s2" "at s2 (nd (opp d) False (nd (opp d) True u g y) r (nd d True v p x)) fs"
    using rotate_at by blast
  then show ?thesis using s0(1) s1(1) g p assms(2) at_color [OF u] by (cases u) (auto simp: ins_round_def ent_opp)
qed

end
