(* ===== verification/Rb_Insert.thy ===== *)
theory Rb_Insert
  imports Rb_Heap Iccp_Rb_Tree
begin

text \<open>
  Insertion into a red-black tree on the heap: it always returns, the order of the nodes is that
  of the insertion into the sequence, and the tree is balanced again.
\<close>

subsection \<open>Balance\<close>

fun bh :: "tr \<Rightarrow> nat" where
  "bh E = 0"
| "bh (T c l a r) = (if c then bh l else bh l + 1)"

fun invh :: "tr \<Rightarrow> bool" where
  "invh E \<longleftrightarrow> True"
| "invh (T c l a r) \<longleftrightarrow> bh l = bh r \<and> invh l \<and> invh r"

fun invc :: "tr \<Rightarrow> bool" where
  "invc E \<longleftrightarrow> True"
| "invc (T c l a r) \<longleftrightarrow> (c \<longrightarrow> \<not> red l \<and> \<not> red r) \<and> invc l \<and> invc r"

definition balanced :: "tr \<Rightarrow> bool" where
  "balanced t \<longleftrightarrow> invc t \<and> invh t \<and> \<not> red t"

text \<open>What the frames above a subtree of black height \<open>n\<close> must be like. The root is black.\<close>

fun fred :: "frame list \<Rightarrow> bool" where
  "fred [] \<longleftrightarrow> False"
| "fred (F d c a u # fs) \<longleftrightarrow> c"

fun finv :: "nat \<Rightarrow> frame list \<Rightarrow> bool" where
  "finv n [] \<longleftrightarrow> True"
| "finv n (F d c a u # fs) \<longleftrightarrow> invc u \<and> invh u \<and> bh u = n \<and> (c \<longrightarrow> \<not> red u \<and> \<not> fred fs \<and> fs \<noteq> [])
     \<and> finv (if c then n else n + 1) fs"

lemma inv_nd [simp]:
  "invc (nd d c x a y) \<longleftrightarrow> (c \<longrightarrow> \<not> red x \<and> \<not> red y) \<and> invc x \<and> invc y"
  "invh (nd d c x a y) \<longleftrightarrow> bh x = bh y \<and> invh x \<and> invh y"
  by (cases d; auto)+

lemma bh_nd: "bh x = bh y \<Longrightarrow> bh (nd d c x a y) = (if c then bh x else bh x + 1)"
  by (cases d) simp_all

lemma inv_paint [simp]: "invh (paint c t) = invh t" "invc t \<Longrightarrow> invc (paint False t)"
  by (cases t; simp)+

lemma bh_paint: "bh (paint False t) = (if red t then bh t + 1 else bh t)"
  by (cases t) simp_all

lemma balanced_plug:
  assumes "invc t" "invh t" "finv (bh t) fs" "red t \<longrightarrow> \<not> fred fs \<and> fs \<noteq> []"
  shows "balanced (plug t fs)"
  using assms
proof (induction t fs rule: plug.induct)
  case (2 t d c a u fs)
  then show ?case by (simp add: bh_nd split: if_splits)
qed (simp add: balanced_def)

lemma plug_balanced:
  assumes "balanced (plug t fs)"
  shows "invc t \<and> invh t \<and> finv (bh t) fs \<and> (red t \<longrightarrow> \<not> fred fs \<and> fs \<noteq> [])"
  using assms
proof (induction t fs rule: plug.induct)
  case (2 t d c a u fs)
  then show ?case by (auto simp: bh_nd split: if_splits)
qed (simp add: balanced_def)

text \<open>A tree that is balanced once its root is painted black.\<close>

definition balanced2 :: "tr \<Rightarrow> bool" where
  "balanced2 t \<longleftrightarrow> balanced (paint False t)"

lemma balanced_balanced2: "balanced t \<Longrightarrow> balanced2 t"
  by (simp add: balanced2_def balanced_def)

subsection \<open>The loop\<close>

lemma nodes_frames: "before (F d c a u # fs) @ nodes t @ behind (F d c a u # fs) = before fs @ nodes (nd d c t a u) @ behind fs"
  by (cases d) simp_all

lemma nodes_nd: "nodes (nd d c x a y) = (if d = Lft then nodes x @ a # nodes y else nodes y @ a # nodes x)"
  by (cases d) simp_all

lemma insert_loop_end:
  assumes "at s t (F d False a u # fs)" "t \<noteq> E"
  shows "insert_color_loop (top_of t) s = Some s"
  using at_parent [OF assms] at_fheap [OF assms(1)] by (subst insert_color_loop.simps) simp

lemma insert_round_at:
  assumes "at s t (F d1 c1 p v # F d c g u # fs)"
  shows "insert_color_round rbe (Some p) s = ins_round d rbe (Some p) (Some g) s"
proof -
  have g: "rbt_heap s g = Some (ent d c (parent_of fs) (Some p) (top_of u))" using at_fheap [of s "nd d1 c1 t p v" d] assms by (simp add: at_move)
  have p: "rbt_heap s p = Some (ent d1 c1 (Some g) (top_of t) (top_of v))" using at_fheap [OF assms] by simp
  have "top_of u \<noteq> Some p" using assms by (cases u) (auto simp: at_def)
  then show ?thesis unfolding insert_round_sides using g p by (cases d) (auto simp: ent_def)
qed

text \<open>What the repair of the subtree \<open>t\<close>, reached from \<open>e\<close>, must achieve.\<close>

definition repairs :: "rb_ptr option \<Rightarrow> rbt_tree \<Rightarrow> rb_ptr list \<Rightarrow> bool" where
  "repairs e s xs \<longleftrightarrow> (\<exists>s' t. insert_color_loop e s = Some s' \<and> at s' t [] \<and> t \<noteq> E \<and> nodes t = xs \<and> balanced2 t)"

text \<open>A subtree with a black root in the place of one of the same height ends the repair.\<close>

lemma repairs_done:
  assumes "at s (nd d False q m w) fs" "q \<noteq> E" "invc q" "invc w" "invh q" "invh w" "bh q = bh w" "finv (bh q + 1) fs"
  shows "repairs (top_of q) s (before fs @ nodes (nd d False q m w) @ behind fs)"
proof -
  let ?t = "nd d False q m w"
  have "balanced (plug ?t fs)" using assms by (intro balanced_plug) (auto simp: bh_nd)
  moreover have "plug ?t fs \<noteq> E" using nodes_plug [of ?t fs] by (cases "plug ?t fs") (auto simp: nodes_nd split: if_splits)
  ultimately show ?thesis
    unfolding repairs_def using insert_loop_end [of s q d m w fs] assms(1,2) at_plug [of s ?t] balanced_balanced2 nodes_plug [of ?t]
    by (simp add: at_move) blast
qed

lemma repairs_round:
  assumes at: "at s t (F d1 True p v # F d False g u # fs)" and "t \<noteq> E"
    and "ins_round d (top_of t) (Some p) (Some g) s = Some (e, s')" "repairs e s' xs"
  shows "repairs (top_of t) s xs"
proof -
  have "insert_color_loop (top_of t) s = insert_color_loop e s'"
    using at_parent [OF at assms(2)] at_fheap [OF at] insert_round_at [OF at] assms(3) by (subst insert_color_loop.simps) simp
  then show ?thesis using assms(4) by (simp add: repairs_def)
qed

text \<open>The red parent of a red node: one round moves the conflict two levels up or ends it.\<close>

lemma repairs_step:
  assumes at: "at s t (F d1 True p v # F d False g u # fs)" and t: "red t" "invc t" "invh t"
    and inv: "finv (bh t) (F d1 True p v # F d False g u # fs)"
    and rec: "\<And>s' q. at s' q fs \<Longrightarrow> red q \<Longrightarrow> invc q \<Longrightarrow> invh q \<Longrightarrow> finv (bh q) fs \<Longrightarrow> repairs (top_of q) s' (before fs @ nodes q @ behind fs)"
  shows "repairs (top_of t) s (before fs @ nodes (nd d False (nd d1 True t p v) g u) @ behind fs)"
proof -
  have tE: "t \<noteq> E" using t(1) by auto
  have inv: "invc u" "invh u" "invc v" "invh v" "bh u = bh t" "bh v = bh t" "\<not> red v" "finv (bh t + 1) fs" using inv by auto
  consider "red u" | "\<not> red u" "d1 = d" | "\<not> red u" "d1 = opp d" by (cases d; cases d1) auto
  then show ?thesis
  proof cases
    case 1
    let ?t = "nd d True (nd d1 False t p v) g (paint False u)"
    obtain s' where s': "ins_round d (top_of t) (Some p) (Some g) s = Some (Some g, s')" "at s' ?t fs" using ins_round_red [OF at 1] by blast
    have "repairs (top_of ?t) s' (before fs @ nodes ?t @ behind fs)" by (rule rec [OF s'(2)]) (use t inv 1 in \<open>simp_all add: bh_nd bh_paint\<close>)
    then show ?thesis using repairs_round [OF at tE s'(1)] by (cases d; cases d1) simp_all
  next
    case 2
    have "top_of t \<noteq> top_of v" using at tE by (cases t; cases v) (auto simp: at_def)
    then obtain s' where s': "ins_round d (top_of t) (Some p) (Some g) s = Some (top_of t, s')" "at s' (nd d False t p (nd d True v g u)) fs"
      using ins_round_outer [of s t d p v g u fs] at 2 by blast
    have "repairs (top_of t) s' (before fs @ nodes (nd d False t p (nd d True v g u)) @ behind fs)"
      by (rule repairs_done [OF s'(2) tE]) (use t inv 2 in \<open>simp_all add: bh_nd\<close>)
    then show ?thesis using repairs_round [OF at tE s'(1)] 2 by (cases d) simp_all
  next
    case 3
    obtain x r y where xy: "t = nd d True x r y" by (rule tr_side_cases [where t = t and d = d]) (use tE t(1) in auto)
    let ?t = "nd d False (nd d True v p x) r (nd d True y g u)"
    obtain s' where s': "ins_round d (top_of t) (Some p) (Some g) s = Some (Some p, s')" "at s' ?t fs"
      using ins_round_inner [of s d x r y p v g u fs] at 3 xy by auto
    have "repairs (top_of (nd d True v p x)) s' (before fs @ nodes ?t @ behind fs)"
      by (rule repairs_done [OF s'(2)]) (use t inv 3 xy in \<open>simp_all add: bh_nd\<close>)
    then show ?thesis using repairs_round [OF at tE s'(1)] 3 xy by (cases d) simp_all
  qed
qed

lemma insert_loop_ok:
  assumes "at s t fs" "red t" "invc t" "invh t" "finv (bh t) fs"
  shows "repairs (top_of t) s (before fs @ nodes t @ behind fs)"
  using assms
proof (induction "length fs" arbitrary: s t fs rule: less_induct)
  case less
  have "t \<noteq> E" using less.prems(2) by auto
  show ?case
  proof (cases fs rule: fred.cases)
    case 1
    have "insert_color_loop (top_of t) s = Some s"
      using at_parent [OF less.prems(1) \<open>t \<noteq> E\<close>] 1 by (subst insert_color_loop.simps) simp
    then show ?thesis using less.prems 1 \<open>t \<noteq> E\<close> by (auto simp: repairs_def balanced2_def balanced_def)
  next
    case (2 d1 c p v gs)
    show ?thesis
    proof (cases c)
      case False
      then show ?thesis using repairs_done [of s d1 t p v gs] less.prems 2 \<open>t \<noteq> E\<close> nodes_frames by (simp add: at_move) 
    next
      case True
      then obtain d g u hs where gs: "gs = F d False g u # hs" using less.prems(5) 2 by (cases gs rule: fred.cases) auto
      have "repairs (top_of t) s (before hs @ nodes (nd d False (nd d1 True t p v) g u) @ behind hs)"
        using less.prems 2 True gs by (intro repairs_step less.hyps) auto
      then show ?thesis unfolding 2 gs by (simp only: nodes_frames True)
    qed
  qed
qed

subsection \<open>The way down\<close>

fun side_of :: "frame list \<Rightarrow> int \<Rightarrow> bool" where
  "side_of [] n \<longleftrightarrow> True"
| "side_of (F d c a u # fs) n \<longleftrightarrow> (n < 0 \<longleftrightarrow> d = Lft)"

context node_order
begin

lemma tree_append: "tree (xs @ ys) \<longleftrightarrow> tree xs \<and> tree ys \<and> (\<forall>x \<in> set xs. \<forall>y \<in> set ys. cmp x y < 0)"
  by (auto simp: tree_def sorted_wrt_append)

lemma cmp_less_trans: "ok x \<Longrightarrow> tree (a # ys) \<Longrightarrow> cmp x a < 0 \<Longrightarrow> y \<in> set ys \<Longrightarrow> cmp x y < 0"
  using trans [of x a y] by (auto simp: tree_Cons tree_def)

lemma cmp_greater_trans:
  assumes "ok x" "tree (xs @ [a])" "cmp x a > 0" "y \<in> set xs"
  shows "cmp x y > 0"
proof -
  have "ok y" "ok a" using assms(2,4) by (auto simp: tree_def)
  moreover have "cmp y a < 0" using assms(2,4) by (auto simp: tree_append)
  moreover have "cmp a x < 0" using antisym [of x a] assms(1,3) \<open>ok a\<close> by simp
  ultimately have "cmp y x < 0" using trans [of y a x] assms(1) by blast
  then show ?thesis using antisym [of x y] assms(1) \<open>ok y\<close> by simp
qed

lemma insert_between:
  "\<forall>y \<in> set xs. cmp x y > 0 \<Longrightarrow> \<forall>y \<in> set ys. cmp x y < 0 \<Longrightarrow> RB_INSERT cmp x (xs @ ys) = xs @ x # ys"
  by (induction xs) (cases ys; auto)+

end

text \<open>Where the way down from a subtree ends: at a node with the key or at a free place for the new node.\<close>

definition descends :: "rb_compare \<Rightarrow> rb_ptr \<Rightarrow> tr \<Rightarrow> rb_ptr + rb_ptr option \<times> int \<Rightarrow> bool" where
  "descends cmp x t res \<longleftrightarrow> (case res of
       Inl y \<Rightarrow> y \<in> set (nodes t) \<and> cmp x y = 0
     | Inr (p, n) \<Rightarrow> \<exists>fs. plug E fs = t \<and> p = parent_of fs \<and> side_of fs n
         \<and> (\<forall>y \<in> set (before fs). cmp x y > 0) \<and> (\<forall>y \<in> set (behind fs). cmp x y < 0))"

lemma fnodes_set: "set (fnodes fs) \<subseteq> set (before fs) \<union> set (behind fs)"
proof (induction fs rule: fnodes.induct)
  case (2 d c a u fs)
  then show ?case by (cases d) auto
qed simp

lemma rbe_set_at:
  assumes "rbt_heap s x = Some e"
  shows "rbe_set (Some x) p s = Some (s\<lparr>rbt_heap := (rbt_heap s)(x \<mapsto> ent Lft True p None None)\<rparr>)"
  using assms by (cases e) (simp add: rbe_set_def rbe_upd_def ent_def color_of_def)

definition attach :: "rb_ptr \<Rightarrow> rb_ptr option \<Rightarrow> int \<Rightarrow> rbt_tree \<Rightarrow> rbt_tree option" where
  "attach x p n s = do { s \<leftarrow> rbe_set (Some x) p s;
     if p \<noteq> None then (if n < 0 then SET_LEFT p (Some x) s else SET_RIGHT p (Some x) s) else Some (s\<lparr>rbt_root := Some x\<rparr>) }"

lemma rb_insert_attach:
  "rb_insert cmp x s = do {
     d \<leftarrow> insert_descend cmp x (rbt_root s) None 0 s;
     case d of Inl y \<Rightarrow> Some (Some y, s)
     | Inr (p, n) \<Rightarrow> do { s \<leftarrow> attach x p n s; s \<leftarrow> rbe_insert_color (Some x) s; Some (None, s) } }"
  unfolding rb_insert_def attach_def Option.bind_assoc by (rule refl)

lemma attach_at:
  assumes "at s E fs" "x \<notin> set (fnodes fs)" "rbt_heap s x \<noteq> None" "side_of fs n"
  shows "\<exists>s'. attach x (parent_of fs) n s = Some s' \<and> at s' (T True E x E) fs"
proof -
  obtain e where e: "rbt_heap s x = Some e" using assms(3) by blast
  let ?s = "s\<lparr>rbt_heap := (rbt_heap s)(x \<mapsto> ent Lft True (parent_of fs) None None)\<rparr>"
  show ?thesis
  proof (cases fs rule: fred.cases)
    case 1
    then show ?thesis using rbe_set_at [OF e] by (simp add: attach_def at_def)
  next
    case (2 d c a u gs)
    let ?s' = "?s\<lparr>rbt_heap := (rbt_heap ?s)(a \<mapsto> ent d c (parent_of gs) (Some x) (top_of u))\<rparr>"
    have a: "rbt_heap ?s a = Some (ent d c (parent_of gs) None (top_of u))" using assms(1,2) 2 by (simp add: at_def)
    have "at ?s' (T True E x E) fs" using assms(1,2) 2 by (auto simp: at_def)
    moreover have "(if n < 0 then SET_LEFT (Some a) (Some x) ?s else SET_RIGHT (Some a) (Some x) ?s) = Some ?s'"
      using a assms(4) 2 by (cases d) (simp_all add: ent_def)
    ultimately show ?thesis unfolding attach_def rbe_set_at [OF e] using 2 by (intro exI [of _ ?s']) (simp split: if_splits)
  qed
qed

lemma insert_color_at:
  assumes "at s (T True E x E) fs" "finv 0 fs"
  shows "\<exists>s' t. rbe_insert_color (Some x) s = Some s' \<and> at s' t [] \<and> balanced t \<and> nodes t = before fs @ x # behind fs"
proof -
  have "repairs (top_of (T True E x E)) s (before fs @ nodes (T True E x E) @ behind fs)"
    by (rule insert_loop_ok [OF assms(1)]) (use assms(2) in simp_all)
  then obtain s1 t where t: "insert_color_loop (Some x) s = Some s1" "at s1 t []" "t \<noteq> E" "nodes t = before fs @ x # behind fs" "balanced2 t"
    by (auto simp: repairs_def)
  obtain s2 where "rbe_upd (rbt_color_update (\<lambda>_. color_of False)) (top_of t) s1 = Some s2" "at s2 (paint False t) []"
    using at_paint [OF t(2,3)] by blast
  then show ?thesis using t at_root [OF t(2)] by (intro exI [of _ s2] exI [of _ "paint False t"])
    (simp add: rbe_insert_color_def balanced2_def color_of_def)
qed

locale rb_order = node_order cmp ok for cmp :: rb_compare and ok
begin

lemma descend_ok:
  assumes "at s t fs" "tree (nodes t)" "ok x" "side_of fs n"
    and "\<forall>y \<in> set (before fs). cmp x y > 0" "\<forall>y \<in> set (behind fs). cmp x y < 0"
  shows "\<exists>res. insert_descend cmp x (top_of t) (parent_of fs) n s = Some res \<and> descends cmp x (plug t fs) res"
  using assms
proof (induction t arbitrary: fs n)
  case E
  then show ?case by (subst insert_descend.simps) (auto simp: descends_def)
next
  case (T c l a r)
  have a: "rbt_heap s a = Some (ent Lft c (parent_of fs) (top_of l) (top_of r))" using T.prems(1) at_heap [of s Lft] by simp
  have ord: "tree (a # nodes r)" "tree (nodes l @ [a])" "tree (nodes l)" "tree (nodes r)"
    using T.prems(2) by (auto simp: tree_append tree_Cons)
  consider "cmp x a < 0" | "cmp x a > 0" | "cmp x a = 0" by linarith
  then show ?case
  proof cases
    case 1
    have "\<exists>res. insert_descend cmp x (top_of l) (parent_of (F Lft c a r # fs)) (cmp x a) s = Some res
        \<and> descends cmp x (plug l (F Lft c a r # fs)) res"
      using T.prems ord 1 cmp_less_trans [OF T.prems(3) ord(1) 1] by (intro T.IH(1)) (auto simp: at_move)
    then show ?thesis using 1 a by (subst insert_descend.simps) (simp add: ent_def)
  next
    case 2
    have "\<exists>res. insert_descend cmp x (top_of r) (parent_of (F Rgt c a l # fs)) (cmp x a) s = Some res
        \<and> descends cmp x (plug r (F Rgt c a l # fs)) res"
      using T.prems ord 2 cmp_greater_trans [OF T.prems(3) ord(2) 2] by (intro T.IH(2)) (auto simp: at_move)
    then show ?thesis using 2 a by (subst insert_descend.simps) (simp add: ent_def)
  next
    case 3
    then show ?thesis using a by (subst insert_descend.simps) (auto simp: descends_def nodes_plug)
  qed
qed

lemma insert_present: "tree xs \<Longrightarrow> ok x \<Longrightarrow> y \<in> set xs \<Longrightarrow> cmp x y = 0 \<Longrightarrow> RB_INSERT cmp x xs = xs"
proof (induction xs)
  case (Cons z xs)
  have "cmp x z < 0 \<Longrightarrow> y \<in> set xs \<Longrightarrow> cmp x y < 0" using cmp_less_trans [OF Cons.prems(2,1)] by blast
  then show ?case using Cons by (auto simp: tree_Cons)
qed simp

lemma rb_insert_ok:
  assumes "at s t []" "balanced t" "tree (nodes t)" "ok x" "x \<notin> set (nodes t)" "rbt_heap s x \<noteq> None"
  shows "\<exists>s' t'. rb_insert cmp x s = Some (RB_FIND cmp x (nodes t), s') \<and> at s' t' [] \<and> balanced t'
    \<and> nodes t' = RB_INSERT cmp x (nodes t) \<and> (RB_FIND cmp x (nodes t) \<noteq> None \<longrightarrow> s' = s)"
proof -
  obtain res where res: "insert_descend cmp x (rbt_root s) None 0 s = Some res" "descends cmp x t res"
    using descend_ok [OF assms(1,3,4), of 0] at_root [OF assms(1)] by auto
  show ?thesis
  proof (cases res)
    case (Inl y)
    then have y: "y \<in> set (nodes t)" "cmp x y = 0" using res(2) by (auto simp: descends_def)
    then show ?thesis
      using find_unique [OF assms(3,4) y] insert_present [OF assms(3,4) y] res(1) Inl assms(1,2)
      by (auto simp: rb_insert_def)
  next
    case (Inr pn)
    then obtain fs n where fs: "plug E fs = t" "pn = (parent_of fs, n)" "side_of fs n"
      and ord: "\<forall>y \<in> set (before fs). cmp x y > 0" "\<forall>y \<in> set (behind fs). cmp x y < 0"
      using res(2) by (auto simp: descends_def)
    have n: "nodes t = before fs @ behind fs" using nodes_plug [of E fs] fs(1) by simp
    have "at s E fs" "finv 0 fs" using at_plug [of s E fs] assms(1) plug_balanced [of E fs] assms(2) fs(1) by simp_all
    moreover have "set (fnodes fs) \<subseteq> set (before fs) \<union> set (behind fs)" by (rule fnodes_set)
    ultimately obtain s1 where s1: "attach x (parent_of fs) n s = Some s1" "at s1 (T True E x E) fs"
      using attach_at [of s fs x n] assms(5,6) fs(3) n by auto
    then obtain s2 t2 where "rbe_insert_color (Some x) s1 = Some s2" "at s2 t2 []" "balanced t2" "nodes t2 = before fs @ x # behind fs"
      using insert_color_at [OF s1(2)] \<open>finv 0 fs\<close> by blast
    moreover have "RB_FIND cmp x (nodes t) = None" using ord n by (auto simp: find_None)
    ultimately show ?thesis using res(1) Inr fs(2) s1(1) insert_between [OF ord] n
      by (auto simp: rb_insert_attach)
  qed
qed

end

end
