(* ===== verification/Rb_Remove.thy ===== *)
theory Rb_Remove
  imports Rb_Insert
begin

text \<open>
  Removal from a red-black tree on the heap: it always returns, the node is gone from the order of
  the nodes and nothing else changed there, and the tree is balanced again.
\<close>

subsection \<open>One round of the repair\<close>

definition rem_sibling :: "side \<Rightarrow> rb_ptr option \<Rightarrow> rbt_tree \<Rightarrow> (rb_ptr option \<times> rbt_tree) option" where
  "rem_sibling d parent s = do {
     tmp \<leftarrow> rbe_get (kid (opp d)) parent s;
     c \<leftarrow> RBE_COLOR tmp s;
     if c = RB_RED then do {
       s \<leftarrow> rbe_set_blackred tmp parent s;
       s \<leftarrow> rotate d parent s;
       tmp \<leftarrow> rbe_get (kid (opp d)) parent s;
       Some (tmp, s) }
     else Some (tmp, s) }"

definition rem_final :: "side \<Rightarrow> rb_ptr option \<Rightarrow> rb_ptr option \<Rightarrow> rbt_tree \<Rightarrow> (bool \<times> rb_ptr option \<times> rb_ptr option \<times> rbt_tree) option" where
  "rem_final d parent tmp s = do {
     pc \<leftarrow> RBE_COLOR parent s;
     s \<leftarrow> SET_COLOR tmp pc s;
     s \<leftarrow> SET_COLOR parent RB_BLACK s;
     r \<leftarrow> rbe_get (kid (opp d)) tmp s;
     s \<leftarrow> blacken_if r s;
     s \<leftarrow> rotate d parent s;
     Some (True, parent, rbt_root s, s) }"

definition rem_black :: "side \<Rightarrow> rb_ptr option \<Rightarrow> rb_ptr option \<Rightarrow> rbt_tree \<Rightarrow> (bool \<times> rb_ptr option \<times> rb_ptr option \<times> rbt_tree) option" where
  "rem_black d parent tmp s = do {
     tl \<leftarrow> RBE_LEFT tmp s;
     bl \<leftarrow> black_or_null tl s;
     tr \<leftarrow> RBE_RIGHT tmp s;
     br \<leftarrow> (if bl then black_or_null tr s else Some False);
     if bl \<and> br then do {
       s \<leftarrow> SET_COLOR tmp RB_RED s;
       gp \<leftarrow> RBE_PARENT parent s;
       Some (False, gp, parent, s) }
     else do {
       b \<leftarrow> black_or_null (if d = Lft then tr else tl) s;
       (tmp, s) \<leftarrow> (if b then do {
           near \<leftarrow> rbe_get (kid d) tmp s;
           s \<leftarrow> blacken_if near s;
           s \<leftarrow> SET_COLOR tmp RB_RED s;
           s \<leftarrow> rotate (opp d) tmp s;
           tmp \<leftarrow> rbe_get (kid (opp d)) parent s;
           Some (tmp, s) }
         else Some (tmp, s));
       rem_final d parent tmp s } }"

definition rem_round :: "side \<Rightarrow> rb_ptr option \<Rightarrow> rbt_tree \<Rightarrow> (bool \<times> rb_ptr option \<times> rb_ptr option \<times> rbt_tree) option" where
  "rem_round d parent s = do {
     (tmp, s) \<leftarrow> rem_sibling d parent s;
     rem_black d parent tmp s }"

lemma remove_round_sides:
  "remove_color_round parent rbe s = do {
     l \<leftarrow> RBE_LEFT parent s;
     if l = rbe then rem_round Lft parent s else rem_round Rgt parent s }"
proof -
  have "(if side.Lft = Lft then x else y) = x" "(if Rgt = Lft then x else y) = y" for x y :: "rb_ptr option" by simp_all
  then show ?thesis
    unfolding remove_color_round_def rem_round_def rem_sibling_def rem_black_def rem_final_def opp.simps kid.simps rotate_sides Option.bind_assoc
    by (simp only: Option.bind_assoc)
qed

text \<open>A red sibling becomes the grandparent, its child the new, black sibling.\<close>

lemma rem_sibling_red:
  assumes "at s t (F d c p (nd d True y b z) # fs)"
  shows "\<exists>s'. rem_sibling d (Some p) s = Some (top_of y, s') \<and> at s' t (F d True p y # F d False b z # fs)"
proof -
  let ?u = "nd d True y b z"
  have u: "at s ?u (F (opp d) c p t # fs)" using assms by (simp add: at_move)
  have p: "rbt_heap s p = Some (ent d c (parent_of fs) (top_of t) (Some b))" using at_fheap [OF assms] by simp
  obtain s1 where s1: "rbe_upd (rbt_color_update (\<lambda>_. color_of False)) (Some b) s = Some s1" "at s1 (nd d False y b z) (F (opp d) c p t # fs)"
    using at_paint [OF u, of False] by auto
  obtain s2 where s2: "rbe_upd (rbt_color_update (\<lambda>_. color_of True)) (Some p) s1 = Some s2" "at s2 (nd d False y b z) (F (opp d) True p t # fs)"
    using at_paint_frame [OF s1(2)] by blast
  then have "at s2 (nd d True t p (nd d False y b z)) fs" by (simp add: at_move)
  from rotate_at [OF this] obtain s3 where s3: "rotate d (Some p) s2 = Some s3" "at s3 t (F d True p y # F d False b z # fs)"
    by (auto simp: at_move)
  then show ?thesis using at_color [OF u] p s1(1) s2(1) at_fheap [OF s3(2)]
    by (auto simp: rem_sibling_def rbe_set_blackred_def color_of_def)
qed

lemma rem_sibling_black:
  assumes "at s t (F d c p u # fs)" "u \<noteq> E" "\<not> red u"
  shows "rem_sibling d (Some p) s = Some (top_of u, s)"
proof -
  have "at s u (F (opp d) c p t # fs)" using assms(1) by (simp add: at_move)
  then show ?thesis using at_color [of s u] at_fheap [OF assms(1)] assms(2,3) by (auto simp: rem_sibling_def)
qed

lemma rem_final_at:
  assumes "at s t (F d c p (nd d False y b z) # fs)"
  shows "\<exists>s'. rem_final d (Some p) (Some b) s = Some (True, Some p, rbt_root s', s') \<and> at s' (nd d c (nd d False t p y) b (paint False z)) fs"
proof -
  let ?u = "nd d False y b z"
  have u: "at s ?u (F (opp d) c p t # fs)" using assms by (simp add: at_move)
  have p: "rbt_heap s p = Some (ent d c (parent_of fs) (top_of t) (Some b))" using at_fheap [OF assms] by simp
  obtain s1 where s1: "rbe_upd (rbt_color_update (\<lambda>_. color_of c)) (Some b) s = Some s1" "at s1 (nd d c y b z) (F (opp d) c p t # fs)"
    using at_paint [OF u, of c] by auto
  obtain s2 where s2: "rbe_upd (rbt_color_update (\<lambda>_. color_of False)) (Some p) s1 = Some s2" "at s2 (nd d c y b z) (F (opp d) False p t # fs)"
    using at_paint_frame [OF s1(2)] by blast
  then have z: "at s2 z (F (opp d) c b y # F (opp d) False p t # fs)" by (simp add: at_move)
  then obtain s3 where s3: "blacken_if (top_of z) s2 = Some s3" "at s3 (paint False z) (F (opp d) c b y # F (opp d) False p t # fs)"
    using at_blacken by blast
  then have "at s3 (nd d False t p (nd d c y b (paint False z))) fs" by (simp add: at_move)
  then obtain s4 where "rotate d (Some p) s3 = Some s4" "at s4 (nd d c (nd d False t p y) b (paint False z)) fs" using rotate_at by blast
  then show ?thesis using p s1(1) s2(1) s3(1) at_heap [OF s2(2)] by (simp add: rem_final_def color_of_def)
qed

subsection \<open>A black sibling\<close>

lemma children_black:
  assumes "at s (nd d c y b z) fs"
  shows "do { tl \<leftarrow> RBE_LEFT (Some b) s; bl \<leftarrow> black_or_null tl s; tr \<leftarrow> RBE_RIGHT (Some b) s;
      br \<leftarrow> (if bl then black_or_null tr s else Some False); f bl br tl tr }
    = f (\<not> red (if d = Lft then y else z)) (\<not> red y \<and> \<not> red z) (top_of (if d = Lft then y else z)) (top_of (if d = Lft then z else y))"
proof -
  have "at s y (F d c b z # fs)" "at s z (F (opp d) c b y # fs)" using assms by (simp_all add: at_move)
  then show ?thesis using at_heap [OF assms] by (cases d) (auto simp: at_black_or_null ent_def)
qed

lemma ent_kids [simp]:
  "rbt_left (ent Lft c par x y) = x" "rbt_right (ent Lft c par x y) = y" "rbt_left (ent Rgt c par x y) = y" "rbt_right (ent Rgt c par x y) = x"
  by (simp_all add: ent_def)

lemma rem_black_children:
  assumes "at s t (F d c p (nd d False y b z) # fs)"
  shows "rem_black d (Some p) (Some b) s =
    (if \<not> red y \<and> \<not> red z then do {
       s \<leftarrow> SET_COLOR (Some b) RB_RED s;
       gp \<leftarrow> RBE_PARENT (Some p) s;
       Some (False, gp, Some p, s) }
     else do {
       (tmp, s) \<leftarrow> (if \<not> red z then do {
           s \<leftarrow> blacken_if (top_of y) s;
           s \<leftarrow> SET_COLOR (Some b) RB_RED s;
           s \<leftarrow> rotate (opp d) (Some b) s;
           tmp \<leftarrow> rbe_get (kid (opp d)) (Some p) s;
           Some (tmp, s) }
         else Some (Some b, s));
       rem_final d (Some p) tmp s })"
proof -
  have u: "at s (nd d False y b z) (F (opp d) c p t # fs)" using assms by (simp add: at_move)
  have z: "at s z (F (opp d) False b y # F (opp d) c p t # fs)" using u by (simp add: at_move)
  have "(if d = Lft then top_of (if d = Lft then z else y) else top_of (if d = Lft then y else z)) = top_of z" by simp
  then show ?thesis unfolding rem_black_def children_black [OF u] using at_black_or_null [OF z] at_heap [OF u] by (auto simp del: top_of_None)
qed

lemma rem_black_both:
  assumes "at s t (F d c p (nd d False y b z) # fs)" "\<not> red y" "\<not> red z"
  shows "\<exists>s'. rem_black d (Some p) (Some b) s = Some (False, parent_of fs, Some p, s') \<and> at s' (nd d c t p (nd d True y b z)) fs"
proof -
  have "at s (nd d False y b z) (F (opp d) c p t # fs)" using assms by (simp add: at_move)
  from at_paint [OF this, of True] obtain s' where s': "rbe_upd (rbt_color_update (\<lambda>_. color_of True)) (Some b) s = Some s'"
      "at s' (nd d c t p (nd d True y b z)) fs" by (auto simp: at_move)
  then show ?thesis unfolding rem_black_children [OF assms(1)] using assms(2,3) at_heap [OF s'(2)] by (simp add: color_of_def)
qed

lemma rem_black_far:
  assumes "at s t (F d c p (nd d False y b z) # fs)" "red z"
  shows "\<exists>s'. rem_black d (Some p) (Some b) s = Some (True, Some p, rbt_root s', s') \<and> at s' (nd d c (nd d False t p y) b (paint False z)) fs"
  unfolding rem_black_children [OF assms(1)] using rem_final_at [OF assms(1)] assms(2) by simp

lemma rem_black_near:
  assumes at: "at s t (F d c p (nd d False (nd d True y1 e y2) b z) # fs)" and "\<not> red z"
  shows "\<exists>s'. rem_black d (Some p) (Some b) s = Some (True, Some p, rbt_root s', s')
    \<and> at s' (nd d c (nd d False t p y1) e (nd d False y2 b z)) fs"
proof -
  have "at s (nd d True y1 e y2) (F d False b z # F (opp d) c p t # fs)" using at by (simp add: at_move)
  from at_blacken [OF this] obtain s1 where s1: "blacken_if (Some e) s = Some s1" "at s1 (nd d False y1 e y2) (F d False b z # F (opp d) c p t # fs)"
    by auto
  obtain s2 where s2: "rbe_upd (rbt_color_update (\<lambda>_. color_of True)) (Some b) s1 = Some s2"
      "at s2 (nd d False y1 e y2) (F d True b z # F (opp d) c p t # fs)" using at_paint_frame [OF s1(2)] by blast
  then have "at s2 (nd (opp d) True z b (nd (opp d) False y2 e y1)) (F (opp d) c p t # fs)" by (simp add: at_move)
  from rotate_at [OF this] obtain s3 where s3: "rotate (opp d) (Some b) s2 = Some s3" "at s3 t (F d c p (nd d False y1 e (nd d True y2 b z)) # fs)"
    by (auto simp: at_move)
  obtain s4 where "rem_final d (Some p) (Some e) s3 = Some (True, Some p, rbt_root s4, s4)"
      "at s4 (nd d c (nd d False t p y1) e (nd d False y2 b z)) fs" using rem_final_at [OF s3(2)] by auto
  then show ?thesis unfolding rem_black_children [OF at] using assms(2) s1(1) s2(1) s3(1) at_fheap [OF s3(2)] by (simp add: color_of_def)
qed

subsection \<open>The loop\<close>

text \<open>What the loop must achieve, once the entry it ends with is painted black.\<close>

definition lightens :: "(rb_ptr option \<times> rbt_tree) option \<Rightarrow> rb_ptr list \<Rightarrow> bool" where
  "lightens res xs \<longleftrightarrow> (\<exists>s t fs. res = Some (top_of t, s) \<and> at s t fs \<and> nodes (plug t fs) = xs \<and> balanced (plug (paint False t) fs))"

lemma lightens_exit:
  assumes "at s t fs" "invc (paint False t)" "invh t" "finv (bh t + 1) fs" "red t \<or> fs = []"
  shows "lightens (remove_color_loop (parent_of fs) (top_of t) s) (before fs @ nodes t @ behind fs)"
proof -
  have "remove_color_loop (parent_of fs) (top_of t) s = Some (top_of t, s)"
    using assms(5) at_black_or_null [OF assms(1)] at_root [OF assms(1)] by (subst remove_color_loop.simps) auto
  moreover have "balanced (plug (paint False t) fs)"
  proof (cases "fs = []")
    case False
    then show ?thesis using assms by (intro balanced_plug) (auto simp: bh_paint)
  qed (use assms in \<open>simp add: balanced_def\<close>)
  ultimately show ?thesis using assms(1) nodes_plug [of t fs] by (auto simp: lightens_def)
qed

text \<open>The outcome of a round: another one follows, or the loop is left with the root.\<close>

definition round_ok :: "(bool \<times> rb_ptr option \<times> rb_ptr option \<times> rbt_tree) option \<Rightarrow> rb_ptr list \<Rightarrow> bool" where
  "round_ok res xs \<longleftrightarrow> (\<exists>stop p e s. res = Some (stop, p, e, s) \<and> lightens (if stop then Some (e, s) else remove_color_loop p e s) xs)"

lemma round_stops:
  assumes "res = Some (True, p, rbt_root s, s)" "at s t fs" "invc t" "invh t" "finv (bh t) fs" "red t \<longrightarrow> \<not> fred fs \<and> fs \<noteq> []"
  shows "round_ok res (before fs @ nodes t @ behind fs)"
proof -
  have at: "at s (plug t fs) []" using assms(2) at_plug by blast
  have "balanced (plug t fs)" using assms(3-) by (intro balanced_plug)
  then have "balanced (paint False (plug t fs))" using balanced_balanced2 balanced2_def by blast
  then have "lightens (Some (rbt_root s, s)) (nodes (plug t fs))"
    unfolding lightens_def by (intro exI [of _ s] exI [of _ "plug t fs"] exI [of _ "[]"]) (simp add: at at_root [OF at])
  then show ?thesis using assms(1) nodes_plug [of t fs] by (auto simp: round_ok_def)
qed

lemma black_round:
  assumes at: "at s t (F d c p (nd d False y b z) # fs)" and t: "invc t" "invh t" "\<not> red t"
    and inv: "finv (bh t + 1) (F d c p (nd d False y b z) # fs)"
    and rec: "\<And>s' q. at s' q fs \<Longrightarrow> invc (paint False q) \<Longrightarrow> invh q \<Longrightarrow> finv (bh q + 1) fs \<Longrightarrow> red q = c
      \<Longrightarrow> lightens (remove_color_loop (parent_of fs) (top_of q) s') (before fs @ nodes q @ behind fs)"
  shows "round_ok (rem_black d (Some p) (Some b) s) (before fs @ nodes (nd d c t p (nd d False y b z)) @ behind fs)"
proof -
  have yz: "invc y" "invh y" "invc z" "invh z" "bh y = bh t" "bh z = bh t" using inv by (auto simp: bh_nd)
  have fs: "finv (if c then bh t + 1 else bh t + 2) fs" "c \<longrightarrow> \<not> fred fs \<and> fs \<noteq> []" using inv by auto
  consider "\<not> red y" "\<not> red z" | "red z" | "red y" "\<not> red z" by blast
  then show ?thesis
  proof cases
    case 1
    obtain s' where s': "rem_black d (Some p) (Some b) s = Some (False, parent_of fs, Some p, s')" "at s' (nd d c t p (nd d True y b z)) fs"
      using rem_black_both [OF at 1] by blast
    have "lightens (remove_color_loop (parent_of fs) (top_of (nd d c t p (nd d True y b z))) s')
        (before fs @ nodes (nd d c t p (nd d True y b z)) @ behind fs)"
      by (rule rec [OF s'(2)]) (use t yz fs 1 in \<open>auto simp: bh_nd\<close>)
    then show ?thesis using s'(1) by (cases d) (auto simp: round_ok_def)
  next
    case 2
    obtain s' where s': "rem_black d (Some p) (Some b) s = Some (True, Some p, rbt_root s', s')" "at s' (nd d c (nd d False t p y) b (paint False z)) fs"
      using rem_black_far [OF at 2] by blast
    have "round_ok (rem_black d (Some p) (Some b) s) (before fs @ nodes (nd d c (nd d False t p y) b (paint False z)) @ behind fs)"
      by (rule round_stops [OF s']) (use t yz fs 2 in \<open>auto simp: bh_nd bh_paint\<close>)
    then show ?thesis by (cases d) simp_all
  next
    case 3
    obtain y1 e y2 where y: "y = nd d True y1 e y2" by (rule tr_side_cases [where t = y and d = d]) (use 3 in auto)
    obtain s' where s': "rem_black d (Some p) (Some b) s = Some (True, Some p, rbt_root s', s')" "at s' (nd d c (nd d False t p y1) e (nd d False y2 b z)) fs"
      using rem_black_near [of s t d c p y1 e y2 b z fs] at 3 y by blast
    have "round_ok (rem_black d (Some p) (Some b) s) (before fs @ nodes (nd d c (nd d False t p y1) e (nd d False y2 b z)) @ behind fs)"
      by (rule round_stops [OF s']) (use t yz fs y in \<open>auto simp: bh_nd\<close>)
    then show ?thesis using y by (cases d) simp_all
  qed
qed

lemma red_sibling_round:
  assumes at: "at s t (F d False p (nd d True y b z) # fs)" and t: "invc t" "invh t" "\<not> red t"
    and inv: "finv (bh t + 1) (F d False p (nd d True y b z) # fs)"
  shows "round_ok (rem_round d (Some p) s) (before fs @ nodes (nd d False t p (nd d True y b z)) @ behind fs)"
proof -
  have yz: "invc y" "invh y" "invc z" "invh z" "\<not> red y" "\<not> red z" "bh y = bh t + 1" "bh z = bh t + 1" "finv (bh t + 2) fs"
    using inv by (auto simp: bh_nd)
  obtain y1 e y2 where y: "y = nd d False y1 e y2" by (rule tr_side_cases [where t = y and d = d]) (use yz in auto)
  obtain s1 where s1: "rem_sibling d (Some p) s = Some (Some e, s1)" "at s1 t (F d True p y # F d False b z # fs)"
    using rem_sibling_red [OF at] y by auto
  have "round_ok (rem_black d (Some p) (Some e) s1) (before (F d False b z # fs) @ nodes (nd d True t p y) @ behind (F d False b z # fs))"
    unfolding y
  proof (rule black_round [OF s1(2) [unfolded y] t])
    show "finv (bh t + 1) (F d True p (nd d False y1 e y2) # F d False b z # fs)" using yz y by (simp add: bh_nd)
  next
    fix s' q assume "at s' q (F d False b z # fs)" "invc (paint False q)" "invh q" "finv (bh q + 1) (F d False b z # fs)" "red q = True"
    then show "lightens (remove_color_loop (parent_of (F d False b z # fs)) (top_of q) s')
        (before (F d False b z # fs) @ nodes q @ behind (F d False b z # fs))" by (intro lightens_exit) simp_all
  qed
  then show ?thesis using s1(1) unfolding nodes_frames by (cases d) (simp_all add: rem_round_def)
qed

lemma remove_round_at:
  assumes "at s t (F d c p u # fs)" "u \<noteq> E"
  shows "remove_color_round (Some p) (top_of t) s = rem_round d (Some p) s"
proof -
  have "top_of u \<noteq> top_of t" using assms by (cases u; cases t) (auto simp: at_def)
  then show ?thesis unfolding remove_round_sides using at_fheap [OF assms(1)] by (cases d) simp_all
qed

lemma root_elem: "root_of (Some a) fs \<in> Some ` (insert a (set (fnodes fs)))"
  by (induction "Some a" fs arbitrary: a rule: root_of.induct) auto

lemma remove_loop_ok:
  assumes "at s t fs" "invc (paint False t)" "invh t" "finv (bh t + 1) fs"
  shows "lightens (remove_color_loop (parent_of fs) (top_of t) s) (before fs @ nodes t @ behind fs)"
  using assms
proof (induction fs arbitrary: s t)
  case Nil
  then show ?case by (intro lightens_exit) simp_all
next
  case (Cons f fs)
  obtain d c p u where f: "f = F d c p u" by (cases f)
  show ?case
  proof (cases "red t")
    case False
    have t: "invc t" using Cons.prems(2) False by (cases t) auto
    have u: "bh u = bh t + 1" "u \<noteq> E" using Cons.prems(4) f by auto
    obtain c' y b z where yz: "u = nd d c' y b z" by (rule tr_side_cases [where t = u and d = d]) (use u in auto)
    have at: "at s t (F d c p u # fs)" using Cons.prems(1) f by simp
    have "top_of t \<noteq> rbt_root s"
      using at_root [OF at] root_elem [of p fs] at by (cases t) (auto simp: at_def)
    then have loop: "remove_color_loop (Some p) (top_of t) s = (do {
        (stop, parent, rbe, s) \<leftarrow> rem_round d (Some p) s;
        if stop then Some (rbe, s) else remove_color_loop parent rbe s })"
      using at_black_or_null [OF at] False remove_round_at [OF at u(2)] by (subst remove_color_loop.simps) simp
    have "round_ok (rem_round d (Some p) s) (before fs @ nodes (nd d c t p u) @ behind fs)"
    proof (cases c')
      case True
      then show ?thesis using red_sibling_round [of s t d p y b z fs] at Cons.prems(3,4) f yz t False by auto
    next
      case False
      then have black: "u = nd d False y b z" using yz by simp
      then have "rem_sibling d (Some p) s = Some (Some b, s)" using rem_sibling_black [OF at u(2)] by simp
      moreover have "round_ok (rem_black d (Some p) (Some b) s) (before fs @ nodes (nd d c t p u) @ behind fs)"
        unfolding black using Cons.prems(3,4) Cons.IH f black t \<open>\<not> red t\<close>
        by (intro black_round [OF at [unfolded black]]) auto
      ultimately show ?thesis by (simp add: rem_round_def)
    qed
    then show ?thesis unfolding f nodes_frames parent_of.simps loop by (auto simp: round_ok_def split: if_splits)
  qed (use Cons.prems lightens_exit in blast)
qed

lemma remove_color_at:
  assumes "at s t fs" "invc t" "invh t" "finv (bh t + 1) fs"
  shows "\<exists>s' t'. rbe_remove_color (parent_of fs) (top_of t) s = Some s' \<and> at s' t' [] \<and> balanced t' \<and> nodes t' = before fs @ nodes t @ behind fs"
proof -
  have "lightens (remove_color_loop (parent_of fs) (top_of t) s) (before fs @ nodes t @ behind fs)"
    by (rule remove_loop_ok) (use assms in simp_all)
  then obtain s1 q gs where q: "remove_color_loop (parent_of fs) (top_of t) s = Some (top_of q, s1)" "at s1 q gs"
      "nodes (plug q gs) = before fs @ nodes t @ behind fs" "balanced (plug (paint False q) gs)"
    by (auto simp: lightens_def)
  obtain s2 where s2: "blacken_if (top_of q) s1 = Some s2" "at s2 (paint False q) gs" using at_blacken [OF q(2)] by blast
  have "nodes (plug (paint False q) gs) = nodes (plug q gs)" by (simp add: nodes_plug)
  then show ?thesis using q s2 at_plug [of s2 "paint False q" gs]
    by (intro exI [of _ s2] exI [of _ "plug (paint False q) gs"]) (simp add: rbe_remove_color_def)
qed

subsection \<open>Taking an entry out\<close>

lemma unlink_at:
  assumes "at s (nd d c E a y) fs"
  shows "\<exists>s'. unlink_entry (Some a) (top_of y) s = Some (parent_of fs, color_of c, s') \<and> at s' y fs \<and> rbt_heap s' a = rbt_heap s a"
proof -
  let ?par = "parent_of fs"
  have a: "rbt_heap s a = Some (ent d c ?par None (top_of y))" using at_heap [OF assms] by simp
  have r: "rep (rbt_heap s) (Some a) y" "reps (rbt_heap s) (Some a) fs" "rbt_root s = root_of (Some a) fs"
    and dx: "distinct (nodes y @ [a] @ fnodes fs)"
    using assms by (auto simp: at_def rep_nd)
  obtain s1 where s1: "(if top_of y \<noteq> None then rbe_upd (rbt_parent_update (\<lambda>_. ?par)) (top_of y) s else Some s) = Some s1"
      "rep (rbt_heap s1) ?par y" "rbt_root s1 = rbt_root s" "\<And>b. b \<notin> set (nodes y) \<Longrightarrow> rbt_heap s1 b = rbt_heap s b"
    using reparent_if [OF r(1), of ?par] dx by auto
  have "reps (rbt_heap s1) (Some a) fs = reps (rbt_heap s) (Some a) fs" by (rule reps_cong, rule s1(4)) (use dx in auto)
  then obtain s2 where s2: "replace_child ?par (Some a) (top_of y) s1 = Some s2" "reps (rbt_heap s2) (top_of y) fs" "rbt_root s2 = root_of (top_of y) fs"
      "\<And>b. b \<notin> set (fnodes fs) \<Longrightarrow> rbt_heap s2 b = rbt_heap s1 b"
      "\<And>t par. set (nodes t) \<inter> set (fnodes fs) = {} \<Longrightarrow> rep (rbt_heap s2) par t = rep (rbt_heap s1) par t"
    using replace_child_at [of s1 a fs "top_of y"] r(2,3) dx s1(3) by auto
  have "at s2 y fs" using s2 s1(2) dx by (auto simp: at_def)
  moreover have "rbt_heap s2 a = rbt_heap s a" using s2(4) s1(4) dx by simp
  ultimately show ?thesis using a s1(1) s2(1) by (simp add: unlink_entry_def split: if_splits)
qed

text \<open>The entry \<open>a\<close>, which is not in the tree, takes the place of \<open>old\<close>.\<close>

lemma replace_entry_at:
  assumes "at s (T c l old r) fs" "l \<noteq> E" "a \<notin> set (nodes (T c l old r)) \<union> set (fnodes fs)" "rbt_heap s a \<noteq> None"
  shows "\<exists>s'. replace_entry (Some old) (Some a) s = Some s' \<and> at s' (T c l a r) fs"
proof -
  let ?par = "parent_of fs" and ?e = "ent Lft c (parent_of fs) (top_of l) (top_of r)"
  have o: "rbt_heap s old = Some ?e" using assms(1) by (simp add: at_def)
  have h: "rep (rbt_heap s) (Some old) l" "rep (rbt_heap s) (Some old) r" "reps (rbt_heap s) (Some old) fs" "rbt_root s = root_of (Some old) fs"
    and dx: "distinct (nodes l @ nodes r @ [old, a] @ fnodes fs)"
    using assms(1,3) by (auto simp: at_def)
  define s1 where "s1 = s\<lparr>rbt_heap := (rbt_heap s)(a \<mapsto> ?e)\<rparr>"
  have r1: "rep (rbt_heap s1) (Some old) l" "rep (rbt_heap s1) (Some old) r" "reps (rbt_heap s1) (Some old) fs" "rbt_root s1 = root_of (Some old) fs"
    using h dx by (simp_all add: s1_def)
  obtain s2 where s2: "replace_child ?par (Some old) (Some a) s1 = Some s2" "reps (rbt_heap s2) (Some a) fs" "rbt_root s2 = root_of (Some a) fs"
      "\<And>b. b \<notin> set (fnodes fs) \<Longrightarrow> rbt_heap s2 b = rbt_heap s1 b"
      "\<And>t par. set (nodes t) \<inter> set (fnodes fs) = {} \<Longrightarrow> rep (rbt_heap s2) par t = rep (rbt_heap s1) par t"
    using replace_child_at [of s1 old fs "Some a"] r1(3,4) dx by auto
  have l2: "rep (rbt_heap s2) (Some old) l" "rep (rbt_heap s2) (Some old) r" using s2(5) r1(1,2) dx by auto
  obtain s3 where s3: "rbe_upd (rbt_parent_update (\<lambda>_. Some a)) (top_of l) s2 = Some s3" "rep (rbt_heap s3) (Some a) l" "rbt_root s3 = rbt_root s2"
      "\<And>b. b \<notin> set (nodes l) \<Longrightarrow> rbt_heap s3 b = rbt_heap s2 b"
    using reparent [OF l2(1) _ assms(2), of "Some a"] dx by auto
  have "rep (rbt_heap s3) (Some old) r = rep (rbt_heap s2) (Some old) r" by (rule rep_cong, rule s3(4)) (use dx in auto)
  then obtain s4 where s4: "(if top_of r \<noteq> None then rbe_upd (rbt_parent_update (\<lambda>_. Some a)) (top_of r) s3 else Some s3) = Some s4"
      "rep (rbt_heap s4) (Some a) r" "rbt_root s4 = rbt_root s3" "\<And>b. b \<notin> set (nodes r) \<Longrightarrow> rbt_heap s4 b = rbt_heap s3 b"
    using reparent_if [of s3 "Some old" r "Some a"] l2(2) dx by auto
  have "reps (rbt_heap s4) (Some a) fs = reps (rbt_heap s2) (Some a) fs"
  proof (rule reps_cong)
    fix b assume "b \<in> set (fnodes fs)"
    then have "b \<notin> set (nodes l)" "b \<notin> set (nodes r)" using dx by auto
    then show "rbt_heap s4 b = rbt_heap s2 b" using s3(4) s4(4) by simp
  qed
  moreover have "rep (rbt_heap s4) (Some a) l = rep (rbt_heap s3) (Some a) l" by (rule rep_cong, rule s4(4)) (use dx in auto)
  moreover have ha: "rbt_heap s4 a = Some ?e" "rbt_heap s2 old = Some ?e" "rbt_heap s3 old = Some ?e" using dx o s2(4) s3(4) s4(4) by (auto simp: s1_def)
  ultimately have "at s4 (T c l a r) fs" using s2(2,3) s3(2,3) s4(2,3) dx by (auto simp: at_def)
  moreover have "replace_entry (Some old) (Some a) s = Some s4"
  proof -
    have "rbe_upd (\<lambda>_. ?e) (Some a) s = Some s1" "rbt_heap s1 old = Some ?e" using assms(4) dx o by (auto simp: s1_def)
    then show ?thesis unfolding replace_entry_def using o ha s2(1) s3(1) s4(1) by (simp split: if_splits)
  qed
  ultimately show ?thesis by blast
qed

lemma plug_append: "plug t (fs @ gs) = plug (plug t fs) gs"
  by (induction t fs rule: plug.induct) simp_all

lemma before_append: "before (fs @ gs) = before gs @ before fs" "behind (fs @ gs) = behind fs @ behind gs"
  by (induction fs rule: before.induct) simp_all

lemma fnodes_append: "fnodes (fs @ gs) = fnodes fs @ fnodes gs"
  by (induction fs rule: fnodes.induct) simp_all

lemma leftmost_at:
  assumes "at s r fs" "r \<noteq> E"
  shows "\<exists>ls c b u. r = plug (T c E b u) ls \<and> before ls = [] \<and> leftmost (top_of r) s = Some (Some b)"
  using assms
proof (induction r arbitrary: fs)
  case (T c l a u)
  have a: "rbt_heap s a = Some (ent Lft c (parent_of fs) (top_of l) (top_of u))" using T.prems(1) by (simp add: at_def)
  show ?case
  proof (cases "l = E")
    case True
    then show ?thesis using a by (intro exI [of _ "[]"]) (auto simp: leftmost.simps [of "Some a"])
  next
    case False
    have "at s l (F Lft c a u # fs)" using T.prems(1) by (simp add: at_move)
    from T.IH(1) [OF this False] obtain ls c' b v where
      l: "l = plug (T c' E b v) ls" "before ls = []" "leftmost (top_of l) s = Some (Some b)" by blast
    then show ?thesis using a False by (intro exI [of _ "ls @ [F Lft c a u]"] exI [of _ c'] exI [of _ b] exI [of _ v])
      (simp add: leftmost.simps [of "Some a"] plug_append before_append)
  qed
qed simp

lemma finv_rename: "finv n (ls @ F d c a u # fs) = finv n (ls @ F d c b u # fs)" "fred (ls @ F d c a u # fs) = fred (ls @ F d c b u # fs)"
proof -
  show fred: "fred (ls @ F d c a u # fs) = fred (ls @ F d c b u # fs)" for ls by (cases ls rule: fred.cases) simp_all
  show "finv n (ls @ F d c a u # fs) = finv n (ls @ F d c b u # fs)" by (induction n ls rule: finv.induct) (simp_all add: fred)
qed

text \<open>What is left once the entry, of colour \<open>c\<close>, is out of the place \<open>fs\<close>.\<close>

lemma remove_tail:
  assumes "at s y fs" "invc y" "invh y" "bh y = 0" "finv (if c then 0 else 1) fs" "c \<longrightarrow> \<not> red y"
  shows "\<exists>s' t'. (if color_of c = RB_BLACK then rbe_remove_color (parent_of fs) (top_of y) s else Some s) = Some s'
    \<and> at s' t' [] \<and> balanced t' \<and> nodes t' = before fs @ nodes y @ behind fs"
proof (cases c)
  case True
  then have "balanced (plug y fs)" using assms by (intro balanced_plug) auto
  then show ?thesis using True assms(1) at_plug [of s y fs] by (intro exI [of _ s] exI [of _ "plug y fs"]) (simp add: nodes_plug)
next
  case False
  then show ?thesis using remove_color_at [OF assms(1-3)] assms(4,5) by auto
qed

lemma remove_single:
  assumes "at s (nd d c E a y) fs" "balanced (plug (nd d c E a y) fs)"
  shows "\<exists>s1 s' t'. unlink_entry (Some a) (top_of y) s = Some (parent_of fs, color_of c, s1)
    \<and> (if color_of c = RB_BLACK then rbe_remove_color (parent_of fs) (top_of y) s1 else Some s1) = Some s'
    \<and> at s' t' [] \<and> balanced t' \<and> nodes t' = before fs @ nodes y @ behind fs"
proof -
  obtain s1 where s1: "unlink_entry (Some a) (top_of y) s = Some (parent_of fs, color_of c, s1)" "at s1 y fs"
    using unlink_at [OF assms(1)] by blast
  have inv: "invc (nd d c E a y)" "invh (nd d c E a y)" "finv (bh (nd d c E a y)) fs" using plug_balanced [OF assms(2)] by simp_all
  show ?thesis using s1(1) remove_tail [OF s1(2), of c] inv by (auto simp: bh_nd split: if_splits)
qed

lemma remove_double:
  assumes "at s (T c l old r) fs" "balanced (plug (T c l old r) fs)" "l \<noteq> E" "r \<noteq> E"
  shows "\<exists>s' t'. rbe_remove (Some old) s = Some (Some old, s') \<and> at s' t' [] \<and> balanced t'
    \<and> nodes t' = before fs @ nodes l @ nodes r @ behind fs"
proof -
  have "at s r (F Rgt c old l # fs)" using assms(1) by (simp add: at_move)
  from leftmost_at [OF this assms(4)] obtain ls cb b y where
    r: "r = plug (T cb E b y) ls" "before ls = []" "leftmost (top_of r) s = Some (Some b)" by blast
  let ?fs = "\<lambda>a. ls @ F Rgt c a l # fs"
  have plug: "plug t (?fs old) = plug (T c l old (plug t ls)) fs" for t by (simp add: plug_append)
  have at: "at s (nd Lft cb E b y) (?fs old)" using assms(1) r(1) by (simp add: at_plug [of s _ "?fs old"] at_plug [of s _ fs] plug)
  have rt: "nodes r = b # nodes y @ behind ls" "nodes (plug y ls) = nodes y @ behind ls" using r(1,2) by (simp_all add: nodes_plug)
  have dx: "b \<notin> set (nodes (T c l old (plug y ls))) \<union> set (fnodes fs)" using assms(1) rt by (auto simp: at_def)
  obtain s1 where s1: "unlink_entry (Some b) (top_of y) s = Some (parent_of (?fs old), color_of cb, s1)" "at s1 y (?fs old)" "rbt_heap s1 b = rbt_heap s b"
    using unlink_at [OF at] by blast
  have b: "rbt_heap s b = Some (ent Lft cb (parent_of (?fs old)) None (top_of y))" using at_heap [OF at] by simp
  have "at s1 (T c l old (plug y ls)) fs" using s1(2) by (simp add: at_plug [of s1 _ "?fs old"] at_plug [of s1 _ fs] plug)
  then obtain s2 where s2: "replace_entry (Some old) (Some b) s1 = Some s2" "at s2 (T c l b (plug y ls)) fs"
    using replace_entry_at [OF _ assms(3) dx] s1(3) b by auto
  have parent: "(if parent_of (?fs old) = Some old then Some b else parent_of (?fs old)) = parent_of (?fs b)"
    using s1(2) by (cases ls rule: parent_of.cases) (auto simp: at_def fnodes_append)
  have "plug y (?fs b) = plug (T c l b (plug y ls)) fs" by (simp add: plug_append)
  then have at2: "at s2 y (?fs b)" using s2(2) by (simp add: at_plug [of s2 _ "?fs b"] at_plug [of s2 _ fs])
  have "balanced (plug (nd Lft cb E b y) (?fs old))" using assms(2) r(1) plug by simp
  from plug_balanced [OF this] have inv: "invc (nd Lft cb E b y)" "invh (nd Lft cb E b y)" "finv (if cb then 0 else 1) (?fs b)"
    by (auto simp: finv_rename(1) [of _ _ _ _ old _ _ b])
  obtain s3 t3 where "(if color_of cb = RB_BLACK then rbe_remove_color (parent_of (?fs b)) (top_of y) s2 else Some s2) = Some s3"
      "at s3 t3 []" "balanced t3" "nodes t3 = before (?fs b) @ nodes y @ behind (?fs b)"
    using remove_tail [OF at2, of cb] inv by auto
  moreover have "before (?fs b) @ nodes y @ behind (?fs b) = before fs @ nodes l @ nodes r @ behind fs"
    using r(2) rt by (simp add: before_append)
  moreover have "rbt_heap s old = Some (ent Lft c (parent_of fs) (top_of l) (top_of r))" using assms(1) by (simp add: at_def)
  ultimately show ?thesis using r(3) b s1(1,3) s2(1) parent assms(3,4)
    by (intro exI [of _ s3] exI [of _ t3]) (simp add: rbe_remove_def Let_def split: if_splits)
qed

text \<open>An entry of the tree is the top of one of its subtrees.\<close>

lemma node_place: "a \<in> set (nodes t) \<Longrightarrow> \<exists>c l r fs. t = plug (T c l a r) fs"
proof (induction t)
  case (T c l b r)
  then consider "a = b" | "a \<in> set (nodes l)" | "a \<in> set (nodes r)" by auto
  then show ?case
  proof cases
    case 1
    then show ?thesis by (intro exI [of _ c] exI [of _ l] exI [of _ r] exI [of _ "[]"]) simp
  next
    case 2
    then obtain c' l' r' fs where "l = plug (T c' l' a r') fs" using T.IH(1) by blast
    then have "T c l b r = plug (T c' l' a r') (fs @ [F Lft c b r])" by (simp add: plug_append)
    then show ?thesis by blast
  next
    case 3
    then obtain c' l' r' fs where "r = plug (T c' l' a r') fs" using T.IH(2) by blast
    then have "T c l b r = plug (T c' l' a r') (fs @ [F Rgt c b l])" by (simp add: plug_append)
    then show ?thesis by blast
  qed
qed simp

lemma remove_at:
  assumes "at s (T c l a r) fs" "balanced (plug (T c l a r) fs)"
  shows "\<exists>s' t'. rbe_remove (Some a) s = Some (Some a, s') \<and> at s' t' [] \<and> balanced t' \<and> nodes t' = before fs @ nodes l @ nodes r @ behind fs"
proof -
  have a: "rbt_heap s a = Some (ent Lft c (parent_of fs) (top_of l) (top_of r))" using assms(1) by (simp add: at_def)
  consider "l = E" | "l \<noteq> E" "r = E" | "l \<noteq> E" "r \<noteq> E" by blast
  then show ?thesis
  proof cases
    case 1
    then show ?thesis using remove_single [of s Lft c a r fs] assms a by (auto simp: rbe_remove_def split: if_splits)
  next
    case 2
    then show ?thesis using remove_single [of s Rgt c a l fs] assms a by (auto simp: rbe_remove_def split: if_splits)
  next
    case 3
    then show ?thesis using remove_double assms by blast
  qed
qed

lemma rb_remove_ok:
  assumes "at s t []" "balanced t" "x \<in> set (nodes t)"
  shows "\<exists>s' t'. rb_remove x s = Some (Some x, s') \<and> at s' t' [] \<and> balanced t' \<and> nodes t' = remove1 x (nodes t)"
proof -
  obtain c l r fs where t: "t = plug (T c l x r) fs" using node_place [OF assms(3)] by blast
  have "at s (T c l x r) fs" using assms(1) t at_plug by blast
  then obtain s' t' where "rbe_remove (Some x) s = Some (Some x, s')" "at s' t' []" "balanced t'" "nodes t' = before fs @ nodes l @ nodes r @ behind fs"
    using remove_at assms(2) t by blast
  moreover have "x \<notin> set (before fs @ nodes l)" "nodes t = (before fs @ nodes l) @ x # nodes r @ behind fs"
    using assms(1) t by (auto simp: at_def nodes_plug)
  ultimately show ?thesis by (auto simp: rb_remove_def remove1_append)
qed

end
