(* ===== verification/Rb_Walk.thy ===== *)
theory Rb_Walk
  imports Rb_Remove
begin

text \<open>
  Search in a red-black tree on the heap, the walk through it, and that the operations add no entry to
  the heap and take none away. The code that goes forward and
  the code that goes backward differ in the exchange of left and right, so the lemmas speak of a
  direction: \<open>Lft\<close> is the direction whose first node is the leftmost one.
\<close>

subsection \<open>Orders of the nodes\<close>

fun first :: "'a list \<Rightarrow> 'a option" where
  "first [] = None"
| "first (x # xs) = Some x"

definition in_order :: "side \<Rightarrow> tr \<Rightarrow> rb_ptr list" where
  "in_order d t = (if d = Lft then nodes t else rev (nodes t))"

definition ahead :: "side \<Rightarrow> frame list \<Rightarrow> rb_ptr list" where
  "ahead d fs = (if d = Lft then behind fs else rev (before fs))"

lemma first_append: "first (xs @ ys) = (if xs = [] then first ys else first xs)"
  by (cases xs) simp_all

lemma in_order_simps [simp]:
  "in_order d E = []" "in_order d (nd d c x a y) = in_order d x @ a # in_order d y" "in_order d t = [] \<longleftrightarrow> t = E"
  by (cases d; cases t; simp add: in_order_def)+

lemma ahead_simps [simp]:
  "ahead d [] = []" "ahead d (F d c a u # fs) = a # in_order d u @ ahead d fs" "ahead d (F (opp d) c a u # fs) = ahead d fs"
  by (cases d; simp add: ahead_def in_order_def)+

subsection \<open>The nodes at the ends\<close>

text \<open>\<open>leftmost\<close> and \<open>rightmost\<close> follow the children of one side.\<close>

lemma extreme_at:
  assumes go: "\<And>rbe s. f rbe s = do { tmp \<leftarrow> rbe_get (kid d) rbe s; if tmp \<noteq> None then f tmp s else Some rbe }"
    and "at s r fs" "r \<noteq> E"
  shows "f (top_of r) s = Some (first (in_order d r))"
  using assms(2,3)
proof (induction "size r" arbitrary: r fs rule: less_induct)
  case less
  obtain c x a y where r: "r = nd d c x a y" by (rule tr_side_cases [where t = r and d = d]) (use less.prems(2) in auto)
  have a: "rbt_heap s a = Some (ent d c (parent_of fs) (top_of x) (top_of y))" using less.prems(1) at_heap r by simp
  show ?case
  proof (cases "x = E")
    case False
    have "at s x (F d c a y # fs)" using less.prems(1) r by (simp add: at_move)
    moreover have "size x < size r" using r by (cases d) simp_all
    ultimately have "f (top_of x) s = Some (first (in_order d x))" using less.hyps False by blast
    then show ?thesis using a r False by (subst go) (simp add: first_append)
  qed (use a r in \<open>subst go, simp\<close>)
qed

lemmas leftmost_first = extreme_at [of leftmost Lft, unfolded kid.simps, OF leftmost.simps]
lemmas rightmost_last = extreme_at [of rightmost Rgt, unfolded kid.simps, OF rightmost.simps]

lemma end_at:
  assumes go: "\<And>rbe parent s. f rbe parent s = (if rbe = None then Some parent else do { k \<leftarrow> rbe_get (kid d) rbe s; f k rbe s })"
    and "at s r fs"
  shows "f (top_of r) p s = Some (if r = E then p else first (in_order d r))"
  using assms(2)
proof (induction "size r" arbitrary: r fs p rule: less_induct)
  case less
  show ?case
  proof (rule tr_side_cases [where t = r and d = d])
    fix c x a y assume r: "r = nd d c x a y"
    have a: "rbt_heap s a = Some (ent d c (parent_of fs) (top_of x) (top_of y))" using less.prems(1) at_heap r by simp
    have "at s x (F d c a y # fs)" using less.prems(1) r by (simp add: at_move)
    moreover have "size x < size r" using r by (cases d) simp_all
    ultimately have "f (top_of x) (Some a) s = Some (if x = E then Some a else first (in_order d x))" using less.hyps by blast
    then show ?thesis using a r by (subst go) (simp add: first_append)
  qed (subst go, simp)
qed

lemma rb_min_ok: "at s t [] \<Longrightarrow> rb_min s = Some (first (nodes t))"
  using end_at [of min_loop Lft, unfolded kid.simps, OF min_loop.simps, of s t "[]" None] at_root [of s t "[]"]
  by (auto simp: rb_min_def in_order_def)

lemma rb_max_ok: "at s t [] \<Longrightarrow> rb_max s = Some (first (rev (nodes t)))"
  using end_at [of max_loop Rgt, unfolded kid.simps, OF max_loop.simps, of s t "[]" None] at_root [of s t "[]"]
  by (auto simp: rb_max_def in_order_def)

subsection \<open>The next node\<close>

lemma climb_at:
  assumes go: "\<And>rbe s. g rbe s = do { parent \<leftarrow> RBE_PARENT rbe s; if parent = None then Some None
      else do { k \<leftarrow> rbe_get (kid (opp d)) parent s; if rbe = k then g parent s else Some parent } }"
    and "at s t fs" "t \<noteq> E"
  shows "g (top_of t) s = Some (first (ahead d fs))"
  using assms(2,3)
proof (induction fs arbitrary: t)
  case Nil
  then show ?case using at_parent by (subst go) simp
next
  case (Cons f fs)
  obtain e c p u where f: "f = F e c p u" by (cases f)
  have p: "rbt_heap s p = Some (ent e c (parent_of fs) (top_of t) (top_of u))" using at_fheap Cons.prems(1) f by simp
  have ne: "top_of t \<noteq> top_of u" using Cons.prems f by (cases t; cases u) (auto simp: at_def)
  show ?case
  proof (cases "e = d")
    case True
    then show ?thesis using at_parent [OF Cons.prems] f p ne by (subst go) simp
  next
    case False
    then have e: "e = opp d" by (cases e; cases d) simp_all
    have "g (top_of (nd e c t p u)) s = Some (first (ahead d fs))" using Cons.prems(1) f by (intro Cons.IH) (simp_all add: at_move)
    then show ?thesis using at_parent [OF Cons.prems] f p e by (subst go) simp
  qed
qed

lemmas climb_right_first = climb_at [of climb_right Lft, unfolded opp.simps kid.simps, OF climb_right.simps]
lemmas climb_left_last = climb_at [of climb_left Rgt, unfolded opp.simps kid.simps, OF climb_left.simps]

definition neighbour :: "(rb_ptr option \<Rightarrow> rbt_tree \<Rightarrow> rb_ptr option option) \<Rightarrow> (rb_ptr option \<Rightarrow> rbt_tree \<Rightarrow> rb_ptr option option)
    \<Rightarrow> side \<Rightarrow> rb_ptr \<Rightarrow> rbt_tree \<Rightarrow> rb_ptr option option" where
  "neighbour f g d elm s = do {
     r \<leftarrow> rbe_get (kid (opp d)) (Some elm) s;
     if r \<noteq> None then f r s
     else do {
       parent \<leftarrow> RBE_PARENT (Some elm) s;
       l \<leftarrow> (if parent \<noteq> None then rbe_get (kid d) parent s else Some None);
       if parent \<noteq> None \<and> Some elm = l then Some parent else g (Some elm) s } }"

lemma neighbour_at:
  assumes f: "\<And>r fs. at s r fs \<Longrightarrow> r \<noteq> E \<Longrightarrow> f (top_of r) s = Some (first (in_order d r))"
    and g: "\<And>t fs. at s t fs \<Longrightarrow> t \<noteq> E \<Longrightarrow> g (top_of t) s = Some (first (ahead d fs))"
    and at: "at s (nd d c x a y) fs"
  shows "neighbour f g d a s = Some (first (in_order d y @ ahead d fs))"
proof -
  have a: "rbt_heap s a = Some (ent d c (parent_of fs) (top_of x) (top_of y))" using at_heap [OF at] .
  have y: "at s y (F (opp d) c a x # fs)" using at by (simp add: at_move)
  have climb: "g (Some a) s = Some (first (ahead d fs))" using g [OF at] by simp
  show ?thesis
  proof (cases "y = E")
    case True
    show ?thesis
    proof (cases fs)
      case Nil
      then show ?thesis using a climb True by (simp add: neighbour_def)
    next
      case (Cons h hs)
      obtain e c' p u where h: "h = F e c' p u" by (cases h)
      have p: "rbt_heap s p = Some (ent e c' (parent_of hs) (Some a) (top_of u))" using at_fheap [of s "nd d c x a y"] at Cons h by simp
      have "top_of u \<noteq> Some a" using at Cons h by (cases u) (auto simp: at_def)
      then show ?thesis using a p climb True Cons h by (cases e; cases d) (auto simp: neighbour_def)
    qed
  qed (use f [OF y] a in \<open>simp add: neighbour_def first_append\<close>)
qed

lemma neighbour_sides: "rb_next = neighbour leftmost climb_right Lft" "rb_prev = neighbour rightmost climb_left Rgt"
  unfolding fun_eq_iff rb_next_def rb_prev_def neighbour_def opp.simps kid.simps by blast+

lemma split_unique:
  assumes "distinct zs" "zs = xs @ a # ys" "zs = us @ a # vs"
  shows "us = xs \<and> vs = ys"
  using assms append_Cons_eq_iff [of a xs ys us vs] by simp

lemma node_split:
  assumes "at s t []" "nodes t = xs @ a # ys"
  obtains c l r fs where "at s (T c l a r) fs" "xs = before fs @ nodes l" "ys = nodes r @ behind fs"
proof -
  obtain c l r fs where t: "t = plug (T c l a r) fs" using node_place [of a t] assms(2) by auto
  have d: "distinct (nodes t)" using assms(1) by (simp add: at_def)
  have n: "nodes t = (before fs @ nodes l) @ a # (nodes r @ behind fs)" using t by (simp add: nodes_plug)
  have "at s (T c l a r) fs" using assms(1) t at_plug [of s "T c l a r" fs] by simp
  moreover have "xs = before fs @ nodes l" "ys = nodes r @ behind fs" using split_unique [OF d assms(2) n] by auto
  ultimately show ?thesis by (rule that)
qed

lemma rb_next_ok:
  assumes "at s t []" "nodes t = xs @ a # ys"
  shows "rb_next a s = Some (first ys)"
proof (rule node_split [OF assms])
  fix c l r fs assume a: "at s (T c l a r) fs" "ys = nodes r @ behind fs"
  have "rb_next a s = Some (first (in_order Lft r @ ahead Lft fs))"
    unfolding neighbour_sides by (rule neighbour_at [of s leftmost Lft climb_right c l, OF leftmost_first climb_right_first]) (use a(1) in simp_all)
  then show ?thesis using a(2) by (simp add: in_order_def ahead_def)
qed

lemma rb_prev_ok:
  assumes "at s t []" "nodes t = xs @ a # ys"
  shows "rb_prev a s = Some (first (rev xs))"
proof (rule node_split [OF assms])
  fix c l r fs assume a: "at s (T c l a r) fs" "xs = before fs @ nodes l"
  have "rb_prev a s = Some (first (in_order Rgt l @ ahead Rgt fs))"
    unfolding neighbour_sides by (rule neighbour_at [of s rightmost Rgt climb_left c r, OF rightmost_last climb_left_last]) (use a(1) in simp_all)
  then show ?thesis using a(2) by (simp add: in_order_def ahead_def)
qed

lemma foreach_suffix: "at s t [] \<Longrightarrow> nodes t = xs @ ys \<Longrightarrow> foreach_from (first ys) s = Some ys"
proof (induction ys arbitrary: xs)
  case (Cons a ys)
  then show ?case using rb_next_ok [OF Cons.prems] Cons.IH [of "xs @ [a]"] by (subst foreach_from.simps) simp
qed (subst foreach_from.simps, simp)

lemma foreach_ok: "at s t [] \<Longrightarrow> RB_FOREACH s = Some (nodes t)"
  using foreach_suffix [of s t "[]"] rb_min_ok [of s t] by (simp add: RB_FOREACH_def)

subsection \<open>Search\<close>

lemma find_append: "find P (xs @ ys) = (case find P xs of None \<Rightarrow> find P ys | Some x \<Rightarrow> Some x)"
  by (induction xs) simp_all

context rb_order
begin

lemma find_loop_ok:
  assumes "at s t fs" "tree (nodes t)" "ok k"
  shows "find_loop cmp k (top_of t) s = Some (RB_FIND cmp k (nodes t))"
  using assms
proof (induction t arbitrary: fs)
  case E
  then show ?case by (subst find_loop.simps) (simp add: RB_FIND_def)
next
  case (T c l a r)
  have a: "rbt_heap s a = Some (ent Lft c (parent_of fs) (top_of l) (top_of r))" using T.prems(1) at_heap [of s Lft] by simp
  have ord: "tree (a # nodes r)" "tree (nodes l @ [a])" "tree (nodes l)" "tree (nodes r)"
    using T.prems(2) by (auto simp: tree_append tree_Cons)
  have sub: "at s l (F Lft c a r # fs)" "at s r (F Rgt c a l # fs)" using T.prems(1) by (simp_all add: at_move)
  have IH: "find_loop cmp k (top_of l) s = Some (RB_FIND cmp k (nodes l))" "find_loop cmp k (top_of r) s = Some (RB_FIND cmp k (nodes r))"
    using T.IH sub ord T.prems(3) by blast+
  have app: "RB_FIND cmp k (nodes l @ a # nodes r) =
      (case RB_FIND cmp k (nodes l) of Some y \<Rightarrow> Some y | None \<Rightarrow> if cmp k a = 0 then Some a else RB_FIND cmp k (nodes r))"
    unfolding RB_FIND_def by (simp add: find_append split: option.split)
  consider "cmp k a < 0" | "cmp k a > 0" | "cmp k a = 0" by linarith
  then show ?case
  proof cases
    case 1
    then have "RB_FIND cmp k (nodes r) = None" using cmp_less_trans [OF T.prems(3) ord(1) 1] by (fastforce simp: find_None)
    then show ?thesis using 1 a IH app by (subst find_loop.simps) (auto split: option.split)
  next
    case 2
    then have "RB_FIND cmp k (nodes l) = None" using cmp_greater_trans [OF T.prems(3) ord(2) 2] by (fastforce simp: find_None)
    then show ?thesis using 2 a IH app by (subst find_loop.simps) simp
  next
    case 3
    then have "RB_FIND cmp k (nodes (T c l a r)) = Some a" by (intro find_unique [OF T.prems(2,3)]) simp_all
    then show ?thesis using 3 by (subst find_loop.simps) simp
  qed
qed

lemma rb_find_ok: "at s t [] \<Longrightarrow> tree (nodes t) \<Longrightarrow> ok k \<Longrightarrow> rb_find cmp k s = Some (RB_FIND cmp k (nodes t))"
  using find_loop_ok [of s t "[]" k] at_root [of s t "[]"] by (simp add: rb_find_def)

lemma nfind_loop_ok:
  assumes "at s t fs" "tree (nodes t)" "ok k"
  shows "nfind_loop cmp k (top_of t) res s = Some (case find (\<lambda>y. cmp k y \<le> 0) (nodes t) of None \<Rightarrow> res | Some y \<Rightarrow> Some y)"
  using assms
proof (induction t arbitrary: fs res)
  case E
  then show ?case by (subst nfind_loop.simps) simp
next
  case (T c l a r)
  have a: "rbt_heap s a = Some (ent Lft c (parent_of fs) (top_of l) (top_of r))" using T.prems(1) at_heap [of s Lft] by simp
  have ord: "tree (a # nodes r)" "tree (nodes l @ [a])" "tree (nodes l)" "tree (nodes r)"
    using T.prems(2) by (auto simp: tree_append tree_Cons)
  have sub: "at s l (F Lft c a r # fs)" "at s r (F Rgt c a l # fs)" using T.prems(1) by (simp_all add: at_move)
  show ?case
  proof (cases "cmp k a < 0")
    case True
    then show ?thesis using a T.IH(1) [OF sub(1) ord(3) T.prems(3)]
      by (subst nfind_loop.simps) (auto simp: find_append split: option.split)
  next
    case False
    have "find (\<lambda>y. cmp k y \<le> 0) (nodes l) = None"
    proof (cases "cmp k a = 0")
      case True
      have "cmp k y > 0" if "y \<in> set (nodes l)" for y
        using that ord(2) True eq_cong [of k a y] antisym [of y a] T.prems(3) by (auto simp: tree_def sorted_wrt_append)
      then show ?thesis by (fastforce simp: find_None_iff)
    qed (use False cmp_greater_trans [OF T.prems(3) ord(2)] in \<open>fastforce simp: find_None_iff\<close>)
    then show ?thesis using False a T.IH(2) [OF sub(2) ord(4) T.prems(3)]
      by (subst nfind_loop.simps) (auto simp: find_append)
  qed
qed

lemma rb_nfind_ok: "at s t [] \<Longrightarrow> tree (nodes t) \<Longrightarrow> ok k \<Longrightarrow> rb_nfind cmp k s = Some (find (\<lambda>y. cmp k y \<le> 0) (nodes t))"
  using nfind_loop_ok [of s t "[]" k None] at_root [of s t "[]"] by (auto simp: rb_nfind_def split: option.split)

end

subsection \<open>Entries on the heap\<close>

text \<open>The nodes that have an entry on the heap; no operation adds or takes one away.\<close>

definition live :: "rbt_tree \<Rightarrow> rb_ptr set" where
  "live s = dom (rbt_heap s)"

lemma live_root [simp]: "live (s\<lparr>rbt_root := r\<rparr>) = live s"
  by (simp add: live_def)

lemma upd_nodes: "rbe_upd f p s = Some s' \<Longrightarrow> live s' = live s"
  by (auto simp: rbe_upd_def live_def bind_eq_Some_conv split: if_splits)

lemma bind_SomeE: "m \<bind> f = Some r \<Longrightarrow> (\<And>a. m = Some a \<Longrightarrow> f a = Some r \<Longrightarrow> P) \<Longrightarrow> P"
  by (cases m) simp_all

lemma if_SomeE: "(if b then m else n) = Some r \<Longrightarrow> (b \<Longrightarrow> m = Some r \<Longrightarrow> P) \<Longrightarrow> (\<not> b \<Longrightarrow> n = Some r \<Longrightarrow> P) \<Longrightarrow> P"
  by (cases b) simp_all

lemma pair_SomeE: "(case z of (x, y) \<Rightarrow> g x y) = Some r \<Longrightarrow> (\<And>x y. z = (x, y) \<Longrightarrow> g x y = Some r \<Longrightarrow> P) \<Longrightarrow> P"
  by (cases z) simp_all

lemma sum_SomeE: "(case z of Inl x \<Rightarrow> f x | Inr y \<Rightarrow> g y) = Some r
    \<Longrightarrow> (\<And>x. z = Inl x \<Longrightarrow> f x = Some r \<Longrightarrow> P) \<Longrightarrow> (\<And>y. z = Inr y \<Longrightarrow> g y = Some r \<Longrightarrow> P) \<Longrightarrow> P"
  by (cases z) simp_all

lemmas run_SomeE = bind_SomeE if_SomeE pair_SomeE sum_SomeE

lemma set_nodes: "rbe_set p q s = Some s' \<Longrightarrow> live s' = live s" "rbe_set_blackred p q s = Some s' \<Longrightarrow> live s' = live s"
  "blacken_if p s = Some s' \<Longrightarrow> live s' = live s" "replace_child p q r s = Some s' \<Longrightarrow> live s' = live s"
  unfolding rbe_set_def rbe_set_blackred_def blacken_if_def replace_child_def by (elim run_SomeE; auto dest!: upd_nodes)+

lemmas nodes_dest = upd_nodes set_nodes

lemma rotate_nodes: "rotate d p s = Some s' \<Longrightarrow> live s' = live s"
  unfolding rotate_def by (elim run_SomeE) (simp_all add: nodes_dest)

lemma ins_round_nodes: "ins_round d rbe p g s = Some (r, s') \<Longrightarrow> live s' = live s"
  unfolding ins_round_def by (elim run_SomeE; auto dest!: nodes_dest rotate_nodes)

lemma rem_sibling_nodes: "rem_sibling d p s = Some (x, s') \<Longrightarrow> live s' = live s"
  unfolding rem_sibling_def by (elim run_SomeE; auto dest!: nodes_dest rotate_nodes)

lemma rem_final_nodes: "rem_final d p q s = Some (x, y, z, s') \<Longrightarrow> live s' = live s"
  unfolding rem_final_def by (elim run_SomeE; auto dest!: nodes_dest rotate_nodes)

lemma rem_black_nodes: "rem_black d p q s = Some (x, y, z, s') \<Longrightarrow> live s' = live s"
  unfolding rem_black_def by (elim run_SomeE; auto dest!: nodes_dest rotate_nodes rem_final_nodes)

lemma rem_round_nodes: "rem_round d p s = Some (x, y, z, s') \<Longrightarrow> live s' = live s"
  unfolding rem_round_def by (elim run_SomeE; auto dest!: rem_sibling_nodes rem_black_nodes)

lemma insert_loop_nodes:
  assumes "insert_color_loop rbe s = Some s'"
  shows "live s' = live s"
proof (rule insert_color_loop.raw_induct [OF _ assms, where P = "\<lambda>_ s s'. live s' = live s"], elim run_SomeE)
qed (auto simp: insert_round_sides elim!: run_SomeE dest!: ins_round_nodes)

lemma remove_loop_nodes:
  assumes "remove_color_loop p rbe s = Some es"
  shows "live (snd es) = live s"
proof (rule remove_color_loop.raw_induct [OF _ assms, where P = "\<lambda>_ _ s es. live (snd es) = live s"], elim run_SomeE)
qed (auto simp: remove_round_sides elim!: run_SomeE dest!: rem_round_nodes)

lemma rb_insert_nodes: "rb_insert cmp x s = Some (r, s') \<Longrightarrow> live s' = live s"
  unfolding rb_insert_def rbe_insert_color_def
  by (elim run_SomeE; auto dest!: nodes_dest insert_loop_nodes split: sum.splits)

lemma remove_color_nodes: "rbe_remove_color p q s = Some s' \<Longrightarrow> live s' = live s"
  unfolding rbe_remove_color_def by (elim run_SomeE; auto dest!: nodes_dest remove_loop_nodes)

lemma unlink_nodes: "unlink_entry p q s = Some (a, b, s') \<Longrightarrow> live s' = live s"
  unfolding unlink_entry_def by (elim run_SomeE; auto dest!: nodes_dest)

lemma replace_entry_nodes: "replace_entry p q s = Some s' \<Longrightarrow> live s' = live s"
  unfolding replace_entry_def by (elim run_SomeE; auto dest!: nodes_dest)

lemma rb_remove_nodes: "rb_remove x s = Some (r, s') \<Longrightarrow> live s' = live s"
  unfolding rb_remove_def rbe_remove_def Let_def
  by (elim run_SomeE; auto dest!: remove_color_nodes unlink_nodes replace_entry_nodes)

end
