(* ===== verification/Rb_Spec.thy ===== *)
theory Rb_Spec
  imports Rb_Walk Demo_Domain
begin

text \<open>
  The trees of the daemon are the ordered sequences the other theories work with. A heap of
  entries holds a sequence when it represents a balanced tree with these nodes in order; the
  operations of \<open>src/openbsd_tree.c\<close> do to the heap what the operations on sequences say. For the
  MAC table of a domain the nodes are the MAC entries, compared by what their pointers lead to.
\<close>

subsection \<open>Trees as sequences\<close>

definition holds :: "rbt_tree \<Rightarrow> rb_ptr list \<Rightarrow> bool" where
  "holds s xs \<longleftrightarrow> (\<exists>t. at s t [] \<and> balanced t \<and> nodes t = xs)"

lemma holds_init: "holds (rb_init s) []"
  unfolding holds_def by (rule exI [of _ E]) (simp add: at_def rb_init_def balanced_def)

lemma holds_distinct: "holds s xs \<Longrightarrow> distinct xs"
  by (auto simp: holds_def at_def)

text \<open>Removal by pointer is removal by key: the node is the only one with its key.\<close>

context node_order
begin

lemma remove_filter: "tree xs \<Longrightarrow> x \<in> set xs \<Longrightarrow> remove1 x xs = RB_REMOVE cmp x xs"
proof (induction xs)
  case (Cons y ys)
  show ?case
  proof (cases "x = y")
    case True
    then have "cmp x z \<noteq> 0" if "z \<in> set ys" for z using Cons.prems(1) that by (auto simp: tree_Cons)
    then show ?thesis using True Cons.prems(1) cmp_refl [of y] by (simp add: RB_REMOVE_def tree_Cons filter_id_conv)
  next
    case False
    then have "x \<in> set ys" using Cons.prems(2) by simp
    then have "cmp x y \<noteq> 0" using Cons.prems(1) antisym [of x y] by (auto simp: tree_Cons tree_def)
    then show ?thesis using Cons False by (simp add: RB_REMOVE_def tree_Cons)
  qed
qed simp

end

text \<open>An insertion or removal, on the heap and on the sequence.\<close>

datatype rb_op = Insert rb_ptr | Remove rb_ptr

fun run_op :: "rb_compare \<Rightarrow> rb_op \<Rightarrow> rbt_tree \<Rightarrow> rbt_tree option" where
  "run_op cmp (Insert x) s = map_option snd (rb_insert cmp x s)"
| "run_op cmp (Remove x) s = map_option snd (rb_remove x s)"

fun run_ops :: "rb_compare \<Rightarrow> rb_op list \<Rightarrow> rbt_tree \<Rightarrow> rbt_tree option" where
  "run_ops cmp [] s = Some s"
| "run_ops cmp (op # ops) s = do { s \<leftarrow> run_op cmp op s; run_ops cmp ops s }"

fun seq_op :: "rb_compare \<Rightarrow> rb_op \<Rightarrow> rb_ptr list \<Rightarrow> rb_ptr list" where
  "seq_op cmp (Insert x) xs = RB_INSERT cmp x xs"
| "seq_op cmp (Remove x) xs = RB_REMOVE cmp x xs"

text \<open>A node is inserted while it is not in the tree, and removed while it is.\<close>

fun ops_ok :: "rb_compare \<Rightarrow> (rb_ptr \<Rightarrow> bool) \<Rightarrow> rb_op list \<Rightarrow> rb_ptr list \<Rightarrow> bool" where
  "ops_ok cmp ok [] xs \<longleftrightarrow> True"
| "ops_ok cmp ok (Insert x # ops) xs \<longleftrightarrow> ok x \<and> x \<notin> set xs \<and> ops_ok cmp ok ops (seq_op cmp (Insert x) xs)"
| "ops_ok cmp ok (Remove x # ops) xs \<longleftrightarrow> x \<in> set xs \<and> ops_ok cmp ok ops (seq_op cmp (Remove x) xs)"

context rb_order
begin

lemma insert_holds:
  assumes "holds s xs" "tree xs" "ok x" "x \<notin> set xs" "rbt_heap s x \<noteq> None"
  shows "\<exists>s'. rb_insert cmp x s = Some (RB_FIND cmp x xs, s') \<and> holds s' (RB_INSERT cmp x xs)"
proof -
  obtain t where t: "at s t []" "balanced t" "nodes t = xs" using assms(1) by (auto simp: holds_def)
  show ?thesis using rb_insert_ok [OF t(1,2), of x] assms(2-) t(3) unfolding holds_def by blast
qed

lemma remove_holds:
  assumes "holds s xs" "tree xs" "x \<in> set xs"
  shows "\<exists>s'. rb_remove x s = Some (Some x, s') \<and> holds s' (RB_REMOVE cmp x xs)"
proof -
  obtain t where t: "at s t []" "balanced t" "nodes t = xs" using assms(1) by (auto simp: holds_def)
  show ?thesis using rb_remove_ok [OF t(1,2), of x] remove_filter [OF assms(2,3)] assms(3) t(3) unfolding holds_def by auto
qed

lemma run_ops_holds:
  assumes "holds s xs" "tree xs" "ops_ok cmp ok ops xs" "\<And>x. ok x \<Longrightarrow> x \<in> live s"
  shows "\<exists>s'. run_ops cmp ops s = Some s' \<and> holds s' (fold (seq_op cmp) ops xs) \<and> tree (fold (seq_op cmp) ops xs)"
  using assms
proof (induction ops arbitrary: s xs)
  case (Cons op ops)
  show ?case
  proof (cases op)
    case (Insert x)
    then have x: "ok x" "x \<notin> set xs" "rbt_heap s x \<noteq> None" using Cons.prems(3,4) by (auto simp: live_def)
    obtain s1 where s1: "rb_insert cmp x s = Some (RB_FIND cmp x xs, s1)" "holds s1 (RB_INSERT cmp x xs)"
      using insert_holds [OF Cons.prems(1,2) x] by blast
    then show ?thesis using Cons.IH [OF s1(2) tree_insert [OF Cons.prems(2) x(1)]] Cons.prems(3,4) Insert rb_insert_nodes [OF s1(1)] by simp
  next
    case (Remove x)
    then have x: "x \<in> set xs" using Cons.prems(3) by simp
    obtain s1 where s1: "rb_remove x s = Some (Some x, s1)" "holds s1 (RB_REMOVE cmp x xs)"
      using remove_holds [OF Cons.prems(1,2) x] by blast
    then show ?thesis using Cons.IH [OF s1(2) tree_remove [OF Cons.prems(2)]] Cons.prems(3,4) Remove rb_remove_nodes [OF s1(1)] by simp
  qed
qed simp

end

subsection \<open>The height\<close>

text \<open>The search of \<open>rb_find\<close> with the nodes the key was compared with.\<close>

partial_function (option) find_trace :: "rb_compare \<Rightarrow> rb_ptr \<Rightarrow> rb_ptr option \<Rightarrow> rbt_tree \<Rightarrow> (rb_ptr option \<times> rb_ptr list) option" where
  "find_trace cmp key tmp s = (case tmp of
       None \<Rightarrow> Some (None, [])
     | Some node \<Rightarrow> (let cmp_res = cmp key node in
         if cmp_res < 0 then do { l \<leftarrow> RBE_LEFT tmp s; (r, as) \<leftarrow> find_trace cmp key l s; Some (r, node # as) }
         else if cmp_res > 0 then do { r \<leftarrow> RBE_RIGHT tmp s; (r, as) \<leftarrow> find_trace cmp key r s; Some (r, node # as) }
         else Some (Some node, [node])))"

text \<open>It returns where \<open>rb_find\<close> returns, and the same.\<close>

lemma find_trace_sound: "find_trace cmp k p s = Some y \<Longrightarrow> find_loop cmp k p s = Some (fst y)"
proof (induction rule: find_trace.raw_induct [rotated, consumes 1])
  case (1 find_trace' cmp k p s y)
  have IH: "find_loop cmp k q s = Some r" if "find_trace' cmp k q s = Some (r, as)" for q r as using 1(1) [OF that] by simp
  from 1(2) show ?case
    by (subst find_loop.simps) (auto simp: Let_def split: option.splits if_splits Option.bind_splits dest: IH)
qed

lemma find_trace_complete: "find_loop cmp k p s = Some r \<Longrightarrow> \<exists>as. find_trace cmp k p s = Some (r, as)"
proof (induction rule: find_loop.raw_induct [rotated, consumes 1])
  case (1 find_loop' cmp k p s r)
  from 1(2) show ?case
    by (subst find_trace.simps) (fastforce simp: Let_def split: option.splits if_splits Option.bind_splits dest: 1(1))
qed

lemma find_trace_loop: "map_option fst (find_trace cmp k p s) = find_loop cmp k p s"
  using find_trace_sound [of cmp k p s] find_trace_complete [of cmp k p s]
  by (cases "find_trace cmp k p s"; cases "find_loop cmp k p s") fastforce+

lemma black_size: "invh t \<Longrightarrow> 2 ^ bh t \<le> length (nodes t) + 1"
  by (induction t) auto

lemma find_trace_height:
  assumes "rep (rbt_heap s) par t" "invc t" "invh t" "find_trace cmp k (top_of t) s = Some (r, as)"
  shows "length as \<le> 2 * bh t + (if red t then 1 else 0)"
  using assms
proof (induction t arbitrary: as par)
  case E
  then show ?case by (simp add: find_trace.simps [of cmp k None])
next
  case (T c l a r)
  have "as = [a] \<or> (\<exists>bs. as = a # bs \<and> (find_trace cmp k (top_of l) s = Some (r', bs) \<or> find_trace cmp k (top_of r) s = Some (r', bs)))"
    if "find_trace cmp k (Some a) s = Some (r', as)" for r'
    using that T.prems(1) by (subst (asm) find_trace.simps) (auto simp: Let_def split: if_splits Option.bind_splits)
  then consider "as = [a]" | bs where "as = a # bs" "length bs \<le> 2 * bh l + (if red l then 1 else 0) \<or> length bs \<le> 2 * bh r + (if red r then 1 else 0)"
    using T.IH T.prems by (auto; blast)
  then show ?case using T.prems(2,3) by cases (auto split: if_splits)
qed

lemma find_trace_bound:
  assumes "holds s xs" "find_trace cmp k (rbt_root s) s = Some (r, as)"
  shows "2 ^ length as \<le> (length xs + 1) ^ 2"
proof -
  obtain t where t: "at s t []" "balanced t" "nodes t = xs" using assms(1) by (auto simp: holds_def)
  have "rep (rbt_heap s) None t" "rbt_root s = top_of t" using t(1) by (simp_all add: at_def)
  then have "length as \<le> 2 * bh t" using find_trace_height [of s None t cmp k r as] assms(2) t(2) by (simp add: balanced_def)
  then have "(2::nat) ^ length as \<le> (2 ^ bh t) ^ 2" by (simp add: power_mult [symmetric] mult.commute)
  also have "\<dots> \<le> (length xs + 1) ^ 2" using black_size [of t] t(2,3) by (intro power_mono) (simp_all add: balanced_def)
  finally show ?thesis .
qed

subsection \<open>The tree of MAC entries\<close>

text \<open>\<open>mac_rb_tree_RB_COMPARE\<close>: the comparison of the entries two pointers lead to.\<close>

definition mac_ptr_compare :: "world \<Rightarrow> mac_ptr \<Rightarrow> mac_ptr \<Rightarrow> int" where
  "mac_ptr_compare w p q = (case (w_mac w p, w_mac w q) of (Some a, Some b) \<Rightarrow> MACMsg_compare a b | _ \<Rightarrow> 0)"

definition mac_ptr_ok :: "world \<Rightarrow> mac_ptr \<Rightarrow> bool" where
  "mac_ptr_ok w p = (case w_mac w p of Some m \<Rightarrow> mac_key_ok m | None \<Rightarrow> False)"

lemma mac_ptr_okE: "mac_ptr_ok w p \<Longrightarrow> (\<And>m. w_mac w p = Some m \<Longrightarrow> mac_key_ok m \<Longrightarrow> P) \<Longrightarrow> P"
  by (auto simp: mac_ptr_ok_def split: option.splits)

interpretation mac_ptrs: rb_order "mac_ptr_compare w" "mac_ptr_ok w" for w
proof (unfold_locales; elim mac_ptr_okE)
  fix x y z a b d assume m: "w_mac w x = Some a" "mac_key_ok a" "w_mac w y = Some b" "mac_key_ok b"
  show "mac_ptr_compare w y x = - mac_ptr_compare w x y" using m mac_tree.antisym [of a b] by (simp add: mac_ptr_compare_def)
  assume "w_mac w z = Some d" "mac_key_ok d"
  then show "mac_ptr_compare w x y < 0 \<Longrightarrow> mac_ptr_compare w y z < 0 \<Longrightarrow> mac_ptr_compare w x z < 0"
    "mac_ptr_compare w x y = 0 \<Longrightarrow> mac_ptr_compare w x z = mac_ptr_compare w y z"
    using m mac_tree.trans [of a b d] mac_tree.eq_cong [of a b d] by (simp_all add: mac_ptr_compare_def)
qed

lemma mac_ptrs_tree:
  assumes "set ps \<subseteq> dom (w_mac w)"
  shows "mac_ptrs.tree w ps = mac_tree.tree (map (\<lambda>p. the (w_mac w p)) ps)"
  using assms
proof (induction ps)
  case (Cons p ps)
  then obtain m where m: "w_mac w p = Some m" by auto
  have "mac_ptr_compare w p q = MACMsg_compare m (the (w_mac w q))" if "q \<in> set ps" for q
    using that Cons.prems m by (force simp: mac_ptr_compare_def)
  moreover have "mac_ptr_ok w p = mac_key_ok m" using m by (simp add: mac_ptr_ok_def)
  ultimately show ?case using Cons m by (simp add: mac_ptrs.tree_Cons mac_tree.tree_Cons)
qed simp

lemma mac_inv_tree: "mac_inv c w \<Longrightarrow> mac_ptrs.tree w (mac_rb c w)"
  using mac_ptrs_tree [of "mac_rb c w" w] by (simp add: mac_inv_def)

text \<open>The sequence of pointers the model of the table keeps, and the operations on it.\<close>

lemma insert_ptrs:
  assumes "w_mac w p = Some m" "set ps \<subseteq> dom (w_mac w)"
  shows "map fst (RB_INSERT (\<lambda>x y. MACMsg_compare (snd x) (snd y)) (p, m) (map (\<lambda>p. (p, the (w_mac w p))) ps)) =
    RB_INSERT (mac_ptr_compare w) p ps"
  using assms by (induction ps) (auto simp: mac_ptr_compare_def comp_def)

lemma mac_rb_insert_ptrs:
  assumes "mac_inv c w" "w_mac w p = Some m"
  shows "\<exists>w'. mac_rb_insert c p w = Some w' \<and> mac_rb c w' = RB_INSERT (mac_ptr_compare w) p (mac_rb c w)"
proof -
  obtain csm where csm: "w_csm w c = Some csm" using assms(1) by (auto simp: mac_inv_def)
  moreover have "set (mac_rb c w) \<subseteq> dom (w_mac w)" using assms(1) by (simp add: mac_inv_def)
  ultimately show ?thesis using insert_ptrs [OF assms(2), of "mac_rb c w"] load_macs_inv [OF assms(1) csm] assms(2)
    by (simp add: mac_rb_insert_def)
qed

lemma mac_rb_find_ptrs:
  assumes "mac_inv c w" "w_mac w k = Some (mac_key vid addr)"
  shows "mac_rb_find c vid addr w = Some (RB_FIND (mac_ptr_compare w) k (mac_rb c w))"
proof -
  obtain csm where csm: "w_csm w c = Some csm" using assms(1) by (auto simp: mac_inv_def)
  have "map_option fst (RB_FIND (\<lambda>x y. MACMsg_compare (snd x) (snd y)) (0, mac_key vid addr) (map (\<lambda>p. (p, the (w_mac w p))) ps)) =
      RB_FIND (mac_ptr_compare w) k ps" if "set ps \<subseteq> dom (w_mac w)" for ps
    using that assms(2) by (induction ps) (auto simp: mac_ptr_compare_def RB_FIND_def)
  moreover have "set (mac_rb c w) \<subseteq> dom (w_mac w)" using assms(1) by (simp add: mac_inv_def)
  ultimately show ?thesis by (simp add: mac_rb_find_def csm load_macs_inv [OF assms(1) csm])
qed

lemma mac_rb_remove_ptrs:
  assumes "mac_inv c w" "holds s (mac_rb c w)" "p \<in> set (mac_rb c w)"
  shows "\<exists>w'. MAC_RB_REMOVE c p w = Some w' \<and> mac_rb c w' = RB_REMOVE (mac_ptr_compare w) p (mac_rb c w)"
proof -
  obtain csm m where "w_csm w c = Some csm" "w_mac w p = Some m" using assms(1,3) by (auto simp: mac_inv_def)
  moreover have "(\<lambda>q. q \<noteq> p) = (\<noteq>) p" by auto
  then have "RB_REMOVE (mac_ptr_compare w) p (mac_rb c w) = filter (\<lambda>q. q \<noteq> p) (mac_rb c w)"
    using mac_ptrs.remove_filter [OF mac_inv_tree [OF assms(1)] assms(3)] holds_distinct [OF assms(2)]
    by (simp add: distinct_remove1_removeAll removeAll_filter_not_eq)
  ultimately show ?thesis using assms(3) by (simp add: MAC_RB_REMOVE_def)
qed

text \<open>A tree of two entries, black above red.\<close>

definition demo_entries :: rbt_tree where
  "demo_entries = \<lparr>rbt_root = None, rbt_heap = (\<lambda>p. if p \<in> {1, 2, 3} then Some \<lparr>rbt_parent = None, rbt_left = None, rbt_right = None, rbt_color = 0\<rparr> else None)\<rparr>"

definition demo_tree :: rbt_tree where
  "demo_tree = \<lparr>rbt_root = Some 1, rbt_heap = [1 \<mapsto> \<lparr>rbt_parent = None, rbt_left = None, rbt_right = Some 2, rbt_color = 0\<rparr>,
     2 \<mapsto> \<lparr>rbt_parent = Some 1, rbt_left = None, rbt_right = None, rbt_color = 1\<rparr>,
     3 \<mapsto> \<lparr>rbt_parent = None, rbt_left = None, rbt_right = None, rbt_color = 0\<rparr>]\<rparr>"

lemma demo_holds: "holds demo_tree [1, 2]"
  unfolding holds_def by (rule exI [of _ "T False E 1 (T True E 2 E)"]) (simp add: at_def demo_tree_def balanced_def ent_def color_of_def)

subsection \<open>Properties\<close>

text \<open>
  C12: Whatever insertions and removals are made on a tree that was empty, in any order, each of a
  node that is not, respectively is, in the tree: every operation returns, the heap always holds a
  balanced red-black tree, and its nodes in order are the sequence the operations give. The
  comparison is that of MAC entries.
\<close>

theorem tree_ops_balanced:
  assumes "ops_ok (mac_ptr_compare w) (mac_ptr_ok w) ops []" "{p. mac_ptr_ok w p} \<subseteq> live s"
  shows "\<exists>s'. run_ops (mac_ptr_compare w) ops (rb_init s) = Some s' \<and> holds s' (fold (seq_op (mac_ptr_compare w)) ops [])"
proof -
  have "x \<in> live (rb_init s)" if "mac_ptr_ok w x" for x using assms(2) that by (auto simp: live_def rb_init_def)
  then show ?thesis using mac_ptrs.run_ops_holds [OF holds_init mac_ptrs.tree_Nil assms(1)] by blast
qed

lemma demo_ptr_ok: "mac_ptr_ok demo p \<longleftrightarrow> p \<in> {1, 2}"
  by (auto simp: mac_ptr_ok_def demo_simps mac_key_ok_def)

lemma demo_cmp: "mac_ptr_compare demo 2 (Suc 0) = 1" "mac_ptr_compare demo (Suc 0) 2 = -1"
  by (simp_all add: mac_ptr_compare_def demo_simps MACMsg_compare_def)

theorem tree_ops_balanced_witness:
  "\<exists>s'. run_ops (mac_ptr_compare demo) [Insert 2, Insert 1, Remove 2] (rb_init demo_entries) = Some s' \<and> holds s' [1]"
proof -
  have "fold (seq_op (mac_ptr_compare demo)) [Insert 2, Insert 1, Remove 2] [] = [1]"
    by (simp add: demo_cmp RB_REMOVE_def mac_ptrs.cmp_refl demo_ptr_ok)
  moreover have "ops_ok (mac_ptr_compare demo) (mac_ptr_ok demo) [Insert 2, Insert 1, Remove 2] []" by (simp add: demo_ptr_ok demo_cmp)
  moreover have "{p. mac_ptr_ok demo p} \<subseteq> live demo_entries" by (auto simp: demo_ptr_ok live_def demo_entries_def)
  ultimately show ?thesis using tree_ops_balanced by metis
qed

text \<open>
  C13: Putting an entry into the MAC table. On a heap that holds the table as a tree, \<open>rb_insert\<close>
  returns the entry that was found under the same key, or \<open>NULL\<close>, and the heap then holds what the
  insertion on the sequence gives.
\<close>

theorem mac_tree_insert_refines:
  assumes "mac_inv c w" "holds s (mac_rb c w)" "w_mac w p = Some m" "mac_key_ok m" "p \<notin> set (mac_rb c w)" "p \<in> live s"
  shows "\<exists>s' w'. rb_insert (mac_ptr_compare w) p s = Some (RB_FIND (mac_ptr_compare w) p (mac_rb c w), s')
    \<and> mac_rb_insert c p w = Some w' \<and> holds s' (mac_rb c w')"
proof -
  have "mac_ptr_ok w p" "rbt_heap s p \<noteq> None" using assms(3,4,6) by (auto simp: mac_ptr_ok_def live_def)
  then obtain s' where "rb_insert (mac_ptr_compare w) p s = Some (RB_FIND (mac_ptr_compare w) p (mac_rb c w), s')"
      "holds s' (RB_INSERT (mac_ptr_compare w) p (mac_rb c w))"
    using mac_ptrs.insert_holds [OF assms(2) mac_inv_tree [OF assms(1)] _ assms(5)] by blast
  then show ?thesis using mac_rb_insert_ptrs [OF assms(1,3)] by auto
qed

definition demo_new :: world where
  "demo_new = demo\<lparr>w_mac := (w_mac demo)(3 \<mapsto> demo_mac 0 ''PortChannel1'' 0 False), w_fresh := 4\<rparr>"

lemma demo_new_inv: "mac_inv 0 demo_new" "mac_rb 0 demo_new = [1, 2]"
  by (auto simp: demo_new_def mac_inv_def demo_simps mac_tree.tree_def mac_key_ok_def MACMsg_compare_def)

theorem mac_tree_insert_refines_witness:
  "\<exists>s' w'. rb_insert (mac_ptr_compare demo_new) 3 demo_tree = Some (None, s') \<and> mac_rb_insert 0 3 demo_new = Some w' \<and> holds s' (mac_rb 0 w')"
proof -
  have "RB_FIND (mac_ptr_compare demo_new) 3 [1, 2] = None"
    by (simp add: RB_FIND_def mac_ptr_compare_def demo_new_def demo_simps MACMsg_compare_def)
  moreover have "mac_key_ok (demo_mac 0 ''PortChannel1'' 0 False)" "w_mac demo_new 3 = Some (demo_mac 0 ''PortChannel1'' 0 False)" "3 \<in> live demo_tree"
    by (simp_all add: demo_new_def demo_mac_def mac_key_ok_def live_def demo_tree_def)
  ultimately show ?thesis using mac_tree_insert_refines [OF demo_new_inv(1), of demo_tree 3] demo_holds unfolding demo_new_inv(2) by auto
qed

text \<open>
  C14: Taking an entry out of the MAC table: \<open>rb_remove\<close> returns the entry, and the heap then holds
  the sequence without it, as a balanced tree.
\<close>

theorem mac_tree_remove_refines:
  assumes "mac_inv c w" "holds s (mac_rb c w)" "p \<in> set (mac_rb c w)"
  shows "\<exists>s' w'. rb_remove p s = Some (Some p, s') \<and> MAC_RB_REMOVE c p w = Some w' \<and> holds s' (mac_rb c w')"
  using mac_ptrs.remove_holds [OF assms(2) mac_inv_tree [OF assms(1)] assms(3)] mac_rb_remove_ptrs [OF assms] by auto

theorem mac_tree_remove_refines_witness:
  "\<exists>s' w'. rb_remove 1 demo_tree = Some (Some 1, s') \<and> MAC_RB_REMOVE 0 1 demo = Some w' \<and> holds s' (mac_rb 0 w')"
  by (rule mac_tree_remove_refines) (use demo_mac_inv demo_holds in \<open>simp_all add: demo_simps\<close>)

text \<open>
  C15: The search in the tree finds what the search in the sequence finds, \<open>RB_FOREACH\<close> visits
  the entries of the table once each in its order, and both always end.
\<close>

theorem mac_tree_search_and_walk:
  assumes "mac_inv c w" "holds s (mac_rb c w)" "w_mac w k = Some (mac_key vid addr)" "length addr = ETHER_ADDR_LEN"
  shows "rb_find (mac_ptr_compare w) k s = mac_rb_find c vid addr w \<and> RB_FOREACH s = Some (mac_rb c w)"
proof -
  obtain t where t: "at s t []" "nodes t = mac_rb c w" using assms(2) by (auto simp: holds_def)
  have "mac_ptr_ok w k" using assms(3,4) by (simp add: mac_ptr_ok_def mac_key_ok_def mac_key_def)
  then show ?thesis using mac_ptrs.rb_find_ok [OF t(1)] foreach_ok [OF t(1)] mac_inv_tree [OF assms(1)] mac_rb_find_ptrs [OF assms(1,3)] t(2)
    by simp
qed

definition demo_lookup :: world where
  "demo_lookup = demo\<lparr>w_mac := (w_mac demo)(3 \<mapsto> mac_key 10 [2, 0, 0, 0, 0, 2]), w_fresh := 4\<rparr>"

lemma demo_lookup_inv: "mac_inv 0 demo_lookup" "mac_rb 0 demo_lookup = [1, 2]"
  by (auto simp: demo_lookup_def mac_inv_def demo_simps mac_tree.tree_def mac_key_ok_def MACMsg_compare_def)

theorem mac_tree_search_and_walk_witness:
  "rb_find (mac_ptr_compare demo_lookup) 3 demo_tree = mac_rb_find 0 10 [2, 0, 0, 0, 0, 2] demo_lookup \<and> RB_FOREACH demo_tree = Some [1, 2]"
  using mac_tree_search_and_walk [OF demo_lookup_inv(1), of demo_tree 3 10 "[2, 0, 0, 0, 0, 2]"] demo_holds
  unfolding demo_lookup_inv(2) by (simp add: demo_lookup_def)

text \<open>
  C16: A search is fast whatever happened before. After any insertions and removals on a tree that
  was empty, as in \<open>tree_ops_balanced\<close>, \<open>rb_find\<close> returns, and the number of comparisons it makes
  is at most twice the logarithm, to base two, of the number of entries plus one.
\<close>

theorem search_comparisons:
  assumes "ops_ok (mac_ptr_compare w) (mac_ptr_ok w) ops []" "{p. mac_ptr_ok w p} \<subseteq> live s" "mac_ptr_ok w k"
  shows "\<exists>s' r as. run_ops (mac_ptr_compare w) ops (rb_init s) = Some s' \<and> rb_find (mac_ptr_compare w) k s' = Some r
    \<and> find_trace (mac_ptr_compare w) k (rbt_root s') s' = Some (r, as)
    \<and> 2 ^ length as \<le> (length (fold (seq_op (mac_ptr_compare w)) ops []) + 1) ^ 2"
proof -
  let ?xs = "fold (seq_op (mac_ptr_compare w)) ops []"
  have "x \<in> live (rb_init s)" if "mac_ptr_ok w x" for x using assms(2) that by (auto simp: live_def rb_init_def)
  then obtain s' where s': "run_ops (mac_ptr_compare w) ops (rb_init s) = Some s'" "holds s' ?xs" "mac_ptrs.tree w ?xs"
    using mac_ptrs.run_ops_holds [OF holds_init mac_ptrs.tree_Nil assms(1)] by blast
  then obtain t where t: "at s' t []" "nodes t = ?xs" by (auto simp: holds_def)
  have r: "rb_find (mac_ptr_compare w) k s' = Some (RB_FIND (mac_ptr_compare w) k ?xs)"
    using mac_ptrs.rb_find_ok [OF t(1) _ assms(3)] t(2) s'(3) by simp
  obtain as where "find_trace (mac_ptr_compare w) k (rbt_root s') s' = Some (RB_FIND (mac_ptr_compare w) k ?xs, as)"
    using find_trace_complete r unfolding rb_find_def by blast
  then show ?thesis using s'(1) r find_trace_bound [OF s'(2)] by blast
qed

theorem search_comparisons_witness:
  "\<exists>s' r as. run_ops (mac_ptr_compare demo) [Insert 2, Insert 1] (rb_init demo_entries) = Some s' \<and> rb_find (mac_ptr_compare demo) 1 s' = Some r
    \<and> find_trace (mac_ptr_compare demo) 1 (rbt_root s') s' = Some (r, as) \<and> 2 ^ length as \<le> ((3 :: nat) ^ 2)"
proof -
  have "length (fold (seq_op (mac_ptr_compare demo)) [Insert 2, Insert 1] []) = 2" by (simp add: demo_cmp)
  moreover have "ops_ok (mac_ptr_compare demo) (mac_ptr_ok demo) [Insert 2, Insert 1] []" by (simp add: demo_ptr_ok demo_cmp)
  moreover have "{p. mac_ptr_ok demo p} \<subseteq> live demo_entries" by (auto simp: demo_ptr_ok live_def demo_entries_def)
  moreover have "mac_ptr_ok demo 1" by (simp add: demo_ptr_ok)
  ultimately show ?thesis using search_comparisons [of demo "[Insert 2, Insert 1]" demo_entries 1] by simp
qed

end
