(* ===== verification/Mclagd_Ctl.thy ===== *)
theory Mclagd_Ctl
  imports Iccp_Port C_Strings
begin

text \<open>
  The control socket of the daemon: the requests of \<open>mclagdctl\<close> (\<open>src/mlacp_link_handler.c\<close>), the
  tables sent in reply (\<open>src/iccp_cmd_show.c\<close>, layout in \<open>src/mclagdctl/mclagdctl.h\<close>) and the log
  level they can set (\<open>src/logger.c\<close>).

  The table of a reply is built in a buffer that grows by 4096 bytes when the next entry would not
  fit; the model keeps the size of the buffer and the bytes written behind the header, and writing
  behind its end is undefined. Structures are sent as they lie in memory, with the padding of the
  host. A name copied with \<open>memcpy\<close> is the string it holds, the bytes after its terminator are 0.
  \<open>select\<close> and \<open>read\<close> on the client socket are a list of results: nothing for an error or a time-out,
  otherwise the bytes that have arrived.
\<close>

subsection \<open>Log level\<close>

record LoggerConfig =
  console_log_enabled :: u8
  log_level :: u8
  logger_init :: u8

abbreviation (input) NOTICE_LOG_LEVEL :: u8 where "NOTICE_LOG_LEVEL \<equiv> 3"

definition log_level_to_string :: "int \<Rightarrow> string" where
  "log_level_to_string level =
     (if level = 0 then ''CRITICAL'' else if level = 1 then ''ERROR'' else if level = 2 then ''WARN''
      else if level = 3 then ''NOTICE'' else if level = 4 then ''INFO'' else if level = 5 then ''DEBUG'' else ''INFO'')"

definition logger_get_configuration :: "LoggerConfig \<Rightarrow> LoggerConfig" where
  "logger_get_configuration config =
     (if logger_init config = 0 then \<lparr>console_log_enabled = 0, log_level = NOTICE_LOG_LEVEL, logger_init = 1\<rparr> else config)"

definition logger_set_configuration :: "int \<Rightarrow> LoggerConfig \<Rightarrow> LoggerConfig" where
  "logger_set_configuration level config = (logger_get_configuration config)\<lparr>log_level := of_int level, logger_init := 1\<rparr>"

definition log_init :: "u8 \<Rightarrow> LoggerConfig \<Rightarrow> LoggerConfig" where
  "log_init console_log config = (logger_get_configuration config)\<lparr>console_log_enabled := console_log\<rparr>"

text \<open>
  \<open>write_log\<close>: the bytes handed to \<open>syslog\<close>, nothing if the level is not logged. The message \<open>msg\<close> is
  what the format and its arguments give. The terminator is stored at the end of the text, with the
  length cut to the space that is left; a store behind the buffer is undefined.
\<close>

abbreviation (input) LOGBUF_SIZE :: nat where "LOGBUF_SIZE \<equiv> 1024"

definition write_log :: "int \<Rightarrow> string \<Rightarrow> string \<Rightarrow> LoggerConfig \<Rightarrow> string option option" where
  "write_log level tag msg config = (let config = logger_get_configuration config in
     if level > uint (log_level config) then Some None
     else (let
         prefix = ''['' @ tag @ ''.'' @ log_level_to_string level @ ''] '';
         prefix_len = length prefix;
         avbl_buf_len = LOGBUF_SIZE - prefix_len;
         print_len = min (length msg) avbl_buf_len
       in if prefix_len \<ge> LOGBUF_SIZE \<or> prefix_len + print_len \<ge> LOGBUF_SIZE then None
          else Some (Some (prefix @ take print_len msg))))"

subsection \<open>Structures of the replies\<close>

abbreviation (input) MCLAGDCTL_CMD_SIZE :: nat where "MCLAGDCTL_CMD_SIZE \<equiv> 4096"
abbreviation (input) MCLAGDCTL_PORT_MEMBER_BUF_LEN :: nat where "MCLAGDCTL_PORT_MEMBER_BUF_LEN \<equiv> 512"
abbreviation (input) MCLAGDCTL_PARA3_LEN :: nat where "MCLAGDCTL_PARA3_LEN \<equiv> 64"
abbreviation (input) MCLAGD_REPLY_INFO_HDR :: nat where "MCLAGD_REPLY_INFO_HDR \<equiv> 16"
abbreviation (input) ICCP_MAX_PORT_NAME :: nat where "ICCP_MAX_PORT_NAME \<equiv> 20"

abbreviation (input) EXEC_TYPE_SUCCESS :: int where "EXEC_TYPE_SUCCESS \<equiv> - 1"
abbreviation (input) EXEC_TYPE_NO_EXIST_SYS :: int where "EXEC_TYPE_NO_EXIST_SYS \<equiv> - 2"
abbreviation (input) EXEC_TYPE_NO_EXIST_MCLAGID :: int where "EXEC_TYPE_NO_EXIST_MCLAGID \<equiv> - 3"
abbreviation (input) EXEC_TYPE_FAILED :: int where "EXEC_TYPE_FAILED \<equiv> - 4"

abbreviation (input) INFO_TYPE_DUMP_STATE :: int where "INFO_TYPE_DUMP_STATE \<equiv> 1"
abbreviation (input) INFO_TYPE_DUMP_ARP :: int where "INFO_TYPE_DUMP_ARP \<equiv> 2"
abbreviation (input) INFO_TYPE_DUMP_NDISC :: int where "INFO_TYPE_DUMP_NDISC \<equiv> 3"
abbreviation (input) INFO_TYPE_DUMP_MAC :: int where "INFO_TYPE_DUMP_MAC \<equiv> 4"
abbreviation (input) INFO_TYPE_DUMP_UNIQUE_IP :: int where "INFO_TYPE_DUMP_UNIQUE_IP \<equiv> 5"
abbreviation (input) INFO_TYPE_DUMP_LOCAL_PORTLIST :: int where "INFO_TYPE_DUMP_LOCAL_PORTLIST \<equiv> 6"
abbreviation (input) INFO_TYPE_DUMP_PEER_PORTLIST :: int where "INFO_TYPE_DUMP_PEER_PORTLIST \<equiv> 7"
abbreviation (input) INFO_TYPE_DUMP_DBG_COUNTERS :: int where "INFO_TYPE_DUMP_DBG_COUNTERS \<equiv> 8"
abbreviation (input) INFO_TYPE_CONFIG_LOGLEVEL :: int where "INFO_TYPE_CONFIG_LOGLEVEL \<equiv> 9"

definition put_int :: "int \<Rightarrow> bytes" where
  "put_int i = le32 (of_int i)"

definition le64 :: "u64 \<Rightarrow> bytes" where
  "le64 x = map (\<lambda>k. byte_of k x) [0..<8]"

lemma length_put [simp]: "length (put_int i) = 4" "length (le64 x) = 8"
  by (simp_all add: put_int_def le64_def)

record mclagd_state =
  st_mclag_id :: int
  st_keepalive :: int
  st_info_sync_done :: int
  st_local_ip :: string
  st_peer_ip :: string
  st_peer_link_if :: string
  st_peer_link_mac :: bytes
  st_role :: int
  st_enabled_po :: string
  st_session_timeout :: int
  st_keepalive_time :: int
  st_loglevel :: string

definition put_mclagd_state :: "mclagd_state \<Rightarrow> bytes" where
  "put_mclagd_state x = put_int (st_mclag_id x) @ put_int (st_keepalive x) @ put_int (st_info_sync_done x)
     @ cfield 32 (st_local_ip x) @ cfield 32 (st_peer_ip x) @ cfield 32 (st_peer_link_if x) @ st_peer_link_mac x @ [0, 0]
     @ put_int (st_role x) @ cfield 512 (st_enabled_po x) @ put_int (st_session_timeout x) @ put_int (st_keepalive_time x)
     @ cfield 16 (st_loglevel x)"

record mclagd_arp_msg =
  ca_op_type :: u8
  ca_ifname :: string
  ca_ipv4_addr :: string
  ca_mac_addr :: bytes
  ca_learn_flag :: u8

definition put_mclagd_arp_msg :: "mclagd_arp_msg \<Rightarrow> bytes" where
  "put_mclagd_arp_msg x = [ca_op_type x] @ cfield 32 (ca_ifname x) @ cfield 32 (ca_ipv4_addr x) @ ca_mac_addr x @ [ca_learn_flag x]"

record mclagd_ndisc_msg =
  cn_op_type :: u8
  cn_ifname :: string
  cn_ipv6_addr :: string
  cn_mac_addr :: bytes
  cn_learn_flag :: u8

definition put_mclagd_ndisc_msg :: "mclagd_ndisc_msg \<Rightarrow> bytes" where
  "put_mclagd_ndisc_msg x = [cn_op_type x] @ cfield 32 (cn_ifname x) @ cfield 64 (cn_ipv6_addr x) @ cn_mac_addr x @ [cn_learn_flag x]"

record mclagd_mac_msg =
  cm_op_type :: u8
  cm_fdb_type :: u8
  cm_mac_addr :: bytes
  cm_vid :: u16
  cm_ifname :: string
  cm_origin_ifname :: string
  cm_age_flag :: u8

definition put_mclagd_mac_msg :: "mclagd_mac_msg \<Rightarrow> bytes" where
  "put_mclagd_mac_msg x = [cm_op_type x, cm_fdb_type x] @ cm_mac_addr x @ le16 (cm_vid x) @ cfield 32 (cm_ifname x)
     @ cfield 32 (cm_origin_ifname x) @ [cm_age_flag x, 0]"

record mclagd_local_if =
  cl_ifindex :: int
  cl_type :: string
  cl_name :: string
  cl_mac_addr :: bytes
  cl_state :: string
  cl_ipv4_addr :: string
  cl_prefixlen :: u8
  cl_l3_mode :: u8
  cl_is_peer_link :: u8
  cl_portchannel_member_buf :: string
  cl_po_id :: int
  cl_po_active :: u8
  cl_mlacp_state :: string
  cl_isolate_to_peer_link :: u8
  cl_is_traffic_disable :: bool
  cl_vlanlist :: string

definition put_bool :: "bool \<Rightarrow> u8" where
  "put_bool b = (if b then 1 else 0)"

definition put_mclagd_local_if :: "mclagd_local_if \<Rightarrow> bytes" where
  "put_mclagd_local_if x = put_int (cl_ifindex x) @ cfield 16 (cl_type x) @ cfield 32 (cl_name x) @ cl_mac_addr x @ cfield 16 (cl_state x)
     @ cfield 32 (cl_ipv4_addr x) @ [cl_prefixlen x, cl_l3_mode x, cl_is_peer_link x] @ cfield 512 (cl_portchannel_member_buf x) @ [0, 0, 0]
     @ put_int (cl_po_id x) @ [cl_po_active x] @ cfield 16 (cl_mlacp_state x) @ [cl_isolate_to_peer_link x, put_bool (cl_is_traffic_disable x)]
     @ cfield 64 (cl_vlanlist x) @ [0]"

record mclagd_peer_if =
  cp_ifindex :: int
  cp_type :: string
  cp_name :: string
  cp_mac_addr :: bytes
  cp_state :: string
  cp_po_id :: int
  cp_po_active :: u8

definition put_mclagd_peer_if :: "mclagd_peer_if \<Rightarrow> bytes" where
  "put_mclagd_peer_if x = put_int (cp_ifindex x) @ cfield 16 (cp_type x) @ cfield 32 (cp_name x) @ cp_mac_addr x @ cfield 16 (cp_state x)
     @ [0, 0] @ put_int (cp_po_id x) @ [cp_po_active x, 0, 0, 0]"

record mclagd_unique_ip_if =
  cu_active :: int
  cu_name :: string

definition put_mclagd_unique_ip_if :: "mclagd_unique_ip_if \<Rightarrow> bytes" where
  "put_mclagd_unique_ip_if x = put_int (cu_active x) @ cfield 32 (cu_name x)"

abbreviation (input) sizeof_mclagd_state :: nat where "sizeof_mclagd_state \<equiv> 656"
abbreviation (input) sizeof_mclagd_arp_msg :: nat where "sizeof_mclagd_arp_msg \<equiv> 72"
abbreviation (input) sizeof_mclagd_ndisc_msg :: nat where "sizeof_mclagd_ndisc_msg \<equiv> 104"
abbreviation (input) sizeof_mclagd_mac_msg :: nat where "sizeof_mclagd_mac_msg \<equiv> 76"
abbreviation (input) sizeof_mclagd_local_if :: nat where "sizeof_mclagd_local_if \<equiv> 712"
abbreviation (input) sizeof_mclagd_peer_if :: nat where "sizeof_mclagd_peer_if \<equiv> 84"
abbreviation (input) sizeof_mclagd_unique_ip_if :: nat where "sizeof_mclagd_unique_ip_if \<equiv> 36"

subsection \<open>The buffer of a reply\<close>

type_synonym dump = "nat \<times> nat \<times> bytes"

text \<open>An entry is written behind the others; then the buffer grows unless one more entry fits.\<close>

definition dump_entry :: "nat \<Rightarrow> bytes \<Rightarrow> dump \<Rightarrow> world \<Rightarrow> (bool \<times> dump \<times> world) option" where
  "dump_entry sz bs d w = (case d of (bsize, num, data) \<Rightarrow>
     if MCLAGD_REPLY_INFO_HDR + num * sz + sz > bsize then None
     else (let num = num + 1; data = data @ bs in
       if (num + 1) * sz > bsize - MCLAGD_REPLY_INFO_HDR
       then (let (ok, w) = malloc_ok w in Some (ok, (bsize + MCLAGDCTL_CMD_SIZE, num, data), w))
       else Some (True, (bsize, num, data), w)))"

primrec dump_entries :: "nat \<Rightarrow> ('e \<Rightarrow> bytes option) \<Rightarrow> 'e list \<Rightarrow> dump \<Rightarrow> world \<Rightarrow> (bool \<times> dump \<times> world) option" where
  "dump_entries sz enc [] d w = Some (True, d, w)"
| "dump_entries sz enc (x # xs) d w = do {
     bs \<leftarrow> enc x;
     (ok, d, w) \<leftarrow> dump_entry sz bs d w;
     if ok then dump_entries sz enc xs d w else Some (False, d, w) }"

text \<open>
  The domains, all of them or the one asked for: whether no allocation failed, whether the domain asked
  for was found, and what a domain leaves behind for the next one (\<open>'s\<close>).
\<close>

primrec dump_domains :: "(CSM \<Rightarrow> 's \<Rightarrow> dump \<Rightarrow> world \<Rightarrow> (bool \<times> 's \<times> dump \<times> world) option) \<Rightarrow> int \<Rightarrow> csm_ptr list \<Rightarrow> bool \<Rightarrow> 's \<Rightarrow> dump
    \<Rightarrow> world \<Rightarrow> (bool \<times> bool \<times> dump \<times> world) option" where
  "dump_domains f mclag_id [] id_exist s d w = Some (True, id_exist, d, w)"
| "dump_domains f mclag_id (c # cs) id_exist s d w = do {
     csm \<leftarrow> w_csm w c;
     if mclag_id > 0 \<and> csm_mlag_id csm \<noteq> mclag_id then dump_domains f mclag_id cs id_exist s d w
     else do {
       (ok, s, d, w) \<leftarrow> f csm s d w;
       let id_exist = (id_exist \<or> mclag_id > 0);
       if ok then dump_domains f mclag_id cs id_exist s d w else Some (False, id_exist, d, w) } }"

text \<open>The return value, the number of entries and the entries.\<close>

definition iccp_dump :: "(CSM \<Rightarrow> 's \<Rightarrow> dump \<Rightarrow> world \<Rightarrow> (bool \<times> 's \<times> dump \<times> world) option) \<Rightarrow> 's \<Rightarrow> int \<Rightarrow> world
    \<Rightarrow> (int \<times> nat \<times> bytes \<times> world) option" where
  "iccp_dump f s mclag_id w = (let (ok, w) = malloc_ok w in
     if \<not> ok then Some (EXEC_TYPE_FAILED, 0, [], w)
     else do {
       (ok, id_exist, (bsize, num, data), w) \<leftarrow> dump_domains f mclag_id (sys_csm_list (w_sys w)) False s (MCLAGDCTL_CMD_SIZE, 0, []) w;
       Some (if \<not> ok then EXEC_TYPE_FAILED else if mclag_id > 0 \<and> \<not> id_exist then EXEC_TYPE_NO_EXIST_MCLAGID else EXEC_TYPE_SUCCESS,
         num, data, w) })"

text \<open>A domain that contributes a list of entries and leaves nothing behind.\<close>

definition dump_list :: "nat \<Rightarrow> (CSM \<Rightarrow> 'e list) \<Rightarrow> ('e \<Rightarrow> world \<Rightarrow> bytes option) \<Rightarrow> CSM \<Rightarrow> unit \<Rightarrow> dump \<Rightarrow> world \<Rightarrow> (bool \<times> unit \<times> dump \<times> world) option" where
  "dump_list sz entries enc csm s d w = do {
     (ok, d, w) \<leftarrow> dump_entries sz (\<lambda>x. enc x w) (entries csm) d w;
     Some (ok, (), d, w) }"

subsection \<open>Texts of fixed size\<close>

text \<open>
  An array of characters; \<open>snprintf (arr + off, n, ...)\<close> of the text \<open>s\<close> stores as many characters as
  fit and a terminator. A size that is not positive would be taken for a huge one.
\<close>

definition snprintf_at :: "int \<Rightarrow> int \<Rightarrow> string \<Rightarrow> string \<Rightarrow> string option" where
  "snprintf_at off n s arr = (if off < 0 \<or> n \<le> 0 \<or> off + n > int (length arr) then None
     else (let t = take (nat n - 1) s @ [CHR 0x00]; i = nat off in Some (take i arr @ t @ drop (i + length t) arr)))"

definition strlen :: "string \<Rightarrow> nat" where
  "strlen arr = length (takeWhile (\<lambda>c. c \<noteq> CHR 0x00) arr)"

text \<open>\<open>inet_ntop\<close> for both address families.\<close>

definition show_ip_str :: "u32 \<Rightarrow> string" where
  "show_ip_str ipv4_addr = show_nat (unat (byte_of 0 ipv4_addr)) @ ''.'' @ show_nat (unat (byte_of 1 ipv4_addr)) @ ''.''
     @ show_nat (unat (byte_of 2 ipv4_addr)) @ ''.'' @ show_nat (unat (byte_of 3 ipv4_addr))"

fun show_hex :: "nat \<Rightarrow> string" where
  "show_hex n = (if n < 16 then [digit_char n] else show_hex (n div 16) @ [digit_char (n mod 16)])"

declare show_hex.simps [simp del]

definition word_at :: "bytes \<Rightarrow> nat \<Rightarrow> nat" where
  "word_at a i = unat (a ! (2 * i)) * 256 + unat (a ! (2 * i + 1))"

text \<open>The first of the longest runs of zero words, of at least two: where it starts and its length.\<close>

definition zero_run :: "bytes \<Rightarrow> nat \<Rightarrow> nat" where
  "zero_run a i = length (takeWhile (\<lambda>j. word_at a j = 0) [i..<8])"

definition best_run :: "bytes \<Rightarrow> nat \<times> nat" where
  "best_run a = foldl (\<lambda>(b, n) i. if zero_run a i > n \<and> zero_run a i \<ge> 2 then (i, zero_run a i) else (b, n)) (8, 0) [0..<8]"

fun show_words :: "bytes \<Rightarrow> nat \<times> nat \<Rightarrow> nat list \<Rightarrow> string" where
  "show_words a (b, n) [] = (if n > 0 \<and> b + n = 8 then '':'' else [])"
| "show_words a (b, n) (i # is) =
     (if b \<le> i \<and> i < b + n then (if i = b then '':'' else []) @ show_words a (b, n) is
      else (if i \<noteq> 0 then '':'' else []) @ (
        if i = 6 \<and> b = 0 \<and> (n = 6 \<or> n = 5 \<and> word_at a 5 = 0xffff)
        then show_ip_str (mk32 (a ! 12) (a ! 13) (a ! 14) (a ! 15))
        else show_hex (word_at a i) @ show_words a (b, n) is))"

definition show_ipv6_str :: "bytes \<Rightarrow> string" where
  "show_ipv6_str a = show_words a (best_run a) [0..<8]"

subsection \<open>The tables\<close>

text \<open>
  The interfaces of a domain. \<open>len\<close> is the place of the next name in \<open>enabled_po\<close>; it is set to 0
  before the first domain only.
\<close>

primrec enabled_po_names :: "lif_ptr list \<Rightarrow> int \<Rightarrow> string \<Rightarrow> world \<Rightarrow> (int \<times> string) option" where
  "enabled_po_names [] len arr w = Some (len, arr)"
| "enabled_po_names (l # ls) len arr w = do {
     lif \<leftarrow> w_lif w l;
     if int MCLAGDCTL_PORT_MEMBER_BUF_LEN - len < int ICCP_MAX_PORT_NAME then Some (len, arr)
     else if lif_type lif = IF_T_PORT_CHANNEL then do {
       arr \<leftarrow> snprintf_at len (int MCLAGDCTL_PORT_MEMBER_BUF_LEN - len) (lif_name lif @ '','') arr;
       enabled_po_names ls (len + int (length (lif_name lif) + 1)) arr w }
     else enabled_po_names ls len arr w }"

definition enabled_po :: "lif_ptr list \<Rightarrow> int \<Rightarrow> world \<Rightarrow> (int \<times> string) option" where
  "enabled_po ls len w = do {
     (_, arr) \<leftarrow> enabled_po_names ls len (replicate MCLAGDCTL_PORT_MEMBER_BUF_LEN CHR 0x00) w;
     let len = strlen arr;
     Some (int len, if len > 0 then arr[len - 1 := CHR 0x00] else arr) }"

definition role_num :: "stp_role_type \<Rightarrow> int" where
  "role_num r = (case r of STP_ROLE_NONE \<Rightarrow> 0 | STP_ROLE_ACTIVE \<Rightarrow> 1 | STP_ROLE_STANDBY \<Rightarrow> 2)"

definition state_info :: "LoggerConfig \<Rightarrow> CSM \<Rightarrow> int \<Rightarrow> world \<Rightarrow> (int \<times> mclagd_state) option" where
  "state_info config csm len w = do {
     p \<leftarrow> local_if_find_by_name (csm_peer_itf_name csm) w;
     (peer, mac) \<leftarrow> (case p of None \<Rightarrow> Some (''Unknown'', replicate 6 0)
       | Some q \<Rightarrow> do { lif \<leftarrow> w_lif w q; Some (lif_name lif, lif_mac_addr lif) });
     (len, names) \<leftarrow> enabled_po (ml_lif_list (MLACP csm)) len w;
     Some (len, \<lparr>
         st_mclag_id = (if csm_mlag_id csm \<le> 0 then - 1 else csm_mlag_id csm),
         st_keepalive = (if csm_current_state csm = ICCP_OPERATIONAL then 1 else 0),
         st_info_sync_done = (if ml_current_state (MLACP csm) = MLACP_STATE_EXCHANGE then 1 else 0),
         st_local_ip = csm_sender_ip csm, st_peer_ip = csm_peer_ip csm, st_peer_link_if = peer, st_peer_link_mac = mac,
         st_role = role_num (csm_role_type csm), st_enabled_po = names, st_session_timeout = csm_session_timeout csm,
         st_keepalive_time = csm_keepalive_time csm,
         st_loglevel = log_level_to_string (uint (log_level (logger_get_configuration config)))\<rparr>) }"

definition dump_state :: "LoggerConfig \<Rightarrow> CSM \<Rightarrow> int \<Rightarrow> dump \<Rightarrow> world \<Rightarrow> (bool \<times> int \<times> dump \<times> world) option" where
  "dump_state config csm len d w = do {
     (len, info) \<leftarrow> state_info config csm len w;
     (ok, d, w) \<leftarrow> dump_entry sizeof_mclagd_state (put_mclagd_state info) d w;
     Some (ok, len, d, w) }"

definition iccp_mclag_config_dump :: "LoggerConfig \<Rightarrow> int \<Rightarrow> world \<Rightarrow> (int \<times> nat \<times> bytes \<times> world) option" where
  "iccp_mclag_config_dump config = iccp_dump (dump_state config) 0"

text \<open>\<open>memcpy (field, name, strlen (name))\<close> into a member of 32 bytes.\<close>

definition fits :: "string \<Rightarrow> bool" where
  "fits name \<longleftrightarrow> length name \<le> 32"

definition arp_info :: "ARPMsg \<Rightarrow> mclagd_arp_msg" where
  "arp_info m = \<lparr>ca_op_type = arp_op_type m, ca_ifname = arp_ifname m, ca_ipv4_addr = show_ip_str (arp_ipv4_addr m),
     ca_mac_addr = arp_mac_addr m, ca_learn_flag = arp_learn_flag m\<rparr>"

definition arp_entry :: "ARPMsg \<Rightarrow> world \<Rightarrow> bytes option" where
  "arp_entry m w = (if fits (arp_ifname m) then Some (put_mclagd_arp_msg (arp_info m)) else None)"

definition iccp_arp_dump :: "int \<Rightarrow> world \<Rightarrow> (int \<times> nat \<times> bytes \<times> world) option" where
  "iccp_arp_dump = iccp_dump (dump_list sizeof_mclagd_arp_msg (\<lambda>csm. ml_arp_list (MLACP csm)) arp_entry) ()"

definition ndisc_info :: "NDISCMsg \<Rightarrow> mclagd_ndisc_msg" where
  "ndisc_info m = \<lparr>cn_op_type = nd_op_type m, cn_ifname = nd_ifname m, cn_ipv6_addr = show_ipv6_str (nd_ipv6_addr m),
     cn_mac_addr = nd_mac_addr m, cn_learn_flag = nd_learn_flag m\<rparr>"

definition ndisc_entry :: "NDISCMsg \<Rightarrow> world \<Rightarrow> bytes option" where
  "ndisc_entry m w = (if fits (nd_ifname m) then Some (put_mclagd_ndisc_msg (ndisc_info m)) else None)"

definition iccp_ndisc_dump :: "int \<Rightarrow> world \<Rightarrow> (int \<times> nat \<times> bytes \<times> world) option" where
  "iccp_ndisc_dump = iccp_dump (dump_list sizeof_mclagd_ndisc_msg (\<lambda>csm. ml_ndisc_list (MLACP csm)) ndisc_entry) ()"

definition mac_info :: "MACMsg \<Rightarrow> mclagd_mac_msg" where
  "mac_info m = \<lparr>cm_op_type = mac_op_type m, cm_fdb_type = mac_fdb_type m, cm_mac_addr = mac_addr m, cm_vid = mac_vid m,
     cm_ifname = mac_ifname m, cm_origin_ifname = mac_origin_ifname m, cm_age_flag = mac_age_flag m\<rparr>"

definition mac_entry :: "mac_ptr \<Rightarrow> world \<Rightarrow> bytes option" where
  "mac_entry p w = do {
     m \<leftarrow> w_mac w p;
     if fits (mac_ifname m) \<and> fits (mac_origin_ifname m) then Some (put_mclagd_mac_msg (mac_info m)) else None }"

definition iccp_mac_dump :: "int \<Rightarrow> world \<Rightarrow> (int \<times> nat \<times> bytes \<times> world) option" where
  "iccp_mac_dump = iccp_dump (dump_list sizeof_mclagd_mac_msg (\<lambda>csm. ml_mac_rb (MLACP csm)) mac_entry) ()"

text \<open>
  The list of VLANs, consecutive ones as a range, in an array of 64 characters of which 63 are used:
  place of the next text, previous VLAN, whether a range is open, whether its end is still to be
  printed.
\<close>

abbreviation (input) VLAN_STR_SIZE :: int where "VLAN_STR_SIZE \<equiv> int MCLAGDCTL_PARA3_LEN - 1"

fun vlan_texts :: "VLAN_ID list \<Rightarrow> int \<Rightarrow> int \<Rightarrow> bool \<Rightarrow> bool \<Rightarrow> string \<Rightarrow> (int \<times> int \<times> bool \<times> bool \<times> string) option" where
  "vlan_texts [] len prev rng pending arr = Some (len, prev, rng, pending, arr)"
| "vlan_texts (v # vs) len prev rng pending arr =
     (let vid = uint (vlan_vid v) in
      if VLAN_STR_SIZE - len < 4 then Some (len, prev, rng, pending, arr)
      else if prev = 0 \<or> vid \<noteq> prev + 1 then
        (if rng \<and> VLAN_STR_SIZE - len < 12 then Some (len, prev, rng, pending, arr)
         else do {
           let text = (if rng then ''- '' @ show_int prev @ '' '' else []);
           arr \<leftarrow> (if rng then snprintf_at len (VLAN_STR_SIZE - len) text arr else Some arr);
           let len = len + int (length text);
           let text = show_int vid @ '' '';
           arr \<leftarrow> snprintf_at len (VLAN_STR_SIZE - len) text arr;
           vlan_texts vs (len + int (length text)) vid False False arr })
      else vlan_texts vs len vid True True arr)"

definition vlan_list :: "VLAN_ID list \<Rightarrow> string option" where
  "vlan_list vs = do {
     (len, prev, rng, pending, arr) \<leftarrow> vlan_texts vs 0 0 False False (replicate MCLAGDCTL_PARA3_LEN CHR 0x00);
     if pending \<and> VLAN_STR_SIZE - len > (if rng then 12 else 4) \<and> prev \<noteq> 0
     then snprintf_at len (VLAN_STR_SIZE - len) ((if rng then ''- '' else []) @ show_int prev @ '' '') arr
     else Some arr }"

definition port_state_text :: "u8 \<Rightarrow> string" where
  "port_state_text s = (if s = PORT_STATE_UP then ''Up'' else if s = PORT_STATE_DOWN then ''Down''
     else if s = 2 then ''Admin-down'' else if s = 3 then ''Test'' else [])"

definition mlacp_state_text :: "int \<Rightarrow> string" where
  "mlacp_state_text s = (if s = 0 then ''INIT'' else if s = 1 then ''STAGE1'' else if s = 2 then ''STAGE2''
     else if s = 3 then ''EXCHANGE'' else if s = 4 then ''ERROR'' else [])"

definition if_type_text :: "string \<Rightarrow> int \<Rightarrow> string" where
  "if_type_text unknown t = (if t = IF_T_UNKNOW then unknown else if t = IF_T_PORT then ''Ethernet''
     else if t = IF_T_PORT_CHANNEL then ''PortChannel'' else [])"

definition local_if_info :: "string \<Rightarrow> LocalInterface \<Rightarrow> mclagd_local_if option" where
  "local_if_info unknown lif = do {
     vlans \<leftarrow> vlan_list (lif_vlan_tree lif);
     Some \<lparr>cl_ifindex = lif_ifindex lif, cl_type = if_type_text unknown (lif_type lif), cl_name = lif_name lif,
       cl_mac_addr = lif_mac_addr lif, cl_state = port_state_text (lif_state lif),
       cl_ipv4_addr = show_ip_str (lif_ipv4_addr lif), cl_prefixlen = lif_prefixlen lif,
       cl_l3_mode = put_bool (local_if_is_l3_mode lif), cl_is_peer_link = lif_is_peer_link lif,
       cl_portchannel_member_buf = lif_portchannel_member_buf lif, cl_po_id = lif_po_id lif, cl_po_active = lif_po_active lif,
       cl_mlacp_state = mlacp_state_text (lif_mlacp_state lif), cl_isolate_to_peer_link = lif_isolate_to_peer_link lif,
       cl_is_traffic_disable = lif_is_traffic_disable lif, cl_vlanlist = vlans\<rparr> }"

text \<open>The interfaces of the domain, named \<open>Unknow\<close> if they have no type, then its peer link.\<close>

definition local_ifs :: "CSM \<Rightarrow> (string \<times> lif_ptr) list" where
  "local_ifs csm = map (Pair ''Unknow'') (ml_lif_list (MLACP csm))
     @ (case csm_peer_link_if csm of None \<Rightarrow> [] | Some l \<Rightarrow> [(''Unknown'', l)])"

definition local_if_entry :: "string \<times> lif_ptr \<Rightarrow> world \<Rightarrow> bytes option" where
  "local_if_entry ul w = do {
     lif \<leftarrow> w_lif w (snd ul);
     info \<leftarrow> local_if_info (fst ul) lif;
     Some (put_mclagd_local_if info) }"

definition iccp_local_if_dump :: "int \<Rightarrow> world \<Rightarrow> (int \<times> nat \<times> bytes \<times> world) option" where
  "iccp_local_if_dump = iccp_dump (dump_list sizeof_mclagd_local_if local_ifs local_if_entry) ()"

definition peer_if_info :: "PeerInterface \<Rightarrow> mclagd_peer_if" where
  "peer_if_info pif = \<lparr>cp_ifindex = pif_ifindex pif, cp_type = if_type_text ''Unknow'' (pif_type pif), cp_name = pif_name pif,
     cp_mac_addr = pif_mac_addr pif, cp_state = port_state_text (pif_state pif), cp_po_id = pif_po_id pif, cp_po_active = pif_po_active pif\<rparr>"

definition peer_if_entry :: "pif_ptr \<Rightarrow> world \<Rightarrow> bytes option" where
  "peer_if_entry p w = do { pif \<leftarrow> w_pif w p; Some (put_mclagd_peer_if (peer_if_info pif)) }"

definition iccp_peer_if_dump :: "int \<Rightarrow> world \<Rightarrow> (int \<times> nat \<times> bytes \<times> world) option" where
  "iccp_peer_if_dump = iccp_dump (dump_list sizeof_mclagd_peer_if (\<lambda>csm. ml_pif_list (MLACP csm)) peer_if_entry) ()"

definition unique_if_entry :: "string \<Rightarrow> world \<Rightarrow> bytes option" where
  "unique_if_entry name w = do {
     active \<leftarrow> local_if_l3_proto_enabled name w;
     Some (put_mclagd_unique_ip_if \<lparr>cu_active = (if active then 1 else 0), cu_name = name\<rparr>) }"

definition iccp_unique_ip_if_dump :: "int \<Rightarrow> world \<Rightarrow> (int \<times> nat \<times> bytes \<times> world) option" where
  "iccp_unique_ip_if_dump mclag_id w = (let (ok, w) = malloc_ok w in
     if \<not> ok then Some (EXEC_TYPE_FAILED, 0, [], w)
     else do {
       (ok, (_, num, data), w) \<leftarrow> dump_entries sizeof_mclagd_unique_ip_if (\<lambda>name. unique_if_entry name w)
         (sys_unq_ip_if_list (w_sys w)) (MCLAGDCTL_CMD_SIZE, 0, []) w;
       Some (if ok then EXEC_TYPE_SUCCESS else EXEC_TYPE_FAILED, num, data, w) })"

text \<open>
  The counters: those of the system, the number of domains in one byte, and those of the domains
  directly behind it. The buffer is for as many domains as there are, or for one if one is asked for.
\<close>

definition put_system_dbg_counter_info :: "system_dbg_counter_info \<Rightarrow> bytes" where
  "put_system_dbg_counter_info k = concat (map le32 [cnt_newlink_count k, cnt_dellink_count k, cnt_newnbr_count k, cnt_delnbr_count k,
       cnt_newaddr_count k, cnt_deladdr_count k, cnt_unknown_type_count k, cnt_rx_error_count k, cnt_unknown_if_name_count k,
       cnt_newmac_count k, cnt_delmac_count k, cnt_session_down_counter k, cnt_peer_link_down_counter k, cnt_warmboot_counter k,
       cnt_rx_peer_invalid_msg_counter k, cnt_rx_peer_hdr_read_sock_err_counter k, cnt_rx_peer_hdr_read_sock_zero_len_counter k,
       cnt_rx_peer_tlv_read_sock_err_counter k, cnt_rx_peer_tlv_read_sock_zero_len_counter k, cnt_socket_close_err_counter k,
       cnt_socket_cleanup_counter k, cnt_rx_retry_max_counter k, cnt_rx_retry_total_counter k, cnt_rx_retry_fail_counter k,
       cnt_rx_read_sock_zero_len_counter k, cnt_rx_read_sock_err_counter k, cnt_rx_read_stp_sock_zero_len_counter k,
       cnt_rx_read_stp_sock_err_counter k, cnt_mac_entry_alloc_counter k, cnt_mac_entry_free_counter k])
     @ concat (map (\<lambda>i. le64 (cnt_syncd_tx_counters k i 0) @ le64 (cnt_syncd_tx_counters k i 1)) [0..<15])
     @ concat (map (\<lambda>i. le64 (cnt_syncd_rx_counters k i 0) @ le64 (cnt_syncd_rx_counters k i 1)) [0..<5])"

definition put_mlacp_dbg_counter_info :: "mlacp_dbg_counter_info \<Rightarrow> bytes" where
  "put_mlacp_dbg_counter_info k = concat (map (\<lambda>i. le64 (k i 0 0) @ le64 (k i 0 1) @ le64 (k i 1 0) @ le64 (k i 1 1)) [0..<29])"

abbreviation (input) sizeof_mclagd_dbg_counter_info :: nat where "sizeof_mclagd_dbg_counter_info \<equiv> 448"
abbreviation (input) sizeof_mlacp_dbg_counter_info :: nat where "sizeof_mlacp_dbg_counter_info \<equiv> 928"

definition iccp_cmd_dbg_counter_dump :: "int \<Rightarrow> world \<Rightarrow> (int \<times> nat \<times> bytes \<times> world) option" where
  "iccp_cmd_dbg_counter_dump mclag_id w = (let
       num_csm = (if mclag_id > 0 then 1 else length (sys_csm_list (w_sys w)));
       data_len = sizeof_mclagd_dbg_counter_info + sizeof_mlacp_dbg_counter_info * num_csm;
       (ok, w) = malloc_ok w
     in if \<not> ok then Some (EXEC_TYPE_FAILED, 0, [], w)
     else do {
       csms \<leftarrow> those (map (w_csm w) (sys_csm_list (w_sys w)));
       let blocks = filter (\<lambda>csm. mclag_id > 0 \<longrightarrow> csm_mlag_id csm = mclag_id) csms;
       if length blocks > num_csm then None
       else if mclag_id > 0 \<and> blocks = [] then Some (EXEC_TYPE_NO_EXIST_MCLAGID, 0, [], w)
       else Some (EXEC_TYPE_SUCCESS, data_len, take data_len (put_system_dbg_counter_info (sys_dbg_counters (w_sys w))
              @ [of_nat num_csm] @ concat (map (\<lambda>csm. put_mlacp_dbg_counter_info (ml_dbg_counters (MLACP csm))) blocks)
              @ replicate data_len 0), w) })"

subsection \<open>The socket\<close>

function sock_write_loop :: "int \<Rightarrow> bytes \<Rightarrow> world \<Rightarrow> bool \<times> world" where
  "sock_write_loop fd bs w = (if bs = [] then (True, w)
     else (let (ret, w) = sys_write fd bs w in
       if ret \<le> 0 then (False, w) else sock_write_loop fd (drop (nat ret) bs) w))"
  by pat_completeness auto

termination
  by (relation "measure (\<lambda>(fd, bs, w). length bs)") auto

declare sock_write_loop.simps [simp del]

definition mclagd_ctl_sock_write :: "int \<Rightarrow> bytes \<Rightarrow> world \<Rightarrow> int \<times> world" where
  "mclagd_ctl_sock_write fd w_buf w = (let (ok, w) = sock_write_loop fd w_buf w in (if ok then int (length w_buf) else 0, w))"

function sock_read_loop :: "bytes option list \<Rightarrow> bytes \<Rightarrow> nat \<Rightarrow> int \<times> bytes \<times> bytes option list" where
  "sock_read_loop rx got n = (if n = 0 then (int (length got), got, rx)
     else (case rx of [] \<Rightarrow> (- 1, got, []) | r # rx \<Rightarrow> (case r of None \<Rightarrow> (- 1, got, rx)
       | Some bs \<Rightarrow> if bs = [] then (- 1, got, rx)
           else sock_read_loop (if length bs > n then Some (drop n bs) # rx else rx) (got @ take n bs) (n - length bs))))"
  by pat_completeness auto

termination
  by (relation "measure (\<lambda>(rx, got, n). n)") auto

declare sock_read_loop.simps [simp del]

definition mclagd_ctl_sock_read :: "bytes option list \<Rightarrow> nat \<Rightarrow> int \<times> bytes \<times> bytes option list" where
  "mclagd_ctl_sock_read rx total_len = sock_read_loop rx [] total_len"

subsection \<open>Replies\<close>

definition put_mclagd_reply_hdr :: "int \<Rightarrow> int \<Rightarrow> int \<Rightarrow> bytes" where
  "put_mclagd_reply_hdr info_type data_len exec_result = put_int info_type @ put_int data_len @ put_int exec_result"

definition ctl_reply :: "int \<Rightarrow> int \<Rightarrow> int \<Rightarrow> nat \<Rightarrow> int \<times> nat \<times> bytes \<times> world \<Rightarrow> world" where
  "ctl_reply client_fd info_type failed_type sz res = (case res of (ret, num, data, w) \<Rightarrow>
     if ret \<noteq> EXEC_TYPE_SUCCESS
     then snd (mclagd_ctl_sock_write client_fd (put_int 12 @ put_mclagd_reply_hdr failed_type 0 ret) w)
     else (let data_len = int (num * sz) in
       snd (mclagd_ctl_sock_write client_fd (put_int (data_len + 12) @ put_mclagd_reply_hdr info_type data_len EXEC_TYPE_SUCCESS @ data) w)))"

definition mclagd_ctl_handle_dump_state :: "int \<Rightarrow> int \<Rightarrow> LoggerConfig \<Rightarrow> world \<Rightarrow> world option" where
  "mclagd_ctl_handle_dump_state client_fd mclag_id config w =
     map_option (ctl_reply client_fd INFO_TYPE_DUMP_STATE INFO_TYPE_DUMP_STATE sizeof_mclagd_state) (iccp_mclag_config_dump config mclag_id w)"

definition mclagd_ctl_handle_dump_arp :: "int \<Rightarrow> int \<Rightarrow> world \<Rightarrow> world option" where
  "mclagd_ctl_handle_dump_arp client_fd mclag_id w =
     map_option (ctl_reply client_fd INFO_TYPE_DUMP_ARP INFO_TYPE_DUMP_ARP sizeof_mclagd_arp_msg) (iccp_arp_dump mclag_id w)"

definition mclagd_ctl_handle_dump_ndisc :: "int \<Rightarrow> int \<Rightarrow> world \<Rightarrow> world option" where
  "mclagd_ctl_handle_dump_ndisc client_fd mclag_id w =
     map_option (ctl_reply client_fd INFO_TYPE_DUMP_NDISC INFO_TYPE_DUMP_NDISC sizeof_mclagd_ndisc_msg) (iccp_ndisc_dump mclag_id w)"

definition mclagd_ctl_handle_dump_mac :: "int \<Rightarrow> int \<Rightarrow> world \<Rightarrow> world option" where
  "mclagd_ctl_handle_dump_mac client_fd mclag_id w =
     map_option (ctl_reply client_fd INFO_TYPE_DUMP_MAC INFO_TYPE_DUMP_MAC sizeof_mclagd_mac_msg) (iccp_mac_dump mclag_id w)"

definition mclagd_ctl_handle_dump_local_portlist :: "int \<Rightarrow> int \<Rightarrow> world \<Rightarrow> world option" where
  "mclagd_ctl_handle_dump_local_portlist client_fd mclag_id w =
     map_option (ctl_reply client_fd INFO_TYPE_DUMP_LOCAL_PORTLIST INFO_TYPE_DUMP_LOCAL_PORTLIST sizeof_mclagd_local_if) (iccp_local_if_dump mclag_id w)"

definition mclagd_ctl_handle_dump_peer_portlist :: "int \<Rightarrow> int \<Rightarrow> world \<Rightarrow> world option" where
  "mclagd_ctl_handle_dump_peer_portlist client_fd mclag_id w =
     map_option (ctl_reply client_fd INFO_TYPE_DUMP_PEER_PORTLIST INFO_TYPE_DUMP_PEER_PORTLIST sizeof_mclagd_peer_if) (iccp_peer_if_dump mclag_id w)"

definition mclagd_ctl_handle_dump_dbg_counters :: "int \<Rightarrow> int \<Rightarrow> world \<Rightarrow> world option" where
  "mclagd_ctl_handle_dump_dbg_counters client_fd mclag_id w =
     map_option (ctl_reply client_fd INFO_TYPE_DUMP_DBG_COUNTERS INFO_TYPE_DUMP_DBG_COUNTERS 1) (iccp_cmd_dbg_counter_dump mclag_id w)"

text \<open>A failure is answered with the type of the list of local ports.\<close>

definition mclagd_ctl_handle_dump_unique_ip :: "int \<Rightarrow> int \<Rightarrow> world \<Rightarrow> world option" where
  "mclagd_ctl_handle_dump_unique_ip client_fd mclag_id w =
     map_option (ctl_reply client_fd INFO_TYPE_DUMP_UNIQUE_IP INFO_TYPE_DUMP_LOCAL_PORTLIST sizeof_mclagd_unique_ip_if) (iccp_unique_ip_if_dump mclag_id w)"

definition mclagd_ctl_handle_config_loglevel :: "int \<Rightarrow> int \<Rightarrow> LoggerConfig \<Rightarrow> world \<Rightarrow> LoggerConfig \<times> world" where
  "mclagd_ctl_handle_config_loglevel client_fd level config w = (logger_set_configuration level config,
     snd (mclagd_ctl_sock_write client_fd (put_int 12 @ put_mclagd_reply_hdr INFO_TYPE_CONFIG_LOGLEVEL 0 EXEC_TYPE_SUCCESS) w))"

abbreviation (input) sizeof_mclagdctl_req_hdr :: nat where "sizeof_mclagdctl_req_hdr \<equiv> 104"

definition get_int :: "nat \<Rightarrow> bytes \<Rightarrow> int option" where
  "get_int i m = map_option sint (ld32 i m)"

definition mclagd_ctl_interactive_process :: "int \<Rightarrow> bytes option list \<Rightarrow> LoggerConfig \<Rightarrow> world \<Rightarrow> (int \<times> LoggerConfig \<times> world) option" where
  "mclagd_ctl_interactive_process client_fd rx config w =
     (if client_fd < 0 then Some (MCLAG_ERROR, config, w)
      else (let (ret, req, _) = mclagd_ctl_sock_read rx sizeof_mclagdctl_req_hdr in
        if ret < 0 then Some (MCLAG_ERROR, config, w)
        else do {
          info_type \<leftarrow> get_int 0 req;
          mclag_id \<leftarrow> get_int 4 req;
          if info_type = INFO_TYPE_DUMP_STATE then map_option (\<lambda>w. (0, config, w)) (mclagd_ctl_handle_dump_state client_fd mclag_id config w)
          else if info_type = INFO_TYPE_DUMP_ARP then map_option (\<lambda>w. (0, config, w)) (mclagd_ctl_handle_dump_arp client_fd mclag_id w)
          else if info_type = INFO_TYPE_DUMP_NDISC then map_option (\<lambda>w. (0, config, w)) (mclagd_ctl_handle_dump_ndisc client_fd mclag_id w)
          else if info_type = INFO_TYPE_DUMP_MAC then map_option (\<lambda>w. (0, config, w)) (mclagd_ctl_handle_dump_mac client_fd mclag_id w)
          else if info_type = INFO_TYPE_DUMP_LOCAL_PORTLIST then map_option (\<lambda>w. (0, config, w)) (mclagd_ctl_handle_dump_local_portlist client_fd mclag_id w)
          else if info_type = INFO_TYPE_DUMP_PEER_PORTLIST then map_option (\<lambda>w. (0, config, w)) (mclagd_ctl_handle_dump_peer_portlist client_fd mclag_id w)
          else if info_type = INFO_TYPE_DUMP_DBG_COUNTERS then map_option (\<lambda>w. (0, config, w)) (mclagd_ctl_handle_dump_dbg_counters client_fd mclag_id w)
          else if info_type = INFO_TYPE_DUMP_UNIQUE_IP then map_option (\<lambda>w. (0, config, w)) (mclagd_ctl_handle_dump_unique_ip client_fd mclag_id w)
          else if info_type = INFO_TYPE_CONFIG_LOGLEVEL then Some (0, mclagd_ctl_handle_config_loglevel client_fd mclag_id config w)
          else Some (MCLAG_ERROR, config, w) }))"

definition mclagd_ctl_sock_accept :: "world \<Rightarrow> int \<times> world" where
  "mclagd_ctl_sock_accept w = (let (client_fd, w) = answer 0 w in (if client_fd < 0 then MCLAG_ERROR else client_fd, w))"

text \<open>The event loop, when a client connects.\<close>

definition ctl_event :: "bytes option list \<Rightarrow> LoggerConfig \<Rightarrow> world \<Rightarrow> (LoggerConfig \<times> world) option" where
  "ctl_event rx config w = (let (client_fd, w) = mclagd_ctl_sock_accept w in
     if client_fd > 0 then do {
       (_, config, w) \<leftarrow> mclagd_ctl_interactive_process client_fd rx config w;
       Some (config, emit (Ev_close client_fd) w) }
     else Some (config, w))"

text \<open>A socket that cannot be bound is closed, but its number stays in \<open>sync_ctrl_fd\<close>.\<close>

definition mclagd_ctl_sock_create :: "world \<Rightarrow> int \<times> world" where
  "mclagd_ctl_sock_create w =
     (if sys_sync_ctrl_fd (w_sys w) > 0 then (sys_sync_ctrl_fd (w_sys w), w)
      else (let
          (fd, w) = answer 0 w;
          w = upd_sys (sys_sync_ctrl_fd_update (\<lambda>_. fd)) w
        in if fd < 0 then (fd, w)
        else (let (ret, w) = answer 0 w in
          if ret < 0 then (MCLAG_ERROR, emit (Ev_close fd) w)
          else (let (ret, w) = answer 0 w in
            if ret < 0 then (MCLAG_ERROR, emit (Ev_close fd) w)
            else (fd, upd_sys (\<lambda>s. s\<lparr>sys_readfd := fd # sys_readfd s, sys_readfd_count := sys_readfd_count s + 1\<rparr>) w)))))"

end
