(* ===== verification/Mclagdctl.thy ===== *)
theory Mclagdctl
  imports Mclagd_Ctl
begin

text \<open>
  The command line client \<open>src/mclagdctl/mclagdctl.c\<close>: from the words of the command line to the request,
  and from the reply to the text on the standard output. Messages on the standard error output are
  left out, as is the message about a \<open>select\<close> that fails. \<open>getopt_long\<close> is represented by the options it
  returns; \<open>connect\<close>, \<open>malloc\<close>, \<open>write\<close> and \<open>read\<close> by their results, the latter two as for the daemon.
\<close>

subsection \<open>Commands\<close>

datatype cmd_id = ID_CMDTYPE_NONE | ID_CMDTYPE_D | ID_CMDTYPE_D_S | ID_CMDTYPE_D_A | ID_CMDTYPE_D_P | ID_CMDTYPE_D_P_L
  | ID_CMDTYPE_D_P_P | ID_CMDTYPE_D_D | ID_CMDTYPE_D_D_C | ID_CMDTYPE_C | ID_CMDTYPE_C_L

text \<open>An executable command is named by the type of its request; it stands for its two functions.\<close>

record command_type =
  cmd_id :: cmd_id
  cmd_parent_id :: cmd_id
  cmd_name :: string
  cmd_info_type :: "int option"

definition command_types :: "command_type list" where
  "command_types = [
     \<lparr>cmd_id = ID_CMDTYPE_D, cmd_parent_id = ID_CMDTYPE_NONE, cmd_name = ''dump'', cmd_info_type = None\<rparr>,
     \<lparr>cmd_id = ID_CMDTYPE_D_S, cmd_parent_id = ID_CMDTYPE_D, cmd_name = ''state'', cmd_info_type = Some INFO_TYPE_DUMP_STATE\<rparr>,
     \<lparr>cmd_id = ID_CMDTYPE_D_A, cmd_parent_id = ID_CMDTYPE_D, cmd_name = ''arp'', cmd_info_type = Some INFO_TYPE_DUMP_ARP\<rparr>,
     \<lparr>cmd_id = ID_CMDTYPE_D_A, cmd_parent_id = ID_CMDTYPE_D, cmd_name = ''nd'', cmd_info_type = Some INFO_TYPE_DUMP_NDISC\<rparr>,
     \<lparr>cmd_id = ID_CMDTYPE_D_A, cmd_parent_id = ID_CMDTYPE_D, cmd_name = ''mac'', cmd_info_type = Some INFO_TYPE_DUMP_MAC\<rparr>,
     \<lparr>cmd_id = ID_CMDTYPE_D_A, cmd_parent_id = ID_CMDTYPE_D, cmd_name = ''unique_ip'', cmd_info_type = Some INFO_TYPE_DUMP_UNIQUE_IP\<rparr>,
     \<lparr>cmd_id = ID_CMDTYPE_D_P, cmd_parent_id = ID_CMDTYPE_D, cmd_name = ''portlist'', cmd_info_type = None\<rparr>,
     \<lparr>cmd_id = ID_CMDTYPE_D_P_L, cmd_parent_id = ID_CMDTYPE_D_P, cmd_name = ''local'', cmd_info_type = Some INFO_TYPE_DUMP_LOCAL_PORTLIST\<rparr>,
     \<lparr>cmd_id = ID_CMDTYPE_D_P_P, cmd_parent_id = ID_CMDTYPE_D_P, cmd_name = ''peer'', cmd_info_type = Some INFO_TYPE_DUMP_PEER_PORTLIST\<rparr>,
     \<lparr>cmd_id = ID_CMDTYPE_D_D, cmd_parent_id = ID_CMDTYPE_D, cmd_name = ''debug'', cmd_info_type = None\<rparr>,
     \<lparr>cmd_id = ID_CMDTYPE_D_D_C, cmd_parent_id = ID_CMDTYPE_D_D, cmd_name = ''counters'', cmd_info_type = Some INFO_TYPE_DUMP_DBG_COUNTERS\<rparr>,
     \<lparr>cmd_id = ID_CMDTYPE_C, cmd_parent_id = ID_CMDTYPE_NONE, cmd_name = ''config'', cmd_info_type = None\<rparr>,
     \<lparr>cmd_id = ID_CMDTYPE_C_L, cmd_parent_id = ID_CMDTYPE_C, cmd_name = ''loglevel'', cmd_info_type = Some INFO_TYPE_CONFIG_LOGLEVEL\<rparr>]"

definition mclagdctl_cmd_executable :: "command_type \<Rightarrow> bool" where
  "mclagdctl_cmd_executable cmd_type \<longleftrightarrow> cmd_info_type cmd_type \<noteq> None"

text \<open>The name may be abbreviated: the first command that starts with it.\<close>

definition mclagdctl_get_cmd_by_parent :: "string \<Rightarrow> cmd_id \<Rightarrow> command_type option" where
  "mclagdctl_get_cmd_by_parent name parent_id =
     find (\<lambda>t. take (length name) (cmd_name t) = name \<and> cmd_parent_id t = parent_id) command_types"

text \<open>No command has parameters, so an executable command must be the last word.\<close>

fun mclagdctl_find_cmd :: "cmd_id \<Rightarrow> string list \<Rightarrow> command_type option" where
  "mclagdctl_find_cmd parent_id [] = None"
| "mclagdctl_find_cmd parent_id (name # args) = (case mclagdctl_get_cmd_by_parent name parent_id of
       None \<Rightarrow> None
     | Some t \<Rightarrow> if mclagdctl_cmd_executable t \<and> args = [] then Some t else mclagdctl_find_cmd (cmd_id t) args)"

text \<open>The options: \<open>-i\<close> with a number, \<open>-l\<close> with a level; anything else ends the program.\<close>

definition log_level_option :: "char \<Rightarrow> int option" where
  "log_level_option c = (if c \<in> {CHR ''c'', CHR ''C''} then Some 0 else if c \<in> {CHR ''e'', CHR ''E''} then Some 1
     else if c \<in> {CHR ''w'', CHR ''W''} then Some 2 else if c \<in> {CHR ''n'', CHR ''N''} then Some 3
     else if c \<in> {CHR ''i'', CHR ''I''} then Some 4 else if c \<in> {CHR ''d'', CHR ''D''} then Some 5 else None)"

abbreviation (input) EXIT_SUCCESS :: int where "EXIT_SUCCESS \<equiv> 0"
abbreviation (input) EXIT_FAILURE :: int where "EXIT_FAILURE \<equiv> 1"

fun options :: "(char \<times> string) list \<Rightarrow> int \<Rightarrow> int + int" where
  "options [] para_int = Inr para_int"
| "options ((opt, arg) # opts) para_int =
     (if opt = CHR ''h'' then Inl EXIT_SUCCESS
      else if opt = CHR ''i'' then options opts (sscanf_d [] arg)
      else if opt = CHR ''l'' then (case arg of [] \<Rightarrow> Inl EXIT_FAILURE | c # _ \<Rightarrow>
        (case log_level_option c of None \<Rightarrow> Inl EXIT_FAILURE | Some l \<Rightarrow> options opts l))
      else Inl EXIT_FAILURE)"

definition mclagdctl_get_cmd_by_id :: "cmd_id \<Rightarrow> command_type option" where
  "mclagdctl_get_cmd_by_id i = find (\<lambda>t. cmd_id t = i) command_types"

text \<open>A command with the names of its parents; the table has commands of three words at most.\<close>

fun mclagdctl_print_cmd :: "nat \<Rightarrow> command_type \<Rightarrow> string option" where
  "mclagdctl_print_cmd 0 t = None"
| "mclagdctl_print_cmd (Suc n) t = do {
     parents \<leftarrow> (if cmd_parent_id t \<noteq> ID_CMDTYPE_NONE then do {
         p \<leftarrow> mclagdctl_get_cmd_by_id (cmd_parent_id t);
         text \<leftarrow> mclagdctl_print_cmd n p;
         Some (text @ '' '') }
       else Some []);
     Some (parents @ cmd_name t) }"

definition mclagdctl_print_help :: "string \<Rightarrow> string option" where
  "mclagdctl_print_help argv0 = do {
     cmds \<leftarrow> those (map (mclagdctl_print_cmd 3) (filter mclagdctl_cmd_executable command_types));
     Some (argv0 @ '' [options] command [command args]'' @ [CHR 0x0A]
       @ ''    -h --help                Show this help'' @ [CHR 0x0A]
       @ ''    -i --mclag-id            Specify one mclag id'' @ [CHR 0x0A]
       @ ''    -l --level               Specify log level     critical,err,warn,notice,info,debug'' @ [CHR 0x0A]
       @ ''Commands:'' @ [CHR 0x0A] @ concat (map (\<lambda>c. ''    '' @ c @ [CHR 0x0A]) cmds)) }"

subsection \<open>Requests\<close>

definition put_mclagdctl_req_hdr :: "int \<Rightarrow> int \<Rightarrow> bytes" where
  "put_mclagdctl_req_hdr info_type mclag_id = put_int info_type @ put_int mclag_id @ replicate 96 0"

definition mclagdctl_enca_dump_state :: "int \<Rightarrow> bytes option" where
  "mclagdctl_enca_dump_state mclag_id = Some (put_mclagdctl_req_hdr INFO_TYPE_DUMP_STATE mclag_id)"

definition mclagdctl_enca_dump_arp :: "int \<Rightarrow> bytes option" where
  "mclagdctl_enca_dump_arp mclag_id = (if mclag_id \<le> 0 then None else Some (put_mclagdctl_req_hdr INFO_TYPE_DUMP_ARP mclag_id))"

definition mclagdctl_enca_dump_ndisc :: "int \<Rightarrow> bytes option" where
  "mclagdctl_enca_dump_ndisc mclag_id = (if mclag_id \<le> 0 then None else Some (put_mclagdctl_req_hdr INFO_TYPE_DUMP_NDISC mclag_id))"

definition mclagdctl_enca_dump_mac :: "int \<Rightarrow> bytes option" where
  "mclagdctl_enca_dump_mac mclag_id = (if mclag_id \<le> 0 then None else Some (put_mclagdctl_req_hdr INFO_TYPE_DUMP_MAC mclag_id))"

definition mclagdctl_enca_dump_local_portlist :: "int \<Rightarrow> bytes option" where
  "mclagdctl_enca_dump_local_portlist mclag_id = (if mclag_id \<le> 0 then None else Some (put_mclagdctl_req_hdr INFO_TYPE_DUMP_LOCAL_PORTLIST mclag_id))"

definition mclagdctl_enca_dump_peer_portlist :: "int \<Rightarrow> bytes option" where
  "mclagdctl_enca_dump_peer_portlist mclag_id = (if mclag_id \<le> 0 then None else Some (put_mclagdctl_req_hdr INFO_TYPE_DUMP_PEER_PORTLIST mclag_id))"

definition mclagdctl_enca_dump_unique_ip :: "int \<Rightarrow> bytes option" where
  "mclagdctl_enca_dump_unique_ip mclag_id = (if mclag_id \<le> 0 then None else Some (put_mclagdctl_req_hdr INFO_TYPE_DUMP_UNIQUE_IP mclag_id))"

definition mclagdctl_enca_dump_dbg_counters :: "int \<Rightarrow> bytes option" where
  "mclagdctl_enca_dump_dbg_counters mclag_id = Some (put_mclagdctl_req_hdr INFO_TYPE_DUMP_DBG_COUNTERS mclag_id)"

definition mclagdctl_enca_config_loglevel :: "int \<Rightarrow> bytes option" where
  "mclagdctl_enca_config_loglevel level = Some (put_mclagdctl_req_hdr INFO_TYPE_CONFIG_LOGLEVEL level)"

subsection \<open>Output\<close>

definition nl :: string where "nl = [CHR 0x0A]"

text \<open>\<open>"%-<n>s"\<close>\<close>

definition pad :: "nat \<Rightarrow> string \<Rightarrow> string" where
  "pad n s = s @ replicate (n - length s) CHR '' ''"

definition rule :: string where
  "rule = replicate 60 CHR ''-''"

definition item :: "string \<Rightarrow> string \<Rightarrow> string" where
  "item label text = label @ '': '' @ text @ nl"

definition get_str :: "nat \<Rightarrow> nat \<Rightarrow> bytes \<Rightarrow> string option" where
  "get_str i n e = do { bs \<leftarrow> ldn i n e; cstr bs }"

definition get_u8 :: "nat \<Rightarrow> bytes \<Rightarrow> nat option" where
  "get_u8 i e = map_option unat (ld8 i e)"

definition get_u64 :: "nat \<Rightarrow> bytes \<Rightarrow> nat option" where
  "get_u64 i e = map_option (\<lambda>bs. foldr (\<lambda>b n. n * 256 + unat b) bs 0) (ldn i 8 e)"

definition yes_no :: "nat \<Rightarrow> string" where
  "yes_no n = (if n \<noteq> 0 then ''Yes'' else ''No'')"

text \<open>
  The loop over the entries of a reply: \<open>data_len\<close> goes down by the size of an entry while it lasts.
  An entry that is not within the reply is not there to be read.
\<close>

function parse_entries :: "nat \<Rightarrow> (nat \<Rightarrow> bytes \<Rightarrow> string option) \<Rightarrow> bytes \<Rightarrow> int \<Rightarrow> nat \<Rightarrow> string option" where
  "parse_entries len show_entry msg data_len count =
     (if len = 0 \<or> data_len < int len then Some []
      else do {
        e \<leftarrow> ldn (len * count) len msg;
        text \<leftarrow> show_entry count e;
        texts \<leftarrow> parse_entries len show_entry msg (data_len - int len) (count + 1);
        Some (text @ texts) })"
  by pat_completeness auto

termination
  by (relation "measure (\<lambda>(len, sh, msg, data_len, count). nat data_len)") auto

declare parse_entries.simps [simp del]

definition state_lines :: "nat \<Rightarrow> bytes \<Rightarrow> string option" where
  "state_lines count e = do {
     mclag_id \<leftarrow> get_int 0 e;
     keepalive \<leftarrow> get_int 4 e;
     info_sync_done \<leftarrow> get_int 8 e;
     local_ip \<leftarrow> get_str 12 32 e;
     peer_ip \<leftarrow> get_str 44 32 e;
     peer_link_if \<leftarrow> get_str 76 32 e;
     peer_link_mac \<leftarrow> ldn 108 6 e;
     enabled \<leftarrow> get_str 120 512 e;
     session_timeout \<leftarrow> get_int 632 e;
     keepalive_time \<leftarrow> get_int 636 e;
     loglevel \<leftarrow> get_str 640 16 e;
     let role = (if inet_addr local_ip < inet_addr peer_ip then 1 else 2 :: int);
     Some (item ''The MCLAG's keepalive is'' (if keepalive \<noteq> 0 then ''OK'' else ''ERROR'')
       @ item ''MCLAG info sync is'' (if info_sync_done \<noteq> 0 then ''completed'' else ''incomplete'')
       @ item ''Domain id'' (if mclag_id \<le> 0 then ''Unknown'' else show_int mclag_id)
       @ item ''Local Ip'' local_ip @ item ''Peer Ip'' peer_ip @ item ''Peer Link Interface'' peer_link_if
       @ item ''Keepalive time'' (show_int keepalive_time) @ item ''sesssion Timeout '' (show_int session_timeout)
       @ item ''Peer Link Mac'' (show_mac peer_link_mac @ '' '')
       @ item ''Role'' (if role = 1 then ''Active'' else ''Standby'')
       @ item ''MCLAG Interface'' enabled @ item ''Loglevel'' loglevel) }"

definition mclagdctl_parse_dump_state :: "bytes \<Rightarrow> int \<Rightarrow> string option" where
  "mclagdctl_parse_dump_state msg data_len = parse_entries sizeof_mclagd_state state_lines msg data_len 0"

definition learn_flag_text :: "nat \<Rightarrow> string" where
  "learn_flag_text f = (if f = 2 then ''R'' else if f = 1 then ''L'' else ''-'')"

definition arp_line :: "nat \<Rightarrow> bytes \<Rightarrow> string option" where
  "arp_line count e = do {
     ip \<leftarrow> get_str 33 32 e;
     mac \<leftarrow> ldn 65 6 e;
     ifname \<leftarrow> get_str 1 32 e;
     learn \<leftarrow> get_u8 71 e;
     Some (pad 6 (show_nat (count + 1)) @ pad 20 ip @ show_mac mac @ ''   '' @ pad 20 ifname @ learn_flag_text learn @ nl) }"

definition mclagdctl_parse_dump_arp :: "bytes \<Rightarrow> int \<Rightarrow> string option" where
  "mclagdctl_parse_dump_arp msg data_len = map_option
     (\<lambda>t. pad 6 ''No.'' @ pad 20 ''IP'' @ pad 20 ''MAC'' @ pad 20 ''DEV'' @ ''Flag'' @ nl @ t)
     (parse_entries sizeof_mclagd_arp_msg arp_line msg data_len 0)"

definition ndisc_line :: "nat \<Rightarrow> bytes \<Rightarrow> string option" where
  "ndisc_line count e = do {
     ip \<leftarrow> get_str 33 64 e;
     mac \<leftarrow> ldn 97 6 e;
     ifname \<leftarrow> get_str 1 32 e;
     learn \<leftarrow> get_u8 103 e;
     Some (pad 6 (show_nat (count + 1)) @ pad 52 ip @ show_mac mac @ ''   '' @ pad 20 ifname @ learn_flag_text learn @ nl) }"

definition mclagdctl_parse_dump_ndisc :: "bytes \<Rightarrow> int \<Rightarrow> string option" where
  "mclagdctl_parse_dump_ndisc msg data_len = map_option
     (\<lambda>t. pad 6 ''No.'' @ pad 52 ''IPv6'' @ pad 20 ''MAC'' @ pad 20 ''DEV'' @ ''Flag'' @ nl @ t)
     (parse_entries sizeof_mclagd_ndisc_msg ndisc_line msg data_len 0)"

definition age_text :: "nat \<Rightarrow> string" where
  "age_text f = (if odd f \<and> odd (f div 2) then ''LP'' else if odd f then ''L'' else if odd (f div 2) then ''P'' else '' '')"

definition mac_line :: "nat \<Rightarrow> bytes \<Rightarrow> string option" where
  "mac_line count e = do {
     fdb_type \<leftarrow> get_u8 1 e;
     mac \<leftarrow> ldn 2 6 e;
     vid \<leftarrow> ld16 8 e;
     ifname \<leftarrow> get_str 10 32 e;
     origin \<leftarrow> get_str 42 32 e;
     age \<leftarrow> get_u8 74 e;
     Some (pad 6 (show_nat (count + 1)) @ pad 5 (if fdb_type = 1 then ''S'' else ''D'') @ pad 20 (show_mac mac)
       @ pad 5 (show_nat (unat vid)) @ pad 20 ifname @ pad 20 origin @ pad 5 (age_text age) @ nl) }"

definition mac_header :: string where
  "mac_header = pad 60 ''TYPE: S-STATIC, D-DYNAMIC; AGE: L-Local age, P-Peer age'' @ nl
     @ pad 6 ''No.'' @ pad 5 ''TYPE'' @ pad 20 ''MAC'' @ pad 5 ''VID'' @ pad 20 ''DEV'' @ pad 20 ''ORIGIN-DEV'' @ pad 5 ''AGE'' @ nl"

definition mclagdctl_parse_dump_mac :: "bytes \<Rightarrow> int \<Rightarrow> string option" where
  "mclagdctl_parse_dump_mac msg data_len = map_option (\<lambda>t. mac_header @ t) (parse_entries sizeof_mclagd_mac_msg mac_line msg data_len 0)"

definition local_if_lines :: "nat \<Rightarrow> bytes \<Rightarrow> string option" where
  "local_if_lines count e = do {
     ifindex \<leftarrow> get_int 0 e;
     type_bytes \<leftarrow> ldn 4 11 e;
     type \<leftarrow> get_str 4 16 e;
     name \<leftarrow> get_str 20 32 e;
     state \<leftarrow> get_str 58 16 e;
     vlans \<leftarrow> get_str 647 64 e;
     body \<leftarrow> (if type_bytes = map byte_of_char ''PortChannel'' then do {
         mac \<leftarrow> ldn 52 6 e;
         ip \<leftarrow> get_str 74 32 e;
         prefixlen \<leftarrow> get_u8 106 e;
         l3_mode \<leftarrow> get_u8 107 e;
         members \<leftarrow> get_str 109 512 e;
         po_active \<leftarrow> get_u8 628 e;
         isolate \<leftarrow> get_u8 645 e;
         traffic \<leftarrow> get_u8 646 e;
         Some (item ''MAC'' (show_mac mac @ '' '') @ item ''IPv4Address'' ip @ item ''Prefixlen'' (show_nat prefixlen)
           @ item ''State'' state @ item ''IsL3Interface'' (yes_no l3_mode) @ item ''MemberPorts'' members
           @ item ''PortchannelIsUp'' (show_nat po_active) @ item ''IsIsolateWithPeerlink'' (yes_no isolate)
           @ item ''IsTrafficDisable'' (yes_no traffic)) }
       else Some (item ''State'' state));
     Some (rule @ nl @ item ''Ifindex'' (show_int ifindex) @ item ''Type'' type @ item ''PortName'' name @ body
       @ item ''VlanList'' vlans @ rule @ nl @ nl) }"

definition mclagdctl_parse_dump_local_portlist :: "bytes \<Rightarrow> int \<Rightarrow> string option" where
  "mclagdctl_parse_dump_local_portlist msg data_len = parse_entries sizeof_mclagd_local_if local_if_lines msg data_len 0"

definition peer_if_lines :: "nat \<Rightarrow> bytes \<Rightarrow> string option" where
  "peer_if_lines count e = do {
     ifindex \<leftarrow> get_int 0 e;
     type \<leftarrow> get_str 4 16 e;
     name \<leftarrow> get_str 20 32 e;
     mac \<leftarrow> ldn 52 6 e;
     state \<leftarrow> get_str 58 16 e;
     Some (rule @ nl @ item ''Ifindex'' (show_int ifindex) @ item ''Type'' type @ item ''PortName'' name
       @ item ''MAC'' (show_mac mac @ '' '') @ item ''State'' state @ rule @ nl @ nl) }"

definition mclagdctl_parse_dump_peer_portlist :: "bytes \<Rightarrow> int \<Rightarrow> string option" where
  "mclagdctl_parse_dump_peer_portlist msg data_len = parse_entries sizeof_mclagd_peer_if peer_if_lines msg data_len 0"

definition unique_ip_line :: "nat \<Rightarrow> bytes \<Rightarrow> string option" where
  "unique_ip_line count e = do {
     name \<leftarrow> get_str 4 32 e;
     active \<leftarrow> get_int 0 e;
     Some (pad 20 name @ ''  '' @ pad 5 (if active \<noteq> 0 then ''Yes'' else ''No'') @ nl) }"

definition mclagdctl_parse_dump_unique_ip :: "bytes \<Rightarrow> int \<Rightarrow> string option" where
  "mclagdctl_parse_dump_unique_ip msg data_len = map_option
     (\<lambda>t. rule @ nl @ pad 20 ''Ifname'' @ pad 5 ''Active'' @ nl @ rule @ nl @ t
        @ (if data_len < int sizeof_mclagd_unique_ip_if then ''Unique IP configuration not enabled on any interface'' @ nl else [])
        @ rule @ nl @ nl)
     (parse_entries sizeof_mclagd_unique_ip_if unique_ip_line msg data_len 0)"

text \<open>The answer is looked for behind the header of the reply.\<close>

definition mclagdctl_parse_config_loglevel :: "bytes \<Rightarrow> int \<Rightarrow> string option" where
  "mclagdctl_parse_config_loglevel msg data_len = do {
     ret \<leftarrow> get_int 0 msg;
     Some ((if ret = 0 then ''Config loglevel success!'' else ''Config loglevel failed!'') @ nl) }"

subsection \<open>Counters\<close>

definition mclagdctl_dbg_counter_iccpid2str :: "nat \<Rightarrow> string" where
  "mclagdctl_dbg_counter_iccpid2str i =
     (if i = 0 then ''SysConfig'' else if i = 1 then ''AggrConfig'' else if i = 2 then ''AggrState'' else if i = 3 then ''MacInfo''
      else if i = 4 then ''ArpInfo'' else if i = 6 then ''PoInfo'' else if i = 7 then ''PeerLinkInfo'' else if i = 8 then ''Heartbeat''
      else if i = 9 then ''Nak'' else if i = 10 then ''SyncData'' else if i = 11 then ''SyncReq'' else if i = 12 then ''Warmboot''
      else if i = 13 then ''IfUpAck'' else ''Unknown'')"

definition mclagdctl_dbg_counter_syncdtx2str :: "nat \<Rightarrow> string" where
  "mclagdctl_dbg_counter_syncdtx2str i =
     (if i = 0 then ''PortIsolation'' else if i = 1 then ''MacLearnMode'' else if i = 2 then ''FlushFdb'' else if i = 3 then ''SetIfMac''
      else if i = 4 then ''SetFdb'' else if i = 5 then ''TrafficDistEnable'' else if i = 6 then ''TrafficDistDisable''
      else if i = 7 then ''SetIccpState'' else if i = 8 then ''SetIccpRole'' else if i = 9 then ''SetSystemId''
      else if i = 10 then ''DelIccpInfo'' else if i = 11 then ''SetRemoteIntfSts'' else if i = 12 then ''DelRemoteIntf''
      else if i = 13 then ''PeerLinkIsolation'' else if i = 14 then ''SetPeerSystemId'' else ''Unknown'')"

definition mclagdctl_dbg_counter_syncdrx2str :: "nat \<Rightarrow> string" where
  "mclagdctl_dbg_counter_syncdrx2str i =
     (if i = 0 then ''FdbChange'' else if i = 1 then ''CfgMclag'' else if i = 2 then ''CfgMclagIface'' else if i = 3 then ''CfgMclagUniqueIp''
      else if i = 4 then ''vlanMbrshipChange'' else ''Unknown'')"

text \<open>The counter with a number in the order of the structure, and lines of a table of counters.\<close>

definition get_cnt :: "bytes \<Rightarrow> nat \<Rightarrow> string option" where
  "get_cnt msg i = map_option (\<lambda>x. show_nat (unat x)) (ld32 (4 * i) msg)"

definition cnt_line :: "bytes \<Rightarrow> string \<times> nat \<Rightarrow> string option" where
  "cnt_line msg ln = do { t \<leftarrow> get_cnt msg (snd ln); Some (pad 20 (fst ln) @ t @ nl) }"

definition cnt_row :: "bytes \<Rightarrow> string \<Rightarrow> nat list \<Rightarrow> string option" where
  "cnt_row msg name offs = do {
     ns \<leftarrow> those (map (\<lambda>i. get_u64 i msg) offs);
     Some (pad 20 name @ concat (map (\<lambda>n. pad 20 (show_nat n)) ns) @ nl) }"

definition cat :: "string option list \<Rightarrow> string option" where
  "cat ts = map_option concat (those ts)"

definition mclagdctl_parse_dump_dbg_counters :: "bytes \<Rightarrow> int \<Rightarrow> string option" where
  "mclagdctl_parse_dump_dbg_counters msg data_len = do {
     global \<leftarrow> cat (map (cnt_line msg) [(''ICCP session down:'', 11), (''Peer link down:'', 12), (''Rx invalid msg:'', 14),
       (''Rx sock error(hdr):'', 15), (''Rx zero len(hdr):'', 16), (''Rx sock error(tlv):'', 17), (''Rx zero len(tlv):'', 18),
       (''Rx retry max:'', 21), (''Rx retry total:'', 22), (''Rx retry fail:'', 23), (''Socket close err:'', 19), (''Socket cleanup:'', 20)]);
     warmboot \<leftarrow> cnt_line msg (''Warmboot:'', 13);
     tx \<leftarrow> cat (map (\<lambda>i. cnt_row msg (mclagdctl_dbg_counter_syncdtx2str i) [120 + 16 * i, 128 + 16 * i]) [0..<15]);
     rx \<leftarrow> cat (map (\<lambda>i. cnt_row msg (mclagdctl_dbg_counter_syncdrx2str i) [360 + 16 * i, 368 + 16 * i]) [0..<5]);
     num \<leftarrow> get_u8 440 msg;
     iccp \<leftarrow> cat (map (\<lambda>i. map_option (\<lambda>t. t @ nl) (cat (map (\<lambda>j. let off = 441 + sizeof_mlacp_dbg_counter_info * i + 32 * j in
         cnt_row msg (mclagdctl_dbg_counter_iccpid2str j) [off, off + 16, off + 8, off + 24]) [0..<29]))) [0..<num]);
     n \<leftarrow> those (map (get_cnt msg) [0..<11]);
     Some (global @ nl @ warmboot @ nl
       @ pad 20 ''ICCP to MclagSyncd'' @ pad 20 ''TX_OK'' @ pad 20 ''TX_ERROR'' @ nl
       @ pad 20 ''------------------'' @ pad 20 ''-----'' @ pad 20 ''--------'' @ nl @ tx
       @ nl @ pad 20 ''MclagSyncd to ICCP'' @ pad 20 ''RX_OK'' @ pad 20 ''RX_ERROR'' @ nl
       @ pad 20 ''------------------'' @ pad 20 ''-----'' @ pad 20 ''--------'' @ nl @ rx
       @ nl @ pad 20 ''ICCP to Peer'' @ pad 20 ''TX_OK'' @ pad 20 ''RX_OK'' @ pad 20 ''TX_ERROR'' @ pad 20 ''RX_ERROR'' @ nl
       @ pad 20 ''------------'' @ pad 20 ''-----'' @ pad 20 ''-----'' @ pad 20 ''--------'' @ pad 20 ''--------'' @ nl @ iccp
       @ nl @ ''Netlink Counters'' @ nl @ ''-----------------'' @ nl
       @ ''Link add/del: '' @ n ! 0 @ ''/'' @ n ! 1 @ nl @ ''  Unknown if_name: '' @ n ! 8 @ nl
       @ ''Neighbor(ARP) add/del: '' @ n ! 2 @ ''/'' @ n ! 3 @ nl @ ''  MAC entry add/del: '' @ n ! 9 @ ''/'' @ n ! 10 @ nl
       @ ''Address add/del: '' @ n ! 4 @ ''/'' @ n ! 5 @ nl @ ''Unexpected message type: '' @ n ! 6 @ nl
       @ ''Receive error: '' @ n ! 7 @ nl @ nl) }"

subsection \<open>The program\<close>

fun client_write :: "int list \<Rightarrow> bytes \<Rightarrow> bool \<times> bytes" where
  "client_write [] bs = (True, bs)"
| "client_write (ret # wr) bs = (if bs = [] then (True, [])
     else if ret \<le> 0 then (False, [])
     else (let (ok, sent) = client_write wr (drop (nat ret) bs) in (ok, take (nat ret) bs @ sent)))"

text \<open>The return value and the bytes that were sent.\<close>

definition mclagdctl_sock_write :: "int list \<Rightarrow> bytes \<Rightarrow> int \<times> bytes" where
  "mclagdctl_sock_write wr w_buf = (let (ok, sent) = client_write wr w_buf in (if ok then int (length w_buf) else 0, sent))"

definition mclagdctl_sock_read :: "bytes option list \<Rightarrow> nat \<Rightarrow> int \<times> bytes \<times> bytes option list" where
  "mclagdctl_sock_read rx total_len = sock_read_loop rx [] total_len"

definition enca_msg :: "int \<Rightarrow> int \<Rightarrow> bytes option" where
  "enca_msg info_type =
     (if info_type = INFO_TYPE_DUMP_STATE then mclagdctl_enca_dump_state
      else if info_type = INFO_TYPE_DUMP_ARP then mclagdctl_enca_dump_arp
      else if info_type = INFO_TYPE_DUMP_NDISC then mclagdctl_enca_dump_ndisc
      else if info_type = INFO_TYPE_DUMP_MAC then mclagdctl_enca_dump_mac
      else if info_type = INFO_TYPE_DUMP_UNIQUE_IP then mclagdctl_enca_dump_unique_ip
      else if info_type = INFO_TYPE_DUMP_LOCAL_PORTLIST then mclagdctl_enca_dump_local_portlist
      else if info_type = INFO_TYPE_DUMP_PEER_PORTLIST then mclagdctl_enca_dump_peer_portlist
      else if info_type = INFO_TYPE_DUMP_DBG_COUNTERS then mclagdctl_enca_dump_dbg_counters
      else mclagdctl_enca_config_loglevel)"

definition parse_msg :: "int \<Rightarrow> bytes \<Rightarrow> int \<Rightarrow> string option" where
  "parse_msg info_type =
     (if info_type = INFO_TYPE_DUMP_STATE then mclagdctl_parse_dump_state
      else if info_type = INFO_TYPE_DUMP_ARP then mclagdctl_parse_dump_arp
      else if info_type = INFO_TYPE_DUMP_NDISC then mclagdctl_parse_dump_ndisc
      else if info_type = INFO_TYPE_DUMP_MAC then mclagdctl_parse_dump_mac
      else if info_type = INFO_TYPE_DUMP_UNIQUE_IP then mclagdctl_parse_dump_unique_ip
      else if info_type = INFO_TYPE_DUMP_LOCAL_PORTLIST then mclagdctl_parse_dump_local_portlist
      else if info_type = INFO_TYPE_DUMP_PEER_PORTLIST then mclagdctl_parse_dump_peer_portlist
      else if info_type = INFO_TYPE_DUMP_DBG_COUNTERS then mclagdctl_parse_dump_dbg_counters
      else mclagdctl_parse_config_loglevel)"

text \<open>The exit status and the text, from the reply to the command on.\<close>

definition read_reply :: "int \<Rightarrow> bytes option list \<Rightarrow> bool \<Rightarrow> (int \<times> string) option" where
  "read_reply info_type rx mem = (let (ret, buf, rx) = mclagdctl_sock_read rx 4 in
     if ret \<le> 0 then Some (EXIT_FAILURE, [])
     else do {
       len \<leftarrow> get_int 0 buf;
       if len \<le> 0 then Some (EXIT_FAILURE, [])
       else if \<not> mem then Some (ret, [])
       else (let (ret, rcv_buf, rx) = mclagdctl_sock_read rx (nat len) in
         if ret \<le> 0 then Some (EXIT_FAILURE, [])
         else do {
           reply_type \<leftarrow> get_int 0 rcv_buf;
           exec_result \<leftarrow> (if reply_type = info_type then get_int 8 rcv_buf else Some 0);
           if reply_type \<noteq> info_type \<or> exec_result \<in> {EXEC_TYPE_NO_EXIST_SYS, EXEC_TYPE_NO_EXIST_MCLAGID, EXEC_TYPE_FAILED}
           then Some (EXIT_FAILURE, [])
           else do {
             text \<leftarrow> parse_msg info_type (drop 12 rcv_buf) (len - 12);
             Some (EXIT_SUCCESS, text) } }) })"

text \<open>
  \<open>main\<close> up to the reply: the program ends with a status and a text, or it has sent a request and
  waits for the reply of the given type.
\<close>

definition send_request :: "string \<Rightarrow> (char \<times> string) list \<Rightarrow> string list \<Rightarrow> bool \<Rightarrow> int list \<Rightarrow> ((int \<times> string) + (int \<times> bytes)) option" where
  "send_request argv0 opts args conn wr = do {
     help \<leftarrow> mclagdctl_print_help argv0;
     case options opts 0 of Inl status \<Rightarrow> Some (Inl (status, help))
     | Inr para_int \<Rightarrow> (case mclagdctl_find_cmd ID_CMDTYPE_NONE args of
         None \<Rightarrow> Some (Inl (EXIT_FAILURE, help))
       | Some t \<Rightarrow> do {
           info_type \<leftarrow> cmd_info_type t;
           if \<not> conn then Some (Inl (EXIT_FAILURE, []))
           else (case enca_msg info_type para_int of
               None \<Rightarrow> Some (Inl (EXIT_FAILURE, []))
             | Some req \<Rightarrow> (let (ret, sent) = mclagdctl_sock_write wr req in
                 if ret \<le> 0 then Some (Inl (EXIT_FAILURE, [])) else Some (Inr (info_type, sent)))) }) }"

definition mclagdctl_main :: "string \<Rightarrow> (char \<times> string) list \<Rightarrow> string list \<Rightarrow> bool \<Rightarrow> int list \<Rightarrow> bytes option list \<Rightarrow> bool \<Rightarrow> (int \<times> string) option" where
  "mclagdctl_main argv0 opts args conn wr rx mem = do {
     r \<leftarrow> send_request argv0 opts args conn wr;
     case r of Inl res \<Rightarrow> Some res | Inr (info_type, _) \<Rightarrow> read_reply info_type rx mem }"

end
