(* ===== verification/Ctl_Spec.thy ===== *)
theory Ctl_Spec
  imports Mclagdctl Demo_Domain
begin

text \<open>
  The control socket and its client together: a request leaves the state of the daemon alone and never
  writes outside a buffer; what the client prints is the table of the daemon; and where the two go
  wrong.
\<close>

subsection \<open>What a request leaves alone\<close>

definition untouched :: "world \<Rightarrow> world \<Rightarrow> bool" where
  "untouched w w' \<longleftrightarrow> (\<exists>out as ms. w' = w\<lparr>w_out := out, w_answers := as, w_mallocs := ms\<rparr>)"

lemma untouchedI: "w' = w\<lparr>w_out := out, w_answers := as, w_mallocs := ms\<rparr> \<Longrightarrow> untouched w w'"
  by (auto simp: untouched_def)

lemma untouched_refl [simp]: "untouched w w"
  by (rule untouchedI [where out = "w_out w" and as = "w_answers w" and ms = "w_mallocs w"]) simp

lemma untouched_trans [trans]: "untouched w v \<Longrightarrow> untouched v u \<Longrightarrow> untouched w u"
  by (auto simp: untouched_def, rule untouchedI [unfolded untouched_def], rule refl)

lemma untouched_frame:
  assumes "untouched w w'"
  shows "w_sys w' = w_sys w" "w_csm w' = w_csm w" "w_lif w' = w_lif w" "w_pif w' = w_pif w" "w_mac w' = w_mac w"
  using assms by (auto simp: untouched_def)

lemma untouched_malloc [simp]: "untouched w (snd (malloc_ok w))"
  by (rule untouchedI [where out = "w_out w" and as = "w_answers w" and ms = "tl (w_mallocs w)"]) (simp add: malloc_ok_def split: list.split)

lemma untouched_answer [simp]: "untouched w (snd (answer d w))"
  by (rule untouchedI [where out = "w_out w" and as = "tl (w_answers w)" and ms = "w_mallocs w"]) (simp add: answer_def split: list.split)

lemma untouched_emit [simp]: "untouched w (emit e w)"
  by (rule untouchedI [where out = "w_out w @ [e]" and as = "w_answers w" and ms = "w_mallocs w"]) (simp add: emit_def)

lemma untouched_sock_write: "untouched w (snd (sock_write_loop fd bs w))"
proof (induction fd bs w rule: sock_write_loop.induct)
  case (1 fd bs w)
  obtain ret w1 where w1: "sys_write fd bs w = (ret, w1)" by (cases "sys_write fd bs w")
  have "untouched w w1" using w1 untouched_trans [OF untouched_answer untouched_emit] by (auto simp: sys_write_alt)
  then show ?case using 1 w1 untouched_trans [of w w1] by (subst sock_write_loop.simps) auto
qed

lemma untouched_write [simp]: "untouched w (snd (mclagd_ctl_sock_write fd bs w))"
  using untouched_sock_write [of w fd bs] by (simp add: mclagd_ctl_sock_write_def case_prod_beta)

lemma untouched_reply: "untouched w w' \<Longrightarrow> untouched w (ctl_reply fd ty failed sz (ret, num, data, w'))"
  using untouched_trans untouched_write by (fastforce simp: ctl_reply_def Let_def)

subsection \<open>The buffer\<close>

definition room :: "nat \<Rightarrow> dump \<Rightarrow> bool" where
  "room sz d \<longleftrightarrow> (case d of (bsize, num, data) \<Rightarrow> MCLAGD_REPLY_INFO_HDR + (num + 1) * sz \<le> bsize)"

definition goes_on :: "world \<Rightarrow> bool" where
  "goes_on w \<longleftrightarrow> w_mallocs w = []"

lemma dump_entry_ok:
  assumes "room sz d" "sz \<le> MCLAGDCTL_CMD_SIZE"
  shows "\<exists>ok bsize w'. dump_entry sz bs d w = Some (ok, (bsize, fst (snd d) + 1, snd (snd d) @ bs), w')
    \<and> room sz (bsize, fst (snd d) + 1, snd (snd d) @ bs) \<and> untouched w w' \<and> (goes_on w \<longrightarrow> ok \<and> w' = w)"
proof -
  obtain bsize num data where d: "d = (bsize, num, data)" by (cases d)
  obtain ok w1 where w1: "malloc_ok w = (ok, w1)" by (cases "malloc_ok w")
  then have "untouched w w1" using untouched_malloc [of w] by simp
  moreover have "goes_on w \<longrightarrow> ok \<and> w1 = w" using w1 by (auto simp: goes_on_def malloc_ok_def)
  moreover have fit: "MCLAGD_REPLY_INFO_HDR + num * sz + sz \<le> bsize" using assms(1) d by (simp add: room_def)
  ultimately show ?thesis
  proof (cases "(num + 1 + 1) * sz > bsize - MCLAGD_REPLY_INFO_HDR")
    case True
    then have "dump_entry sz bs d w = Some (ok, (bsize + MCLAGDCTL_CMD_SIZE, num + 1, data @ bs), w1)"
      using d w1 fit by (simp add: dump_entry_def)
    moreover have "room sz (bsize + MCLAGDCTL_CMD_SIZE, num + 1, data @ bs)" using fit assms(2) by (simp add: room_def)
    ultimately show ?thesis using d \<open>untouched w w1\<close> \<open>goes_on w \<longrightarrow> ok \<and> w1 = w\<close> by simp
  next
    case False
    then have "dump_entry sz bs d w = Some (True, (bsize, num + 1, data @ bs), w)" using d fit by (simp add: dump_entry_def)
    moreover have "room sz (bsize, num + 1, data @ bs)" using False fit by (simp add: room_def)
    ultimately show ?thesis using d by auto
  qed
qed

lemma dump_entries_ok:
  assumes "room sz d" "sz \<le> MCLAGDCTL_CMD_SIZE" "\<forall>x \<in> set xs. enc x \<noteq> None"
  shows "\<exists>ok d' w'. dump_entries sz enc xs d w = Some (ok, d', w') \<and> room sz d' \<and> untouched w w'
    \<and> (goes_on w \<longrightarrow> ok \<and> w' = w \<and> snd d' = (fst (snd d) + length xs, snd (snd d) @ concat (map (\<lambda>x. the (enc x)) xs)))"
  using assms
proof (induction xs arbitrary: d w)
  case (Cons x xs)
  obtain bs where bs: "enc x = Some bs" using Cons.prems(3) by auto
  obtain ok bsize w1 where e: "dump_entry sz bs d w = Some (ok, (bsize, fst (snd d) + 1, snd (snd d) @ bs), w1)"
      "room sz (bsize, fst (snd d) + 1, snd (snd d) @ bs)" "untouched w w1" "goes_on w \<longrightarrow> ok \<and> w1 = w"
    using dump_entry_ok [OF Cons.prems(1,2)] by blast
  obtain ok2 d2 w2 where r: "dump_entries sz enc xs (bsize, fst (snd d) + 1, snd (snd d) @ bs) w1 = Some (ok2, d2, w2)" "room sz d2" "untouched w1 w2"
      "goes_on w1 \<longrightarrow> ok2 \<and> w2 = w1 \<and> snd d2 = (fst (snd d) + 1 + length xs, (snd (snd d) @ bs) @ concat (map (\<lambda>x. the (enc x)) xs))"
    using Cons.IH [OF e(2) Cons.prems(2), of w1] Cons.prems(3) by auto
  show ?case
  proof (cases ok)
    case True
    then show ?thesis using bs e r untouched_trans [OF e(3) r(3)] by auto
  next
    case False
    then show ?thesis using bs e by auto
  qed
qed auto

subsection \<open>Tables of entries\<close>

text \<open>The domains a request is about.\<close>

definition picked :: "int \<Rightarrow> csm_ptr list \<Rightarrow> world \<Rightarrow> CSM list" where
  "picked mclag_id cs w = filter (\<lambda>csm. mclag_id > 0 \<longrightarrow> csm_mlag_id csm = mclag_id) (map (\<lambda>c. the (w_csm w c)) cs)"

abbreviation selected :: "int \<Rightarrow> world \<Rightarrow> CSM list" where
  "selected mclag_id w \<equiv> picked mclag_id (sys_csm_list (w_sys w)) w"

text \<open>What a table promises: an entry fits into one growth of the buffer and depends on the state of the daemon only.\<close>

locale reply_table =
  fixes sz :: nat and entries :: "CSM \<Rightarrow> 'e list" and enc :: "'e \<Rightarrow> world \<Rightarrow> bytes option"
  assumes size_ok: "sz \<le> MCLAGDCTL_CMD_SIZE - MCLAGD_REPLY_INFO_HDR"
    and state_only: "untouched w w' \<Longrightarrow> enc x w' = enc x w"
begin

definition encodable :: "world \<Rightarrow> bool" where
  "encodable w \<longleftrightarrow> (\<forall>c \<in> set (sys_csm_list (w_sys w)). \<exists>csm. w_csm w c = Some csm \<and> (\<forall>x \<in> set (entries csm). enc x w \<noteq> None))"

lemma encodable_untouched: "untouched w w' \<Longrightarrow> encodable w' = encodable w"
  by (simp add: encodable_def untouched_frame state_only)

lemma domains_ok:
  assumes "room sz d" "\<forall>c \<in> set cs. \<exists>csm. w_csm w c = Some csm \<and> (\<forall>x \<in> set (entries csm). enc x w \<noteq> None)"
  shows "\<exists>ok ex d' w'. dump_domains (dump_list sz entries enc) mclag_id cs id_exist () d w = Some (ok, ex, d', w') \<and> untouched w w'
    \<and> (goes_on w \<longrightarrow> ok \<and> w' = w \<and> ex = (id_exist \<or> mclag_id > 0 \<and> picked mclag_id cs w \<noteq> [])
         \<and> snd d' = (fst (snd d) + length (concat (map entries (picked mclag_id cs w))),
             snd (snd d) @ concat (map (\<lambda>x. the (enc x w)) (concat (map entries (picked mclag_id cs w))))))"
  using assms
proof (induction cs arbitrary: d w id_exist)
  case Nil
  then show ?case by (auto simp: picked_def)
next
  case (Cons c cs)
  obtain csm where csm: "w_csm w c = Some csm" "\<forall>x \<in> set (entries csm). enc x w \<noteq> None" using Cons.prems(2) by auto
  show ?case
  proof (cases "mclag_id > 0 \<and> csm_mlag_id csm \<noteq> mclag_id")
    case True
    then have "picked mclag_id (c # cs) w = picked mclag_id cs w" using csm by (simp add: picked_def)
    then show ?thesis using Cons.IH [OF Cons.prems(1), of w id_exist] Cons.prems(2) csm True by simp
  next
    case False
    have sz: "sz \<le> MCLAGDCTL_CMD_SIZE" using size_ok by simp
    obtain ok d1 w1 where e: "dump_entries sz (\<lambda>x. enc x w) (entries csm) d w = Some (ok, d1, w1)" "room sz d1" "untouched w w1"
        "goes_on w \<longrightarrow> ok \<and> w1 = w \<and> snd d1 = (fst (snd d) + length (entries csm), snd (snd d) @ concat (map (\<lambda>x. the (enc x w)) (entries csm)))"
      using dump_entries_ok [OF Cons.prems(1) sz csm(2), of w] by blast
    have "\<forall>c \<in> set cs. \<exists>csm. w_csm w1 c = Some csm \<and> (\<forall>x \<in> set (entries csm). enc x w1 \<noteq> None)"
      using Cons.prems(2) untouched_frame(2) [OF e(3)] state_only [OF e(3)] by simp
    from Cons.IH [OF e(2) this, of "id_exist \<or> mclag_id > 0"] obtain ok2 ex d2 w2 where
      r: "dump_domains (dump_list sz entries enc) mclag_id cs (id_exist \<or> mclag_id > 0) () d1 w1 = Some (ok2, ex, d2, w2)" "untouched w1 w2"
        "goes_on w1 \<longrightarrow> ok2 \<and> w2 = w1 \<and> ex = ((id_exist \<or> mclag_id > 0) \<or> mclag_id > 0 \<and> picked mclag_id cs w1 \<noteq> [])
         \<and> snd d2 = (fst (snd d1) + length (concat (map entries (picked mclag_id cs w1))),
             snd (snd d1) @ concat (map (\<lambda>x. the (enc x w1)) (concat (map entries (picked mclag_id cs w1)))))"
      by blast
    have run: "dump_domains (dump_list sz entries enc) mclag_id (c # cs) id_exist () d w =
        (if ok then Some (ok2, ex, d2, w2) else Some (False, id_exist \<or> mclag_id > 0, d1, w1))"
      using False csm(1) e(1) r(1) by (auto simp: dump_list_def Let_def)
    have sel: "picked mclag_id (c # cs) w = csm # picked mclag_id cs w" using False csm by (simp add: picked_def)
    show ?thesis
    proof (cases ok)
      case True
      show ?thesis unfolding run sel by (rule exI [of _ ok2], rule exI [of _ ex], rule exI [of _ d2], rule exI [of _ w2])
        (use True e(3,4) r(2,3) untouched_trans [OF e(3) r(2)] in auto)
    next
      case False
      show ?thesis unfolding run sel by (rule exI [of _ False], rule exI [of _ "id_exist \<or> mclag_id > 0"], rule exI [of _ d1], rule exI [of _ w1])
        (use False e(3,4) in auto)
    qed
  qed
qed

lemma dump_ok:
  assumes "encodable w"
  shows "\<exists>ret num data w'. iccp_dump (dump_list sz entries enc) () mclag_id w = Some (ret, num, data, w') \<and> untouched w w'
    \<and> (goes_on w \<longrightarrow> w' = w \<and> ret = (if mclag_id > 0 \<and> selected mclag_id w = [] then EXEC_TYPE_NO_EXIST_MCLAGID else EXEC_TYPE_SUCCESS)
         \<and> num = length (concat (map entries (selected mclag_id w)))
         \<and> data = concat (map (\<lambda>x. the (enc x w)) (concat (map entries (selected mclag_id w)))))"
proof -
  obtain ok w1 where w1: "malloc_ok w = (ok, w1)" by (cases "malloc_ok w")
  then have u: "untouched w w1" using untouched_malloc [of w] by simp
  have g: "goes_on w \<longrightarrow> ok \<and> w1 = w" using w1 by (auto simp: goes_on_def malloc_ok_def)
  have "room sz (MCLAGDCTL_CMD_SIZE, 0, [])" using size_ok by (simp add: room_def)
  then obtain ok2 ex d' w2 where "dump_domains (dump_list sz entries enc) mclag_id (sys_csm_list (w_sys w1)) False () (MCLAGDCTL_CMD_SIZE, 0, []) w1 = Some (ok2, ex, d', w2)"
      "untouched w1 w2" "goes_on w1 \<longrightarrow> ok2 \<and> w2 = w1 \<and> ex = (mclag_id > 0 \<and> selected mclag_id w1 \<noteq> [])
         \<and> snd d' = (length (concat (map entries (selected mclag_id w1))), concat (map (\<lambda>x. the (enc x w1)) (concat (map entries (selected mclag_id w1)))))"
    using domains_ok [of "(MCLAGDCTL_CMD_SIZE, 0, [])" "sys_csm_list (w_sys w1)" w1 mclag_id False] assms encodable_untouched [OF u]
    by (auto simp: encodable_def)
  then show ?thesis using w1 u g untouched_trans [OF u] by (cases d') (auto simp: iccp_dump_def)
qed

end

interpretation arp_table: reply_table sizeof_mclagd_arp_msg "\<lambda>csm. ml_arp_list (MLACP csm)" arp_entry
  by unfold_locales (simp_all add: arp_entry_def)

interpretation ndisc_table: reply_table sizeof_mclagd_ndisc_msg "\<lambda>csm. ml_ndisc_list (MLACP csm)" ndisc_entry
  by unfold_locales (simp_all add: ndisc_entry_def)

interpretation mac_entries: reply_table sizeof_mclagd_mac_msg "\<lambda>csm. ml_mac_rb (MLACP csm)" mac_entry
  by unfold_locales (simp_all add: mac_entry_def untouched_frame)

interpretation local_if_table: reply_table sizeof_mclagd_local_if local_ifs local_if_entry
  by unfold_locales (simp_all add: local_if_entry_def untouched_frame)

interpretation peer_if_table: reply_table sizeof_mclagd_peer_if "\<lambda>csm. ml_pif_list (MLACP csm)" peer_if_entry
  by unfold_locales (simp_all add: peer_if_entry_def untouched_frame)

subsection \<open>Texts of fixed size\<close>

lemma snprintf_at_ok:
  assumes "0 \<le> off" "0 < n" "off + n \<le> int (length arr)"
  shows "\<exists>arr'. snprintf_at off n s arr = Some arr' \<and> length arr' = length arr"
proof -
  have "nat off + nat n \<le> length arr" "nat n - 1 < nat n" using assms by simp_all
  then have "length (take (nat off) arr @ (take (nat n - 1) s @ [CHR 0x00]) @ drop (nat off + length (take (nat n - 1) s @ [CHR 0x00])) arr) = length arr"
    by (simp add: min_def)
  then show ?thesis using assms by (simp add: snprintf_at_def Let_def)
qed

lemma enabled_names_ok:
  assumes "set ls \<subseteq> dom (w_lif w)" "0 \<le> len" "length arr = MCLAGDCTL_PORT_MEMBER_BUF_LEN"
  shows "\<exists>len' arr'. enabled_po_names ls len arr w = Some (len', arr') \<and> length arr' = MCLAGDCTL_PORT_MEMBER_BUF_LEN"
  using assms
proof (induction ls arbitrary: len arr)
  case (Cons l ls)
  obtain lif where lif: "w_lif w l = Some lif" using Cons.prems(1) by auto
  show ?case
  proof (cases "int MCLAGDCTL_PORT_MEMBER_BUF_LEN - len < int ICCP_MAX_PORT_NAME")
    case False
    then obtain arr' where "snprintf_at len (int MCLAGDCTL_PORT_MEMBER_BUF_LEN - len) (lif_name lif @ '','') arr = Some arr'"
        "length arr' = MCLAGDCTL_PORT_MEMBER_BUF_LEN"
      using snprintf_at_ok [of len "int MCLAGDCTL_PORT_MEMBER_BUF_LEN - len" arr] Cons.prems(2,3) by auto
    then show ?thesis using Cons lif False by simp
  qed (use Cons.prems(3) lif in simp)
qed simp

lemma enabled_po_ok:
  assumes "set ls \<subseteq> dom (w_lif w)" "0 \<le> len"
  shows "\<exists>len' arr. enabled_po ls len w = Some (len', arr) \<and> 0 \<le> len'"
proof -
  obtain len' arr' where "enabled_po_names ls len (replicate MCLAGDCTL_PORT_MEMBER_BUF_LEN CHR 0x00) w = Some (len', arr')"
    using enabled_names_ok [OF assms, of "replicate MCLAGDCTL_PORT_MEMBER_BUF_LEN CHR 0x00"] by auto
  then show ?thesis by (simp add: enabled_po_def Let_def)
qed

lemma show_nat_length: "n < 10 ^ k \<Longrightarrow> 0 < k \<Longrightarrow> length (show_nat n) \<le> k"
proof (induction n arbitrary: k rule: show_nat.induct)
  case (1 n)
  show ?case
  proof (cases "n < 10")
    case False
    then obtain j where j: "k = Suc j" "0 < j" using 1(2,3) by (cases k; cases "k - 1") auto
    then have "n div 10 < 10 ^ j" using 1(2) by (simp add: less_mult_imp_div_less mult.commute)
    then show ?thesis using 1(1) False j by (subst show_nat.simps) simp
  qed (use 1 in \<open>subst show_nat.simps, simp\<close>)
qed

lemma show_vid_length: "0 \<le> i \<Longrightarrow> i < 65536 \<Longrightarrow> length (show_int i) \<le> 5"
  using show_nat_length [of "nat i" 5] by (simp add: show_int_def)

lemma vlan_texts_ok:
  assumes "0 \<le> len" "0 \<le> prev" "prev < 65536" "length arr = MCLAGDCTL_PARA3_LEN"
  shows "\<exists>len' prev' rng' pend' arr'. vlan_texts vs len prev rng pend arr = Some (len', prev', rng', pend', arr') \<and> 0 \<le> len'
    \<and> length arr' = MCLAGDCTL_PARA3_LEN"
  using assms
proof (induction vs len prev rng pend arr rule: vlan_texts.induct)
  case (2 v vs len prev rng pend arr)
  have vid: "0 \<le> uint (vlan_vid v)" "uint (vlan_vid v) < 65536" using uint_bounded [of "vlan_vid v"] by simp_all
  consider "VLAN_STR_SIZE - len < 4" | "rng" "VLAN_STR_SIZE - len < 12" "prev = 0 \<or> uint (vlan_vid v) \<noteq> prev + 1"
    | "\<not> VLAN_STR_SIZE - len < 4" "\<not> (prev = 0 \<or> uint (vlan_vid v) \<noteq> prev + 1)"
    | "\<not> VLAN_STR_SIZE - len < 4" "prev = 0 \<or> uint (vlan_vid v) \<noteq> prev + 1" "\<not> (rng \<and> VLAN_STR_SIZE - len < 12)" by blast
  then show ?case
  proof cases
    case 3
    then show ?thesis using 2(2) [OF refl _ _] 2(3-) vid by simp
  next
    case 4
    define t where "t = (if rng then ''- '' @ show_int prev @ '' '' else [])"
    have t: "length t \<le> 8" "\<not> rng \<Longrightarrow> t = []" using show_vid_length [OF 2(4,5)] by (auto simp: t_def)
    obtain a1 where a1: "(if rng then snprintf_at len (VLAN_STR_SIZE - len) t arr else Some arr) = Some a1" "length a1 = MCLAGDCTL_PARA3_LEN"
      using snprintf_at_ok [of len "VLAN_STR_SIZE - len" arr t] 2(3,6) 4(1) by (cases rng) auto
    have "0 < VLAN_STR_SIZE - (len + int (length t))" using 4 t by (cases rng) auto
    then obtain a2 where a2: "snprintf_at (len + int (length t)) (VLAN_STR_SIZE - (len + int (length t))) (show_int (uint (vlan_vid v)) @ '' '') a1 = Some a2"
        "length a2 = MCLAGDCTL_PARA3_LEN"
      using snprintf_at_ok [of "len + int (length t)" "VLAN_STR_SIZE - (len + int (length t))" a1] 2(3) a1(2) by auto
    show ?thesis using 2(1) [OF refl 4 t_def a1(1) refl refl a2(1)] 2(3) vid a1 a2 4 t_def by (auto simp: Let_def)
  qed (use 2(3-) in \<open>auto simp: Let_def\<close>)
qed simp

lemma vlan_list_ok: "\<exists>arr. vlan_list vs = Some arr \<and> length arr = MCLAGDCTL_PARA3_LEN"
proof -
  obtain len prev rng pend arr where r: "vlan_texts vs 0 0 False False (replicate MCLAGDCTL_PARA3_LEN CHR 0x00) = Some (len, prev, rng, pend, arr)"
      "0 \<le> len" "length arr = MCLAGDCTL_PARA3_LEN"
    using vlan_texts_ok [of 0 0 "replicate MCLAGDCTL_PARA3_LEN CHR 0x00" vs False False] by auto
  then show ?thesis using snprintf_at_ok [of len "VLAN_STR_SIZE - len" arr] by (simp add: vlan_list_def)
qed

subsection \<open>A request never leaves the memory of the daemon\<close>

text \<open>
  What the tables are made of: the lists hold live objects, the names of interfaces fit into the members of an
  entry, and no two domains have the same number.
\<close>

definition printable :: "world \<Rightarrow> CSM \<Rightarrow> bool" where
  "printable w csm \<longleftrightarrow> set (ml_lif_list (MLACP csm)) \<subseteq> dom (w_lif w) \<and> set (ml_pif_list (MLACP csm)) \<subseteq> dom (w_pif w)
     \<and> set_option (csm_peer_link_if csm) \<subseteq> dom (w_lif w)
     \<and> (\<forall>p \<in> set (ml_mac_rb (MLACP csm)). \<exists>m. w_mac w p = Some m \<and> fits (mac_ifname m) \<and> fits (mac_origin_ifname m))
     \<and> (\<forall>m \<in> set (ml_arp_list (MLACP csm)). fits (arp_ifname m)) \<and> (\<forall>m \<in> set (ml_ndisc_list (MLACP csm)). fits (nd_ifname m))"

definition ctl_ok :: "world \<Rightarrow> bool" where
  "ctl_ok w \<longleftrightarrow> (\<forall>c \<in> set (sys_csm_list (w_sys w)). \<exists>csm. w_csm w c = Some csm \<and> printable w csm)
     \<and> set (sys_lif_list (w_sys w)) \<subseteq> dom (w_lif w)
     \<and> distinct (map csm_mlag_id (map (\<lambda>c. the (w_csm w c)) (sys_csm_list (w_sys w))))"

lemma printable_untouched: "untouched w w' \<Longrightarrow> printable w' csm = printable w csm"
  by (auto simp: untouched_def printable_def)

lemma ctl_ok_untouched: "untouched w w' \<Longrightarrow> ctl_ok w' = ctl_ok w"
  by (auto simp: untouched_def ctl_ok_def printable_def)

lemma tables_encodable:
  assumes "ctl_ok w"
  shows "arp_table.encodable w" "ndisc_table.encodable w" "mac_entries.encodable w" "local_if_table.encodable w" "peer_if_table.encodable w"
proof -
  have c: "\<forall>c \<in> set (sys_csm_list (w_sys w)). \<exists>csm. w_csm w c = Some csm \<and> printable w csm" using assms by (simp add: ctl_ok_def)
  have e: "\<forall>m \<in> set (ml_arp_list (MLACP csm)). arp_entry m w \<noteq> None" "\<forall>m \<in> set (ml_ndisc_list (MLACP csm)). ndisc_entry m w \<noteq> None"
      "\<forall>p \<in> set (ml_mac_rb (MLACP csm)). mac_entry p w \<noteq> None" "\<forall>p \<in> set (ml_pif_list (MLACP csm)). peer_if_entry p w \<noteq> None"
    if "printable w csm" for csm
    using that by (auto simp: arp_entry_def ndisc_entry_def mac_entry_def peer_if_entry_def printable_def dest!: bspec)
  have v: "\<exists>i. local_if_info u l = Some i" for u l using vlan_list_ok [of "lif_vlan_tree l"] by (auto simp: local_if_info_def)
  have l: "\<forall>ul \<in> set (local_ifs csm). local_if_entry ul w \<noteq> None" if "printable w csm" for csm
  proof
    fix ul assume "ul \<in> set (local_ifs csm)"
    then have "snd ul \<in> dom (w_lif w)" using that by (cases "csm_peer_link_if csm") (auto simp: printable_def local_ifs_def)
    then obtain lif where "w_lif w (snd ul) = Some lif" by auto
    then show "local_if_entry ul w \<noteq> None" using v [of "fst ul" lif] by (auto simp: local_if_entry_def)
  qed
  show "arp_table.encodable w" using c e(1) unfolding arp_table.encodable_def by blast
  show "ndisc_table.encodable w" using c e(2) unfolding ndisc_table.encodable_def by blast
  show "mac_entries.encodable w" using c e(3) unfolding mac_entries.encodable_def by blast
  show "peer_if_table.encodable w" using c e(4) unfolding peer_if_table.encodable_def by blast
  show "local_if_table.encodable w" using c l unfolding local_if_table.encodable_def by blast
qed

lemma domains_total:
  assumes step: "\<And>csm k d v. G csm \<Longrightarrow> untouched w v \<Longrightarrow> room sz d \<Longrightarrow> J k
      \<Longrightarrow> \<exists>ok k' d' v'. f csm k d v = Some (ok, k', d', v') \<and> J k' \<and> room sz d' \<and> untouched v v'"
    and "\<forall>c \<in> set cs. \<exists>csm. w_csm w c = Some csm \<and> G csm" "untouched w v" "room sz d" "J k"
  shows "\<exists>ok ex d' v'. dump_domains f mclag_id cs id_exist k d v = Some (ok, ex, d', v') \<and> untouched w v'"
  using assms(2-)
proof (induction cs arbitrary: id_exist k d v)
  case (Cons c cs)
  obtain csm where csm: "w_csm w c = Some csm" "G csm" using Cons.prems(1) by auto
  then have csm': "w_csm v c = Some csm" using untouched_frame(2) [OF Cons.prems(2)] by simp
  have cs: "\<forall>c \<in> set cs. \<exists>csm. w_csm w c = Some csm \<and> G csm" using Cons.prems(1) by simp
  show ?case
  proof (cases "mclag_id > 0 \<and> csm_mlag_id csm \<noteq> mclag_id")
    case True
    then show ?thesis using Cons.IH [OF cs Cons.prems(2-4), of id_exist] csm' by simp
  next
    case False
    obtain ok k' d' v' where f: "f csm k d v = Some (ok, k', d', v')" "J k'" "room sz d'" "untouched v v'"
      using step [OF csm(2) Cons.prems(2-4)] by blast
    then have u: "untouched w v'" using untouched_trans [OF Cons.prems(2)] by simp
    then show ?thesis using Cons.IH [OF cs u f(3,2), of "id_exist \<or> mclag_id > 0"] False csm' f(1) by (cases ok; cases d') auto
  qed
qed auto

lemma find_ptr_ok: "set xs \<subseteq> dom h \<Longrightarrow> \<exists>r. find_ptr h P xs = Some r \<and> set_option r \<subseteq> set xs"
  by (induction xs) fastforce+

lemma state_info_ok:
  assumes "ctl_ok w" "printable w csm" "0 \<le> len"
  shows "\<exists>len' info. state_info config csm len w = Some (len', info) \<and> 0 \<le> len'"
proof -
  have "set (sys_lif_list (w_sys w)) \<subseteq> dom (w_lif w)" using assms(1) by (simp add: ctl_ok_def)
  then obtain r where r: "local_if_find_by_name (csm_peer_itf_name csm) w = Some r" "set_option r \<subseteq> dom (w_lif w)"
    using find_ptr_ok [of "sys_lif_list (w_sys w)" "w_lif w"] by (fastforce simp: local_if_find_by_name_def)
  then obtain peer mac where "(case r of None \<Rightarrow> Some (''Unknown'', replicate 6 0)
       | Some q \<Rightarrow> do { lif \<leftarrow> w_lif w q; Some (lif_name lif, lif_mac_addr lif) }) = Some (peer, mac)"
    by (cases r) auto
  moreover obtain len' names where "enabled_po (ml_lif_list (MLACP csm)) len w = Some (len', names)" "0 \<le> len'"
    using enabled_po_ok [of "ml_lif_list (MLACP csm)" w len] assms(2,3) by (auto simp: printable_def)
  ultimately show ?thesis using r(1) by (simp add: state_info_def)
qed

lemma dump_state_ok:
  assumes "ctl_ok w" "printable w csm" "room sizeof_mclagd_state d" "0 \<le> len"
  shows "\<exists>ok len' d' w'. dump_state config csm len d w = Some (ok, len', d', w') \<and> 0 \<le> len' \<and> room sizeof_mclagd_state d' \<and> untouched w w'"
proof -
  obtain len' info where i: "state_info config csm len w = Some (len', info)" "0 \<le> len'" using state_info_ok [OF assms(1,2,4)] by blast
  then show ?thesis using dump_entry_ok [OF assms(3), of "put_mclagd_state info" w] by (auto simp: dump_state_def)
qed

lemma config_dump_ok:
  assumes "ctl_ok w"
  shows "\<exists>ret num data w'. iccp_mclag_config_dump config mclag_id w = Some (ret, num, data, w') \<and> untouched w w'"
proof -
  obtain ok w1 where w1: "malloc_ok w = (ok, w1)" "untouched w w1" using untouched_malloc [of w] by (cases "malloc_ok w") auto
  have ok1: "ctl_ok w1" using assms ctl_ok_untouched [OF w1(2)] by simp
  have "room sizeof_mclagd_state (MCLAGDCTL_CMD_SIZE, 0, [])" by (simp add: room_def)
  moreover have "\<forall>c \<in> set (sys_csm_list (w_sys w1)). \<exists>csm. w_csm w1 c = Some csm \<and> printable w1 csm" using ok1 by (simp add: ctl_ok_def)
  moreover have "\<exists>ok k' d' v'. dump_state config csm k d v = Some (ok, k', d', v') \<and> 0 \<le> k' \<and> room sizeof_mclagd_state d' \<and> untouched v v'"
    if "printable w1 csm" "untouched w1 v" "room sizeof_mclagd_state d" "0 \<le> k" for csm k d v
    using dump_state_ok [OF _ _ that(3,4)] that(1) ok1 ctl_ok_untouched [OF that(2)] printable_untouched [OF that(2)] by blast
  ultimately obtain ok2 ex d' w2 where "dump_domains (dump_state config) mclag_id (sys_csm_list (w_sys w1)) False 0 (MCLAGDCTL_CMD_SIZE, 0, []) w1 = Some (ok2, ex, d', w2)"
      "untouched w1 w2"
    using domains_total [where J = "\<lambda>k. 0 \<le> k" and G = "printable w1" and w = w1 and v = w1 and f = "dump_state config" and sz = sizeof_mclagd_state
        and cs = "sys_csm_list (w_sys w1)" and d = "(MCLAGDCTL_CMD_SIZE, 0, [])" and k = 0 and mclag_id = mclag_id and id_exist = False] by auto
  then show ?thesis using w1 untouched_trans [OF w1(2)] by (cases d') (auto simp: iccp_mclag_config_dump_def iccp_dump_def)
qed

lemma unique_dump_ok:
  assumes "ctl_ok w"
  shows "\<exists>ret num data w'. iccp_unique_ip_if_dump mclag_id w = Some (ret, num, data, w') \<and> untouched w w'"
proof -
  obtain ok w1 where w1: "malloc_ok w = (ok, w1)" "untouched w w1" using untouched_malloc [of w] by (cases "malloc_ok w") auto
  have l: "set (sys_lif_list (w_sys w1)) \<subseteq> dom (w_lif w1)" using assms untouched_frame [OF w1(2)] by (simp add: ctl_ok_def)
  have "unique_if_entry name w1 \<noteq> None" for name
    using find_ptr_ok [OF l, of "\<lambda>l. lif_name l = name \<and> lif_is_l3_proto_enabled l"] by (auto simp: unique_if_entry_def local_if_l3_proto_enabled_def)
  moreover have "room sizeof_mclagd_unique_ip_if (MCLAGDCTL_CMD_SIZE, 0, [])" by (simp add: room_def)
  ultimately obtain ok2 d' w2 where "dump_entries sizeof_mclagd_unique_ip_if (\<lambda>name. unique_if_entry name w1)
      (sys_unq_ip_if_list (w_sys w1)) (MCLAGDCTL_CMD_SIZE, 0, []) w1 = Some (ok2, d', w2)" "untouched w1 w2"
    using dump_entries_ok [of sizeof_mclagd_unique_ip_if "(MCLAGDCTL_CMD_SIZE, 0, [])" "sys_unq_ip_if_list (w_sys w1)"
        "\<lambda>name. unique_if_entry name w1" w1] by auto
  then show ?thesis using w1 untouched_trans [OF w1(2)] by (cases d') (auto simp: iccp_unique_ip_if_dump_def)
qed

lemma those_map: "\<forall>x \<in> set xs. f x \<noteq> None \<Longrightarrow> those (map f xs) = Some (map (\<lambda>x. the (f x)) xs)"
  by (induction xs) auto

lemma distinct_filter_one: "distinct (map f xs) \<Longrightarrow> length (filter (\<lambda>x. f x = k) xs) \<le> 1"
proof (induction xs)
  case (Cons x xs)
  then show ?case using filter_empty_conv [of "\<lambda>y. f y = f x" xs] by (auto simp: image_iff)
qed simp

lemma counter_dump_ok:
  assumes "ctl_ok w"
  shows "\<exists>ret num data w'. iccp_cmd_dbg_counter_dump mclag_id w = Some (ret, num, data, w') \<and> untouched w w'"
proof -
  obtain ok w1 where w1: "malloc_ok w = (ok, w1)" "untouched w w1" using untouched_malloc [of w] by (cases "malloc_ok w") auto
  have ok1: "ctl_ok w1" using assms ctl_ok_untouched [OF w1(2)] by simp
  let ?csms = "map (\<lambda>c. the (w_csm w1 c)) (sys_csm_list (w_sys w1))"
  have "those (map (w_csm w1) (sys_csm_list (w_sys w1))) = Some ?csms" using ok1 by (intro those_map) (auto simp: ctl_ok_def)
  moreover have "length (filter (\<lambda>csm. mclag_id > 0 \<longrightarrow> csm_mlag_id csm = mclag_id) ?csms)
      \<le> (if mclag_id > 0 then 1 else length (sys_csm_list (w_sys w1)))"
    using distinct_filter_one [of csm_mlag_id ?csms mclag_id] ok1 length_filter_le [of _ ?csms] by (auto simp: ctl_ok_def)
  ultimately show ?thesis using w1 untouched_frame(1) [OF w1(2)] by (auto simp: iccp_cmd_dbg_counter_dump_def Let_def)
qed

lemma table_dumps_ok:
  assumes "ctl_ok w"
  shows "\<exists>ret num data w'. iccp_arp_dump mclag_id w = Some (ret, num, data, w') \<and> untouched w w'"
    "\<exists>ret num data w'. iccp_ndisc_dump mclag_id w = Some (ret, num, data, w') \<and> untouched w w'"
    "\<exists>ret num data w'. iccp_mac_dump mclag_id w = Some (ret, num, data, w') \<and> untouched w w'"
    "\<exists>ret num data w'. iccp_local_if_dump mclag_id w = Some (ret, num, data, w') \<and> untouched w w'"
    "\<exists>ret num data w'. iccp_peer_if_dump mclag_id w = Some (ret, num, data, w') \<and> untouched w w'"
  unfolding iccp_arp_dump_def iccp_ndisc_dump_def iccp_mac_dump_def iccp_local_if_dump_def iccp_peer_if_dump_def
  using arp_table.dump_ok [OF tables_encodable(1) [OF assms]] ndisc_table.dump_ok [OF tables_encodable(2) [OF assms]]
    mac_entries.dump_ok [OF tables_encodable(3) [OF assms]] local_if_table.dump_ok [OF tables_encodable(4) [OF assms]]
    peer_if_table.dump_ok [OF tables_encodable(5) [OF assms]] by meson+

lemmas dumps_ok = config_dump_ok table_dumps_ok counter_dump_ok unique_dump_ok

lemma reply_ok:
  assumes "\<exists>ret num data w'. d = Some (ret, num, data, w') \<and> untouched w w'"
  shows "\<exists>w'. map_option (ctl_reply fd ty failed sz) d = Some w' \<and> untouched w w'"
  using assms untouched_reply by fastforce

lemma handlers_ok:
  assumes "ctl_ok w"
  shows "\<exists>w'. mclagd_ctl_handle_dump_state fd mclag_id config w = Some w' \<and> untouched w w'"
    "\<exists>w'. mclagd_ctl_handle_dump_arp fd mclag_id w = Some w' \<and> untouched w w'"
    "\<exists>w'. mclagd_ctl_handle_dump_ndisc fd mclag_id w = Some w' \<and> untouched w w'"
    "\<exists>w'. mclagd_ctl_handle_dump_mac fd mclag_id w = Some w' \<and> untouched w w'"
    "\<exists>w'. mclagd_ctl_handle_dump_local_portlist fd mclag_id w = Some w' \<and> untouched w w'"
    "\<exists>w'. mclagd_ctl_handle_dump_peer_portlist fd mclag_id w = Some w' \<and> untouched w w'"
    "\<exists>w'. mclagd_ctl_handle_dump_dbg_counters fd mclag_id w = Some w' \<and> untouched w w'"
    "\<exists>w'. mclagd_ctl_handle_dump_unique_ip fd mclag_id w = Some w' \<and> untouched w w'"
  unfolding mclagd_ctl_handle_dump_state_def mclagd_ctl_handle_dump_arp_def mclagd_ctl_handle_dump_ndisc_def mclagd_ctl_handle_dump_mac_def mclagd_ctl_handle_dump_local_portlist_def mclagd_ctl_handle_dump_peer_portlist_def mclagd_ctl_handle_dump_dbg_counters_def mclagd_ctl_handle_dump_unique_ip_def
  by (rule dumps_ok [OF assms, THEN reply_ok])+

lemma read_loop_length: "sock_read_loop rx got n = (ret, req, rx') \<Longrightarrow> 0 \<le> ret \<Longrightarrow> length req = length got + n"
proof (induction rx got n rule: sock_read_loop.induct)
  case (1 rx got n)
  from 1(2) show ?case by (subst (asm) sock_read_loop.simps)
    (use 1(1,3) in \<open>auto split: if_splits list.splits option.splits\<close>)
qed

lemma process_ok:
  assumes "ctl_ok w"
  shows "\<exists>ret config' w'. mclagd_ctl_interactive_process fd rx config w = Some (ret, config', w') \<and> untouched w w'
    \<and> (\<exists>level. config' = logger_set_configuration level config \<or> config' = config)"
proof -
  obtain ret req rx' where r: "mclagd_ctl_sock_read rx sizeof_mclagdctl_req_hdr = (ret, req, rx')" by (cases "mclagd_ctl_sock_read rx sizeof_mclagdctl_req_hdr")
  show ?thesis
  proof (cases "fd < 0 \<or> ret < 0")
    case True
    then show ?thesis using r by (auto simp: mclagd_ctl_interactive_process_def)
  next
    case False
    then have "length req = sizeof_mclagdctl_req_hdr" using r read_loop_length [of rx "[]" sizeof_mclagdctl_req_hdr ret req rx'] by (simp add: mclagd_ctl_sock_read_def)
    then obtain info_type mclag_id where "get_int 0 req = Some info_type" "get_int 4 req = Some mclag_id" by (auto simp: get_int_def ld32_def)
    then have "mclagd_ctl_interactive_process fd rx config w =
        (if info_type = INFO_TYPE_DUMP_STATE then map_option (\<lambda>w. (0, config, w)) (mclagd_ctl_handle_dump_state fd mclag_id config w)
          else if info_type = INFO_TYPE_DUMP_ARP then map_option (\<lambda>w. (0, config, w)) (mclagd_ctl_handle_dump_arp fd mclag_id w)
          else if info_type = INFO_TYPE_DUMP_NDISC then map_option (\<lambda>w. (0, config, w)) (mclagd_ctl_handle_dump_ndisc fd mclag_id w)
          else if info_type = INFO_TYPE_DUMP_MAC then map_option (\<lambda>w. (0, config, w)) (mclagd_ctl_handle_dump_mac fd mclag_id w)
          else if info_type = INFO_TYPE_DUMP_LOCAL_PORTLIST then map_option (\<lambda>w. (0, config, w)) (mclagd_ctl_handle_dump_local_portlist fd mclag_id w)
          else if info_type = INFO_TYPE_DUMP_PEER_PORTLIST then map_option (\<lambda>w. (0, config, w)) (mclagd_ctl_handle_dump_peer_portlist fd mclag_id w)
          else if info_type = INFO_TYPE_DUMP_DBG_COUNTERS then map_option (\<lambda>w. (0, config, w)) (mclagd_ctl_handle_dump_dbg_counters fd mclag_id w)
          else if info_type = INFO_TYPE_DUMP_UNIQUE_IP then map_option (\<lambda>w. (0, config, w)) (mclagd_ctl_handle_dump_unique_ip fd mclag_id w)
          else if info_type = INFO_TYPE_CONFIG_LOGLEVEL then Some (0, mclagd_ctl_handle_config_loglevel fd mclag_id config w)
          else Some (MCLAG_ERROR, config, w))"
      using False r by (simp add: mclagd_ctl_interactive_process_def)
    then show ?thesis using handlers_ok [OF assms] by (simp add: mclagd_ctl_handle_config_loglevel_def) blast
  qed
qed

text \<open>
  C35: Whatever a client of the control socket sends, in whatever pieces, and however the socket and the memory
  allocation of the daemon answer, the event is handled without a write outside a buffer or an access to an
  object that is not there, and leaves every object of the daemon as it was: only the log level may change.
\<close>

theorem control_socket_safe:
  assumes "ctl_ok w"
  shows "\<exists>config' w'. ctl_event rx config w = Some (config', w') \<and> untouched w w'
    \<and> (\<exists>level. config' = logger_set_configuration level config \<or> config' = config)"
proof -
  obtain fd w1 where a: "mclagd_ctl_sock_accept w = (fd, w1)" by (cases "mclagd_ctl_sock_accept w")
  then have "w1 = snd (answer 0 w)" by (auto simp: mclagd_ctl_sock_accept_def split: prod.splits)
  then have u: "untouched w w1" by simp
  then have "ctl_ok w1" using assms ctl_ok_untouched by simp
  from process_ok [OF this, of fd rx config] obtain ret config' w2 where
    p: "mclagd_ctl_interactive_process fd rx config w1 = Some (ret, config', w2)" "untouched w1 w2"
      "\<exists>level. config' = logger_set_configuration level config \<or> config' = config" by blast
  have "untouched w (emit (Ev_close fd) w2)" using untouched_trans [OF untouched_trans [OF u p(2)] untouched_emit] .
  then show ?thesis using a p u by (cases "fd > 0") (auto simp: ctl_event_def)
qed

definition demo_config :: LoggerConfig where
  "demo_config = \<lparr>console_log_enabled = 0, log_level = NOTICE_LOG_LEVEL, logger_init = 1\<rparr>"

lemma demo_ctl_ok: "ctl_ok (demo\<lparr>w_answers := as\<rparr>)"
  by (auto simp: ctl_ok_def printable_def demo_simps fits_def)

theorem control_socket_safe_witness:
  "ctl_ok (demo\<lparr>w_answers := [9]\<rparr>) \<and> (\<exists>config' w'. ctl_event [Some (put_mclagdctl_req_hdr INFO_TYPE_DUMP_MAC 1)] demo_config
     (demo\<lparr>w_answers := [9]\<rparr>) = Some (config', w') \<and> untouched (demo\<lparr>w_answers := [9]\<rparr>) w')"
  using control_socket_safe [OF demo_ctl_ok] demo_ctl_ok by fast

subsection \<open>Reading and writing structures\<close>

named_theorems fields

lemma ld_skip [fields]:
  assumes "length xs \<le> i"
  shows "ldn i n (xs @ ys) = ldn (i - length xs) n ys" "ld8 i (xs @ ys) = ld8 (i - length xs) ys"
    "ld16 i (xs @ ys) = ld16 (i - length xs) ys" "ld32 i (xs @ ys) = ld32 (i - length xs) ys"
  using assms by (auto simp: ldn_def ld8_def ld16_def ld32_def nth_append Suc_diff_le)

lemma ldn_here [fields]: "length xs = n \<Longrightarrow> ldn 0 n (xs @ ys) = Some xs" "length xs = n \<Longrightarrow> ldn 0 n xs = Some xs"
  by (auto simp: ldn_def)

lemma ld_here [fields]: "ld8 0 (b # bs) = Some b" "ld16 0 (le16 x @ ys) = Some x"
  by (simp_all add: ld8_def ld16_def le16_def)

lemma ld8_Suc [fields]: "0 < i \<Longrightarrow> ld8 i (b # bs) = ld8 (i - 1) bs" "0 < i \<Longrightarrow> ldn i n (b # bs) = ldn (i - 1) n bs"
    "0 < i \<Longrightarrow> ld16 i (b # bs) = ld16 (i - 1) bs" "0 < i \<Longrightarrow> ld32 i (b # bs) = ld32 (i - 1) bs"
  using ld_skip [of "[b]" i] by simp_all

lemma get_int_put [fields]:
  assumes "- (2 ^ 31) \<le> i" "i < 2 ^ 31"
  shows "get_int 0 (put_int i @ bs) = Some i" "get_int 0 (put_int i) = Some i"
proof -
  have "sint (of_int i :: u32) = i" using assms by (simp add: sint_sbintrunc' signed_take_bit_int_eq_self_iff)
  then show "get_int 0 (put_int i @ bs) = Some i" "get_int 0 (put_int i) = Some i" by (simp_all add: get_int_def ld32_def put_int_def le32_def)
qed

lemma get_int_skip [fields]: "length xs \<le> i \<Longrightarrow> get_int i (xs @ ys) = get_int (i - length xs) ys"
    "0 < i \<Longrightarrow> get_int i (b # bs) = get_int (i - 1) bs"
  by (simp_all add: get_int_def fields)

subsection \<open>Pieces of a stream\<close>

definition pieces :: "bytes option list \<Rightarrow> bytes \<Rightarrow> bool" where
  "pieces rx bs \<longleftrightarrow> (\<exists>bss. rx = map Some bss \<and> [] \<notin> set bss \<and> concat bss = bs)"

lemma pieces_Cons: "pieces (Some b # rx) bs \<longleftrightarrow> b \<noteq> [] \<and> (\<exists>cs. bs = b @ cs \<and> pieces rx cs)"
  by (auto simp: pieces_def map_eq_Cons_conv Cons_eq_map_conv)

lemma piecesE:
  assumes "pieces rx bs" "bs \<noteq> []"
  obtains b rx' cs where "rx = Some b # rx'" "b \<noteq> []" "bs = b @ cs" "pieces rx' cs"
  using assms by (cases rx) (auto simp: pieces_def Cons_eq_map_conv)

lemma pieces_read:
  assumes "pieces rx bs" "n \<le> length bs"
  shows "\<exists>rx'. sock_read_loop rx got n = (int (length got + n), got @ take n bs, rx') \<and> pieces rx' (drop n bs)"
  using assms
proof (induction rx got n arbitrary: bs rule: sock_read_loop.induct)
  case (1 rx got n)
  show ?case
  proof (cases "n = 0")
    case True
    then show ?thesis using 1(2) by (subst sock_read_loop.simps) simp
  next
    case False
    then have "bs \<noteq> []" using 1(3) by auto
    with 1(2) obtain b rx' cs where p: "rx = Some b # rx'" "b \<noteq> []" "bs = b @ cs" "pieces rx' cs" by (rule piecesE)
    have run: "sock_read_loop rx got n = sock_read_loop (if n < length b then Some (drop n b) # rx' else rx') (got @ take n b) (n - length b)"
      using p(1,2) False by (subst sock_read_loop.simps) simp
    show ?thesis
    proof (cases "n < length b")
      case True
      then show ?thesis using p unfolding run by (subst sock_read_loop.simps) (simp add: pieces_Cons)
    next
      case le: False
      then have "pieces (if n < length b then Some (drop n b) # rx' else rx') cs" "n - length b \<le> length cs" using p(3,4) 1(3) by auto
      from 1(1) [OF False p(1) refl p(2) this] show ?thesis using le p(3) unfolding run by simp
    qed
  qed
qed

lemma write_all: "w_answers w = [] \<Longrightarrow> bs \<noteq> [] \<Longrightarrow>
    mclagd_ctl_sock_write fd bs w = (int (length bs), emit (Ev_write fd bs (int (length bs))) w)"
  by (simp add: mclagd_ctl_sock_write_def sock_write_loop.simps [of fd bs] sock_write_loop.simps [of fd "[]"] sys_write_def answer_def)

lemma client_write_all: "\<forall>r \<in> set wr. 0 < r \<Longrightarrow> client_write wr bs = (True, bs)"
  by (induction wr bs rule: client_write.induct) auto

subsection \<open>What the client prints\<close>

lemma request_read:
  assumes "pieces rx (put_mclagdctl_req_hdr info_type mclag_id)"
  shows "\<exists>rx'. mclagd_ctl_sock_read rx sizeof_mclagdctl_req_hdr = (104, put_mclagdctl_req_hdr info_type mclag_id, rx')"
proof -
  have "length (put_mclagdctl_req_hdr info_type mclag_id) = 104" by (simp add: put_mclagdctl_req_hdr_def)
  then show ?thesis using pieces_read [OF assms, of 104 "[]"] by (auto simp: mclagd_ctl_sock_read_def)
qed

lemma reply_read:
  assumes "pieces rx (put_int (data_len + 12) @ put_mclagd_reply_hdr info_type data_len EXEC_TYPE_SUCCESS @ data)"
    and "0 \<le> data_len" "data_len + 12 < 2 ^ 31" "int (length data) = data_len" "0 \<le> info_type" "info_type < 2 ^ 31"
  shows "read_reply info_type rx True = map_option (Pair EXIT_SUCCESS) (parse_msg info_type data data_len)"
proof -
  define msg where "msg = put_mclagd_reply_hdr info_type data_len EXEC_TYPE_SUCCESS @ data"
  have len: "length msg = nat (data_len + 12)" using assms(2,4) by (simp add: msg_def put_mclagd_reply_hdr_def)
  obtain rx' where r: "sock_read_loop rx [] 4 = (4, put_int (data_len + 12), rx')" "pieces rx' msg"
    using pieces_read [OF assms(1), of 4 "[]"] by (auto simp: msg_def)
  obtain rx'' where r': "sock_read_loop rx' [] (nat (data_len + 12)) = (data_len + 12, msg, rx'')"
    using pieces_read [OF r(2), of "nat (data_len + 12)" "[]"] len assms(2) by auto
  have f: "get_int 0 (put_int (data_len + 12)) = Some (data_len + 12)" "get_int 0 msg = Some info_type" "get_int 8 msg = Some EXEC_TYPE_SUCCESS"
      "drop 12 msg = data"
    using assms(2-6) by (simp_all add: msg_def fields put_mclagd_reply_hdr_def)
  show ?thesis using assms(2)
    by (cases "parse_msg info_type data data_len") (simp_all add: read_reply_def mclagdctl_sock_read_def r(1) f r')
qed

lemma parse_entries_ok:
  assumes "0 < len" "\<forall>e \<in> set (pre @ es). length e = len" "\<And>i e. e \<in> set es \<Longrightarrow> show_entry i e = Some (t i e)"
  shows "parse_entries len show_entry (concat (pre @ es)) (int (len * length es)) (length pre)
    = Some (concat (map (\<lambda>(i, e). t i e) (enumerate (length pre) es)))"
  using assms(2,3)
proof (induction es arbitrary: pre)
  case Nil
  then show ?case using assms(1) by (subst parse_entries.simps) simp
next
  case (Cons e es)
  have "length (concat pre) = len * length pre" using Cons.prems(1) by (induction pre) auto
  then have "ldn (len * length pre) len (concat (pre @ e # es)) = Some e" using Cons.prems(1) by (simp add: fields)
  moreover have "parse_entries len show_entry (concat (pre @ e # es)) (int (len * length es)) (length pre + 1)
      = Some (concat (map (\<lambda>(i, e). t i e) (enumerate (length pre + 1) es)))"
    using Cons.IH [of "pre @ [e]"] Cons.prems by simp
  moreover have "\<not> int len * int (length es) < 0" by (simp add: not_less)
  ultimately show ?case using assms(1) Cons.prems(2) by (subst parse_entries.simps) (simp add: algebra_simps)
qed

text \<open>A row of the table of addresses.\<close>

definition mac_row :: "nat \<Rightarrow> MACMsg \<Rightarrow> string" where
  "mac_row i m = pad 6 (show_nat (i + 1)) @ pad 5 (if mac_fdb_type m = MAC_TYPE_STATIC then ''S'' else ''D'') @ pad 20 (show_mac (mac_addr m))
     @ pad 5 (show_nat (unat (mac_vid m))) @ pad 20 (mac_ifname m) @ pad 20 (mac_origin_ifname m)
     @ pad 5 (age_text (unat (mac_age_flag m))) @ nl"

definition printable_mac :: "MACMsg \<Rightarrow> bool" where
  "printable_mac m \<longleftrightarrow> length (mac_addr m) = 6 \<and> cstring 32 (mac_ifname m) \<and> cstring 32 (mac_origin_ifname m)"

lemma unat_one_iff [simp]: "unat (x :: u8) = Suc 0 \<longleftrightarrow> x = 1"
  using word_unat_eq_iff [of x 1] by simp

lemma mac_line_ok: "printable_mac m \<Longrightarrow> mac_line i (put_mclagd_mac_msg (mac_info m)) = Some (mac_row i m)"
  by (simp add: printable_mac_def mac_line_def mac_row_def put_mclagd_mac_msg_def mac_info_def get_u8_def get_str_def fields)

lemma help_ok: "\<exists>t. mclagdctl_print_help argv0 = Some t"
proof -
  have "those (map (mclagdctl_print_cmd 3) (filter mclagdctl_cmd_executable command_types)) \<noteq> None" by code_simp
  then show ?thesis by (auto simp: mclagdctl_print_help_def)
qed

lemma find_dump_mac: "map_option cmd_info_type (mclagdctl_find_cmd ID_CMDTYPE_NONE [''dump'', ''mac'']) = Some (Some INFO_TYPE_DUMP_MAC)"
  by code_simp

lemma parse_mac_ok:
  assumes "\<forall>m \<in> set ms. printable_mac m"
  shows "mclagdctl_parse_dump_mac (concat (map (\<lambda>m. put_mclagd_mac_msg (mac_info m)) ms)) (int (sizeof_mclagd_mac_msg * length ms))
    = Some (mac_header @ concat (map (\<lambda>(i, m). mac_row i m) (enumerate 0 ms)))"
proof -
  let ?es = "map (\<lambda>m. put_mclagd_mac_msg (mac_info m)) ms"
  have len: "\<forall>e \<in> set ([] @ ?es). length e = sizeof_mclagd_mac_msg" using assms by (auto simp: put_mclagd_mac_msg_def mac_info_def printable_mac_def)
  have "mac_line i e = Some (the (mac_line i e))" if "e \<in> set ?es" for i e using that assms mac_line_ok by auto
  from parse_entries_ok [OF _ len this] have "parse_entries sizeof_mclagd_mac_msg mac_line (concat ?es) (int (sizeof_mclagd_mac_msg * length ms)) 0
      = Some (concat (map (\<lambda>(i, e). the (mac_line i e)) (enumerate 0 ?es)))" by simp
  moreover have "map (\<lambda>(i, e). the (mac_line i e)) (enumerate 0 ?es) = map (\<lambda>(i, m). mac_row i m) (enumerate 0 ms)"
    using assms mac_line_ok by (intro nth_equalityI) (simp_all add: nth_enumerate_eq)
  ultimately show ?thesis by (simp add: mclagdctl_parse_dump_mac_def)
qed

lemma handle_mac_ok:
  assumes "ctl_ok w" "goes_on w" "w_answers w = []" "0 < mclag_id" "selected mclag_id w = [csm]"
    and "map (w_mac w) (ml_mac_rb (MLACP csm)) = map Some ms" "\<forall>m \<in> set ms. printable_mac m"
  defines "es \<equiv> map (\<lambda>m. put_mclagd_mac_msg (mac_info m)) ms"
  defines "data_len \<equiv> int (sizeof_mclagd_mac_msg * length ms)"
  shows "\<exists>reply. mclagd_ctl_handle_dump_mac fd mclag_id w = Some (emit (Ev_write fd reply (int (length reply))) w)
    \<and> reply = put_int (data_len + 12) @ put_mclagd_reply_hdr INFO_TYPE_DUMP_MAC data_len EXEC_TYPE_SUCCESS @ concat es"
proof -
  have n: "length (ml_mac_rb (MLACP csm)) = length ms" using assms(6) by (metis length_map)
  have "map (\<lambda>p. mac_entry p w) (ml_mac_rb (MLACP csm)) = map Some es"
    unfolding es_def map_map comp_def
  proof (rule nth_equalityI)
    fix i assume i: "i < length (map (\<lambda>p. mac_entry p w) (ml_mac_rb (MLACP csm)))"
    then have "w_mac w (ml_mac_rb (MLACP csm) ! i) = Some (ms ! i)" using assms(6) n by (metis length_map nth_map)
    moreover have "printable_mac (ms ! i)" using assms(7) i n by simp
    ultimately show "map (\<lambda>p. mac_entry p w) (ml_mac_rb (MLACP csm)) ! i = map (\<lambda>m. Some (put_mclagd_mac_msg (mac_info m))) ms ! i"
      using i n by (simp add: mac_entry_def printable_mac_def cstring_def fits_def)
  qed (simp add: n)
  then have "map the (map (\<lambda>p. mac_entry p w) (ml_mac_rb (MLACP csm))) = es" by (simp add: comp_def)
  then have "iccp_mac_dump mclag_id w = Some (EXEC_TYPE_SUCCESS, length ms, concat es, w)"
    using mac_entries.dump_ok [OF tables_encodable(3) [OF assms(1)], of mclag_id] assms(2,5) n unfolding iccp_mac_dump_def by (auto simp: comp_def)
  moreover have "put_int (data_len + 12) \<noteq> []" by (metis length_put(1) list.size(3) zero_neq_numeral)
  ultimately show ?thesis using assms(3) unfolding data_len_def
    by (simp add: mclagd_ctl_handle_dump_mac_def ctl_reply_def write_all mult.commute Let_def)
qed

text \<open>
  C36: \<^verbatim>\<open>mclagdctl -i <id> dump mac\<close> prints the table of the domain. The request the client sends, read by the
  daemon in whatever pieces it arrives, is answered with one reply, and that reply, read by the client in whatever
  pieces it arrives, is printed as one row per address of the table, in the order of the tree, and the program succeeds.
\<close>

theorem dump_mac_end_to_end:
  assumes "ctl_ok w" "goes_on w" "w_answers w = []" "0 \<le> fd"
    and "0 < mclag_id" "mclag_id < 2 ^ 31" "selected mclag_id w = [csm]"
    and "map (w_mac w) (ml_mac_rb (MLACP csm)) = map Some ms" "\<forall>m \<in> set ms. printable_mac m"
    and "int (sizeof_mclagd_mac_msg * length ms) + 12 < 2 ^ 31"
    and "options opts 0 = Inr mclag_id" "\<forall>r \<in> set wr. 0 < r"
  shows "\<exists>req reply. send_request argv0 opts [''dump'', ''mac''] True wr = Some (Inr (INFO_TYPE_DUMP_MAC, req))
    \<and> length req = sizeof_mclagdctl_req_hdr \<and> length reply = 16 + sizeof_mclagd_mac_msg * length ms
    \<and> (\<forall>rx. pieces rx req \<longrightarrow> mclagd_ctl_interactive_process fd rx config w = Some (0, config, emit (Ev_write fd reply (int (length reply))) w))
    \<and> (\<forall>rx. pieces rx reply \<longrightarrow> mclagdctl_main argv0 opts [''dump'', ''mac''] True wr rx True
          = Some (EXIT_SUCCESS, mac_header @ concat (map (\<lambda>(i, m). mac_row i m) (enumerate 0 ms))))"
proof -
  let ?req = "put_mclagdctl_req_hdr INFO_TYPE_DUMP_MAC mclag_id" and ?es = "map (\<lambda>m. put_mclagd_mac_msg (mac_info m)) ms"
  obtain reply where reply: "mclagd_ctl_handle_dump_mac fd mclag_id w = Some (emit (Ev_write fd reply (int (length reply))) w)"
      "reply = put_int (int (sizeof_mclagd_mac_msg * length ms) + 12)
         @ put_mclagd_reply_hdr INFO_TYPE_DUMP_MAC (int (sizeof_mclagd_mac_msg * length ms)) EXEC_TYPE_SUCCESS @ concat ?es"
    using handle_mac_ok [OF assms(1-3,5,7-9)] by blast
  obtain usage t where cmd: "mclagdctl_print_help argv0 = Some usage" "mclagdctl_find_cmd ID_CMDTYPE_NONE [''dump'', ''mac''] = Some t"
      "cmd_info_type t = Some INFO_TYPE_DUMP_MAC" using help_ok find_dump_mac by blast
  have send: "send_request argv0 opts [''dump'', ''mac''] True wr = Some (Inr (INFO_TYPE_DUMP_MAC, ?req))"
    using assms(5,11) client_write_all [OF assms(12)]
    by (simp add: send_request_def cmd enca_msg_def mclagdctl_enca_dump_mac_def mclagdctl_sock_write_def put_mclagdctl_req_hdr_def
      del: mclagdctl_find_cmd.simps)
  have "mclagd_ctl_interactive_process fd rx config w = Some (0, config, emit (Ev_write fd reply (int (length reply))) w)" if "pieces rx ?req" for rx
    using request_read [OF that] reply(1) assms(4-6)
    by (auto simp: mclagd_ctl_interactive_process_def put_mclagdctl_req_hdr_def fields)
  moreover have len: "length (concat ?es) = sizeof_mclagd_mac_msg * length ms"
    using assms(9) by (induction ms) (auto simp: put_mclagd_mac_msg_def mac_info_def printable_mac_def)
  moreover have "mclagdctl_main argv0 opts [''dump'', ''mac''] True wr rx True
      = Some (EXIT_SUCCESS, mac_header @ concat (map (\<lambda>(i, m). mac_row i m) (enumerate 0 ms)))" if "pieces rx reply" for rx
  proof -
    have "read_reply INFO_TYPE_DUMP_MAC rx True
        = map_option (Pair EXIT_SUCCESS) (mclagdctl_parse_dump_mac (concat ?es) (int (sizeof_mclagd_mac_msg * length ms)))"
      using reply_read [OF that [unfolded reply(2)]] assms(10) len by (simp add: parse_msg_def)
    then show ?thesis using send parse_mac_ok [OF assms(9)] by (simp add: mclagdctl_main_def)
  qed
  moreover have "length ?req = sizeof_mclagdctl_req_hdr" "length reply = 16 + sizeof_mclagd_mac_msg * length ms"
    using len by (simp_all add: put_mclagdctl_req_hdr_def reply(2) put_mclagd_reply_hdr_def)
  ultimately show ?thesis using send by blast
qed

lemma demo_macs: "selected 1 demo = [demo_csm]"
    "map (w_mac demo) (ml_mac_rb (MLACP demo_csm)) = map Some [demo_mac 1 ''PortChannel1'' MAC_AGE_PEER True, demo_mac 2 ''Ethernet0'' MAC_AGE_LOCAL False]"
    "\<forall>m \<in> set [demo_mac 1 ''PortChannel1'' MAC_AGE_PEER True, demo_mac 2 ''Ethernet0'' MAC_AGE_LOCAL False]. printable_mac m"
  by (simp_all add: picked_def demo_simps printable_mac_def cstring_def)

lemma pieces_two: "0 < n \<Longrightarrow> n < length bs \<Longrightarrow> pieces [Some (take n bs), Some (drop n bs)] bs"
  by (auto simp: pieces_def intro!: exI [of _ "[take n bs, drop n bs]"])

theorem dump_mac_end_to_end_witness:
  "\<exists>req reply. send_request ''mclagdctl'' [(CHR ''i'', ''1'')] [''dump'', ''mac''] True [50, 60] = Some (Inr (INFO_TYPE_DUMP_MAC, req))
    \<and> mclagd_ctl_interactive_process 9 [Some (take 5 req), Some (drop 5 req)] demo_config demo
           = Some (0, demo_config, emit (Ev_write 9 reply (int (length reply))) demo)
    \<and> mclagdctl_main ''mclagdctl'' [(CHR ''i'', ''1'')] [''dump'', ''mac''] True [50, 60] [Some (take 5 reply), Some (drop 5 reply)] True
          = Some (EXIT_SUCCESS, mac_header @ mac_row 0 (demo_mac 1 ''PortChannel1'' MAC_AGE_PEER True)
              @ mac_row 1 (demo_mac 2 ''Ethernet0'' MAC_AGE_LOCAL False))"
proof -
  have "options [(CHR ''i'', ''1'')] 0 = Inr 1" by code_simp
  moreover have "ctl_ok demo" using demo_ctl_ok [of "[]"] by (simp add: demo_def)
  moreover have "goes_on demo" "w_answers demo = []" by (simp_all add: goes_on_def demo_def)
  ultimately obtain req reply where r: "send_request ''mclagdctl'' [(CHR ''i'', ''1'')] [''dump'', ''mac''] True [50, 60] = Some (Inr (INFO_TYPE_DUMP_MAC, req))"
      "length req = sizeof_mclagdctl_req_hdr" "length reply = 16 + sizeof_mclagd_mac_msg * 2"
      "\<And>rx. pieces rx req \<Longrightarrow> mclagd_ctl_interactive_process 9 rx demo_config demo = Some (0, demo_config, emit (Ev_write 9 reply (int (length reply))) demo)"
      "\<And>rx. pieces rx reply \<Longrightarrow> mclagdctl_main ''mclagdctl'' [(CHR ''i'', ''1'')] [''dump'', ''mac''] True [50, 60] rx True
        = Some (EXIT_SUCCESS, mac_header @ mac_row 0 (demo_mac 1 ''PortChannel1'' MAC_AGE_PEER True) @ mac_row 1 (demo_mac 2 ''Ethernet0'' MAC_AGE_LOCAL False))"
    using dump_mac_end_to_end [OF _ _ _ _ _ _ demo_macs, of 9 "[(CHR ''i'', ''1'')]" "[50, 60]" "''mclagdctl''" demo_config]
    by (auto simp: enumerate_eq_zip upt_conv_Cons simp del: options.simps)
  then show ?thesis using pieces_two [of 5 req] pieces_two [of 5 reply] by (intro exI [of _ req] exI [of _ reply]) simp
qed

text \<open>
  C39: setting the log level succeeds in the daemon, but its reply carries no data, while the client looks for the
  result behind the header: it reads memory that the reply does not have.
\<close>

theorem loglevel_reply_overread:
  assumes "0 \<le> fd" "w_answers w = []" "- (2 ^ 31) \<le> level" "level < 2 ^ 31"
  shows "\<exists>req reply. mclagdctl_enca_config_loglevel level = Some req \<and> length req = sizeof_mclagdctl_req_hdr \<and> length reply = 16
    \<and> (\<forall>rx. pieces rx req \<longrightarrow> mclagd_ctl_interactive_process fd rx config w
          = Some (0, logger_set_configuration level config, emit (Ev_write fd reply 16) w))
    \<and> (\<forall>rx. pieces rx reply \<longrightarrow> read_reply INFO_TYPE_CONFIG_LOGLEVEL rx True = None)"
proof -
  let ?req = "put_mclagdctl_req_hdr INFO_TYPE_CONFIG_LOGLEVEL level"
  define reply where "reply = put_int 12 @ put_mclagd_reply_hdr INFO_TYPE_CONFIG_LOGLEVEL 0 EXEC_TYPE_SUCCESS"
  have len: "length reply = 16" by (simp add: reply_def put_mclagd_reply_hdr_def)
  then have "mclagd_ctl_sock_write fd reply w = (16, emit (Ev_write fd reply 16) w)" using write_all [OF assms(2), of reply fd] by fastforce
  then have "mclagd_ctl_handle_config_loglevel fd level config w = (logger_set_configuration level config, emit (Ev_write fd reply 16) w)"
    by (simp add: mclagd_ctl_handle_config_loglevel_def reply_def)
  then have "mclagd_ctl_interactive_process fd rx config w = Some (0, logger_set_configuration level config, emit (Ev_write fd reply 16) w)"
    if "pieces rx ?req" for rx
    using request_read [OF that] assms(1,3,4) by (auto simp: mclagd_ctl_interactive_process_def put_mclagdctl_req_hdr_def fields)
  moreover have "read_reply INFO_TYPE_CONFIG_LOGLEVEL rx True = None" if "pieces rx reply" for rx
    using reply_read [of rx 0 INFO_TYPE_CONFIG_LOGLEVEL "[]"] that
    by (simp add: reply_def parse_msg_def mclagdctl_parse_config_loglevel_def get_int_def ld32_def)
  moreover have "length ?req = sizeof_mclagdctl_req_hdr" by (simp add: put_mclagdctl_req_hdr_def)
  ultimately show ?thesis using len by (intro exI [of _ ?req] exI [of _ reply]) (simp add: mclagdctl_enca_config_loglevel_def)
qed

theorem loglevel_reply_overread_witness:
  "\<exists>req reply. mclagd_ctl_interactive_process 9 [Some (take 5 req), Some (drop 5 req)] demo_config demo
        = Some (0, demo_config\<lparr>log_level := 5\<rparr>, emit (Ev_write 9 reply 16) demo)
    \<and> read_reply INFO_TYPE_CONFIG_LOGLEVEL [Some (take 5 reply), Some (drop 5 reply)] True = None"
proof -
  have "w_answers demo = []" by (simp add: demo_def)
  then obtain req reply where r: "length req = sizeof_mclagdctl_req_hdr" "length reply = 16"
      "\<And>rx. pieces rx req \<Longrightarrow> mclagd_ctl_interactive_process 9 rx demo_config demo
        = Some (0, logger_set_configuration 5 demo_config, emit (Ev_write 9 reply 16) demo)"
      "\<And>rx. pieces rx reply \<Longrightarrow> read_reply INFO_TYPE_CONFIG_LOGLEVEL rx True = None"
    using loglevel_reply_overread [of 9 demo 5 demo_config] by auto
  have "logger_set_configuration 5 demo_config = demo_config\<lparr>log_level := 5\<rparr>"
    by (simp add: logger_set_configuration_def logger_get_configuration_def demo_config_def)
  then show ?thesis using r pieces_two [of 5 req] pieces_two [of 5 reply] by (intro exI [of _ req] exI [of _ reply]) simp
qed

subsection \<open>The commands the help lists\<close>

text \<open>The words the shell makes of a line.\<close>

fun words :: "string \<Rightarrow> string list" where
  "words [] = [[]]"
| "words (c # cs) = (if c = CHR '' '' then [] # words cs else (case words cs of [] \<Rightarrow> [[c]] | w # ws \<Rightarrow> (c # w) # ws))"

text \<open>The words of a command are those of the command it belongs to, and its name.\<close>

definition cmd_words :: "command_type \<Rightarrow> string list option" where
  "cmd_words t = map_option words (mclagdctl_print_cmd 3 t)"

lemma cmd_words_first: "\<forall>t \<in> set command_types. cmd_parent_id t = ID_CMDTYPE_NONE \<longrightarrow> cmd_words t = Some [cmd_name t]"
  by code_simp

lemma cmd_words_next:
  "\<forall>p \<in> set command_types. \<forall>t \<in> set command_types. cmd_parent_id t = cmd_id p \<longrightarrow> cmd_words t = map_option (\<lambda>ws. ws @ [cmd_name t]) (cmd_words p)"
  by code_simp

lemma cmd_by_parent:
  assumes "mclagdctl_get_cmd_by_parent name pid = Some t"
  shows "t \<in> set command_types \<and> cmd_parent_id t = pid \<and> (\<exists>rest. cmd_name t = name @ rest)"
  using assms find_Some_iff [of _ command_types t] unfolding mclagdctl_get_cmd_by_parent_def by (auto simp: in_set_conv_nth) (metis append_take_drop_id)

lemma find_cmd_words:
  assumes "mclagdctl_find_cmd pid args = Some t"
    and "if pid = ID_CMDTYPE_NONE then ws = [] else \<exists>p \<in> set command_types. cmd_id p = pid \<and> cmd_words p = Some ws"
  shows "mclagdctl_cmd_executable t \<and> (\<exists>names. cmd_words t = Some (ws @ names) \<and> list_all2 (\<lambda>a n. \<exists>rest. n = a @ rest) args names)"
  using assms
proof (induction pid args arbitrary: ws rule: mclagdctl_find_cmd.induct)
  case (2 pid name args)
  obtain u where u: "mclagdctl_get_cmd_by_parent name pid = Some u" using 2(2) by (auto split: option.splits)
  have in_table: "u \<in> set command_types" "cmd_parent_id u = pid" "\<exists>rest. cmd_name u = name @ rest" using cmd_by_parent [OF u] by auto
  have ws: "cmd_words u = Some (ws @ [cmd_name u])"
    using in_table(1,2) 2(3) cmd_words_first cmd_words_next by (auto split: if_splits)
  show ?case
  proof (cases "mclagdctl_cmd_executable u \<and> args = []")
    case True
    then show ?thesis using 2(2) u ws in_table(3) by auto
  next
    case False
    have "cmd_id u \<noteq> ID_CMDTYPE_NONE" using in_table(1) by (auto simp: command_types_def)
    then show ?thesis using 2(1) [OF u False, of "ws @ [cmd_name u]"] 2(2) u False ws in_table by auto
  qed
qed simp

text \<open>
  C40: whatever words are typed, a command that is found is executable, and the words are, one by
  one, abbreviations of the words in which the help prints that command, no more and no fewer.
  Typed in full, as the help prints it, every executable command is found, and not one that comes
  earlier and begins the same.
\<close>

theorem commands_abbreviated:
  "(mclagdctl_find_cmd ID_CMDTYPE_NONE args = Some t \<longrightarrow> mclagdctl_cmd_executable t
      \<and> (\<exists>text. mclagdctl_print_cmd 3 t = Some text \<and> list_all2 (\<lambda>a n. \<exists>rest. n = a @ rest) args (words text)))
   \<and> (u \<in> set (filter mclagdctl_cmd_executable command_types) \<longrightarrow>
      (\<exists>text. mclagdctl_print_cmd 3 u = Some text \<and> mclagdctl_find_cmd ID_CMDTYPE_NONE (words text) = Some u))"
proof
  show "mclagdctl_find_cmd ID_CMDTYPE_NONE args = Some t \<longrightarrow> mclagdctl_cmd_executable t
      \<and> (\<exists>text. mclagdctl_print_cmd 3 t = Some text \<and> list_all2 (\<lambda>a n. \<exists>rest. n = a @ rest) args (words text))"
    using find_cmd_words [of ID_CMDTYPE_NONE args t "[]"] by (auto simp: cmd_words_def)
  have "\<forall>t \<in> set (filter mclagdctl_cmd_executable command_types). (case mclagdctl_print_cmd 3 t of None \<Rightarrow> False
     | Some text \<Rightarrow> mclagdctl_find_cmd ID_CMDTYPE_NONE (words text) = Some t)" by code_simp
  then show "u \<in> set (filter mclagdctl_cmd_executable command_types) \<longrightarrow>
      (\<exists>text. mclagdctl_print_cmd 3 u = Some text \<and> mclagdctl_find_cmd ID_CMDTYPE_NONE (words text) = Some u)"
    by (auto split: option.splits)
qed

theorem commands_abbreviated_witness:
  "\<exists>text. mclagdctl_find_cmd ID_CMDTYPE_NONE [''du'', ''portl'', ''l''] = Some (command_types ! 7)
    \<and> mclagdctl_print_cmd 3 (command_types ! 7) = Some text \<and> text = ''dump portlist local''
    \<and> list_all2 (\<lambda>a n. \<exists>rest. n = a @ rest) [''du'', ''portl'', ''l''] (words text)
    \<and> mclagdctl_find_cmd ID_CMDTYPE_NONE (words text) = Some (command_types ! 7)"
proof -
  have "mclagdctl_find_cmd ID_CMDTYPE_NONE [''du'', ''portl'', ''l''] = Some (command_types ! 7)" by code_simp
  moreover have "command_types ! 7 \<in> set (filter mclagdctl_cmd_executable command_types)" by code_simp
  moreover have "mclagdctl_print_cmd 3 (command_types ! 7) = Some ''dump portlist local''" by code_simp
  ultimately show ?thesis
    using commands_abbreviated [of "[''du'', ''portl'', ''l'']" "command_types ! 7" "command_types ! 7"] by fastforce
qed

end
