(* ===== verification/Ctl_State.thy ===== *)
theory Ctl_State
  imports Ctl_Spec Session_Spec
begin

text \<open>
  The table of domains of the control socket: what \<^verbatim>\<open>mclagdctl dump state\<close> prints about a domain, and what it does
  not print about the second one.
\<close>

subsection \<open>Names in an array\<close>

lemma snprintf_at_join:
  assumes "length pre + length s < n"
  shows "snprintf_at (int (length pre)) (int n - int (length pre)) s (pre @ replicate (n - length pre) CHR 0x00)
    = Some ((pre @ s) @ replicate (n - length (pre @ s)) CHR 0x00)"
proof -
  have "n - length (pre @ s) = Suc (n - length pre - Suc (length s))" using assms by simp
  moreover have "nat (int n - int (length pre)) - 1 \<ge> length s" using assms by simp
  ultimately show ?thesis using assms by (simp add: snprintf_at_def Let_def)
qed

definition po_names :: "world \<Rightarrow> lif_ptr list \<Rightarrow> string list" where
  "po_names w ls = map lif_name (filter (\<lambda>l. lif_type l = IF_T_PORT_CHANNEL) (map (\<lambda>p. the (w_lif w p)) ls))"

definition joined :: "string list \<Rightarrow> string" where
  "joined ns = concat (map (\<lambda>n. n @ '','') ns)"

lemma enabled_names_join:
  assumes "set ls \<subseteq> dom (w_lif w)" "length (pre @ joined (po_names w ls)) + ICCP_MAX_PORT_NAME \<le> MCLAGDCTL_PORT_MEMBER_BUF_LEN"
  shows "enabled_po_names ls (int (length pre)) (pre @ replicate (MCLAGDCTL_PORT_MEMBER_BUF_LEN - length pre) CHR 0x00) w =
    (let t = pre @ joined (po_names w ls) in Some (int (length t), t @ replicate (MCLAGDCTL_PORT_MEMBER_BUF_LEN - length t) CHR 0x00))"
  using assms
proof (induction ls arbitrary: pre)
  case Nil
  then show ?case by (simp add: po_names_def joined_def)
next
  case (Cons l ls)
  obtain lif where lif: "w_lif w l = Some lif" using Cons.prems(1) by auto
  show ?case
  proof (cases "lif_type lif = IF_T_PORT_CHANNEL")
    case True
    then have "po_names w (l # ls) = lif_name lif # po_names w ls" using lif by (simp add: po_names_def)
    then show ?thesis using Cons.IH [of "pre @ lif_name lif @ '',''"] Cons.prems lif True snprintf_at_join [of pre "lif_name lif @ '',''" 512]
      by (simp add: joined_def Let_def ac_simps)
  next
    case False
    then have "po_names w (l # ls) = po_names w ls" using lif by (simp add: po_names_def)
    then show ?thesis using Cons.IH [of pre] Cons.prems lif False by simp
  qed
qed

text \<open>The string in an array.\<close>

abbreviation text_of :: "string \<Rightarrow> string" where
  "text_of arr \<equiv> takeWhile (\<lambda>c. c \<noteq> CHR 0x00) arr"

lemma text_of_pad: "CHR 0x00 \<notin> set s \<Longrightarrow> text_of (s @ replicate k CHR 0x00) = s"
  by (induction s) (auto simp: takeWhile_replicate)

lemma joined_no_nul: "\<forall>n \<in> set ns. CHR 0x00 \<notin> set n \<Longrightarrow> CHR 0x00 \<notin> set (joined ns)"
  by (auto simp: joined_def)

lemma enabled_po_join:
  assumes "set ls \<subseteq> dom (w_lif w)" "length (joined (po_names w ls)) + ICCP_MAX_PORT_NAME \<le> MCLAGDCTL_PORT_MEMBER_BUF_LEN"
    and "\<forall>n \<in> set (po_names w ls). CHR 0x00 \<notin> set n"
  shows "\<exists>arr. enabled_po ls 0 w = Some (int (length (joined (po_names w ls))), arr)
    \<and> text_of arr = butlast (joined (po_names w ls)) \<and> length arr = MCLAGDCTL_PORT_MEMBER_BUF_LEN \<and> CHR 0x00 \<in> set arr"
proof -
  let ?j = "joined (po_names w ls)"
  have n: "CHR 0x00 \<notin> set ?j" using joined_no_nul [OF assms(3)] .
  have e: "enabled_po_names ls 0 (replicate MCLAGDCTL_PORT_MEMBER_BUF_LEN CHR 0x00) w =
      Some (int (length ?j), ?j @ replicate (MCLAGDCTL_PORT_MEMBER_BUF_LEN - length ?j) CHR 0x00)"
    using enabled_names_join [OF assms(1), of "[]"] assms(2) by (simp add: Let_def)
  have l: "strlen (?j @ replicate (MCLAGDCTL_PORT_MEMBER_BUF_LEN - length ?j) CHR 0x00) = length ?j" using text_of_pad [OF n] by (simp add: strlen_def)
  show ?thesis
  proof (cases "?j = []")
    case True
    then show ?thesis using e l by (simp add: enabled_po_def takeWhile_replicate Let_def)
  next
    case False
    then obtain t c where j: "?j = t @ [c]" by (metis append_butlast_last_id)
    have "(?j @ replicate (MCLAGDCTL_PORT_MEMBER_BUF_LEN - length ?j) CHR 0x00)[length ?j - 1 := CHR 0x00]
        = t @ replicate (Suc (MCLAGDCTL_PORT_MEMBER_BUF_LEN - length ?j)) CHR 0x00"
      by (simp add: j list_update_append)
    then have "enabled_po ls 0 w = Some (int (length ?j), t @ replicate (Suc (MCLAGDCTL_PORT_MEMBER_BUF_LEN - length ?j)) CHR 0x00)"
      using e l False by (simp add: enabled_po_def Let_def)
    moreover have "CHR 0x00 \<notin> set t" using n j by simp
    ultimately show ?thesis using assms(2) j text_of_pad [of t "Suc (MCLAGDCTL_PORT_MEMBER_BUF_LEN - length ?j)"] by (auto simp del: replicate_Suc)
  qed
qed

lemma enabled_names_later:
  assumes "set ls \<subseteq> dom (w_lif w)" "0 < len" "length arr = MCLAGDCTL_PORT_MEMBER_BUF_LEN" "arr ! 0 = CHR 0x00"
  shows "\<exists>len' arr'. enabled_po_names ls len arr w = Some (len', arr') \<and> length arr' = MCLAGDCTL_PORT_MEMBER_BUF_LEN \<and> arr' ! 0 = CHR 0x00"
  using assms
proof (induction ls arbitrary: len arr)
  case (Cons l ls)
  obtain lif where lif: "w_lif w l = Some lif" using Cons.prems(1) by auto
  show ?case
  proof (cases "int MCLAGDCTL_PORT_MEMBER_BUF_LEN - len < int ICCP_MAX_PORT_NAME")
    case False
    then obtain arr' where a: "snprintf_at len (int MCLAGDCTL_PORT_MEMBER_BUF_LEN - len) (lif_name lif @ '','') arr = Some arr'"
        "length arr' = MCLAGDCTL_PORT_MEMBER_BUF_LEN"
      using snprintf_at_ok [of len "int MCLAGDCTL_PORT_MEMBER_BUF_LEN - len" arr] Cons.prems(2,3) by auto
    moreover have "arr' ! 0 = arr ! 0" using a(1) Cons.prems(2,3) by (auto simp: snprintf_at_def Let_def nth_append split: if_splits)
    ultimately show ?thesis using Cons lif False by simp
  qed (use Cons.prems(3,4) lif in simp)
qed simp

lemma enabled_po_later:
  assumes "set ls \<subseteq> dom (w_lif w)" "0 < len"
  shows "\<exists>arr. enabled_po ls len w = Some (0, arr) \<and> text_of arr = [] \<and> length arr = MCLAGDCTL_PORT_MEMBER_BUF_LEN \<and> CHR 0x00 \<in> set arr"
proof -
  obtain len' arr where e: "enabled_po_names ls len (replicate MCLAGDCTL_PORT_MEMBER_BUF_LEN CHR 0x00) w = Some (len', arr)"
      "length arr = MCLAGDCTL_PORT_MEMBER_BUF_LEN" "arr ! 0 = CHR 0x00"
    using enabled_names_later [OF assms, of "replicate MCLAGDCTL_PORT_MEMBER_BUF_LEN CHR 0x00"] by auto
  then obtain arr' where "arr = CHR 0x00 # arr'" by (cases arr) auto
  then show ?thesis using e by (simp add: enabled_po_def strlen_def Let_def)
qed

subsection \<open>The table\<close>

text \<open>The entries of the domains one after the other: where the names of one end is where those of the next begin.\<close>

primrec state_infos :: "LoggerConfig \<Rightarrow> int \<Rightarrow> CSM list \<Rightarrow> world \<Rightarrow> mclagd_state list option" where
  "state_infos config len [] w = Some []"
| "state_infos config len (csm # csms) w = do {
     (len, info) \<leftarrow> state_info config csm len w;
     infos \<leftarrow> state_infos config len csms w;
     Some (info # infos) }"

lemma dump_state_goes_on:
  assumes "goes_on w" "state_info config csm len w = Some (len', info)" "room sizeof_mclagd_state d"
  shows "\<exists>bsize. dump_state config csm len d w = Some (True, len', (bsize, fst (snd d) + 1, snd (snd d) @ put_mclagd_state info), w)
    \<and> room sizeof_mclagd_state (bsize, fst (snd d) + 1, snd (snd d) @ put_mclagd_state info)"
  using dump_entry_ok [OF assms(3), of "put_mclagd_state info" w] assms(1,2) by (auto simp: dump_state_def)

lemma state_domains:
  assumes "goes_on w" "set cs \<subseteq> dom (w_csm w)" "state_infos config len (picked mclag_id cs w) w = Some infos" "room sizeof_mclagd_state d"
  shows "\<exists>bsize. dump_domains (dump_state config) mclag_id cs id_exist len d w
    = Some (True, id_exist \<or> mclag_id > 0 \<and> infos \<noteq> [], (bsize, fst (snd d) + length infos, snd (snd d) @ concat (map put_mclagd_state infos)), w)"
  using assms(2-)
proof (induction cs arbitrary: id_exist len d infos)
  case Nil
  then show ?case by (cases d) (auto simp: picked_def)
next
  case (Cons c cs)
  obtain csm where csm: "w_csm w c = Some csm" using Cons.prems(1) by auto
  show ?case
  proof (cases "mclag_id > 0 \<and> csm_mlag_id csm \<noteq> mclag_id")
    case True
    then have "picked mclag_id (c # cs) w = picked mclag_id cs w" using csm by (simp add: picked_def)
    then show ?thesis using Cons csm True by simp
  next
    case False
    then have sel: "picked mclag_id (c # cs) w = csm # picked mclag_id cs w" using csm by (simp add: picked_def)
    obtain len' info infos' where i: "state_info config csm len w = Some (len', info)"
        "state_infos config len' (picked mclag_id cs w) w = Some infos'" "infos = info # infos'"
      using Cons.prems(2) unfolding sel by (auto split: Option.bind_splits)
    obtain bsize where b: "dump_state config csm len d w = Some (True, len', (bsize, fst (snd d) + 1, snd (snd d) @ put_mclagd_state info), w)"
        "room sizeof_mclagd_state (bsize, fst (snd d) + 1, snd (snd d) @ put_mclagd_state info)"
      using dump_state_goes_on [OF assms(1) i(1) Cons.prems(3)] by blast
    show ?thesis using Cons.IH [OF _ i(2) b(2), of "id_exist \<or> mclag_id > 0"] Cons.prems(1) csm b(1) i(3) False by auto
  qed
qed

lemma config_dump_infos:
  assumes "ctl_ok w" "goes_on w" "state_infos config 0 (selected mclag_id w) w = Some infos" "infos \<noteq> []"
  shows "iccp_mclag_config_dump config mclag_id w = Some (EXEC_TYPE_SUCCESS, length infos, concat (map put_mclagd_state infos), w)"
proof -
  have "malloc_ok w = (True, w)" using assms(2) by (simp add: goes_on_def malloc_ok_def)
  moreover have "set (sys_csm_list (w_sys w)) \<subseteq> dom (w_csm w)" using assms(1) by (auto simp: ctl_ok_def)
  moreover have "room sizeof_mclagd_state (MCLAGDCTL_CMD_SIZE, 0, [])" by (simp add: room_def)
  ultimately show ?thesis using state_domains [OF assms(2) _ assms(3), of "(MCLAGDCTL_CMD_SIZE, 0, [])" False] assms(4)
    by (auto simp: iccp_mclag_config_dump_def iccp_dump_def)
qed

subsection \<open>What is printed about a domain\<close>

text \<open>The peer link of a domain: its name and address.\<close>

definition peer_link :: "CSM \<Rightarrow> world \<Rightarrow> string \<times> bytes" where
  "peer_link csm w = (case find (\<lambda>l. lif_name l = csm_peer_itf_name csm) (map (\<lambda>p. the (w_lif w p)) (sys_lif_list (w_sys w))) of
     None \<Rightarrow> (''Unknown'', replicate 6 0) | Some l \<Rightarrow> (lif_name l, lif_mac_addr l))"

definition state_text :: "LoggerConfig \<Rightarrow> CSM \<Rightarrow> string \<Rightarrow> world \<Rightarrow> string" where
  "state_text config csm ports w =
     item ''The MCLAG's keepalive is'' (if csm_current_state csm = ICCP_OPERATIONAL then ''OK'' else ''ERROR'')
       @ item ''MCLAG info sync is'' (if ml_current_state (MLACP csm) = MLACP_STATE_EXCHANGE then ''completed'' else ''incomplete'')
       @ item ''Domain id'' (if csm_mlag_id csm \<le> 0 then ''Unknown'' else show_int (csm_mlag_id csm))
       @ item ''Local Ip'' (csm_sender_ip csm) @ item ''Peer Ip'' (csm_peer_ip csm) @ item ''Peer Link Interface'' (fst (peer_link csm w))
       @ item ''Keepalive time'' (show_int (csm_keepalive_time csm)) @ item ''sesssion Timeout '' (show_int (csm_session_timeout csm))
       @ item ''Peer Link Mac'' (show_mac (snd (peer_link csm w)) @ '' '')
       @ item ''Role'' (if csm_role_type csm = STP_ROLE_ACTIVE then ''Active'' else ''Standby'')
       @ item ''MCLAG Interface'' ports
       @ item ''Loglevel'' (log_level_to_string (uint (log_level (logger_get_configuration config))))"

text \<open>The members of a domain and its peer link fit into the entry.\<close>

definition int32 :: "int \<Rightarrow> bool" where
  "int32 i \<longleftrightarrow> - (2 ^ 31) \<le> i \<and> i < 2 ^ 31"

definition state_fits :: "CSM \<Rightarrow> world \<Rightarrow> bool" where
  "state_fits csm w \<longleftrightarrow> cstring 32 (csm_sender_ip csm) \<and> cstring 32 (csm_peer_ip csm) \<and> int32 (csm_mlag_id csm)
     \<and> int32 (csm_session_timeout csm) \<and> int32 (csm_keepalive_time csm)
     \<and> (\<forall>p \<in> set (sys_lif_list (w_sys w)). \<forall>l. w_lif w p = Some l \<longrightarrow> cstring 32 (lif_name l) \<and> length (lif_mac_addr l) = 6)"

lemma find_ptr_find:
  "set ps \<subseteq> dom h \<Longrightarrow> \<exists>r. find_ptr h P ps = Some r \<and> map_option (\<lambda>p. the (h p)) r = find P (map (\<lambda>p. the (h p)) ps) \<and> set_option r \<subseteq> set ps"
  by (induction ps) fastforce+

lemma peer_link_info:
  assumes "ctl_ok w" "state_fits csm w"
  shows "\<exists>r. local_if_find_by_name (csm_peer_itf_name csm) w = Some r
    \<and> (case r of None \<Rightarrow> Some (''Unknown'', replicate 6 0) | Some q \<Rightarrow> do { lif \<leftarrow> w_lif w q; Some (lif_name lif, lif_mac_addr lif) }) = Some (peer_link csm w)
    \<and> cstring 32 (fst (peer_link csm w)) \<and> length (snd (peer_link csm w)) = 6"
proof -
  have d: "set (sys_lif_list (w_sys w)) \<subseteq> dom (w_lif w)" using assms(1) by (simp add: ctl_ok_def)
  from find_ptr_find [OF d, of "\<lambda>l. lif_name l = csm_peer_itf_name csm"] obtain r where
    r: "local_if_find_by_name (csm_peer_itf_name csm) w = Some r"
      "map_option (\<lambda>p. the (w_lif w p)) r = find (\<lambda>l. lif_name l = csm_peer_itf_name csm) (map (\<lambda>p. the (w_lif w p)) (sys_lif_list (w_sys w)))"
      "set_option r \<subseteq> set (sys_lif_list (w_sys w))"
    by (auto simp: local_if_find_by_name_def)
  show ?thesis
  proof (cases r)
    case None
    then have "peer_link csm w = (''Unknown'', replicate 6 0)" using r(2) by (simp add: peer_link_def)
    then show ?thesis using r(1) None by (simp add: cstring_def)
  next
    case (Some q)
    then obtain lif where lif: "w_lif w q = Some lif" "q \<in> set (sys_lif_list (w_sys w))" using r(3) d by auto
    then have "peer_link csm w = (lif_name lif, lif_mac_addr lif)" using r(2) [symmetric] Some by (simp add: peer_link_def)
    then show ?thesis using r(1) Some lif assms(2) by (simp add: state_fits_def)
  qed
qed

lemma cstr_array: "CHR 0x00 \<in> set arr \<Longrightarrow> length arr = n \<Longrightarrow> cstr (cfield n arr) = Some (text_of arr)"
proof -
  assume "CHR 0x00 \<in> set arr" "length arr = n"
  moreover have "map char_of_byte (takeWhile (\<lambda>b. b \<noteq> 0) (map byte_of_char arr)) = text_of arr" by (induction arr) auto
  moreover have "CHR 0x00 \<in> set arr \<Longrightarrow> 0 \<in> byte_of_char ` set arr" by (metis byte_of_char_0 imageI)
  ultimately show ?thesis by (simp add: cstr_def cfield_def)
qed

lemma loglevel_cstring [simp]: "cstring 16 (log_level_to_string l)"
  by (simp add: log_level_to_string_def cstring_def)

text \<open>The role the client works out is the role that was elected.\<close>

lemma state_lines_ok:
  assumes "ctl_ok w" "state_fits csm w" "csm = elect csm0" "csm_role_type csm0 = STP_ROLE_NONE"
    and "enabled_po (ml_lif_list (MLACP csm)) len w = Some (len', arr)" "length arr = MCLAGDCTL_PORT_MEMBER_BUF_LEN" "CHR 0x00 \<in> set arr"
  shows "\<exists>info. state_info config csm len w = Some (len', info) \<and> length (put_mclagd_state info) = sizeof_mclagd_state
    \<and> (\<forall>i. state_lines i (put_mclagd_state info) = Some (state_text config csm (text_of arr) w))"
proof -
  obtain r where r: "local_if_find_by_name (csm_peer_itf_name csm) w = Some r"
      "(case r of None \<Rightarrow> Some (''Unknown'', replicate 6 0) | Some q \<Rightarrow> do { lif \<leftarrow> w_lif w q; Some (lif_name lif, lif_mac_addr lif) }) = Some (peer_link csm w)"
      "cstring 32 (fst (peer_link csm w))" "length (snd (peer_link csm w)) = 6"
    using peer_link_info [OF assms(1,2)] by blast
  have role: "csm_role_type csm = STP_ROLE_ACTIVE \<longleftrightarrow> inet_addr (csm_sender_ip csm) < inet_addr (csm_peer_ip csm)"
    using assms(3,4) by (simp add: elect_def smaller_address_def)
  obtain info where info: "state_info config csm len w = Some (len', info)"
      "info = \<lparr>st_mclag_id = (if csm_mlag_id csm \<le> 0 then - 1 else csm_mlag_id csm),
         st_keepalive = (if csm_current_state csm = ICCP_OPERATIONAL then 1 else 0),
         st_info_sync_done = (if ml_current_state (MLACP csm) = MLACP_STATE_EXCHANGE then 1 else 0),
         st_local_ip = csm_sender_ip csm, st_peer_ip = csm_peer_ip csm, st_peer_link_if = fst (peer_link csm w), st_peer_link_mac = snd (peer_link csm w),
         st_role = role_num (csm_role_type csm), st_enabled_po = arr, st_session_timeout = csm_session_timeout csm,
         st_keepalive_time = csm_keepalive_time csm,
         st_loglevel = log_level_to_string (uint (log_level (logger_get_configuration config)))\<rparr>"
    using r(1,2) assms(5) by (cases "peer_link csm w") (simp add: state_info_def)
  have "state_lines i (put_mclagd_state info) = Some (state_text config csm (text_of arr) w)" for i
    using assms(2) r(3,4) cstr_array [OF assms(7,6)] role unfolding info(2)
    by (simp add: state_lines_def put_mclagd_state_def state_text_def fields get_str_def state_fits_def int32_def)
  moreover have "length (put_mclagd_state info) = sizeof_mclagd_state" using r(4) by (simp add: info(2) put_mclagd_state_def)
  ultimately show ?thesis using info(1) by blast
qed

lemma parse_states:
  assumes "list_all2 (\<lambda>info text. length (put_mclagd_state info) = sizeof_mclagd_state \<and> (\<forall>i. state_lines i (put_mclagd_state info) = Some text)) infos texts"
  shows "mclagdctl_parse_dump_state (concat (map put_mclagd_state infos)) (int (sizeof_mclagd_state * length infos)) = Some (concat texts)"
proof -
  let ?es = "map put_mclagd_state infos"
  have len: "\<forall>e \<in> set ([] @ ?es). length e = sizeof_mclagd_state" using assms by (auto simp: list_all2_conv_all_nth in_set_conv_nth)
  have "state_lines i e = Some (the (state_lines i e))" if "e \<in> set ?es" for i e
    using that assms by (auto simp: list_all2_conv_all_nth in_set_conv_nth)
  from parse_entries_ok [OF _ len this] have "mclagdctl_parse_dump_state (concat ?es) (int (sizeof_mclagd_state * length infos))
      = Some (concat (map (\<lambda>(i, e). the (state_lines i e)) (enumerate 0 ?es)))" by (simp add: mclagdctl_parse_dump_state_def)
  moreover have "map (\<lambda>(i, e). the (state_lines i e)) (enumerate 0 ?es) = texts"
    using assms by (intro nth_equalityI) (auto simp: list_all2_conv_all_nth nth_enumerate_eq)
  ultimately show ?thesis by simp
qed

text \<open>The port channels of a domain that fit into the entry.\<close>

definition ports_fit :: "CSM \<Rightarrow> world \<Rightarrow> bool" where
  "ports_fit csm w \<longleftrightarrow> length (joined (po_names w (ml_lif_list (MLACP csm)))) + ICCP_MAX_PORT_NAME \<le> MCLAGDCTL_PORT_MEMBER_BUF_LEN
     \<and> (\<forall>n \<in> set (po_names w (ml_lif_list (MLACP csm))). CHR 0x00 \<notin> set n)"

definition ports :: "CSM \<Rightarrow> world \<Rightarrow> string" where
  "ports csm w = butlast (joined (po_names w (ml_lif_list (MLACP csm))))"

definition elected :: "CSM \<Rightarrow> bool" where
  "elected csm \<longleftrightarrow> (\<exists>csm0. csm_role_type csm0 = STP_ROLE_NONE \<and> csm = elect csm0)"

lemma first_domain:
  assumes "ctl_ok w" "printable w csm" "elected csm" "state_fits csm w" "ports_fit csm w"
  shows "\<exists>info. state_info config csm 0 w = Some (int (length (joined (po_names w (ml_lif_list (MLACP csm))))), info)
    \<and> length (put_mclagd_state info) = sizeof_mclagd_state
    \<and> (\<forall>i. state_lines i (put_mclagd_state info) = Some (state_text config csm (ports csm w) w))"
proof -
  obtain csm0 where c0: "csm = elect csm0" "csm_role_type csm0 = STP_ROLE_NONE" using assms(3) by (auto simp: elected_def)
  have "set (ml_lif_list (MLACP csm)) \<subseteq> dom (w_lif w)" using assms(2) by (simp add: printable_def)
  then obtain arr where "enabled_po (ml_lif_list (MLACP csm)) 0 w = Some (int (length (joined (po_names w (ml_lif_list (MLACP csm))))), arr)"
      "text_of arr = ports csm w" "length arr = MCLAGDCTL_PORT_MEMBER_BUF_LEN" "CHR 0x00 \<in> set arr"
    using enabled_po_join assms(5) unfolding ports_fit_def ports_def by blast
  then show ?thesis using state_lines_ok [OF assms(1,4) c0, of 0] by metis
qed

lemma later_domain:
  assumes "ctl_ok w" "printable w csm" "elected csm" "state_fits csm w" "0 < len"
  shows "\<exists>info. state_info config csm len w = Some (0, info) \<and> length (put_mclagd_state info) = sizeof_mclagd_state
    \<and> (\<forall>i. state_lines i (put_mclagd_state info) = Some (state_text config csm [] w))"
proof -
  obtain csm0 where c0: "csm = elect csm0" "csm_role_type csm0 = STP_ROLE_NONE" using assms(3) by (auto simp: elected_def)
  have "set (ml_lif_list (MLACP csm)) \<subseteq> dom (w_lif w)" using assms(2) by (simp add: printable_def)
  then obtain arr where "enabled_po (ml_lif_list (MLACP csm)) len w = Some (0, arr)" "text_of arr = []"
      "length arr = MCLAGDCTL_PORT_MEMBER_BUF_LEN" "CHR 0x00 \<in> set arr"
    using enabled_po_later [OF _ assms(5)] by blast
  then show ?thesis using state_lines_ok [OF assms(1,4) c0, of len] by metis
qed

lemma selected_printable: "ctl_ok w \<Longrightarrow> csm \<in> set (selected mclag_id w) \<Longrightarrow> printable w csm"
  by (fastforce simp: ctl_ok_def picked_def)


text \<open>
  C38: asked for all domains, the daemon forgets to start the list of port channels anew: after a domain that has one,
  the next domain is printed without any port channel, whatever it has.
\<close>

theorem second_domain_loses_ports:
  assumes "ctl_ok w" "goes_on w" "selected mclag_id w = [csm, dsm]" "elected csm" "elected dsm" "state_fits csm w" "state_fits dsm w"
    and "ports_fit csm w" "po_names w (ml_lif_list (MLACP csm)) \<noteq> []"
  shows "\<exists>data. iccp_mclag_config_dump config mclag_id w = Some (EXEC_TYPE_SUCCESS, 2, data, w)
    \<and> mclagdctl_parse_dump_state data (int (sizeof_mclagd_state * 2)) = Some (state_text config csm (ports csm w) w @ state_text config dsm [] w)"
proof -
  have pr: "printable w csm" "printable w dsm" using selected_printable [OF assms(1), of _ mclag_id] assms(3) by simp_all
  define len where "len = int (length (joined (po_names w (ml_lif_list (MLACP csm)))))"
  obtain info where i: "state_info config csm 0 w = Some (len, info)" "length (put_mclagd_state info) = sizeof_mclagd_state"
      "\<forall>i. state_lines i (put_mclagd_state info) = Some (state_text config csm (ports csm w) w)"
    using first_domain [OF assms(1) pr(1) assms(4,6,8)] unfolding len_def by blast
  have "0 < len" using assms(9) by (cases "po_names w (ml_lif_list (MLACP csm))") (simp_all add: len_def joined_def)
  then obtain info2 where i2: "state_info config dsm len w = Some (0, info2)" "length (put_mclagd_state info2) = sizeof_mclagd_state"
      "\<forall>i. state_lines i (put_mclagd_state info2) = Some (state_text config dsm [] w)"
    using later_domain [OF assms(1) pr(2) assms(5,7)] by blast
  show ?thesis using config_dump_infos [OF assms(1,2), of config mclag_id "[info, info2]"] assms(3) i i2
      parse_states [of "[info, info2]" "[state_text config csm (ports csm w) w, state_text config dsm [] w]"] by simp
qed

subsection \<open>Two domains\<close>

definition demo_two :: world where
  "demo_two = demo\<lparr>w_sys := demo_sys\<lparr>sys_csm_list := [0, 1]\<rparr>, w_csm := [0 \<mapsto> elect demo_csm,
     1 \<mapsto> elect (demo_csm\<lparr>csm_mlag_id := 2, csm_sender_ip := ''10.0.0.2'', csm_peer_ip := ''10.0.0.1''\<rparr>)]\<rparr>"

lemma demo_elect: "csm_role_type csm = STP_ROLE_NONE \<Longrightarrow> elected (elect csm)"
  by (auto simp: elected_def)

lemmas demo_two_simps = demo_two_def demo_simps elect_def picked_def

abbreviation (input) demo_first :: CSM where "demo_first \<equiv> elect demo_csm"
abbreviation (input) demo_second :: CSM where
  "demo_second \<equiv> elect (demo_csm\<lparr>csm_mlag_id := 2, csm_sender_ip := ''10.0.0.2'', csm_peer_ip := ''10.0.0.1''\<rparr>)"

lemma demo_two_ok: "ctl_ok demo_two" "goes_on demo_two" "selected 0 demo_two = [demo_first, demo_second]" "selected 2 demo_two = [demo_second]"
  by (auto simp: ctl_ok_def printable_def goes_on_def fits_def demo_two_simps)

lemma demo_two_elected: "elected demo_first" "elected demo_second"
  by (rule demo_elect, simp add: demo_csm_def zero_simps)+

lemma demo_two_fits: "state_fits demo_first demo_two" "state_fits demo_second demo_two"
  by (simp_all add: state_fits_def int32_def cstring_def demo_two_simps)

lemma demo_two_ports: "po_names demo_two (ml_lif_list (MLACP demo_first)) = [''PortChannel1'']"
    "po_names demo_two (ml_lif_list (MLACP demo_second)) = [''PortChannel1'']"
  by (simp_all add: po_names_def demo_two_simps)

lemma demo_two_ports_fit: "ports_fit demo_first demo_two" "ports_fit demo_second demo_two"
    "ports demo_first demo_two = ''PortChannel1''" "ports demo_second demo_two = ''PortChannel1''"
  by (simp_all add: ports_fit_def ports_def demo_two_ports joined_def)


theorem second_domain_loses_ports_witness:
  "po_names demo_two (ml_lif_list (MLACP demo_second)) = [''PortChannel1''] \<and>
   (\<exists>data. iccp_mclag_config_dump demo_config 0 demo_two = Some (EXEC_TYPE_SUCCESS, 2, data, demo_two)
    \<and> mclagdctl_parse_dump_state data (int (sizeof_mclagd_state * 2))
      = Some (state_text demo_config demo_first ''PortChannel1'' demo_two @ state_text demo_config demo_second [] demo_two))"
proof -
  have "po_names demo_two (ml_lif_list (MLACP demo_first)) \<noteq> []" by (simp add: demo_two_ports)
  from second_domain_loses_ports [OF demo_two_ok(1-3) demo_two_elected demo_two_fits demo_two_ports_fit(1) this, of demo_config]
  show ?thesis using demo_two_ports(2) unfolding demo_two_ports_fit(3) by blast
qed

end
