(* ===== verification/Spec2Isabelle.thy ===== *)
theory Spec2Isabelle
  imports Mac_Machine Loop_Spec Rb_Spec Ctl_State
begin

text \<open>
  Verification of \<open>iccpd\<close>, the MC-LAG daemon of SONiC (\<open>src/src/iccpd\<close>). Two switches that share
  port channels run one daemon each; the daemons keep a TCP session (ICCP), exchange their
  configuration, port states, and the MAC, ARP and ND entries they learn (mLACP), and program
  the chip through mclagsyncd and the kernel through netlink.

  \<^bold>\<open>How the program is modelled.\<close> A function of the daemon is a HOL function on the record \<open>world\<close>:
  the system singleton, one heap per kind of structure (a freed object is absent), the global
  buffer and counters, and the environment, which is a script of the results of system calls
  and allocations still to come and the list of outputs made so far. The result type is \<open>option\<close>:
  \<open>None\<close> is undefined behaviour (a null or dangling pointer, a read outside a message), an error
  return is a value. Integers of the protocol are machine words; strings are the characters
  before the terminator. Logging is left out, except where it reads memory it should not.

  \<^bold>\<open>The data of the program.\<close>
  \<^item> \<open>Iccp_Prelude\<close>, \<open>C_Strings\<close>: bytes, byte order, buffers, bit fields, loops over the state,
    the predicate \<open>safe\<close> (defined and with a given result), number formatting and scanning, \<open>inet_addr\<close>.
  \<^item> \<open>Iccp_Msg_Format\<close>, \<open>Iccp_State\<close>: \<open>include/msg_format.h\<close>, \<open>include/mlacp_tlv.h\<close> and the structures
    of \<open>include/port.h\<close>, \<open>mlacp_fsm.h\<close>, \<open>app_csm.h\<close>, \<open>iccp_csm.h\<close>, \<open>system.h\<close>; the \<open>world\<close>.
  \<^item> \<open>Openbsd_Tree\<close>: the red-black trees of \<open>src/openbsd_tree.c\<close> on a heap of entries, with colours,
    rotations and parent links. \<open>Rb_Heap\<close>, \<open>Rb_Insert\<close>, \<open>Rb_Remove\<close>, \<open>Rb_Walk\<close> prove each operation against the
    ordered sequence of the nodes. \<open>Iccp_Rb_Tree\<close> is that sequence, on which all other theories work; the
    locale \<open>node_order\<close> is what a comparison function owes it, interpreted for VLAN and MAC nodes, and
    \<open>rb_order\<close> extends it to the heap. \<open>Rb_Spec\<close> (C12 to C16) shows that for the MAC table of a domain the heap
    and the sequence agree, that every operation returns, and that the tree stays balanced.

  \<^bold>\<open>The operations of the daemon.\<close>
  \<^item> \<open>Mlacp_Sync_Prepare\<close>: the message builders of \<open>mlacp_sync_prepare.c\<close>; the locale \<open>info_tlv\<close> is the
    contract of a TLV that collects entries, interpreted for MAC, ARP and ND entries.
  \<^item> \<open>Iccp_Csm_Msg\<close>: the connection messages of \<open>iccp_csm.c\<close> and the dispatch of received messages
    (\<open>app_csm.c\<close>, \<open>mlacp_fsm.c\<close>).
  \<^item> \<open>Mclag_Syncd\<close>, \<open>Iccp_Port\<close>: requests to mclagsyncd (\<open>mlacp_link_handler.c\<close>), interfaces, VLAN
    membership and the consistency check (\<open>port.c\<close>, \<open>system.c\<close>, \<open>iccp_consistency_check.c\<close>).
  \<^item> \<open>Mlacp_Mac_Table\<close>, \<open>Mlacp_Mac_Learn\<close>: the MAC table, its handlers and learning
    (\<open>mlacp_link_handler.c\<close>, \<open>mlacp_sync_update.c\<close>, \<open>mlacp_fsm.c\<close>).
  \<^item> \<open>Mlacp_Sync_Send\<close>: the senders of \<open>mlacp_fsm.c\<close>.
  \<^item> \<open>Iccp_Netlink\<close>, \<open>Mlacp_Neigh\<close>, \<open>Mlacp_Link_Handler\<close>: requests to the kernel (\<open>iccp_netlink.c\<close>), the ARP and ND
    tables, and what a change of a port or of the session does to the forwarding plane.
  \<^item> \<open>Mlacp_Sync_Update\<close>, \<open>Mlacp_Fsm\<close>: what the messages of the peer do (\<open>mlacp_sync_update.c\<close>) and the mLACP
    state machine that receives them (\<open>mlacp_fsm.c\<close>).
  \<^item> \<open>Iccp_Bind\<close>, \<open>Iccp_Interfaces\<close>, \<open>Iccp_Neigh_Learn\<close>: interfaces joining and leaving domains, coming and
    going in the kernel, and neighbours learned on this switch (\<open>app_csm.c\<close>, \<open>iccp_cli.c\<close>, \<open>port.c\<close>,
    \<open>iccp_ifm.c\<close>, \<open>iccp_netlink.c\<close>).
  \<^item> \<open>Iccp_Session\<close>: the connection state machine, sockets, reading a message (\<open>iccp_csm.c\<close>, \<open>scheduler.c\<close>).
  \<^item> \<open>Mclagsyncd_Config\<close>: the configuration commands (\<open>iccp_cli.c\<close>, \<open>iccp_cmd.c\<close>) and the reader of the message
    stream of mclagsyncd (\<open>mlacp_link_handler.c\<close>).
  \<^item> \<open>Iccp_Scheduler\<close>: the main loop over events, start and end of the process (\<open>scheduler.c\<close>, \<open>system.c\<close>,
    \<open>iccp_netlink.c\<close>).
  \<^item> \<open>Mclagd_Ctl\<close>, \<open>Mclagdctl\<close>: the control socket with the tables it sends (\<open>iccp_cmd_show.c\<close>,
    \<open>mlacp_link_handler.c\<close>, \<open>logger.c\<close>) and the command line client (\<open>src/mclagdctl\<close>).

  A definition for part of a long function, say the body of a loop, stands next to the definition of
  the function and is named after what it does.

  \<^bold>\<open>What is shown.\<close>
  \<^item> Synchronisation: \<open>Sync_Send_Spec\<close> and \<open>Sync_All_Spec\<close> say what is written for each queue and for a full
    reply; in this theory, C1 follows MAC updates from the queue of one daemon to the other, C2 the reply to a
    synchronisation request.
  \<^item> MAC table: \<open>Mac_Invariant\<close> and \<open>Mac_Learn_Invariant\<close> prove its invariant, \<open>Mac_Refinement\<close> and
    \<open>Mac_Learn_Refinement\<close> that every handler implements an operation on the abstract table \<open>fdb\<close>,
    \<open>Mac_Machine\<close> that this holds for every sequence of events (C6 to C8, C17 to C20).
  \<^item> Session: \<open>Session_Spec\<close> treats reassembly of messages, waiting times and the election of roles,
    \<open>Connection_Spec\<close> the refinement of an abstract automaton by the connection state machine and the
    handshake of two daemons (C3 to C5, C21 to C23, C26, C27).
  \<^item> Main loop: \<open>Frame\<close> and \<open>Session_Frame\<close> derive what an operation leaves alone from its text; an invariant
    joins through one of the locales \<open>io_inv\<close>, \<open>quiet_inv\<close>, \<open>progress_inv\<close>, \<open>session_inv\<close>. \<open>Loop_Invariant\<close> proves
    the invariant of the loop for every event, and \<open>Loop_Spec\<close> draws the consequences: no domain is freed while
    the list of domains is walked, and the loop over messages ends (C9 to C11, C24, C25).
  \<^item> Control socket: \<open>Ctl_Spec\<close> shows with the locale \<open>reply_table\<close>, interpreted for the five tables of a
    domain, that no request changes the state of the daemon or leaves its memory, and follows a table from
    the daemon to the printed row; \<open>Ctl_State\<close> treats the table of domains (C35 to C40). Hence \<open>Iccp_Scheduler\<close>
    may leave the event of the control socket out.
  \<^item> In this theory also: the exchange of connection messages (C28 to C30), sending to mclagsyncd (C31), VLANs
    (C32, C33) and the notification that is read beyond its end (C34).
  \<^item> \<open>Demo_Domain\<close> is a concrete domain for the witnesses.

  \<^bold>\<open>Bounds and fuel.\<close> The loop over the eight stages of a reply has fuel 8, which C2 shows to be enough. The loop
  over the messages of a domain has one round to leave the initial state, one per message and one without a
  message, which C11 shows to be enough. The reader of mclagsyncd has as many rounds as there are bytes in
  the buffer and on the socket; every round takes at least one. The loops of the trees are partial functions
  in the option type, and every property of the trees says that they return. Waiting for data is bounded by
  the script of the environment: when it is used up nothing more arrives.

  \<^bold>\<open>Not modelled.\<close> The options of the daemon and its start-up configuration file (\<open>iccp_main.c\<close>, \<open>cmd_option.c\<close>,
  the text parser of \<open>iccp_cmd.c\<close>), which only parse text and call the configuration commands modelled
  here; the text of log messages; system calls that only configure a socket and whose failure is only
  logged; libnl and libteam, whose results are part of the environment; and every part of the repository
  outside \<open>iccpd\<close> (platform drivers, build scripts, the other daemons).
\<close>

section \<open>Connection messages\<close>

text \<open>
  C28: a capability message built by one peer, sent and received by the other, goes to the
  receiver's connection queue, and handling it sets the receiver's
  \<open>peer_capability_flag\<close> exactly when the sender offered the capability.
\<close>

theorem capability_exchange:
  assumes "iccp_csm_prepare_capability_msg tx out = (n, b, i)"
  shows "\<exists>m. iccp_csm_enqueue_msg rx (rdn 0 (nat n) b) = Some (csm_msg_list_update (\<lambda>q. q @ [m]) rx)
    \<and> (\<forall>rx'. iccp_csm_correspond_from_msg rx' m = Some (if sender_capability_flag (csm_iccp_info tx)
         then csm_iccp_info_update (peer_capability_flag_update (\<lambda>_. True)) rx' else rx'))"
  using capability_received [OF assms] by (intro exI [of _ "arrived 16 b"]) simp

theorem capability_exchange_witness:
  "\<exists>m. iccp_csm_enqueue_msg zero_CSM (rdn 0 16 (fst (snd (iccp_csm_prepare_capability_msg
        (csm_iccp_info_update (sender_capability_flag_update (\<lambda>_. True)) zero_CSM) (zero_buf, 1)))))
      = Some (csm_msg_list_update (\<lambda>q. q @ [m]) zero_CSM)
    \<and> iccp_csm_correspond_from_msg zero_CSM m
      = Some (csm_iccp_info_update (peer_capability_flag_update (\<lambda>_. True)) zero_CSM)"
  using capability_exchange [of "csm_iccp_info_update (sender_capability_flag_update (\<lambda>_. True)) zero_CSM"
      "(zero_buf, 1)" 16 "fst (snd (iccp_csm_prepare_capability_msg
        (csm_iccp_info_update (sender_capability_flag_update (\<lambda>_. True)) zero_CSM) (zero_buf, 1)))" 2 zero_CSM]
  by (fastforce simp: iccp_csm_prepare_capability_msg_def Let_def)

text \<open>
  C29: an RG connect message built by one peer, sent and received by the other, sets the
  receiver's \<open>peer_rg_connect_flag\<close>, and the receiver's status tells whether both name the
  same redundancy group.
\<close>

theorem rg_connect_exchange:
  assumes "iccp_csm_prepare_rg_connect_msg tx out = (n, b, i)"
  shows "\<exists>m. iccp_csm_enqueue_msg rx (rdn 0 (nat n) b) = Some (csm_msg_list_update (\<lambda>q. q @ [m]) rx)
    \<and> (\<forall>rx'. \<exists>rx''. iccp_csm_correspond_from_msg rx' m = Some rx'' \<and> peer_rg_connect_flag (csm_iccp_info rx'')
       \<and> (status_code (csm_iccp_info rx'') = STATUS_CODE_U_ICCP_RG
          \<longleftrightarrow> icc_rg_id (csm_iccp_info tx) \<noteq> icc_rg_id (csm_iccp_info rx')))"
proof -
  let ?N = "20 + length (sender_name (csm_iccp_info tx))"
  note r = rg_connect_received [OF assms refl]
  have "nat n = ?N" using r by simp
  then show ?thesis
    using r by (intro exI [of _ "arrived ?N b"]) (simp add: rg_checked_def)
qed

theorem rg_connect_exchange_witness:
  "\<exists>m rx''. iccp_csm_enqueue_msg zero_CSM (rdn 0 (nat (fst (iccp_csm_prepare_rg_connect_msg zero_CSM (zero_buf, 1))))
        (fst (snd (iccp_csm_prepare_rg_connect_msg zero_CSM (zero_buf, 1))))) = Some (csm_msg_list_update (\<lambda>q. q @ [m]) zero_CSM)
    \<and> iccp_csm_correspond_from_msg demo_csm m = Some rx'' \<and> peer_rg_connect_flag (csm_iccp_info rx'')"
  using rg_connect_exchange [of zero_CSM "(zero_buf, 1)", OF prod.collapse [symmetric, THEN trans], OF arg_cong [OF prod.collapse [symmetric]], of zero_CSM]
  by blast

text \<open>
  C30: an RG disconnect message resets both connect flags of the receiver when the sender
  announces the removal of the redundancy group, and leaves them alone otherwise.
\<close>

theorem rg_disconnect_exchange:
  assumes "iccp_csm_prepare_rg_disconnect_msg tx out = (n, b, i)"
  shows "\<exists>m. iccp_csm_enqueue_msg rx (rdn 0 (nat n) b) = Some (csm_msg_list_update (\<lambda>q. q @ [m]) rx)
    \<and> (\<forall>rx'. \<exists>rx''. iccp_csm_correspond_from_msg rx' m = Some rx''
       \<and> (let removed = (status_code (csm_iccp_info tx) = STATUS_CODE_ICCP_RG_REMOVED);
              old = csm_iccp_info rx'; new = csm_iccp_info rx''
          in (sender_rg_connect_flag new \<longleftrightarrow> sender_rg_connect_flag old \<and> \<not> removed)
           \<and> (peer_rg_connect_flag new \<longleftrightarrow> peer_rg_connect_flag old \<and> \<not> removed)))"
proof -
  note r = rg_disconnect_received [OF assms]
  show ?thesis
    using r by (intro exI [of _ "arrived 24 b"]) (simp add: rg_checked_def Let_def)
qed

theorem rg_disconnect_exchange_witness:
  "\<exists>m rx''. iccp_csm_enqueue_msg zero_CSM (rdn 0 (nat (fst (iccp_csm_prepare_rg_disconnect_msg zero_CSM (zero_buf, 1))))
        (fst (snd (iccp_csm_prepare_rg_disconnect_msg zero_CSM (zero_buf, 1))))) = Some (csm_msg_list_update (\<lambda>q. q @ [m]) zero_CSM)
    \<and> iccp_csm_correspond_from_msg demo_csm m = Some rx''"
  using rg_disconnect_exchange [of zero_CSM "(zero_buf, 1)", OF prod.collapse [symmetric, THEN trans], OF arg_cong [OF prod.collapse [symmetric]], of zero_CSM]
  by blast

section \<open>Synchronisation\<close>

text \<open>
  C1: sending the queue of MAC updates empties it without touching the learned addresses; the
  writes carry the queued updates in order, at most \<open>MAX_MAC_ENTRY_NUM\<close> each, and the receiver
  of one write queues a message whose handling applies exactly the updates of that write.
\<close>

theorem mac_updates_end_to_end:
  assumes up: "link_up c w" and inv: "mac_inv c w" and wf: "\<forall>p \<in> set (mac_q c w). wf_MACMsg (the (w_mac w p))"
  shows "\<exists>w' evs. mlacp_sync_send_syncMacInfo c w = Some w' \<and> mac_inv c w' \<and> mac_q c w' = [] \<and> fdb c w' = fdb c w
    \<and> w_out w' = w_out w @ evs
    \<and> list_all2 (\<lambda>ms e. \<exists>bs rc. e = Ev_write (sock c w) bs rc \<and> length ms \<le> MAX_MAC_ENTRY_NUM
        \<and> (\<exists>msg. iccp_csm_enqueue_msg rx bs = Some (mlacp_enqueue_msg rx msg)
           \<and> (\<forall>c' v. mlacp_fsm_update_mac_info_from_peer c' msg v
                = foreach (\<lambda>m. mlacp_fsm_update_mac_entry_from_peer c' (MACData_of m)) ms v)))
      (chunks MAX_MAC_ENTRY_NUM (map (\<lambda>p. unqueued (the (w_mac w p))) (mac_q c w))) evs"
proof -
  let ?ms = "map (\<lambda>p. unqueued (the (w_mac w p))) (mac_q c w)"
  obtain w' evs where w': "mlacp_sync_send_syncMacInfo c w = Some w'" and d: "mac_drained c evs w w'"
    and b: "mac_tlv.batch MAX_MAC_ENTRY_NUM c w ?ms evs"
    using mac_queue_sent [OF up inv wf] unfolding safe_def by blast
  have "fdb c w' = fdb c w" using d inv by (auto simp: mac_drained_def intro!: mac_tx_fdb)
  moreover have "\<exists>msg. iccp_csm_enqueue_msg rx bs = Some (mlacp_enqueue_msg rx msg)
       \<and> (\<forall>c' v. mlacp_fsm_update_mac_info_from_peer c' msg v
            = foreach (\<lambda>m. mlacp_fsm_update_mac_entry_from_peer c' (MACData_of m)) ms v)"
    if "mac_tlv.carries rg ms bs" "ms \<in> set (chunks MAX_MAC_ENTRY_NUM ?ms)" for rg ms bs
    using mac_received [OF that(1), of rx] mac_info_foreach chunks_bound [OF that(2)] by fastforce
  ultimately show ?thesis
    using w' d b unfolding mac_drained_def writes_def
    by (intro exI [of _ w'] exI [of _ evs]) (auto elim!: list.rel_mono_strong dest: chunks_bound)
qed

theorem mac_updates_end_to_end_witness:
  "\<exists>w' evs. mlacp_sync_send_syncMacInfo 0 demo = Some w' \<and> mac_q 0 demo \<noteq> [] \<and> mac_q 0 w' = []
    \<and> w_out w' = w_out demo @ evs \<and> length evs = 1"
  using mac_updates_end_to_end [OF demo_link demo_mac_inv demo_queue(2), of zero_CSM]
  by (auto simp: demo_queue(1) [simplified] chunks_le dest!: list_all2_lengthD)



section \<open>The MAC table\<close>

text \<open>
  C6: an update of the local forwarding table changes the abstract MAC table at its address only,
  as \<open>local_update_spec\<close> says, keeps the invariant, and has no undefined behaviour.
\<close>

theorem local_update_correct:
  assumes "learn_ok c w" "length addr = ETHER_ADDR_LEN" "addr \<noteq> replicate ETHER_ADDR_LEN 0"
    "length ifname < MAX_L_PORT_NAME" "w_csm w c = Some csm"
  shows "\<exists>w'. do_mac_update_from_syncd addr vid ifname ty op w = Some w' \<and> mac_inv c w' \<and> mac_only c w w'
    \<and> fdb c w' = (fdb c w)((vid, addr) :=
      local_update_spec (csm_peer_itf_name csm) (looked_up (w_lif w) (find_mclag_intf ifname (sys_csm_list (w_sys w)) w))
         (looked_up (w_lif w) (local_if_find_by_name ifname w)) (looked_up (w_pif w) (peer_if_find_by_name (Some c) ifname w))
         ifname ty op (fst (malloc_ok w)) (fdb c w (vid, addr)))"
  using local_update_refines [of c w addr ifname csm vid ty op] assms
  by (auto simp: safe_def updates_def table_step_def)

theorem local_update_correct_witness:
  "\<exists>w'. do_mac_update_from_syncd [2, 0, 0, 0, 0, 9] 10 ''PortChannel1'' MAC_TYPE_DYNAMIC MAC_SYNC_ADD demo = Some w' \<and> mac_inv 0 w'
    \<and> fdb 0 w' (10, [2, 0, 0, 0, 0, 9]) = Some \<lparr>l_ifname = ''PortChannel1'', l_origin = ''PortChannel1'',
        l_type = MAC_TYPE_DYNAMIC, l_age = MAC_AGE_PEER, l_pending = 0\<rparr>"
proof -
  have "fdb 0 demo (10, [2, 0, 0, 0, 0, 9]) = None" by (simp add: fdb_None same_key_def demo_simps)
  moreover have "looked_up (w_lif demo) (local_if_find_by_name ''PortChannel1'' demo) = Some (demo_lif ''PortChannel1'' IF_T_PORT_CHANNEL)"
    by (simp add: looked_up_def local_if_find_by_name_def demo_simps)
  moreover have "if_down (Some (demo_lif ''PortChannel1'' IF_T_PORT_CHANNEL)) = False" "csm_peer_itf_name demo_csm = ''Ethernet0''"
    "fst (malloc_ok demo)" by (simp_all add: if_down_def malloc_ok_def demo_simps)
  ultimately show ?thesis
    using local_update_correct [OF demo_learn _ _ _ demo_csm, of "[2, 0, 0, 0, 0, 9]" "''PortChannel1''" 10 MAC_TYPE_DYNAMIC MAC_SYNC_ADD]
    by (auto simp: local_update_spec_def not_zero_addr)
qed

text \<open>
  C7: an update from the peer changes the abstract MAC table at its address only, as
  \<open>peer_update_spec\<close> says, keeps the invariant, and has no undefined behaviour.
\<close>

theorem peer_update_correct:
  assumes "mac_inv c w" "env_ok c w" "length (md_mac_addr d) = ETHER_ADDR_LEN" "md_mac_addr d \<noteq> replicate ETHER_ADDR_LEN 0"
    "w_csm w c = Some csm" "csm_peer_itf_name csm \<noteq> []"
  shows "\<exists>w'. mlacp_fsm_update_mac_entry_from_peer c d w = Some w' \<and> mac_inv c w' \<and> mac_only c w w'
    \<and> fdb c w' = (fdb c w)((ntohs (md_vid d), md_mac_addr d) :=
      peer_update_spec csm d (mclag_if c (md_ifname d) w) (fst (malloc_ok w)) (fdb c w (ntohs (md_vid d), md_mac_addr d)))"
  using peer_update_refines [of c w d csm] assms by (auto simp: safe_def updates_def table_step_def)

theorem peer_update_correct_witness:
  "\<exists>w'. mlacp_fsm_update_mac_entry_from_peer 0 (MACData_of (demo_mac 2 ''Ethernet4'' 0 False\<lparr>mac_op_type := MAC_SYNC_DEL\<rparr>)) demo = Some w'
    \<and> mac_inv 0 w' \<and> fdb 0 demo (10, [2, 0, 0, 0, 0, 2]) \<noteq> None \<and> fdb 0 w' (10, [2, 0, 0, 0, 0, 2]) = None"
proof -
  define d where "d = MACData_of (demo_mac 2 ''Ethernet4'' 0 False\<lparr>mac_op_type := MAC_SYNC_DEL\<rparr>)"
  let ?k = "(10 :: u16, [2, 0, 0, 0, 0, 2] :: bytes)"
  have d: "md_mac_addr d = [2, 0, 0, 0, 0, 2]" "ntohs (md_vid d) = 10" "md_type d = MAC_SYNC_DEL"
    by (simp_all add: d_def MACData_of_def demo_simps)
  have l: "fdb 0 demo ?k = Some (learned (demo_mac 2 ''Ethernet0'' MAC_AGE_LOCAL False))"
    by (simp add: fdb_def same_key_def demo_simps)
  have "mac_age_flag (demo_mac 2 ''Ethernet0'' MAC_AGE_LOCAL False) = MAC_AGE_LOCAL" "csm_peer_itf_name demo_csm \<noteq> []"
    by (simp_all add: demo_simps)
  then show ?thesis
    using peer_update_correct [OF demo_mac_inv demo_env _ _ demo_csm, of d] d l unfolding d_def [symmetric]
    by (auto simp: not_zero_addr peer_update_spec_def peer_del_spec_def Let_def)
qed

text \<open>
  C8: whatever sequence of events the MAC table goes through, its invariant holds in every state
  reached, and no event that is \<open>possible\<close> there meets undefined behaviour. The reset of the queue
  of updates, made whenever a session starts, ends or fails, is possible only while no deletion of an address
  still in the tree is queued: exactly then it is defined. Otherwise it frees the entry and reads
  it again when it walks the tree.
\<close>

theorem mac_table_safety:
  assumes "table_ok c w" "mac_run c w w'"
  shows "table_ok c w' \<and> (\<forall>e. possible c e w' \<longrightarrow> (\<exists>w''. handle c e w' = Some w'' \<and> mac_inv c w''))
    \<and> (mlacp_mac_msg_queue_reinit c w' = None \<longleftrightarrow> deleting c w' \<noteq> {})"
proof -
  have ok: "table_ok c w'" by (rule mac_run_ok [OF assms(2,1)])
  have inv: "mac_inv c w''" if "table_ok c w''" for w'' using that by (simp add: table_ok_def learn_ok_def)
  have "\<exists>w''. handle c e w' = Some w'' \<and> mac_inv c w''" if "possible c e w'" for e
    using handle_ok [OF ok that] inv by (auto simp: safe_def)
  moreover have "mlacp_mac_msg_queue_reinit c w' = None \<longleftrightarrow> deleting c w' \<noteq> {}"
    using queue_reset_ok [OF inv [OF ok]] queue_reset_freed [OF inv [OF ok]] by (metis option.distinct(1) safe_def)
  ultimately show ?thesis using ok by blast
qed

text \<open>
  A domain whose two sides both have the address 02:00:00:00:00:01, here on a port that is gone;
  the local side deletes it while the session is up.
\<close>

definition demo_shared :: world where
  "demo_shared = demo\<lparr>w_csm := [0 \<mapsto> upd_MLACP (\<lambda>m. m\<lparr>ml_current_state := MLACP_STATE_EXCHANGE, ml_mac_msg_list := []\<rparr>) demo_csm],
     w_mac := [1 \<mapsto> demo_mac 1 ''Ethernet9'' 0 False, 2 \<mapsto> demo_mac 2 ''Ethernet0'' MAC_AGE_LOCAL False]\<rparr>"

definition demo_delete :: mac_event where
  "demo_delete = Local_update [2, 0, 0, 0, 0, 1] 10 ''Ethernet9'' MAC_TYPE_DYNAMIC MAC_SYNC_DEL"

lemma demo_shared_ok: "table_ok 0 demo_shared"
  by (auto simp: table_ok_def learn_ok_def mac_inv_def env_ok_def demo_shared_def demo_simps mac_tree.tree_def mac_key_ok_def MACMsg_compare_def)

lemma demo_shared_deleting:
  assumes "handle 0 demo_delete demo_shared = Some w"
  shows "deleting 0 w = {1}"
proof -
  have "memcmp [2, 0, 0, 0, 0, 1] (replicate ETHER_ADDR_LEN 0) \<noteq> 0" by (simp add: numeral_eq_Suc)
  moreover have "find_mclag_intf ''Ethernet9'' (sys_csm_list (w_sys demo_shared)) demo_shared = Some None"
    "system_get_first_csm demo_shared = Some 0" "\<exists>x. peer_if_find_by_name (Some 0) ''Ethernet9'' demo_shared = Some x"
    by (simp_all add: demo_shared_def demo_simps system_get_first_csm_def peer_if_find_by_name_def)
  moreover have "mac_rb_find 0 10 [2, 0, 0, 0, 0, 1] demo_shared = Some (Some 1)"
    using demo_shared_ok mac_rb_find_ok [of 0 demo_shared "[2, 0, 0, 0, 0, 1]" 10]
    by (simp add: table_ok_def learn_ok_def demo_shared_def demo_simps same_key_def)
  ultimately have "syncd_del 0 1 None demo_shared = Some w"
    using assms by (auto simp: demo_delete_def do_mac_update_from_syncd_def demo_shared_def)
  then show ?thesis
    by (auto simp: syncd_del_def set_mac_local_age_flag_def mod_mac_def mac_enqueue_def demo_shared_def demo_simps age_flags_both_def
        local_age_flag_def local_if_find_by_name_def deleting_def Let_def upd_mac_def)
qed

theorem mac_table_safety_witness:
  "(\<exists>w1. handle 0 Session_lost demo_shared = Some w1 \<and> (\<exists>w2. handle 0 Peer_link_down w1 = Some w2 \<and> mac_inv 0 w2))
   \<and> (\<exists>w1. handle 0 demo_delete demo_shared = Some w1 \<and> mac_inv 0 w1 \<and> mlacp_mac_msg_queue_reinit 0 w1 = None)"
proof
  obtain w1 where w1: "handle 0 Session_lost demo_shared = Some w1"
    using mac_table_safety [OF demo_shared_ok mac_run.start] by (metis possible.simps(13))
  then have "mac_run 0 demo_shared w1" by (auto intro: mac_run.event [OF mac_run.start, where e = Session_lost])
  from mac_table_safety [OF demo_shared_ok this] w1
  show "\<exists>w1. handle 0 Session_lost demo_shared = Some w1 \<and> (\<exists>w2. handle 0 Peer_link_down w1 = Some w2 \<and> mac_inv 0 w2)"
    by (metis possible.simps(10))
next
  have del: "possible 0 demo_delete demo_shared" by (simp add: demo_delete_def)
  then obtain w1 where w1: "handle 0 demo_delete demo_shared = Some w1" "mac_inv 0 w1"
    using mac_table_safety [OF demo_shared_ok mac_run.start] by blast
  from mac_table_safety [OF demo_shared_ok mac_run.event [OF mac_run.start del w1(1)]] demo_shared_deleting [OF w1(1)] w1
  show "\<exists>w1. handle 0 demo_delete demo_shared = Some w1 \<and> mac_inv 0 w1 \<and> mlacp_mac_msg_queue_reinit 0 w1 = None" by blast
qed

text \<open>
  C17: when the session is lost, every learned address is treated as \<open>disconn_spec\<close> says: an address
  behind the peer link ages on the peer side and goes when neither side has it, every other
  address survives, now aged on the peer side.
\<close>

theorem session_lost_correct:
  assumes "mac_inv c w" "w_csm w c = Some csm"
  shows "\<exists>w'. mlacp_peer_disconn_fdb_handler c w = Some w' \<and> mac_inv c w' \<and> mac_only c w w'
    \<and> fdb c w' = (\<lambda>k. Option.bind (fdb c w k) (disconn_spec (csm_peer_itf_name csm)))"
  using peer_disconn_fdb_refines [OF assms] by (auto simp: safe_def refines_def table_step_def)

theorem session_lost_correct_witness:
  "\<exists>w'. mlacp_peer_disconn_fdb_handler 0 demo = Some w' \<and> fdb 0 demo (10, [2, 0, 0, 0, 0, 2]) \<noteq> None
    \<and> fdb 0 w' (10, [2, 0, 0, 0, 0, 2]) = None \<and> fdb 0 w' (10, [2, 0, 0, 0, 0, 1]) = fdb 0 demo (10, [2, 0, 0, 0, 0, 1])"
proof -
  have "fdb 0 demo (10, [2, 0, 0, 0, 0, 2]) = Some (learned (demo_mac 2 ''Ethernet0'' MAC_AGE_LOCAL False))"
    "fdb 0 demo (10, [2, 0, 0, 0, 0, 1]) = Some (learned (demo_mac 1 ''PortChannel1'' MAC_AGE_PEER True))"
    "csm_peer_itf_name demo_csm = ''Ethernet0''"
    by (simp_all add: fdb_def same_key_def demo_simps)
  then show ?thesis
    using session_lost_correct [OF demo_mac_inv demo_csm]
    by (auto simp: disconn_spec_def Let_def demo_mac_def)
qed

text \<open>
  C18: when an MLAG port changes its state, the addresses learned on it are treated as
  \<open>intf_down_spec\<close> and \<open>intf_up_spec\<close> say: on the way down they move to the peer link or go, on the
  way up they come back to the port; all other addresses are untouched.
\<close>

theorem port_state_correct:
  assumes "mac_inv c w" "env_ok c w" "w_csm w c = Some csm" "w_lif w l = Some lif"
  shows "\<exists>w'. update_l2_mac_state c l st w = Some w' \<and> mac_inv c w'
    \<and> fdb c w' = (\<lambda>k. Option.bind (fdb c w k)
        (if st = 0 then intf_down_spec (csm_peer_itf_name csm) (peer_if_up c (lif_name lif) w) (lif_name lif)
         else intf_up_spec (csm_peer_itf_name csm) (lif_name lif)))"
proof -
  have "fdb c (upd_lif l f w) = fdb c w" for f by (rule ext) (simp add: fdb_def)
  then show ?thesis
    using update_l2_mac_state_refines [OF assms, of st] by (auto simp: safe_def refines_def table_step_def)
qed

theorem port_state_correct_witness:
  "\<exists>w'. update_l2_mac_state 0 2 0 demo = Some w' \<and> mac_inv 0 w'
    \<and> map_option l_ifname (fdb 0 demo (10, [2, 0, 0, 0, 0, 1])) = Some ''PortChannel1''
    \<and> map_option l_ifname (fdb 0 w' (10, [2, 0, 0, 0, 0, 1])) = Some ''Ethernet0''"
proof -
  have 1: "fdb 0 demo (10, [2, 0, 0, 0, 0, 1]) = Some (learned (demo_mac 1 ''PortChannel1'' MAC_AGE_PEER True))"
    by (simp add: fdb_def same_key_def demo_simps)
  have 2: "w_lif demo 2 = Some (demo_lif ''PortChannel1'' IF_T_PORT_CHANNEL)" by (simp add: demo_def)
  have 3: "peer_if_up 0 ''PortChannel1'' demo" "csm_peer_itf_name demo_csm = ''Ethernet0''"
    by (simp_all add: peer_if_up_def peer_if_find_by_name_def demo_simps)
  show ?thesis
    using port_state_correct [OF demo_mac_inv demo_env demo_csm 2, of 0] 1 3
    by (auto simp: intf_down_spec_def demo_mac_def demo_lif_def zero_MACMsg_def)
qed

text \<open>
  C19: when the peer link goes down, the addresses behind it age on the local side, except those
  whose local deletion is pending, which keep their flags; the ones behind it that then have
  aged on both sides go; all other addresses are untouched.
\<close>

theorem peer_link_down_correct:
  assumes "mac_inv c w" "w_csm w c = Some csm"
  shows "\<exists>w'. mlacp_peerlink_down_handler c w = Some w' \<and> mac_inv c w' \<and> mac_only c w w'
    \<and> fdb c w' = (\<lambda>k. Option.bind (fdb c w k) (peerlink_down_spec (csm_peer_itf_name csm)))"
proof -
  obtain w1 where w1: "foreach (peerlink_down_entry c) (mac_rb c w) w = Some w1" "table_step c w w1"
    "fdb c w1 = (\<lambda>k. Option.bind (fdb c w k) (peerlink_down_spec (csm_peer_itf_name csm)))"
    using peerlink_down_refines [OF assms] by (auto simp: safe_def refines_def)
  show ?thesis
    using w1 assms(2) table_io [OF w1(2) io_cnt] fdb_io [OF io_cnt, of c]
    by (simp add: mlacp_peerlink_down_handler_def table_step_def)
qed

text \<open>
  Three addresses: behind the peer link one that has aged at the peer, one with no flag, and one
  with a pending deletion.
\<close>

definition demo_three :: "MACMsg \<Rightarrow> MACMsg \<Rightarrow> MACMsg \<Rightarrow> world" where
  "demo_three x y z = demo\<lparr>w_csm := [0 \<mapsto> upd_MLACP (ml_mac_rb_update (\<lambda>_. [1, 2, 3])) demo_csm], w_mac := [1 \<mapsto> x, 2 \<mapsto> y, 3 \<mapsto> z], w_fresh := 4\<rparr>"

lemma demo_three_inv:
  assumes "mac_vid x = 10" "mac_vid y = 10" "mac_vid z = 10"
    and "mac_addr x = [2, 0, 0, 0, 0, 1]" "mac_addr y = [2, 0, 0, 0, 0, 2]" "mac_addr z = [2, 0, 0, 0, 0, 3]"
    and "mac_in_msg_list x" "\<not> mac_in_msg_list y" "\<not> mac_in_msg_list z"
  shows "mac_inv 0 (demo_three x y z)"
    and "fdb 0 (demo_three x y z) (10, [2, 0, 0, 0, 0, 1]) = Some (learned x)"
    and "fdb 0 (demo_three x y z) (10, [2, 0, 0, 0, 0, 2]) = Some (learned y)"
    and "fdb 0 (demo_three x y z) (10, [2, 0, 0, 0, 0, 3]) = Some (learned z)"
  using assms by (auto simp: mac_inv_def demo_three_def demo_simps mac_tree.tree_def mac_key_ok_def MACMsg_compare_def fdb_def same_key_def)

definition demo_behind :: world where
  "demo_behind = demo_three (demo_mac 1 ''Ethernet0'' MAC_AGE_PEER True) (demo_mac 2 ''Ethernet0'' 0 False)
     ((demo_mac 3 ''Ethernet0'' 0 False)\<lparr>mac_pending_local_del := 1\<rparr>)"

theorem peer_link_down_correct_witness:
  "\<exists>w' y z. mlacp_peerlink_down_handler 0 demo_behind = Some w'
    \<and> fdb 0 w' (10, [2, 0, 0, 0, 0, 1]) = None
    \<and> fdb 0 w' (10, [2, 0, 0, 0, 0, 2]) = Some y \<and> l_age y = MAC_AGE_LOCAL
    \<and> fdb 0 w' (10, [2, 0, 0, 0, 0, 3]) = Some z \<and> l_age z = 0 \<and> l_pending z = 1"
proof -
  note inv = demo_three_inv [of "demo_mac 1 ''Ethernet0'' MAC_AGE_PEER True" "demo_mac 2 ''Ethernet0'' 0 False"
      "(demo_mac 3 ''Ethernet0'' 0 False)\<lparr>mac_pending_local_del := 1\<rparr>", folded demo_behind_def]
  have csm: "w_csm demo_behind 0 = Some (upd_MLACP (ml_mac_rb_update (\<lambda>_. [1, 2, 3])) demo_csm)"
    by (simp add: demo_behind_def demo_three_def)
  show ?thesis
    using peer_link_down_correct [OF inv(1) csm] inv(2-4)
    by (auto simp: peerlink_down_spec_def Let_def demo_mac_def demo_csm_def zero_MACMsg_def learned_def)
qed

text \<open>
  C20: when a port has been down for too long, its addresses whose local deletion is pending are
  removed, except static ones, which stay and lose the mark; all other addresses are untouched.
\<close>

theorem clear_pending_correct:
  assumes "mac_inv c w" "w_csm w c = Some csm" "w_lif w l = Some lif"
  shows "\<exists>w'. mlacp_local_lif_clear_pending_mac c l w = Some w' \<and> mac_inv c w' \<and> mac_only c w w'
    \<and> fdb c w' = (\<lambda>k. Option.bind (fdb c w k) (clear_pending_spec (lif_name lif)))"
  using clear_pending_refines [OF assms] by (auto simp: safe_def refines_def table_step_def)

text \<open>Addresses of the port: a dynamic and a static one with a pending deletion, and one without.\<close>

definition demo_pending :: world where
  "demo_pending = demo_three ((demo_mac 1 ''PortChannel1'' MAC_AGE_PEER True)\<lparr>mac_pending_local_del := 1\<rparr>)
     ((demo_mac 2 ''PortChannel1'' 0 False)\<lparr>mac_pending_local_del := 1, mac_fdb_type := MAC_TYPE_STATIC\<rparr>) (demo_mac 3 ''PortChannel1'' 0 False)"

theorem clear_pending_correct_witness:
  "\<exists>w' y z. mlacp_local_lif_clear_pending_mac 0 2 demo_pending = Some w'
    \<and> fdb 0 w' (10, [2, 0, 0, 0, 0, 1]) = None
    \<and> fdb 0 w' (10, [2, 0, 0, 0, 0, 2]) = Some y \<and> l_pending y = 0
    \<and> fdb 0 w' (10, [2, 0, 0, 0, 0, 3]) = Some z \<and> z = learned (demo_mac 3 ''PortChannel1'' 0 False)"
proof -
  note inv = demo_three_inv [of "(demo_mac 1 ''PortChannel1'' MAC_AGE_PEER True)\<lparr>mac_pending_local_del := 1\<rparr>"
      "(demo_mac 2 ''PortChannel1'' 0 False)\<lparr>mac_pending_local_del := 1, mac_fdb_type := MAC_TYPE_STATIC\<rparr>"
      "demo_mac 3 ''PortChannel1'' 0 False", folded demo_pending_def]
  have csm: "w_csm demo_pending 0 = Some (upd_MLACP (ml_mac_rb_update (\<lambda>_. [1, 2, 3])) demo_csm)"
    and lif: "w_lif demo_pending 2 = Some (demo_lif ''PortChannel1'' IF_T_PORT_CHANNEL)"
    by (simp_all add: demo_pending_def demo_three_def demo_def)
  show ?thesis
    using clear_pending_correct [OF inv(1) csm lif] inv(2-4)
    by (auto simp: clear_pending_spec_def pending_spec_def Let_def demo_lif_def demo_mac_def zero_MACMsg_def learned_def)
qed

section \<open>Talking to mclagsyncd\<close>

text \<open>
  C31: sending to mclagsyncd ends after at most one \<open>send\<close> per byte and \<open>SYNCD_SEND_RETRY_MAX\<close> retries;
  the result is the length of the message exactly when all of it was sent, and \<open>-1\<close> exactly when
  a strict prefix was.
\<close>

theorem syncd_send_all_or_prefix:
  assumes "sys_sync_fd (w_sys w) \<noteq> 0" "iccp_send_to_mclagsyncd t msg w = (r, w')"
  shows "io_step w w' \<and> (\<exists>evs. w_out w' = w_out w @ evs \<and> length evs \<le> length msg + (SYNCD_SEND_RETRY_MAX + 1)
    \<and> (r = int (length msg) \<and> delivered evs = msg
       \<or> r = - 1 \<and> (\<exists>rest. rest \<noteq> [] \<and> msg = delivered evs @ rest)))"
  using syncd_send_loop_spec [of t msg 0 0 w r w'] assms by (simp add: iccp_send_to_mclagsyncd_def)

theorem syncd_send_all_or_prefix_witness:
  "iccp_send_to_mclagsyncd 1 [7, 8, 9] (demo\<lparr>w_answers := [2, - EAGAIN, - 5]\<rparr>)
     = (- 1, snd (iccp_send_to_mclagsyncd 1 [7, 8, 9] (demo\<lparr>w_answers := [2, - EAGAIN, - 5]\<rparr>)))
   \<and> io_step (demo\<lparr>w_answers := [2, - EAGAIN, - 5]\<rparr>) (snd (iccp_send_to_mclagsyncd 1 [7, 8, 9] (demo\<lparr>w_answers := [2, - EAGAIN, - 5]\<rparr>)))"
proof -
  let ?w = "demo\<lparr>w_answers := [2, - EAGAIN, - 5]\<rparr>"
  have fd: "sys_sync_fd (w_sys ?w) \<noteq> 0" by (simp add: demo_simps)
  have "fst (iccp_send_to_mclagsyncd 1 [7, 8, 9] ?w) = - 1"
    by (simp add: iccp_send_to_mclagsyncd_def syncd_send_loop.simps sys_send_def answer_def emit_def demo_simps Let_def
        SYSTEM_SET_SYNCD_TX_DBG_COUNTER_def)
  then show ?thesis
    using syncd_send_all_or_prefix [OF fd surjective_pairing] by (metis prod.collapse)
qed

section \<open>VLAN membership\<close>

text \<open>
  C32: dropping the unused VLANs of a peer interface, done during the traversal of its tree with the
  removal of a node deferred to the next step, removes exactly the nodes marked as removed.
\<close>

theorem clean_unused_vlans:
  assumes "vlan_tree.tree (pif_vlan_tree pif)"
  shows "peer_if_clean_unused_vlan pif = pif\<lparr>pif_vlan_tree := filter (\<lambda>v. vlan_removed v \<noteq> 1) (pif_vlan_tree pif)\<rparr>"
  by (rule peer_if_clean_unused_vlan_filter [OF assms])

theorem clean_unused_vlans_witness:
  "map vlan_vid (pif_vlan_tree (peer_if_clean_unused_vlan (demo_pif\<lparr>pif_vlan_tree :=
     [\<lparr>vlan_vid = 10, vlan_removed = 1, vlan_itf = None\<rparr>, \<lparr>vlan_vid = 20, vlan_removed = 0, vlan_itf = None\<rparr>,
      \<lparr>vlan_vid = 30, vlan_removed = 1, vlan_itf = None\<rparr>]\<rparr>))) = [20]"
  by (subst clean_unused_vlans) (auto simp: vlan_tree.tree_def vlan_node_compare_def)

text \<open>
  C33: the VLAN part of the consistency check passes exactly when both ends of the port channel are
  members of the same VLANs.
\<close>

theorem vlan_consistency:
  assumes "local_if_find_by_name n w = Some (Some p)" "w_lif w p = Some l" "lif_csm l = Some c"
    "peer_if_find_by_name (Some c) n w = Some (Some q)" "w_pif w q = Some pif"
  shows "iccp_check_interface_vlan n w = Some 1 \<longleftrightarrow> vids (lif_vlan_tree l) = vids (pif_vlan_tree pif)"
  by (rule vlan_check_iff [OF assms])

theorem vlan_consistency_witness:
  "iccp_check_interface_vlan ''PortChannel1'' demo = Some 1"
proof -
  have "local_if_find_by_name ''PortChannel1'' demo = Some (Some 2)"
    "w_lif demo 2 = Some (demo_lif ''PortChannel1'' IF_T_PORT_CHANNEL)"
    "lif_csm (demo_lif ''PortChannel1'' IF_T_PORT_CHANNEL) = Some 0"
    "peer_if_find_by_name (Some 0) ''PortChannel1'' demo = Some (Some 1)" "w_pif demo 1 = Some demo_pif"
    by (simp_all add: local_if_find_by_name_def peer_if_find_by_name_def demo_simps)
  from vlan_consistency [OF this] show ?thesis by (simp add: demo_lif_def demo_pif_def)
qed

section \<open>Errors\<close>

text \<open>
  C34: handling a notification message reads outside it: the \<open>NAKTLV\<close> is looked for at
  \<open>sizeof (ICCHdr) * sizeof (ICCHdr)\<close> bytes instead of behind the header, so every message
  shorter than 264 bytes is read past its end.
\<close>

theorem notification_overread:
  assumes "ld16 0 msg = Some hdr" "LDPHdr_msg_type hdr = MSG_T_NOTIFICATION" "length msg < 264"
  shows "iccp_csm_correspond_from_msg csm msg = None"
  by (rule notification_reads_past_end [OF assms])

theorem notification_overread_witness:
  "iccp_csm_correspond_from_msg demo_csm (2 # 7 # replicate 30 0) = None"
  by (rule notification_overread [of _ MSG_T_NOTIFICATION])
    (simp_all add: ld16_def mk16_def LDPHdr_msg_type_def get_bits_def mask_eq_exp_minus_1)

end
